(* ===== verification/Prelude.thy ===== *)
theory Prelude
  imports Main
begin

section \<open>Prelude: strings, errors and shared automation\<close>

text \<open>
  The types and lemmas the component theories share.

  A Rust \<open>String\<close> is represented by its UTF-16 encoding, a list of code units, each a natural
  number. On valid strings the encoding is injective, and every test the modelled code makes on a
  string (equality, prefix, search of an ASCII pattern) gives the same answer on the encoding.
  The lexer indexes its source by UTF-16 units, so this is also the type of its buffer.
\<close>

type_synonym ustring = "nat list"

text \<open>ASCII literals of the source as unit lists, and a single ASCII character as a unit.\<close>

definition u :: "string \<Rightarrow> ustring" where
  "u s = map of_char s"

abbreviation uc :: "char \<Rightarrow> nat" where
  "uc c \<equiv> of_char c"

lemma u_simps [simp]: "u [] = []" "u (c # cs) = uc c # u cs"
  by (simp_all add: u_def)

lemma u_append [simp]: "u (s @ t) = u s @ u t"
  by (simp add: u_def)

lemma length_u [simp]: "length (u s) = length s"
  by (simp add: u_def)

lemma u_inject: "u s = u t \<longleftrightarrow> s = t"
  by (simp add: u_def inj_map_eq_map [OF inj_of_char])

text \<open>\<open>str::starts_with\<close>, \<open>str::ends_with\<close>, \<open>str::contains\<close> and \<open>str::find\<close> on unit lists.\<close>

fun starts_with :: "ustring \<Rightarrow> ustring \<Rightarrow> bool" where
  "starts_with _ [] = True"
| "starts_with [] (_ # _) = False"
| "starts_with (x # xs) (p # ps) = (x = p \<and> starts_with xs ps)"

definition ends_with :: "ustring \<Rightarrow> ustring \<Rightarrow> bool" where
  "ends_with s p = starts_with (rev s) (rev p)"

fun find_sub :: "ustring \<Rightarrow> ustring \<Rightarrow> nat option" where
  "find_sub [] p = (if p = [] then Some 0 else None)"
| "find_sub (x # xs) p =
     (if starts_with (x # xs) p then Some 0 else map_option Suc (find_sub xs p))"

definition contains_sub :: "ustring \<Rightarrow> ustring \<Rightarrow> bool" where
  "contains_sub s p = (find_sub s p \<noteq> None)"

lemma starts_with_iff: "starts_with s p \<longleftrightarrow> (\<exists>r. s = p @ r)"
  by (induction s p rule: starts_with.induct) auto

lemma ends_with_iff: "ends_with s p \<longleftrightarrow> (\<exists>r. s = r @ p)"
proof -
  have "ends_with s p \<longleftrightarrow> (\<exists>r. rev s = rev p @ r)"
    by (simp add: ends_with_def starts_with_iff)
  also have "\<dots> \<longleftrightarrow> (\<exists>r. s = r @ p)"
    by (metis rev_append rev_rev_ident)
  finally show ?thesis .
qed

lemma find_sub_Some: "find_sub s p = Some n \<Longrightarrow> \<exists>r. s = take n s @ p @ r"
proof (induction s arbitrary: n)
  case Nil
  then show ?case by (simp split: if_splits)
next
  case (Cons x xs)
  show ?case
  proof (cases "starts_with (x # xs) p")
    case True
    with Cons.prems show ?thesis by (auto simp: starts_with_iff)
  next
    case False
    with Cons.prems obtain m where "find_sub xs p = Some m" "n = Suc m" by auto
    with Cons.IH [of m] show ?thesis by auto
  qed
qed

lemma find_sub_prefix: "starts_with s p \<Longrightarrow> find_sub s p = Some 0"
  by (cases s) (auto elim: starts_with.elims)

lemma find_sub_append: "find_sub (a @ p @ b) p \<noteq> None"
proof (induction a)
  case Nil
  show ?case using find_sub_prefix [of "p @ b" p] by (auto simp: starts_with_iff)
next
  case (Cons x xs)
  then show ?case by auto
qed

lemma contains_sub_iff: "contains_sub s p \<longleftrightarrow> (\<exists>a b. s = a @ p @ b)"
  unfolding contains_sub_def using find_sub_Some find_sub_append by (metis not_Some_eq)

text \<open>The first position of a unit, \<open>str::find(char)\<close>.\<close>

fun find_unit :: "nat \<Rightarrow> ustring \<Rightarrow> nat option" where
  "find_unit c [] = None"
| "find_unit c (x # xs) = (if x = c then Some 0 else map_option Suc (find_unit c xs))"

lemma find_unit_Some:
  "find_unit c s = Some n \<Longrightarrow> n < length s \<and> s ! n = c \<and> c \<notin> set (take n s)"
  by (induction s arbitrary: n) (auto split: if_splits)

lemma find_unit_None: "find_unit c s = None \<longleftrightarrow> c \<notin> set s"
  by (induction s) auto

text \<open>Results: \<open>Inl\<close> carries the error, \<open>Inr\<close> the value, as in Rust's \<open>Result\<close>.\<close>

definition is_ok :: "'e + 'a \<Rightarrow> bool" where
  "is_ok r = (case r of Inl _ \<Rightarrow> False | Inr _ \<Rightarrow> True)"

definition ok_part :: "'e + 'a \<Rightarrow> 'a option" where
  "ok_part r = (case r of Inl _ \<Rightarrow> None | Inr x \<Rightarrow> Some x)"

lemma ok_part_simps [simp]: "ok_part (Inl e) = None" "ok_part (Inr x) = Some x"
  by (simp_all add: ok_part_def)

lemma is_ok_simps [simp]: "\<not> is_ok (Inl e)" "is_ok (Inr x)"
  by (simp_all add: is_ok_def)

lemma ok_part_eq_Some: "ok_part r = Some x \<longleftrightarrow> r = Inr x"
  by (cases r) auto

text \<open>\<open>r?\<close> followed by the rest, and the first \<open>Some\<close> of a loop that returns early.\<close>

definition and_then :: "'e + 'a \<Rightarrow> ('a \<Rightarrow> 'e + 'b) \<Rightarrow> 'e + 'b" where
  "and_then r f = (case r of Inl e \<Rightarrow> Inl e | Inr x \<Rightarrow> f x)"

lemma and_then_simps [simp]: "and_then (Inl e) f = Inl e" "and_then (Inr x) f = f x"
  by (simp_all add: and_then_def)

lemma and_then_cong [fundef_cong]:
  "r = r' \<Longrightarrow> (\<And>x. r' = Inr x \<Longrightarrow> f x = g x) \<Longrightarrow> and_then r f = and_then r' g"
  by (cases r') simp_all

lemma and_then_Inr: "and_then r f = Inr y \<longleftrightarrow> (\<exists>x. r = Inr x \<and> f x = Inr y)"
  by (cases r) auto

lemma and_then_Inl: "and_then r f = Inl e \<longleftrightarrow> r = Inl e \<or> (\<exists>x. r = Inr x \<and> f x = Inl e)"
  by (cases r) auto

definition map_ok :: "('a \<Rightarrow> 'b) \<Rightarrow> 'e + 'a \<Rightarrow> 'e + 'b" where
  "map_ok f r = (case r of Inl e \<Rightarrow> Inl e | Inr x \<Rightarrow> Inr (f x))"

lemma map_ok_simps [simp]: "map_ok f (Inl e) = Inl e" "map_ok f (Inr x) = Inr (f x)"
  by (simp_all add: map_ok_def)

lemma map_ok_Inr: "map_ok f r = Inr y \<longleftrightarrow> (\<exists>x. r = Inr x \<and> y = f x)"
  by (cases r) auto

fun first_some :: "('a \<Rightarrow> 'b option) \<Rightarrow> 'a list \<Rightarrow> 'b option" where
  "first_some f [] = None"
| "first_some f (x # xs) = (case f x of None \<Rightarrow> first_some f xs | Some y \<Rightarrow> Some y)"

lemma first_some_None: "first_some f xs = None \<longleftrightarrow> (\<forall>x \<in> set xs. f x = None)"
  by (induction xs) (auto split: option.splits)

lemma first_some_Some:
  "first_some f xs = Some y \<Longrightarrow> \<exists>x \<in> set xs. f x = Some y"
  by (induction xs) (auto split: option.splits)

text \<open>A loop over a list that threads a state and stops at the first error.\<close>

fun thread :: "('a \<Rightarrow> 's \<Rightarrow> 'e + 's) \<Rightarrow> 'a list \<Rightarrow> 's \<Rightarrow> 'e + 's" where
  "thread f [] s = Inr s"
| "thread f (x # xs) s = and_then (f x s) (thread f xs)"

lemma thread_cong [fundef_cong]:
  "xs = ys \<Longrightarrow> s = t \<Longrightarrow> (\<And>x s. x \<in> set ys \<Longrightarrow> f x s = g x s) \<Longrightarrow> thread f xs s = thread g ys t"
proof (induction xs arbitrary: ys s t)
  case (Cons x xs)
  have "thread f xs = thread g xs"
    by (rule HOL.ext, rule Cons.IH) (use Cons.prems in auto)
  then show ?case using Cons.prems by auto
qed simp

lemma first_some_cong [fundef_cong]:
  "xs = ys \<Longrightarrow> (\<And>x. x \<in> set ys \<Longrightarrow> f x = g x) \<Longrightarrow> first_some f xs = first_some g ys"
  by (induction xs arbitrary: ys) (auto split: option.split)

text \<open>A threaded loop whose body appends to a list is the concatenation of what the bodies append.\<close>

lemma thread_appends:
  assumes "\<And>x s. x \<in> set xs \<Longrightarrow>
      map_ok fst (f x s) = (case bad x of Some e \<Rightarrow> Inl e | None \<Rightarrow> Inr (fst s @ out x))"
  shows "map_ok fst (thread f xs s) =
      (case first_some bad xs of Some e \<Rightarrow> Inl e | None \<Rightarrow> Inr (fst s @ concat (map out xs)))"
  using assms
proof (induction xs arbitrary: s)
  case (Cons x xs)
  show ?case
  proof (cases "f x s")
    case (Inl e)
    with Cons.prems [of x s] show ?thesis by (auto split: option.splits)
  next
    case (Inr s')
    with Cons.prems [of x s] have "bad x = None" "fst s' = fst s @ out x"
      by (auto split: option.splits)
    with Inr Cons.IH [of s'] Cons.prems show ?thesis by (simp split: option.splits)
  qed
qed simp

text \<open>The decimal digits of a number, as \<open>format!\<close> prints it.\<close>

fun decimal :: "nat \<Rightarrow> ustring" where
  "decimal n = (if n < 10 then [48 + n] else decimal (n div 10) @ [48 + n mod 10])"

declare decimal.simps [simp del]

end
