(* ===== verification/Json.thy ===== *)
theory Json
  imports Prelude "HOL-Library.List_Lexorder"
begin

section \<open>JSON values\<close>

text \<open>
  The values the modelled code builds with \<open>serde_json\<close> and reads back. The workspace does not enable
  the crate's \<open>preserve_order\<close>, so a \<open>Map\<close> is a \<open>BTreeMap\<close>: its members are ordered by key.
  \<open>json_set\<close> is \<open>Map::insert\<close>, which replaces the member of an existing key and otherwise inserts
  at the sorted place; \<open>json_obj\<close> is the \<open>json!\<close> macro with the members in the order of the source.
  \<open>json_sorted\<close> says that the members are strictly ascending at every depth, as in every value the
  crate can hold. A struct that is serialised on its own keeps the order of its declaration and is a
  \<open>JObj\<close> literal (\<open>StoredBlock\<close>). The text form is the crate's: the definitions that store or read it take its printer
  and its parser as parameters.
\<close>

datatype json =
    JNull
  | JBool bool
  | JNum int
  | JStr ustring
  | JArr "json list"
  | JObj "(ustring \<times> json) list"

type_synonym json_object = "(ustring \<times> json) list"

subsection \<open>The order of strings\<close>

text \<open>
  Rust compares strings by code point. On the UTF-16 encoding that is the lexicographic order after
  moving the surrogates above the other units.
\<close>

definition unit_rank :: "nat \<Rightarrow> nat" where
  "unit_rank c = (if 0xE000 \<le> c then c - 0x800 else if 0xD800 \<le> c then c + 0x2000 else c)"

definition str_key :: "ustring \<Rightarrow> nat list" where
  "str_key s = map unit_rank s"

subsection \<open>Objects\<close>

fun json_set :: "json_object \<Rightarrow> ustring \<Rightarrow> json \<Rightarrow> json_object" where
  "json_set [] k v = [(k, v)]"
| "json_set ((k', v') # m) k v =
     (if k' = k then (k, v) # m
      else if str_key k < str_key k' then (k, v) # (k', v') # m
      else (k', v') # json_set m k v)"

definition json_obj :: "json_object \<Rightarrow> json" where
  "json_obj ms = JObj (fold (\<lambda>(k, v) m. json_set m k v) ms [])"

definition json_get :: "json_object \<Rightarrow> ustring \<Rightarrow> json option" where
  "json_get m k = map_of m k"

definition ascending :: "json_object \<Rightarrow> bool" where
  "ascending m = sorted_wrt (\<lambda>a b. str_key (fst a) < str_key (fst b)) m"

fun json_sorted :: "json \<Rightarrow> bool" where
  "json_sorted (JArr xs) = (\<forall>x \<in> set xs. json_sorted x)"
| "json_sorted (JObj m) = (ascending m \<and> (\<forall>(k, v) \<in> set m. json_sorted v))"
| "json_sorted _ = True"

lemma json_keys_set: "fst ` set (json_set m k v) = insert k (fst ` set m)"
  by (induction m k v rule: json_set.induct) auto

lemma json_get_Nil [simp]: "json_get [] k = None"
  by (simp add: json_get_def)

text \<open>
  What is read after an insertion holds for any list of members, because an insertion before a later
  member of the same key hides it.
\<close>

lemma json_get_set [simp]:
  "json_get (json_set m k v) k' = (if k' = k then Some v else json_get m k')"
  unfolding json_get_def by (induction m k v rule: json_set.induct) auto

text \<open>An insertion keeps the order, when different keys compare as different.\<close>

lemma ascending_Cons [simp]:
  "ascending (a # m) \<longleftrightarrow> (\<forall>b \<in> set m. str_key (fst a) < str_key (fst b)) \<and> ascending m"
  by (simp add: ascending_def)

lemma ascending_Nil [simp]: "ascending []"
  by (simp add: ascending_def)

lemma json_set_members: "set (json_set m k v) \<subseteq> insert (k, v) (set m)"
  by (induction m k v rule: json_set.induct) auto

lemma ascending_set:
  assumes "ascending m" "\<forall>a \<in> fst ` set m. str_key a = str_key k \<longrightarrow> a = k"
  shows "ascending (json_set m k v)"
  using assms
proof (induction m k v rule: json_set.induct)
  case (2 k' v' m k v)
  have "str_key k' < str_key (fst b)" if "b \<in> set (json_set m k v)" "str_key k' < str_key k" for b
    using that 2(2) json_set_members [of m k v] by auto
  with 2 show ?case by (auto dest: order.strict_trans simp: not_less_iff_gr_or_eq)
qed simp

text \<open>A key below the surrogates, as every key the code writes, is the only one of its rank.\<close>

lemma str_key_eq_low: "str_key a = str_key k \<Longrightarrow> list_all (\<lambda>c. c < 0xD800) k \<Longrightarrow> a = k"
proof (induction k arbitrary: a)
  case (Cons c k)
  then obtain b bs where a: "a = b # bs" by (cases a) (auto simp: str_key_def)
  with Cons.prems have "b = c" by (auto simp: str_key_def unit_rank_def split: if_splits)
  moreover have "bs = k" by (rule Cons.IH) (use Cons.prems a in \<open>auto simp: str_key_def\<close>)
  ultimately show ?case using a by simp
qed (simp add: str_key_def)

lemma json_sorted_set:
  assumes "json_sorted (JObj m)" "json_sorted v" "list_all (\<lambda>c. c < 0xD800) k"
  shows "json_sorted (JObj (json_set m k v))"
  using assms ascending_set [of m k v] json_set_members [of m k v] by (auto dest: str_key_eq_low)

lemma json_sorted_obj:
  assumes "\<And>k v. (k, v) \<in> set ms \<Longrightarrow> json_sorted v \<and> list_all (\<lambda>c. c < 0xD800) k"
  shows "json_sorted (json_obj ms)"
proof -
  have step: "json_sorted (JObj m) \<Longrightarrow> json_sorted (JObj (fold (\<lambda>(k, v) m. json_set m k v) ms m))" for m
    using assms
  proof (induction ms arbitrary: m)
    case (Cons a ms)
    obtain k v where "a = (k, v)" by (cases a)
    with Cons show ?case by (auto simp del: json_sorted.simps intro: json_sorted_set)
  qed simp
  show ?thesis unfolding json_obj_def by (rule step) simp
qed

end
