(* ===== verification/Utf16.thy ===== *)
theory Utf16
  imports Prelude
begin

section \<open>UTF-16 units and UTF-8 lengths\<close>

text \<open>
  What the lexer relies on of Rust's \<open>str::encode_utf16\<close>, \<open>String::from_utf16_lossy\<close> and of the
  UTF-8 length of a string, as definitions on code points. \<open>valid_cp\<close> is the set of values of
  Rust's \<open>char\<close>: code points below \<open>0x110000\<close> that are not surrogates.
\<close>

definition valid_cp :: "nat \<Rightarrow> bool" where
  "valid_cp c \<longleftrightarrow> c < 0xD800 \<or> (0xE000 \<le> c \<and> c < 0x110000)"

definition is_high :: "nat \<Rightarrow> bool" where
  "is_high x \<longleftrightarrow> 0xD800 \<le> x \<and> x \<le> 0xDBFF"

definition is_low :: "nat \<Rightarrow> bool" where
  "is_low x \<longleftrightarrow> 0xDC00 \<le> x \<and> x \<le> 0xDFFF"

definition encode_cp :: "nat \<Rightarrow> nat list" where
  "encode_cp c =
     (if c < 0x10000 then [c]
      else [0xD800 + (c - 0x10000) div 0x400, 0xDC00 + (c - 0x10000) mod 0x400])"

definition encode_utf16 :: "nat list \<Rightarrow> ustring" where
  "encode_utf16 cs = concat (map encode_cp cs)"

definition utf8_len_cp :: "nat \<Rightarrow> nat" where
  "utf8_len_cp c = (if c < 0x80 then 1 else if c < 0x800 then 2 else if c < 0x10000 then 3 else 4)"

definition utf8_len :: "nat list \<Rightarrow> nat" where
  "utf8_len cs = sum_list (map utf8_len_cp cs)"

text \<open>\<open>String::from_utf16_lossy\<close>: an unpaired surrogate becomes \<open>U+FFFD\<close>.\<close>

fun from_utf16_lossy :: "nat list \<Rightarrow> ustring" where
  "from_utf16_lossy [] = []"
| "from_utf16_lossy [x] = (if is_high x \<or> is_low x then [0xFFFD] else [x])"
| "from_utf16_lossy (x # y # xs) =
     (if is_high x then
        (if is_low y then x # y # from_utf16_lossy xs else 0xFFFD # from_utf16_lossy (y # xs))
      else if is_low x then 0xFFFD # from_utf16_lossy (y # xs)
      else x # from_utf16_lossy (y # xs))"

lemma encode_utf16_Nil [simp]: "encode_utf16 [] = []"
  by (simp add: encode_utf16_def)

lemma encode_utf16_Cons [simp]: "encode_utf16 (c # cs) = encode_cp c @ encode_utf16 cs"
  by (simp add: encode_utf16_def)

lemma encode_utf16_append [simp]: "encode_utf16 (cs @ ds) = encode_utf16 cs @ encode_utf16 ds"
  by (simp add: encode_utf16_def)

lemma utf8_len_simps [simp]:
  "utf8_len [] = 0" "utf8_len (c # cs) = utf8_len_cp c + utf8_len cs"
  by (simp_all add: utf8_len_def)

lemma utf8_len_append [simp]: "utf8_len (cs @ ds) = utf8_len cs + utf8_len ds"
  by (simp add: utf8_len_def)

lemma encode_cp_not_Nil [simp]: "encode_cp c \<noteq> []"
  by (simp add: encode_cp_def)

lemma encode_cp_pos: "0 < length (encode_cp c)"
  by (simp add: encode_cp_def)

lemma encode_cp_BMP: "c < 0x10000 \<Longrightarrow> encode_cp c = [c]"
  by (simp add: encode_cp_def)

lemma encode_cp_surrogates:
  assumes "valid_cp c" "\<not> c < 0x10000"
  obtains h l where "encode_cp c = [h, l]" "is_high h" "is_low l"
proof
  show "encode_cp c = [0xD800 + (c - 0x10000) div 0x400, 0xDC00 + (c - 0x10000) mod 0x400]"
    using assms by (simp add: encode_cp_def)
  have "(c - 0x10000) div 0x400 \<le> 0x3FF"
    using assms by (auto simp: valid_cp_def)
  then show "is_high (0xD800 + (c - 0x10000) div 0x400)"
    by (simp add: is_high_def)
  have "(c - 0x10000) mod 0x400 < 0x400"
    by simp
  then show "is_low (0xDC00 + (c - 0x10000) mod 0x400)"
    unfolding is_low_def by linarith
qed

lemma from_utf16_lossy_BMP:
  "\<not> is_high x \<Longrightarrow> \<not> is_low x \<Longrightarrow> from_utf16_lossy (x # xs) = x # from_utf16_lossy xs"
  by (cases xs) auto

text \<open>Decoding what was encoded from valid code points loses nothing.\<close>

lemma from_utf16_lossy_encode:
  "list_all valid_cp cs \<Longrightarrow> from_utf16_lossy (encode_utf16 cs) = encode_utf16 cs"
proof (induction cs)
  case Nil
  then show ?case by simp
next
  case (Cons c cs)
  show ?case
  proof (cases "c < 0x10000")
    case True
    with Cons.prems have "\<not> is_high c" "\<not> is_low c"
      by (auto simp: valid_cp_def is_high_def is_low_def)
    with True Cons show ?thesis
      by (simp add: encode_cp_BMP from_utf16_lossy_BMP)
  next
    case False
    with Cons.prems obtain h l where "encode_cp c = [h, l]" "is_high h" "is_low l"
      using encode_cp_surrogates by (metis list.pred_inject(2))
    with Cons show ?thesis by simp
  qed
qed

lemma from_utf16_lossy_ascii:
  "\<forall>x \<in> set xs. x < 0x80 \<Longrightarrow> from_utf16_lossy xs = xs"
proof (induction xs)
  case Nil
  then show ?case by simp
next
  case (Cons x xs)
  then have "\<not> is_high x" "\<not> is_low x"
    by (auto simp: is_high_def is_low_def)
  with Cons show ?case by (simp add: from_utf16_lossy_BMP)
qed

end
