(* ===== verification/Db_Base.thy ===== *)
theory Db_Base
  imports Json Utf16
begin

section \<open>What the repositories share\<close>

text \<open>
  The byte length of Rust strings, the error type of \<open>crates/zk-db/src/error.rs\<close>, and
  the record \<open>crates\<close> for the third-party crates: the printer and the parser of \<open>serde_json\<close> and
  SHA-256 of the \<open>sha2\<close> crate.
\<close>

record crates =
  to_text :: "json \<Rightarrow> ustring"
  from_text :: "ustring \<Rightarrow> json option"
  sha256_hex :: "ustring \<Rightarrow> ustring"

text \<open>The errors the modelled operations return; the payload of \<open>Sqlite\<close> is the message.\<close>

datatype db_error =
    Conflict ustring
  | Validation ustring
  | Sqlite ustring
  | JsonError
  | SessionNotFound ustring
  | Invalid ustring

text \<open>The UTF-8 length of a string given by its UTF-16 units: a surrogate pair takes four bytes.\<close>

definition unit_bytes :: "nat \<Rightarrow> nat" where
  "unit_bytes c = (if c < 0x80 then 1 else if c < 0x800 then 2 else if is_high c \<or> is_low c then 2 else 3)"

definition byte_length :: "ustring \<Rightarrow> nat" where
  "byte_length s = sum_list (map unit_bytes s)"

text \<open>The characters of a string, each of one unit or of a surrogate pair.\<close>

fun chars :: "ustring \<Rightarrow> ustring list" where
  "chars [] = []"
| "chars [c] = [[c]]"
| "chars (c # d # cs) =
     (if is_high c \<and> is_low d then [c, d] # chars cs else [c] # chars (d # cs))"

lemma concat_chars [simp]: "concat (chars s) = s"
  by (induction s rule: chars.induct) auto

lemma chars_nonempty: "c \<in> set (chars s) \<Longrightarrow> c \<noteq> []"
  by (induction s rule: chars.induct) (auto split: if_splits)

lemma byte_length_simps [simp]:
  "byte_length [] = 0" "byte_length (c # cs) = unit_bytes c + byte_length cs"
  "byte_length (s @ t) = byte_length s + byte_length t"
  by (simp_all add: byte_length_def)

lemma unit_bytes_pos: "0 < unit_bytes c"
  by (simp add: unit_bytes_def)

lemma byte_length_pos: "s \<noteq> [] \<Longrightarrow> 0 < byte_length s"
  using unit_bytes_pos by (cases s) auto

lemma unit_rank_inj: "unit_rank a = unit_rank b \<Longrightarrow> a < 0x10000 \<Longrightarrow> b < 0x10000 \<Longrightarrow> a = b"
  by (auto simp: unit_rank_def split: if_splits)

lemma str_key_inj:
  "list_all (\<lambda>c. c < 0x10000) s \<Longrightarrow> list_all (\<lambda>c. c < 0x10000) t \<Longrightarrow> str_key s = str_key t \<Longrightarrow> s = t"
proof (induction s arbitrary: t)
  case (Cons a s)
  then show ?case by (cases t) (auto simp: str_key_def dest: unit_rank_inj)
qed (simp add: str_key_def)

end
