(* ===== verification/Authz_Model.thy ===== *)
theory Authz_Model
  imports Db_Base
begin

section \<open>Authorization facts\<close>

text \<open>
  \<open>crates/zk-authz/src/model.rs\<close>, \<open>canonicalizer.rs\<close>, \<open>diagnostic.rs\<close> and the context of
  \<open>tool_facts.rs\<close>. The macro \<open>java_enum!\<close> gives every enumeration its text and the search of the
  variant with a given text; \<open>parse_variant\<close> is that search over the variants in declaration order.
\<close>

definition parse_variant :: "('a \<Rightarrow> ustring) \<Rightarrow> 'a list \<Rightarrow> ustring \<Rightarrow> 'a option" where
  "parse_variant name variants text = List.find (\<lambda>v. name v = text) variants"

lemma parse_variant_name:
  assumes "v \<in> set variants" "inj_on name (set variants)"
  shows "parse_variant name variants (name v) = Some v"
  using assms unfolding parse_variant_def by (induction variants) (auto simp: inj_on_def)

lemma parse_variant_Some: "parse_variant name variants text = Some v \<Longrightarrow> name v = text"
  by (auto simp: parse_variant_def find_Some_iff)

datatype risk_class = SafeRisk | Guarded | High

definition risk_as_str :: "risk_class \<Rightarrow> ustring" where
  "risk_as_str r = (case r of SafeRisk \<Rightarrow> u ''SAFE'' | Guarded \<Rightarrow> u ''GUARDED'' | High \<Rightarrow> u ''HIGH'')"

definition risk_parse :: "ustring \<Rightarrow> risk_class option" where
  "risk_parse = parse_variant risk_as_str [SafeRisk, Guarded, High]"

definition rank :: "risk_class \<Rightarrow> nat" where
  "rank r = (case r of SafeRisk \<Rightarrow> 0 | Guarded \<Rightarrow> 1 | High \<Rightarrow> 2)"

datatype grant_kind = ExactGuarded | ToolGuarded | ReadCapability | EditCapability

definition kind_as_str :: "grant_kind \<Rightarrow> ustring" where
  "kind_as_str k = (case k of
     ExactGuarded \<Rightarrow> u ''EXACT_GUARDED'' | ToolGuarded \<Rightarrow> u ''TOOL_GUARDED''
   | ReadCapability \<Rightarrow> u ''READ_CAPABILITY'' | EditCapability \<Rightarrow> u ''EDIT_CAPABILITY'')"

definition kind_parse :: "ustring \<Rightarrow> grant_kind option" where
  "kind_parse = parse_variant kind_as_str [ExactGuarded, ToolGuarded, ReadCapability, EditCapability]"

datatype effect_class =
  SafeInternal | ReadResource | WriteResource | Process | Network | ControlPlane | UnknownEffect

definition effect_as_str :: "effect_class \<Rightarrow> ustring" where
  "effect_as_str e = (case e of
     SafeInternal \<Rightarrow> u ''SAFE_INTERNAL'' | ReadResource \<Rightarrow> u ''READ_RESOURCE''
   | WriteResource \<Rightarrow> u ''WRITE_RESOURCE'' | Process \<Rightarrow> u ''PROCESS'' | Network \<Rightarrow> u ''NETWORK''
   | ControlPlane \<Rightarrow> u ''CONTROL_PLANE'' | UnknownEffect \<Rightarrow> u ''UNKNOWN'')"

definition effect_parse :: "ustring \<Rightarrow> effect_class option" where
  "effect_parse = parse_variant effect_as_str
     [SafeInternal, ReadResource, WriteResource, Process, Network, ControlPlane, UnknownEffect]"

datatype delegation_policy = DirectOnly | RootAndDescendants

definition delegation_as_str :: "delegation_policy \<Rightarrow> ustring" where
  "delegation_as_str d = (case d of
     DirectOnly \<Rightarrow> u ''DIRECT_ONLY'' | RootAndDescendants \<Rightarrow> u ''ROOT_AND_DESCENDANTS'')"

definition delegation_parse :: "ustring \<Rightarrow> delegation_policy option" where
  "delegation_parse = parse_variant delegation_as_str [DirectOnly, RootAndDescendants]"

datatype typed_file_operation =
  ReadFile | ListDirectory | CreateFile | PatchFile | ReplaceFile | DeleteFile

definition file_op_as_str :: "typed_file_operation \<Rightarrow> ustring" where
  "file_op_as_str f = (case f of
     ReadFile \<Rightarrow> u ''READ_FILE'' | ListDirectory \<Rightarrow> u ''LIST_DIRECTORY''
   | CreateFile \<Rightarrow> u ''CREATE_FILE'' | PatchFile \<Rightarrow> u ''PATCH_FILE''
   | ReplaceFile \<Rightarrow> u ''REPLACE_FILE'' | DeleteFile \<Rightarrow> u ''DELETE_FILE'')"

definition file_op_parse :: "ustring \<Rightarrow> typed_file_operation option" where
  "file_op_parse = parse_variant file_op_as_str
     [ReadFile, ListDirectory, CreateFile, PatchFile, ReplaceFile, DeleteFile]"

datatype permission_scope = OnceScope | RunScope | SessionScope | WorkspaceScope

definition scope_as_str :: "permission_scope \<Rightarrow> ustring" where
  "scope_as_str s = (case s of
     OnceScope \<Rightarrow> u ''ONCE'' | RunScope \<Rightarrow> u ''RUN''
   | SessionScope \<Rightarrow> u ''SESSION'' | WorkspaceScope \<Rightarrow> u ''WORKSPACE'')"

definition scope_parse :: "ustring \<Rightarrow> permission_scope option" where
  "scope_parse = parse_variant scope_as_str [OnceScope, RunScope, SessionScope, WorkspaceScope]"

text \<open>\<open>to_ascii_lowercase\<close>.\<close>

definition ascii_lower :: "ustring \<Rightarrow> ustring" where
  "ascii_lower s = map (\<lambda>c. if 65 \<le> c \<and> c \<le> 90 then c + 32 else c) s"

definition scope_lowercase :: "permission_scope \<Rightarrow> ustring" where
  "scope_lowercase s = ascii_lower (scope_as_str s)"

datatype permission_mode = DefaultMode | PlanMode | AcceptEdits | DontAsk | AutoApprove

definition mode_as_str :: "permission_mode \<Rightarrow> ustring" where
  "mode_as_str m = (case m of
     DefaultMode \<Rightarrow> u ''DEFAULT'' | PlanMode \<Rightarrow> u ''PLAN'' | AcceptEdits \<Rightarrow> u ''ACCEPT_EDITS''
   | DontAsk \<Rightarrow> u ''DONT_ASK'' | AutoApprove \<Rightarrow> u ''AUTO_APPROVE'')"

definition mode_parse :: "ustring \<Rightarrow> permission_mode option" where
  "mode_parse = parse_variant mode_as_str [DefaultMode, PlanMode, AcceptEdits, DontAsk, AutoApprove]"

datatype diagnostic_outcome = AllowOutcome | AskOutcome | DenyOutcome

definition outcome_as_str :: "diagnostic_outcome \<Rightarrow> ustring" where
  "outcome_as_str d = (case d of
     AllowOutcome \<Rightarrow> u ''ALLOW'' | AskOutcome \<Rightarrow> u ''ASK'' | DenyOutcome \<Rightarrow> u ''DENY'')"

datatype evaluation_stage = InitialStage | InteractionStage | FinalRecheck

definition stage_as_str :: "evaluation_stage \<Rightarrow> ustring" where
  "stage_as_str s = (case s of
     InitialStage \<Rightarrow> u ''INITIAL'' | InteractionStage \<Rightarrow> u ''INTERACTION''
   | FinalRecheck \<Rightarrow> u ''FINAL_RECHECK'')"

datatype diagnostic_source = InvariantSource | PolicySource | GrantSource | UserOnce | ModeSource

definition source_as_str :: "diagnostic_source \<Rightarrow> ustring" where
  "source_as_str s = (case s of
     InvariantSource \<Rightarrow> u ''INVARIANT'' | PolicySource \<Rightarrow> u ''POLICY'' | GrantSource \<Rightarrow> u ''GRANT''
   | UserOnce \<Rightarrow> u ''USER_ONCE'' | ModeSource \<Rightarrow> u ''MODE'')"

subsection \<open>Descriptors\<close>

record resource_ref =
  res_kind :: ustring
  res_value :: ustring
  outside_workspace :: bool

record operation_descriptor =
  authorization_schema_version :: int
  tool_name :: ustring
  op_action :: ustring
  input_hash :: ustring
  analyzer_id :: ustring
  effects :: "effect_class list"
  resources :: "resource_ref list"
  inherited_environment_names :: "ustring list"
  endpoints :: "ustring list"
  risk :: risk_class
  operation_hash :: ustring
  redacted_summary :: ustring

record authorization_subject =
  root_session_id :: ustring
  root_run_id :: ustring
  current_run_id :: ustring
  workspace_key :: ustring
  authorization_root :: ustring

record prepared_operation =
  prepared_subject :: authorization_subject
  prepared_descriptor :: operation_descriptor
  prepared_attempt_id :: ustring

record authorized_operation =
  auth_subject :: authorization_subject
  descriptor :: operation_descriptor
  execution_input :: json
  auth_source :: diagnostic_source
  reason_code :: ustring
  auth_grant_id :: "ustring option"
  auth_grant_scope :: "permission_scope option"
  interaction_id :: "ustring option"
  execution_attempt_id :: ustring

record authz_error =
  err_code :: ustring
  err_message :: ustring

abbreviation authz_err :: "ustring \<Rightarrow> ustring \<Rightarrow> authz_error" where
  "authz_err c m \<equiv> \<lparr>err_code = c, err_message = m\<rparr>"

record tool_use_context =
  ctx_run_id :: "ustring option"
  tool_use_id :: "ustring option"
  ctx_root_session_id :: "ustring option"
  ctx_session_id :: "ustring option"
  working_directory :: "ustring option"

definition tool_use_id_or :: "tool_use_context \<Rightarrow> ustring \<Rightarrow> ustring" where
  "tool_use_id_or ctx name = (case tool_use_id ctx of Some i \<Rightarrow> i | None \<Rightarrow> name)"

subsection \<open>Canonical order\<close>

text \<open>The loop that keeps the first occurrence of every element.\<close>

definition dedup :: "'a list \<Rightarrow> 'a list" where
  "dedup xs = fold (\<lambda>x out. if x \<in> set out then out else out @ [x]) xs []"

definition canonical_effects :: "effect_class list \<Rightarrow> effect_class list" where
  "canonical_effects xs = sort_key (\<lambda>e. str_key (effect_as_str e)) (dedup xs)"

text \<open>The triple order: kind, then value, then the flag with false first.\<close>

definition canonical_resources :: "resource_ref list \<Rightarrow> resource_ref list" where
  "canonical_resources xs =
     sort_key (\<lambda>r. str_key (res_kind r)) (sort_key (\<lambda>r. str_key (res_value r))
       (sort_key outside_workspace (dedup xs)))"

definition canonical_strings :: "ustring list \<Rightarrow> ustring list" where
  "canonical_strings xs = sort_key str_key (dedup xs)"

subsection \<open>Diagnostics\<close>

definition opt_field :: "ustring \<Rightarrow> ustring option \<Rightarrow> json_object \<Rightarrow> json_object" where
  "opt_field k v m = (case v of Some x \<Rightarrow> json_set m k (JStr x) | None \<Rightarrow> m)"

definition set_fields :: "(string \<times> ustring) list \<Rightarrow> json_object" where
  "set_fields xs = fold (\<lambda>(k, v) m. json_set m (u k) (JStr v)) xs []"

definition payload ::
  "authorization_subject \<Rightarrow> operation_descriptor \<Rightarrow> tool_use_context \<Rightarrow> ustring \<Rightarrow> diagnostic_outcome \<Rightarrow>
   evaluation_stage \<Rightarrow> diagnostic_source \<Rightarrow> ustring \<Rightarrow> ustring option \<Rightarrow> permission_scope option \<Rightarrow>
   ustring option \<Rightarrow> json" where
  "payload s d ctx attempt outcome stage src reason grant scope interaction =
     JObj (opt_field (u ''interactionId'') interaction
          (opt_field (u ''grantScope'') (map_option scope_as_str scope)
          (opt_field (u ''grantId'') grant (set_fields [
       (''outcome'', outcome_as_str outcome),
       (''evaluationStage'', stage_as_str stage),
       (''authorizationSource'', source_as_str src),
       (''reasonCode'', reason),
       (''rootRunId'', root_run_id s),
       (''currentRunId'', current_run_id s),
       (''toolUseId'', case tool_use_id ctx of Some i \<Rightarrow> i | None \<Rightarrow> []),
       (''executionAttemptId'', attempt),
       (''toolName'', tool_name d),
       (''analyzerId'', analyzer_id d),
       (''risk'', risk_as_str (risk d)),
       (''inputHash'', input_hash d),
       (''operationHash'', operation_hash d),
       (''redactedSummary'', redacted_summary d)]))))"

definition analysis_failure ::
  "authorization_subject \<Rightarrow> ustring \<Rightarrow> ustring \<Rightarrow> tool_use_context \<Rightarrow> ustring \<Rightarrow> ustring \<Rightarrow> json" where
  "analysis_failure s name hash ctx attempt reason = JObj (set_fields [
     (''outcome'', outcome_as_str DenyOutcome),
     (''evaluationStage'', stage_as_str InitialStage),
     (''authorizationSource'', source_as_str InvariantSource),
     (''reasonCode'', reason),
     (''rootRunId'', root_run_id s),
     (''currentRunId'', current_run_id s),
     (''toolUseId'', case tool_use_id ctx of Some i \<Rightarrow> i | None \<Rightarrow> []),
     (''executionAttemptId'', attempt),
     (''toolName'', name),
     (''inputHash'', hash)])"

text \<open>An event of the run log, as \<open>RunEventSink\<close> receives it.\<close>

record run_event =
  event_run :: ustring
  event_type :: ustring
  event_tool_use :: "ustring option"
  event_payload :: json

subsection \<open>Properties\<close>

text \<open>The derived order of \<open>RiskClass\<close> is its declaration order, which \<open>rank\<close> numbers.\<close>

instantiation risk_class :: linorder
begin

definition less_eq_risk_class :: "risk_class \<Rightarrow> risk_class \<Rightarrow> bool" where
  "less_eq_risk_class a b = (rank a \<le> rank b)"

definition less_risk_class :: "risk_class \<Rightarrow> risk_class \<Rightarrow> bool" where
  "less_risk_class a b = (rank a < rank b)"

instance
  by intro_classes
    (auto simp: less_eq_risk_class_def less_risk_class_def rank_def split: risk_class.splits)

end

lemma risk_not_high: "r \<noteq> High \<longleftrightarrow> r \<le> Guarded"
  by (cases r) (auto simp: less_eq_risk_class_def rank_def)

lemma file_op_parse_as_str [simp]: "file_op_parse (file_op_as_str f) = Some f"
  by (cases f) (simp_all add: file_op_parse_def parse_variant_def file_op_as_str_def)

lemma kind_parse_as_str [simp]: "kind_parse (kind_as_str k) = Some k"
  by (cases k) (simp_all add: kind_parse_def parse_variant_def kind_as_str_def)

lemma scope_parse_as_str [simp]: "scope_parse (scope_as_str s) = Some s"
  by (cases s) (simp_all add: scope_parse_def parse_variant_def scope_as_str_def)

lemma file_op_parse_Some: "file_op_parse t = Some f \<Longrightarrow> t = file_op_as_str f"
  by (auto simp: file_op_parse_def dest: parse_variant_Some)

lemma scope_as_str_inj: "scope_as_str s = scope_as_str t \<longleftrightarrow> s = t"
  by (metis scope_parse_as_str option.inject)

lemma kind_as_str_inj: "kind_as_str s = kind_as_str t \<longleftrightarrow> s = t"
  by (metis kind_parse_as_str option.inject)

lemma delegation_as_str_inj: "delegation_as_str s = delegation_as_str t \<longleftrightarrow> s = t"
  by (cases s; cases t) (simp_all add: delegation_as_str_def)

lemma dedup_loop:
  "distinct out \<Longrightarrow>
   set (fold (\<lambda>x out. if x \<in> set out then out else out @ [x]) xs out) = set out \<union> set xs \<and>
   distinct (fold (\<lambda>x out. if x \<in> set out then out else out @ [x]) xs out)"
  by (induction xs arbitrary: out) auto

lemma set_dedup [simp]: "set (dedup xs) = set xs"
  using dedup_loop [of "[]" xs] by (simp add: dedup_def)

lemma distinct_dedup [simp]: "distinct (dedup xs)"
  using dedup_loop [of "[]" xs] by (simp add: dedup_def)

end
