(* ===== verification/Java_Str.thy ===== *)
theory Java_Str
  imports Prelude
begin

section \<open>Strings with the semantics of Java\<close>

text \<open>
  \<open>crates/zk-tools/src/bash/javastr.rs\<close>. The regular expressions are those of the \<open>regex\<close> crate; the
  development takes its \<open>Regex::is_match\<close> as the parameter \<open>rx\<close>, applied to the pattern as it is
  written in the source. \<open>raw\<close> spells a pattern: it reads a percent sign, which no pattern contains,
  as the backslash.
\<close>

type_synonym regex_engine = "ustring \<Rightarrow> ustring \<Rightarrow> bool"

definition raw :: "string \<Rightarrow> ustring" where
  "raw p = map (\<lambda>c. if c = 37 then 92 else c) (u p)"

definition is_java_space :: "nat \<Rightarrow> bool" where
  "is_java_space c = (c \<in> {32, 9, 10, 11, 12, 13})"

definition is_java_whitespace :: "nat \<Rightarrow> bool" where
  "is_java_whitespace c =
     ((9 \<le> c \<and> c \<le> 13) \<or> (0x1C \<le> c \<and> c \<le> 0x1F) \<or> c = 0x20 \<or> c = 0x1680 \<or>
      (0x2000 \<le> c \<and> c \<le> 0x2006) \<or> (0x2008 \<le> c \<and> c \<le> 0x200A) \<or> c = 0x2028 \<or> c = 0x2029 \<or>
      c = 0x205F \<or> c = 0x3000)"

text \<open>\<open>str::trim_matches\<close>.\<close>

definition trim_matches :: "(nat \<Rightarrow> bool) \<Rightarrow> ustring \<Rightarrow> ustring" where
  "trim_matches p s = rev (dropWhile p (rev (dropWhile p s)))"

definition java_trim :: "ustring \<Rightarrow> ustring" where
  "java_trim s = trim_matches (\<lambda>c. c \<le> 0x20) s"

definition java_is_blank :: "ustring \<Rightarrow> bool" where
  "java_is_blank s = list_all is_java_whitespace s"

text \<open>
  The splitting loop. \<open>cur\<close> is the piece since the last separator, \<open>in_sep\<close> whether the loop stands
  inside a run of separators.
\<close>

fun split_ws_loop :: "ustring \<Rightarrow> bool \<Rightarrow> ustring \<Rightarrow> ustring list" where
  "split_ws_loop cur in_sep [] = [cur]"
| "split_ws_loop cur in_sep (c # cs) =
     (if is_java_space c then
        (if in_sep then split_ws_loop cur True cs else cur # split_ws_loop [] True cs)
      else split_ws_loop (cur @ [c]) False cs)"

fun drop_trailing_empty :: "ustring list \<Rightarrow> ustring list" where
  "drop_trailing_empty xs = rev (dropWhile (\<lambda>t. t = []) (rev xs))"

definition java_split_ws :: "ustring \<Rightarrow> ustring list" where
  "java_split_ws s =
     (if \<not> list_ex is_java_space s then [s] else drop_trailing_empty (split_ws_loop [] False s))"

text \<open>\<open>str::trim\<close> and the \<open>White_Space\<close> property of Rust's \<open>char::is_whitespace\<close>.\<close>

definition is_rust_whitespace :: "nat \<Rightarrow> bool" where
  "is_rust_whitespace c =
     ((9 \<le> c \<and> c \<le> 13) \<or> c = 0x20 \<or> c = 0x85 \<or> c = 0xA0 \<or> c = 0x1680 \<or>
      (0x2000 \<le> c \<and> c \<le> 0x200A) \<or> c = 0x2028 \<or> c = 0x2029 \<or> c = 0x202F \<or> c = 0x205F \<or>
      c = 0x3000)"

definition rust_trim :: "ustring \<Rightarrow> ustring" where
  "rust_trim s = trim_matches is_rust_whitespace s"

subsection \<open>Properties\<close>

lemma trim_matches_split:
  "\<exists>a b. s = a @ trim_matches p s @ b \<and> list_all p a \<and> list_all p b"
proof -
  let ?m = "dropWhile p s"
  have "rev ?m = takeWhile p (rev ?m) @ dropWhile p (rev ?m)" by simp
  then have "?m = trim_matches p s @ rev (takeWhile p (rev ?m))"
    unfolding trim_matches_def by (metis rev_append rev_rev_ident)
  then have "s = takeWhile p s @ trim_matches p s @ rev (takeWhile p (rev ?m))"
    by (metis takeWhile_dropWhile_id)
  then show ?thesis
    by (intro exI [of _ "takeWhile p s"] exI [of _ "rev (takeWhile p (rev ?m))"])
      (auto simp: list_all_iff dest: set_takeWhileD)
qed

lemma trim_matches_ends:
  "trim_matches p s \<noteq> [] \<Longrightarrow> \<not> p (hd (trim_matches p s)) \<and> \<not> p (last (trim_matches p s))"
proof -
  assume ne: "trim_matches p s \<noteq> []"
  then have ne': "dropWhile p (rev (dropWhile p s)) \<noteq> []" by (simp add: trim_matches_def)
  then have "dropWhile p s \<noteq> []" by (metis dropWhile.simps(1) rev.simps(1))
  then have first: "\<not> p (hd (dropWhile p s))" by (rule hd_dropWhile)
  have last: "\<not> p (last (trim_matches p s))"
    using hd_dropWhile [OF ne'] by (simp add: trim_matches_def last_rev)
  obtain b where "dropWhile p s = trim_matches p s @ b"
    unfolding trim_matches_def
    by (metis rev_append rev_rev_ident takeWhile_dropWhile_id)
  with first ne have "\<not> p (hd (trim_matches p s))" by simp
  with last show ?thesis by simp
qed

lemma java_split_ws_pieces:
  "t \<in> set (split_ws_loop cur in_sep s) \<Longrightarrow> list_all (\<lambda>c. \<not> is_java_space c) cur \<Longrightarrow>
   list_all (\<lambda>c. \<not> is_java_space c) t"
  by (induction cur in_sep s rule: split_ws_loop.induct) (auto split: if_splits)

lemma java_split_ws_no_space:
  assumes "t \<in> set (java_split_ws s)"
  shows "list_all (\<lambda>c. \<not> is_java_space c) t"
proof (cases "list_ex is_java_space s")
  case False
  with assms show ?thesis by (auto simp: java_split_ws_def list_ex_iff list_all_iff)
next
  case True
  with assms have "t \<in> set (split_ws_loop [] False s)"
    by (auto simp: java_split_ws_def dest: set_dropWhileD)
  then show ?thesis by (rule java_split_ws_pieces) simp
qed

end
