(* ===== verification/Authz_Constraint.thy ===== *)
theory Authz_Constraint
  imports Authz_Model Java_Str
begin

section \<open>Constraints of permission grants\<close>

text \<open>
  \<open>crates/zk-authz/src/constraint.rs\<close>: the four constraints a grant can carry, the construction of the
  two workspace constraints with their checks, and the closed matching of a constraint against an
  operation.
\<close>

datatype constraint_error = InvalidPrefix ustring | EmptyPrefixes | OperationMismatch

datatype grant_constraint =
    Exact ustring
  | ToolWide
  | WorkspaceRead "ustring list" "typed_file_operation list"
  | WorkspaceEdit "ustring list" "typed_file_operation list"

definition kind_hint :: "grant_constraint \<Rightarrow> ustring" where
  "kind_hint c = (case c of
     Exact _ \<Rightarrow> u ''EXACT'' | ToolWide \<Rightarrow> u ''TOOL_WIDE''
   | WorkspaceRead _ _ \<Rightarrow> u ''WORKSPACE_READ'' | WorkspaceEdit _ _ \<Rightarrow> u ''WORKSPACE_EDIT'')"

text \<open>\<open>str::split\<close> at a character.\<close>

fun str_split :: "nat \<Rightarrow> ustring \<Rightarrow> ustring list" where
  "str_split c [] = [[]]"
| "str_split c (x # xs) =
     (if x = c then [] # str_split c xs
      else (case str_split c xs of [] \<Rightarrow> [[x]] | s # ss \<Rightarrow> (x # s) # ss))"

abbreviation "slash \<equiv> uc CHR ''/''"
abbreviation "backslash \<equiv> (92::nat)"

definition bad_segment :: "ustring \<Rightarrow> bool" where
  "bad_segment seg = (rust_trim seg = [] \<or> seg = u ''.'' \<or> seg = u ''..'')"

definition normalize_relative_path :: "ustring \<Rightarrow> constraint_error + ustring" where
  "normalize_relative_path v =
     (if rust_trim v = [] \<or> 0 \<in> set v \<or> backslash \<in> set v then Inl (InvalidPrefix v)
      else if v = u ''.'' then Inr v
      else if starts_with v [slash] \<or> ends_with v [slash] \<or> contains_sub v [slash, slash] then
        Inl (InvalidPrefix v)
      else if list_ex bad_segment (str_split slash v) then Inl (InvalidPrefix v)
      else Inr v)"

definition normalized :: "ustring list \<Rightarrow> constraint_error + ustring list" where
  "normalized vs =
     and_then (thread (\<lambda>v out. and_then (normalize_relative_path v)
                 (\<lambda>p. Inr (if p \<in> set out then out else out @ [p]))) vs [])
       (\<lambda>out. if out = [] then Inl EmptyPrefixes else Inr (sort_key str_key out))"

definition read_operation :: "typed_file_operation \<Rightarrow> bool" where
  "read_operation f = (f = ReadFile \<or> f = ListDirectory)"

definition workspace_read ::
  "ustring list \<Rightarrow> typed_file_operation list \<Rightarrow> constraint_error + grant_constraint" where
  "workspace_read prefixes ops =
     (if \<not> list_all read_operation ops then Inl OperationMismatch
      else map_ok (\<lambda>ps. WorkspaceRead ps ops) (normalized prefixes))"

definition workspace_edit ::
  "ustring list \<Rightarrow> typed_file_operation list \<Rightarrow> constraint_error + grant_constraint" where
  "workspace_edit prefixes ops =
     (if list_ex read_operation ops then Inl OperationMismatch
      else map_ok (\<lambda>ps. WorkspaceEdit ps ops) (normalized prefixes))"

definition segment_contains :: "ustring \<Rightarrow> ustring \<Rightarrow> bool" where
  "segment_contains prefix candidate =
     (prefix = u ''.'' \<or> prefix = candidate \<or> starts_with candidate (prefix @ [slash]))"

definition matches_file ::
  "ustring list \<Rightarrow> typed_file_operation list \<Rightarrow> operation_descriptor \<Rightarrow> bool" where
  "matches_file prefixes allowed_ops d =
     (case file_op_parse (op_action d) of
        None \<Rightarrow> False
      | Some act \<Rightarrow>
          if act \<notin> set allowed_ops then False
          else if resources d = [] then False
          else list_all (\<lambda>r. \<not> outside_workspace r \<and> res_kind r = u ''path'' \<and>
                 list_ex (\<lambda>p. segment_contains p (res_value r)) prefixes) (resources d))"

definition matches :: "grant_constraint \<Rightarrow> operation_descriptor \<Rightarrow> bool" where
  "matches c d = (case c of
     Exact h \<Rightarrow> h = operation_hash d
   | ToolWide \<Rightarrow> True
   | WorkspaceRead ps ops \<Rightarrow> matches_file ps ops d
   | WorkspaceEdit ps ops \<Rightarrow> matches_file ps ops d)"

subsection \<open>Splitting at the separator\<close>

lemma str_split_neq_Nil [simp]: "str_split c s \<noteq> []"
  by (induction c s rule: str_split.induct) (auto split: list.splits)

lemma str_split_app: "str_split c (s @ c # t) = str_split c s @ str_split c t"
proof (induction c s rule: str_split.induct)
  case (2 c x xs)
  then show ?case by (auto split: list.splits simp: append_eq_Cons_conv)
qed simp

lemma str_split_inj: "str_split c s = str_split c t \<Longrightarrow> s = t"
proof (induction c s arbitrary: t rule: str_split.induct)
  case (1 c)
  then show ?case by (cases t) (auto split: list.splits if_splits)
next
  case (2 c x xs)
  show ?case
  proof (cases t)
    case Nil
    with 2(3) show ?thesis by (auto split: list.splits if_splits)
  next
    case (Cons y ys)
    have ne: "str_split c xs \<noteq> []" "str_split c ys \<noteq> []" by simp_all
    show ?thesis
    proof (cases "x = c \<longleftrightarrow> y = c")
      case True
      with 2 Cons ne have "str_split c xs = str_split c ys" "x = y"
        by (auto split: list.splits if_splits)
      with 2 Cons True show ?thesis by (cases "x = c") auto
    next
      case False
      with 2(3) Cons ne show ?thesis by (auto split: list.splits if_splits)
    qed
  qed
qed

lemma str_split_app_cancel: "\<exists>r. str_split c t = str_split c s @ r \<Longrightarrow> t = s \<or> (\<exists>q. t = s @ c # q)"
proof (induction c s arbitrary: t rule: str_split.induct)
  case (1 c)
  then show ?case by (cases t) (auto split: list.splits if_splits)
next
  case (2 c x xs)
  show ?case
  proof (cases t)
    case Nil
    with 2(3) show ?thesis by (auto split: list.splits if_splits)
  next
    case (Cons y ys)
    have ne: "str_split c xs \<noteq> []" "str_split c ys \<noteq> []" by simp_all
    show ?thesis
    proof (cases "x = c \<longleftrightarrow> y = c")
      case True
      with 2 Cons ne have "\<exists>r. str_split c ys = str_split c xs @ r" "x = y"
        by (auto split: list.splits if_splits)
      with 2 Cons True show ?thesis by (cases "x = c") fastforce+
    next
      case False
      with 2(3) Cons ne show ?thesis by (auto split: list.splits if_splits)
    qed
  qed
qed

lemma str_split_member: "seg \<in> set (str_split c s) \<Longrightarrow> set seg \<subseteq> set s - {c}"
  by (induction c s arbitrary: seg rule: str_split.induct) (fastforce split: list.splits if_splits)+

lemma str_split_single: "c \<notin> set s \<Longrightarrow> str_split c s = [s]"
  by (induction c s rule: str_split.induct) auto

subsection \<open>What the constructors promise\<close>

lemma rust_trim_Nil: "rust_trim [] = []"
  by (simp add: rust_trim_def trim_matches_def)

text \<open>The segments of an accepted path name entries below the workspace.\<close>

definition relative_path :: "ustring \<Rightarrow> bool" where
  "relative_path p =
     (p = u ''.'' \<or>
      (list_all (\<lambda>seg. \<not> bad_segment seg) (str_split slash p) \<and> 0 \<notin> set p \<and> backslash \<notin> set p \<and>
       rust_trim p \<noteq> []))"

lemma segments_no_empty:
  assumes "list_all (\<lambda>seg. seg \<noteq> []) (str_split c s)"
  shows "\<not> starts_with s [c]" "\<not> ends_with s [c]" "\<not> contains_sub s [c, c]"
proof -
  have "str_split c (c # r) = [] # str_split c r" for r by simp
  with assms show "\<not> starts_with s [c]" by (auto simp: starts_with_iff)
  have "str_split c (r @ [c]) = str_split c r @ [[]]" for r using str_split_app [of c r "[]"] by simp
  with assms show "\<not> ends_with s [c]" by (auto simp: ends_with_iff)
  have "str_split c (a @ [c, c] @ b) = str_split c a @ [] # str_split c b" for a b
    using str_split_app [of c a "c # b"] by simp
  with assms show "\<not> contains_sub s [c, c]" by (auto simp: contains_sub_iff)
qed

lemma good_segment_neq_Nil: "\<not> bad_segment seg \<Longrightarrow> seg \<noteq> []"
  by (auto simp: bad_segment_def rust_trim_Nil)

lemma normalize_ok: "normalize_relative_path v = Inr p \<longleftrightarrow> v = p \<and> relative_path p"
proof (cases "v = u ''.''")
  case True
  have "rust_trim (u ''.'') \<noteq> []"
    by (simp add: rust_trim_def trim_matches_def is_rust_whitespace_def)
  with True show ?thesis by (auto simp: normalize_relative_path_def relative_path_def)
next
  case False
  have "list_all (\<lambda>seg. \<not> bad_segment seg) (str_split slash v) \<Longrightarrow>
      list_all (\<lambda>seg. seg \<noteq> []) (str_split slash v)"
    by (auto simp: list_all_iff dest: good_segment_neq_Nil)
  with False segments_no_empty [of slash v] show ?thesis
    by (auto simp: normalize_relative_path_def relative_path_def list_all_iff list_ex_iff)
qed

lemma normalized_loop:
  "thread (\<lambda>v out. and_then (normalize_relative_path v)
      (\<lambda>p. Inr (if p \<in> set out then out else out @ [p]))) vs out = Inr res \<Longrightarrow> distinct out \<Longrightarrow>
   set res = set out \<union> set vs \<and> distinct res \<and> list_all relative_path vs"
proof (induction vs arbitrary: out)
  case (Cons v vs)
  then obtain p where "normalize_relative_path v = Inr p"
    and rest: "thread (\<lambda>v out. and_then (normalize_relative_path v)
      (\<lambda>p. Inr (if p \<in> set out then out else out @ [p]))) vs
        (if p \<in> set out then out else out @ [p]) = Inr res"
    by (auto simp: and_then_Inr)
  then have "p = v" "relative_path v" by (auto simp: normalize_ok)
  moreover have "distinct (if p \<in> set out then out else out @ [p])" using Cons.prems by simp
  ultimately show ?case using Cons.IH [OF rest] by (auto split: if_splits)
qed auto

lemma normalized_ok:
  assumes "normalized vs = Inr ps"
  shows "set ps = set vs" "distinct ps" "sorted (map str_key ps)" "ps \<noteq> []" "list_all relative_path ps"
proof -
  from assms obtain out where
    out: "thread (\<lambda>v out. and_then (normalize_relative_path v)
      (\<lambda>p. Inr (if p \<in> set out then out else out @ [p]))) vs [] = Inr out"
    and ps: "ps = sort_key str_key out" "out \<noteq> []"
    by (auto simp: normalized_def and_then_Inr split: if_splits)
  from normalized_loop [OF out] have *: "set out = set vs" "distinct out" "list_all relative_path vs"
    by auto
  show "set ps = set vs" "distinct ps" "sorted (map str_key ps)" "list_all relative_path ps"
    using * ps by (auto simp: list_all_iff)
  show "ps \<noteq> []" using ps by (metis set_empty set_sort)
qed

lemma normalized_total:
  assumes "list_all relative_path vs" "vs \<noteq> []"
  shows "\<exists>ps. normalized vs = Inr ps"
proof -
  have "\<exists>res. thread (\<lambda>v out. and_then (normalize_relative_path v)
      (\<lambda>p. Inr (if p \<in> set out then out else out @ [p]))) vs out = Inr res" for out
    using assms(1)
  proof (induction vs arbitrary: out)
    case (Cons v vs)
    then have "normalize_relative_path v = Inr v" by (simp add: normalize_ok)
    with Cons show ?case by auto
  qed simp
  then obtain res where res: "thread (\<lambda>v out. and_then (normalize_relative_path v)
      (\<lambda>p. Inr (if p \<in> set out then out else out @ [p]))) vs [] = Inr res" by blast
  with normalized_loop [OF res] assms(2) show ?thesis by (auto simp: normalized_def)
qed

text \<open>Well-formed constraints are those the constructors return.\<close>

definition wf_constraint :: "grant_constraint \<Rightarrow> bool" where
  "wf_constraint c = (case c of
     Exact _ \<Rightarrow> True
   | ToolWide \<Rightarrow> True
   | WorkspaceRead ps ops \<Rightarrow> normalized ps = Inr ps \<and> list_all read_operation ops
   | WorkspaceEdit ps ops \<Rightarrow> normalized ps = Inr ps \<and> \<not> list_ex read_operation ops)"

lemma normalized_fixed:
  assumes "distinct ps" "sorted (map str_key ps)" "ps \<noteq> []" "list_all relative_path ps"
  shows "normalized ps = Inr ps"
proof -
  have "thread (\<lambda>v out. and_then (normalize_relative_path v)
      (\<lambda>p. Inr (if p \<in> set out then out else out @ [p]))) ps out = Inr (out @ ps)"
    if "distinct (out @ ps)" for out
    using assms(4) that
  proof (induction ps arbitrary: out)
    case (Cons v vs)
    then have "normalize_relative_path v = Inr v" by (simp add: normalize_ok)
    with Cons show ?case by auto
  qed simp
  from this [of "[]"] assms show ?thesis by (simp add: normalized_def sort_key_id_if_sorted)
qed

lemma normalized_idem: "normalized vs = Inr ps \<Longrightarrow> normalized ps = Inr ps"
  by (metis normalized_fixed normalized_ok(2-5))

lemma workspace_read_wf: "workspace_read ps ops = Inr c \<Longrightarrow> wf_constraint c"
  by (auto simp: workspace_read_def wf_constraint_def map_ok_def dest: normalized_idem
      split: if_splits sum.splits)

lemma workspace_edit_wf: "workspace_edit ps ops = Inr c \<Longrightarrow> wf_constraint c"
  by (auto simp: workspace_edit_def wf_constraint_def map_ok_def dest: normalized_idem
      split: if_splits sum.splits)

subsection \<open>Matching\<close>

text \<open>The textual test is the prefix test on path segments.\<close>

lemma segment_contains_segments:
  "segment_contains prefix candidate \<longleftrightarrow>
   prefix = u ''.'' \<or> (\<exists>r. str_split slash candidate = str_split slash prefix @ r)"
proof -
  have "prefix = candidate \<or> starts_with candidate (prefix @ [slash]) \<longleftrightarrow>
      (\<exists>r. str_split slash candidate = str_split slash prefix @ r)"
    using str_split_app_cancel [of slash candidate prefix] str_split_app
    by (auto simp: starts_with_iff)
  then show ?thesis by (auto simp: segment_contains_def)
qed

lemma matches_file_iff:
  "matches_file ps ops d \<longleftrightarrow>
   (\<exists>act. op_action d = file_op_as_str act \<and> act \<in> set ops) \<and> resources d \<noteq> [] \<and>
   (\<forall>r \<in> set (resources d). \<not> outside_workspace r \<and> res_kind r = u ''path'' \<and>
      (\<exists>p \<in> set ps. segment_contains p (res_value r)))"
  by (auto simp: matches_file_def list_all_iff list_ex_iff split: option.splits
      dest: file_op_parse_Some)

end
