(* ===== verification/Iso_Time.thy ===== *)
theory Iso_Time
  imports Prelude "HOL-Library.List_Lexorder"
begin

section \<open>Timestamps\<close>

text \<open>
  \<open>crates/zk-db/src/time.rs\<close>: the conversion between epoch milliseconds and the RFC 3339 text the
  database stores, and the calendar arithmetic under it. The program's \<open>i64\<close> arithmetic is over
  \<open>int\<close>: from any 64-bit count of milliseconds no intermediate value leaves the 64-bit range. The
  parser reads bytes.
\<close>

subsection \<open>The calendar\<close>

definition civil_from_days :: "int \<Rightarrow> int \<times> int \<times> int" where
  "civil_from_days days =
     (let z = days + 719468;
          era = z div 146097;
          doe = z - era * 146097;
          yoe = (doe - doe div 1460 + doe div 36524 - doe div 146096) div 365;
          y = yoe + era * 400;
          doy = doe - (365 * yoe + yoe div 4 - yoe div 100);
          mp = (5 * doy + 2) div 153;
          d = doy - (153 * mp + 2) div 5 + 1;
          m = (if mp < 10 then mp + 3 else mp - 9)
      in (if m \<le> 2 then y + 1 else y, m, d))"

definition days_from_civil :: "int \<Rightarrow> int \<Rightarrow> int \<Rightarrow> int" where
  "days_from_civil year month day =
     (let y = (if month \<le> 2 then year - 1 else year);
          era = y div 400;
          yoe = y - era * 400;
          mp = (month + 9) mod 12;
          doy = (153 * mp + 2) div 5 + day - 1;
          doe = yoe * 365 + yoe div 4 - yoe div 100 + doy
      in era * 146097 + doe - 719468)"

subsection \<open>Printing\<close>

text \<open>\<open>{n:0w}\<close>: the sign counts for the width.\<close>

definition pad :: "nat \<Rightarrow> nat \<Rightarrow> ustring" where
  "pad w n = replicate (w - length (decimal n)) 48 @ decimal n"

definition pad_int :: "nat \<Rightarrow> int \<Rightarrow> ustring" where
  "pad_int w n = (if n < 0 then uc CHR ''-'' # pad (w - 1) (nat (- n)) else pad w (nat n))"

definition format_rfc3339_micros :: "int \<Rightarrow> ustring" where
  "format_rfc3339_micros millis =
     (let secs = millis div 1000;
          micros = (millis mod 1000) * 1000;
          days = secs div 86400;
          sod = secs mod 86400
      in case civil_from_days days of (year, month, day) \<Rightarrow>
         pad_int 4 year @ u ''-'' @ pad_int 2 month @ u ''-'' @ pad_int 2 day @ u ''T'' @
         pad_int 2 (sod div 3600) @ u '':'' @ pad_int 2 ((sod mod 3600) div 60) @ u '':'' @
         pad_int 2 (sod mod 60) @ u ''.'' @ pad_int 6 micros @ u ''Z'')"

subsection \<open>Parsing\<close>

definition digit :: "nat \<Rightarrow> int option" where
  "digit c = (if 48 \<le> c \<and> c \<le> 57 then Some (int c - 48) else None)"

fun digits_from :: "int \<Rightarrow> nat list \<Rightarrow> int option" where
  "digits_from n [] = Some n"
| "digits_from n (c # cs) =
     (case digit c of None \<Rightarrow> None | Some v \<Rightarrow> digits_from (n * 10 + v) cs)"

text \<open>\<open>digits(a..b)\<close>: the range is \<open>None\<close> when it leaves the buffer.\<close>

definition digits :: "nat list \<Rightarrow> nat \<Rightarrow> nat \<Rightarrow> int option" where
  "digits b i j = (if i \<le> j \<and> j \<le> length b then digits_from 0 (take (j - i) (drop i b)) else None)"

definition get_byte :: "nat list \<Rightarrow> nat \<Rightarrow> nat option" where
  "get_byte b i = (if i < length b then Some (b ! i) else None)"

text \<open>
  The loop over the fraction: it consumes every digit and keeps the first three. The arguments are
  the rest of the buffer, the number of digits read and the milliseconds; the result adds the number
  of digits.
\<close>

fun fraction_loop :: "nat list \<Rightarrow> nat \<Rightarrow> int \<Rightarrow> nat \<times> int" where
  "fraction_loop [] n millis = (n, millis)"
| "fraction_loop (c # cs) n millis =
     (case digit c of
        None \<Rightarrow> (n, millis)
      | Some v \<Rightarrow> fraction_loop cs (Suc n) (if n < 3 then millis * 10 + v else millis))"

text \<open>The optional fraction at the given position: the milliseconds and the position after it.\<close>

definition fraction_at :: "nat list \<Rightarrow> nat \<Rightarrow> (int \<times> nat) option" where
  "fraction_at b idx =
     (if get_byte b idx = Some (uc CHR ''.'') then
        (case fraction_loop (drop (Suc idx) b) 0 0 of (n, millis) \<Rightarrow>
           if n = 0 then None else Some (millis * 10 ^ (3 - n), Suc idx + n))
      else Some (0, idx))"

text \<open>The zone: the offset in seconds and the position after it.\<close>

definition zone_at :: "nat list \<Rightarrow> nat \<Rightarrow> (int \<times> nat) option" where
  "zone_at b idx =
     (case get_byte b idx of
        None \<Rightarrow> None
      | Some c \<Rightarrow>
          if c = uc CHR ''Z'' \<or> c = uc CHR ''z'' then Some (0, Suc idx)
          else if c = uc CHR ''+'' \<or> c = uc CHR ''-'' then
            (let i = Suc idx; sign = (if c = uc CHR ''+'' then 1 else -1) in
             case digits b i (i + 2) of
               None \<Rightarrow> None
             | Some oh \<Rightarrow>
                 if get_byte b (i + 2) = Some (uc CHR '':'') then
                   map_option (\<lambda>om. (sign * (oh * 3600 + om * 60), i + 5)) (digits b (i + 3) (i + 5))
                 else
                   map_option (\<lambda>om. (sign * (oh * 3600 + om * 60), i + 4)) (digits b (i + 2) (i + 4)))
          else None)"

definition parse_rfc3339_millis :: "nat list \<Rightarrow> int option" where
  "parse_rfc3339_millis b =
     (if length b < 20 then None
      else case (digits b 0 4, digits b 5 7, digits b 8 10) of
        (Some year, Some month, Some day) \<Rightarrow>
          if b ! 4 \<noteq> uc CHR ''-'' \<or> b ! 7 \<noteq> uc CHR ''-'' \<or>
             (b ! 10 \<noteq> uc CHR ''T'' \<and> b ! 10 \<noteq> uc CHR ''t'') then None
          else (case (digits b 11 13, digits b 14 16, digits b 17 19) of
            (Some hour, Some minute, Some second) \<Rightarrow>
              if b ! 13 \<noteq> uc CHR '':'' \<or> b ! 16 \<noteq> uc CHR '':'' then None
              else (case fraction_at b 19 of
                None \<Rightarrow> None
              | Some (millis, i) \<Rightarrow>
                  (case zone_at b i of
                     None \<Rightarrow> None
                   | Some (offset, j) \<Rightarrow>
                       if j \<noteq> length b \<or> \<not> (1 \<le> month \<and> month \<le> 12) \<or> \<not> (1 \<le> day \<and> day \<le> 31) then None
                       else Some ((days_from_civil year month day * 86400 + hour * 3600 + minute * 60 +
                                   second - offset) * 1000 + millis)))
          | _ \<Rightarrow> None)
      | _ \<Rightarrow> None)"

subsection \<open>The calendar is exact\<close>

text \<open>The year of the era as a function of the day of the era, and the first day of such a year.\<close>

definition yoe_of :: "int \<Rightarrow> int" where
  "yoe_of doe = (doe - doe div 1460 + doe div 36524 - doe div 146096) div 365"

definition year_start :: "int \<Rightarrow> int" where
  "year_start y = 365 * y + y div 4 - y div 100"

text \<open>
  The checks on one year: both ends of the year give the year back, and it has at most 366 days. The
  400 years of an era are checked by evaluation, a century at a time.
\<close>

definition year_ok :: "int \<Rightarrow> bool" where
  "year_ok y = (yoe_of (year_start y) = y \<and>
      (let e = (if y = 399 then 146097 else year_start (y + 1)) in
        yoe_of (e - 1) = y \<and> 0 < e - year_start y \<and> e - year_start y \<le> 366))"

lemma years_first: "list_all year_ok [0..99]" by code_simp
lemma years_second: "list_all year_ok [100..199]" by code_simp
lemma years_third: "list_all year_ok [200..299]" by code_simp
lemma years_fourth: "list_all year_ok [300..399]" by code_simp

lemma years_checked: "0 \<le> y \<Longrightarrow> y \<le> 399 \<Longrightarrow> year_ok y"
  using years_first years_second years_third years_fourth
  unfolding list_all_iff set_upto Ball_def atLeastAtMost_iff
  by (cases "y \<le> 99"; cases "y \<le> 199"; cases "y \<le> 299") simp_all

lemma yoe_of_step:
  assumes "0 \<le> d" "d < 146096"
  shows "yoe_of d \<le> yoe_of (d + 1)"
proof -
  have a: "(d + 1) div 1460 \<le> d div 1460 + 1" by linarith
  have b: "d div 36524 \<le> (d + 1) div 36524" by (rule zdiv_mono1) simp_all
  have c: "d div 146096 = 0" using assms by simp
  note * = a b c
  show ?thesis
  proof (cases "d = 146095")
    case True
    have "yoe_of 146095 \<le> yoe_of (146095 + 1)" by code_simp
    with True show ?thesis by simp
  next
    case False
    then have "(d + 1) div 146096 = 0" using assms by simp
    with * have "d - d div 1460 + d div 36524 - d div 146096 \<le>
        d + 1 - (d + 1) div 1460 + (d + 1) div 36524 - (d + 1) div 146096" by linarith
    then show ?thesis unfolding yoe_of_def by (rule zdiv_mono1) simp
  qed
qed

lemma yoe_of_mono:
  assumes "0 \<le> a" "a \<le> b" "b \<le> 146096"
  shows "yoe_of a \<le> yoe_of b"
  using assms(2,1,3)
proof (induction rule: int_ge_induct)
  case (step i)
  then show ?case using yoe_of_step [of i] by simp
qed simp

lemma year_of_day:
  assumes "0 \<le> doe" "doe \<le> 146096"
  shows "0 \<le> yoe_of doe \<and> yoe_of doe \<le> 399 \<and> year_start (yoe_of doe) \<le> doe \<and>
    doe - year_start (yoe_of doe) \<le> 365"
proof -
  define y where "y = yoe_of doe"
  have y0: "yoe_of 0 = 0" and y399: "yoe_of 146096 = 399" by code_simp+
  have "0 \<le> y" "y \<le> 399"
    using yoe_of_mono [of 0 doe] yoe_of_mono [of doe 146096] assms y0 y399 by (simp_all add: y_def)
  define e where "e = (if y = 399 then 146097 else year_start (y + 1))"
  from years_checked [of y] \<open>0 \<le> y\<close> \<open>y \<le> 399\<close> have chk: "yoe_of (year_start y) = y" "yoe_of (e - 1) = y"
      "0 < e - year_start y" "e - year_start y \<le> 366"
    unfolding year_ok_def e_def Let_def by blast+
  have lower: "year_start y \<le> doe"
  proof (rule ccontr)
    assume less: "\<not> year_start y \<le> doe"
    show False
    proof (cases "y = 0")
      case True
      with less assms show False by (simp add: year_start_def)
    next
      case False
      with \<open>0 \<le> y\<close> \<open>y \<le> 399\<close> years_checked [of "y - 1"] have "year_ok (y - 1)" by simp
      with \<open>y \<le> 399\<close> have "yoe_of (year_start y - 1) = y - 1"
        unfolding year_ok_def Let_def by simp
      moreover have "year_start y - 1 \<le> 146096"
        using \<open>0 \<le> y\<close> \<open>y \<le> 399\<close> unfolding year_start_def by linarith
      with less assms have "yoe_of doe \<le> yoe_of (year_start y - 1)"
        by (intro yoe_of_mono) auto
      ultimately show False by (simp add: y_def)
    qed
  qed
  have upper: "doe < e"
  proof (rule ccontr)
    assume ge: "\<not> doe < e"
    show False
    proof (cases "y = 399")
      case True
      with ge assms show False by (simp add: e_def)
    next
      case False
      with \<open>0 \<le> y\<close> \<open>y \<le> 399\<close> years_checked [of "y + 1"] have "year_ok (y + 1)" by simp
      then have "yoe_of (year_start (y + 1)) = y + 1"
        unfolding year_ok_def Let_def by blast
      moreover from False ge assms \<open>0 \<le> y\<close> have "yoe_of (year_start (y + 1)) \<le> yoe_of doe"
        by (intro yoe_of_mono) (auto simp: e_def year_start_def)
      ultimately show False by (simp add: y_def)
    qed
  qed
  with lower chk \<open>0 \<le> y\<close> \<open>y \<le> 399\<close> show ?thesis by (simp add: y_def [symmetric])
qed

text \<open>The parts of a date: the era, the year of the era and the day of the year, counted from March.\<close>

lemma civil_parts:
  obtains era yoe doy mp where
    "days + 719468 = era * 146097 + (year_start yoe + doy)"
    "0 \<le> yoe" "yoe \<le> 399" "0 \<le> doy" "doy \<le> 365" "year_start yoe + doy \<le> 146096"
    "yoe = yoe_of (year_start yoe + doy)"
    "mp = (5 * doy + 2) div 153" "0 \<le> mp" "mp \<le> 11"
    "civil_from_days days =
       (if mp < 10 then (yoe + era * 400, mp + 3, doy - (153 * mp + 2) div 5 + 1)
        else (yoe + era * 400 + 1, mp - 9, doy - (153 * mp + 2) div 5 + 1))"
proof -
  define z where "z = days + 719468"
  define era where "era = z div 146097"
  define doe where "doe = z - era * 146097"
  have doe: "doe = z mod 146097" by (simp add: doe_def era_def minus_div_mult_eq_mod)
  then have range: "0 \<le> doe" "doe \<le> 146096" by simp_all
  define yoe where "yoe = yoe_of doe"
  define doy where "doy = doe - year_start yoe"
  define mp where "mp = (5 * doy + 2) div 153"
  from year_of_day [OF range] have b: "0 \<le> yoe" "yoe \<le> 399" "0 \<le> doy" "doy \<le> 365"
    by (simp_all add: yoe_def doy_def)
  then have mp: "0 \<le> mp" "mp \<le> 11" unfolding mp_def by (auto intro: order.trans [OF zdiv_mono1 [of _ "5 * 365 + 2"]])
  have "civil_from_days days =
       (if mp < 10 then (yoe + era * 400, mp + 3, doy - (153 * mp + 2) div 5 + 1)
        else (yoe + era * 400 + 1, mp - 9, doy - (153 * mp + 2) div 5 + 1))"
    unfolding civil_from_days_def Let_def z_def [symmetric] era_def [symmetric]
      doe_def [symmetric] yoe_of_def [symmetric] yoe_def [symmetric] year_start_def [symmetric]
      doy_def [symmetric] mp_def [symmetric]
    using mp by auto
  moreover have doe_eq: "year_start yoe + doy = doe" by (simp add: doy_def)
  moreover from doe_eq have "days + 719468 = era * 146097 + (year_start yoe + doy)"
    by (simp add: z_def doe_def)
  moreover from doe_eq range have "year_start yoe + doy \<le> 146096" by simp
  moreover from doe_eq have "yoe = yoe_of (year_start yoe + doy)" by (simp only: yoe_def)
  ultimately show thesis using b mp mp_def by (intro that [of era yoe doy mp]) (assumption | simp)+
qed

lemma days_civil_inverse:
  assumes "civil_from_days days = (y, m, d)"
  shows "days_from_civil y m d = days"
proof -
  obtain era yoe doy mp where parts:
    "days + 719468 = era * 146097 + (year_start yoe + doy)"
    "0 \<le> yoe" "yoe \<le> 399" "0 \<le> mp" "mp \<le> 11"
    "civil_from_days days =
       (if mp < 10 then (yoe + era * 400, mp + 3, doy - (153 * mp + 2) div 5 + 1)
        else (yoe + era * 400 + 1, mp - 9, doy - (153 * mp + 2) div 5 + 1))"
    by (rule civil_parts)
  have y: "(yoe + era * 400) div 400 = era" using parts by simp
  have m: "(if mp < 10 then mp + 3 + 9 else mp - 9 + 9) mod 12 = mp"
    using parts by (auto simp: mod_pos_pos_trivial)
  show ?thesis
  proof (cases "mp < 10")
    case True
    with parts assms have *: "y = yoe + era * 400" "m = mp + 3" "d = doy - (153 * mp + 2) div 5 + 1" by auto
    have "\<not> m \<le> 2" using * parts by simp
    moreover have "(m + 9) mod 12 = mp" using * True m by simp
    ultimately show ?thesis
      unfolding days_from_civil_def Let_def using * y parts by (simp add: year_start_def)
  next
    case False
    with parts assms have *: "y = yoe + era * 400 + 1" "m = mp - 9" "d = doy - (153 * mp + 2) div 5 + 1" by auto
    have "m \<le> 2" using * parts by simp
    moreover have "(m + 9) mod 12 = mp" using * False m by simp
    ultimately show ?thesis
      unfolding days_from_civil_def Let_def using * y parts by (simp add: year_start_def)
  qed
qed

lemma civil_ranges:
  assumes "civil_from_days days = (y, m, d)"
  shows "1 \<le> m" "m \<le> 12" "1 \<le> d" "d \<le> 31"
proof -
  obtain era yoe doy mp where parts:
    "0 \<le> doy" "doy \<le> 365" "mp = (5 * doy + 2) div 153" "0 \<le> mp" "mp \<le> 11"
    "civil_from_days days =
       (if mp < 10 then (yoe + era * 400, mp + 3, doy - (153 * mp + 2) div 5 + 1)
        else (yoe + era * 400 + 1, mp - 9, doy - (153 * mp + 2) div 5 + 1))"
    by (rule civil_parts)
  have d: "d = doy - (153 * mp + 2) div 5 + 1" using parts assms by (auto split: if_splits)
  show "1 \<le> m" "m \<le> 12" using parts assms by (auto split: if_splits)
  have "153 * mp \<le> 5 * doy + 2" "5 * doy + 2 < 153 * mp + 153"
    unfolding parts(3) by linarith+
  then show "1 \<le> d" "d \<le> 31" unfolding d by linarith+
qed

end
