(* ===== verification/Authz_Grants.thy ===== *)
theory Authz_Grants
  imports Authz_Constraint Iso_Time
begin

section \<open>The permission grant repository\<close>

text \<open>
  \<open>crates/zk-authz/src/grants.rs\<close> over the tables it reads and writes (\<open>permission_grants\<close> with the
  checks, the partial unique indexes, the foreign keys and the insertion trigger of
  \<open>crates/zk-db/migrations/V2__init_session_message.sql\<close>).

  The state \<open>grant_db\<close> holds the rows of \<open>permission_grants\<close> in insertion order and the columns of
  \<open>sessions\<close>, \<open>run_envelopes\<close> and \<open>interaction_requests\<close> the code looks at. The record \<open>crates\<close>
  stands for code outside the repository: the printer and the parser of \<open>serde_json\<close> and SHA-256
  of the \<open>sha2\<close> crate; the identifier \<open>uuid\<close> generates is an argument of the creation. Rows with
  equal scope and creation time are taken in insertion order, a choice SQLite does not promise and
  no property uses.
\<close>

subsection \<open>The tables\<close>

record grant_row =
  g_id :: ustring
  g_kind :: ustring
  g_scope :: ustring
  g_delegation :: ustring
  g_root_session :: "ustring option"
  g_root_run :: "ustring option"
  g_actor_run :: "ustring option"
  g_workspace :: "ustring option"
  g_schema_version :: int
  g_analyzer :: ustring
  g_tool :: ustring
  g_action :: ustring
  g_effects :: ustring
  g_operation_hash :: "ustring option"
  g_capability_hash :: "ustring option"
  g_constraints :: ustring
  g_risk :: ustring
  g_interaction :: "ustring option"
  g_created_at :: ustring
  g_expires_at :: ustring
  g_revoked_at :: "ustring option"
  g_version :: int

record session_row =
  s_retention :: ustring
  s_working_dir :: "ustring option"

record run_row =
  r_session :: ustring
  r_status :: ustring
  r_parent :: "ustring option"

record grant_db =
  grant_rows :: "grant_row list"
  sessions :: "ustring \<Rightarrow> session_row option"
  runs :: "ustring \<Rightarrow> run_row option"
  interactions :: "ustring \<Rightarrow> ustring option"

text \<open>The \<open>BINARY\<close> collation compares the UTF-8 bytes, that is the code points.\<close>

definition text_less :: "ustring \<Rightarrow> ustring \<Rightarrow> bool" where
  "text_less a b = (str_key a < str_key b)"

record grant_match =
  match_id :: ustring
  match_kind :: grant_kind
  match_scope :: permission_scope

record grant_identity =
  id_session :: "ustring option"
  id_run :: "ustring option"
  id_actor :: "ustring option"
  id_workspace :: "ustring option"

record grant_plan =
  plan_kind :: grant_kind
  plan_scope :: permission_scope
  plan_delegation :: delegation_policy
  plan_constraint :: grant_constraint

subsection \<open>Planning\<close>

definition REMOTE_CAPABILITY_ANALYZERS :: "ustring list" where
  "REMOTE_CAPABILITY_ANALYZERS = [u ''network-v1'', u ''mcp-v1'']"

text \<open>\<open>str::rfind\<close> of a character.\<close>

definition rfind_unit :: "nat \<Rightarrow> ustring \<Rightarrow> nat option" where
  "rfind_unit c s = map_option (\<lambda>i. length s - 1 - i) (find_unit c (rev s))"

definition directory_of :: "ustring \<Rightarrow> typed_file_operation \<Rightarrow> ustring option" where
  "directory_of path f =
     (case normalize_relative_path path of
        Inl _ \<Rightarrow> None
      | Inr p \<Rightarrow>
          if p = u ''.'' then (if f = ListDirectory then Some (u ''.'') else None)
          else if f = ListDirectory then Some p
          else (case rfind_unit slash p of None \<Rightarrow> Some (u ''.'') | Some i \<Rightarrow> Some (take i p)))"

fun directories_of :: "resource_ref list \<Rightarrow> typed_file_operation \<Rightarrow> ustring list option" where
  "directories_of [] f = Some []"
| "directories_of (r # rs) f =
     (case directory_of (res_value r) f of
        None \<Rightarrow> None
      | Some d \<Rightarrow> map_option ((#) d) (directories_of rs f))"

definition capability_constraint :: "operation_descriptor \<Rightarrow> grant_constraint option" where
  "capability_constraint d =
     (if resources d = [] \<or> list_ex outside_workspace (resources d) then None
      else (case file_op_parse (op_action d) of
        None \<Rightarrow> None
      | Some f \<Rightarrow>
          (case directories_of (resources d) f of
             None \<Rightarrow> None
           | Some ds \<Rightarrow>
               let ds = remdups_adj (sort_key str_key ds) in
               if WriteResource \<in> set (effects d) then ok_part (workspace_edit ds [f])
               else ok_part (workspace_read ds [f]))))"

definition supported_scopes :: "operation_descriptor \<Rightarrow> permission_scope list" where
  "supported_scopes d =
     (if risk d = High then []
      else if analyzer_id d = u ''hook-v1'' \<or> analyzer_id d = u ''bash-v2'' \<or>
              analyzer_id d \<in> set REMOTE_CAPABILITY_ANALYZERS then [RunScope, SessionScope]
      else if analyzer_id d \<noteq> u ''file-v1'' then []
      else if capability_constraint d = None then [RunScope, SessionScope]
      else [RunScope, SessionScope, WorkspaceScope])"

definition run_direct :: "permission_scope \<Rightarrow> delegation_policy" where
  "run_direct s = (if s = RunScope then DirectOnly else RootAndDescendants)"

definition plan :: "operation_descriptor \<Rightarrow> permission_scope option \<Rightarrow> grant_plan option" where
  "plan d requested =
     (case requested of
        None \<Rightarrow> None
      | Some s \<Rightarrow>
          if s = OnceScope \<or> risk d = High then None
          else if analyzer_id d = u ''hook-v1'' then
            (if s \<noteq> RunScope \<and> s \<noteq> SessionScope then None
             else Some \<lparr>plan_kind = ExactGuarded, plan_scope = s, plan_delegation = run_direct s,
                        plan_constraint = Exact (operation_hash d)\<rparr>)
          else if analyzer_id d = u ''bash-v2'' \<or> analyzer_id d \<in> set REMOTE_CAPABILITY_ANALYZERS then
            (if s = WorkspaceScope then None
             else if risk d \<noteq> Guarded \<and> risk d \<noteq> SafeRisk then None
             else Some \<lparr>plan_kind = ToolGuarded, plan_scope = s, plan_delegation = run_direct s,
                        plan_constraint = ToolWide\<rparr>)
          else if analyzer_id d = u ''file-v1'' then
            (if s = RunScope then
               Some \<lparr>plan_kind = ExactGuarded, plan_scope = s, plan_delegation = DirectOnly,
                     plan_constraint = Exact (operation_hash d)\<rparr>
             else (case capability_constraint d of
               None \<Rightarrow>
                 if s \<noteq> SessionScope then None
                 else Some \<lparr>plan_kind = ExactGuarded, plan_scope = s,
                            plan_delegation = RootAndDescendants,
                            plan_constraint = Exact (operation_hash d)\<rparr>
             | Some c \<Rightarrow>
                 Some \<lparr>plan_kind = (case c of WorkspaceEdit _ _ \<Rightarrow> EditCapability | _ \<Rightarrow> ReadCapability),
                       plan_scope = s, plan_delegation = RootAndDescendants, plan_constraint = c\<rparr>))
          else None)"

definition identity ::
  "authorization_subject \<Rightarrow> permission_scope \<Rightarrow> delegation_policy \<Rightarrow> grant_identity" where
  "identity sub s del = (case s of
     RunScope \<Rightarrow> \<lparr>id_session = None, id_run = Some (root_run_id sub),
                 id_actor = (if del = DirectOnly then Some (current_run_id sub) else None),
                 id_workspace = None\<rparr>
   | SessionScope \<Rightarrow> \<lparr>id_session = Some (root_session_id sub), id_run = None, id_actor = None,
                     id_workspace = None\<rparr>
   | WorkspaceScope \<Rightarrow> \<lparr>id_session = None, id_run = None, id_actor = None,
                       id_workspace = Some (workspace_key sub)\<rparr>
   | OnceScope \<Rightarrow> \<lparr>id_session = None, id_run = None, id_actor = None, id_workspace = None\<rparr>)"

subsection \<open>The text of a constraint\<close>

definition workspace_json ::
  "grant_constraint \<Rightarrow> ustring list \<Rightarrow> typed_file_operation list \<Rightarrow> json_object" where
  "workspace_json c ps ops =
     json_set (json_set (json_set [] (u ''type'') (JStr (kind_hint c)))
       (u ''relativeDirectoryPrefixes'') (JArr (map JStr ps)))
       (u ''allowedOperations'') (JArr (map (\<lambda>f. JStr (file_op_as_str f)) ops))"

definition constraint_json :: "grant_constraint \<Rightarrow> json" where
  "constraint_json c = JObj (case c of
     Exact h \<Rightarrow> json_set (json_set [] (u ''type'') (JStr (u ''EXACT''))) (u ''operationHash'') (JStr h)
   | ToolWide \<Rightarrow> json_set [] (u ''type'') (JStr (u ''TOOL_WIDE''))
   | WorkspaceRead ps ops \<Rightarrow> workspace_json c ps ops
   | WorkspaceEdit ps ops \<Rightarrow> workspace_json c ps ops)"

definition encode_constraint :: "crates \<Rightarrow> grant_constraint \<Rightarrow> ustring" where
  "encode_constraint cr c = to_text cr (constraint_json c)"

definition value_to_java_string :: "crates \<Rightarrow> json \<Rightarrow> ustring" where
  "value_to_java_string cr v = (case v of
     JStr t \<Rightarrow> t | JNull \<Rightarrow> u ''null'' | _ \<Rightarrow> to_text cr v)"

fun parse_operations :: "crates \<Rightarrow> json list \<Rightarrow> typed_file_operation list option" where
  "parse_operations cr [] = Some []"
| "parse_operations cr (v # vs) =
     (case file_op_parse (value_to_java_string cr v) of
        None \<Rightarrow> None
      | Some f \<Rightarrow> map_option ((#) f) (parse_operations cr vs))"

definition decode_constraint :: "crates \<Rightarrow> grant_kind \<Rightarrow> ustring \<Rightarrow> grant_constraint option" where
  "decode_constraint cr k encoded =
     (case from_text cr encoded of
        Some (JObj m) \<Rightarrow>
          if k = ExactGuarded then
            Some (Exact (case json_get m (u ''operationHash'') of
              None \<Rightarrow> u ''null'' | Some v \<Rightarrow> value_to_java_string cr v))
          else if k = ToolGuarded then Some ToolWide
          else
            (case (case json_get m (u ''relativeDirectoryPrefixes'') of
                     None \<Rightarrow> Some []
                   | Some (JArr items) \<Rightarrow> Some (map (value_to_java_string cr) items)
                   | Some _ \<Rightarrow> None) of
               None \<Rightarrow> None
             | Some prefixes \<Rightarrow>
                 (case (case json_get m (u ''allowedOperations'') of
                          None \<Rightarrow> Some []
                        | Some (JArr items) \<Rightarrow> parse_operations cr items
                        | Some _ \<Rightarrow> None) of
                    None \<Rightarrow> None
                  | Some ops \<Rightarrow>
                      ok_part (if k = ReadCapability then workspace_read prefixes ops
                               else workspace_edit prefixes ops)))
      | _ \<Rightarrow> None)"

subsection \<open>Lookup\<close>

definition root_run_is_terminal :: "grant_db \<Rightarrow> ustring \<Rightarrow> bool" where
  "root_run_is_terminal db run =
     (case map_option r_status (runs db run) of
        None \<Rightarrow> True
      | Some st \<Rightarrow> st \<in> {u ''completed'', u ''failed'', u ''cancelled'', u ''aborted''})"

text \<open>The \<open>WHERE\<close> clause of the lookup.\<close>

definition row_applies :: "ustring \<Rightarrow> authorization_subject \<Rightarrow> operation_descriptor \<Rightarrow> grant_row \<Rightarrow> bool" where
  "row_applies now sub d g =
     (g_tool g = tool_name d \<and> g_action g = op_action d \<and> g_analyzer g = analyzer_id d \<and>
      g_schema_version g = authorization_schema_version d \<and>
      g_revoked_at g = None \<and> text_less now (g_expires_at g) \<and>
      ((g_scope g = u ''RUN'' \<and> g_root_run g = Some (root_run_id sub) \<and>
        (g_delegation g = u ''ROOT_AND_DESCENDANTS'' \<or> g_actor_run g = Some (current_run_id sub))) \<or>
       (g_scope g = u ''SESSION'' \<and> g_root_session g = Some (root_session_id sub) \<and>
        g_delegation g = u ''ROOT_AND_DESCENDANTS'') \<or>
       (g_scope g = u ''WORKSPACE'' \<and> g_workspace g = Some (workspace_key sub) \<and>
        g_delegation g = u ''ROOT_AND_DESCENDANTS'')))"

definition scope_rank :: "ustring \<Rightarrow> nat" where
  "scope_rank s = (if s = u ''RUN'' then 1 else if s = u ''SESSION'' then 2 else 3)"

text \<open>\<open>ORDER BY\<close> the scope, then the creation time downwards.\<close>

definition order_rows :: "grant_row list \<Rightarrow> grant_row list" where
  "order_rows gs = sort_key (\<lambda>g. scope_rank (g_scope g))
     (rev (sort_key (\<lambda>g. str_key (g_created_at g)) (rev gs)))"

text \<open>The body of the loop over the candidates: \<open>None\<close> is \<open>continue\<close>.\<close>

definition row_match ::
  "crates \<Rightarrow> grant_db \<Rightarrow> authorization_subject \<Rightarrow> operation_descriptor \<Rightarrow> grant_row \<Rightarrow> grant_match option" where
  "row_match cr db sub d g =
     (if g_scope g = u ''RUN'' \<and> root_run_is_terminal db (root_run_id sub) then None
      else (case kind_parse (g_kind g) of
        None \<Rightarrow> None
      | Some k \<Rightarrow>
          (case decode_constraint cr k (g_constraints g) of
             None \<Rightarrow> None
           | Some c \<Rightarrow>
               if matches c d then
                 map_option (\<lambda>s. \<lparr>match_id = g_id g, match_kind = k, match_scope = s\<rparr>)
                   (scope_parse (g_scope g))
               else None)))"

definition find_match_at ::
  "crates \<Rightarrow> grant_db \<Rightarrow> ustring \<Rightarrow> authorization_subject \<Rightarrow> operation_descriptor \<Rightarrow> grant_match option" where
  "find_match_at cr db now sub d =
     first_some (row_match cr db sub d) (order_rows (filter (row_applies now sub d) (grant_rows db)))"

subsection \<open>Insertion\<close>

text \<open>The \<open>CHECK\<close> constraints: of the columns, then the five of the table.\<close>

definition column_checks :: "grant_row \<Rightarrow> bool" where
  "column_checks g =
     (g_kind g \<in> {u ''EXACT_GUARDED'', u ''TOOL_GUARDED'', u ''READ_CAPABILITY'', u ''EDIT_CAPABILITY''} \<and>
      g_scope g \<in> {u ''RUN'', u ''SESSION'', u ''WORKSPACE''} \<and>
      g_delegation g \<in> {u ''DIRECT_ONLY'', u ''ROOT_AND_DESCENDANTS''} \<and>
      g_schema_version g = 1 \<and>
      g_risk g \<in> {u ''SAFE'', u ''GUARDED''} \<and>
      0 \<le> g_version g)"

definition kind_check :: "grant_row \<Rightarrow> bool" where
  "kind_check g =
     ((g_kind g = u ''EXACT_GUARDED'' \<and> g_operation_hash g \<noteq> None \<and> g_capability_hash g = None \<and>
       g_scope g \<in> {u ''RUN'', u ''SESSION''}) \<or>
      (g_kind g = u ''TOOL_GUARDED'' \<and> g_operation_hash g \<noteq> None \<and> g_capability_hash g = None \<and>
       g_scope g \<in> {u ''RUN'', u ''SESSION''}) \<or>
      (g_kind g \<in> {u ''READ_CAPABILITY'', u ''EDIT_CAPABILITY''} \<and>
       g_operation_hash g = None \<and> g_capability_hash g \<noteq> None))"

definition scope_check :: "grant_row \<Rightarrow> bool" where
  "scope_check g =
     ((g_scope g = u ''RUN'' \<and> g_root_run g \<noteq> None \<and> g_root_session g = None \<and> g_workspace g = None) \<or>
      (g_scope g = u ''SESSION'' \<and> g_root_run g = None \<and> g_root_session g \<noteq> None \<and> g_workspace g = None) \<or>
      (g_scope g = u ''WORKSPACE'' \<and> g_root_run g = None \<and> g_root_session g = None \<and> g_workspace g \<noteq> None))"

definition delegation_check :: "grant_row \<Rightarrow> bool" where
  "delegation_check g =
     ((g_delegation g = u ''DIRECT_ONLY'' \<and> g_scope g = u ''RUN'' \<and> g_actor_run g \<noteq> None) \<or>
      (g_delegation g = u ''ROOT_AND_DESCENDANTS'' \<and> g_actor_run g = None))"

definition workspace_checks :: "grant_row \<Rightarrow> bool" where
  "workspace_checks g =
     ((g_scope g \<noteq> u ''WORKSPACE'' \<or>
       g_kind g \<in> {u ''TOOL_GUARDED'', u ''READ_CAPABILITY'', u ''EDIT_CAPABILITY''}) \<and>
      (g_scope g \<noteq> u ''WORKSPACE'' \<or> g_analyzer g \<noteq> u ''bash-v2''))"

definition row_checks :: "grant_row \<Rightarrow> bool" where
  "row_checks g =
     (column_checks g \<and> kind_check g \<and> scope_check g \<and> delegation_check g \<and> workspace_checks g)"

definition coalesce :: "ustring option \<Rightarrow> ustring" where
  "coalesce v = (case v of Some t \<Rightarrow> t | None \<Rightarrow> [])"

text \<open>The columns of the two partial unique indexes, and the condition of each.\<close>

definition index_key :: "grant_row \<Rightarrow> ustring list \<times> int" where
  "index_key g =
     ([g_scope g, coalesce (g_root_run g), coalesce (g_root_session g), coalesce (g_workspace g),
       coalesce (g_actor_run g), g_delegation g, g_analyzer g, g_tool g, g_action g],
      g_schema_version g)"

definition in_exact_index :: "grant_row \<Rightarrow> bool" where
  "in_exact_index g = (g_revoked_at g = None \<and> g_kind g = u ''EXACT_GUARDED'')"

definition in_capability_index :: "grant_row \<Rightarrow> bool" where
  "in_capability_index g =
     (g_revoked_at g = None \<and> g_kind g \<in> {u ''READ_CAPABILITY'', u ''EDIT_CAPABILITY''})"

text \<open>Two rows that a unique index or the primary key does not admit together; a NULL is distinct
  from every value.\<close>

definition conflicts :: "grant_row \<Rightarrow> grant_row \<Rightarrow> bool" where
  "conflicts g h =
     (g_id g = g_id h \<or>
      (in_exact_index g \<and> in_exact_index h \<and> index_key g = index_key h \<and>
       g_operation_hash g \<noteq> None \<and> g_operation_hash g = g_operation_hash h) \<or>
      (in_capability_index g \<and> in_capability_index h \<and> g_kind g = g_kind h \<and>
       index_key g = index_key h \<and>
       g_capability_hash g \<noteq> None \<and> g_capability_hash g = g_capability_hash h))"

definition foreign_keys_ok :: "grant_db \<Rightarrow> grant_row \<Rightarrow> bool" where
  "foreign_keys_ok db g =
     ((case g_root_session g of None \<Rightarrow> True | Some s \<Rightarrow> sessions db s \<noteq> None) \<and>
      (case g_root_run g of None \<Rightarrow> True | Some r \<Rightarrow> runs db r \<noteq> None) \<and>
      (case g_actor_run g of None \<Rightarrow> True | Some r \<Rightarrow> runs db r \<noteq> None) \<and>
      (case g_interaction g of None \<Rightarrow> True | Some i \<Rightarrow> interactions db i \<noteq> None))"

definition is_ephemeral :: "grant_db \<Rightarrow> ustring option \<Rightarrow> bool" where
  "is_ephemeral db s =
     (case Option.bind s (sessions db) of None \<Rightarrow> False | Some row \<Rightarrow> s_retention row = u ''ephemeral'')"

text \<open>The trigger \<open>ephemeral_permission_grant_insert\<close>.\<close>

definition ephemeral_trigger :: "grant_db \<Rightarrow> grant_row \<Rightarrow> bool" where
  "ephemeral_trigger db g =
     (is_ephemeral db (g_root_session g) \<or>
      is_ephemeral db (map_option r_session (Option.bind (g_actor_run g) (runs db))) \<or>
      is_ephemeral db (map_option r_session (Option.bind (g_root_run g) (runs db))) \<or>
      is_ephemeral db (Option.bind (g_interaction g) (interactions db)))"

text \<open>
  \<open>INSERT \<dots> ON CONFLICT DO NOTHING\<close>: the clause covers the uniqueness conflicts only. The result is
  the new table and whether a row was inserted.
\<close>

definition insert_row :: "grant_db \<Rightarrow> grant_row \<Rightarrow> db_error + (grant_db \<times> bool)" where
  "insert_row db g =
     (if ephemeral_trigger db g then Inl (Sqlite (u ''EPHEMERAL_OPERATION_UNSUPPORTED''))
      else if \<not> row_checks g then Inl (Sqlite (u ''CHECK constraint failed''))
      else if list_ex (conflicts g) (grant_rows db) then Inr (db, False)
      else if \<not> foreign_keys_ok db g then Inl (Sqlite (u ''FOREIGN KEY constraint failed''))
      else Inr (db\<lparr>grant_rows := grant_rows db @ [g]\<rparr>, True))"

text \<open>An \<open>UPDATE\<close> that revokes the rows of a condition, and the number of rows it changed.\<close>

definition revoke_where :: "ustring \<Rightarrow> (grant_row \<Rightarrow> bool) \<Rightarrow> grant_db \<Rightarrow> grant_db \<times> nat" where
  "revoke_where now p db =
     (db\<lparr>grant_rows := map (\<lambda>g. if p g then g\<lparr>g_revoked_at := Some now, g_version := g_version g + 1\<rparr> else g)
        (grant_rows db)\<rparr>, length (filter p (grant_rows db)))"

definition exact_identity ::
  "grant_db \<Rightarrow> grant_plan \<Rightarrow> grant_identity \<Rightarrow> operation_descriptor \<Rightarrow> ustring option \<Rightarrow> ustring option \<Rightarrow>
   ustring list" where
  "exact_identity db p i d oh ch =
     map g_id (filter (\<lambda>g.
       g_kind g = kind_as_str (plan_kind p) \<and> g_scope g = scope_as_str (plan_scope p) \<and>
       g_delegation g = delegation_as_str (plan_delegation p) \<and>
       coalesce (g_root_session g) = coalesce (id_session i) \<and>
       coalesce (g_root_run g) = coalesce (id_run i) \<and>
       coalesce (g_actor_run g) = coalesce (id_actor i) \<and>
       coalesce (g_workspace g) = coalesce (id_workspace i) \<and>
       g_schema_version g = authorization_schema_version d \<and> g_analyzer g = analyzer_id d \<and>
       g_tool g = tool_name d \<and> g_action g = op_action d \<and>
       coalesce (g_operation_hash g) = coalesce oh \<and>
       coalesce (g_capability_hash g) = coalesce ch \<and> g_revoked_at g = None) (grant_rows db))"

definition session_retention :: "grant_db \<Rightarrow> ustring \<Rightarrow> db_error + bool" where
  "session_retention db s =
     (case map_option s_retention (sessions db s) of
        None \<Rightarrow> Inl (SessionNotFound s)
      | Some t \<Rightarrow>
          if t = u ''persistent'' then Inr True
          else if t = u ''ephemeral'' then Inr False
          else Inl (Invalid (u ''CONTENT_RETENTION_INVALID'')))"

definition require_persistent_session :: "grant_db \<Rightarrow> ustring \<Rightarrow> db_error + unit" where
  "require_persistent_session db s =
     and_then (session_retention db s)
       (\<lambda>persistent. if persistent then Inr () else Inl (Validation (u ''EPHEMERAL_OPERATION_UNSUPPORTED'')))"

definition capability_hash :: "crates \<Rightarrow> ustring \<Rightarrow> ustring \<Rightarrow> int \<Rightarrow> ustring" where
  "capability_hash cr kind json version =
     sha256_hex cr (kind @ [0] @ json @ [0] @ pad_int 0 version)"

definition exact_kind :: "grant_kind \<Rightarrow> bool" where
  "exact_kind k = (k = ExactGuarded \<or> k = ToolGuarded)"

definition expiry :: "permission_scope \<Rightarrow> int \<Rightarrow> db_error + ustring" where
  "expiry s now_millis = (case s of
     RunScope \<Rightarrow> Inr (format_rfc3339_micros (now_millis + 12 * 3600000))
   | SessionScope \<Rightarrow> Inr (format_rfc3339_micros (now_millis + 12 * 3600000))
   | WorkspaceScope \<Rightarrow> Inr (format_rfc3339_micros (now_millis + 30 * 86400000))
   | OnceScope \<Rightarrow> Inl (Invalid (u ''ONCE is not persisted'')))"

text \<open>The row a plan writes.\<close>

definition planned_row ::
  "crates \<Rightarrow> ustring \<Rightarrow> ustring \<Rightarrow> ustring \<Rightarrow> authorization_subject \<Rightarrow> operation_descriptor \<Rightarrow> grant_plan \<Rightarrow>
   ustring option \<Rightarrow> grant_row" where
  "planned_row cr uuid now expires sub d p interaction =
     (let i = identity sub (plan_scope p) (plan_delegation p);
          text = encode_constraint cr (plan_constraint p) in
      \<lparr>g_id = uuid, g_kind = kind_as_str (plan_kind p), g_scope = scope_as_str (plan_scope p),
       g_delegation = delegation_as_str (plan_delegation p),
       g_root_session = id_session i, g_root_run = id_run i, g_actor_run = id_actor i,
       g_workspace = id_workspace i,
       g_schema_version = authorization_schema_version d, g_analyzer = analyzer_id d,
       g_tool = tool_name d, g_action = op_action d,
       g_effects = to_text cr (JArr (map (\<lambda>e. JStr (effect_as_str e)) (effects d))),
       g_operation_hash = (if exact_kind (plan_kind p) then Some (operation_hash d) else None),
       g_capability_hash = (if exact_kind (plan_kind p) then None
         else Some (capability_hash cr (kind_as_str (plan_kind p)) text (authorization_schema_version d))),
       g_constraints = text, g_risk = risk_as_str (risk d), g_interaction = interaction,
       g_created_at = now, g_expires_at = expires, g_revoked_at = None, g_version = 0\<rparr>)"

definition create_in_tx ::
  "crates \<Rightarrow> grant_db \<Rightarrow> ustring \<Rightarrow> ustring \<Rightarrow> int \<Rightarrow> authorization_subject \<Rightarrow> operation_descriptor \<Rightarrow>
   permission_scope option \<Rightarrow> ustring option \<Rightarrow> db_error + (grant_db \<times> ustring option)" where
  "create_in_tx cr db uuid now now_millis sub d requested interaction =
     and_then (require_persistent_session db (root_session_id sub)) (\<lambda>_.
     (case plan d requested of
        None \<Rightarrow> Inr (db, None)
      | Some p \<Rightarrow>
          let db = fst (revoke_where now
                (\<lambda>g. g_revoked_at g = None \<and> \<not> text_less now (g_expires_at g)) db) in
          and_then (expiry (plan_scope p) now_millis) (\<lambda>expires.
          let g = planned_row cr uuid now expires sub d p interaction in
          and_then (insert_row db g) (\<lambda>(db, inserted).
            if inserted then Inr (db, Some uuid)
            else (case exact_identity db p (identity sub (plan_scope p) (plan_delegation p)) d
                         (g_operation_hash g) (g_capability_hash g) of
              [reused] \<Rightarrow> Inr (db, Some reused)
            | _ \<Rightarrow> Inl (Invalid (u ''GRANT_CREATE_IDENTITY_CONFLICT'')))))))"

text \<open>\<open>create\<close>: the transaction commits only on success.\<close>

definition create ::
  "crates \<Rightarrow> grant_db \<Rightarrow> ustring \<Rightarrow> int \<Rightarrow> authorization_subject \<Rightarrow> operation_descriptor \<Rightarrow>
   permission_scope option \<Rightarrow> ustring option \<Rightarrow> (db_error + ustring option) \<times> grant_db" where
  "create cr db uuid now_millis sub d requested interaction =
     (case create_in_tx cr db uuid (format_rfc3339_micros now_millis) now_millis sub d requested interaction of
        Inl e \<Rightarrow> (Inl e, db)
      | Inr (db', r) \<Rightarrow> (Inr r, db'))"

subsection \<open>Revocation\<close>

definition revoke :: "ustring \<Rightarrow> ustring \<Rightarrow> grant_db \<Rightarrow> grant_db \<times> bool" where
  "revoke now gid db =
     (case revoke_where now (\<lambda>g. g_id g = gid \<and> g_revoked_at g = None) db of
        (db', n) \<Rightarrow> (db', n = 1))"

text \<open>
  \<open>workspace_for_session\<close>: the identity service reads the file system and runs Git; it is a
  parameter, from a directory to its workspace key.
\<close>

definition workspace_for_session ::
  "(ustring \<Rightarrow> authz_error + ustring) \<Rightarrow> grant_db \<Rightarrow> ustring \<Rightarrow> ustring" where
  "workspace_for_session resolve db session =
     (case Option.bind (sessions db session) s_working_dir of
        None \<Rightarrow> []
      | Some root \<Rightarrow> (case resolve root of Inr key \<Rightarrow> key | Inl _ \<Rightarrow> []))"

definition visible_in_session :: "ustring \<Rightarrow> ustring \<Rightarrow> grant_row \<Rightarrow> bool" where
  "visible_in_session session ws g = (g_root_session g = Some session \<or> g_workspace g = Some ws)"

definition revoke_for_session ::
  "(ustring \<Rightarrow> authz_error + ustring) \<Rightarrow> ustring \<Rightarrow> ustring \<Rightarrow> ustring \<Rightarrow> grant_db \<Rightarrow> grant_db \<times> nat" where
  "revoke_for_session resolve now gid session db =
     revoke_where now (\<lambda>g. g_id g = gid \<and> g_revoked_at g = None \<and>
       visible_in_session session (workspace_for_session resolve db session) g) db"

definition revoke_run_scoped :: "ustring \<Rightarrow> ustring \<Rightarrow> grant_db \<Rightarrow> grant_db \<times> nat" where
  "revoke_run_scoped now run db =
     revoke_where now (\<lambda>g. g_scope g = u ''RUN'' \<and> g_root_run g = Some run \<and> g_revoked_at g = None) db"

text \<open>
  The update by \<open>zk-db/src/run.rs\<close> when a run reaches a terminal status: the unrevoked grants scoped to
  a root run are revoked with it. The expiry column is never null, so its \<open>COALESCE\<close> keeps it.
\<close>

definition end_run_grants :: "ustring \<Rightarrow> ustring \<Rightarrow> grant_db \<Rightarrow> grant_db" where
  "end_run_grants now run db = db\<lparr>grant_rows := map (\<lambda>g.
     if g_scope g = u ''RUN'' \<and> g_root_run g = Some run \<and> g_revoked_at g = None \<and>
        (case runs db run of None \<Rightarrow> False | Some r \<Rightarrow> r_parent r = None)
     then g\<lparr>g_revoked_at := Some now\<rparr> else g) (grant_rows db)\<rparr>"

record grant_view =
  view_id :: ustring
  view_kind :: ustring
  view_scope :: ustring
  view_tool :: ustring
  view_action :: ustring
  view_summary :: ustring
  view_created_at :: ustring
  view_expires_at :: ustring

definition view_of :: "grant_row \<Rightarrow> grant_view" where
  "view_of g = \<lparr>view_id = g_id g, view_kind = g_kind g, view_scope = g_scope g, view_tool = g_tool g,
     view_action = g_action g, view_summary = g_constraints g, view_created_at = g_created_at g,
     view_expires_at = g_expires_at g\<rparr>"

definition list_active_for_session ::
  "(ustring \<Rightarrow> authz_error + ustring) \<Rightarrow> ustring \<Rightarrow> ustring \<Rightarrow> int \<Rightarrow> grant_db \<Rightarrow> grant_view list" where
  "list_active_for_session resolve now session requested db =
     map view_of (take (nat (min 500 (max 1 requested)))
       (rev (sort_key (\<lambda>g. str_key (g_created_at g)) (rev
         (filter (\<lambda>g. g_revoked_at g = None \<and> text_less now (g_expires_at g) \<and>
            visible_in_session session (workspace_for_session resolve db session) g) (grant_rows db))))))"

end
