(* ===== verification/Authz_Paths.thy ===== *)
theory Authz_Paths
  imports Authz_Constraint
begin

section \<open>Paths\<close>

text \<open>
  The lexical path operations of \<open>std::path\<close> on Unix the authorization crate uses, and
  \<open>absolute_normalized\<close> of \<open>crates/zk-authz/src/workspace.rs\<close>. A normalized absolute path is the list
  of its components. The current directory of the process is the parameter \<open>cwd\<close>.
\<close>

type_synonym path = "ustring list"

definition is_absolute :: "ustring \<Rightarrow> bool" where
  "is_absolute p = starts_with p [slash]"

text \<open>\<open>Path::join\<close>: an absolute argument replaces the base.\<close>

definition path_join :: "ustring \<Rightarrow> ustring \<Rightarrow> ustring" where
  "path_join base p =
     (if is_absolute p then p
      else if base = [] \<or> ends_with base [slash] then base @ p
      else base @ [slash] @ p)"

text \<open>\<open>Path::components\<close> without the root: empty and current-directory components are skipped.\<close>

definition path_components :: "ustring \<Rightarrow> ustring list" where
  "path_components p = filter (\<lambda>c. c \<noteq> [] \<and> c \<noteq> u ''.'') (str_split slash p)"

text \<open>The loop: a parent component pops, which does nothing at the root.\<close>

definition normalize_components :: "ustring list \<Rightarrow> path" where
  "normalize_components cs = fold (\<lambda>c out. if c = u ''..'' then butlast out else out @ [c]) cs []"

definition absolute_normalized :: "ustring \<Rightarrow> ustring \<Rightarrow> path" where
  "absolute_normalized cwd p =
     normalize_components (path_components (if is_absolute p then p else path_join cwd p))"

text \<open>\<open>Path::starts_with\<close> and \<open>Path::strip_prefix\<close> compare whole components.\<close>

definition path_starts_with :: "path \<Rightarrow> path \<Rightarrow> bool" where
  "path_starts_with p root = (take (length root) p = root)"

text \<open>The text of a normalized path, and of a relative one.\<close>

fun join_slash :: "ustring list \<Rightarrow> ustring" where
  "join_slash [] = []"
| "join_slash [c] = c"
| "join_slash (c # cs) = c @ [slash] @ join_slash cs"

definition path_text :: "path \<Rightarrow> ustring" where
  "path_text p = [slash] @ join_slash p"

text \<open>A component that names an entry.\<close>

definition entry :: "ustring \<Rightarrow> bool" where
  "entry c = (c \<noteq> [] \<and> c \<noteq> u ''.'' \<and> c \<noteq> u ''..'' \<and> slash \<notin> set c)"

lemma normalize_loop_entries:
  assumes "list_all entry out" "list_all (\<lambda>c. c \<noteq> [] \<and> c \<noteq> u ''.'' \<and> slash \<notin> set c) cs"
  shows "list_all entry (fold (\<lambda>c out. if c = u ''..'' then butlast out else out @ [c]) cs out)"
  using assms
proof (induction cs arbitrary: out)
  case (Cons c cs)
  have "list_all entry (if c = u ''..'' then butlast out else out @ [c])"
    using Cons.prems by (auto simp: list_all_iff entry_def dest: in_set_butlastD)
  with Cons show ?case by simp
qed simp

lemma path_components_entries:
  "list_all (\<lambda>c. c \<noteq> [] \<and> c \<noteq> u ''.'' \<and> slash \<notin> set c) (path_components p)"
  using str_split_member [of _ slash p] by (auto simp: path_components_def list_all_iff)

lemma absolute_normalized_entries: "list_all entry (absolute_normalized cwd p)"
  unfolding absolute_normalized_def normalize_components_def
  by (intro normalize_loop_entries) (simp_all only: list.pred_inject path_components_entries)

lemma normalize_entries: "list_all entry cs \<Longrightarrow> normalize_components cs = cs"
proof -
  have "list_all entry cs \<Longrightarrow>
      fold (\<lambda>c out. if c = u ''..'' then butlast out else out @ [c]) cs out = out @ cs" for out
    by (induction cs arbitrary: out) (auto simp: entry_def)
  then show "list_all entry cs \<Longrightarrow> normalize_components cs = cs"
    by (simp add: normalize_components_def)
qed

lemma split_join_slash:
  "list_all (\<lambda>c. slash \<notin> set c) cs \<Longrightarrow> cs \<noteq> [] \<Longrightarrow> str_split slash (join_slash cs) = cs"
  by (induction cs rule: join_slash.induct) (auto simp: str_split_single str_split_app)

lemma path_components_text:
  assumes "list_all entry p"
  shows "path_components (path_text p) = p"
proof (cases "p = []")
  case True
  then show ?thesis by (simp add: path_components_def path_text_def)
next
  case False
  have "str_split slash (path_text p) = [] # str_split slash (join_slash p)"
    by (simp add: path_text_def)
  also have "str_split slash (join_slash p) = p"
    using assms False by (intro split_join_slash) (auto simp: list_all_iff entry_def)
  finally show ?thesis
    using assms by (auto simp: path_components_def filter_id_conv list_all_iff entry_def)
qed

text \<open>Normalization is idempotent through the text.\<close>

lemma absolute_normalized_text:
  "list_all entry p \<Longrightarrow> absolute_normalized cwd (path_text p) = p"
  by (simp add: absolute_normalized_def is_absolute_def path_text_def [symmetric] path_components_text
      normalize_entries) (simp add: path_text_def)

lemma path_starts_with_iff: "path_starts_with p root \<longleftrightarrow> (\<exists>r. p = root @ r)"
  unfolding path_starts_with_def by (metis append_eq_conv_conj append_take_drop_id)

end
