(* ===== verification/Authz_Service.thy ===== *)
theory Authz_Service
  imports Authz_Grants Authz_Paths
begin

section \<open>The authorization decision\<close>

text \<open>
  \<open>crates/zk-authz/src/service.rs\<close> and the interaction types of \<open>interaction.rs\<close>.

  A decision is asynchronous: between its steps other tasks change the mode, the grants and the
  interaction. The record \<open>readings\<close> holds what each call of one decision returns, each read on its
  own, so a theorem over all readings covers every interleaving. The Boolean probes are functions:
  the trust of a workspace, and the scratchpad test, which resolves symbolic links in the file
  system. A decision returns its result and the events it appends to the run log.
\<close>

subsection \<open>Interactions\<close>

definition PROTOCOL_VERSION :: int where
  "PROTOCOL_VERSION = 3"

datatype interaction_type = PermissionInteraction | Elicitation | PlanApproval

datatype interaction_status = Pending | Answered | Denied | Expired | Cancelled | Undeliverable

definition status_as_str :: "interaction_status \<Rightarrow> ustring" where
  "status_as_str s = (case s of
     Pending \<Rightarrow> u ''PENDING'' | Answered \<Rightarrow> u ''ANSWERED'' | Denied \<Rightarrow> u ''DENIED''
   | Expired \<Rightarrow> u ''EXPIRED'' | Cancelled \<Rightarrow> u ''CANCELLED'' | Undeliverable \<Rightarrow> u ''UNDELIVERABLE'')"

definition is_terminal :: "interaction_status \<Rightarrow> bool" where
  "is_terminal s = (s \<noteq> Pending)"

definition denial_code :: "interaction_status \<Rightarrow> ustring" where
  "denial_code s = (case s of
     Denied \<Rightarrow> u ''PERMISSION_USER_DENIED''
   | Expired \<Rightarrow> u ''INTERACTION_EXPIRED''
   | Cancelled \<Rightarrow> u ''INTERACTION_CANCELLED''
   | Undeliverable \<Rightarrow> u ''PERMISSION_UNDELIVERABLE''
   | Pending \<Rightarrow> u ''PERMISSION_NOT_GRANTED''
   | Answered \<Rightarrow> u ''PERMISSION_NOT_GRANTED'')"

record interaction_record =
  ir_id :: ustring
  ir_correlation_key :: ustring
  ir_session_id :: ustring
  ir_run_id :: ustring
  ir_kind :: interaction_type
  ir_status :: interaction_status
  ir_prompt_json :: ustring
  ir_allowed_decisions_json :: ustring
  ir_scope_options_json :: ustring
  ir_response_json :: "ustring option"
  ir_created_at :: ustring
  ir_delivery_window_ends_at :: ustring
  ir_first_dispatched_at :: "ustring option"
  ir_delivery_ack_deadline_at :: "ustring option"
  ir_received_at :: "ustring option"
  ir_decision_deadline_at :: "ustring option"
  ir_decided_at :: "ustring option"
  ir_terminal_reason :: "ustring option"
  ir_source :: ustring
  ir_child_session_id :: "ustring option"
  ir_delivery_generation :: int
  ir_dispatch_attempts :: int
  ir_last_transport_id :: "ustring option"
  ir_authorization_context_json :: "ustring option"
  ir_updated_at :: ustring
  ir_version :: int

record decision_option =
  option_id :: ustring
  decision :: ustring
  option_scope :: ustring

record interaction_context =
  ic_protocol_version :: int
  ic_tool_use_id :: ustring
  ic_execution_attempt_id :: ustring
  ic_input_hash :: ustring
  ic_operation_hash :: ustring
  ic_subject :: authorization_subject
  ic_operation :: operation_descriptor
  ic_options :: "decision_option list"

record interaction_spec =
  is_correlation_key :: ustring
  is_root_session_id :: ustring
  is_run_id :: "ustring option"
  is_prompt :: json_object
  is_allowed_decisions :: "ustring list"
  is_scope_options :: "ustring list"
  is_source :: ustring
  is_context :: interaction_context

subsection \<open>Rules on descriptors\<close>

definition PRIVATE_TMP_ROOT :: path where
  "PRIVATE_TMP_ROOT = [u ''private'', u ''tmp'']"

text \<open>
  \<open>to_uppercase\<close> maps a character to its full Unicode upper case. The fragments searched are ASCII,
  so only the characters whose upper case holds an ASCII letter matter: the small ASCII letters and
  the special ones below. Every other character is left as it is.
\<close>

definition upper_unit :: "nat \<Rightarrow> nat list" where
  "upper_unit c =
     (if 97 \<le> c \<and> c \<le> 122 then [c - 32]
      else if c = 0x131 then u ''I''
      else if c = 0x17F then u ''S''
      else if c = 0xDF then u ''SS''
      else if c = 0x149 then [0x2BC, uc CHR ''N'']
      else if c = 0x1F0 then [uc CHR ''J'', 0x30C]
      else if c = 0x1E96 then [uc CHR ''H'', 0x331]
      else if c = 0x1E97 then [uc CHR ''T'', 0x308]
      else if c = 0x1E98 then [uc CHR ''W'', 0x30A]
      else if c = 0x1E99 then [uc CHR ''Y'', 0x30A]
      else if c = 0x1E9A then [uc CHR ''A'', 0x2BE]
      else if c = 0xFB00 then u ''FF''
      else if c = 0xFB01 then u ''FI''
      else if c = 0xFB02 then u ''FL''
      else if c = 0xFB03 then u ''FFI''
      else if c = 0xFB04 then u ''FFL''
      else if c = 0xFB05 then u ''ST''
      else if c = 0xFB06 then u ''ST''
      else [c])"

definition sensitive_name :: "ustring \<Rightarrow> bool" where
  "sensitive_name v =
     (let upper = concat (map upper_unit v) in
      list_ex (contains_sub upper) [u ''TOKEN'', u ''SECRET'', u ''PASSWORD'', u ''API_KEY'',
        u ''PRIVATE_KEY'', u ''CREDENTIAL''])"

definition invariant :: "operation_descriptor \<Rightarrow> authz_error + unit" where
  "invariant d =
     (if list_ex (\<lambda>r. 0 \<in> set (res_value r)) (resources d) then
        Inl (authz_err (u ''AUTHORIZATION_INVARIANT_DENIED'') (u ''Resource contains invalid characters''))
      else if list_ex sensitive_name (inherited_environment_names d) then
        Inl (authz_err (u ''SENSITIVE_ENVIRONMENT_ACCESS'')
          (u ''Sensitive environment access is not reusable''))
      else Inr ())"

definition is_ordinary_file_operation :: "operation_descriptor \<Rightarrow> bool" where
  "is_ordinary_file_operation d =
     (if tool_name d = u ''Read'' then
        op_action d = file_op_as_str ReadFile \<and> effects d = [ReadResource]
      else if tool_name d = u ''Write'' then
        op_action d = file_op_as_str ReplaceFile \<and> effects d = [WriteResource]
      else if tool_name d = u ''Edit'' \<or> tool_name d = u ''NotebookEdit'' then
        op_action d = file_op_as_str PatchFile \<and> effects d = [WriteResource]
      else False)"

text \<open>The path a resource names, as the trusted-scope rules resolve it.\<close>

definition resource_target :: "ustring \<Rightarrow> authorization_subject \<Rightarrow> resource_ref \<Rightarrow> path" where
  "resource_target cwd s r =
     absolute_normalized cwd
       (if is_absolute (res_value r) then res_value r
        else path_join (authorization_root s) (res_value r))"

definition is_trusted_ordinary_file_operation ::
  "ustring \<Rightarrow> (ustring \<Rightarrow> bool) \<Rightarrow> authorization_subject \<Rightarrow> operation_descriptor \<Rightarrow> (path \<Rightarrow> bool) \<Rightarrow> bool" where
  "is_trusted_ordinary_file_operation cwd trust s d contains_target =
     (if analyzer_id d \<noteq> u ''file-v1'' \<or> risk d = High \<or> \<not> is_ordinary_file_operation d \<or>
         resources d = [] then False
      else if list_ex (\<lambda>r. res_kind r \<noteq> u ''path'' \<or> rust_trim (res_value r) = [] \<or> 0 \<in> set (res_value r) \<or>
                 \<not> contains_target (resource_target cwd s r)) (resources d) then False
      else trust (authorization_root s))"

definition is_trusted_private_tmp_file_operation ::
  "ustring \<Rightarrow> (ustring \<Rightarrow> bool) \<Rightarrow> authorization_subject \<Rightarrow> operation_descriptor \<Rightarrow> bool" where
  "is_trusted_private_tmp_file_operation cwd trust s d =
     is_trusted_ordinary_file_operation cwd trust s d (\<lambda>t. path_starts_with t PRIVATE_TMP_ROOT)"

definition is_trusted_project_file_write ::
  "authorization_subject \<Rightarrow> operation_descriptor \<Rightarrow> (ustring \<Rightarrow> bool) \<Rightarrow> bool" where
  "is_trusted_project_file_write s d trust =
     (analyzer_id d = u ''file-v1'' \<and> risk d = Guarded \<and> effects d = [WriteResource] \<and>
      resources d \<noteq> [] \<and> \<not> list_ex outside_workspace (resources d) \<and> trust (authorization_root s))"

definition options_of :: "permission_scope list \<Rightarrow> decision_option list" where
  "options_of scopes =
     [\<lparr>option_id = u ''allow_once'', decision = u ''allow'', option_scope = u ''once''\<rparr>] @
     map (\<lambda>s. \<lparr>option_id = u ''allow_'' @ scope_lowercase s, decision = u ''allow'',
               option_scope = scope_lowercase s\<rparr>) scopes @
     [\<lparr>option_id = u ''deny'', decision = u ''deny'', option_scope = u ''once''\<rparr>]"

definition reason_of :: "operation_descriptor \<Rightarrow> ustring" where
  "reason_of d = (case risk d of
     SafeRisk \<Rightarrow> u ''Read access requires confirmation''
   | Guarded \<Rightarrow> u ''This operation can modify or inspect workspace resources''
   | High \<Rightarrow> u ''This operation has external, control-plane, or unbounded effects'')"

definition remember_scope_description :: "operation_descriptor \<Rightarrow> ustring option" where
  "remember_scope_description d =
     (if analyzer_id d = u ''hook-v1'' then Some (u (''Saved permission applies only to this exact Hook declaration, '' @
        ''configuration source, physical working root and execution environment. '' @
        ''Editing execution semantics requires approval again. '' @
        ''This does not sandbox commands or their dependencies.''))
      else if analyzer_id d = u ''network-v1'' then Some (u ''Saved permission applies to '' @ tool_name d @
        u ('' only; URL and input values may change. Other network tools remain separate. '' @
           ''Run/session limits follow the selected option, and saved grants expire within 12 hours.''))
      else if analyzer_id d = u ''mcp-v1'' then Some (u ''Saved permission applies to MCP tool '' @ tool_name d @
        u ('' only; input values may change. Other MCP tools remain separate. '' @
           ''Run/session limits follow the selected option, and saved grants expire within 12 hours.''))
      else None)"

definition response_of :: "crates \<Rightarrow> interaction_record \<Rightarrow> authz_error + json_object" where
  "response_of cr r =
     (let invalid = Inl (authz_err (u ''INTERACTION_PROTOCOL_INVALID'') (u ''Invalid permission response'')) in
      case ir_response_json r of
        None \<Rightarrow> invalid
      | Some body \<Rightarrow> (case from_text cr body of Some (JObj m) \<Rightarrow> Inr m | _ \<Rightarrow> invalid))"

subsection \<open>Denial events\<close>

definition record_denial ::
  "tool_use_context \<Rightarrow> authorization_subject \<Rightarrow> operation_descriptor \<Rightarrow> ustring \<Rightarrow> diagnostic_source \<Rightarrow>
   evaluation_stage \<Rightarrow> ustring \<Rightarrow> run_event list" where
  "record_denial ctx s d attempt src stage code =
     (case ctx_run_id ctx of
        None \<Rightarrow> []
      | Some run \<Rightarrow>
          [\<lparr>event_run = run, event_type = u ''authorization_denied'', event_tool_use = tool_use_id ctx,
            event_payload = payload s d ctx attempt DenyOutcome stage src code None None None\<rparr>])"

definition record_analysis_failure ::
  "tool_use_context \<Rightarrow> authorization_subject \<Rightarrow> ustring \<Rightarrow> ustring \<Rightarrow> ustring \<Rightarrow> ustring \<Rightarrow> run_event list" where
  "record_analysis_failure ctx s name hash attempt code =
     (case ctx_run_id ctx of
        None \<Rightarrow> []
      | Some run \<Rightarrow>
          [\<lparr>event_run = run, event_type = u ''authorization_denied'', event_tool_use = tool_use_id ctx,
            event_payload = analysis_failure s name hash ctx attempt code\<rparr>])"

definition record_final_denial ::
  "authorized_operation \<Rightarrow> tool_use_context \<Rightarrow> ustring \<Rightarrow> run_event list" where
  "record_final_denial a ctx code =
     record_denial ctx (auth_subject a) (descriptor a) (execution_attempt_id a) InvariantSource FinalRecheck code"

subsection \<open>What the calls return\<close>

record readings =
  rd_cwd :: ustring
  rd_mode :: permission_mode
  rd_grant :: "authz_error + grant_match option"
  rd_trust :: "ustring \<Rightarrow> bool"
  rd_scratchpad :: "path \<Rightarrow> bool"
  rd_existing :: "authz_error + interaction_record option"
  rd_created :: "interaction_spec \<Rightarrow> authz_error + interaction_record"
  rd_terminal :: "ustring \<Rightarrow> authz_error + interaction_status"
  rd_by_id :: "ustring \<Rightarrow> authz_error + interaction_record option"
  rd_latest_mode :: permission_mode
  rd_latest_grant :: "authz_error + grant_match option"
  rd_remembered :: "authz_error + grant_match option"

text \<open>The interaction the service opens.\<close>

definition prompt_of ::
  "ustring \<Rightarrow> ustring \<Rightarrow> operation_descriptor \<Rightarrow> json_object" where
  "prompt_of name use_id d =
     (let scopes = supported_scopes d;
          option_json = (\<lambda>opt. json_obj [(u ''optionId'', JStr (option_id opt)),
            (u ''decision'', JStr (decision opt)), (u ''scope'', JStr (option_scope opt))]);
          base = json_set (set_fields [(''toolName'', name), (''toolUseId'', use_id),
              (''reason'', reason_of d), (''riskLevel'', ascii_lower (risk_as_str (risk d))),
              (''inputSummary'', redacted_summary d), (''operationHash'', operation_hash d)])
            (u ''options'') (JArr (map option_json (options_of scopes)))
      in if scopes \<noteq> [] then opt_field (u ''rememberScopeDescription'') (remember_scope_description d) base
         else base)"

definition spec_of ::
  "ustring \<Rightarrow> ustring \<Rightarrow> tool_use_context \<Rightarrow> authorization_subject \<Rightarrow> operation_descriptor \<Rightarrow> ustring \<Rightarrow>
   interaction_spec" where
  "spec_of name hash ctx s d attempt =
     (let use_id = tool_use_id_or ctx name; scopes = supported_scopes d in
      \<lparr>is_correlation_key = u ''permission-v3:'' @ use_id @ u '':'' @ operation_hash d,
       is_root_session_id = root_session_id s, is_run_id = ctx_run_id ctx,
       is_prompt = prompt_of name use_id d,
       is_allowed_decisions = [u ''allow'', u ''deny''],
       is_scope_options = map scope_lowercase scopes,
       is_source = (if root_run_id s = current_run_id s then u ''direct'' else u ''descendant''),
       is_context = \<lparr>ic_protocol_version = PROTOCOL_VERSION, ic_tool_use_id = use_id,
         ic_execution_attempt_id = attempt, ic_input_hash = hash, ic_operation_hash = operation_hash d,
         ic_subject = s, ic_operation = d, ic_options = options_of scopes\<rparr>\<rparr>)"

text \<open>A decision: the result and the events appended.\<close>

type_synonym decision_result = "(authz_error + authorized_operation) \<times> run_event list"

text \<open>\<open>request?\<close> in a decision: an error of a call returns without an event.\<close>

definition ask :: "authz_error + 'a \<Rightarrow> ('a \<Rightarrow> decision_result) \<Rightarrow> decision_result" where
  "ask r f = (case r of Inl e \<Rightarrow> (Inl e, []) | Inr x \<Rightarrow> f x)"

lemma ask_simps [simp]: "ask (Inl e) f = (Inl e, [])" "ask (Inr x) f = f x"
  by (simp_all add: ask_def)

lemma fst_ask_Inr: "fst (ask r f) = Inr a \<longleftrightarrow> (\<exists>x. r = Inr x \<and> fst (f x) = Inr a)"
  by (cases r) auto

definition format_status :: "interaction_status \<Rightarrow> ustring" where
  "format_status s = u ''Permission interaction ended with '' @ status_as_str s"

text \<open>The end of an interaction, from the answered row on.\<close>

definition conclude ::
  "crates \<Rightarrow> readings \<Rightarrow> json \<Rightarrow> tool_use_context \<Rightarrow> authorization_subject \<Rightarrow> operation_descriptor \<Rightarrow> ustring \<Rightarrow>
   interaction_record \<Rightarrow> decision_result" where
  "conclude cr rd input ctx s d attempt request =
     ask (response_of cr request) (\<lambda>response.
     if json_get response (u ''operationHash'') \<noteq> Some (JStr (operation_hash d)) then
       (Inl (authz_err (u ''PERMISSION_PROTOCOL_MISMATCH'')
          (u ''Permission response does not match this operation'')), [])
     else
       let remember = (json_get response (u ''remember'') = Some (JBool True)) in
       if risk d = High \<and> remember then
         (Inl (authz_err (u ''PERMISSION_HIGH_RISK_NOT_REMEMBERABLE'')
            (u ''HIGH risk operations cannot be remembered'')), [])
       else
         ask (if rd_latest_mode rd = PlanMode then Inr (Some (u ''PLAN_MODE_EFFECT_DENIED''))
              else if rd_latest_mode rd = DontAsk then
                (if risk d = High then Inr (Some (u ''PERMISSION_INTERACTION_REQUIRED''))
                 else map_ok (\<lambda>g. if g = None then Some (u ''PERMISSION_INTERACTION_REQUIRED'') else None)
                        (rd_latest_grant rd))
              else Inr None) (\<lambda>denied_code.
         case denied_code of
           Some code \<Rightarrow>
             (Inl (authz_err code (u ''Permission mode changed while awaiting approval'')),
              record_denial ctx s d attempt PolicySource InteractionStage code)
         | None \<Rightarrow>
             if remember then
               ask (rd_remembered rd) (\<lambda>found. case found of
                 None \<Rightarrow>
                   (Inl (authz_err (u ''PERMISSION_GRANT_NOT_COMMITTED'')
                      (u ''The remembered permission decision has no matching grant'')), [])
               | Some m \<Rightarrow>
                   (Inr \<lparr>auth_subject = s, descriptor = d, execution_input = input,
                      auth_source = GrantSource, reason_code = u ''USER_REMEMBERED_GRANT'',
                      auth_grant_id = Some (match_id m), auth_grant_scope = Some (match_scope m),
                      interaction_id = Some (ir_id request), execution_attempt_id = attempt\<rparr>, []))
             else
               (Inr \<lparr>auth_subject = s, descriptor = d, execution_input = input,
                  auth_source = UserOnce, reason_code = u ''USER_APPROVED_ONCE'',
                  auth_grant_id = None, auth_grant_scope = None,
                  interaction_id = Some (ir_id request), execution_attempt_id = attempt\<rparr>, [])))"

definition interact ::
  "crates \<Rightarrow> readings \<Rightarrow> ustring \<Rightarrow> ustring \<Rightarrow> json \<Rightarrow> tool_use_context \<Rightarrow> authorization_subject \<Rightarrow>
   operation_descriptor \<Rightarrow> ustring \<Rightarrow> decision_result" where
  "interact cr rd name hash input ctx s d attempt =
     ask (rd_existing rd) (\<lambda>existing.
     ask (case existing of
            Some request \<Rightarrow> Inr request
          | None \<Rightarrow> rd_created rd (spec_of name hash ctx s d attempt)) (\<lambda>request.
     ask (if ir_status request = Pending then rd_terminal rd (ir_id request) else Inr (ir_status request)) (\<lambda>status.
     ask (rd_by_id rd (ir_id request)) (\<lambda>found. case found of
       None \<Rightarrow>
         (Inl (authz_err (u ''INTERACTION_PROTOCOL_INVALID'')
            (u ''The permission interaction row disappeared'')), [])
     | Some request \<Rightarrow>
         if status \<noteq> Answered then
           (Inl (authz_err (denial_code status) (format_status status)),
            record_denial ctx s d attempt PolicySource InteractionStage (denial_code status))
         else conclude cr rd input ctx s d attempt request))))"

subsection \<open>The chain of decisions\<close>

text \<open>The \<open>allow\<close> closure of the source, without a grant or an interaction.\<close>

definition allow ::
  "authorization_subject \<Rightarrow> operation_descriptor \<Rightarrow> json \<Rightarrow> ustring \<Rightarrow> diagnostic_source \<Rightarrow> string \<Rightarrow> decision_result" where
  "allow s d input attempt src reason =
     (Inr \<lparr>auth_subject = s, descriptor = d, execution_input = input, auth_source = src,
        reason_code = u reason, auth_grant_id = None, auth_grant_scope = None, interaction_id = None,
        execution_attempt_id = attempt\<rparr>, [])"

definition deny ::
  "tool_use_context \<Rightarrow> authorization_subject \<Rightarrow> operation_descriptor \<Rightarrow> ustring \<Rightarrow> string \<Rightarrow> string \<Rightarrow> string \<Rightarrow> decision_result" where
  "deny ctx s d attempt event code message =
     (Inl (authz_err (u code) (u message)),
      record_denial ctx s d attempt PolicySource InitialStage (u event))"

abbreviation deny_plan where
  "deny_plan ctx s d attempt \<equiv>
     deny ctx s d attempt ''PLAN_MODE_EFFECT_DENIED'' ''PLAN_MODE_EFFECT_DENIED''
       ''Plan mode does not permit this operation''"

abbreviation deny_dont_ask where
  "deny_dont_ask ctx s d attempt \<equiv>
     deny ctx s d attempt ''INTERACTION_DISABLED'' ''PERMISSION_INTERACTION_REQUIRED''
       ''The operation needs explicit permission, but this session is non-interactive''"

definition scratchpad_trusted :: "readings \<Rightarrow> authorization_subject \<Rightarrow> operation_descriptor \<Rightarrow> bool" where
  "scratchpad_trusted rd s d =
     is_trusted_ordinary_file_operation (rd_cwd rd) (rd_trust rd) s d (rd_scratchpad rd)"

definition private_tmp_trusted :: "readings \<Rightarrow> authorization_subject \<Rightarrow> operation_descriptor \<Rightarrow> bool" where
  "private_tmp_trusted rd s d = is_trusted_private_tmp_file_operation (rd_cwd rd) (rd_trust rd) s d"

text \<open>Steps 5 to 14, reached when no grant matched.\<close>

definition decide_policies ::
  "crates \<Rightarrow> readings \<Rightarrow> permission_mode \<Rightarrow> ustring \<Rightarrow> ustring \<Rightarrow> json \<Rightarrow> tool_use_context \<Rightarrow>
   authorization_subject \<Rightarrow> operation_descriptor \<Rightarrow> ustring \<Rightarrow> decision_result" where
  "decide_policies cr rd mode name hash input ctx s d attempt =
     (let ok = allow s d input attempt; read = (effects d = [ReadResource]) in
      if read \<and> scratchpad_trusted rd s d then ok PolicySource ''SYSTEM_SCRATCHPAD_SCOPE''
      else if read \<and> private_tmp_trusted rd s d then ok PolicySource ''PRIVATE_TMP_FILE_SCOPE''
      else if analyzer_id d = u ''file-v1'' \<and> risk d = SafeRisk \<and> effects d = [ReadResource] then
        ok ModeSource ''SAFE_READ_AUTO''
      else if mode = PlanMode then deny_plan ctx s d attempt
      else if \<not> read \<and> scratchpad_trusted rd s d then ok PolicySource ''SYSTEM_SCRATCHPAD_SCOPE''
      else if \<not> read \<and> private_tmp_trusted rd s d then ok PolicySource ''PRIVATE_TMP_FILE_SCOPE''
      else if is_trusted_project_file_write s d (rd_trust rd) then ok PolicySource ''PROJECT_FILE_SCOPE''
      else if mode = DontAsk then deny_dont_ask ctx s d attempt
      else if mode = AcceptEdits \<and> analyzer_id d = u ''file-v1'' \<and> risk d \<noteq> High \<and>
              \<not> list_ex outside_workspace (resources d) \<and> effects d = [WriteResource] then
        ok ModeSource ''ACCEPT_EDITS''
      else interact cr rd name hash input ctx s d attempt)"

text \<open>
  \<open>bind\<close> is \<open>bind_execution_input\<close> of the analyzer registry; \<open>mode_override\<close> is the mode of a
  request-local authorization.
\<close>

definition authorize_prepared_with_mode ::
  "crates \<Rightarrow> readings \<Rightarrow> (operation_descriptor \<Rightarrow> json \<Rightarrow> authorization_subject \<Rightarrow> json option) \<Rightarrow> ustring \<Rightarrow>
   ustring \<Rightarrow> json \<Rightarrow> tool_use_context \<Rightarrow> prepared_operation \<Rightarrow> permission_mode option \<Rightarrow> decision_result" where
  "authorize_prepared_with_mode cr rd bind name hash input ctx prepared mode_override =
     (let s = prepared_subject prepared; d = prepared_descriptor prepared;
          attempt = prepared_attempt_id prepared;
          input = (case bind d input s of Some bound \<Rightarrow> bound | None \<Rightarrow> input);
          ok = allow s d input attempt
      in
      if effects d = [SafeInternal] then ok PolicySource ''BUILTIN_SAFE''
      else
        let mode = (case mode_override of Some m \<Rightarrow> m | None \<Rightarrow> rd_mode rd) in
        if mode = AutoApprove then ok ModeSource ''AUTO_APPROVE''
        else if risk d = High then
          (if mode = PlanMode then deny_plan ctx s d attempt
           else if mode = DontAsk then deny_dont_ask ctx s d attempt
           else interact cr rd name hash input ctx s d attempt)
        else if mode \<noteq> PlanMode then
          ask (rd_grant rd) (\<lambda>found. case found of
            Some m \<Rightarrow>
              (Inr \<lparr>auth_subject = s, descriptor = d, execution_input = input,
                 auth_source = GrantSource, reason_code = u ''GRANT_MATCH'',
                 auth_grant_id = Some (match_id m), auth_grant_scope = Some (match_scope m),
                 interaction_id = None, execution_attempt_id = attempt\<rparr>, [])
          | None \<Rightarrow> decide_policies cr rd mode name hash input ctx s d attempt)
        else decide_policies cr rd mode name hash input ctx s d attempt)"

end
