(* ===== verification/Authz_PathSecurity.thy ===== *)
theory Authz_PathSecurity
  imports Authz_Paths
begin

section \<open>Path security\<close>

text \<open>
  \<open>crates/zk-authz/src/path_security.rs\<close> and the protected names of
  \<open>crates/zk-core/src/protected_paths.rs\<close> and \<open>paths.rs\<close>. The file system is the record \<open>fs\<close>: which
  paths exist (\<open>symlink_metadata\<close>), which are symbolic links, and the real path of a path
  (\<open>canonicalize\<close>); the home directory and the current directory come from the environment. The host
  is Unix, where the Windows bypass check of the source returns at once.
\<close>

record fs =
  fs_exists :: "path \<Rightarrow> bool"
  fs_is_symlink :: "path \<Rightarrow> bool"
  fs_canonicalize :: "path \<Rightarrow> path option"
  fs_cwd :: ustring
  fs_home :: ustring

subsection \<open>Protected names\<close>

definition CONFIG_DIR_NAME :: ustring where "CONFIG_DIR_NAME = u ''.zk''"
definition LEGACY_CONFIG_DIR_NAME :: ustring where "LEGACY_CONFIG_DIR_NAME = u ''.zhikun''"
definition CONFIG_FILE_NAME :: ustring where "CONFIG_FILE_NAME = u ''.zk.json''"
definition LEGACY_CONFIG_FILE_NAME :: ustring where "LEGACY_CONFIG_FILE_NAME = u ''.zhikun.json''"

definition DANGEROUS_FILES :: "ustring list" where
  "DANGEROUS_FILES =
     map u [''.gitconfig'', ''.gitmodules'', ''.bashrc'', ''.bash_profile'', ''.bash_login'',
       ''.bash_logout'', ''.zshrc'', ''.zprofile'', ''.zshenv'', ''.zlogin'', ''.profile'', ''.login'',
       ''.ripgreprc'', ''.env'', ''.env.local'', ''.env.production'', ''.mcp.json''] @
     [CONFIG_FILE_NAME, LEGACY_CONFIG_FILE_NAME] @
     map u [''.npmrc'', ''.yarnrc'', ''id_rsa'', ''id_ed25519'', ''id_ecdsa'', ''known_hosts'',
       ''authorized_keys'', ''.pgpass'', ''.my.cnf'', ''.netrc'', ''.curlrc'', ''credentials'',
       ''token.json'']"

definition DANGEROUS_DIRECTORIES :: "ustring list" where
  "DANGEROUS_DIRECTORIES =
     map u [''.git'', ''.vscode'', ''.idea''] @ [CONFIG_DIR_NAME, LEGACY_CONFIG_DIR_NAME] @
     map u [''.ai-code-assistant'', ''.ssh'', ''.gnupg'', ''.aws'', ''.config'', ''.local'', ''.kube'',
       ''.docker'', ''node_modules'']"

definition BLOCKED_DEVICE_PATHS :: "ustring list" where
  "BLOCKED_DEVICE_PATHS = map u
     [''/dev/zero'', ''/dev/random'', ''/dev/urandom'', ''/dev/full'', ''/dev/stdin'', ''/dev/tty'',
      ''/dev/console'', ''/dev/stdout'', ''/dev/stderr'', ''/dev/fd/0'', ''/dev/fd/1'', ''/dev/fd/2'',
      ''/proc/self/fd/0'', ''/proc/self/fd/1'', ''/proc/self/fd/2'']"

definition SENSITIVE_READ_DIRECTORIES :: "ustring list" where
  "SENSITIVE_READ_DIRECTORIES = map u
     [''.git'', ''.ssh'', ''.gnupg'', ''.aws'', ''.kube'', ''.docker'', ''.ai-code-assistant'']"

definition SENSITIVE_WRITE_DIRECTORIES :: "ustring list" where
  "SENSITIVE_WRITE_DIRECTORIES =
     map u [''.git'', ''.vscode'', ''.idea''] @ [CONFIG_DIR_NAME, LEGACY_CONFIG_DIR_NAME] @
     map u [''.ai-code-assistant'', ''.ssh'', ''.gnupg'', ''.aws'', ''.config'', ''.kube'', ''.docker'']"

definition BLOCKED_RECURSIVE_ROOTS :: "ustring list" where
  "BLOCKED_RECURSIVE_ROOTS = map u
     [''/'', ''/etc'', ''/private/etc'', ''/root'', ''/proc'', ''/sys'', ''/dev'']"

definition SYSTEM_CRITICAL_DIRS :: "ustring list" where
  "SYSTEM_CRITICAL_DIRS = map u
     [''/etc'', ''/private/etc'', ''/usr'', ''/bin'', ''/sbin'', ''/boot'', ''/var'', ''/private/var'',
      ''/lib'', ''/lib64'', ''/opt'', ''/root'', ''/sys'', ''/proc'', ''/System'', ''/Applications'',
      ''C:/Windows'', ''C:/Program Files'', ''C:/Program Files (x86)'', ''C:/ProgramData'']"

definition SENSITIVE_SYSTEM_FILES :: "ustring list" where
  "SENSITIVE_SYSTEM_FILES = map u
     [''/etc/shadow'', ''/etc/passwd'', ''/etc/sudoers'', ''/etc/sudoers.d'', ''/etc/master.passwd'',
      ''/etc/security/passwd'']"

definition SENSITIVE_USER_PATHS :: "ustring list" where
  "SENSITIVE_USER_PATHS = map u
     [''~/.ssh/id_rsa'', ''~/.ssh/id_ed25519'', ''~/.ssh/id_ecdsa'', ''~/.ssh/id_dsa'', ''~/.ssh/config'',
      ''~/.aws/credentials'', ''~/.aws/config'', ''~/.gnupg/'', ''~/.kube/config'',
      ''~/.config/ai-code-assistant/keychain'']"

definition SAFE_PROC_PATHS :: "ustring list" where
  "SAFE_PROC_PATHS = map u
     [''/proc/self/cwd'', ''/proc/self/exe'', ''/proc/version'', ''/proc/cpuinfo'', ''/proc/meminfo'',
      ''/proc/loadavg'', ''/proc/uptime'', ''/proc/filesystems'']"

subsection \<open>Results\<close>

record path_check =
  is_allowed :: bool
  needs_confirmation :: bool
  check_message :: "ustring option"

definition path_allowed :: path_check where
  "path_allowed = \<lparr>is_allowed = True, needs_confirmation = False, check_message = None\<rparr>"

definition path_denied :: "ustring \<Rightarrow> path_check" where
  "path_denied m = \<lparr>is_allowed = False, needs_confirmation = False, check_message = Some m\<rparr>"

definition path_confirm :: "ustring \<Rightarrow> path_check" where
  "path_confirm m = \<lparr>is_allowed = True, needs_confirmation = True, check_message = Some m\<rparr>"

record authorized_path_check =
  check_target :: "path option"
  permission :: path_check

subsection \<open>Lexical helpers\<close>

text \<open>\<open>to_lowercase\<close> where the result may be ASCII: the capital letters, the Kelvin sign and the
  dotted capital I; every other character is left as it is.\<close>

definition lower_unit :: "nat \<Rightarrow> nat list" where
  "lower_unit c =
     (if 65 \<le> c \<and> c \<le> 90 then [c + 32]
      else if c = 0x212A then [uc CHR ''k'']
      else if c = 0x130 then [uc CHR ''i'', 0x307]
      else [c])"

definition to_lowercase :: "ustring \<Rightarrow> ustring" where
  "to_lowercase s = concat (map lower_unit s)"

definition eq_ignore_ascii_case :: "ustring \<Rightarrow> ustring \<Rightarrow> bool" where
  "eq_ignore_ascii_case a b = (ascii_lower a = ascii_lower b)"

text \<open>The loop that drops trailing separators and keeps a lone root, on the reversed text.\<close>

fun pop_slashes :: "ustring \<Rightarrow> ustring" where
  "pop_slashes [] = []"
| "pop_slashes (c # cs) = (if cs \<noteq> [] \<and> c = slash then pop_slashes cs else c # cs)"

definition normalize_policy_path :: "ustring \<Rightarrow> ustring" where
  "normalize_policy_path p = rev (pop_slashes (rev (map (\<lambda>c. if c = backslash then slash else c) p)))"

definition is_ascii_alphabetic :: "nat \<Rightarrow> bool" where
  "is_ascii_alphabetic c = ((65 \<le> c \<and> c \<le> 90) \<or> (97 \<le> c \<and> c \<le> 122))"

definition is_windows_drive_path :: "ustring \<Rightarrow> bool" where
  "is_windows_drive_path p =
     (case p of a # b # c # _ \<Rightarrow> is_ascii_alphabetic a \<and> b = uc CHR '':'' \<and> c = slash | _ \<Rightarrow> False)"

definition paths_equal :: "ustring \<Rightarrow> ustring \<Rightarrow> bool" where
  "paths_equal a b =
     (if is_windows_drive_path a \<or> is_windows_drive_path b then eq_ignore_ascii_case a b else a = b)"

definition is_same_or_descendant :: "ustring \<Rightarrow> ustring \<Rightarrow> bool" where
  "is_same_or_descendant path dir =
     (if paths_equal path dir then True
      else
        let prefix = (if ends_with dir [slash] then dir else dir @ [slash])
        in if is_windows_drive_path path \<or> is_windows_drive_path dir
           then starts_with (to_lowercase path) (to_lowercase prefix)
           else starts_with path prefix)"

definition is_system_critical_path :: "ustring \<Rightarrow> bool" where
  "is_system_critical_path path =
     (let p = normalize_policy_path path
      in if starts_with p (u ''/private/var/folders/'') then False
         else list_ex (\<lambda>d. is_same_or_descendant p (normalize_policy_path d)) SYSTEM_CRITICAL_DIRS)"

definition is_blocked_recursive_root :: "ustring \<Rightarrow> bool" where
  "is_blocked_recursive_root path =
     (let p = normalize_policy_path path
      in list_ex (\<lambda>r. paths_equal p (normalize_policy_path r)) BLOCKED_RECURSIVE_ROOTS)"

definition is_unc_path :: "ustring \<Rightarrow> bool" where
  "is_unc_path p = (starts_with p [slash, slash] \<or> starts_with p [backslash, backslash])"

definition absolute_normalized_path :: "fs \<Rightarrow> ustring \<Rightarrow> ustring \<Rightarrow> path" where
  "absolute_normalized_path F file_path wd =
     absolute_normalized (fs_cwd F) (if is_absolute file_path then file_path else path_join wd file_path)"

subsection \<open>Resolution through the file system\<close>

text \<open>The loop towards the root; the path is reversed, \<open>missing\<close> holds the dropped names in order.\<close>

fun existing_ancestor :: "fs \<Rightarrow> ustring list \<Rightarrow> ustring list \<Rightarrow> (path \<times> ustring list) option" where
  "existing_ancestor F [] missing = (if fs_exists F [] then Some ([], missing) else None)"
| "existing_ancestor F (c # cs) missing =
     (if fs_exists F (rev (c # cs)) then Some (rev (c # cs), missing)
      else existing_ancestor F cs (c # missing))"

definition resolve_through_existing_ancestor_or :: "fs \<Rightarrow> path \<Rightarrow> path \<Rightarrow> path" where
  "resolve_through_existing_ancestor_or F candidate fallback =
     (case existing_ancestor F (rev candidate) [] of
        None \<Rightarrow> fallback
      | Some (existing, missing) \<Rightarrow>
          (case fs_canonicalize F existing of
             None \<Rightarrow> fallback
           | Some resolved \<Rightarrow> normalize_components (resolved @ missing)))"

definition resolve_path_unchecked :: "fs \<Rightarrow> ustring \<Rightarrow> ustring \<Rightarrow> path" where
  "resolve_path_unchecked F file_path wd =
     (let resolved = absolute_normalized_path F file_path wd
      in case fs_canonicalize F resolved of
           Some p \<Rightarrow> p
         | None \<Rightarrow> resolve_through_existing_ancestor_or F resolved resolved)"

definition unc_message :: "ustring \<Rightarrow> ustring" where
  "unc_message p = u ''UNC path access denied (NTLM credential leak prevention): '' @ p"

definition resolve_path :: "fs \<Rightarrow> ustring \<Rightarrow> ustring \<Rightarrow> ustring + path" where
  "resolve_path F file_path wd =
     (if is_unc_path file_path then Inl (unc_message file_path)
      else Inr (resolve_path_unchecked F file_path wd))"

definition inspect_authorized_target :: "fs \<Rightarrow> ustring \<Rightarrow> ustring \<Rightarrow> authorized_path_check" where
  "inspect_authorized_target F file_path wd =
     (if is_unc_path file_path then
        \<lparr>check_target = None, permission = path_denied (unc_message file_path)\<rparr>
      else
        let authorized = absolute_normalized_path F file_path wd;
            current = resolve_path_unchecked F file_path wd
        in if current \<noteq> authorized then
             \<lparr>check_target = Some authorized,
              permission = path_denied (u ''Authorized file target changed before execution: '' @
                path_text authorized @ u '' -> '' @ path_text current)\<rparr>
           else \<lparr>check_target = Some current, permission = path_allowed\<rparr>)"

subsection \<open>The scratchpad of the system\<close>

record scratchpad_policy =
  configured_root :: path
  canonical_root :: path

text \<open>\<open>None\<close>: the configured root exists and is not a directory, where the source panics.\<close>

definition scratchpad_new :: "fs \<Rightarrow> (path \<Rightarrow> bool) \<Rightarrow> ustring \<Rightarrow> scratchpad_policy option" where
  "scratchpad_new F is_dir root =
     (let configured = absolute_normalized (fs_cwd F) root;
          canonical = resolve_through_existing_ancestor_or F configured configured
      in if \<not> fs_exists F configured \<or> is_dir configured
         then Some \<lparr>configured_root = configured, canonical_root = canonical\<rparr> else None)"

definition is_root_stable :: "fs \<Rightarrow> scratchpad_policy \<Rightarrow> bool" where
  "is_root_stable F s =
     (resolve_through_existing_ancestor_or F (configured_root s) (configured_root s) = canonical_root s)"

definition system_root :: "fs \<Rightarrow> scratchpad_policy \<Rightarrow> path option" where
  "system_root F s = (if is_root_stable F s then Some (canonical_root s) else None)"

definition scratchpad_contains :: "fs \<Rightarrow> scratchpad_policy \<Rightarrow> path \<Rightarrow> bool" where
  "scratchpad_contains F s target =
     (if \<not> is_root_stable F s then False
      else
        let absolute = normalize_components target;
            canonical_target = resolve_through_existing_ancestor_or F absolute absolute
        in path_starts_with canonical_target (canonical_root s) \<and> is_root_stable F s)"

subsection \<open>Sensitive names\<close>

definition is_protected_file_name :: "ustring \<Rightarrow> bool" where
  "is_protected_file_name name =
     (let n = to_lowercase name in n \<in> set DANGEROUS_FILES \<or> starts_with n (u ''.env''))"

definition file_name :: "path \<Rightarrow> ustring option" where
  "file_name p = (if p = [] then None else Some (last p))"

definition protected_name_of :: "path \<Rightarrow> ustring option" where
  "protected_name_of p =
     (case file_name p of
        None \<Rightarrow> None
      | Some n \<Rightarrow> if is_protected_file_name n then Some (to_lowercase n) else None)"

definition protected_file_name :: "path \<Rightarrow> path \<Rightarrow> ustring option" where
  "protected_file_name canonical lexical =
     (case protected_name_of canonical of Some n \<Rightarrow> Some n | None \<Rightarrow> protected_name_of lexical)"

text \<open>\<open>str::replace('~', home)\<close>.\<close>

definition expand_tilde :: "ustring \<Rightarrow> ustring \<Rightarrow> ustring" where
  "expand_tilde home p = concat (map (\<lambda>c. if c = uc CHR ''~'' then home else [c]) p)"

definition user_home :: "fs \<Rightarrow> ustring" where
  "user_home F = (if fs_home F = [] then u ''/root'' else fs_home F)"

definition is_sensitive_user_path :: "fs \<Rightarrow> ustring \<Rightarrow> ustring \<Rightarrow> bool" where
  "is_sensitive_user_path F resolved user_path =
     (let expanded = expand_tilde (user_home F) user_path
      in if ends_with expanded [slash] then starts_with resolved expanded else resolved = expanded)"

definition is_sensitive_system_or_user_path :: "fs \<Rightarrow> path \<Rightarrow> bool" where
  "is_sensitive_system_or_user_path F p =
     (let resolved = path_text p;
          system_path = (if starts_with resolved (u ''/private'') \<and>
                            starts_with resolved (u ''/private/etc/'')
                         then drop 8 resolved else resolved)
      in if system_path \<in> set SENSITIVE_SYSTEM_FILES \<or> starts_with system_path (u ''/etc/sudoers.d/'')
         then True
         else list_ex (is_sensitive_user_path F resolved) SENSITIVE_USER_PATHS)"

subsection \<open>Sensitive directories\<close>

definition is_relaxed_scratchpad_marker ::
  "fs \<Rightarrow> scratchpad_policy \<Rightarrow> path \<Rightarrow> path \<Rightarrow> bool \<Rightarrow> bool" where
  "is_relaxed_scratchpad_marker F s resolved marker outside =
     (let scratchpad_root = marker @ [u ''scratchpad'']
      in if \<not> outside \<and> path_starts_with resolved scratchpad_root then True
         else if \<not> scratchpad_contains F s resolved then False
         else (case system_root F s of
                 None \<Rightarrow> False
               | Some root \<Rightarrow> path_starts_with root
                   (resolve_through_existing_ancestor_or F scratchpad_root scratchpad_root)))"

text \<open>The loop over the components, with the path walked so far.\<close>

fun scan_components ::
  "fs \<Rightarrow> scratchpad_policy \<Rightarrow> path \<Rightarrow> bool \<Rightarrow> ustring \<Rightarrow> path \<Rightarrow> ustring list \<Rightarrow> bool" where
  "scan_components F s resolved outside dir current [] = False"
| "scan_components F s resolved outside dir current (name # rest) =
     (let here = current @ [name]
      in if \<not> eq_ignore_ascii_case name dir then scan_components F s resolved outside dir here rest
         else if eq_ignore_ascii_case dir CONFIG_DIR_NAME \<and>
                 is_relaxed_scratchpad_marker F s resolved here outside
         then scan_components F s resolved outside dir here rest
         else True)"

text \<open>Outside the project the whole path is inspected, from the root; inside it what follows the
  project root, from there.\<close>

definition contains_unrelaxed_sensitive_component ::
  "fs \<Rightarrow> scratchpad_policy \<Rightarrow> path \<Rightarrow> bool \<Rightarrow> path \<Rightarrow> path \<Rightarrow> bool \<Rightarrow> ustring \<Rightarrow> bool" where
  "contains_unrelaxed_sensitive_component F s to_inspect absolute resolved project_root outside dir =
     scan_components F s resolved outside dir (if absolute then [] else project_root) to_inspect"

definition root_is_sensitive ::
  "fs \<Rightarrow> scratchpad_policy \<Rightarrow> path \<Rightarrow> path \<Rightarrow> ustring \<Rightarrow> bool" where
  "root_is_sensitive F s resolved project_root dir =
     (let root_name = (case file_name project_root of None \<Rightarrow> [] | Some n \<Rightarrow> n)
      in eq_ignore_ascii_case root_name dir \<and>
         \<not> (eq_ignore_ascii_case dir CONFIG_DIR_NAME \<and>
            is_relaxed_scratchpad_marker F s resolved project_root False))"

definition matching_sensitive_directory ::
  "fs \<Rightarrow> scratchpad_policy \<Rightarrow> path \<Rightarrow> path \<Rightarrow> bool \<Rightarrow> ustring list \<Rightarrow> ustring option" where
  "matching_sensitive_directory F s resolved project_root outside dirs =
     (case (if outside then None else find (root_is_sensitive F s resolved project_root) dirs) of
        Some d \<Rightarrow> Some d
      | None \<Rightarrow>
          let inside = \<not> outside \<and> path_starts_with resolved project_root;
              to_inspect = (if inside then drop (length project_root) resolved else resolved)
          in find (contains_unrelaxed_sensitive_component F s to_inspect (\<not> inside) resolved
                     project_root outside) dirs)"

text \<open>Both the canonical and the lexical path are inspected.\<close>

definition sensitive_directory ::
  "fs \<Rightarrow> scratchpad_policy \<Rightarrow> path \<Rightarrow> path \<Rightarrow> path \<Rightarrow> ustring list \<Rightarrow> ustring option" where
  "sensitive_directory F s resolved lexical project_root dirs =
     (case matching_sensitive_directory F s resolved project_root
             (\<not> path_starts_with resolved project_root) dirs of
        Some d \<Rightarrow> Some d
      | None \<Rightarrow>
          if lexical \<noteq> resolved then
            matching_sensitive_directory F s lexical project_root
              (\<not> path_starts_with lexical project_root) dirs
          else None)"

subsection \<open>Reading\<close>

definition is_process_special :: "ustring \<Rightarrow> bool" where
  "is_process_special p =
     (starts_with p (u ''/proc/'') \<and>
      (ends_with p (u ''/fd/0'') \<or> ends_with p (u ''/fd/1'') \<or> ends_with p (u ''/fd/2'') \<or>
       ends_with p (u ''/environ'')))"

definition is_process_path :: "ustring \<Rightarrow> bool" where
  "is_process_path p =
     ((p = u ''/proc'' \<or> starts_with p (u ''/proc/'')) \<and> p \<notin> set SAFE_PROC_PATHS)"

definition is_kernel_path :: "ustring \<Rightarrow> bool" where
  "is_kernel_path p =
     (p = u ''/sys'' \<or> starts_with p (u ''/sys/'') \<or> p = u ''/dev'' \<or> starts_with p (u ''/dev/''))"

definition read_permission_resolved ::
  "fs \<Rightarrow> scratchpad_policy \<Rightarrow> path \<Rightarrow> ustring \<Rightarrow> ustring \<Rightarrow> bool \<Rightarrow> path_check" where
  "read_permission_resolved F s resolved file_path wd allow_external =
     (let resolved_str = path_text resolved;
          lexical = absolute_normalized_path F file_path wd
      in if resolved_str \<in> set BLOCKED_DEVICE_PATHS then
           path_denied (u ''Cannot read device file: '' @ resolved_str)
         else if is_process_special resolved_str then
           path_denied (u ''Cannot read process special file: '' @ resolved_str)
         else if is_process_path resolved_str then
           path_denied (u ''Cannot read process special path: '' @ resolved_str)
         else if is_kernel_path resolved_str then
           path_denied (u ''Cannot read device or kernel path: '' @ resolved_str)
         else
           let saved_root = absolute_normalized (fs_cwd F) wd
           in case fs_canonicalize F saved_root of
                None \<Rightarrow> path_denied (u ''Access denied: project boundary is unavailable'')
              | Some project_root \<Rightarrow>
                  if project_root \<noteq> saved_root then
                    path_denied (u ''Access denied: project boundary has changed'')
                  else if \<not> allow_external \<and> \<not> path_starts_with resolved project_root then
                    path_denied (u ''Access denied: path '' @ [39] @ file_path @ [39] @
                      u '' is outside project boundary. Allowed: '' @ path_text project_root)
                  else (case protected_file_name resolved lexical of
                      Some name \<Rightarrow> path_confirm (u ''Reading sensitive file: '' @ name)
                    | None \<Rightarrow>
                      (case sensitive_directory F s resolved lexical project_root
                              SENSITIVE_READ_DIRECTORIES of
                         Some d \<Rightarrow> path_confirm (u ''Reading from sensitive directory: '' @ d)
                       | None \<Rightarrow>
                           if is_sensitive_system_or_user_path F resolved
                           then path_confirm (u ''Reading sensitive path: '' @ resolved_str)
                           else path_allowed)))"

definition read_permission ::
  "fs \<Rightarrow> scratchpad_policy \<Rightarrow> ustring \<Rightarrow> ustring \<Rightarrow> bool \<Rightarrow> path_check" where
  "read_permission F s file_path wd allow_external =
     (if is_unc_path file_path then path_denied (unc_message file_path)
      else read_permission_resolved F s (resolve_path_unchecked F file_path wd) file_path wd
             allow_external)"

definition recursive_read_root_resolved ::
  "fs \<Rightarrow> scratchpad_policy \<Rightarrow> path \<Rightarrow> ustring \<Rightarrow> ustring \<Rightarrow> bool \<Rightarrow> path_check" where
  "recursive_read_root_resolved F s resolved root_path wd allow_external =
     (let r = read_permission_resolved F s resolved root_path wd allow_external;
          p = path_text resolved
      in if \<not> is_allowed r \<or> needs_confirmation r then r
         else if resolved = [] \<or> is_blocked_recursive_root p \<or> starts_with p (u ''/proc/'') \<or>
                 starts_with p (u ''/sys/'') \<or> starts_with p (u ''/dev/'')
         then path_denied (u ''Recursive access to system root is denied: '' @ p)
         else r)"

definition recursive_read_root_permission ::
  "fs \<Rightarrow> scratchpad_policy \<Rightarrow> ustring \<Rightarrow> ustring \<Rightarrow> bool \<Rightarrow> path_check" where
  "recursive_read_root_permission F s root_path wd allow_external =
     (if is_unc_path root_path then read_permission F s root_path wd allow_external
      else recursive_read_root_resolved F s (resolve_path_unchecked F root_path wd) root_path wd
             allow_external)"

subsection \<open>Writing\<close>

text \<open>The project root of the sensitive directories is the lexical one here; the check of Windows
  paths returns nothing on Unix.\<close>

definition symlink_check :: "fs \<Rightarrow> path \<Rightarrow> ustring \<Rightarrow> path_check \<Rightarrow> path_check" where
  "symlink_check F resolved file_path otherwise =
     (case (if fs_is_symlink F resolved then fs_canonicalize F resolved else None) of
        None \<Rightarrow> otherwise
      | Some real \<Rightarrow>
          if path_text real \<in> set BLOCKED_DEVICE_PATHS then
            path_denied (u ''Symlink targets device file: '' @ file_path @ u '' -> '' @ path_text real)
          else if (case file_name real of None \<Rightarrow> False | Some n \<Rightarrow> is_protected_file_name n) then
            path_confirm (u ''Symlink targets sensitive file: '' @ file_path @ u '' -> '' @ path_text real)
          else otherwise)"

definition write_permission_resolved ::
  "fs \<Rightarrow> scratchpad_policy \<Rightarrow> path \<Rightarrow> ustring \<Rightarrow> ustring \<Rightarrow> bool \<Rightarrow> path_check" where
  "write_permission_resolved F s resolved file_path wd allow_external =
     (let r = read_permission_resolved F s resolved file_path wd allow_external
      in if \<not> is_allowed r \<and> \<not> needs_confirmation r then r
         else
           let project_root = absolute_normalized (fs_cwd F) wd;
               lexical = absolute_normalized_path F file_path wd;
               resolved_str = path_text resolved
           in case sensitive_directory F s resolved lexical project_root SENSITIVE_WRITE_DIRECTORIES of
                Some d \<Rightarrow> path_confirm (u ''Writing to protected directory: '' @ d)
              | None \<Rightarrow>
                  if is_system_critical_path resolved_str then
                    path_confirm (u ''Writing to system critical directory: '' @ resolved_str)
                  else symlink_check F resolved file_path r)"

definition write_permission ::
  "fs \<Rightarrow> scratchpad_policy \<Rightarrow> ustring \<Rightarrow> ustring \<Rightarrow> bool \<Rightarrow> path_check" where
  "write_permission F s file_path wd allow_external =
     (if is_unc_path file_path then read_permission F s file_path wd allow_external
      else write_permission_resolved F s (resolve_path_unchecked F file_path wd) file_path wd
             allow_external)"

subsection \<open>The entry points\<close>

definition check_authorized_read_permission ::
  "fs \<Rightarrow> scratchpad_policy \<Rightarrow> ustring \<Rightarrow> ustring \<Rightarrow> path_check" where
  "check_authorized_read_permission F s p wd = read_permission F s p wd True"

definition check_authorized_recursive_read_root_permission ::
  "fs \<Rightarrow> scratchpad_policy \<Rightarrow> ustring \<Rightarrow> ustring \<Rightarrow> path_check" where
  "check_authorized_recursive_read_root_permission F s p wd =
     recursive_read_root_permission F s p wd True"

definition check_authorized_write_permission ::
  "fs \<Rightarrow> scratchpad_policy \<Rightarrow> ustring \<Rightarrow> ustring \<Rightarrow> path_check" where
  "check_authorized_write_permission F s p wd = write_permission F s p wd True"

text \<open>Before execution the target must resolve to itself; then the check is made again on it.\<close>

definition inspect_with ::
  "(path \<Rightarrow> path_check) \<Rightarrow> authorized_path_check \<Rightarrow> authorized_path_check" where
  "inspect_with check t =
     (if \<not> is_allowed (permission t) then t
      else let resolved = (case check_target t of None \<Rightarrow> [] | Some p \<Rightarrow> p)
           in \<lparr>check_target = check_target t, permission = check resolved\<rparr>)"

definition inspect_authorized_execution_read_permission ::
  "fs \<Rightarrow> scratchpad_policy \<Rightarrow> ustring \<Rightarrow> ustring \<Rightarrow> authorized_path_check" where
  "inspect_authorized_execution_read_permission F s p wd =
     inspect_with (\<lambda>r. read_permission_resolved F s r p wd True) (inspect_authorized_target F p wd)"

definition inspect_authorized_execution_recursive_read_root_permission ::
  "fs \<Rightarrow> scratchpad_policy \<Rightarrow> ustring \<Rightarrow> ustring \<Rightarrow> authorized_path_check" where
  "inspect_authorized_execution_recursive_read_root_permission F s p wd =
     inspect_with (\<lambda>r. recursive_read_root_resolved F s r p wd True) (inspect_authorized_target F p wd)"

definition inspect_authorized_execution_write_permission ::
  "fs \<Rightarrow> scratchpad_policy \<Rightarrow> ustring \<Rightarrow> ustring \<Rightarrow> authorized_path_check" where
  "inspect_authorized_execution_write_permission F s p wd =
     inspect_with (\<lambda>r. write_permission_resolved F s r p wd True) (inspect_authorized_target F p wd)"

end
