(* ===== verification/Authz_Analyzer.thy ===== *)
theory Authz_Analyzer
  imports Authz_Service Authz_PathSecurity Utf16
begin

section \<open>The analyzers of operations\<close>

text \<open>
  \<open>crates/zk-authz/src/analyzer.rs\<close>, \<open>hashing.rs\<close> and \<open>frozen.rs\<close>: an analyzer turns a tool call into
  an operation descriptor, whose hash is the identity of the operation, and checks before the
  execution that the facts have not changed. The ports of \<open>tool_facts.rs\<close> are the records
  \<open>tool_facts\<close> and \<open>registry\<close>. Outside the repository are the file system, the \<open>regex\<close> crate (its
  replacement, \<open>replace_all\<close>), SHA-256 and the printer of \<open>serde_json\<close>.
\<close>

subsection \<open>Canonical JSON and hashes\<close>

fun sort_json :: "json \<Rightarrow> json" where
  "sort_json (JObj ms) =
     JObj (sort_key (\<lambda>f. str_key (fst f)) (map (\<lambda>(k, v). (k, sort_json v)) ms))"
| "sort_json (JArr items) = JArr (map sort_json items)"
| "sort_json v = v"

definition canonical_json_bytes :: "crates \<Rightarrow> json \<Rightarrow> ustring" where
  "canonical_json_bytes cr v = to_text cr (sort_json v)"

definition operation_hash_of :: "crates \<Rightarrow> json \<Rightarrow> ustring" where
  "operation_hash_of cr facts =
     sha256_hex cr (u ''authz-operation-v1'' @ [0] @ canonical_json_bytes cr facts)"

definition INPUT_SCHEMA_VERSION :: nat where
  "INPUT_SCHEMA_VERSION = 1"

definition input_hash_of :: "crates \<Rightarrow> ustring \<Rightarrow> ustring \<Rightarrow> ustring" where
  "input_hash_of cr name canonical =
     sha256_hex cr (u ''authz-input-v1'' @ [0] @ name @ [0] @ pad 0 INPUT_SCHEMA_VERSION @ [0] @ canonical)"

definition workspace_key_of :: "crates \<Rightarrow> ustring \<Rightarrow> ustring" where
  "workspace_key_of cr p = sha256_hex cr (u ''workspace-v2'' @ [0] @ p)"

subsection \<open>Frozen inputs\<close>

record frozen_input =
  fi_tool_name :: ustring
  fi_schema_version :: nat
  fi_canonical_json :: ustring
  fi_input_hash :: ustring

definition MAX_CANONICAL_INPUT_BYTES :: nat where
  "MAX_CANONICAL_INPUT_BYTES = 10 * 1024 * 1024"

text \<open>The numbers of the model are integers, which the check of non-finite numbers accepts.\<close>

definition freeze :: "crates \<Rightarrow> nat \<Rightarrow> ustring \<Rightarrow> json \<Rightarrow> authz_error + frozen_input" where
  "freeze cr max_bytes name input =
     (let bytes = canonical_json_bytes cr input
      in if max_bytes < byte_length bytes then
           Inl (authz_err (u ''TOOL_INPUT_TOO_LARGE'')
             (u ''Canonical tool input exceeds '' @ pad 0 max_bytes @ u '' UTF-8 bytes''))
         else Inr \<lparr>fi_tool_name = name, fi_schema_version = INPUT_SCHEMA_VERSION,
                fi_canonical_json = bytes, fi_input_hash = input_hash_of cr name bytes\<rparr>)"

definition to_tool_input :: "crates \<Rightarrow> frozen_input \<Rightarrow> authz_error + json" where
  "to_tool_input cr f =
     (case from_text cr (fi_canonical_json f) of
        Some v \<Rightarrow> Inr v
      | None \<Rightarrow> Inl (authz_err (u ''TOOL_INPUT_INVALID'') (u ''frozen input cannot be reconstructed'')))"

subsection \<open>Tool sets\<close>

definition FILE_READ :: "ustring list" where
  "FILE_READ = map u [''Read'', ''Glob'', ''Grep'', ''LSP'', ''Snip'']"

definition FILE_WRITE :: "ustring list" where
  "FILE_WRITE = map u [''Write'', ''Edit'', ''NotebookEdit'']"

definition NETWORK :: "ustring list" where
  "NETWORK = map u [''WebFetch'', ''WebSearch'', ''WebBrowser'']"

definition CONTROL :: "ustring list" where
  "CONTROL = map u [''Config'', ''CronCreate'', ''CronDelete'', ''Worktree'', ''Agent'', ''TaskCreate'',
     ''TaskUpdate'', ''TaskStop'', ''SendMessage'', ''Git'', ''Skill'', ''REPL'', ''Memory'', ''Monitor'',
     ''TerminalCapture'', ''Visualization'', ''ReadMcpResource'']"

definition VERIFY_CONTROL :: "ustring list" where
  "VERIFY_CONTROL = map u [''VerifyPlanExecution'', ''VerifyJourney'']"

definition SAFE_INTERNAL :: "ustring list" where
  "SAFE_INTERNAL = map u [''TodoWrite'', ''TaskList'', ''TaskGet'', ''TaskOutput'', ''AskUserQuestion'',
     ''Brief'', ''Sleep'', ''CtxInspect'', ''ToolSearch'', ''SyntheticOutput'', ''EnterPlanMode'',
     ''ExitPlanMode'', ''CronList'', ''ListMcpResources'', ''CodeIntel'', ''HandoffRead'']"

subsection \<open>Ports\<close>

record tool_facts =
  tf_name :: ustring
  host_hook_facts :: "json option"
  is_mcp :: bool
  mcp_server :: "ustring option"
  mcp_server_id :: "ustring option"
  mcp_tool_name :: "ustring option"
  mcp_capability_id :: "ustring option"
  mcp_resource_scope :: "ustring option"
  mcp_domain_scope :: "ustring option"
  mcp_config_hash :: "ustring option"
  is_destructive :: "json \<Rightarrow> bool"
  is_read_only :: "json \<Rightarrow> bool"
  is_safe_internal_projection :: bool
  path_of :: "json \<Rightarrow> ustring option"

datatype bash_parse_outcome = ParsedOutcome | TooComplexOutcome ustring | BlacklistDeny ustring

record bash_security_port =
  port_parse_for_security :: "ustring \<Rightarrow> path \<Rightarrow> ustring \<Rightarrow> bash_parse_outcome"
  port_inherited_references :: "ustring \<Rightarrow> ustring list"

record publication_snapshot =
  ps_relative_path :: ustring
  ps_size :: int
  ps_sha256 :: ustring
  ps_bucket :: ustring
  ps_public_url :: ustring
  ps_endpoint :: ustring
  ps_facts :: json

record registry =
  bash_security :: "bash_security_port option"
  sensitive_filter :: "ustring \<Rightarrow> ustring"
  reg_scratchpads :: scratchpad_policy
  resolve_working_directory :: "ustring \<Rightarrow> ustring \<Rightarrow> ustring"
  environment_facts :: "ustring list \<Rightarrow> json"
  artifact_publication :: "(ustring \<Rightarrow> ustring option \<Rightarrow> (ustring \<times> ustring) + publication_snapshot) option"

text \<open>The world outside of the call: the file system and the crates.\<close>

record world =
  w_fs :: fs
  w_crates :: crates
  replace_all :: "ustring \<Rightarrow> ustring \<Rightarrow> ustring \<Rightarrow> ustring"

subsection \<open>Choosing the analyzer\<close>

datatype analyzer_kind = HookKind | BashKind | FileKind | NetworkKind | ArtifactKind | McpKind | GenericKind

definition kind_id :: "analyzer_kind \<Rightarrow> ustring" where
  "kind_id k = (case k of
     HookKind \<Rightarrow> u ''hook-v1'' | BashKind \<Rightarrow> u ''bash-v2'' | FileKind \<Rightarrow> u ''file-v1''
   | NetworkKind \<Rightarrow> u ''network-v1'' | ArtifactKind \<Rightarrow> u ''artifact-publish-v1''
   | McpKind \<Rightarrow> u ''mcp-v1'' | GenericKind \<Rightarrow> u ''static-or-remote-v1'')"

definition analyzer_for :: "tool_facts \<Rightarrow> analyzer_kind" where
  "analyzer_for t =
     (let name = tf_name t in
      if host_hook_facts t \<noteq> None then HookKind
      else if is_mcp t then McpKind
      else if starts_with name (u ''mcp__'') then GenericKind
      else if name = u ''Bash'' then BashKind
      else if name = u ''PowerShell'' then GenericKind
      else if name = u ''PublishArtifact'' then ArtifactKind
      else if name \<in> set FILE_READ \<or> name \<in> set FILE_WRITE then FileKind
      else if name \<in> set NETWORK then NetworkKind
      else GenericKind)"

definition is_explicit_core_tool :: "ustring \<Rightarrow> bool" where
  "is_explicit_core_tool name =
     (name = u ''Bash'' \<or> name = u ''PowerShell'' \<or> name = u ''PublishArtifact'' \<or>
      name \<in> set FILE_READ \<or> name \<in> set FILE_WRITE \<or> name \<in> set NETWORK \<or> name \<in> set CONTROL \<or>
      name \<in> set VERIFY_CONTROL \<or> name \<in> set SAFE_INTERNAL)"

subsection \<open>Reading the input\<close>

definition member :: "json \<Rightarrow> ustring \<Rightarrow> json option" where
  "member v k = (case v of JObj m \<Rightarrow> json_get m k | _ \<Rightarrow> None)"

text \<open>Indexing a value that has no such member gives null.\<close>

definition index_json :: "json \<Rightarrow> string \<Rightarrow> json" where
  "index_json v k = (case member v (u k) of Some x \<Rightarrow> x | None \<Rightarrow> JNull)"

definition as_str :: "json \<Rightarrow> ustring option" where
  "as_str v = (case v of JStr t \<Rightarrow> Some t | _ \<Rightarrow> None)"

definition input_string :: "crates \<Rightarrow> json \<Rightarrow> string \<Rightarrow> ustring \<Rightarrow> ustring" where
  "input_string cr v k dflt =
     (case member v (u k) of
        Some (JStr t) \<Rightarrow> t | Some JNull \<Rightarrow> dflt | None \<Rightarrow> dflt | Some x \<Rightarrow> to_text cr x)"

definition input_bool :: "json \<Rightarrow> string \<Rightarrow> bool \<Rightarrow> bool" where
  "input_bool v k dflt = (case member v (u k) of Some (JBool b) \<Rightarrow> b | _ \<Rightarrow> dflt)"

definition input_has :: "json \<Rightarrow> ustring \<Rightarrow> bool" where
  "input_has v k = (case member v k of None \<Rightarrow> False | Some JNull \<Rightarrow> False | Some _ \<Rightarrow> True)"

fun first_of :: "crates \<Rightarrow> json \<Rightarrow> ustring list \<Rightarrow> ustring option" where
  "first_of cr v [] = None"
| "first_of cr v (k # ks) =
     (if input_has v k then
        (case member v k of Some (JStr t) \<Rightarrow> Some t | Some x \<Rightarrow> Some (to_text cr x) | None \<Rightarrow> None)
      else first_of cr v ks)"

definition has_nul :: "ustring \<Rightarrow> bool" where
  "has_nul v = (0 \<in> set v)"

definition file_operation :: "ustring \<Rightarrow> typed_file_operation" where
  "file_operation name =
     (if name = u ''Glob'' \<or> name = u ''Grep'' then ListDirectory
      else if name = u ''Write'' then ReplaceFile
      else if name = u ''Edit'' \<or> name = u ''NotebookEdit'' then PatchFile
      else ReadFile)"

subsection \<open>Redaction\<close>

definition SECRET_ASSIGNMENT :: ustring where
  "SECRET_ASSIGNMENT = raw ''(?i)(token|password|secret|api[_-]?key)=%S+''"

definition AUTHORIZATION_HEADER :: ustring where
  \<open>AUTHORIZATION_HEADER = raw ''(?i)(authorization%s*:%s*)(?:(?:bearer|basic)%s+)?[^%s'' @ [39] @ raw ''"%%]+''\<close>

definition BEARER_CREDENTIAL :: ustring where
  \<open>BEARER_CREDENTIAL = raw ''(?i)(%bbearer%s+)[^%s'' @ [39] @ raw ''"%%]+''\<close>

text \<open>The characters of a string: a surrogate pair counts as one.\<close>

definition char_count :: "ustring \<Rightarrow> nat" where
  "char_count s = length (filter (\<lambda>c. \<not> is_low c) s)"

fun take_chars :: "nat \<Rightarrow> ustring \<Rightarrow> ustring" where
  "take_chars n [] = []"
| "take_chars n (c # cs) =
     (if is_low c then c # take_chars n cs
      else (case n of 0 \<Rightarrow> [] | Suc m \<Rightarrow> c # take_chars m cs))"

definition redact_command :: "world \<Rightarrow> ustring \<Rightarrow> ustring" where
  "redact_command W command =
     (let a = replace_all W SECRET_ASSIGNMENT (u ''$1=<redacted>'') command;
          b = replace_all W AUTHORIZATION_HEADER (u ''${1}<redacted>'') a;
          c = replace_all W BEARER_CREDENTIAL (u ''${1}<redacted>'') b
      in if 240 < char_count c then take_chars 240 c @ [0x2026] else c)"

definition last_after :: "nat \<Rightarrow> ustring \<Rightarrow> ustring" where
  "last_after c s = rev (takeWhile (\<lambda>x. x \<noteq> c) (rev s))"

definition redact_endpoint :: "ustring \<Rightarrow> ustring" where
  "redact_endpoint v =
     (case find_sub v (u ''://'') of
        None \<Rightarrow> u ''<remote-endpoint>''
      | Some i \<Rightarrow>
          let scheme = take i v; rest = drop (i + 3) v in
          if scheme = [] then u ''<remote-endpoint>''
          else
            let authority = last_after (uc CHR ''@'')
                  (takeWhile (\<lambda>c. c \<noteq> slash \<and> c \<noteq> uc CHR ''?'' \<and> c \<noteq> uc CHR ''#'') rest)
            in if authority = [] then u ''<remote-endpoint>'' else scheme @ u ''://'' @ authority)"

subsection \<open>Resources\<close>

definition relative_resource :: "ustring \<Rightarrow> path \<Rightarrow> authorization_subject \<Rightarrow> resource_ref" where
  "relative_resource kind target s =
     (let normalized = normalize_components target;
          root = path_components (authorization_root s);
          outside = \<not> path_starts_with normalized root;
          v = (if outside then path_text normalized
               else map (\<lambda>c. if c = backslash then slash else c) (join_slash (drop (length root) normalized)))
      in \<lparr>res_kind = kind, res_value = (if v = [] then u ''.'' else v), outside_workspace = outside\<rparr>)"

definition cwd_resource :: "path \<Rightarrow> authorization_subject \<Rightarrow> resource_ref" where
  "cwd_resource cwd s = relative_resource (u ''cwd'') cwd s"

definition canonical_resource :: "path \<Rightarrow> authorization_subject \<Rightarrow> resource_ref" where
  "canonical_resource target s = relative_resource (u ''path'') target s"

definition resource_facts :: "resource_ref \<Rightarrow> json" where
  "resource_facts r = json_obj [(u ''kind'', JStr (res_kind r)), (u ''value'', JStr (res_value r)),
     (u ''outsideWorkspace'', JBool (outside_workspace r))]"

subsection \<open>Descriptors\<close>

definition facts_of ::
  "ustring \<Rightarrow> ustring \<Rightarrow> ustring \<Rightarrow> effect_class list \<Rightarrow> resource_ref list \<Rightarrow> ustring list \<Rightarrow> ustring list \<Rightarrow>
   risk_class \<Rightarrow> json \<Rightarrow> json" where
  "facts_of analyzer name act effs ress env ends rsk auth_input = json_obj
     [(u ''schema'', JNum 1), (u ''tool'', JStr name), (u ''action'', JStr act),
      (u ''authorizationInput'', auth_input), (u ''analyzer'', JStr analyzer),
      (u ''effects'', JArr (map (\<lambda>e. JStr (effect_as_str e)) effs)),
      (u ''resources'', JArr (map resource_facts ress)),
      (u ''environment'', JArr (map JStr env)), (u ''endpoints'', JArr (map JStr ends)),
      (u ''risk'', JStr (risk_as_str rsk))]"

definition descriptor_of ::
  "crates \<Rightarrow> ustring \<Rightarrow> ustring \<Rightarrow> ustring \<Rightarrow> ustring \<Rightarrow> effect_class list \<Rightarrow> resource_ref list \<Rightarrow> ustring list \<Rightarrow>
   ustring list \<Rightarrow> risk_class \<Rightarrow> ustring \<Rightarrow> json \<Rightarrow> operation_descriptor" where
  "descriptor_of cr analyzer name hash act effs ress env ends rsk summary auth_input =
     (let e = canonical_effects effs; r = canonical_resources ress;
          v = canonical_strings env; p = canonical_strings ends
      in \<lparr>authorization_schema_version = 1, tool_name = name, op_action = act, input_hash = hash,
          analyzer_id = analyzer, effects = e, resources = r, inherited_environment_names = v,
          endpoints = p, risk = rsk,
          operation_hash = operation_hash_of cr (facts_of analyzer name act e r v p rsk auth_input),
          redacted_summary = summary\<rparr>)"

definition input_hash_facts :: "ustring \<Rightarrow> json" where
  "input_hash_facts hash = JObj [(u ''inputHash'', JStr hash)]"

definition final_recheck_denied :: "string \<Rightarrow> authz_error" where
  "final_recheck_denied m = authz_err (u ''AUTHORIZATION_FINAL_RECHECK_DENIED'') (u m)"

end
