(* ===== verification/Authz_Analyses.thy ===== *)
theory Authz_Analyses
  imports Authz_Analyzer
begin

section \<open>Analysis and recheck\<close>

text \<open>
  The analyzers of \<open>crates/zk-authz/src/analyzer.rs\<close>: for each kind the analysis of a call and the
  check of its facts before the execution, and the binding of the analysed target into the input.
\<close>

definition err :: "string \<Rightarrow> string \<Rightarrow> authz_error + 'a" where
  "err code message = Inl (authz_err (u code) (u message))"

text \<open>\<open>Path::canonicalize\<close> of a path text.\<close>

definition canonicalize_text :: "world \<Rightarrow> ustring \<Rightarrow> path option" where
  "canonicalize_text W p =
     fs_canonicalize (w_fs W)
       (path_components (if is_absolute p then p else path_join (fs_cwd (w_fs W)) p))"

subsection \<open>Bash\<close>

definition shell_working_directory ::
  "world \<Rightarrow> registry \<Rightarrow> tool_use_context \<Rightarrow> authorization_subject \<Rightarrow> authz_error + path" where
  "shell_working_directory W R ctx s =
     (let configured = (case working_directory ctx of None \<Rightarrow> authorization_root s | Some d \<Rightarrow> d);
          resolved = (case ctx_session_id ctx of
            None \<Rightarrow> configured | Some session \<Rightarrow> resolve_working_directory R session configured);
          invalid = err ''BASH_WORKING_DIRECTORY_INVALID'' ''Shell working directory cannot be resolved''
      in if has_nul resolved then invalid
         else
           (case fs_canonicalize (w_fs W) (absolute_normalized (fs_cwd (w_fs W))
                   (if is_absolute resolved then resolved else path_join (authorization_root s) resolved)) of
              Some p \<Rightarrow> Inr p | None \<Rightarrow> invalid))"

definition dynamic_environment_hash :: "world \<Rightarrow> registry \<Rightarrow> ustring list \<Rightarrow> ustring" where
  "dynamic_environment_hash W R inherited = operation_hash_of (w_crates W) (environment_facts R inherited)"

record path_facts =
  pf_resource :: resource_ref
  pf_sensitive :: bool

definition file_path_base ::
  "world \<Rightarrow> tool_use_context \<Rightarrow> authorization_subject \<Rightarrow> authz_error + path" where
  "file_path_base W ctx s =
     (let cwd = fs_cwd (w_fs W) in
      case working_directory ctx of
        None \<Rightarrow> Inr (absolute_normalized cwd (authorization_root s))
      | Some configured \<Rightarrow>
          if has_nul configured then err ''WORKSPACE_PATH_INVALID'' ''Invalid file working directory''
          else Inr (absolute_normalized cwd
                 (if is_absolute configured then configured
                  else path_join (authorization_root s) configured)))"

definition path_check_for ::
  "world \<Rightarrow> registry \<Rightarrow> tool_facts \<Rightarrow> bool \<Rightarrow> path \<Rightarrow> authorization_subject \<Rightarrow> path_check" where
  "path_check_for W R t write absolute s =
     (let F = w_fs W; pads = reg_scratchpads R; target = path_text absolute; ws = authorization_root s
      in if write then check_authorized_write_permission F pads target ws
         else if tf_name t = u ''Glob'' \<or> tf_name t = u ''Grep'' then
           check_authorized_recursive_read_root_permission F pads target ws
         else check_authorized_read_permission F pads target ws)"

text \<open>The resource is the canonical target, the check is made on the lexical one.\<close>

definition inspect ::
  "world \<Rightarrow> registry \<Rightarrow> tool_facts \<Rightarrow> bool \<Rightarrow> ustring \<Rightarrow> tool_use_context \<Rightarrow> authorization_subject \<Rightarrow>
   authz_error + path_facts" where
  "inspect W R t write raw_path ctx s =
     (if has_nul raw_path then err ''PROTECTED_PATH_DENIED'' ''Invalid file path''
      else
        and_then (file_path_base W ctx s) (\<lambda>base.
        and_then (case resolve_path (w_fs W) raw_path (path_text base) of
                    Inl unsafe \<Rightarrow> Inl (authz_err (u ''PROTECTED_PATH_DENIED'') unsafe)
                  | Inr p \<Rightarrow> Inr p) (\<lambda>canonical.
        let lexical = absolute_normalized (fs_cwd (w_fs W))
              (if is_absolute raw_path then raw_path else path_join (path_text base) raw_path);
            c = path_check_for W R t write lexical s
        in if \<not> is_allowed c then
             Inl (authz_err (u ''PROTECTED_PATH_DENIED'')
               (case check_message c of Some m \<Rightarrow> m | None \<Rightarrow> u ''Path access denied''))
           else Inr \<lparr>pf_resource = canonical_resource canonical s, pf_sensitive = needs_confirmation c\<rparr>)))"

definition OUTPUT_OPERATIONS :: "ustring list" where
  "OUTPUT_OPERATIONS = map u [''created'', ''create'', ''modified'', ''update'', ''deleted'', ''delete'']"

text \<open>The declared path, when it is a string that is not blank.\<close>

definition declared_path :: "json \<Rightarrow> ustring option" where
  "declared_path v =
     (case Option.bind (member v (u ''path'')) as_str of
        Some p \<Rightarrow> if rust_trim p = [] then None else Some p
      | None \<Rightarrow> None)"

definition declared_operation :: "json \<Rightarrow> ustring" where
  "declared_operation v =
     ascii_lower (case Option.bind (member v (u ''operation'')) as_str of Some o' \<Rightarrow> o' | None \<Rightarrow> [])"

text \<open>The loop over the declarations: the resources and the sensitivity so far, and the paths seen. A
  path is compared by its components.\<close>

fun declared_outputs_loop ::
  "world \<Rightarrow> registry \<Rightarrow> tool_facts \<Rightarrow> path \<Rightarrow> tool_use_context \<Rightarrow> authorization_subject \<Rightarrow> json list \<Rightarrow>
   path list \<Rightarrow> resource_ref list \<times> bool \<Rightarrow> authz_error + resource_ref list \<times> bool" where
  "declared_outputs_loop W R t cwd ctx s [] seen out = Inr out"
| "declared_outputs_loop W R t cwd ctx s (d # ds) seen (ress, sens) =
     (case declared_path d of
        None \<Rightarrow> err ''BASH_OUTPUT_DECLARATION_INVALID'' ''Every output requires a path''
      | Some p \<Rightarrow>
          if declared_operation d \<notin> set OUTPUT_OPERATIONS then
            err ''BASH_OUTPUT_OPERATION_INVALID'' ''Output operation is invalid''
          else
            let full = (if is_absolute p then p else path_join (path_text cwd) p) in
            and_then (inspect W R t True full ctx s) (\<lambda>f.
              if path_components full \<in> set seen then
                err ''BASH_OUTPUT_PATH_INVALID'' ''Output paths must be unique''
              else declared_outputs_loop W R t cwd ctx s ds (path_components full # seen)
                     (ress @ [pf_resource f], sens \<or> pf_sensitive f)))"

definition declared_output_facts ::
  "world \<Rightarrow> registry \<Rightarrow> tool_facts \<Rightarrow> json \<Rightarrow> path \<Rightarrow> tool_use_context \<Rightarrow> authorization_subject \<Rightarrow>
   authz_error + resource_ref list \<times> bool" where
  "declared_output_facts W R t input cwd ctx s =
     (case member input (u ''declared_outputs'') of
        None \<Rightarrow> Inr ([], False)
      | Some (JArr items) \<Rightarrow>
          if 32 < length items then
            err ''BASH_OUTPUT_DECLARATION_INVALID'' ''declared_outputs must contain at most 32 files''
          else if items \<noteq> [] \<and> input_bool input ''is_background'' False then
            err ''BASH_BACKGROUND_OUTPUTS_UNSUPPORTED'' ''Background commands cannot declare outputs''
          else declared_outputs_loop W R t cwd ctx s items [] ([], False)
      | Some _ \<Rightarrow>
          err ''BASH_OUTPUT_DECLARATION_INVALID'' ''declared_outputs must contain at most 32 files'')"

record bash_facts =
  bf_command :: ustring
  bf_resources :: "resource_ref list"
  bf_inherited :: "ustring list"
  bf_risk :: risk_class
  bf_effects :: "effect_class list"
  bf_authorization_input :: json

definition bash_authorization_input ::
  "world \<Rightarrow> registry \<Rightarrow> json \<Rightarrow> ustring \<Rightarrow> ustring list \<Rightarrow> json" where
  "bash_authorization_input W R input command inherited =
     (let m = json_set (json_set [] (u ''command'') (JStr command)) (u ''isBackground'')
            (JBool (input_bool input ''is_background'' False));
          m = (case member input (u ''declared_outputs'') of
                 Some v \<Rightarrow> json_set m (u ''declaredOutputs'') v | None \<Rightarrow> m)
      in JObj (json_set m (u ''dynamicEnvironmentHash'') (JStr (dynamic_environment_hash W R inherited))))"

definition bash_facts_of ::
  "world \<Rightarrow> registry \<Rightarrow> tool_facts \<Rightarrow> json \<Rightarrow> tool_use_context \<Rightarrow> authorization_subject \<Rightarrow>
   authz_error + bash_facts" where
  "bash_facts_of W R t input ctx s =
     (let command = input_string (w_crates W) input ''command'' [] in
      and_then (shell_working_directory W R ctx s) (\<lambda>cwd.
      case bash_security R of
        None \<Rightarrow> err ''BASH_SECURITY_ANALYZER_UNAVAILABLE'' ''Shell security analyzer is unavailable''
      | Some port \<Rightarrow>
          (case port_parse_for_security port command cwd (authorization_root s) of
             BlacklistDeny why \<Rightarrow> Inl (authz_err (u ''COMMAND_ABSOLUTELY_DENIED'') why)
           | _ \<Rightarrow>
               let inherited = sort_key str_key (port_inherited_references port command) in
               and_then (declared_output_facts W R t input cwd ctx s) (\<lambda>(declared, sens).
               Inr \<lparr>bf_command = command, bf_resources = cwd_resource cwd s # declared,
                    bf_inherited = inherited,
                    bf_risk = (if is_destructive t input \<or> sens then High
                       else if is_read_only t input then SafeRisk else Guarded),
                    bf_effects = (if is_read_only t input then [Process, ReadResource]
                       else [Process, WriteResource]),
                    bf_authorization_input = bash_authorization_input W R input command inherited\<rparr>))))"

definition analyze_bash ::
  "world \<Rightarrow> registry \<Rightarrow> tool_facts \<Rightarrow> ustring \<Rightarrow> json \<Rightarrow> tool_use_context \<Rightarrow> authorization_subject \<Rightarrow>
   authz_error + operation_descriptor" where
  "analyze_bash W R t hash input ctx s =
     map_ok (\<lambda>f. descriptor_of (w_crates W) (kind_id BashKind) (tf_name t) hash (u ''execute'') (bf_effects f)
               (bf_resources f) (bf_inherited f) [] (bf_risk f)
               (sensitive_filter R (redact_command W (bf_command f))) (bf_authorization_input f))
       (bash_facts_of W R t input ctx s)"

definition recheck_bash ::
  "world \<Rightarrow> registry \<Rightarrow> tool_facts \<Rightarrow> operation_descriptor \<Rightarrow> json \<Rightarrow> tool_use_context \<Rightarrow>
   authorization_subject \<Rightarrow> authz_error + unit" where
  "recheck_bash W R t d input ctx s =
     and_then (bash_facts_of W R t input ctx s) (\<lambda>f.
     let current = descriptor_of (w_crates W) (kind_id BashKind) (tf_name t) (input_hash d) (u ''execute'')
           (effects d) (bf_resources f) (bf_inherited f) [] (bf_risk f) (redacted_summary d)
           (bf_authorization_input f)
     in if risk current \<noteq> risk d \<or> bf_resources f \<noteq> resources d \<or>
           bf_inherited f \<noteq> inherited_environment_names d \<or> operation_hash current \<noteq> operation_hash d
        then Inl (final_recheck_denied ''Shell security facts changed before execution'')
        else Inr ())"

subsection \<open>Hooks\<close>

definition HOOK_EFFECTS :: "effect_class list" where
  "HOOK_EFFECTS = [Process, WriteResource, Network]"

text \<open>The effects, the risk and the target of the declaration.\<close>

definition hook_target ::
  "world \<Rightarrow> registry \<Rightarrow> tool_facts \<Rightarrow> json \<Rightarrow> path \<Rightarrow> authorization_subject \<Rightarrow>
   authz_error + (effect_class list \<times> risk_class \<times> ustring)" where
  "hook_target W R t declaration root s =
     (case as_str (index_json declaration ''url'') of
        Some url \<Rightarrow> Inr ([Network], Guarded, redact_endpoint url)
      | None \<Rightarrow>
          (case as_str (index_json declaration ''command'') of
             None \<Rightarrow> err ''HOOK_DECLARATION_INVALID'' ''Hook has no execution target''
           | Some command \<Rightarrow>
               (case bash_security R of
                  None \<Rightarrow> err ''BASH_SECURITY_ANALYZER_UNAVAILABLE'' ''Shell security analyzer is unavailable''
                | Some port \<Rightarrow>
                    (case port_parse_for_security port command root (authorization_root s) of
                       BlacklistDeny why \<Rightarrow> Inl (authz_err (u ''COMMAND_ABSOLUTELY_DENIED'') why)
                     | _ \<Rightarrow> Inr (HOOK_EFFECTS,
                         (if is_destructive t (JObj [(u ''command'', JStr command)]) then High else Guarded),
                         redact_command W command)))))"

definition str_or :: "json \<Rightarrow> string \<Rightarrow> string \<Rightarrow> ustring" where
  "str_or v k dflt = (case as_str (index_json v k) of Some t \<Rightarrow> t | None \<Rightarrow> u dflt)"

definition hook_summary :: "registry \<Rightarrow> json \<Rightarrow> json \<Rightarrow> path \<Rightarrow> ustring \<Rightarrow> ustring" where
  "hook_summary R facts declaration root target =
     u ''Hook '' @ str_or declaration ''name'' ''unnamed'' @ u '' ['' @
     str_or declaration ''event'' ''unknown'' @ u '']'' @ [10] @ u ''Working root: '' @ path_text root @ [10] @
     u ''Configuration: '' @ str_or facts ''source'' ''unknown'' @ [10] @ sensitive_filter R target"

definition analyze_hook ::
  "world \<Rightarrow> registry \<Rightarrow> tool_facts \<Rightarrow> ustring \<Rightarrow> authorization_subject \<Rightarrow> authz_error + operation_descriptor" where
  "analyze_hook W R t hash s =
     (case host_hook_facts t of
        None \<Rightarrow> err ''HOOK_HOST_IDENTITY_REQUIRED'' ''Hook identity requires a host adapter''
      | Some facts \<Rightarrow>
          (case as_str (index_json facts ''workingRoot'') of
             None \<Rightarrow> err ''HOOK_ROOT_UNAVAILABLE'' ''Hook working root is unavailable''
           | Some configured \<Rightarrow>
               (case canonicalize_text W configured of
                  None \<Rightarrow> err ''HOOK_ROOT_UNAVAILABLE'' ''Hook working root is unavailable''
                | Some root \<Rightarrow>
                    if path_text root \<noteq> configured then Inl (final_recheck_denied ''Hook working root changed'')
                    else
                      let declaration = index_json facts ''declaration'' in
                      map_ok (\<lambda>(effs, rsk, target).
                        descriptor_of (w_crates W) (u ''hook-v1'') (tf_name t) hash (u ''execute-hook'') effs
                          [cwd_resource root s] [] [] rsk (hook_summary R facts declaration root target) facts)
                        (hook_target W R t declaration root s))))"

subsection \<open>Files\<close>

definition raw_path_of :: "world \<Rightarrow> tool_facts \<Rightarrow> json \<Rightarrow> tool_use_context \<Rightarrow> ustring option" where
  "raw_path_of W t input ctx =
     (let cr = w_crates W; name = tf_name t in
      if name = u ''Glob'' \<or> name = u ''Grep'' then
        (if input_has input (u ''path'') then first_of cr input [u ''path''] else working_directory ctx)
      else if name = u ''LSP'' then first_of cr input [u ''filePath'', u ''file_path'']
      else (case path_of t input of
              Some p \<Rightarrow> Some p
            | None \<Rightarrow> first_of cr input [u ''file_path'', u ''path'', u ''notebook_path'']))"

definition file_path_facts ::
  "world \<Rightarrow> registry \<Rightarrow> tool_facts \<Rightarrow> bool \<Rightarrow> json \<Rightarrow> tool_use_context \<Rightarrow> authorization_subject \<Rightarrow>
   authz_error + path_facts option" where
  "file_path_facts W R t write input ctx s =
     (case raw_path_of W t input ctx of
        None \<Rightarrow> Inr None
      | Some p \<Rightarrow>
          if rust_trim p = [] then Inr None else map_ok Some (inspect W R t write p ctx s))"

definition file_resources :: "path_facts option \<Rightarrow> resource_ref list" where
  "file_resources f = (case f of None \<Rightarrow> [] | Some x \<Rightarrow> [pf_resource x])"

definition file_typed_operation :: "tool_facts \<Rightarrow> resource_ref list \<Rightarrow> typed_file_operation" where
  "file_typed_operation t rs =
     (if tf_name t = u ''LSP'' \<and> rs = [] then ListDirectory else file_operation (tf_name t))"

definition file_risk :: "bool \<Rightarrow> path_facts option \<Rightarrow> risk_class" where
  "file_risk write f =
     (case f of
        None \<Rightarrow> if write then Guarded else SafeRisk
      | Some x \<Rightarrow>
          if pf_sensitive x then High
          else if write \<or> outside_workspace (pf_resource x) then Guarded
          else SafeRisk)"

text \<open>The listing of no particular directory is the listing of the workspace.\<close>

definition analysed_resources :: "tool_facts \<Rightarrow> path_facts option \<Rightarrow> resource_ref list" where
  "analysed_resources t f =
     (let rs = file_resources f
      in if rs = [] \<and> file_typed_operation t rs = ListDirectory
         then [\<lparr>res_kind = u ''path'', res_value = u ''.'', outside_workspace = False\<rparr>] else rs)"

definition file_summary :: "world \<Rightarrow> tool_facts \<Rightarrow> path_facts option \<Rightarrow> ustring" where
  "file_summary W t f =
     (case f of
        None \<Rightarrow> tf_name t
      | Some x \<Rightarrow>
          let r = pf_resource x in
          if \<not> outside_workspace r then tf_name t @ u '' inside Project: '' @ res_value r
          else
            let cwd = fs_cwd (w_fs W); home = absolute_normalized cwd (fs_home (w_fs W));
                target = absolute_normalized cwd (res_value r);
                shown = (if fs_home (w_fs W) \<noteq> [] \<and> path_starts_with target home then
                    u ''~/'' @ map (\<lambda>c. if c = backslash then slash else c)
                      (join_slash (drop (length home) target))
                  else res_value r)
            in tf_name t @ u '' outside Project: '' @ shown)"

definition analyze_file ::
  "world \<Rightarrow> registry \<Rightarrow> tool_facts \<Rightarrow> ustring \<Rightarrow> json \<Rightarrow> tool_use_context \<Rightarrow> authorization_subject \<Rightarrow>
   authz_error + operation_descriptor" where
  "analyze_file W R t hash input ctx s =
     (let write = (tf_name t \<in> set FILE_WRITE) in
      map_ok (\<lambda>f. descriptor_of (w_crates W) (kind_id FileKind) (tf_name t) hash
                (file_op_as_str (file_typed_operation t (file_resources f)))
                [if write then WriteResource else ReadResource] (analysed_resources t f) [] []
                (file_risk write f) (file_summary W t f) (JObj []))
        (file_path_facts W R t write input ctx s))"

definition risk_increased :: "risk_class \<Rightarrow> risk_class \<Rightarrow> bool" where
  "risk_increased current authorized = (rank authorized < rank current)"

definition recheck_file ::
  "world \<Rightarrow> registry \<Rightarrow> tool_facts \<Rightarrow> operation_descriptor \<Rightarrow> json \<Rightarrow> tool_use_context \<Rightarrow>
   authorization_subject \<Rightarrow> authz_error + unit" where
  "recheck_file W R t d input ctx s =
     (let write = (tf_name t \<in> set FILE_WRITE) in
      and_then (file_path_facts W R t write input ctx s) (\<lambda>f.
        if resources d \<noteq> canonical_resources (analysed_resources t f) \<or>
           risk_increased (file_risk write f) (risk d)
        then Inl (final_recheck_denied ''File target or security facts changed before execution'')
        else Inr ()))"

subsection \<open>Network, artifacts, MCP and the rest\<close>

definition analyze_network :: "world \<Rightarrow> tool_facts \<Rightarrow> ustring \<Rightarrow> json \<Rightarrow> operation_descriptor" where
  "analyze_network W t hash input =
     (let ends = (case first_of (w_crates W) input [u ''url'', u ''uri'', u ''endpoint''] of
            Some url \<Rightarrow> [redact_endpoint url] | None \<Rightarrow> [])
      in descriptor_of (w_crates W) (kind_id NetworkKind) (tf_name t) hash (u ''network'') [Network] [] [] ends
           Guarded (tf_name t @ u '' remote request'') (input_hash_facts hash))"

definition publication_snapshot_of ::
  "world \<Rightarrow> registry \<Rightarrow> json \<Rightarrow> tool_use_context \<Rightarrow> authz_error + publication_snapshot" where
  "publication_snapshot_of W R input ctx =
     (case artifact_publication R of
        None \<Rightarrow> err ''ARTIFACT_PUBLISH_ANALYZER_UNAVAILABLE'' ''Artifact publication policy is unavailable''
      | Some policy \<Rightarrow>
          (case policy (input_string (w_crates W) input ''file_path'' []) (ctx_run_id ctx) of
             Inl (code, message) \<Rightarrow> Inl (authz_err code message)
           | Inr p \<Rightarrow> Inr p))"

definition publication_descriptor :: "world \<Rightarrow> tool_facts \<Rightarrow> ustring \<Rightarrow> publication_snapshot \<Rightarrow> operation_descriptor" where
  "publication_descriptor W t hash p =
     descriptor_of (w_crates W) (kind_id ArtifactKind) (tf_name t) hash (u ''publish-public-artifact'')
       [ReadResource, Network, WriteResource]
       [\<lparr>res_kind = u ''path'', res_value = ps_relative_path p, outside_workspace = False\<rparr>] []
       [redact_endpoint (ps_endpoint p)] High
       (u ''PERMANENT PUBLIC OSS upload'' @ [10] @ u ''File: '' @ ps_relative_path p @ [10] @
        u ''Size: '' @ pad_int 0 (ps_size p) @ u '' bytes'' @ [10] @ u ''SHA-256: '' @ ps_sha256 p @ [10] @
        u ''Bucket: '' @ ps_bucket p @ [10] @ u ''Public URL: '' @ ps_public_url p)
       (ps_facts p)"

definition opt_or :: "ustring option \<Rightarrow> ustring \<Rightarrow> ustring" where
  "opt_or x dflt = (case x of Some v \<Rightarrow> v | None \<Rightarrow> dflt)"

definition analyze_mcp :: "world \<Rightarrow> tool_facts \<Rightarrow> ustring \<Rightarrow> operation_descriptor" where
  "analyze_mcp W t hash =
     (let server_id = opt_or (mcp_server_id t) (u ''unknown-server'');
          server_name = opt_or (mcp_server t) server_id;
          remote_tool = opt_or (mcp_tool_name t) (tf_name t);
          capability = opt_or (mcp_capability_id t) (u ''unregistered'');
          config = opt_or (mcp_config_hash t) (u ''missing-config-hash'');
          scope = opt_or (mcp_resource_scope t) (u ''mcp://'' @ server_id @ [slash] @ remote_tool);
          facts = json_obj [(u ''inputHash'', JStr hash), (u ''serverId'', JStr server_id),
            (u ''serverName'', JStr server_name), (u ''toolName'', JStr remote_tool),
            (u ''capabilityId'', JStr capability), (u ''resourceScope'', JStr scope),
            (u ''domainScope'', case mcp_domain_scope t of Some d \<Rightarrow> JStr d | None \<Rightarrow> JNull),
            (u ''configHash'', JStr config)]
      in descriptor_of (w_crates W) (kind_id McpKind) (tf_name t) hash
           (u ''invoke:'' @ capability @ u '':'' @ config) [UnknownEffect]
           [\<lparr>res_kind = u ''mcp'', res_value = scope, outside_workspace = False\<rparr>] [] [] Guarded
           (u ''MCP '' @ server_name @ [slash] @ remote_tool @ u '' exact invocation'') facts)"

definition generic_safe :: "tool_facts \<Rightarrow> bool" where
  "generic_safe t = ((tf_name t \<in> set SAFE_INTERNAL \<or> is_safe_internal_projection t) \<and> \<not> is_mcp t)"

definition analyze_generic :: "world \<Rightarrow> ustring \<Rightarrow> tool_facts \<Rightarrow> ustring \<Rightarrow> operation_descriptor" where
  "analyze_generic W analyzer t hash =
     (let safe = generic_safe t;
          effect = (if safe then SafeInternal
            else if tf_name t \<in> set CONTROL \<or> tf_name t \<in> set VERIFY_CONTROL then ControlPlane
            else UnknownEffect)
      in descriptor_of (w_crates W) analyzer (tf_name t) hash
           (if safe then u ''internal'' else u ''invoke'') [effect] [] [] []
           (if safe then SafeRisk else Guarded)
           (if safe then tf_name t else tf_name t @ u '' exact invocation'') (input_hash_facts hash))"

subsection \<open>The entry points\<close>

definition analyze ::
  "world \<Rightarrow> registry \<Rightarrow> analyzer_kind \<Rightarrow> tool_facts \<Rightarrow> frozen_input \<Rightarrow> json \<Rightarrow> tool_use_context \<Rightarrow>
   authorization_subject \<Rightarrow> authz_error + operation_descriptor" where
  "analyze W R k t frozen input ctx s =
     (let hash = fi_input_hash frozen in
      case k of
        HookKind \<Rightarrow> analyze_hook W R t hash s
      | BashKind \<Rightarrow> analyze_bash W R t hash input ctx s
      | FileKind \<Rightarrow> analyze_file W R t hash input ctx s
      | NetworkKind \<Rightarrow> Inr (analyze_network W t hash input)
      | ArtifactKind \<Rightarrow> map_ok (publication_descriptor W t hash) (publication_snapshot_of W R input ctx)
      | McpKind \<Rightarrow> Inr (analyze_mcp W t hash)
      | GenericKind \<Rightarrow> Inr (analyze_generic W (kind_id k) t hash))"

definition recheck ::
  "world \<Rightarrow> registry \<Rightarrow> analyzer_kind \<Rightarrow> tool_facts \<Rightarrow> operation_descriptor \<Rightarrow> json \<Rightarrow> tool_use_context \<Rightarrow>
   authorization_subject \<Rightarrow> authz_error + unit" where
  "recheck W R k t d input ctx s =
     (case k of
        HookKind \<Rightarrow>
          and_then (analyze_hook W R t (input_hash d) s) (\<lambda>current.
            if operation_hash current \<noteq> operation_hash d
            then Inl (final_recheck_denied ''Hook execution identity changed'') else Inr ())
      | BashKind \<Rightarrow> recheck_bash W R t d input ctx s
      | FileKind \<Rightarrow> recheck_file W R t d input ctx s
      | ArtifactKind \<Rightarrow>
          and_then (publication_snapshot_of W R input ctx) (\<lambda>p.
            let recomputed = publication_descriptor W t (input_hash d) p
            in if operation_hash d \<noteq> operation_hash recomputed \<or> resources d \<noteq> resources recomputed \<or>
                  risk d \<noteq> High
               then Inl (final_recheck_denied ''Artifact or OSS publication facts changed before execution'')
               else Inr ())
      | NetworkKind \<Rightarrow> Inr () | McpKind \<Rightarrow> Inr () | GenericKind \<Rightarrow> Inr ())"

subsection \<open>Binding the target\<close>

definition bound_path :: "ustring \<Rightarrow> authorization_subject \<Rightarrow> resource_ref \<Rightarrow> ustring" where
  "bound_path cwd s r =
     path_text (absolute_normalized cwd
       (if outside_workspace r then res_value r else path_join (authorization_root s) (res_value r)))"

definition bind_lsp :: "json_object \<Rightarrow> ustring \<Rightarrow> json option" where
  "bind_lsp m p =
     (let has_a = (json_get m (u ''filePath'') \<noteq> None);
          m1 = (if has_a then json_set m (u ''filePath'') (JStr p) else m);
          has_b = (json_get m1 (u ''file_path'') \<noteq> None);
          m2 = (if has_b then json_set m1 (u ''file_path'') (JStr p) else m1)
      in if has_a \<or> has_b then Some (JObj m2) else None)"

definition bind_execution_input ::
  "ustring \<Rightarrow> ustring \<Rightarrow> operation_descriptor \<Rightarrow> json \<Rightarrow> authorization_subject \<Rightarrow> json option" where
  "bind_execution_input cwd name d input s =
     (if analyzer_id d \<noteq> u ''file-v1'' then None
      else case List.find (\<lambda>r. res_kind r = u ''path'') (resources d) of
        None \<Rightarrow> None
      | Some r \<Rightarrow>
          let p = bound_path cwd s r; m = (case input of JObj m \<Rightarrow> m | _ \<Rightarrow> []) in
          if name = u ''Glob'' \<or> name = u ''Grep'' then Some (JObj (json_set m (u ''path'') (JStr p)))
          else if name = u ''LSP'' then bind_lsp m p
          else if name = u ''NotebookEdit'' then Some (JObj (json_set m (u ''notebook_path'') (JStr p)))
          else if json_get m (u ''file_path'') = None then None
          else Some (JObj (json_set m (u ''file_path'') (JStr p))))"

end
