(* ===== verification/Authz_Gateway.thy ===== *)
theory Authz_Gateway
  imports Authz_Analyses
begin

section \<open>Subjects, authorization and admission\<close>

text \<open>
  \<open>load_root\<close> of \<open>crates/zk-authz/src/subject.rs\<close>, the entry points and the final recheck of
  \<open>service.rs\<close>, and \<open>gateway.rs\<close>. The final recheck and the admission run inside one write
  transaction: \<open>admission_state\<close> is what that transaction reads, \<open>gateway_io\<close> which of its own steps
  fail. The transaction commits only at the end of a successful admission.
\<close>

subsection \<open>The subject of a run\<close>

definition MAX_ANCESTRY :: nat where
  "MAX_ANCESTRY = 32"

definition ancestry_invalid :: "ustring \<Rightarrow> authz_error + 'a" where
  "ancestry_invalid m = Inl (authz_err (u ''AUTHORIZATION_ANCESTRY_INVALID'') m)"

text \<open>The loop to the root run: \<open>n\<close> iterations are left, \<open>seen\<close> holds the runs visited. The result is
  the root run, its session and the working directory.\<close>

fun ancestry_loop ::
  "grant_db \<Rightarrow> nat \<Rightarrow> ustring list \<Rightarrow> ustring \<Rightarrow> authz_error + (ustring \<times> ustring \<times> ustring)" where
  "ancestry_loop db 0 seen cursor =
     ancestry_invalid (u ''Run ancestry exceeds '' @ pad 0 MAX_ANCESTRY @ u '' levels'')"
| "ancestry_loop db (Suc n) seen cursor =
     (if cursor \<in> set seen then ancestry_invalid (u ''Run ancestry contains a cycle'')
      else (case runs db cursor of
        None \<Rightarrow> ancestry_invalid (u ''Run ancestry contains a missing parent'')
      | Some row \<Rightarrow>
          (case r_parent row of
             Some parent \<Rightarrow> ancestry_loop db n (cursor # seen) parent
           | None \<Rightarrow>
               (case Option.bind (sessions db (r_session row)) s_working_dir of
                  None \<Rightarrow> ancestry_invalid (u ''Root session is missing or ambiguous'')
                | Some dir \<Rightarrow> Inr (cursor, r_session row, dir)))))"

text \<open>The identity of a directory (its workspace key and canonical root) comes from the file system
  and Git: \<open>resolve\<close> is a parameter.\<close>

definition load_root ::
  "(ustring \<Rightarrow> authz_error + (ustring \<times> ustring)) \<Rightarrow> grant_db \<Rightarrow> ustring \<Rightarrow> authz_error + authorization_subject" where
  "load_root resolve db run =
     and_then (ancestry_loop db (Suc MAX_ANCESTRY) [] run) (\<lambda>(root_run, session, dir).
     and_then (resolve dir) (\<lambda>(key, root).
     Inr \<lparr>root_session_id = session, root_run_id = root_run, current_run_id = run,
          workspace_key = key, authorization_root = root\<rparr>))"

subsection \<open>Preparing and authorizing\<close>

text \<open>\<open>prepare\<close> after the subject is resolved; \<open>attempt\<close> is the identifier \<open>uuid\<close> generates.\<close>

definition prepare ::
  "world \<Rightarrow> registry \<Rightarrow> tool_facts \<Rightarrow> frozen_input \<Rightarrow> json \<Rightarrow> tool_use_context \<Rightarrow> ustring \<Rightarrow>
   authz_error + authorization_subject \<Rightarrow> (authz_error + prepared_operation) \<times> run_event list" where
  "prepare W R t frozen input ctx attempt subject =
     (case subject of
        Inl e \<Rightarrow> (Inl e, [])
      | Inr s \<Rightarrow>
          (case and_then (analyze W R (analyzer_for t) t frozen input ctx s)
                  (\<lambda>d. map_ok (\<lambda>_. d) (invariant d)) of
             Inr d \<Rightarrow>
               (Inr \<lparr>prepared_subject = s, prepared_descriptor = d, prepared_attempt_id = attempt\<rparr>, [])
           | Inl e \<Rightarrow>
               (Inl e, record_analysis_failure ctx s (tf_name t) (fi_input_hash frozen) attempt (err_code e))))"

definition authorize ::
  "world \<Rightarrow> registry \<Rightarrow> readings \<Rightarrow> tool_facts \<Rightarrow> frozen_input \<Rightarrow> json \<Rightarrow> tool_use_context \<Rightarrow> ustring \<Rightarrow>
   authz_error + authorization_subject \<Rightarrow> permission_mode option \<Rightarrow> decision_result" where
  "authorize W R rd t frozen input ctx attempt subject mode_override =
     (case prepare W R t frozen input ctx attempt subject of
        (Inl e, evs) \<Rightarrow> (Inl e, evs)
      | (Inr p, evs) \<Rightarrow>
          (case authorize_prepared_with_mode (w_crates W) rd
                  (bind_execution_input (fs_cwd (w_fs W)) (tf_name t)) (tf_name t) (fi_input_hash frozen)
                  input ctx p mode_override of
             (r, evs') \<Rightarrow> (r, evs @ evs')))"

subsection \<open>The final recheck\<close>

definition final_dynamic_recheck ::
  "world \<Rightarrow> registry \<Rightarrow> tool_facts \<Rightarrow> authorized_operation \<Rightarrow> tool_use_context \<Rightarrow> authz_error + unit" where
  "final_dynamic_recheck W R t a ctx =
     and_then (invariant (descriptor a)) (\<lambda>_.
       recheck W R (analyzer_for t) t (descriptor a) (execution_input a) ctx (auth_subject a))"

record admission_state =
  ad_db :: grant_db
  ad_now :: ustring
  ad_mode :: permission_mode
  ad_cwd :: ustring
  ad_trust :: "ustring \<Rightarrow> bool"
  ad_scratchpad :: "path \<Rightarrow> bool"
  ad_answered :: "ustring option \<Rightarrow> authorization_subject \<Rightarrow> operation_descriptor \<Rightarrow> ustring \<Rightarrow> authz_error + unit"
  ad_run_failure :: "ustring option"
  ad_grant_failure :: "ustring option"

definition scratchpad_now :: "admission_state \<Rightarrow> authorization_subject \<Rightarrow> operation_descriptor \<Rightarrow> bool" where
  "scratchpad_now st s d =
     is_trusted_ordinary_file_operation (ad_cwd st) (ad_trust st) s d (ad_scratchpad st)"

definition private_tmp_now :: "admission_state \<Rightarrow> authorization_subject \<Rightarrow> operation_descriptor \<Rightarrow> bool" where
  "private_tmp_now st s d = is_trusted_private_tmp_file_operation (ad_cwd st) (ad_trust st) s d"

definition project_write_now :: "admission_state \<Rightarrow> authorization_subject \<Rightarrow> operation_descriptor \<Rightarrow> bool" where
  "project_write_now st s d = is_trusted_project_file_write s d (ad_trust st)"

definition current_policy_allows :: "admission_state \<Rightarrow> authorized_operation \<Rightarrow> bool" where
  "current_policy_allows st a =
     (let d = descriptor a; s = auth_subject a; mode = ad_mode st; read = (effects d = [ReadResource]) in
      if effects d = [SafeInternal] \<or> mode = AutoApprove then True
      else if risk d = High \<or> analyzer_id d = u ''hook-v1'' then False
      else if read \<and> analyzer_id d = u ''file-v1'' \<and> risk d = SafeRisk then True
      else if (read \<or> mode \<noteq> PlanMode) \<and> (scratchpad_now st s d \<or> private_tmp_now st s d) then True
      else if mode = PlanMode then False
      else project_write_now st s d \<or>
           (mode = AcceptEdits \<and> analyzer_id d = u ''file-v1'' \<and> effects d = [WriteResource] \<and>
            \<not> list_ex outside_workspace (resources d)))"

definition accepts_tools :: "grant_db \<Rightarrow> ustring \<Rightarrow> bool" where
  "accepts_tools db run =
     (case runs db run of
        None \<Rightarrow> False
      | Some row \<Rightarrow> r_status row \<in> {u ''running'', u ''waitingInteraction'', u ''waitingDependencies''})"

text \<open>The last step, on the source of the authorization.\<close>

definition source_recheck :: "crates \<Rightarrow> admission_state \<Rightarrow> authorized_operation \<Rightarrow> tool_use_context \<Rightarrow> authz_error + unit" where
  "source_recheck cr st a ctx =
     (let s = auth_subject a; d = descriptor a;
          policy = (auth_source a = PolicySource) in
      case auth_grant_id a of
        Some gid \<Rightarrow>
          (case ad_grant_failure st of
             Some e \<Rightarrow> Inl (authz_err (u ''AUTHORIZATION_FINAL_RECHECK_DENIED'')
                         (u ''Permission grant recheck failed: '' @ e))
           | None \<Rightarrow>
               if map_option match_id (find_match_at cr (ad_db st) (ad_now st) s d) \<noteq> Some gid
               then Inl (final_recheck_denied ''The matching permission grant is no longer valid'')
               else Inr ())
      | None \<Rightarrow>
          if auth_source a = UserOnce then
            (case ad_answered st (interaction_id a) s d (tool_use_id_or ctx (tool_name d)) of
               Inl _ \<Rightarrow> Inl (final_recheck_denied ''The one-time permission decision is no longer valid'')
             | Inr _ \<Rightarrow> Inr ())
          else if policy \<and> reason_code a = u ''PROJECT_FILE_SCOPE'' \<and> \<not> project_write_now st s d then
            Inl (final_recheck_denied ''The Project file authorization is no longer valid'')
          else if policy \<and> reason_code a = u ''SYSTEM_SCRATCHPAD_SCOPE'' \<and> \<not> scratchpad_now st s d then
            Inl (final_recheck_denied ''The system scratchpad authorization is no longer valid'')
          else if policy \<and> reason_code a = u ''PRIVATE_TMP_FILE_SCOPE'' \<and> \<not> private_tmp_now st s d then
            Inl (final_recheck_denied ''The private temp file authorization is no longer valid'')
          else Inr ())"

definition final_grant_recheck ::
  "crates \<Rightarrow> admission_state \<Rightarrow> authorized_operation \<Rightarrow> tool_use_context \<Rightarrow> authz_error + unit" where
  "final_grant_recheck cr st a ctx =
     (if (ad_mode st = PlanMode \<or> reason_code a \<in> {u ''AUTO_APPROVE'', u ''ACCEPT_EDITS''}) \<and>
         \<not> current_policy_allows st a then
        Inl (final_recheck_denied ''Permission mode changed before execution'')
      else (case ad_run_failure st of
        Some e \<Rightarrow> Inl (authz_err (u ''AUTHORIZATION_FINAL_RECHECK_DENIED'')
                    (u ''Run admission recheck failed: '' @ e))
      | None \<Rightarrow>
          if \<not> accepts_tools (ad_db st) (current_run_id (auth_subject a)) then
            Inl (authz_err (u ''RUN_TOOL_ADMISSION_CLOSED'') (u ''The run no longer accepts tool execution''))
          else source_recheck cr st a ctx))"

subsection \<open>The gateway\<close>

record admission_rejection =
  rej_code :: ustring
  rej_message :: ustring

datatype gateway_error = DeniedError authz_error | AdmissionError admission_rejection | DbFailure db_error

record gateway_io =
  io_begin :: "db_error option"
  io_append :: "db_error option"
  io_commit :: "db_error option"

definition fault :: "db_error option \<Rightarrow> gateway_error + unit" where
  "fault e = (case e of Some x \<Rightarrow> Inl (DbFailure x) | None \<Rightarrow> Inr ())"

definition admission_event_type :: "authorized_operation \<Rightarrow> ustring" where
  "admission_event_type a =
     (if analyzer_id (descriptor a) = u ''hook-v1'' then u ''hook_admitted'' else u ''tool_started'')"

definition admission_event :: "authorized_operation \<Rightarrow> tool_use_context \<Rightarrow> ustring \<Rightarrow> run_event" where
  "admission_event a ctx run =
     \<lparr>event_run = run, event_type = admission_event_type a, event_tool_use = tool_use_id ctx,
      event_payload = payload (auth_subject a) (descriptor a) ctx (execution_attempt_id a) AllowOutcome
        FinalRecheck (auth_source a) (reason_code a) (auth_grant_id a) (auth_grant_scope a) (interaction_id a)\<rparr>"

text \<open>The append: a failure is returned for a hook, and swallowed by the sink otherwise.\<close>

definition append_admission ::
  "gateway_io \<Rightarrow> authorized_operation \<Rightarrow> run_event \<Rightarrow> gateway_error + run_event list" where
  "append_admission io a ev =
     (case io_append io of
        None \<Rightarrow> Inr [ev]
      | Some e \<Rightarrow> if event_type ev = u ''hook_admitted'' then Inl (DbFailure e) else Inr [])"

text \<open>The action of the caller runs in the same transaction: it gets its tables and returns them.\<close>

type_synonym admission_action = "grant_db \<Rightarrow> admission_rejection + grant_db"

definition run_action :: "admission_action option \<Rightarrow> grant_db \<Rightarrow> gateway_error + grant_db" where
  "run_action action db =
     (case action of
        None \<Rightarrow> Inr db
      | Some f \<Rightarrow> (case f db of Inl r \<Rightarrow> Inl (AdmissionError r) | Inr db' \<Rightarrow> Inr db'))"

definition as_denied :: "authz_error + 'a \<Rightarrow> gateway_error + 'a" where
  "as_denied r = (case r of Inl e \<Rightarrow> Inl (DeniedError e) | Inr x \<Rightarrow> Inr x)"

text \<open>The committed tables and events, or the error of the first step that failed.\<close>

definition admit_inner ::
  "world \<Rightarrow> registry \<Rightarrow> gateway_io \<Rightarrow> admission_state \<Rightarrow> tool_facts \<Rightarrow> authorized_operation \<Rightarrow>
   tool_use_context \<Rightarrow> admission_action option \<Rightarrow> ustring \<Rightarrow> gateway_error + (grant_db \<times> run_event list)" where
  "admit_inner W R io st t a ctx action run =
     and_then (as_denied (final_dynamic_recheck W R t a ctx)) (\<lambda>_.
     and_then (fault (io_begin io)) (\<lambda>_.
     and_then (as_denied (final_grant_recheck (w_crates W) st a ctx)) (\<lambda>_.
     and_then (run_action action (ad_db st)) (\<lambda>db.
     and_then (append_admission io a (admission_event a ctx run)) (\<lambda>evs.
     and_then (fault (io_commit io)) (\<lambda>_. Inr (db, evs)))))))"

record admission_result =
  adm_outcome :: "gateway_error + unit"
  adm_db :: grant_db
  adm_events :: "run_event list"

text \<open>Without a run there is nothing to record a denial in. A transaction that does not commit leaves
  the tables as they were.\<close>

definition admit_with ::
  "world \<Rightarrow> registry \<Rightarrow> gateway_io \<Rightarrow> admission_state \<Rightarrow> tool_facts \<Rightarrow> authorized_operation \<Rightarrow>
   tool_use_context \<Rightarrow> admission_action option \<Rightarrow> admission_result" where
  "admit_with W R io st t a ctx action =
     (case ctx_run_id ctx of
        None \<Rightarrow> \<lparr>adm_outcome = Inl (DeniedError (authz_err (u ''AUTHORIZATION_ANCESTRY_INVALID'')
                   (u ''Authorized tool execution requires a persisted Run''))),
                 adm_db = ad_db st, adm_events = []\<rparr>
      | Some run \<Rightarrow>
          (case admit_inner W R io st t a ctx action run of
             Inr (db, evs) \<Rightarrow> \<lparr>adm_outcome = Inr (), adm_db = db, adm_events = evs\<rparr>
           | Inl (DeniedError e) \<Rightarrow>
               \<lparr>adm_outcome = Inl (DeniedError e), adm_db = ad_db st,
                adm_events = record_final_denial a ctx (err_code e)\<rparr>
           | Inl e \<Rightarrow> \<lparr>adm_outcome = Inl e, adm_db = ad_db st, adm_events = []\<rparr>))"

definition admit ::
  "world \<Rightarrow> registry \<Rightarrow> gateway_io \<Rightarrow> admission_state \<Rightarrow> tool_facts \<Rightarrow> authorized_operation \<Rightarrow>
   tool_use_context \<Rightarrow> admission_result" where
  "admit W R io st t a ctx = admit_with W R io st t a ctx None"

end
