(* ===== verification/Iso_Time_Props.thy ===== *)
theory Iso_Time_Props
  imports Iso_Time
begin

section \<open>Timestamps: order and round trip\<close>

text \<open>
  The text of a timestamp between 1970 and 9999 orders as its milliseconds and parses back to them.
  The lemmas go through \<open>digs\<close>, the digits of a number at a fixed width.
\<close>

subsection \<open>Digits at a fixed width\<close>

fun digs :: "nat \<Rightarrow> nat \<Rightarrow> nat list" where
  "digs 0 n = []"
| "digs (Suc k) n = digs k (n div 10) @ [48 + n mod 10]"

lemma length_digs [simp]: "length (digs k n) = k"
  by (induction k arbitrary: n) auto

lemma digs_zero: "digs k 0 = replicate k 48"
  by (induction k) (auto simp: replicate_append_same)

lemma decimal_neq_Nil [simp]: "decimal n \<noteq> []"
  by (subst decimal.simps) simp

lemma length_decimal: "0 < k \<Longrightarrow> n < 10 ^ k \<Longrightarrow> length (decimal n) \<le> k"
proof (induction k arbitrary: n)
  case (Suc k)
  show ?case
  proof (cases "n < 10")
    case False
    with Suc.prems have "0 < k" by (cases k) auto
    moreover have "n div 10 < 10 ^ k" using Suc.prems by (simp add: less_mult_imp_div_less mult.commute)
    ultimately show ?thesis using Suc.IH False by (subst decimal.simps) simp
  qed (simp add: decimal.simps [of n])
qed simp

lemma pad_digs: "0 < k \<Longrightarrow> n < 10 ^ k \<Longrightarrow> pad k n = digs k n"
proof (induction k arbitrary: n)
  case (Suc k)
  show ?case
  proof (cases "n < 10")
    case True
    then show ?thesis by (simp add: pad_def decimal.simps [of n] digs_zero)
  next
    case False
    with Suc.prems have k: "0 < k" by (cases k) auto
    have less: "n div 10 < 10 ^ k" using Suc.prems by (simp add: less_mult_imp_div_less mult.commute)
    have "pad (Suc k) n = pad k (n div 10) @ [48 + n mod 10]"
      using False by (simp add: pad_def decimal.simps [of n])
    with Suc.IH [OF k less] show ?thesis by simp
  qed
qed simp

lemma digits_from_append:
  "digits_from a (xs @ ys) = Option.bind (digits_from a xs) (\<lambda>b. digits_from b ys)"
  by (induction a xs rule: digits_from.induct) (auto split: option.splits)

lemma digits_from_digs: "n < 10 ^ k \<Longrightarrow> digits_from a (digs k n) = Some (a * 10 ^ k + int n)"
proof (induction k arbitrary: n)
  case (Suc k)
  have "n div 10 < 10 ^ k" using Suc.prems by (simp add: less_mult_imp_div_less mult.commute)
  moreover have "digit (48 + n mod 10) = Some (int (n mod 10))"
    by (auto simp: digit_def)
  moreover have "int n = int (n div 10) * 10 + int (n mod 10)" by presburger
  ultimately show ?case using Suc.IH
    by (simp add: digits_from_append algebra_simps)
qed simp

lemma list_less_append:
  fixes xs ys :: "nat list"
  assumes "length xs = length ys"
  shows "xs @ as < ys @ bs \<longleftrightarrow> xs < ys \<or> xs = ys \<and> as < bs"
  using assms by (induction xs ys rule: list_induct2) auto

lemma digs_less: "a < b \<Longrightarrow> b < 10 ^ k \<Longrightarrow> digs k a < digs k b"
proof (induction k arbitrary: a b)
  case (Suc k)
  have "b div 10 < 10 ^ k" using Suc.prems by (simp add: less_mult_imp_div_less mult.commute)
  moreover have "a div 10 < b div 10 \<or> a div 10 = b div 10 \<and> a mod 10 < b mod 10"
    using Suc.prems(1) div_le_mono [of a b 10] div_mult_mod_eq [of a 10] div_mult_mod_eq [of b 10]
    by linarith
  ultimately show ?case using Suc.IH by (auto simp: list_less_append)
qed simp

lemma pad_int_digs: "0 < k \<Longrightarrow> 0 \<le> n \<Longrightarrow> n < 10 ^ k \<Longrightarrow> pad_int k n = digs k (nat n)"
  by (simp add: pad_int_def pad_digs nat_less_iff)

subsection \<open>The order of dates\<close>

definition date_less :: "int \<times> int \<times> int \<Rightarrow> int \<times> int \<times> int \<Rightarrow> bool" where
  "date_less a b = (case (a, b) of ((y, m, d), (y', m', d')) \<Rightarrow>
     y < y' \<or> y = y' \<and> (m < m' \<or> m = m' \<and> d < d'))"

text \<open>A date is a month count and a day; the month count is \<open>12 y + m\<close>.\<close>

lemma date_less_months:
  assumes "1 \<le> m" "m \<le> 12" "1 \<le> m'" "m' \<le> 12"
  shows "date_less (y, m, d) (y', m', d') \<longleftrightarrow>
    12 * y + m < 12 * y' + m' \<or> 12 * y + m = 12 * y' + m' \<and> d < d'"
  using assms by (auto simp: date_less_def)

lemma civil_mono:
  assumes "days < days'"
  shows "date_less (civil_from_days days) (civil_from_days days')"
proof -
  obtain e yoe doy mp where p: "days + 719468 = e * 146097 + (year_start yoe + doy)"
    "0 \<le> yoe" "yoe \<le> 399" "0 \<le> doy" "doy \<le> 365" "year_start yoe + doy \<le> 146096"
    "yoe = yoe_of (year_start yoe + doy)" "mp = (5 * doy + 2) div 153" "0 \<le> mp" "mp \<le> 11"
    "civil_from_days days =
       (if mp < 10 then (yoe + e * 400, mp + 3, doy - (153 * mp + 2) div 5 + 1)
        else (yoe + e * 400 + 1, mp - 9, doy - (153 * mp + 2) div 5 + 1))"
    by (rule civil_parts)
  obtain e' yoe' doy' mp' where p': "days' + 719468 = e' * 146097 + (year_start yoe' + doy')"
    "0 \<le> yoe'" "yoe' \<le> 399" "0 \<le> doy'" "doy' \<le> 365" "year_start yoe' + doy' \<le> 146096"
    "yoe' = yoe_of (year_start yoe' + doy')" "mp' = (5 * doy' + 2) div 153" "0 \<le> mp'" "mp' \<le> 11"
    "civil_from_days days' =
       (if mp' < 10 then (yoe' + e' * 400, mp' + 3, doy' - (153 * mp' + 2) div 5 + 1)
        else (yoe' + e' * 400 + 1, mp' - 9, doy' - (153 * mp' + 2) div 5 + 1))"
    by (rule civil_parts)
  have start: "0 \<le> year_start yoe" "0 \<le> year_start yoe'"
    using p(2) p'(2) unfolding year_start_def by linarith+
  have key: "12 * (yoe + e * 400) + mp < 12 * (yoe' + e' * 400) + mp' \<or>
      12 * (yoe + e * 400) + mp = 12 * (yoe' + e' * 400) + mp' \<and>
      doy - (153 * mp + 2) div 5 < doy' - (153 * mp' + 2) div 5"
  proof (cases "e = e'")
    case False
    with assms p(1,4) p'(1,6) start have "e + 1 \<le> e'" by linarith
    then have "4800 * e + 4800 \<le> 4800 * e'" by linarith
    with p(2,3,9,10) p'(2,3,9,10) have "12 * (yoe + e * 400) + mp < 12 * (yoe' + e' * 400) + mp'"
      by (simp add: distrib_left)
    then show ?thesis ..
  next
    case True
    with assms p(1) p'(1) have less: "year_start yoe + doy < year_start yoe' + doy'" by linarith
    with p(4,7) p'(6,7) start have "yoe \<le> yoe'"
      using yoe_of_mono [of "year_start yoe + doy" "year_start yoe' + doy'"] by linarith
    show ?thesis
    proof (cases "yoe = yoe'")
      case False
      with \<open>yoe \<le> yoe'\<close> have "12 * yoe + 12 \<le> 12 * yoe'" by simp
      with True p(9,10) p'(9,10)
      have "12 * (yoe + e * 400) + mp < 12 * (yoe' + e' * 400) + mp'" by (simp add: distrib_left)
      then show ?thesis ..
    next
      case same: True
      with less have d: "doy < doy'" by simp
      then have "mp \<le> mp'" unfolding p(8) p'(8) by (intro zdiv_mono1) auto
      with d True same show ?thesis by (cases "mp = mp'") auto
    qed
  qed
  show ?thesis
    using key p(9,10) p'(9,10) unfolding p(11) p'(11)
    by (auto simp: date_less_months split: if_splits)
qed

lemma civil_year_range:
  assumes "0 \<le> days" "days \<le> 2932896" "civil_from_days days = (y, m, d)"
  shows "1970 \<le> y \<and> y \<le> 9999"
proof -
  have low: "civil_from_days 0 = (1970, 1, 1)" and high: "civil_from_days 2932896 = (9999, 12, 31)"
    by code_simp+
  have "days = 0 \<or> date_less (1970, 1, 1) (y, m, d)"
    using civil_mono [of 0 days] assms low by fastforce
  moreover have "days = 2932896 \<or> date_less (y, m, d) (9999, 12, 31)"
    using civil_mono [of days 2932896] assms high by fastforce
  ultimately show ?thesis using assms low high by (auto simp: date_less_def)
qed

subsection \<open>The text\<close>

text \<open>The last millisecond of the year 9999.\<close>

definition max_millis :: int where
  "max_millis = 253402300799999"

definition stamp :: "int \<Rightarrow> int \<Rightarrow> int \<Rightarrow> int \<Rightarrow> int \<Rightarrow> int \<Rightarrow> int \<Rightarrow> nat list" where
  "stamp y m d h n s f =
    digs 4 (nat y) @ u ''-'' @ digs 2 (nat m) @ u ''-'' @ digs 2 (nat d) @ u ''T'' @
    digs 2 (nat h) @ u '':'' @ digs 2 (nat n) @ u '':'' @ digs 2 (nat s) @ u ''.'' @
    digs 6 (nat f) @ u ''Z''"

definition stamp_ok :: "int \<Rightarrow> int \<Rightarrow> int \<Rightarrow> int \<Rightarrow> int \<Rightarrow> int \<Rightarrow> int \<Rightarrow> bool" where
  "stamp_ok y m d h n s f =
    (0 \<le> y \<and> y < 10000 \<and> 0 \<le> m \<and> m < 100 \<and> 0 \<le> d \<and> d < 100 \<and> 0 \<le> h \<and> h < 100 \<and> 0 \<le> n \<and> n < 100 \<and>
     0 \<le> s \<and> s < 100 \<and> 0 \<le> f \<and> f < 1000000)"

lemma digs_less_int: "0 \<le> a \<Longrightarrow> a < b \<Longrightarrow> b < 10 ^ k \<Longrightarrow> digs k (nat a) < digs k (nat b)"
  by (rule digs_less) (auto simp: nat_less_iff)

lemma stamp_less:
  assumes "stamp_ok y m d h n s f" "stamp_ok y' m' d' h' n' s' f'"
    and "date_less (y, m, d) (y', m', d') \<or>
      (y, m, d) = (y', m', d') \<and> (date_less (h, n, s) (h', n', s') \<or> (h, n, s) = (h', n', s') \<and> f < f')"
  shows "stamp y m d h n s f < stamp y' m' d' h' n' s' f'"
  using assms unfolding stamp_ok_def date_less_def stamp_def
  by (auto simp: list_less_append digs_less_int)

text \<open>The fields of a timestamp.\<close>

lemma time_ranges:
  fixes millis :: int
  defines "s \<equiv> millis div 1000 mod 86400"
  shows "0 \<le> s div 3600" "s div 3600 < 100" "0 \<le> s mod 3600 div 60" "s mod 3600 div 60 < 100"
    "0 \<le> s mod 60" "s mod 60 < 100" "0 \<le> millis mod 1000 * 1000" "millis mod 1000 * 1000 < 1000000"
proof -
  have "0 \<le> s" "s < 86400" unfolding s_def by simp_all
  then show "0 \<le> s div 3600" "s div 3600 < 100" by (simp_all add: pos_imp_zdiv_nonneg_iff)
  have "0 \<le> s mod 3600" "s mod 3600 < 3600" by simp_all
  then show "0 \<le> s mod 3600 div 60" "s mod 3600 div 60 < 100"
    by (simp_all add: pos_imp_zdiv_nonneg_iff)
  show "0 \<le> s mod 60" by simp
  have "s mod 60 < 60" by simp
  then show "s mod 60 < 100" by linarith
  have "0 \<le> millis mod 1000" "millis mod 1000 < 1000" by simp_all
  then show "0 \<le> millis mod 1000 * 1000" "millis mod 1000 * 1000 < 1000000" by linarith+
qed

lemma day_ranges:
  assumes "0 \<le> millis" "millis \<le> max_millis"
  shows "0 \<le> millis div 1000 div 86400" "millis div 1000 div 86400 \<le> 2932896"
  using assms unfolding max_millis_def by simp_all

lemma format_stamp:
  assumes "0 \<le> millis" "millis \<le> max_millis"
    and "civil_from_days (millis div 1000 div 86400) = (y, m, d)"
  defines "s \<equiv> millis div 1000 mod 86400"
  shows "format_rfc3339_micros millis =
      stamp y m d (s div 3600) (s mod 3600 div 60) (s mod 60) (millis mod 1000 * 1000)"
    and "stamp_ok y m d (s div 3600) (s mod 3600 div 60) (s mod 60) (millis mod 1000 * 1000)"
proof -
  note y = civil_year_range [OF day_ranges [OF assms(1,2)] assms(3)]
  note md = civil_ranges [OF assms(3)]
  note t = time_ranges [of millis, folded s_def]
  have r: "0 \<le> y" "y < 10000" "0 \<le> m" "m < 100" "0 \<le> d" "d < 100" using y md by linarith+
  then show "stamp_ok y m d (s div 3600) (s mod 3600 div 60) (s mod 60) (millis mod 1000 * 1000)"
    unfolding stamp_ok_def using t by (intro conjI)
  have two: "pad_int 2 v = digs 2 (nat v)" if "0 \<le> v" "v < 100" for v
    using that by (intro pad_int_digs) simp_all
  have "pad_int 4 y = digs 4 (nat y)" using r by (intro pad_int_digs) simp_all
  moreover have "pad_int 6 (millis mod 1000 * 1000) = digs 6 (nat (millis mod 1000 * 1000))"
    using t(7,8) by (intro pad_int_digs) simp_all
  ultimately show "format_rfc3339_micros millis =
      stamp y m d (s div 3600) (s mod 3600 div 60) (s mod 60) (millis mod 1000 * 1000)"
    unfolding format_rfc3339_micros_def Let_def assms(3) prod.case s_def [symmetric] stamp_def
    using two [OF r(3,4)] two [OF r(5,6)] two [OF t(1,2)] two [OF t(3,4)] two [OF t(5,6)]
    by (simp only:)
qed

lemma div_mod_order:
  assumes "a < (b :: int)" "0 < k"
  shows "a div k < b div k \<or> a div k = b div k \<and> a mod k < b mod k"
proof -
  have "a div k \<le> b div k" using assms by (simp add: zdiv_mono1)
  moreover have "a mod k < b mod k" if "a div k = b div k"
    using assms that by (metis add_less_cancel_left div_mult_mod_eq)
  ultimately show ?thesis by auto
qed

lemma millis_order:
  assumes "a < (b :: int)"
  shows "a div 1000 div 86400 < b div 1000 div 86400 \<or>
    a div 1000 div 86400 = b div 1000 div 86400 \<and>
     (a div 1000 mod 86400 < b div 1000 mod 86400 \<or>
      a div 1000 mod 86400 = b div 1000 mod 86400 \<and> a mod 1000 < b mod 1000)"
  using div_mod_order [OF assms, of 1000] div_mod_order [of "a div 1000" "b div 1000" 86400] by auto

lemma second_order:
  assumes "s < (t :: int)"
  shows "date_less (s div 3600, s mod 3600 div 60, s mod 60) (t div 3600, t mod 3600 div 60, t mod 60)"
proof -
  have "v mod 60 = v mod 3600 mod 60" for v :: int by (simp add: mod_mod_cancel)
  then show ?thesis
    unfolding date_less_def prod.case
    using div_mod_order [OF assms, of 3600] div_mod_order [of "s mod 3600" "t mod 3600" 60] by auto
qed

lemma format_less:
  assumes "0 \<le> a" "a < b" "b \<le> max_millis"
  shows "format_rfc3339_micros a < format_rfc3339_micros b"
proof -
  obtain y m d where c: "civil_from_days (a div 1000 div 86400) = (y, m, d)" by (metis prod_cases3)
  obtain y' m' d' where c': "civil_from_days (b div 1000 div 86400) = (y', m', d')" by (metis prod_cases3)
  have a: "a \<le> max_millis" and b: "0 \<le> b" using assms by linarith+
  define s where "s = a div 1000 mod 86400"
  define t where "t = b div 1000 mod 86400"
  have order: "date_less (y, m, d) (y', m', d') \<or>
      (y, m, d) = (y', m', d') \<and> (s < t \<or> s = t \<and> a mod 1000 < b mod 1000)"
    using millis_order [OF assms(2), folded s_def t_def]
  proof (elim disjE conjE)
    assume "a div 1000 div 86400 < b div 1000 div 86400"
    from civil_mono [OF this] show ?thesis by (simp only: c c' simp_thms)
  next
    assume "a div 1000 div 86400 = b div 1000 div 86400"
    with c c' have "(y, m, d) = (y', m', d')" by (simp only:)
    moreover assume "s < t"
    ultimately show ?thesis by blast
  next
    assume "a div 1000 div 86400 = b div 1000 div 86400"
    with c c' have "(y, m, d) = (y', m', d')" by (simp only:)
    moreover assume "s = t" "a mod 1000 < b mod 1000"
    ultimately show ?thesis by blast
  qed
  note ok = format_stamp(2) [OF assms(1) a c, folded s_def] format_stamp(2) [OF b assms(3) c', folded t_def]
  have "a mod 1000 < b mod 1000 \<Longrightarrow> a mod 1000 * 1000 < b mod 1000 * 1000" by linarith
  with order second_order [of s t]
  have "stamp y m d (s div 3600) (s mod 3600 div 60) (s mod 60) (a mod 1000 * 1000)
      < stamp y' m' d' (t div 3600) (t mod 3600 div 60) (t mod 60) (b mod 1000 * 1000)"
    by (intro stamp_less [OF ok]) blast
  then show ?thesis
    unfolding s_def t_def
    by (simp only: format_stamp(1) [OF assms(1) a c] format_stamp(1) [OF b assms(3) c'])
qed

subsection \<open>Parsing what was printed\<close>

lemma digits_from_field: "0 \<le> v \<Longrightarrow> v < 10 ^ k \<Longrightarrow> digits_from 0 (digs k (nat v)) = Some v"
  using digits_from_digs [of "nat v" k 0] by (simp add: nat_less_iff)

lemma fraction_loop_digits:
  assumes "digits_from m xs = Some v" "n + length xs \<le> 3"
  shows "fraction_loop (xs @ ys) n m = fraction_loop ys (n + length xs) v"
  using assms by (induction xs arbitrary: n m) (auto split: option.splits)

lemma fraction_loop_digs:
  assumes "n < 1000000"
  shows "fraction_loop (digs 6 n @ [90]) 0 0 = (6, int (n div 1000))"
proof -
  define k where "k = n div 1000"
  have k: "k < 10 ^ 3" "n div 10 div 10 div 10 = k"
    using assms by (simp_all add: k_def less_mult_imp_div_less div_mult2_eq [symmetric])
  have eq: "6 = Suc (Suc (Suc 3))" by simp
  have six: "digs 6 n = digs 3 k @ [48 + n div 10 div 10 mod 10, 48 + n div 10 mod 10, 48 + n mod 10]"
    using k(2) by (simp only: eq digs.simps append_assoc append.simps)
  have "digit (48 + v mod 10) = Some (int (v mod 10))" for v by (auto simp: digit_def)
  moreover have "digit 90 = None" by (simp add: digit_def)
  ultimately show ?thesis
    using fraction_loop_digits [OF digits_from_digs [OF k(1), of 0], of 0]
    unfolding six by (simp add: k_def [symmetric])
qed

lemma stamp_bytes:
  fixes y m d h n s f
  defines "b \<equiv> stamp y m d h n s f"
  shows "length b = 27" "b ! 4 = 45" "b ! 7 = 45" "b ! 10 = 84" "b ! 13 = 58" "b ! 16 = 58" "b ! 19 = 46"
    "b ! 26 = 90" "drop 20 b = digs 6 (nat f) @ [90]"
  by (simp_all add: b_def stamp_def nth_append nth_Cons' drop_Cons')

lemma stamp_fields:
  assumes "stamp_ok y m d h n s f"
  defines "b \<equiv> stamp y m d h n s f"
  shows "digits b 0 4 = Some y" "digits b 5 7 = Some m" "digits b 8 10 = Some d"
    "digits b 11 13 = Some h" "digits b 14 16 = Some n" "digits b 17 19 = Some s"
proof -
  have len: "length b = 27" unfolding b_def by (rule stamp_bytes)
  have take: "take 4 (drop 0 b) = digs 4 (nat y)" "take 2 (drop 5 b) = digs 2 (nat m)"
    "take 2 (drop 8 b) = digs 2 (nat d)" "take 2 (drop 11 b) = digs 2 (nat h)"
    "take 2 (drop 14 b) = digs 2 (nat n)" "take 2 (drop 17 b) = digs 2 (nat s)"
    by (simp_all add: b_def stamp_def drop_Cons' take_Cons')
  have f: "digits_from 0 (digs 4 (nat y)) = Some y" "digits_from 0 (digs 2 (nat m)) = Some m"
    "digits_from 0 (digs 2 (nat d)) = Some d" "digits_from 0 (digs 2 (nat h)) = Some h"
    "digits_from 0 (digs 2 (nat n)) = Some n" "digits_from 0 (digs 2 (nat s)) = Some s"
    using assms(1) unfolding stamp_ok_def by (intro digits_from_field; simp)+
  show "digits b 0 4 = Some y" "digits b 5 7 = Some m" "digits b 8 10 = Some d"
    "digits b 11 13 = Some h" "digits b 14 16 = Some n" "digits b 17 19 = Some s"
    using take f by (simp_all add: digits_def len)
qed

lemma parse_stamp:
  assumes ok: "stamp_ok y m d h n s f" and md: "1 \<le> m" "m \<le> 12" "1 \<le> d" "d \<le> 31"
  shows "parse_rfc3339_millis (stamp y m d h n s f) =
    Some ((days_from_civil y m d * 86400 + h * 3600 + n * 60 + s) * 1000 + f div 1000)"
proof -
  define b where "b = stamp y m d h n s f"
  note bytes = stamp_bytes [of y m d h n s f, folded b_def]
  note fields = stamp_fields [OF ok, folded b_def]
  have f: "0 \<le> f" "nat f < 1000000" using ok by (auto simp: stamp_ok_def)
  have "fraction_loop (drop (Suc 19) b) 0 0 = (6, f div 1000)"
    using fraction_loop_digs [OF f(2)] f(1) bytes(9) by (simp add: nat_div_distrib)
  then have frac: "fraction_at b 19 = Some (f div 1000, 26)"
    using bytes by (simp add: fraction_at_def get_byte_def)
  have zone: "zone_at b 26 = Some (0, 27)"
    using bytes by (simp add: zone_at_def get_byte_def)
  have cs: "uc CHR ''-'' = 45" "uc CHR ''T'' = 84" "uc CHR '':'' = 58" "\<not> (27 :: nat) < 20" by simp_all
  show ?thesis
    unfolding b_def [symmetric] parse_rfc3339_millis_def
    by (simp only: bytes fields frac zone md cs option.case prod.case simp_thms if_False if_True diff_0_right)
qed

lemma sum_parts:
  "d * 86400 + s = t \<Longrightarrow> h * 3600 + r = s \<Longrightarrow> n * 60 + q = r \<Longrightarrow> t * 1000 + f = m \<Longrightarrow>
   (d * 86400 + h * 3600 + n * 60 + q) * 1000 + f = (m :: int)"
  by (auto simp: distrib_right)

lemma civil_time_sum:
  fixes millis :: int
  defines "s \<equiv> millis div 1000 mod 86400"
  shows "(millis div 1000 div 86400 * 86400 + s div 3600 * 3600 + s mod 3600 div 60 * 60 + s mod 60) * 1000 +
    millis mod 1000 * 1000 div 1000 = millis"
proof (rule sum_parts)
  show "millis div 1000 div 86400 * 86400 + s = millis div 1000"
    unfolding s_def by (rule div_mult_mod_eq)
  show "s div 3600 * 3600 + s mod 3600 = s" by (rule div_mult_mod_eq)
  have "s mod 3600 mod 60 = s mod 60" by (simp add: mod_mod_cancel)
  then show "s mod 3600 div 60 * 60 + s mod 60 = s mod 3600" by (metis div_mult_mod_eq)
  have "millis mod 1000 * 1000 div 1000 = millis mod 1000" by (rule nonzero_mult_div_cancel_right) simp
  then show "millis div 1000 * 1000 + millis mod 1000 * 1000 div 1000 = millis"
    by (simp only: div_mult_mod_eq)
qed

lemma parse_format:
  assumes "0 \<le> millis" "millis \<le> max_millis"
  shows "parse_rfc3339_millis (format_rfc3339_micros millis) = Some millis"
proof -
  obtain y m d where c: "civil_from_days (millis div 1000 div 86400) = (y, m, d)" by (metis prod_cases3)
  note fmt = format_stamp [OF assms c]
  show ?thesis
    unfolding fmt(1) parse_stamp [OF fmt(2) civil_ranges [OF c]] days_civil_inverse [OF c]
    by (simp only: civil_time_sum)
qed

end
