(* ===== verification/Authz_Grants_Props.thy ===== *)
theory Authz_Grants_Props
  imports Authz_Grants Iso_Time_Props
begin

section \<open>What the grant repository promises\<close>

text \<open>
  Soundness of the lookup, the plans, the round trip of constraints, the table invariant, and the
  interface \<open>grant_store\<close> the authorization service relies on: a revoked grant is never looked up
  again, whatever is created, revoked or changed afterwards.
\<close>

subsection \<open>The lookup\<close>

lemma set_order_rows [simp]: "set (order_rows gs) = set gs"
  by (simp add: order_rows_def)

definition live_grant :: "grant_db \<Rightarrow> ustring \<Rightarrow> ustring \<Rightarrow> bool" where
  "live_grant db now gid =
     (\<exists>g \<in> set (grant_rows db). g_id g = gid \<and> g_revoked_at g = None \<and> text_less now (g_expires_at g))"

lemma find_match_row:
  assumes "find_match_at cr db now sub d = Some m"
  obtains g where "g \<in> set (grant_rows db)" "row_applies now sub d g" "row_match cr db sub d g = Some m"
  using first_some_Some [OF assms [unfolded find_match_at_def]] by (auto intro: that)

lemma row_match_Some:
  "row_match cr db sub d g = Some m \<longleftrightarrow>
   \<not> (g_scope g = u ''RUN'' \<and> root_run_is_terminal db (root_run_id sub)) \<and>
   kind_parse (g_kind g) = Some (match_kind m) \<and> scope_parse (g_scope g) = Some (match_scope m) \<and>
   match_id m = g_id g \<and>
   (\<exists>c. decode_constraint cr (match_kind m) (g_constraints g) = Some c \<and> matches c d)"
  by (cases m) (auto simp: row_match_def split: option.splits)

lemma find_match_live: "find_match_at cr db now sub d = Some m \<Longrightarrow> live_grant db now (match_id m)"
  by (elim find_match_row) (auto simp: live_grant_def row_applies_def row_match_Some)

lemma find_match_None:
  "find_match_at cr db now sub d = None \<longleftrightarrow>
   (\<forall>g \<in> set (grant_rows db). row_applies now sub d g \<longrightarrow> row_match cr db sub d g = None)"
  by (auto simp: find_match_at_def first_some_None)

text \<open>The specification of the lookup: a row admits an operation when it is live, bound to the subject
  and to the operation's tool, and its constraint matches; the lookup returns a row of the narrowest
  scope that admits.\<close>

definition bound_to :: "grant_db \<Rightarrow> authorization_subject \<Rightarrow> grant_row \<Rightarrow> bool" where
  "bound_to db sub g =
     (g_scope g = u ''RUN'' \<and> g_root_run g = Some (root_run_id sub) \<and>
        (g_delegation g = u ''ROOT_AND_DESCENDANTS'' \<or> g_actor_run g = Some (current_run_id sub)) \<and>
        \<not> root_run_is_terminal db (root_run_id sub) \<or>
      g_delegation g = u ''ROOT_AND_DESCENDANTS'' \<and>
        (g_scope g = u ''SESSION'' \<and> g_root_session g = Some (root_session_id sub) \<or>
         g_scope g = u ''WORKSPACE'' \<and> g_workspace g = Some (workspace_key sub)))"

definition grant_admits ::
  "crates \<Rightarrow> grant_db \<Rightarrow> ustring \<Rightarrow> authorization_subject \<Rightarrow> operation_descriptor \<Rightarrow> grant_row \<Rightarrow> bool" where
  "grant_admits cr db now sub d g =
     (g_revoked_at g = None \<and> text_less now (g_expires_at g) \<and> bound_to db sub g \<and>
      (g_tool g, g_action g, g_analyzer g, g_schema_version g) =
        (tool_name d, op_action d, analyzer_id d, authorization_schema_version d) \<and>
      (\<exists>k c. g_kind g = kind_as_str k \<and> decode_constraint cr k (g_constraints g) = Some c \<and> matches c d))"

definition lookup_spec ::
  "crates \<Rightarrow> grant_db \<Rightarrow> ustring \<Rightarrow> authorization_subject \<Rightarrow> operation_descriptor \<Rightarrow> grant_match option \<Rightarrow> bool" where
  "lookup_spec cr db now sub d r =
     (let admitting = filter (grant_admits cr db now sub d) (grant_rows db) in
      case r of
        None \<Rightarrow> admitting = []
      | Some m \<Rightarrow> \<exists>g \<in> set admitting. match_id m = g_id g \<and> scope_as_str (match_scope m) = g_scope g \<and>
          kind_as_str (match_kind m) = g_kind g \<and>
          (\<forall>h \<in> set admitting. scope_rank (g_scope g) \<le> scope_rank (g_scope h)))"

lemma kind_parse_iff: "kind_parse t = Some k \<longleftrightarrow> t = kind_as_str k"
  by (auto simp: kind_parse_def dest: parse_variant_Some) (simp add: kind_parse_def [symmetric])

lemma scope_parse_iff: "scope_parse t = Some s \<longleftrightarrow> t = scope_as_str s"
  by (auto simp: scope_parse_def dest: parse_variant_Some) (simp add: scope_parse_def [symmetric])

lemma row_applies_scope:
  "row_applies now sub d g \<Longrightarrow> \<exists>s. g_scope g = scope_as_str s"
  by (auto simp del: u_simps simp: row_applies_def scope_as_str_def
      intro: exI [of _ RunScope] exI [of _ SessionScope] exI [of _ WorkspaceScope])

lemma row_match_admits:
  assumes "row_applies now sub d g"
  shows "row_match cr db sub d g \<noteq> None \<longleftrightarrow>
    \<not> (g_scope g = u ''RUN'' \<and> root_run_is_terminal db (root_run_id sub)) \<and>
    (\<exists>k c. g_kind g = kind_as_str k \<and> decode_constraint cr k (g_constraints g) = Some c \<and> matches c d)"
proof -
  obtain s where s: "g_scope g = scope_as_str s" using row_applies_scope [OF assms] by blast
  have "row_match cr db sub d g = Some \<lparr>match_id = g_id g, match_kind = k, match_scope = s\<rparr>"
    if "\<not> (g_scope g = u ''RUN'' \<and> root_run_is_terminal db (root_run_id sub))" "g_kind g = kind_as_str k"
      "decode_constraint cr k (g_constraints g) = Some c" "matches c d" for k c
    using that s by (simp add: row_match_Some kind_parse_iff scope_parse_iff)
  then have "\<not> (g_scope g = u ''RUN'' \<and> root_run_is_terminal db (root_run_id sub)) \<Longrightarrow>
      g_kind g = kind_as_str k \<Longrightarrow> decode_constraint cr k (g_constraints g) = Some c \<Longrightarrow> matches c d \<Longrightarrow>
      row_match cr db sub d g \<noteq> None" for k c
    by (metis option.distinct(1))
  moreover have "row_match cr db sub d g \<noteq> None \<Longrightarrow>
      \<not> (g_scope g = u ''RUN'' \<and> root_run_is_terminal db (root_run_id sub)) \<and>
      (\<exists>k c. g_kind g = kind_as_str k \<and> decode_constraint cr k (g_constraints g) = Some c \<and> matches c d)"
    by (auto simp del: u_simps simp: row_match_Some kind_parse_iff)
  ultimately show ?thesis by blast
qed

lemma grant_admits_iff:
  "grant_admits cr db now sub d g \<longleftrightarrow> row_applies now sub d g \<and> row_match cr db sub d g \<noteq> None"
proof -
  have neq: "u ''SESSION'' \<noteq> u ''RUN''" "u ''WORKSPACE'' \<noteq> u ''RUN''" by simp_all
  show ?thesis
    using row_match_admits [of now sub d g cr db] neq
    by (auto simp del: u_simps simp: grant_admits_def row_applies_def bound_to_def)
qed

lemma first_some_split:
  "first_some f xs = Some y \<Longrightarrow> \<exists>ys x zs. xs = ys @ x # zs \<and> f x = Some y \<and> (\<forall>z \<in> set ys. f z = None)"
proof (induction xs)
  case (Cons a xs)
  show ?case
  proof (cases "f a")
    case None
    with Cons obtain ys x zs where "xs = ys @ x # zs" "f x = Some y" "\<forall>z \<in> set ys. f z = None" by auto
    with None show ?thesis by (intro exI [of _ "a # ys"]) auto
  next
    case (Some b)
    with Cons.prems show ?thesis by (intro exI [of _ "[]"]) auto
  qed
qed simp

lemma order_rows_sorted: "sorted (map (\<lambda>g. scope_rank (g_scope g)) (order_rows gs))"
  by (simp add: order_rows_def)

lemma find_match_spec: "lookup_spec cr db now sub d (find_match_at cr db now sub d)"
proof (cases "find_match_at cr db now sub d")
  case None
  then have "filter (grant_admits cr db now sub d) (grant_rows db) = []"
    by (auto simp: find_match_None filter_empty_conv grant_admits_iff)
  then show ?thesis by (simp add: lookup_spec_def None)
next
  case (Some m)
  let ?rows = "order_rows (filter (row_applies now sub d) (grant_rows db))"
  obtain ys g zs where rows: "?rows = ys @ g # zs" and g: "row_match cr db sub d g = Some m"
    and none: "\<forall>z \<in> set ys. row_match cr db sub d z = None"
    using first_some_split [OF Some [unfolded find_match_at_def]] by blast
  have mem: "set ?rows = set (filter (row_applies now sub d) (grant_rows db))" by simp
  have "g \<in> set ?rows" using rows by simp
  then have "grant_admits cr db now sub d g" "g \<in> set (grant_rows db)" using g mem by (auto simp: grant_admits_iff)
  moreover have "scope_rank (g_scope g) \<le> scope_rank (g_scope h)"
    if "h \<in> set (grant_rows db)" "grant_admits cr db now sub d h" for h
  proof -
    have "h \<in> set ?rows" "row_match cr db sub d h \<noteq> None" using that mem by (auto simp: grant_admits_iff)
    then have "h = g \<or> h \<in> set zs" using rows none by auto
    then show ?thesis
      using order_rows_sorted [of "filter (row_applies now sub d) (grant_rows db)"]
      by (auto simp: rows sorted_append)
  qed
  moreover have "match_id m = g_id g" "scope_as_str (match_scope m) = g_scope g" "kind_as_str (match_kind m) = g_kind g"
    using g by (auto simp: row_match_Some kind_parse_iff scope_parse_iff)
  ultimately show ?thesis by (auto simp: lookup_spec_def Some)
qed

subsection \<open>Plans\<close>

lemma plan_high [simp]: "risk d = High \<Longrightarrow> plan d s = None"
  by (simp add: plan_def split: option.splits)

lemma supported_high [simp]: "risk d = High \<Longrightarrow> supported_scopes d = []"
  by (simp add: supported_scopes_def)

lemma not_guarded_safe: "r \<noteq> Guarded \<and> r \<noteq> SafeRisk \<longleftrightarrow> r = High"
  by (cases r) auto

lemma supported_iff_plan: "s \<in> set (supported_scopes d) \<longleftrightarrow> plan d (Some s) \<noteq> None"
  by (cases s) (auto simp: supported_scopes_def plan_def not_guarded_safe split: option.splits)

lemma capability_wf: "capability_constraint d = Some c \<Longrightarrow> wf_constraint c"
  by (auto simp: capability_constraint_def Let_def ok_part_eq_Some
      dest: workspace_read_wf workspace_edit_wf split: if_splits option.splits)

lemma capability_kind:
  assumes "capability_constraint d = Some c"
  shows "(\<exists>ps ops. c = WorkspaceRead ps ops) \<or> (\<exists>ps ops. c = WorkspaceEdit ps ops)"
  using assms
  by (auto simp: capability_constraint_def Let_def ok_part_eq_Some workspace_read_def workspace_edit_def
      map_ok_def split: if_splits option.splits sum.splits)

text \<open>The kinds of constraint a kind of grant carries.\<close>

definition kind_fits :: "grant_kind \<Rightarrow> grant_constraint \<Rightarrow> bool" where
  "kind_fits k c = (case c of
     Exact _ \<Rightarrow> k = ExactGuarded
   | ToolWide \<Rightarrow> k = ToolGuarded
   | WorkspaceRead _ _ \<Rightarrow> k = ReadCapability
   | WorkspaceEdit _ _ \<Rightarrow> k = EditCapability)"

lemma plan_fits:
  assumes "plan d s = Some p"
  shows "kind_fits (plan_kind p) (plan_constraint p)" "wf_constraint (plan_constraint p)"
    "s = Some (plan_scope p)" "plan_scope p \<noteq> OnceScope" "risk d \<noteq> High"
    "plan_scope p = WorkspaceScope \<Longrightarrow> \<not> exact_kind (plan_kind p) \<and> analyzer_id d = u ''file-v1''"
    "plan_delegation p = DirectOnly \<Longrightarrow> plan_scope p = RunScope"
  using assms capability_kind [of d]
  by (auto simp: plan_def kind_fits_def wf_constraint_def run_direct_def exact_kind_def
      dest: capability_wf split: option.splits if_splits grant_constraint.splits)

lemma directories_of_Some:
  "directories_of rs f = Some ds \<longleftrightarrow>
   length ds = length rs \<and> (\<forall>i < length rs. directory_of (res_value (rs ! i)) f = Some (ds ! i))"
proof (induction rs arbitrary: ds)
  case (Cons r rs)
  show ?case
  proof (cases ds)
    case (Cons e es)
    then show ?thesis using Cons.IH [of es] by (auto simp: less_Suc_eq_0_disj split: option.splits)
  qed (auto split: option.splits)
qed auto

lemma rfind_unit_None: "rfind_unit c s = None \<longleftrightarrow> c \<notin> set s"
  by (simp add: rfind_unit_def find_unit_None)

lemma rfind_unit_Some:
  assumes "rfind_unit c s = Some i"
  shows "s = take i s @ c # drop (Suc i) s" "c \<notin> set (drop (Suc i) s)"
proof -
  from assms obtain j where j: "find_unit c (rev s) = Some j" "i = length s - 1 - j"
    by (auto simp: rfind_unit_def)
  from find_unit_Some [OF j(1)] have *: "j < length s" "rev s ! j = c" "c \<notin> set (take j (rev s))" by auto
  then have "i < length s" "s ! i = c" using j(2) by (auto simp: rev_nth)
  then show "s = take i s @ c # drop (Suc i) s" using id_take_nth_drop [of i s] by simp
  have "take j (rev s) = rev (drop (Suc i) s)" using *(1) j(2) by (simp add: take_rev Suc_diff_Suc)
  with *(3) show "c \<notin> set (drop (Suc i) s)" by simp
qed

text \<open>The directory of a path contains the path.\<close>

lemma directory_contains: "directory_of path f = Some dir \<Longrightarrow> segment_contains dir path"
  using rfind_unit_Some [of slash path]
  by (auto simp: directory_of_def segment_contains_def normalize_ok starts_with_iff
      split: sum.splits option.splits if_splits)

text \<open>A capability planned for an operation admits it when its resources are paths.\<close>

lemma set_capability:
  assumes "capability_constraint d = Some c"
  obtains f ds ps where "op_action d = file_op_as_str f" "directories_of (resources d) f = Some ds"
    "set ps = set ds" "resources d \<noteq> []" "\<forall>r \<in> set (resources d). \<not> outside_workspace r"
    "c = WorkspaceRead ps [f] \<or> c = WorkspaceEdit ps [f]"
proof -
  from assms obtain f ds where f: "file_op_parse (op_action d) = Some f"
    and ds: "directories_of (resources d) f = Some ds"
    and rs: "resources d \<noteq> []" "\<not> list_ex outside_workspace (resources d)"
    and c: "workspace_read (remdups_adj (sort_key str_key ds)) [f] = Inr c \<or>
            workspace_edit (remdups_adj (sort_key str_key ds)) [f] = Inr c"
    by (auto simp: capability_constraint_def Let_def ok_part_eq_Some split: if_splits option.splits)
  from c obtain ps where "normalized (remdups_adj (sort_key str_key ds)) = Inr ps"
      "c = WorkspaceRead ps [f] \<or> c = WorkspaceEdit ps [f]"
    by (auto simp: workspace_read_def workspace_edit_def map_ok_def split: if_splits sum.splits)
  with f ds rs show thesis
    by (intro that [of f ds ps]) (auto simp: list_ex_iff dest: file_op_parse_Some normalized_ok(1))
qed

lemma capability_admits:
  assumes "capability_constraint d = Some c" "\<forall>r \<in> set (resources d). res_kind r = u ''path''"
  shows "matches c d"
  using assms(1)
proof (rule set_capability)
  fix f ds ps
  assume *: "op_action d = file_op_as_str f" "directories_of (resources d) f = Some ds"
    "set ps = set ds" "resources d \<noteq> []" "\<forall>r \<in> set (resources d). \<not> outside_workspace r"
    "c = WorkspaceRead ps [f] \<or> c = WorkspaceEdit ps [f]"
  have "\<exists>p \<in> set ps. segment_contains p (res_value r)" if "r \<in> set (resources d)" for r
  proof -
    from that obtain i where "i < length (resources d)" "r = resources d ! i"
      by (auto simp: in_set_conv_nth)
    with *(2) have "ds ! i \<in> set ds" "directory_of (res_value r) f = Some (ds ! i)"
      by (auto simp: directories_of_Some)
    with *(3) directory_contains show ?thesis by metis
  qed
  with * assms(2) have "matches_file ps [f] d" by (auto simp: matches_file_iff)
  with *(6) show ?thesis by (auto simp: matches_def)
qed

lemma plan_admits:
  assumes "plan d s = Some p" "exact_kind (plan_kind p) \<or> (\<forall>r \<in> set (resources d). res_kind r = u ''path'')"
  shows "matches (plan_constraint p) d"
proof (cases "plan_constraint p")
  case (Exact h)
  with assms(1) show ?thesis
    by (auto simp: plan_def matches_def dest: capability_kind split: option.splits if_splits)
next
  case ToolWide
  then show ?thesis by (simp add: matches_def)
next
  case WorkspaceRead
  with assms show ?thesis
    by (auto simp: plan_def exact_kind_def intro!: capability_admits split: option.splits if_splits)
next
  case WorkspaceEdit
  with assms show ?thesis
    by (auto simp: plan_def exact_kind_def intro!: capability_admits split: option.splits if_splits)
qed

subsection \<open>The text of a constraint\<close>

text \<open>What the code needs of \<open>serde_json\<close>: the parser reads back what the printer wrote.\<close>

definition reads_back :: "crates \<Rightarrow> json \<Rightarrow> bool" where
  "reads_back cr v = (from_text cr (to_text cr v) = Some v)"

lemma parse_operations_str: "parse_operations cr (map (\<lambda>f. JStr (file_op_as_str f)) ops) = Some ops"
  by (induction ops) (auto simp: value_to_java_string_def)

lemma map_java_string: "value_to_java_string cr \<circ> JStr = id"
  by (auto simp: value_to_java_string_def)

lemma decode_encode:
  assumes "kind_fits k c" "wf_constraint c" "reads_back cr (constraint_json c)"
  shows "decode_constraint cr k (encode_constraint cr c) = Some c"
proof (cases c)
  case (Exact h)
  with assms show ?thesis
    by (simp add: decode_constraint_def encode_constraint_def reads_back_def constraint_json_def
        kind_fits_def value_to_java_string_def json_get_def)
next
  case ToolWide
  with assms show ?thesis
    by (simp add: decode_constraint_def encode_constraint_def reads_back_def constraint_json_def
        kind_fits_def)
next
  case (WorkspaceRead ps ops)
  with assms show ?thesis
    by (simp add: decode_constraint_def encode_constraint_def reads_back_def constraint_json_def
        workspace_json_def json_get_def kind_fits_def wf_constraint_def map_java_string parse_operations_str
        workspace_read_def list_all_iff)
next
  case (WorkspaceEdit ps ops)
  with assms show ?thesis
    by (simp add: decode_constraint_def encode_constraint_def reads_back_def constraint_json_def
        workspace_json_def json_get_def kind_fits_def wf_constraint_def map_java_string parse_operations_str
        workspace_edit_def list_ex_iff)
qed

subsection \<open>The table\<close>

definition wf_db :: "grant_db \<Rightarrow> bool" where
  "wf_db db = (list_all row_checks (grant_rows db) \<and> sorted_wrt (\<lambda>g h. \<not> conflicts g h) (grant_rows db))"

lemma conflicts_sym: "conflicts g h \<Longrightarrow> conflicts h g"
  unfolding conflicts_def by (elim disjE conjE) simp_all

lemma revoke_where_wf:
  assumes "wf_db db"
  shows "wf_db (fst (revoke_where now p db))"
proof -
  let ?f = "\<lambda>g. if p g then g\<lparr>g_revoked_at := Some now, g_version := g_version g + 1\<rparr> else g"
  have checks: "row_checks (?f g)" if "row_checks g" for g
  proof (cases "p g")
    case True
    with that show ?thesis
      by (simp add: row_checks_def column_checks_def kind_check_def scope_check_def delegation_check_def
          workspace_checks_def del: u_simps)
  qed (use that in simp)
  have conf: "conflicts g h" if "conflicts (?f g) (?f h)" for g h
    using that
    by (cases "p g"; cases "p h")
      (simp_all add: conflicts_def in_exact_index_def in_capability_index_def index_key_def)
  have "sorted_wrt (\<lambda>g h. \<not> conflicts g h) (map ?f (grant_rows db))"
    unfolding sorted_wrt_map
  proof (rule sorted_wrt_mono_rel [where P = "\<lambda>g h. \<not> conflicts g h"])
    show "sorted_wrt (\<lambda>g h. \<not> conflicts g h) (grant_rows db)" using assms unfolding wf_db_def by (rule conjunct2)
  qed (use conf in blast)
  moreover have "list_all row_checks (map ?f (grant_rows db))"
    unfolding list.pred_map
    by (rule list.pred_mono_strong [of row_checks]) (use assms checks in \<open>simp_all add: wf_db_def\<close>)
  ultimately show ?thesis by (simp add: wf_db_def revoke_where_def)
qed

lemma insert_row_wf:
  assumes "wf_db db" "insert_row db g = Inr (db', b)"
  shows "wf_db db'"
proof (cases b)
  case True
  with assms(2) have "db' = db\<lparr>grant_rows := grant_rows db @ [g]\<rparr>" "row_checks g"
      "\<forall>h \<in> set (grant_rows db). \<not> conflicts h g"
    by (auto simp: insert_row_def list_ex_iff dest: conflicts_sym split: if_splits)
  with assms(1) show ?thesis by (auto simp: wf_db_def sorted_wrt_append)
next
  case False
  with assms show ?thesis by (auto simp: insert_row_def split: if_splits)
qed

lemma create_in_tx_wf:
  assumes "wf_db db" "create_in_tx cr db uuid now millis sub d req interaction = Inr (db', r)"
  shows "wf_db db'"
  using assms(2) insert_row_wf [OF revoke_where_wf [OF assms(1)]] assms(1)
  by (auto simp: create_in_tx_def Let_def and_then_Inr split: option.splits if_splits list.splits)

lemma create_wf: "wf_db db \<Longrightarrow> wf_db (snd (create cr db uuid millis sub d req interaction))"
  by (auto simp: create_def split: sum.splits dest: create_in_tx_wf)

subsection \<open>Creation\<close>

text \<open>What the caller has established: the session keeps its content, the runs and the interaction
  of the request exist, and none of them belongs to an ephemeral session.\<close>

definition context_ok :: "grant_db \<Rightarrow> authorization_subject \<Rightarrow> ustring option \<Rightarrow> bool" where
  "context_ok db sub interaction =
     (map_option s_retention (sessions db (root_session_id sub)) = Some (u ''persistent'') \<and>
      list_all (\<lambda>r. case runs db r of None \<Rightarrow> False | Some row \<Rightarrow> \<not> is_ephemeral db (Some (r_session row)))
        [root_run_id sub, current_run_id sub] \<and>
      (case interaction of
         None \<Rightarrow> True
       | Some i \<Rightarrow> (case interactions db i of None \<Rightarrow> False | Some s \<Rightarrow> \<not> is_ephemeral db (Some s))))"

lemma planned_row_simps:
  "g_id (planned_row cr uuid now e sub d p i) = uuid"
  "g_kind (planned_row cr uuid now e sub d p i) = kind_as_str (plan_kind p)"
  "g_scope (planned_row cr uuid now e sub d p i) = scope_as_str (plan_scope p)"
  "g_delegation (planned_row cr uuid now e sub d p i) = delegation_as_str (plan_delegation p)"
  "g_root_session (planned_row cr uuid now e sub d p i) = id_session (identity sub (plan_scope p) (plan_delegation p))"
  "g_root_run (planned_row cr uuid now e sub d p i) = id_run (identity sub (plan_scope p) (plan_delegation p))"
  "g_actor_run (planned_row cr uuid now e sub d p i) = id_actor (identity sub (plan_scope p) (plan_delegation p))"
  "g_workspace (planned_row cr uuid now e sub d p i) = id_workspace (identity sub (plan_scope p) (plan_delegation p))"
  "g_schema_version (planned_row cr uuid now e sub d p i) = authorization_schema_version d"
  "g_analyzer (planned_row cr uuid now e sub d p i) = analyzer_id d"
  "g_tool (planned_row cr uuid now e sub d p i) = tool_name d"
  "g_action (planned_row cr uuid now e sub d p i) = op_action d"
  "g_constraints (planned_row cr uuid now e sub d p i) = encode_constraint cr (plan_constraint p)"
  "g_risk (planned_row cr uuid now e sub d p i) = risk_as_str (risk d)"
  "g_interaction (planned_row cr uuid now e sub d p i) = i"
  "g_expires_at (planned_row cr uuid now e sub d p i) = e"
  "g_revoked_at (planned_row cr uuid now e sub d p i) = None"
  "g_version (planned_row cr uuid now e sub d p i) = 0"
  "exact_kind (plan_kind p) \<Longrightarrow> g_operation_hash (planned_row cr uuid now e sub d p i) = Some (operation_hash d)"
  "\<not> exact_kind (plan_kind p) \<Longrightarrow> g_operation_hash (planned_row cr uuid now e sub d p i) = None"
  "exact_kind (plan_kind p) \<Longrightarrow> g_capability_hash (planned_row cr uuid now e sub d p i) = None"
  "\<not> exact_kind (plan_kind p) \<Longrightarrow> g_capability_hash (planned_row cr uuid now e sub d p i) \<noteq> None"
  by (simp_all add: planned_row_def Let_def)

lemma planned_checks:
  assumes "plan d s = Some p" "authorization_schema_version d = 1"
  shows "row_checks (planned_row cr uuid now e sub d p i)"
proof -
  note fits = plan_fits [OF assms(1)]
  have risk: "risk_as_str (risk d) \<in> {u ''SAFE'', u ''GUARDED''}"
    using fits(5) by (cases "risk d") (simp_all add: risk_as_str_def)
  have deleg: "plan_delegation p = DirectOnly \<or> plan_delegation p = RootAndDescendants"
    by (cases "plan_delegation p") simp_all
  have scope: "plan_scope p = RunScope \<or> plan_scope p = SessionScope \<or> plan_scope p = WorkspaceScope"
    using fits(4) by (cases "plan_scope p") simp_all
  have kind: "if exact_kind (plan_kind p) then plan_kind p = ExactGuarded \<or> plan_kind p = ToolGuarded
      else plan_kind p = ReadCapability \<or> plan_kind p = EditCapability"
    by (cases "plan_kind p") (simp_all add: exact_kind_def)
  show ?thesis
    using deleg scope kind fits(6,7) risk assms(2)
    by (elim disjE; cases "exact_kind (plan_kind p)")
      (auto simp: row_checks_def column_checks_def kind_check_def scope_check_def delegation_check_def
        workspace_checks_def planned_row_simps identity_def kind_as_str_def scope_as_str_def
        delegation_as_str_def)
qed

lemma planned_context:
  assumes "context_ok db sub i" "plan d s = Some p"
  shows "\<not> ephemeral_trigger db (planned_row cr uuid now e sub d p i)"
    "foreign_keys_ok db (planned_row cr uuid now e sub d p i)"
proof -
  have session: "\<exists>row. sessions db (root_session_id sub) = Some row \<and> s_retention row = u ''persistent''"
    using assms(1) by (auto simp: context_ok_def)
  have ne: "u ''persistent'' \<noteq> u ''ephemeral''" by (simp only: u_inject) simp
  show "\<not> ephemeral_trigger db (planned_row cr uuid now e sub d p i)"
    using assms(1) session ne plan_fits(4) [OF assms(2)]
    by (cases "plan_scope p")
      (auto simp: ephemeral_trigger_def planned_row_simps identity_def context_ok_def is_ephemeral_def
        bind_eq_Some_conv split: option.splits if_splits)
  show "foreign_keys_ok db (planned_row cr uuid now e sub d p i)"
    using assms(1) session plan_fits(4) [OF assms(2)]
    by (cases "plan_scope p")
      (auto simp: foreign_keys_ok_def planned_row_simps identity_def context_ok_def
        split: option.splits if_splits)
qed

text \<open>On a conflict that is not the generated identifier's, exactly one row has the identity asked for.\<close>

lemma sorted_wrt_filter_single:
  assumes "sorted_wrt (\<lambda>a b. \<not> R a b) xs" "\<And>a b. Q a \<Longrightarrow> Q b \<Longrightarrow> a \<in> set xs \<Longrightarrow> b \<in> set xs \<Longrightarrow> R a b"
    and "h \<in> set xs" "Q h"
  shows "filter Q xs = [h]"
  using assms
proof (induction xs)
  case (Cons x xs)
  show ?case
  proof (cases "Q x")
    case True
    with Cons.prems have "\<forall>y \<in> set xs. \<not> Q y" by auto
    with True Cons.prems show ?thesis by (auto simp: filter_empty_conv)
  next
    case False
    with Cons show ?thesis by auto
  qed
qed simp

definition identity_row :: "grant_row \<Rightarrow> grant_row \<Rightarrow> bool" where
  "identity_row g h =
     (g_kind h = g_kind g \<and> index_key h = index_key g \<and>
      coalesce (g_operation_hash h) = coalesce (g_operation_hash g) \<and>
      coalesce (g_capability_hash h) = coalesce (g_capability_hash g) \<and> g_revoked_at h = None)"

lemma exact_identity_rows:
  assumes "g = planned_row cr uuid now e sub d p i"
  shows "exact_identity db p (identity sub (plan_scope p) (plan_delegation p)) d
      (g_operation_hash g) (g_capability_hash g) = map g_id (filter (identity_row g) (grant_rows db))"
  unfolding exact_identity_def assms
  by (rule arg_cong [where f = "map g_id"], rule filter_cong)
    (auto simp: identity_row_def index_key_def planned_row_simps)

lemma kind_hashes:
  assumes "row_checks g"
  shows "g_kind g = u ''EXACT_GUARDED'' \<Longrightarrow> g_operation_hash g \<noteq> None \<and> g_capability_hash g = None"
    "g_kind g \<in> {u ''READ_CAPABILITY'', u ''EDIT_CAPABILITY''} \<Longrightarrow>
       g_operation_hash g = None \<and> g_capability_hash g \<noteq> None"
  using assms by (auto simp: row_checks_def kind_check_def)

lemma coalesce_eq: "a \<noteq> None \<Longrightarrow> b \<noteq> None \<Longrightarrow> coalesce a = coalesce b \<Longrightarrow> a = b"
  by (auto simp: coalesce_def)

lemma conflict_single:
  assumes wf: "wf_db db" and g: "row_checks g" "g_revoked_at g = None" "g_id g \<notin> g_id ` set (grant_rows db)"
    and h: "h \<in> set (grant_rows db)" "conflicts g h"
  shows "filter (identity_row g) (grant_rows db) = [h]"
proof (rule sorted_wrt_filter_single [where R = conflicts])
  show "sorted_wrt (\<lambda>a b. \<not> conflicts a b) (grant_rows db)" using wf by (simp add: wf_db_def)
  have checks: "row_checks k" if "k \<in> set (grant_rows db)" for k
    using wf that by (simp add: wf_db_def list_all_iff)
  from h g(3) have "g_id g \<noteq> g_id h" by (metis imageI)
  with h(2) consider
      (exact) "in_exact_index g" "in_exact_index h" "index_key g = index_key h"
        "g_operation_hash g = g_operation_hash h"
    | (cap) "in_capability_index g" "in_capability_index h" "g_kind g = g_kind h"
        "index_key g = index_key h" "g_capability_hash g = g_capability_hash h"
    unfolding conflicts_def by blast
  note cases = this
  show "identity_row g h"
    using cases
  proof cases
    case exact
    with kind_hashes(1) [OF g(1)] kind_hashes(1) [OF checks [OF h(1)]] show ?thesis
      by (simp add: identity_row_def in_exact_index_def)
  next
    case cap
    with kind_hashes(2) [OF g(1)] kind_hashes(2) [OF checks [OF h(1)]] show ?thesis
      by (simp add: identity_row_def in_capability_index_def)
  qed
  fix a b
  assume ab: "identity_row g a" "identity_row g b" "a \<in> set (grant_rows db)" "b \<in> set (grant_rows db)"
  show "conflicts a b"
    using cases
  proof cases
    case exact
    then have "g_kind a = u ''EXACT_GUARDED''" "g_kind b = u ''EXACT_GUARDED''"
      using ab by (simp_all add: identity_row_def in_exact_index_def)
    with ab kind_hashes(1) [OF checks [OF ab(3)]] kind_hashes(1) [OF checks [OF ab(4)]] show ?thesis
      using coalesce_eq [of "g_operation_hash a" "g_operation_hash b"]
      by (simp add: conflicts_def in_exact_index_def identity_row_def)
  next
    case cap
    then have "g_kind a \<in> {u ''READ_CAPABILITY'', u ''EDIT_CAPABILITY''}" "g_kind a = g_kind b"
      using ab by (simp_all add: identity_row_def in_capability_index_def)
    moreover from this have "g_capability_hash a = g_capability_hash b" "g_capability_hash a \<noteq> None"
      using ab kind_hashes(2) [OF checks [OF ab(3)]] kind_hashes(2) [OF checks [OF ab(4)]]
        coalesce_eq [of "g_capability_hash a" "g_capability_hash b"]
      by (simp_all add: identity_row_def)
    ultimately show ?thesis using ab by (simp add: conflicts_def in_capability_index_def identity_row_def)
  qed
qed (rule h(1))

lemma revoke_where_same [simp]:
  "sessions (fst (revoke_where now p db)) = sessions db" "runs (fst (revoke_where now p db)) = runs db"
  "interactions (fst (revoke_where now p db)) = interactions db"
  by (auto simp: revoke_where_def)

lemma revoke_where_ids [simp]:
  "g_id ` set (grant_rows (fst (revoke_where now p db))) = g_id ` set (grant_rows db)"
proof -
  have "map g_id (grant_rows (fst (revoke_where now p db))) = map g_id (grant_rows db)"
    by (simp add: revoke_where_def)
  then show ?thesis by (metis list.set_map)
qed

lemma is_ephemeral_revoke [simp]: "is_ephemeral (fst (revoke_where now p db)) = is_ephemeral db"
  by (rule HOL.ext) (simp add: is_ephemeral_def)

lemma context_ok_revoke [simp]: "context_ok (fst (revoke_where now p db)) sub i = context_ok db sub i"
  by (simp add: context_ok_def split: option.split)

lemma create_total:
  assumes wf: "wf_db db" and ctx: "context_ok db sub i" and p: "plan d req = Some p"
    and schema: "authorization_schema_version d = 1" and fresh: "uuid \<notin> g_id ` set (grant_rows db)"
  obtains db' gid where "create_in_tx cr db uuid now millis sub d req i = Inr (db', Some gid)"
    "gid \<in> g_id ` set (grant_rows db')"
    "gid = uuid \<Longrightarrow> \<exists>e. expiry (plan_scope p) millis = Inr e \<and>
       planned_row cr uuid now e sub d p i \<in> set (grant_rows db')"
    "runs db' = runs db"
proof -
  define dead :: "grant_row \<Rightarrow> bool" where "dead = (\<lambda>g. g_revoked_at g = None \<and> \<not> text_less now (g_expires_at g))"
  define db1 where "db1 = fst (revoke_where now dead db)"
  have wf1: "wf_db db1" using wf by (simp add: db1_def revoke_where_wf)
  have ctx1: "context_ok db1 sub i" using ctx by (simp add: db1_def)
  from plan_fits(4) [OF p] obtain e where e: "expiry (plan_scope p) millis = Inr e"
    by (cases "plan_scope p") (simp_all add: expiry_def)
  define g where "g = planned_row cr uuid now e sub d p i"
  have checks: "row_checks g" unfolding g_def by (rule planned_checks [OF p schema])
  note ok = planned_context [OF ctx1 p, of cr uuid now e, folded g_def]
  have persistent: "require_persistent_session db (root_session_id sub) = Inr ()"
    using ctx by (auto simp: context_ok_def require_persistent_session_def session_retention_def)
  have run: "create_in_tx cr db uuid now millis sub d req i =
      and_then (insert_row db1 g) (\<lambda>(db, inserted).
        if inserted then Inr (db, Some uuid)
        else (case exact_identity db p (identity sub (plan_scope p) (plan_delegation p)) d
                     (g_operation_hash g) (g_capability_hash g) of
          [reused] \<Rightarrow> Inr (db, Some reused)
        | _ \<Rightarrow> Inl (Invalid (u ''GRANT_CREATE_IDENTITY_CONFLICT''))))"
    unfolding create_in_tx_def persistent p Let_def dead_def [symmetric] db1_def [symmetric]
      and_then_simps option.case e g_def by (rule refl)
  show thesis
  proof (cases "list_ex (conflicts g) (grant_rows db1)")
    case False
    with checks ok have ins: "insert_row db1 g = Inr (db1\<lparr>grant_rows := grant_rows db1 @ [g]\<rparr>, True)"
      by (simp add: insert_row_def)
    show thesis
    proof (rule that)
      show "create_in_tx cr db uuid now millis sub d req i =
          Inr (db1\<lparr>grant_rows := grant_rows db1 @ [g]\<rparr>, Some uuid)"
        by (simp add: run ins)
    qed (use e in \<open>auto simp: g_def planned_row_simps db1_def\<close>)
  next
    case True
    then obtain h where h: "h \<in> set (grant_rows db1)" "conflicts g h" by (auto simp: list_ex_iff)
    have same: "g_id ` set (grant_rows db1) = g_id ` set (grant_rows db)" by (simp add: db1_def)
    have new: "g_id g \<notin> g_id ` set (grant_rows db1)" "g_revoked_at g = None"
      using fresh same by (simp_all add: g_def planned_row_simps)
    from True checks ok have "insert_row db1 g = Inr (db1, False)" by (simp add: insert_row_def)
    moreover have "exact_identity db1 p (identity sub (plan_scope p) (plan_delegation p)) d
        (g_operation_hash g) (g_capability_hash g) = [g_id h]"
      unfolding exact_identity_rows [OF g_def] conflict_single [OF wf1 checks new(2,1) h] by simp
    ultimately have res: "create_in_tx cr db uuid now millis sub d req i = Inr (db1, Some (g_id h))"
      by (simp add: run)
    have "g_id h \<noteq> uuid" "g_id h \<in> g_id ` set (grant_rows db1)" "runs db1 = runs db"
      using imageI [OF h(1), of g_id] fresh same by (metis, simp, simp add: db1_def)
    with res show thesis by (intro that [of db1 "g_id h"]) simp_all
  qed
qed

subsection \<open>A created grant is found\<close>

lemma str_key_ascii: "list_all (\<lambda>c. c < 0xD800) s \<Longrightarrow> str_key s = s"
  by (induction s) (auto simp: str_key_def unit_rank_def)

lemma digs_ascii: "list_all (\<lambda>c. c < 0xD800) (digs k n)"
  by (induction k arbitrary: n) auto

lemma text_less_format:
  assumes "0 \<le> a" "a < b" "b \<le> max_millis"
  shows "text_less (format_rfc3339_micros a) (format_rfc3339_micros b)"
proof -
  have "str_key (format_rfc3339_micros v) = format_rfc3339_micros v" if "0 \<le> v" "v \<le> max_millis" for v
  proof -
    obtain y m d where c: "civil_from_days (v div 1000 div 86400) = (y, m, d)" by (metis prod_cases3)
    show ?thesis
      unfolding format_stamp(1) [OF that c] stamp_def by (rule str_key_ascii) (simp add: digs_ascii)
  qed
  with assms format_less [OF assms] show ?thesis by (simp add: text_less_def)
qed

lemma planned_row_matches:
  assumes p: "plan d req = Some p"
    and paths: "exact_kind (plan_kind p) \<or> (\<forall>r \<in> set (resources d). res_kind r = u ''path'')"
    and readable: "reads_back cr (constraint_json (plan_constraint p))"
    and live: "text_less now e" "plan_scope p = RunScope \<Longrightarrow> \<not> root_run_is_terminal db (root_run_id sub)"
    and row: "planned_row cr uuid created e sub d p i \<in> set (grant_rows db)"
  shows "find_match_at cr db now sub d \<noteq> None"
proof -
  let ?g = "planned_row cr uuid created e sub d p i"
  note fits = plan_fits [OF p]
  have "row_applies now sub d ?g"
    using fits(4,7) live(1)
    by (cases "plan_scope p"; cases "plan_delegation p")
      (simp_all add: row_applies_def planned_row_simps identity_def scope_as_str_def delegation_as_str_def)
  moreover have "row_match cr db sub d ?g \<noteq> None"
  proof -
    have "scope_as_str (plan_scope p) = u ''RUN'' \<Longrightarrow> plan_scope p = RunScope"
      by (cases "plan_scope p") (simp_all add: scope_as_str_def)
    with live(2) have "\<not> (g_scope ?g = u ''RUN'' \<and> root_run_is_terminal db (root_run_id sub))"
      by (auto simp: planned_row_simps)
    with decode_encode [OF fits(1,2) readable] plan_admits [OF p paths] show ?thesis
      by (simp add: row_match_def planned_row_simps del: u_simps)
  qed
  ultimately show ?thesis using row by (auto simp: find_match_None)
qed

subsection \<open>The interface of the store\<close>

text \<open>
  What the service relies on: a dead grant is never returned by the lookup, a revocation makes the
  grants it names dead, and no later step of the database brings a dead grant back.
\<close>

locale grant_store =
  fixes lookup :: "'db \<Rightarrow> authorization_subject \<Rightarrow> operation_descriptor \<Rightarrow> grant_match option"
    and dead :: "ustring \<Rightarrow> 'db \<Rightarrow> bool"
    and kill :: "'key \<Rightarrow> 'db \<Rightarrow> 'db"
    and names :: "'key \<Rightarrow> 'db \<Rightarrow> ustring \<Rightarrow> bool"
    and step :: "ustring \<Rightarrow> 'db \<Rightarrow> 'db \<Rightarrow> bool"
  assumes lookup_live: "dead gid db \<Longrightarrow> lookup db sub d = Some m \<Longrightarrow> match_id m \<noteq> gid"
    and kill_dead: "names k db gid \<Longrightarrow> dead gid (kill k db)"
    and step_dead: "step gid db db' \<Longrightarrow> dead gid db \<Longrightarrow> dead gid db'"
begin

text \<open>A grant that is dead stays dead through any sequence of steps, so no lookup returns it.\<close>

lemma stays_dead: "(step gid)\<^sup>*\<^sup>* db db' \<Longrightarrow> dead gid db \<Longrightarrow> dead gid db'"
  by (induction rule: rtranclp_induct) (auto intro: step_dead)

lemma never_found:
  assumes "names k db gid" "(step gid)\<^sup>*\<^sup>* (kill k db) db'" "lookup db' sub d = Some m"
  shows "match_id m \<noteq> gid"
  using lookup_live [OF stays_dead [OF assms(2) kill_dead [OF assms(1)]] assms(3)] .

end

text \<open>
  The revocations of a grant as one operation: by identifier, for a session, with a run by the
  repository, and at the end of a root run by the run table. \<open>resolve\<close> is the identity service.
\<close>

datatype revocation = ByGrant ustring | InSession ustring ustring | RunScoped ustring | RunEnded ustring

definition revoke_any ::
  "(ustring \<Rightarrow> authz_error + ustring) \<Rightarrow> ustring \<Rightarrow> revocation \<Rightarrow> grant_db \<Rightarrow> grant_db" where
  "revoke_any resolve at r db = (case r of
     ByGrant gid \<Rightarrow> fst (revoke at gid db)
   | InSession gid session \<Rightarrow> fst (revoke_for_session resolve at gid session db)
   | RunScoped run \<Rightarrow> fst (revoke_run_scoped at run db)
   | RunEnded run \<Rightarrow> end_run_grants at run db)"

definition names_grant ::
  "(ustring \<Rightarrow> authz_error + ustring) \<Rightarrow> revocation \<Rightarrow> grant_db \<Rightarrow> ustring \<Rightarrow> bool" where
  "names_grant resolve r db gid = (case r of
     ByGrant i \<Rightarrow> i = gid
   | InSession i session \<Rightarrow> i = gid \<and>
       list_all (\<lambda>g. g_id g = gid \<longrightarrow>
         visible_in_session session (workspace_for_session resolve db session) g) (grant_rows db)
   | RunScoped run \<Rightarrow>
       list_all (\<lambda>g. g_id g = gid \<longrightarrow> g_scope g = u ''RUN'' \<and> g_root_run g = Some run) (grant_rows db)
   | RunEnded run \<Rightarrow> map_option r_parent (runs db run) = Some None \<and>
       list_all (\<lambda>g. g_id g = gid \<longrightarrow> g_scope g = u ''RUN'' \<and> g_root_run g = Some run) (grant_rows db))"

definition revoked_in :: "ustring \<Rightarrow> grant_db \<Rightarrow> bool" where
  "revoked_in gid db = list_all (\<lambda>g. g_id g = gid \<longrightarrow> g_revoked_at g \<noteq> None) (grant_rows db)"

text \<open>
  Every later row of a grant comes from an earlier row of it and is revoked if that was: what all other
  writes to the tables keep, since only the repository inserts grants and nothing resets a revocation.
\<close>

definition carries_revocations :: "grant_db \<Rightarrow> grant_db \<Rightarrow> bool" where
  "carries_revocations db db' = list_all (\<lambda>g. list_ex (\<lambda>h. g_id h = g_id g \<and>
     (g_revoked_at h \<noteq> None \<longrightarrow> g_revoked_at g \<noteq> None)) (grant_rows db)) (grant_rows db')"

text \<open>
  What may happen to the tables after the revocation of \<open>gid\<close>: the creation of any other grant, any
  further revocation at any time, and every change of the other tables or of the rows that are there
  (sessions and runs that come, change and go, rows deleted with their session).
\<close>

inductive grant_step :: "(ustring \<Rightarrow> authz_error + ustring) \<Rightarrow> ustring \<Rightarrow> grant_db \<Rightarrow> grant_db \<Rightarrow> bool" for resolve gid where
  step_create: "uuid \<noteq> gid \<Longrightarrow> grant_step resolve gid db (snd (create cr db uuid millis sub d req i))"
| step_revoke: "grant_step resolve gid db (revoke_any resolve at k db)"
| step_other: "carries_revocations db db' \<Longrightarrow> grant_step resolve gid db db'"

lemma revoke_fst: "fst (revoke at gid db) = fst (revoke_where at (\<lambda>g. g_id g = gid \<and> g_revoked_at g = None) db)"
  by (simp add: revoke_def split: prod.split)

lemma revoked_in_where: "revoked_in gid db \<Longrightarrow> revoked_in gid (fst (revoke_where at p db))"
  by (auto simp: revoked_in_def revoke_where_def list_all_iff)

text \<open>An update revokes the grant when every row of it that is not revoked is a row of the update.\<close>

lemma revoked_by_where:
  "list_all (\<lambda>g. g_id g = gid \<longrightarrow> g_revoked_at g = None \<longrightarrow> p g) (grant_rows db) \<Longrightarrow>
   revoked_in gid (fst (revoke_where at p db))"
  by (auto simp: revoked_in_def revoke_where_def list_all_iff)

lemma revoked_by_end:
  "map_option r_parent (runs db run) = Some None \<Longrightarrow>
   list_all (\<lambda>g. g_id g = gid \<longrightarrow> g_scope g = u ''RUN'' \<and> g_root_run g = Some run) (grant_rows db) \<Longrightarrow>
   revoked_in gid (end_run_grants at run db)"
  by (auto simp: revoked_in_def end_run_grants_def list_all_iff simp del: u_simps)

lemma revoked_in_end: "revoked_in gid db \<Longrightarrow> revoked_in gid (end_run_grants at run db)"
  by (auto simp: revoked_in_def end_run_grants_def list_all_iff simp del: u_simps)

lemma revoked_in_any: "revoked_in gid db \<Longrightarrow> revoked_in gid (revoke_any resolve at k db)"
  by (cases k) (simp_all add: revoke_any_def revoke_fst revoke_for_session_def revoke_run_scoped_def
      revoked_in_where revoked_in_end)

lemma revoked_by_name:
  assumes "names_grant resolve k db gid"
  shows "revoked_in gid (revoke_any resolve at k db)"
proof (cases k)
  case (RunEnded run)
  with assms show ?thesis by (simp add: names_grant_def revoke_any_def revoked_by_end del: u_simps)
qed (use assms in \<open>auto simp: names_grant_def revoke_any_def revoke_fst revoke_for_session_def
    revoke_run_scoped_def list_all_iff simp del: u_simps intro!: revoked_by_where\<close>)

lemma revoked_in_create:
  assumes "uuid \<noteq> gid" "revoked_in gid db"
  shows "revoked_in gid (snd (create cr db uuid millis sub d req i))"
proof -
  have "revoked_in gid db'" if "insert_row db1 (planned_row cr uuid now e sub d p i) = Inr (db', b)" "revoked_in gid db1"
    for db1 db' now e p b
    using that assms(1)
    by (auto simp: insert_row_def revoked_in_def planned_row_simps split: if_splits)
  with revoked_in_where [OF assms(2)] assms(2) have "revoked_in gid db'"
    if "create_in_tx cr db uuid now millis sub d req i = Inr (db', r)" for now db' r
    using that
    by (auto simp: create_in_tx_def Let_def and_then_Inr split: option.splits if_splits list.splits)
  with assms(2) show ?thesis by (auto simp: create_def split: sum.splits)
qed

interpretation repository: grant_store
  "\<lambda>db. find_match_at cr db now" revoked_in "revoke_any resolve at" "names_grant resolve" "grant_step resolve"
  for cr now resolve at
proof unfold_locales
  fix db :: grant_db and sub d m gid
  assume "revoked_in gid db" "find_match_at cr db now sub d = Some m"
  then show "match_id m \<noteq> gid"
    by (auto dest!: find_match_live simp: live_grant_def revoked_in_def list_all_iff simp del: not_None_eq)
next
  fix k and db :: grant_db and gid
  assume "names_grant resolve k db gid"
  then show "revoked_in gid (revoke_any resolve at k db)" by (rule revoked_by_name)
next
  fix db db' :: grant_db and gid
  assume "grant_step resolve gid db db'" "revoked_in gid db"
  then show "revoked_in gid db'"
  proof cases
    case step_other
    with \<open>revoked_in gid db\<close> show ?thesis
      by (fastforce simp: carries_revocations_def revoked_in_def list_all_iff list_ex_iff)
  qed (simp_all add: revoked_in_create revoked_in_any)
qed

end
