(* ===== verification/Authz_PathSecurity_Props.thy ===== *)
theory Authz_PathSecurity_Props
  imports Authz_PathSecurity
begin

section \<open>Properties of path security\<close>

text \<open>
  Comparing texts of normalized paths compares their components; a check that allows keeps away from
  devices, the kernel's trees and, without confirmation, from sensitive names; the check before the
  execution is made on a target that resolves to itself.
\<close>

subsection \<open>Prefixes of texts and of components\<close>

lemma join_slash_neq: "list_all entry p \<Longrightarrow> p \<noteq> [] \<Longrightarrow> join_slash p \<noteq> []"
  by (induction p rule: join_slash.induct) (auto simp: entry_def)

lemma join_slash_append:
  "p \<noteq> [] \<Longrightarrow> q \<noteq> [] \<Longrightarrow> join_slash (p @ q) = join_slash p @ [slash] @ join_slash q"
proof (induction p rule: join_slash.induct)
  case (2 c)
  then show ?case by (cases q) auto
qed auto

lemma join_slash_inj:
  "list_all entry p \<Longrightarrow> list_all entry q \<Longrightarrow> join_slash p = join_slash q \<Longrightarrow> p = q"
  by (metis path_components_text path_text_def)

lemma entries_slash: "list_all entry p \<Longrightarrow> list_all (\<lambda>c. slash \<notin> set c) p"
  by (auto simp: list_all_iff entry_def)

lemma text_prefix_components:
  assumes "list_all entry p" "list_all entry d" "d \<noteq> []" "join_slash p = join_slash d @ [slash] @ r"
  shows "\<exists>q. p = d @ q"
proof -
  have ne: "p \<noteq> []" using assms(4) by auto
  have "p = str_split slash (join_slash p)"
    using split_join_slash [OF entries_slash [OF assms(1)] ne] by simp
  also have "\<dots> = str_split slash (join_slash d) @ str_split slash r"
    using assms(4) str_split_app [of slash "join_slash d" r] by simp
  also have "str_split slash (join_slash d) = d"
    using split_join_slash [OF entries_slash [OF assms(2)] assms(3)] .
  finally show ?thesis by blast
qed

lemma path_text_not_drive [simp]: "\<not> is_windows_drive_path (path_text p)"
  by (auto simp: is_windows_drive_path_def path_text_def is_ascii_alphabetic_def split: list.splits)

lemma path_text_inj: "list_all entry p \<Longrightarrow> list_all entry q \<Longrightarrow> path_text p = path_text q \<longleftrightarrow> p = q"
  by (metis path_components_text)

lemma path_text_ends_slash:
  assumes "list_all entry d" "d \<noteq> []"
  shows "\<not> ends_with (path_text d) [slash]"
proof
  assume "ends_with (path_text d) [slash]"
  then obtain r where "path_text d = r @ [slash]" by (auto simp: ends_with_iff)
  with join_slash_neq [OF assms] have "\<exists>r. join_slash d = r @ [slash]"
    by (auto simp: path_text_def append_eq_Cons_conv Cons_eq_append_conv)
  then obtain r where r: "join_slash d = r @ slash # []" by auto
  have "d = str_split slash r @ [[]]"
    using split_join_slash [OF entries_slash [OF assms(1)] assms(2)] str_split_app [of slash r "[]"] r
    by simp
  with assms(1) show False by (simp add: entry_def)
qed

lemma descendant_components:
  assumes "list_all entry p" "list_all entry d"
  shows "is_same_or_descendant (path_text p) (path_text d) \<longleftrightarrow> path_starts_with p d"
proof (cases "d = []")
  case True
  have "ends_with (path_text []) [slash]" "path_text [] = [slash]"
    by (simp_all add: path_text_def ends_with_def)
  with True show ?thesis
    using path_text_not_drive [of p] path_text_not_drive [of "[]"]
    by (simp add: is_same_or_descendant_def Let_def path_starts_with_def starts_with_iff path_text_def)
next
  case False
  have "starts_with (path_text p) (path_text d @ [slash]) \<longleftrightarrow> (\<exists>q. q \<noteq> [] \<and> p = d @ q)"
  proof
    assume "starts_with (path_text p) (path_text d @ [slash])"
    then obtain r where r: "join_slash p = join_slash d @ [slash] @ r"
      by (auto simp: starts_with_iff path_text_def)
    then obtain q where "p = d @ q" using text_prefix_components [OF assms False r] by blast
    moreover have "q \<noteq> []" using calculation r by auto
    ultimately show "\<exists>q. q \<noteq> [] \<and> p = d @ q" by blast
  next
    assume "\<exists>q. q \<noteq> [] \<and> p = d @ q"
    then show "starts_with (path_text p) (path_text d @ [slash])"
      using join_slash_append [OF False] by (auto simp: starts_with_iff path_text_def)
  qed
  then show ?thesis
    using path_text_inj [OF assms] path_text_ends_slash [OF assms(2) False]
    by (auto simp: is_same_or_descendant_def paths_equal_def path_starts_with_iff)
qed

subsection \<open>What an allowed check means\<close>

lemma path_check_simps [simp]:
  "is_allowed path_allowed" "\<not> needs_confirmation path_allowed"
  "\<not> is_allowed (path_denied m)" "\<not> needs_confirmation (path_denied m)"
  "is_allowed (path_confirm m)" "needs_confirmation (path_confirm m)"
  by (simp_all add: path_allowed_def path_denied_def path_confirm_def)

definition silent :: "path_check \<Rightarrow> bool" where
  "silent c = (is_allowed c \<and> \<not> needs_confirmation c)"

definition off_limits :: "ustring \<Rightarrow> bool" where
  "off_limits p =
     (p \<in> set BLOCKED_DEVICE_PATHS \<or> is_process_special p \<or> is_process_path p \<or> is_kernel_path p)"

definition inside_project :: "fs \<Rightarrow> ustring \<Rightarrow> path \<Rightarrow> bool" where
  "inside_project F wd p = path_starts_with p (absolute_normalized (fs_cwd F) wd)"

text \<open>The components of a path the sensitive directories are looked for in: all of them outside the
  project, those below its root inside.\<close>

definition inspected :: "fs \<Rightarrow> ustring \<Rightarrow> path \<Rightarrow> ustring list" where
  "inspected F wd p =
     (if inside_project F wd p then drop (length (absolute_normalized (fs_cwd F) wd)) p else p)"

lemma read_resolved_allowed:
  assumes "is_allowed (read_permission_resolved F s r p wd ext)"
  shows "\<not> off_limits (path_text r)"
    and "fs_canonicalize F (absolute_normalized (fs_cwd F) wd) = Some (absolute_normalized (fs_cwd F) wd)"
    and "\<not> ext \<Longrightarrow> inside_project F wd r"
  using assms
  by (auto simp: read_permission_resolved_def Let_def off_limits_def inside_project_def
      split: if_splits option.splits)

lemma read_resolved_silent:
  assumes "silent (read_permission_resolved F s r p wd ext)"
  shows "protected_file_name r (absolute_normalized_path F p wd) = None"
    and "sensitive_directory F s r (absolute_normalized_path F p wd) (absolute_normalized (fs_cwd F) wd)
           SENSITIVE_READ_DIRECTORIES = None"
    and "\<not> is_sensitive_system_or_user_path F r"
  using assms
  by (auto simp: silent_def read_permission_resolved_def Let_def split: if_splits option.splits)

lemma protected_file_name_None:
  "protected_file_name r l = None \<Longrightarrow> q \<in> {r, l} \<Longrightarrow> q \<noteq> [] \<Longrightarrow> \<not> is_protected_file_name (last q)"
  by (auto simp: protected_file_name_def protected_name_of_def file_name_def split: option.splits if_splits)

lemma scan_components_False:
  assumes "\<not> scan_components F s r outside dir cur cs" "\<not> eq_ignore_ascii_case dir CONFIG_DIR_NAME"
    and "c \<in> set cs"
  shows "\<not> eq_ignore_ascii_case c dir"
  using assms by (induction F s r outside dir cur cs rule: scan_components.induct)
    (auto simp: Let_def split: if_splits)

lemma sensitive_directory_None:
  assumes "sensitive_directory F s r l root dirs = None" "d \<in> set dirs"
    and "\<not> eq_ignore_ascii_case d CONFIG_DIR_NAME"
    and "c \<in> set (if path_starts_with r root then drop (length root) r else r)"
  shows "\<not> eq_ignore_ascii_case c d"
proof -
  have "matching_sensitive_directory F s r root (\<not> path_starts_with r root) dirs = None"
    using assms(1) by (auto simp: sensitive_directory_def split: option.splits)
  with assms(2) have "\<not> contains_unrelaxed_sensitive_component F s
       (if path_starts_with r root then drop (length root) r else r) (\<not> path_starts_with r root) r root
       (\<not> path_starts_with r root) d"
    by (auto simp: matching_sensitive_directory_def Let_def find_None_iff split: option.splits if_splits)
  then show ?thesis
    unfolding contains_unrelaxed_sensitive_component_def
    using scan_components_False assms(3,4) by blast
qed

text \<open>
  Where a protected name may stand in a path all the same: the directory \<open>marker\<close> is followed by the
  scratchpad, inside the project, or the path is resolved into the system's scratchpad and that lies
  under the resolved scratchpad of the marker.
\<close>

definition scratchpad_exception ::
  "fs \<Rightarrow> scratchpad_policy \<Rightarrow> bool \<Rightarrow> path \<Rightarrow> path \<Rightarrow> path \<Rightarrow> bool" where
  "scratchpad_exception F s inside q marker post =
     ((inside \<and> (\<exists>rest. post = u ''scratchpad'' # rest)) \<or>
      (scratchpad_contains F s q \<and>
       (\<exists>pad. system_root F s = Some pad \<and>
         path_starts_with pad (resolve_through_existing_ancestor_or F
           (marker @ [u ''scratchpad'']) (marker @ [u ''scratchpad''])))))"

lemma relaxed_marker:
  "is_relaxed_scratchpad_marker F s (marker @ post) marker outside \<longleftrightarrow>
   scratchpad_exception F s (\<not> outside) (marker @ post) marker post"
proof -
  have "path_starts_with (marker @ post) (marker @ [u ''scratchpad'']) \<longleftrightarrow> (\<exists>rest. post = u ''scratchpad'' # rest)"
    by (auto simp: path_starts_with_iff simp del: u_simps)
  then show ?thesis
    by (auto simp: is_relaxed_scratchpad_marker_def scratchpad_exception_def Let_def simp del: u_simps
        split: option.splits)
qed

lemma scan_components_split:
  assumes "\<not> scan_components F s r outside dir cur (pre @ c # post)" "eq_ignore_ascii_case c dir"
  shows "eq_ignore_ascii_case dir CONFIG_DIR_NAME \<and> is_relaxed_scratchpad_marker F s r (cur @ pre @ [c]) outside"
  using assms(1)
proof (induction pre arbitrary: cur)
  case Nil
  with assms(2) show ?case by (simp add: Let_def split: if_splits)
next
  case (Cons a pre)
  then have "\<not> scan_components F s r outside dir (cur @ [a]) (pre @ c # post)"
    by (simp add: Let_def split: if_splits)
  from Cons.IH [OF this] show ?case by simp
qed

text \<open>
  What a path may have when no sensitive directory was found in it: inside the project the components
  from the last one of the root, outside it all of them, are no protected name, or excepted.
\<close>

lemma matching_sensitive_None:
  assumes "matching_sensitive_directory F s q root (\<not> path_starts_with q root) dirs = None" "d \<in> set dirs"
    and q: "q = pre @ c # post" "eq_ignore_ascii_case c d"
    and below: "path_starts_with q root \<Longrightarrow> length root \<le> Suc (length pre)"
  shows "eq_ignore_ascii_case d CONFIG_DIR_NAME \<and>
    scratchpad_exception F s (path_starts_with q root) q (pre @ [c]) post"
proof -
  have q': "q = (pre @ [c]) @ post" using q(1) by simp
  have "eq_ignore_ascii_case d CONFIG_DIR_NAME \<and>
      is_relaxed_scratchpad_marker F s q (pre @ [c]) (\<not> path_starts_with q root)"
  proof (cases "path_starts_with q root")
    case True
    then obtain tl where tl: "q = root @ tl" by (auto simp: path_starts_with_iff)
    from True assms(1,2) have own: "\<not> root_is_sensitive F s q root d"
      and scan: "\<not> scan_components F s q False d root (drop (length root) q)"
      by (auto simp: matching_sensitive_directory_def contains_unrelaxed_sensitive_component_def Let_def
          find_None_iff split: option.splits)
    show ?thesis
    proof (cases "length root = Suc (length pre)")
      case same: True
      with tl q' have "root = pre @ [c]" by (metis append_eq_append_conv length_append_singleton)
      with own q(2) True show ?thesis by (auto simp: root_is_sensitive_def Let_def file_name_def)
    next
      case False
      with below [OF True] have "length root \<le> length pre" by simp
      with tl q(1) obtain mid where "pre = root @ mid" by (metis append_eq_append_conv_if append_take_drop_id)
      with scan q scan_components_split [of F s q False d root mid c post] True show ?thesis by simp
    qed
  next
    case False
    with assms(1,2) have "\<not> scan_components F s q True d [] q"
      by (auto simp: matching_sensitive_directory_def contains_unrelaxed_sensitive_component_def Let_def
          find_None_iff split: option.splits)
    with q False scan_components_split [of F s q True d "[]" pre c post] show ?thesis by simp
  qed
  with relaxed_marker [of F s "pre @ [c]" post] q' show ?thesis by simp
qed

lemma sensitive_directory_matching:
  assumes "sensitive_directory F s r l root dirs = None" "q \<in> {r, l}"
  shows "matching_sensitive_directory F s q root (\<not> path_starts_with q root) dirs = None"
  using assms by (auto simp: sensitive_directory_def split: option.splits if_splits)

lemma read_dirs_not_config:
  "d \<in> set SENSITIVE_READ_DIRECTORIES \<Longrightarrow> \<not> eq_ignore_ascii_case d CONFIG_DIR_NAME"
  by (auto simp: SENSITIVE_READ_DIRECTORIES_def CONFIG_DIR_NAME_def eq_ignore_ascii_case_def
      ascii_lower_def)

lemma silent_read_components:
  assumes "silent (read_permission_resolved F s r p wd ext)"
    and "c \<in> set (inspected F wd r)" "d \<in> set SENSITIVE_READ_DIRECTORIES"
  shows "\<not> eq_ignore_ascii_case c d"
  using sensitive_directory_None [OF read_resolved_silent(2) [OF assms(1)] assms(3)
      read_dirs_not_config [OF assms(3)]] assms(2)
  by (simp add: inspected_def inside_project_def split: if_splits)

subsection \<open>Writing\<close>

lemma symlink_check_allowed: "is_allowed (symlink_check F r p c) \<Longrightarrow> is_allowed c \<or> needs_confirmation (symlink_check F r p c)"
  by (auto simp: symlink_check_def split: option.splits if_splits)

lemma symlink_check_silent: "silent (symlink_check F r p c) \<Longrightarrow> silent c"
  by (auto simp: silent_def symlink_check_def split: option.splits if_splits)

lemma read_resolved_confirm:
  "needs_confirmation (read_permission_resolved F s r p wd ext) \<Longrightarrow>
   is_allowed (read_permission_resolved F s r p wd ext)"
  by (auto simp: read_permission_resolved_def Let_def split: if_splits option.splits)

lemma write_resolved_allowed:
  assumes "is_allowed (write_permission_resolved F s r p wd ext)"
  shows "is_allowed (read_permission_resolved F s r p wd ext)"
  using assms read_resolved_confirm
  by (auto simp: write_permission_resolved_def Let_def split: if_splits)

lemma write_resolved_silent:
  assumes "silent (write_permission_resolved F s r p wd ext)"
  shows "silent (read_permission_resolved F s r p wd ext)"
    and "sensitive_directory F s r (absolute_normalized_path F p wd) (absolute_normalized (fs_cwd F) wd)
           SENSITIVE_WRITE_DIRECTORIES = None"
    and "\<not> is_system_critical_path (path_text r)"
proof -
  have "is_allowed (read_permission_resolved F s r p wd ext)"
    using write_resolved_allowed assms by (auto simp: silent_def)
  with assms show "silent (read_permission_resolved F s r p wd ext)"
    "sensitive_directory F s r (absolute_normalized_path F p wd) (absolute_normalized (fs_cwd F) wd)
           SENSITIVE_WRITE_DIRECTORIES = None" "\<not> is_system_critical_path (path_text r)"
    by (auto simp: write_permission_resolved_def Let_def silent_def [of "path_confirm _"]
        dest: symlink_check_silent split: option.splits if_splits)
qed

lemma recursive_resolved_allowed:
  assumes "is_allowed (recursive_read_root_resolved F s r p wd ext)"
  shows "is_allowed (read_permission_resolved F s r p wd ext)"
    and "silent (recursive_read_root_resolved F s r p wd ext) \<Longrightarrow>
         silent (read_permission_resolved F s r p wd ext) \<and> r \<noteq> [] \<and> \<not> is_blocked_recursive_root (path_text r)"
  using assms by (auto simp: recursive_read_root_resolved_def Let_def silent_def split: if_splits)

subsection \<open>The check before the execution\<close>

lemma inspect_target_allowed:
  assumes "is_allowed (permission (inspect_authorized_target F p wd))"
  shows "check_target (inspect_authorized_target F p wd) = Some (absolute_normalized_path F p wd)"
    "resolve_path_unchecked F p wd = absolute_normalized_path F p wd" "\<not> is_unc_path p"
  using assms by (auto simp: inspect_authorized_target_def Let_def split: if_splits)

lemma inspect_with_allowed:
  assumes "is_allowed (permission (inspect_with check (inspect_authorized_target F p wd)))"
  shows "check_target (inspect_with check (inspect_authorized_target F p wd)) =
           Some (absolute_normalized_path F p wd)"
    "resolve_path_unchecked F p wd = absolute_normalized_path F p wd"
    "permission (inspect_with check (inspect_authorized_target F p wd)) =
       check (absolute_normalized_path F p wd)"
    "\<not> is_unc_path p"
proof -
  have "is_allowed (permission (inspect_authorized_target F p wd))"
    using assms by (auto simp: inspect_with_def split: if_splits)
  note t = inspect_target_allowed [OF this]
  show "check_target (inspect_with check (inspect_authorized_target F p wd)) =
           Some (absolute_normalized_path F p wd)"
    "resolve_path_unchecked F p wd = absolute_normalized_path F p wd"
    "permission (inspect_with check (inspect_authorized_target F p wd)) =
       check (absolute_normalized_path F p wd)"
    "\<not> is_unc_path p"
    using t assms by (auto simp: inspect_with_def Let_def split: if_splits)
qed

end
