(* ===== verification/Authz_Gateway_Props.thy ===== *)
theory Authz_Gateway_Props
  imports Authz_Gateway Authz_Grants_Props Authz_PathSecurity_Props
begin

section \<open>Properties of authorization and admission\<close>

text \<open>
  The reasons for which a decision can allow, the reasons that hold in the transaction of an
  admission, what an admission commits, and the stability of the recheck.
\<close>

subsection \<open>What a decision can return\<close>

text \<open>The operation an authorization was prepared for.\<close>

definition carries :: "prepared_operation \<Rightarrow> authorized_operation \<Rightarrow> bool" where
  "carries p a =
     (auth_subject a = prepared_subject p \<and> descriptor a = prepared_descriptor p \<and>
      execution_attempt_id a = prepared_attempt_id p)"

text \<open>The form of the authorization each reason gives.\<close>

definition by_policy :: "string \<Rightarrow> authorized_operation \<Rightarrow> bool" where
  "by_policy reason a =
     (auth_source a = PolicySource \<and> reason_code a = u reason \<and> auth_grant_id a = None)"

definition by_mode :: "string \<Rightarrow> authorized_operation \<Rightarrow> bool" where
  "by_mode reason a = (auth_source a = ModeSource \<and> reason_code a = u reason \<and> auth_grant_id a = None)"

definition by_grant :: "authorized_operation \<Rightarrow> bool" where
  "by_grant a = (auth_source a = GrantSource \<and> auth_grant_id a \<noteq> None \<and> risk (descriptor a) \<noteq> High \<and>
     reason_code a \<in> {u ''GRANT_MATCH'', u ''USER_REMEMBERED_GRANT''})"

definition by_answer :: "authorized_operation \<Rightarrow> bool" where
  "by_answer a = (auth_source a = UserOnce \<and> auth_grant_id a = None \<and> interaction_id a \<noteq> None \<and>
     reason_code a = u ''USER_APPROVED_ONCE'')"

definition safe_read :: "operation_descriptor \<Rightarrow> bool" where
  "safe_read d = (analyzer_id d = u ''file-v1'' \<and> risk d = SafeRisk \<and> effects d = [ReadResource])"

definition edit_inside :: "operation_descriptor \<Rightarrow> bool" where
  "edit_inside d = (analyzer_id d = u ''file-v1'' \<and> risk d \<noteq> High \<and> effects d = [WriteResource] \<and>
     \<not> list_ex outside_workspace (resources d))"

definition decided :: "authorized_operation \<Rightarrow> bool" where
  "decided a =
     (let d = descriptor a in
      (by_policy ''BUILTIN_SAFE'' a \<and> effects d = [SafeInternal]) \<or> by_mode ''AUTO_APPROVE'' a \<or>
      by_grant a \<or> by_answer a \<or> (by_mode ''SAFE_READ_AUTO'' a \<and> safe_read d) \<or>
      ((by_policy ''SYSTEM_SCRATCHPAD_SCOPE'' a \<or> by_policy ''PRIVATE_TMP_FILE_SCOPE'' a \<or>
        by_policy ''PROJECT_FILE_SCOPE'' a) \<and> risk d \<noteq> High) \<or>
      (by_mode ''ACCEPT_EDITS'' a \<and> edit_inside d))"

lemma conclude_Inr:
  assumes "fst (conclude cr rd input ctx s d attempt request) = Inr a"
  shows "auth_subject a = s" "descriptor a = d" "execution_attempt_id a = attempt"
    "execution_input a = input" "by_grant a \<or> by_answer a" "rd_latest_mode rd \<noteq> PlanMode"
    "interaction_id a = Some (ir_id request)"
proof -
  obtain response denied where
    r: "response_of cr request = Inr response"
    and h: "\<not> (risk d = High \<and> json_get response (u ''remember'') = Some (JBool True))"
    and m: "(if rd_latest_mode rd = PlanMode then Inr (Some (u ''PLAN_MODE_EFFECT_DENIED''))
              else if rd_latest_mode rd = DontAsk then
                (if risk d = High then Inr (Some (u ''PERMISSION_INTERACTION_REQUIRED''))
                 else map_ok (\<lambda>g. if g = None then Some (u ''PERMISSION_INTERACTION_REQUIRED'') else None)
                        (rd_latest_grant rd))
              else Inr None) = Inr denied"
    and n: "denied = None"
    using assms unfolding conclude_def
    by (auto simp: fst_ask_Inr Let_def split: if_splits option.splits)
  show "rd_latest_mode rd \<noteq> PlanMode" using m n by auto
  show "auth_subject a = s" "descriptor a = d" "execution_attempt_id a = attempt"
    "execution_input a = input" "by_grant a \<or> by_answer a" "interaction_id a = Some (ir_id request)"
    using assms r h m n unfolding conclude_def
    by (auto simp: fst_ask_Inr by_grant_def by_answer_def Let_def split: if_splits option.splits)
qed

lemma interact_Inr:
  assumes "fst (interact cr rd name hash input ctx s d attempt) = Inr a"
  shows "auth_subject a = s" "descriptor a = d" "execution_attempt_id a = attempt"
    "execution_input a = input" "by_grant a \<or> by_answer a" "rd_latest_mode rd \<noteq> PlanMode"
proof -
  obtain request where "fst (conclude cr rd input ctx s d attempt request) = Inr a"
    using assms unfolding interact_def
    by (auto simp: fst_ask_Inr split: option.splits if_splits)
  from conclude_Inr [OF this]
  show "auth_subject a = s" "descriptor a = d" "execution_attempt_id a = attempt"
    "execution_input a = input" "by_grant a \<or> by_answer a" "rd_latest_mode rd \<noteq> PlanMode"
    by blast+
qed

lemma allow_Inr:
  "fst (allow s d input attempt src reason) = Inr a \<longleftrightarrow>
   a = \<lparr>auth_subject = s, descriptor = d, execution_input = input, auth_source = src,
        reason_code = u reason, auth_grant_id = None, auth_grant_scope = None, interaction_id = None,
        execution_attempt_id = attempt\<rparr>"
  by (auto simp: allow_def)

lemma deny_Inr [simp]: "fst (deny ctx s d attempt ev code msg) \<noteq> Inr a"
  by (simp add: deny_def)

lemma trusted_not_high: "is_trusted_ordinary_file_operation cwd trust s d f \<Longrightarrow> risk d \<noteq> High"
  by (auto simp: is_trusted_ordinary_file_operation_def split: if_splits)

lemma scope_not_high:
  "scratchpad_trusted rd s d \<Longrightarrow> risk d \<noteq> High" "private_tmp_trusted rd s d \<Longrightarrow> risk d \<noteq> High"
  "is_trusted_project_file_write s d trust \<Longrightarrow> risk d \<noteq> High"
  by (auto simp: scratchpad_trusted_def private_tmp_trusted_def is_trusted_private_tmp_file_operation_def
      is_trusted_project_file_write_def dest: trusted_not_high)

text \<open>The authorizations a decision can return, followed through its branches.\<close>

definition outcome :: "(authorized_operation \<Rightarrow> bool) \<Rightarrow> decision_result \<Rightarrow> bool" where
  "outcome P r = (\<forall>a. fst r = Inr a \<longrightarrow> P a)"

lemma outcome_if:
  "(c \<Longrightarrow> outcome P x) \<Longrightarrow> (\<not> c \<Longrightarrow> outcome P y) \<Longrightarrow> outcome P (if c then x else y)"
  by simp

lemma outcome_deny: "outcome P (deny ctx s d attempt ev code msg)"
  by (simp add: outcome_def)

definition decided_for ::
  "authorization_subject \<Rightarrow> operation_descriptor \<Rightarrow> json \<Rightarrow> ustring \<Rightarrow> authorized_operation \<Rightarrow> bool" where
  "decided_for s d input attempt a =
     (auth_subject a = s \<and> descriptor a = d \<and> execution_attempt_id a = attempt \<and> execution_input a = input \<and>
      decided a)"

lemma outcome_interact:
  "outcome (decided_for s d input attempt) (interact cr rd name hash input ctx s d attempt)"
  unfolding outcome_def decided_for_def decided_def Let_def
  by (auto dest: interact_Inr)

lemma outcome_policy:
  assumes "r = ''BUILTIN_SAFE'' \<and> effects d = [SafeInternal] \<or>
     r \<in> {''SYSTEM_SCRATCHPAD_SCOPE'', ''PRIVATE_TMP_FILE_SCOPE'', ''PROJECT_FILE_SCOPE''} \<and> risk d \<noteq> High"
  shows "outcome (decided_for s d input attempt) (allow s d input attempt PolicySource r)"
  using assms by (auto simp del: u_simps simp: outcome_def allow_Inr decided_for_def decided_def by_policy_def)

lemma outcome_mode:
  assumes "r = ''AUTO_APPROVE'' \<or> r = ''SAFE_READ_AUTO'' \<and> safe_read d \<or> r = ''ACCEPT_EDITS'' \<and> edit_inside d"
  shows "outcome (decided_for s d input attempt) (allow s d input attempt ModeSource r)"
  using assms by (auto simp del: u_simps simp: outcome_def allow_Inr decided_for_def decided_def by_mode_def)

lemma outcome_grant:
  assumes "risk d \<noteq> High"
  shows "outcome (decided_for s d input attempt)
    (Inr \<lparr>auth_subject = s, descriptor = d, execution_input = input, auth_source = GrantSource,
       reason_code = u ''GRANT_MATCH'', auth_grant_id = Some g, auth_grant_scope = Some sc,
       interaction_id = None, execution_attempt_id = attempt\<rparr>, [])"
  using assms by (simp del: u_simps add: outcome_def decided_for_def decided_def by_grant_def Let_def)

lemma outcome_policies:
  "outcome (decided_for s d input attempt) (decide_policies cr rd mode name hash input ctx s d attempt)"
  unfolding decide_policies_def Let_def
  by (intro outcome_if; (rule outcome_deny | rule outcome_interact | rule outcome_policy | rule outcome_mode);
      auto simp: safe_read_def edit_inside_def simp del: u_simps dest: scope_not_high)

lemma outcome_ask:
  "(\<And>x. r = Inr x \<Longrightarrow> outcome P (f x)) \<Longrightarrow> outcome P (ask r f)"
  by (cases r) (auto simp: outcome_def)

lemma outcome_option:
  "(v = None \<Longrightarrow> outcome P x) \<Longrightarrow> (\<And>m. v = Some m \<Longrightarrow> outcome P (f m)) \<Longrightarrow>
   outcome P (case v of None \<Rightarrow> x | Some m \<Rightarrow> f m)"
  by (cases v) auto

lemma outcome_authorize:
  fixes p bind input
  defines "s \<equiv> prepared_subject p" and "d \<equiv> prepared_descriptor p"
  shows "outcome (decided_for s d (case bind d input s of Some b \<Rightarrow> b | None \<Rightarrow> input) (prepared_attempt_id p))
    (authorize_prepared_with_mode cr rd bind name hash input ctx p ov)"
  unfolding authorize_prepared_with_mode_def Let_def s_def [symmetric] d_def [symmetric]
  by (intro outcome_if outcome_ask outcome_option;
      (rule outcome_deny | rule outcome_interact | rule outcome_policies | rule outcome_grant |
       rule outcome_policy | rule outcome_mode);
      simp del: u_simps)

lemma authorize_prepared_Inr:
  assumes "fst (authorize_prepared_with_mode cr rd bind name hash input ctx p ov) = Inr a"
  shows "carries p a"
    and "execution_input a = (case bind (prepared_descriptor p) input (prepared_subject p) of
           Some b \<Rightarrow> b | None \<Rightarrow> input)"
    and "decided a"
  using outcome_authorize assms by (fastforce simp: outcome_def decided_for_def carries_def)+

subsection \<open>Modes\<close>

lemma plan_mode_reads:
  assumes "fst (authorize_prepared_with_mode cr rd bind name hash input ctx p (Some PlanMode)) = Inr a"
  shows "effects (descriptor a) = [SafeInternal] \<or>
    effects (descriptor a) = [ReadResource] \<and> risk (descriptor a) \<noteq> High"
  using assms
  unfolding authorize_prepared_with_mode_def decide_policies_def Let_def
  by (auto simp: allow_Inr scratchpad_trusted_def private_tmp_trusted_def
      is_trusted_private_tmp_file_operation_def dest: trusted_not_high split: if_splits)

text \<open>The readings an interaction takes.\<close>

definition same_but_interactions :: "readings \<Rightarrow> readings \<Rightarrow> bool" where
  "same_but_interactions rd rd' =
     (rd_cwd rd = rd_cwd rd' \<and> rd_mode rd = rd_mode rd' \<and> rd_grant rd = rd_grant rd' \<and>
      rd_trust rd = rd_trust rd' \<and> rd_scratchpad rd = rd_scratchpad rd')"

lemma no_interaction:
  assumes "same_but_interactions rd rd'" "m \<in> {PlanMode, DontAsk, AutoApprove}"
  shows "authorize_prepared_with_mode cr rd bind name hash input ctx p (Some m) =
    authorize_prepared_with_mode cr rd' bind name hash input ctx p (Some m)"
proof -
  have same: "decide_policies cr rd m name hash i ctx s d attempt =
      decide_policies cr rd' m name hash i ctx s d attempt" if "m \<noteq> AutoApprove" for i s d attempt
    using assms that
    by (auto simp: decide_policies_def scratchpad_trusted_def private_tmp_trusted_def
        same_but_interactions_def Let_def)
  show ?thesis
    using assms same
    by (auto simp: authorize_prepared_with_mode_def Let_def same_but_interactions_def ask_def
        split: sum.splits option.splits)
qed

subsection \<open>What holds at the admission\<close>

definition justified :: "crates \<Rightarrow> admission_state \<Rightarrow> authorized_operation \<Rightarrow> tool_use_context \<Rightarrow> bool" where
  "justified cr st a ctx =
     (let s = auth_subject a; d = descriptor a in
      effects d = [SafeInternal] \<or> ad_mode st = AutoApprove \<or> safe_read d \<or>
      (risk d \<noteq> High \<and> (\<exists>m. find_match_at cr (ad_db st) (ad_now st) s d = Some m \<and>
         auth_grant_id a = Some (match_id m))) \<or>
      (auth_source a = UserOnce \<and>
       (\<exists>v. ad_answered st (interaction_id a) s d (tool_use_id_or ctx (tool_name d)) = Inr v)) \<or>
      (risk d \<noteq> High \<and> (scratchpad_now st s d \<or> private_tmp_now st s d \<or> project_write_now st s d)) \<or>
      (ad_mode st = AcceptEdits \<and> edit_inside d))"

lemma plain_u_inject: "u s = u t \<longleftrightarrow> s = t"
  by (rule u_inject)

lemma policy_justified:
  assumes "current_policy_allows st a"
  shows "justified cr st a ctx"
  using assms
  by (auto simp: current_policy_allows_def justified_def safe_read_def edit_inside_def
      scratchpad_now_def private_tmp_now_def project_write_now_def Let_def
      is_trusted_project_file_write_def split: if_splits)

lemma source_recheck_justified:
  assumes "source_recheck cr st a ctx = Inr ()" "decided a"
    and "reason_code a \<notin> {u ''AUTO_APPROVE'', u ''ACCEPT_EDITS''}"
  shows "justified cr st a ctx"
proof -
  have neq: "u ''BUILTIN_SAFE'' \<noteq> u ''x''" by simp
  from assms(2) consider
      "effects (descriptor a) = [SafeInternal]" | "by_grant a" | "by_answer a" | "safe_read (descriptor a)"
    | "by_policy ''SYSTEM_SCRATCHPAD_SCOPE'' a" "risk (descriptor a) \<noteq> High"
    | "by_policy ''PRIVATE_TMP_FILE_SCOPE'' a" "risk (descriptor a) \<noteq> High"
    | "by_policy ''PROJECT_FILE_SCOPE'' a" "risk (descriptor a) \<noteq> High"
    using assms(3) by (auto simp: decided_def by_mode_def Let_def)
  then show ?thesis
  proof cases
    case 2
    then show ?thesis
      using assms(1)
      by (auto simp: by_grant_def source_recheck_def justified_def Let_def split: option.splits if_splits)
  next
    case 3
    then show ?thesis
      using assms(1)
      by (auto simp: by_answer_def source_recheck_def justified_def Let_def split: sum.splits)
  next
    case 5
    then show ?thesis
      using assms(1)
      by (auto simp: by_policy_def source_recheck_def justified_def Let_def split: if_splits)
  next
    case 6
    then show ?thesis
      using assms(1)
      by (auto simp: by_policy_def source_recheck_def justified_def Let_def split: if_splits)
  next
    case 7
    then show ?thesis
      using assms(1)
      by (auto simp: by_policy_def source_recheck_def justified_def Let_def split: if_splits)
  qed (simp_all add: justified_def)
qed

lemma final_grant_recheck_Inr:
  "final_grant_recheck cr st a ctx = Inr () \<longleftrightarrow>
   (ad_mode st = PlanMode \<or> reason_code a \<in> {u ''AUTO_APPROVE'', u ''ACCEPT_EDITS''} \<longrightarrow>
      current_policy_allows st a) \<and>
   ad_run_failure st = None \<and> accepts_tools (ad_db st) (current_run_id (auth_subject a)) \<and>
   source_recheck cr st a ctx = Inr ()"
  by (auto simp: final_grant_recheck_def split: option.splits)

lemma final_grant_recheck_justified:
  assumes "final_grant_recheck cr st a ctx = Inr ()" "decided a"
  shows "justified cr st a ctx"
proof (cases "reason_code a \<in> {u ''AUTO_APPROVE'', u ''ACCEPT_EDITS''}")
  case True
  with assms(1) show ?thesis by (auto simp only: final_grant_recheck_Inr intro: policy_justified)
next
  case False
  with assms show ?thesis by (auto simp only: final_grant_recheck_Inr intro: source_recheck_justified)
qed

subsection \<open>What an admission commits\<close>

lemma as_denied_Inr [simp]: "as_denied r = Inr x \<longleftrightarrow> r = Inr x"
  by (cases r) (simp_all add: as_denied_def)

lemma fault_Inr [simp]: "fault e = Inr x \<longleftrightarrow> e = None"
  by (cases e) (simp_all add: fault_def)

lemma admit_inner_Inr:
  "admit_inner W R io st t a ctx action run = Inr (db, evs) \<longleftrightarrow>
   final_dynamic_recheck W R t a ctx = Inr () \<and> io_begin io = None \<and>
   final_grant_recheck (w_crates W) st a ctx = Inr () \<and> run_action action (ad_db st) = Inr db \<and>
   append_admission io a (admission_event a ctx run) = Inr evs \<and> io_commit io = None"
  by (auto simp: admit_inner_def and_then_Inr)

lemma admit_Inr:
  "adm_outcome (admit_with W R io st t a ctx action) = Inr () \<longleftrightarrow>
   (\<exists>run. ctx_run_id ctx = Some run \<and>
     admit_inner W R io st t a ctx action run =
       Inr (adm_db (admit_with W R io st t a ctx action), adm_events (admit_with W R io st t a ctx action)))"
  by (auto simp: admit_with_def split: option.splits sum.splits gateway_error.splits)

lemma admit_Inl:
  assumes "adm_outcome (admit_with W R io st t a ctx action) \<noteq> Inr ()"
  shows "adm_db (admit_with W R io st t a ctx action) = ad_db st"
  using assms by (auto simp: admit_with_def split: option.splits sum.splits gateway_error.splits)

lemma admitted:
  assumes "adm_outcome (admit_with W R io st t a ctx action) = Inr ()"
  shows "final_dynamic_recheck W R t a ctx = Inr ()"
    "final_grant_recheck (w_crates W) st a ctx = Inr ()"
    "accepts_tools (ad_db st) (current_run_id (auth_subject a))"
    "ad_mode st = PlanMode \<Longrightarrow> current_policy_allows st a"
    "io_append io = None \<Longrightarrow> \<exists>run. ctx_run_id ctx = Some run \<and>
       adm_events (admit_with W R io st t a ctx action) = [admission_event a ctx run]"
    "event_type (admission_event a ctx run) = u ''hook_admitted'' \<Longrightarrow> io_append io = None"
  using assms
  by (auto simp: admit_Inr admit_inner_Inr final_grant_recheck_Inr append_admission_def
      admission_event_def split: option.splits if_splits)

lemma plan_policy:
  assumes "current_policy_allows st a" "ad_mode st = PlanMode"
  shows "effects (descriptor a) = [SafeInternal] \<or>
    effects (descriptor a) = [ReadResource] \<and> risk (descriptor a) \<noteq> High"
  using assms by (auto simp: current_policy_allows_def Let_def split: if_splits)

lemma high_justified:
  assumes "justified cr st a ctx" "risk (descriptor a) = High"
  shows "effects (descriptor a) = [SafeInternal] \<or> ad_mode st = AutoApprove \<or>
    (auth_source a = UserOnce \<and>
      (\<exists>v. ad_answered st (interaction_id a) (auth_subject a) (descriptor a)
         (tool_use_id_or ctx (tool_name (descriptor a))) = Inr v))"
  using assms by (auto simp: justified_def safe_read_def edit_inside_def Let_def)

lemma admitted_grant:
  assumes "adm_outcome (admit_with W R io st t a ctx action) = Inr ()" "auth_grant_id a = Some gid"
  obtains m where "find_match_at (w_crates W) (ad_db st) (ad_now st) (auth_subject a) (descriptor a) = Some m"
    "match_id m = gid"
  using admitted(2) [OF assms(1)] assms(2)
  by (auto simp: final_grant_recheck_Inr source_recheck_def Let_def split: option.splits if_splits)

subsection \<open>Ancestry\<close>

text \<open>The chain of parents from a run.\<close>

fun ancestor :: "grant_db \<Rightarrow> nat \<Rightarrow> ustring \<Rightarrow> ustring option" where
  "ancestor db 0 run = Some run"
| "ancestor db (Suc n) run =
     (case runs db run of None \<Rightarrow> None | Some row \<Rightarrow>
        (case r_parent row of None \<Rightarrow> None | Some p \<Rightarrow> ancestor db n p))"

lemma ancestor_Suc_end:
  "ancestor db (Suc n) run = Some q \<Longrightarrow> ancestor db n run \<noteq> None"
  by (induction n arbitrary: run) (auto split: option.splits)

definition is_root_run :: "grant_db \<Rightarrow> ustring \<Rightarrow> ustring \<Rightarrow> ustring \<Rightarrow> bool" where
  "is_root_run db root session dir =
     (\<exists>row srow. runs db root = Some row \<and> r_parent row = None \<and> r_session row = session \<and>
       sessions db session = Some srow \<and> s_working_dir srow = Some dir)"

lemma ancestry_loop_sound:
  assumes "ancestry_loop db n seen run = Inr (root, session, dir)"
  shows "\<exists>k < n. ancestor db k run = Some root \<and> is_root_run db root session dir"
  using assms
proof (induction db n seen run rule: ancestry_loop.induct)
  case (2 db n seen cursor)
  obtain row where row: "runs db cursor = Some row" and ns: "cursor \<notin> set seen"
    using "2.prems" by (auto simp: ancestry_invalid_def split: if_splits option.splits)
  show ?case
  proof (cases "r_parent row")
    case None
    with "2.prems" row ns have "root = cursor \<and> is_root_run db root session dir"
      by (auto simp: ancestry_invalid_def is_root_run_def bind_eq_Some_conv split: option.splits)
    then show ?thesis by (intro exI [of _ 0]) auto
  next
    case (Some parent)
    with "2.prems" row ns have "ancestry_loop db n (cursor # seen) parent = Inr (root, session, dir)" by simp
    with "2.IH" [OF ns row Some] obtain k where "k < n" "ancestor db k parent = Some root"
      "is_root_run db root session dir" by blast
    then show ?thesis using row Some by (intro exI [of _ "Suc k"]) simp
  qed
qed (simp add: ancestry_invalid_def)

lemma ancestry_loop_complete:
  assumes "ancestor db k run = Some root" "is_root_run db root session dir" "k < n"
    and "\<And>i j. i < j \<Longrightarrow> j \<le> k \<Longrightarrow> ancestor db i run \<noteq> ancestor db j run"
    and "\<And>i. i \<le> k \<Longrightarrow> ancestor db i run \<notin> Some ` set seen"
  shows "ancestry_loop db n seen run = Inr (root, session, dir)"
  using assms
proof (induction k arbitrary: n seen run)
  case 0
  then obtain n' where n: "n = Suc n'" by (cases n) auto
  from 0 have "run = root" "root \<notin> set seen" using "0.prems"(5) [of 0] by auto
  with 0 n show ?case by (auto simp: is_root_run_def)
next
  case (Suc k)
  then obtain n' where n: "n = Suc n'" by (cases n) auto
  obtain row p where row: "runs db run = Some row" "r_parent row = Some p" "ancestor db k p = Some root"
    using Suc.prems(1) by (auto split: option.splits)
  have step: "ancestor db (Suc i) run = ancestor db i p" for i using row by simp
  have ns: "run \<notin> set seen" using Suc.prems(5) [of 0] by auto
  have "ancestry_loop db n' (run # seen) p = Inr (root, session, dir)"
  proof (rule Suc.IH [OF row(3) Suc.prems(2)])
    show "k < n'" using Suc.prems(3) n by simp
    show "ancestor db i p \<noteq> ancestor db j p" if "i < j" "j \<le> k" for i j
      using Suc.prems(4) [of "Suc i" "Suc j"] that step by simp
    show "ancestor db i p \<notin> Some ` set (run # seen)" if "i \<le> k" for i
      using Suc.prems(4) [of 0 "Suc i"] Suc.prems(5) [of "Suc i"] that step [of i] by auto
  qed
  then show ?case using n row ns by simp
qed

text \<open>A chain that ends in a run without a parent repeats no run.\<close>

lemma ancestor_add:
  "ancestor db (i + j) run = (case ancestor db i run of None \<Rightarrow> None | Some q \<Rightarrow> ancestor db j q)"
  by (induction i arbitrary: run) (auto split: option.splits)

lemma ancestor_period:
  assumes "ancestor db p q = Some q"
  shows "ancestor db (n * p) q = Some q"
  by (induction n) (simp_all add: ancestor_add assms)

lemma ancestor_distinct:
  assumes "ancestor db k run = Some root" "is_root_run db root session dir" "i < j" "j \<le> k"
  shows "ancestor db i run \<noteq> ancestor db j run"
proof
  assume eq: "ancestor db i run = ancestor db j run"
  have "ancestor db (i + (k - i)) run = Some root" using assms by simp
  then obtain q where q: "ancestor db i run = Some q" "ancestor db (k - i) q = Some root"
    by (auto simp only: ancestor_add split: option.splits)
  have "ancestor db (i + (j - i)) run = Some q" using eq q assms(3) by simp
  then have cycle: "ancestor db (j - i) q = Some q" using q by (simp only: ancestor_add option.case)
  have stop: "ancestor db (Suc n) root = None" for n using assms(2) by (auto simp: is_root_run_def)
  have "k - i < Suc (k - i) * (j - i)" using assms(3) by (cases "j - i") auto
  then obtain n where n: "Suc (k - i) * (j - i) = (k - i) + Suc n" using less_imp_Suc_add by fastforce
  have "ancestor db ((k - i) + Suc n) q = None" using q(2) stop by (simp only: ancestor_add option.case)
  moreover have "ancestor db ((k - i) + Suc n) q = Some q"
    using ancestor_period [OF cycle, of "Suc (k - i)"] unfolding n .
  ultimately show False by simp
qed

end
