(* ===== verification/Authz_Analyses_Props.thy ===== *)
theory Authz_Analyses_Props
  imports Authz_Analyses Authz_PathSecurity_Props "HOL-Library.Multiset"
begin

section \<open>Properties of the analyzers\<close>

text \<open>
  Canonical JSON does not depend on the order of members; in an unchanged world the recheck accepts
  what the analysis produced, with the exception of Bash commands whose resources are not listed in
  canonical order; the path bound into the input is the analysed target.
\<close>

subsection \<open>Canonical order\<close>

lemma sort_key_idem: "sort_key f (sort_key f xs) = sort_key f xs"
  by (rule sort_key_id_if_sorted) simp

lemma dedup_loop_distinct:
  "distinct (out @ xs) \<Longrightarrow> fold (\<lambda>x out. if x \<in> set out then out else out @ [x]) xs out = out @ xs"
  by (induction xs arbitrary: out) auto

lemma dedup_distinct: "distinct xs \<Longrightarrow> dedup xs = xs"
  using dedup_loop_distinct [of "[]" xs] by (simp add: dedup_def)

lemma canonical_effects_idem [simp]: "canonical_effects (canonical_effects xs) = canonical_effects xs"
  by (simp add: canonical_effects_def dedup_distinct sort_key_idem)

lemma canonical_strings_idem [simp]: "canonical_strings (canonical_strings xs) = canonical_strings xs"
  by (simp add: canonical_strings_def dedup_distinct sort_key_idem)

lemma canonical_resources_small [simp]:
  "canonical_resources [] = []" "canonical_resources [r] = [r]"
  by (simp_all add: canonical_resources_def dedup_def)

subsection \<open>Canonical JSON\<close>

text \<open>Two values that differ only in the order of the members of their objects.\<close>

inductive same_json :: "json \<Rightarrow> json \<Rightarrow> bool" where
  leaf: "same_json v v"
| arr: "list_all2 same_json xs ys \<Longrightarrow> same_json (JArr xs) (JArr ys)"
| obj: "\<lbrakk>list_all2 (\<lambda>a b. fst a = fst b \<and> same_json (snd a) (snd b)) ms ns; mset ns = mset ns';
         distinct (map (\<lambda>m. str_key (fst m)) ns)\<rbrakk> \<Longrightarrow> same_json (JObj ms) (JObj ns')"

lemma sort_key_mset:
  assumes "mset xs = mset ys" "distinct (map f xs)"
  shows "sort_key f xs = sort_key f ys"
  using assms by (intro sort_key_inj_key_eq) (simp_all add: distinct_map)

lemma sort_json_same: "same_json v w \<Longrightarrow> sort_json v = sort_json w"
proof (induction rule: same_json.induct)
  case (arr xs ys)
  then show ?case by (auto simp: list_all2_conv_all_nth intro: nth_equalityI)
next
  case (obj ms ns ns')
  let ?g = "\<lambda>(k, v). (k :: ustring, sort_json v)"
  have "map ?g ms = map ?g ns"
    using obj(1) by (induction rule: list_all2_induct) (auto split: prod.splits)
  moreover have "sort_key (\<lambda>f. str_key (fst f)) (map ?g ns) = sort_key (\<lambda>f. str_key (fst f)) (map ?g ns')"
  proof (rule sort_key_mset)
    show "mset (map ?g ns) = mset (map ?g ns')" using obj(2) by simp
    have "map (\<lambda>f. str_key (fst f)) (map ?g ns) = map (\<lambda>m. str_key (fst m)) ns"
      by (simp add: split_def)
    then show "distinct (map (\<lambda>f. str_key (fst f)) (map ?g ns))" using obj(3) by metis
  qed
  ultimately show ?case by simp
qed simp

subsection \<open>The recheck in an unchanged world\<close>

lemma descriptor_of_simps [simp]:
  "risk (descriptor_of cr an name h act effs rs env ends rsk summary inp) = rsk"
  "input_hash (descriptor_of cr an name h act effs rs env ends rsk summary inp) = h"
  "tool_name (descriptor_of cr an name h act effs rs env ends rsk summary inp) = name"
  "op_action (descriptor_of cr an name h act effs rs env ends rsk summary inp) = act"
  "analyzer_id (descriptor_of cr an name h act effs rs env ends rsk summary inp) = an"
  "redacted_summary (descriptor_of cr an name h act effs rs env ends rsk summary inp) = summary"
  "resources (descriptor_of cr an name h act effs rs env ends rsk summary inp) = canonical_resources rs"
  "effects (descriptor_of cr an name h act effs rs env ends rsk summary inp) = canonical_effects effs"
  "inherited_environment_names (descriptor_of cr an name h act effs rs env ends rsk summary inp) =
     canonical_strings env"
  "endpoints (descriptor_of cr an name h act effs rs env ends rsk summary inp) = canonical_strings ends"
  by (simp_all add: descriptor_of_def Let_def)

lemma operation_hash_effects:
  "operation_hash (descriptor_of cr an name h act (canonical_effects effs) rs env ends rsk summary inp) =
   operation_hash (descriptor_of cr an name h act effs rs env ends rsk summary inp)"
  by (simp add: descriptor_of_def Let_def)

lemma operation_hash_summary:
  "operation_hash (descriptor_of cr an name h act effs rs env ends rsk summary inp) =
   operation_hash (descriptor_of cr an name h' act effs rs env ends rsk summary' inp)"
  by (simp add: descriptor_of_def Let_def)

lemma recheck_bash_same:
  assumes "bash_facts_of W R t input ctx s = Inr f" "analyze_bash W R t hash input ctx s = Inr d"
  shows "recheck_bash W R t d input ctx s =
    (if canonical_resources (bf_resources f) = bf_resources f \<and> canonical_strings (bf_inherited f) = bf_inherited f
     then Inr () else Inl (final_recheck_denied ''Shell security facts changed before execution''))"
proof -
  have d: "d = descriptor_of (w_crates W) (kind_id BashKind) (tf_name t) hash (u ''execute'') (bf_effects f)
      (bf_resources f) (bf_inherited f) [] (bf_risk f)
      (sensitive_filter R (redact_command W (bf_command f))) (bf_authorization_input f)"
    using assms by (simp add: analyze_bash_def map_ok_def)
  have same: "operation_hash (descriptor_of (w_crates W) (kind_id BashKind) (tf_name t) (input_hash d)
      (u ''execute'') (effects d) (bf_resources f) (bf_inherited f) [] (bf_risk f) (redacted_summary d)
      (bf_authorization_input f)) = operation_hash d"
    unfolding d descriptor_of_simps operation_hash_effects by (rule operation_hash_summary)
  show ?thesis
    using same unfolding recheck_bash_def assms(1) and_then_simps Let_def
    by (auto simp: d)
qed

lemma recheck_file_same:
  assumes "analyze_file W R t hash input ctx s = Inr d"
  shows "recheck_file W R t d input ctx s = Inr ()"
  using assms
  by (auto simp: analyze_file_def recheck_file_def Let_def map_ok_Inr risk_increased_def)

lemma analyze_hook_hash:
  assumes "analyze_hook W R t hash s = Inr d"
  shows "analyze_hook W R t (input_hash d) s = Inr d"
proof -
  have "input_hash d = hash"
    using assms
    by (auto simp: analyze_hook_def map_ok_Inr err_def Let_def split: option.splits if_splits)
  with assms show ?thesis by simp
qed

lemma recheck_same:
  assumes "analyze W R k t frozen input ctx s = Inr d" "k \<noteq> BashKind"
  shows "recheck W R k t d input ctx s = Inr ()"
proof (cases k)
  case HookKind
  with assms show ?thesis by (auto simp: analyze_def recheck_def dest: analyze_hook_hash)
next
  case FileKind
  with assms show ?thesis by (auto simp: analyze_def recheck_def intro: recheck_file_same)
next
  case ArtifactKind
  with assms obtain p where p: "publication_snapshot_of W R input ctx = Inr p"
    "d = publication_descriptor W t (fi_input_hash frozen) p"
    by (auto simp: analyze_def map_ok_Inr)
  then have "input_hash d = fi_input_hash frozen" "risk d = High" by (simp_all add: publication_descriptor_def)
  with p ArtifactKind show ?thesis by (simp add: recheck_def)
qed (use assms in \<open>auto simp: recheck_def\<close>)

subsection \<open>The analysed target\<close>

definition root_path :: "authorization_subject \<Rightarrow> path" where
  "root_path s = path_components (authorization_root s)"

text \<open>The root the identity service gives is the text of a canonical path.\<close>

definition rooted :: "authorization_subject \<Rightarrow> bool" where
  "rooted s = (authorization_root s = path_text (root_path s) \<and> list_all entry (root_path s))"

definition no_backslash :: "path \<Rightarrow> bool" where
  "no_backslash p = list_all (\<lambda>c. backslash \<notin> set c) p"

text \<open>The text of a relative path as a resource has it: with slashes for backslashes.\<close>

definition slashed :: "path \<Rightarrow> ustring" where
  "slashed p = map (\<lambda>c. if c = backslash then slash else c) (join_slash p)"

text \<open>What follows the root in a path inside of it.\<close>

definition below_root :: "authorization_subject \<Rightarrow> path \<Rightarrow> path" where
  "below_root s p = drop (length (root_path s)) p"

text \<open>A target whose resource keeps its name: outside of the workspace, or without a backslash below it.\<close>

definition keeps_name :: "authorization_subject \<Rightarrow> path \<Rightarrow> bool" where
  "keeps_name s p = (path_starts_with p (root_path s) \<longrightarrow> no_backslash (below_root s p))"

lemma no_backslash_append [simp]: "no_backslash (p @ q) \<longleftrightarrow> no_backslash p \<and> no_backslash q"
  by (simp add: no_backslash_def)

lemma join_slash_keep: "no_backslash p \<Longrightarrow> slashed p = join_slash p"
  unfolding slashed_def
  by (induction p rule: join_slash.induct)
    (auto simp: no_backslash_def intro!: map_idI [THEN trans])

lemma join_slash_relative: "list_all entry q \<Longrightarrow> q \<noteq> [] \<Longrightarrow> \<not> is_absolute (join_slash q)"
proof -
  assume q: "list_all entry q" "q \<noteq> []"
  then obtain c cs where c: "q = c # cs" "c \<noteq> []" "slash \<notin> set c" by (cases q) (auto simp: entry_def)
  then obtain x xs where "c = x # xs" "x \<noteq> slash" by (cases c) auto
  with c show "\<not> is_absolute (join_slash q)"
    by (cases cs) (auto simp: is_absolute_def)
qed

lemma path_text_append: "p \<noteq> [] \<Longrightarrow> q \<noteq> [] \<Longrightarrow> path_text p @ [slash] @ join_slash q = path_text (p @ q)"
  by (simp add: path_text_def join_slash_append)

lemma path_join_text:
  assumes "list_all entry root" "list_all entry q" "q \<noteq> []"
  shows "path_join (path_text root) (join_slash q) = path_text (root @ q)"
proof (cases "root = []")
  case True
  then show ?thesis
    using join_slash_relative [OF assms(2,3)] by (simp add: path_join_def path_text_def ends_with_def)
next
  case False
  then show ?thesis
    using join_slash_relative [OF assms(2,3)] path_text_ends_slash [OF assms(1)] path_text_append [of root q]
      assms(3)
    by (auto simp: path_join_def path_text_def)
qed

lemma path_components_dot: "list_all entry root \<Longrightarrow> path_components (path_join (path_text root) (u ''.'')) = root"
proof -
  assume r: "list_all entry root"
  have "path_components (path_join (path_text root) (u ''.'')) =
      filter (\<lambda>c. c \<noteq> [] \<and> c \<noteq> u ''.'') (str_split slash (path_text root) @ str_split slash (u ''.''))"
  proof (cases "root = []")
    case True
    then show ?thesis
      by (simp add: path_components_def path_join_def path_text_def is_absolute_def ends_with_def)
  next
    case False
    then have "\<not> ends_with (path_text root) [slash]" using path_text_ends_slash r by blast
    then show ?thesis
      using str_split_app [of slash "path_text root" "u ''.''"]
      by (simp add: path_components_def path_join_def is_absolute_def path_text_def)
  qed
  also have "\<dots> = path_components (path_text root)" by (simp add: path_components_def)
  also have "\<dots> = root" using path_components_text [OF r] .
  finally show ?thesis .
qed

lemma bound_path_canonical:
  assumes "rooted s" "list_all entry target" "keeps_name s target"
  shows "bound_path cwd s (canonical_resource target s) = path_text target"
proof (cases "path_starts_with target (root_path s)")
  case False
  then show ?thesis
    using assms(2)
    by (simp add: bound_path_def canonical_resource_def relative_resource_def Let_def normalize_entries
        root_path_def absolute_normalized_text) (simp add: path_text_def)
next
  case True
  then obtain q where q: "target = root_path s @ q" by (auto simp: path_starts_with_iff)
  have root: "authorization_root s = path_text (root_path s)" "list_all entry (root_path s)"
    using assms(1) by (simp_all add: rooted_def)
  have e: "list_all entry q" "no_backslash q" using assms(2,3) q True by (auto simp: keeps_name_def below_root_def)
  have r: "canonical_resource target s = \<lparr>res_kind = u ''path'',
      res_value = (if q = [] then u ''.'' else join_slash q), outside_workspace = False\<rparr>"
    using True e assms(2) q join_slash_neq [OF e(1)]
    by (simp add: canonical_resource_def relative_resource_def Let_def normalize_entries root_path_def
        join_slash_keep [unfolded slashed_def])
  show ?thesis
  proof (cases "q = []")
    case True
    have abs: "is_absolute (path_join (path_text (root_path s)) (u ''.''))"
      by (simp add: path_join_def is_absolute_def path_text_def)
    show ?thesis
      unfolding bound_path_def r
      using abs path_components_dot [OF root(2)] True q
      by (simp del: u_simps add: root(1) absolute_normalized_def normalize_entries root(2))
  next
    case False
    have "list_all entry (root_path s @ q)" using root(2) e by simp
    then show ?thesis
      unfolding bound_path_def r
      using False path_join_text [OF root(2) e(1) False] absolute_normalized_text q
      by (simp add: root(1))
  qed
qed

text \<open>
  Two canonical paths with the same resource are the same path, or both lie in the workspace and their
  names below the root differ only in backslashes for slashes.
\<close>

definition aliased :: "authorization_subject \<Rightarrow> path \<Rightarrow> path \<Rightarrow> bool" where
  "aliased s p q =
     (path_starts_with p (root_path s) \<and> path_starts_with q (root_path s) \<and>
      slashed (below_root s p) = slashed (below_root s q))"

lemma list_all_drop: "list_all P xs \<Longrightarrow> list_all P (drop n xs)"
  by (auto simp: list_all_iff dest: in_set_dropD)

lemma slashed_eq_dot: "list_all entry p \<Longrightarrow> slashed p \<noteq> u ''.''"
proof
  assume p: "list_all entry p" "slashed p = u ''.''"
  from p(2) obtain c where c: "join_slash p = [c]" "(if c = backslash then slash else c) = uc CHR ''.''"
    by (auto simp: slashed_def)
  then have "join_slash p = u ''.''" by (auto split: if_splits)
  moreover from this obtain a cs where "p = a # cs" by (cases p) auto
  ultimately show False using p(1) by (cases cs) (auto simp: entry_def append_eq_Cons_conv)
qed

lemma slashed_eq_Nil: "list_all entry p \<Longrightarrow> slashed p = [] \<longleftrightarrow> p = []"
  using join_slash_neq [of p] by (auto simp: slashed_def)

lemma canonical_resource_value:
  "list_all entry p \<Longrightarrow> canonical_resource p s = \<lparr>res_kind = u ''path'',
     res_value = (if path_starts_with p (root_path s)
       then (if below_root s p = [] then u ''.'' else slashed (below_root s p)) else path_text p),
     outside_workspace = \<not> path_starts_with p (root_path s)\<rparr>"
  using slashed_eq_Nil [of "below_root s p"] list_all_drop [of entry p]
  by (auto simp: canonical_resource_def relative_resource_def Let_def normalize_entries root_path_def
      slashed_def below_root_def path_text_def)

lemma canonical_resource_eq:
  assumes "list_all entry p" "list_all entry q" "canonical_resource p s = canonical_resource q s"
  shows "p = q \<or> aliased s p q"
proof (cases "path_starts_with p (root_path s)")
  case True
  have entries: "list_all entry (below_root s p)" "list_all entry (below_root s q)"
    using assms(1,2) by (simp_all add: below_root_def list_all_drop)
  from True assms(3) have in_q: "path_starts_with q (root_path s)"
    and same: "(if below_root s p = [] then u ''.'' else slashed (below_root s p)) =
      (if below_root s q = [] then u ''.'' else slashed (below_root s q))"
    unfolding canonical_resource_value [OF assms(1)] canonical_resource_value [OF assms(2)] by simp_all
  from same have "slashed (below_root s p) = slashed (below_root s q)"
    using slashed_eq_dot [OF entries(1)] slashed_eq_dot [OF entries(2)] by (metis (full_types))
  with True in_q show ?thesis by (simp add: aliased_def)
next
  case False
  with assms(3) show ?thesis
    unfolding canonical_resource_value [OF assms(1)] canonical_resource_value [OF assms(2)]
    using path_text_inj [OF assms(1,2)] by (simp split: if_splits)
qed

lemma aliased_keeps:
  assumes "aliased s p q" "list_all entry p" "list_all entry q" "keeps_name s p" "keeps_name s q"
  shows "p = q"
proof -
  have "join_slash (below_root s p) = join_slash (below_root s q)"
    using assms(1,4,5) by (auto simp: aliased_def keeps_name_def join_slash_keep)
  then have "below_root s p = below_root s q"
    using join_slash_inj assms(2,3) by (simp add: below_root_def list_all_drop)
  with assms(1) show ?thesis by (auto simp: aliased_def below_root_def path_starts_with_iff)
qed

subsection \<open>The target at the recheck\<close>

text \<open>A canonical path is a sequence of entries: no empty name, no dots and no separator.\<close>

definition wf_fs :: "fs \<Rightarrow> bool" where
  "wf_fs F = (\<forall>p q. fs_canonicalize F p = Some q \<longrightarrow> list_all entry q)"

lemma existing_ancestor_split:
  "existing_ancestor F rp missing = Some (e, m) \<Longrightarrow> e @ m = rev rp @ missing"
  by (induction F rp missing rule: existing_ancestor.induct) (auto split: if_splits)

lemma resolve_ancestor_clean:
  assumes "wf_fs F" "list_all entry p"
  shows "list_all entry (resolve_through_existing_ancestor_or F p p)"
proof (cases "existing_ancestor F (rev p) []")
  case None
  with assms show ?thesis by (simp add: resolve_through_existing_ancestor_or_def)
next
  case (Some em)
  then obtain e m where em: "existing_ancestor F (rev p) [] = Some (e, m)" by (cases em) auto
  have split: "e @ m = p" using existing_ancestor_split [OF em] by simp
  then have m: "list_all entry m" using assms(2) by auto
  show ?thesis
  proof (cases "fs_canonicalize F e")
    case None
    with em assms show ?thesis by (simp add: resolve_through_existing_ancestor_or_def)
  next
    case (Some r)
    then have "list_all entry (r @ m)" using m assms(1) by (auto simp: wf_fs_def)
    with em Some show ?thesis by (simp add: resolve_through_existing_ancestor_or_def normalize_entries)
  qed
qed

lemma absolute_normalized_path_text:
  "list_all entry p \<Longrightarrow> absolute_normalized_path F (path_text p) wd = p"
  using absolute_normalized_text [of p "fs_cwd F"]
  by (simp add: absolute_normalized_path_def is_absolute_def path_text_def)

lemma resolve_path_clean:
  assumes "wf_fs F" "list_all entry target"
  shows "list_all entry (resolve_path_unchecked F (path_text target) wd)"
  using assms resolve_ancestor_clean [OF assms]
  by (auto simp: resolve_path_unchecked_def absolute_normalized_path_text wf_fs_def split: option.splits)

text \<open>An absolute path resolves alike from every directory.\<close>

lemma resolve_path_base:
  "list_all entry p \<Longrightarrow> resolve_path_unchecked F (path_text p) wd = resolve_path_unchecked F (path_text p) wd'"
  by (simp add: resolve_path_unchecked_def absolute_normalized_path_text)

lemma recheck_file_target:
  fixes base :: ustring
  assumes ok: "recheck_file W R t d input ctx s = Inr ()"
    and raw: "raw_path_of W t input ctx = Some (path_text target)"
    and d: "resources d = [canonical_resource target s]"
    and wf: "wf_fs (w_fs W)" "list_all entry target"
  defines "q \<equiv> resolve_path_unchecked (w_fs W) (path_text target) base"
  shows "q = target \<or> aliased s q target"
proof -
  have nb: "rust_trim (path_text target) \<noteq> []"
  proof
    assume "rust_trim (path_text target) = []"
    then obtain a b where "path_text target = a @ [] @ b" "list_all is_rust_whitespace a" "list_all is_rust_whitespace b"
      using trim_matches_split [of "path_text target" is_rust_whitespace] by (auto simp: rust_trim_def)
    then have "list_all is_rust_whitespace (path_text target)" by simp
    then show False by (simp add: path_text_def is_rust_whitespace_def)
  qed
  obtain f where f: "file_path_facts W R t (tf_name t \<in> set FILE_WRITE) input ctx s = Inr (Some f)"
    and r: "resources d = canonical_resources (analysed_resources t (Some f))"
    using ok raw nb
    by (auto simp: recheck_file_def Let_def and_then_Inr file_path_facts_def map_ok_Inr split: if_splits)
  have fr: "pf_resource f = canonical_resource target s"
    using r d by (simp add: analysed_resources_def file_resources_def Let_def)
  obtain wd where "pf_resource f = canonical_resource (resolve_path_unchecked (w_fs W) (path_text target) wd) s"
    using f raw nb
    by (auto simp: file_path_facts_def map_ok_Inr inspect_def and_then_Inr Let_def err_def resolve_path_def
        split: if_splits sum.splits)
  moreover have "resolve_path_unchecked (w_fs W) (path_text target) wd = q"
    unfolding q_def by (rule resolve_path_base [OF wf(2)])
  ultimately have "pf_resource f = canonical_resource q s" by simp
  with fr have "canonical_resource q s = canonical_resource target s" by simp
  then show ?thesis
    by (rule canonical_resource_eq [OF resolve_path_clean [OF wf, of base, folded q_def] wf(2)])
qed

end
