(* ===== verification/Authz_Claims.thy ===== *)
theory Authz_Claims
  imports Authz_Gateway_Props Authz_Analyses_Props Iso_Time_Props
begin

section \<open>The properties of authorization\<close>

text \<open>
  The properties of the authorization crate, each over the definitions of the component theories and
  with an application at a concrete input. The samples below are those inputs.
\<close>

subsection \<open>Samples\<close>

definition sample_fs :: fs where
  "sample_fs = \<lparr>fs_exists = (\<lambda>_. True), fs_is_symlink = (\<lambda>_. False),
     fs_canonicalize = (\<lambda>p. if list_all entry p then Some p else None),
     fs_cwd = u ''/'', fs_home = u ''/home/dev''\<rparr>"

definition sample_pads :: scratchpad_policy where
  "sample_pads = \<lparr>configured_root = [u ''pad''], canonical_root = [u ''pad'']\<rparr>"

definition sample_crates :: crates where
  "sample_crates = \<lparr>to_text = (\<lambda>_. u ''{}''), from_text = (\<lambda>_. Some (constraint_json ToolWide)),
     sha256_hex = (\<lambda>t. t)\<rparr>"

definition sample_subject :: authorization_subject where
  "sample_subject = \<lparr>root_session_id = u ''s1'', root_run_id = u ''r1'', current_run_id = u ''r1'',
     workspace_key = u ''w'', authorization_root = u ''/work''\<rparr>"

definition sample_fetch :: operation_descriptor where
  "sample_fetch = \<lparr>authorization_schema_version = 1, tool_name = u ''WebFetch'', op_action = u ''network'',
     input_hash = u ''i'', analyzer_id = u ''network-v1'', effects = [Network], resources = [],
     inherited_environment_names = [], endpoints = [], risk = Guarded, operation_hash = u ''h'',
     redacted_summary = []\<rparr>"

definition sample_read :: operation_descriptor where
  "sample_read = sample_fetch\<lparr>tool_name := u ''Read'', op_action := u ''READ_FILE'', analyzer_id := u ''file-v1'',
     effects := [ReadResource], risk := SafeRisk,
     resources := [\<lparr>res_kind = u ''path'', res_value = u ''src/a'', outside_workspace = False\<rparr>]\<rparr>"

definition sample_db :: grant_db where
  "sample_db = \<lparr>grant_rows = [],
     sessions = Map.empty(u ''s1'' \<mapsto> \<lparr>s_retention = u ''persistent'', s_working_dir = Some (u ''/work'')\<rparr>),
     runs = Map.empty(u ''r1'' \<mapsto> \<lparr>r_session = u ''s1'', r_status = u ''running'', r_parent = None\<rparr>,
       u ''r2'' \<mapsto> \<lparr>r_session = u ''x'', r_status = u ''running'', r_parent = Some (u ''r1'')\<rparr>),
     interactions = Map.empty\<rparr>"

subsection \<open>Time\<close>

text \<open>C31. A time stamp between 1970 and 9999 survives formatting and parsing, and the texts compare as
  the times do: the text comparison of an expiry column in SQL is the comparison of the times.\<close>

theorem timestamps_roundtrip:
  assumes "0 \<le> a" "a < b" "b \<le> max_millis"
  shows "parse_rfc3339_millis (format_rfc3339_micros a) = Some a \<and>
    text_less (format_rfc3339_micros a) (format_rfc3339_micros b)"
  using parse_format [of a] text_less_format [OF assms] assms by simp

theorem timestamps_roundtrip_witness:
  "parse_rfc3339_millis (format_rfc3339_micros 0) = Some 0 \<and>
    text_less (format_rfc3339_micros 0) (format_rfc3339_micros 43200000)"
  by (rule timestamps_roundtrip) (simp_all add: max_millis_def)

subsection \<open>Constraints\<close>

text \<open>C32. A workspace constraint that passed its constructor confines what it matches: every resource
  lies inside the workspace, below one of the constraint's prefixes segment by segment, and no
  prefix leaves the workspace.\<close>

theorem workspace_constraint_confines:
  assumes "wf_constraint c" "c = WorkspaceRead ps ops \<or> c = WorkspaceEdit ps ops" "matches c d"
    and "r \<in> set (resources d)"
  shows "\<not> outside_workspace r \<and> (\<exists>p \<in> set ps. relative_path p \<and>
    (p = u ''.'' \<or> (\<exists>rest. str_split slash (res_value r) = str_split slash p @ rest)))"
proof -
  have "matches_file ps ops d" "normalized ps = Inr ps"
    using assms(1-3) by (auto simp: matches_def wf_constraint_def)
  with assms(4) show ?thesis
    using normalized_ok(5) [of ps ps]
    by (auto simp: matches_file_iff segment_contains_segments list_all_iff)
qed

lemma sample_read_constraint: "wf_constraint (WorkspaceRead [u ''src''] [ReadFile])"
  by (simp add: wf_constraint_def normalized_def normalize_relative_path_def rust_trim_def trim_matches_def
      is_rust_whitespace_def read_operation_def bad_segment_def ends_with_def contains_sub_def)

lemma sample_read_matches: "matches (WorkspaceRead [u ''src''] [ReadFile]) sample_read"
  by (simp add: matches_def matches_file_iff sample_read_def sample_fetch_def file_op_as_str_def
      segment_contains_def)

theorem workspace_constraint_confines_witness:
  "\<not> outside_workspace (hd (resources sample_read)) \<and> (\<exists>p \<in> set [u ''src'']. relative_path p \<and>
    (p = u ''.'' \<or> (\<exists>rest. str_split slash (res_value (hd (resources sample_read))) = str_split slash p @ rest)))"
  by (rule workspace_constraint_confines [OF sample_read_constraint disjI1 [OF refl] sample_read_matches])
    (simp add: sample_read_def sample_fetch_def)

text \<open>C33. A constraint survives the table: what a grant of the fitting kind reads back is the
  constraint that was stored, when the JSON printer and parser agree on it.\<close>

theorem constraint_roundtrip:
  assumes "kind_fits k c" "wf_constraint c" "reads_back cr (constraint_json c)"
  shows "decode_constraint cr k (encode_constraint cr c) = Some c"
  using assms by (rule decode_encode)

theorem constraint_roundtrip_witness:
  "decode_constraint (sample_crates\<lparr>from_text := (\<lambda>_. Some (constraint_json (WorkspaceRead [u ''src''] [ReadFile])))\<rparr>)
     ReadCapability (encode_constraint
       (sample_crates\<lparr>from_text := (\<lambda>_. Some (constraint_json (WorkspaceRead [u ''src''] [ReadFile])))\<rparr>)
       (WorkspaceRead [u ''src''] [ReadFile])) = Some (WorkspaceRead [u ''src''] [ReadFile])"
  by (rule constraint_roundtrip [OF _ sample_read_constraint]) (simp_all add: kind_fits_def reads_back_def)

subsection \<open>The grant table\<close>

text \<open>C16. The lookup of a grant refines its specification: it returns a live row bound to the subject
  whose constraint matches, of the narrowest scope there is, and nothing only when no row admits.\<close>

theorem grant_lookup_refines:
  "lookup_spec cr db now sub d (find_match_at cr db now sub d)"
  by (rule find_match_spec)

text \<open>C34. The creation of a grant that can be planned succeeds and the table has a row of the returned
  identifier; if that is the fresh identifier, so that the row was inserted and not reused, the next lookup
  for the same subject and operation finds a grant. The conditions are: a well-formed table, a persistent
  session whose runs and interaction exist, a root run that is not terminal, a fresh identifier, the current
  schema version, a constraint that the parser reads back, and a time in the range of the calendar; for the
  two file capabilities, whose constraint looks at the resources, that all resources are paths.\<close>

theorem created_grant_found:
  assumes "wf_db db" "context_ok db sub i" "plan d req = Some p" "authorization_schema_version d = 1"
    and "uuid \<notin> g_id ` set (grant_rows db)" "exact_kind (plan_kind p) \<or> (\<forall>r \<in> set (resources d). res_kind r = u ''path'')"
    and "reads_back cr (constraint_json (plan_constraint p))" "\<not> root_run_is_terminal db (root_run_id sub)"
    and "0 \<le> millis" "millis + 30 * 86400000 \<le> max_millis"
  shows "\<exists>gid db'. create cr db uuid millis sub d req i = (Inr (Some gid), db') \<and>
    gid \<in> g_id ` set (grant_rows db') \<and>
    (gid = uuid \<longrightarrow> find_match_at cr db' (format_rfc3339_micros millis) sub d \<noteq> None)"
proof -
  obtain db' gid where c: "create_in_tx cr db uuid (format_rfc3339_micros millis) millis sub d req i = Inr (db', Some gid)"
    and gid: "gid \<in> g_id ` set (grant_rows db')"
    and row: "gid = uuid \<Longrightarrow> \<exists>e. expiry (plan_scope p) millis = Inr e \<and>
       planned_row cr uuid (format_rfc3339_micros millis) e sub d p i \<in> set (grant_rows db')"
    and runs: "runs db' = runs db"
    by (rule create_total [OF assms(1-5), of cr "format_rfc3339_micros millis" millis]) blast
  have live: "text_less (format_rfc3339_micros millis) e" if "expiry (plan_scope p) millis = Inr e" for e
    using that assms(9,10) text_less_format [of millis]
    by (auto simp: expiry_def split: permission_scope.splits)
  have "root_run_is_terminal db' = root_run_is_terminal db"
    using runs by (simp add: root_run_is_terminal_def fun_eq_iff)
  then have "gid = uuid \<longrightarrow> find_match_at cr db' (format_rfc3339_micros millis) sub d \<noteq> None"
    using planned_row_matches [OF assms(3,6,7)] live row assms(8) by metis
  with c gid show ?thesis by (auto simp: create_def)
qed

lemma sample_plan: "plan sample_fetch (Some SessionScope) = Some \<lparr>plan_kind = ToolGuarded,
    plan_scope = SessionScope, plan_delegation = RootAndDescendants, plan_constraint = ToolWide\<rparr>"
  by (simp add: plan_def sample_fetch_def REMOTE_CAPABILITY_ANALYZERS_def run_direct_def)

lemma sample_context_ok: "context_ok sample_db sample_subject None"
  by (simp add: context_ok_def sample_db_def sample_subject_def is_ephemeral_def)

lemma sample_wf: "wf_db sample_db"
  by (simp add: wf_db_def sample_db_def)

theorem created_grant_found_witness:
  "\<exists>gid db'. create sample_crates sample_db (u ''g1'') 0 sample_subject sample_fetch (Some SessionScope) None =
      (Inr (Some gid), db') \<and> gid \<in> g_id ` set (grant_rows db') \<and>
    (gid = u ''g1'' \<longrightarrow>
     find_match_at sample_crates db' (format_rfc3339_micros 0) sample_subject sample_fetch \<noteq> None)"
  by (rule created_grant_found [OF sample_wf sample_context_ok sample_plan])
    (simp_all add: sample_fetch_def sample_db_def reads_back_def sample_crates_def root_run_is_terminal_def
      sample_subject_def max_millis_def exact_kind_def)

subsection \<open>Authorization and admission\<close>

text \<open>C6. Revocation is final: once a grant is revoked, by its identifier, for its session or with its
  run, no authorization that rests on it is admitted any more. Between the revocation and the admission any
  number of other grants may be created, any grant revoked at any time, and the other tables and the rows
  may change in every way that keeps a revoked row revoked.\<close>

theorem revoked_grant_not_admitted:
  assumes "names_grant resolve k db gid" "auth_grant_id a = Some gid"
    and "(grant_step resolve gid)\<^sup>*\<^sup>* (revoke_any resolve at k db) (ad_db st)"
  shows "adm_outcome (admit_with W R io st t a ctx action) \<noteq> Inr ()"
proof
  assume "adm_outcome (admit_with W R io st t a ctx action) = Inr ()"
  from admitted_grant [OF this assms(2)] obtain m where
    "find_match_at (w_crates W) (ad_db st) (ad_now st) (auth_subject a) (descriptor a) = Some m" "match_id m = gid" .
  then show False using repository.never_found [OF assms(1,3)] by metis
qed

definition sample_world :: world where
  "sample_world = \<lparr>w_fs = sample_fs, w_crates = sample_crates, replace_all = (\<lambda>_ _ t. t)\<rparr>"

definition sample_registry :: registry where
  "sample_registry = \<lparr>bash_security = Some \<lparr>port_parse_for_security = (\<lambda>_ _ _. ParsedOutcome),
       port_inherited_references = (\<lambda>_. [])\<rparr>,
     sensitive_filter = (\<lambda>t. t), reg_scratchpads = sample_pads, resolve_working_directory = (\<lambda>_ d. d),
     environment_facts = (\<lambda>_. JObj []), artifact_publication = None\<rparr>"

definition sample_tool :: "string \<Rightarrow> tool_facts" where
  "sample_tool name = \<lparr>tf_name = u name, host_hook_facts = None, is_mcp = False, mcp_server = None,
     mcp_server_id = None, mcp_tool_name = None, mcp_capability_id = None, mcp_resource_scope = None,
     mcp_domain_scope = None, mcp_config_hash = None, is_destructive = (\<lambda>_. False), is_read_only = (\<lambda>_. False),
     is_safe_internal_projection = False, path_of = (\<lambda>_. None)\<rparr>"

definition sample_context :: tool_use_context where
  "sample_context = \<lparr>ctx_run_id = Some (u ''r1''), tool_use_id = Some (u ''t1''), ctx_root_session_id = None,
     ctx_session_id = None, working_directory = None\<rparr>"

definition sample_state :: admission_state where
  "sample_state = \<lparr>ad_db = sample_db, ad_now = u ''2'', ad_mode = AutoApprove, ad_cwd = u ''/'',
     ad_trust = (\<lambda>_. False), ad_scratchpad = (\<lambda>_. False), ad_answered = (\<lambda>_ _ _ _. Inr ()),
     ad_run_failure = None, ad_grant_failure = None\<rparr>"

definition sample_io :: gateway_io where
  "sample_io = \<lparr>io_begin = None, io_append = None, io_commit = None\<rparr>"

definition sample_auth :: authorized_operation where
  "sample_auth = \<lparr>auth_subject = sample_subject, descriptor = sample_fetch, execution_input = JObj [],
     auth_source = GrantSource, reason_code = u ''GRANT_MATCH'', auth_grant_id = Some (u ''g1''),
     auth_grant_scope = Some SessionScope, interaction_id = None, execution_attempt_id = u ''e''\<rparr>"

text \<open>The grant \<open>g1\<close> is in the table; it is revoked, and the same session is then granted \<open>g2\<close>.\<close>

definition granting :: "string \<Rightarrow> grant_db \<Rightarrow> grant_db" where
  "granting gid db =
     snd (create sample_crates db (u gid) 0 sample_subject sample_fetch (Some SessionScope) None)"

definition sample_revoking :: "grant_db \<Rightarrow> grant_db" where
  "sample_revoking = revoke_any (\<lambda>_. Inr (u ''w'')) (u ''1'') (ByGrant (u ''g1''))"

theorem revoked_grant_not_admitted_witness:
  "map g_id (grant_rows (granting ''g1'' sample_db)) = [u ''g1''] \<and>
   adm_outcome (admit_with sample_world sample_registry sample_io
     (sample_state\<lparr>ad_db := granting ''g2'' (sample_revoking (granting ''g1'' sample_db))\<rparr>)
     (sample_tool ''WebFetch'') sample_auth sample_context None) \<noteq> Inr ()"
proof
  let ?db = "granting ''g1'' sample_db"
  show "map g_id (grant_rows ?db) = [u ''g1'']"
    by code_simp
  have "u ''g2'' \<noteq> u ''g1''" by simp
  then have "grant_step (\<lambda>_. Inr (u ''w'')) (u ''g1'') (sample_revoking ?db) (granting ''g2'' (sample_revoking ?db))"
    unfolding granting_def by (rule step_create)
  then have "(grant_step (\<lambda>_. Inr (u ''w'')) (u ''g1''))\<^sup>*\<^sup>* (revoke_any (\<lambda>_. Inr (u ''w'')) (u ''1'')
      (ByGrant (u ''g1'')) ?db) (granting ''g2'' (sample_revoking ?db))"
    unfolding sample_revoking_def by (rule r_into_rtranclp)
  then show "adm_outcome (admit_with sample_world sample_registry sample_io
     (sample_state\<lparr>ad_db := granting ''g2'' (sample_revoking ?db)\<rparr>)
     (sample_tool ''WebFetch'') sample_auth sample_context None) \<noteq> Inr ()"
    by (intro revoked_grant_not_admitted [where k = "ByGrant (u ''g1'')" and gid = "u ''g1''"])
      (simp_all add: names_grant_def sample_auth_def)
qed

text \<open>C1. What is authorized and then admitted is justified at the admission, inside the transaction
  that records it: the run still takes tools, and the operation is internal, a plain read, covered by
  a live grant or a current trusted scope, answered by the user for this very call, or the mode in
  force now allows it.\<close>

theorem admission_is_justified:
  assumes "fst (authorize W R rd t frozen input ctx attempt subject ov) = Inr a"
    and "adm_outcome (admit_with W' R' io st t' a ctx' action) = Inr ()"
  shows "accepts_tools (ad_db st) (current_run_id (auth_subject a)) \<and> justified (w_crates W') st a ctx'"
proof -
  obtain p where "fst (authorize_prepared_with_mode (w_crates W) rd
      (bind_execution_input (fs_cwd (w_fs W)) (tf_name t)) (tf_name t) (fi_input_hash frozen) input ctx p ov) = Inr a"
    using assms(1) by (auto simp: authorize_def split: prod.splits sum.splits) (metis fst_conv)
  then have "decided a" by (rule authorize_prepared_Inr(3))
  with admitted(2,3) [OF assms(2)] show ?thesis using final_grant_recheck_justified by blast
qed

definition sample_readings :: readings where
  "sample_readings = \<lparr>rd_cwd = u ''/'', rd_mode = AutoApprove, rd_grant = Inr None, rd_trust = (\<lambda>_. False),
     rd_scratchpad = (\<lambda>_. False), rd_existing = Inr None, rd_created = (\<lambda>_. Inl (authz_err [] [])),
     rd_terminal = (\<lambda>_. Inr Answered), rd_by_id = (\<lambda>_. Inr None), rd_latest_mode = AutoApprove,
     rd_latest_grant = Inr None, rd_remembered = Inr None\<rparr>"

definition sample_frozen :: frozen_input where
  "sample_frozen = \<lparr>fi_tool_name = u ''WebFetch'', fi_schema_version = 1, fi_canonical_json = u ''{}'',
     fi_input_hash = u ''i''\<rparr>"

definition sample_authorized :: authorized_operation where
  "sample_authorized = \<lparr>auth_subject = sample_subject,
     descriptor = analyze_network sample_world (sample_tool ''WebFetch'') (u ''i'') (JObj []),
     execution_input = JObj [], auth_source = ModeSource, reason_code = u ''AUTO_APPROVE'',
     auth_grant_id = None, auth_grant_scope = None, interaction_id = None, execution_attempt_id = u ''e''\<rparr>"

lemma sample_authorize:
  "fst (authorize sample_world sample_registry sample_readings (sample_tool ''WebFetch'') sample_frozen (JObj [])
     sample_context (u ''e'') (Inr sample_subject) None) = Inr sample_authorized"
  by (simp add: authorize_def prepare_def analyze_def analyzer_for_def sample_tool_def FILE_READ_def
      FILE_WRITE_def NETWORK_def invariant_def analyze_network_def first_of.simps input_has_def member_def
      sample_frozen_def authorize_prepared_with_mode_def sample_readings_def allow_def sample_authorized_def
      bind_execution_input_def kind_id_def map_ok_def canonical_strings_def dedup_def canonical_effects_def
      Authz_Analyses_Props.descriptor_of_simps Let_def)

lemma sample_admit:
  "adm_outcome (admit_with sample_world sample_registry sample_io sample_state (sample_tool ''WebFetch'')
     sample_authorized sample_context None) = Inr ()"
  by (simp add: admit_with_def sample_context_def admit_inner_def final_dynamic_recheck_def invariant_def
      recheck_def analyzer_for_def sample_tool_def FILE_READ_def FILE_WRITE_def NETWORK_def as_denied_def
      fault_def sample_io_def final_grant_recheck_def current_policy_allows_def sample_state_def
      sample_authorized_def analyze_network_def first_of.simps input_has_def member_def accepts_tools_def
      sample_db_def sample_subject_def source_recheck_def run_action_def append_admission_def Let_def
      canonical_strings_def dedup_def)

theorem admission_is_justified_witness:
  "accepts_tools (ad_db sample_state) (current_run_id (auth_subject sample_authorized)) \<and>
   justified (w_crates sample_world) sample_state sample_authorized sample_context"
  by (rule admission_is_justified [OF sample_authorize sample_admit])

text \<open>C11. While the session is in plan mode nothing but internal operations and reads is admitted,
  whatever was authorized before the mode changed.\<close>

theorem plan_mode_admits_reads:
  assumes "adm_outcome (admit_with W R io st t a ctx action) = Inr ()" "ad_mode st = PlanMode"
  shows "effects (descriptor a) = [SafeInternal] \<or>
    effects (descriptor a) = [ReadResource] \<and> risk (descriptor a) \<noteq> High"
  using plan_policy [OF admitted(4) [OF assms] assms(2)] .

definition sample_plan_read :: authorized_operation where
  "sample_plan_read = sample_authorized\<lparr>descriptor := sample_read\<lparr>tool_name := u ''WebFetch''\<rparr>,
     auth_source := ModeSource, reason_code := u ''SAFE_READ_AUTO''\<rparr>"

lemma sample_plan_admit:
  "adm_outcome (admit_with sample_world sample_registry sample_io (sample_state\<lparr>ad_mode := PlanMode\<rparr>)
     (sample_tool ''WebFetch'') sample_plan_read sample_context None) = Inr ()"
  by (simp add: admit_with_def sample_context_def admit_inner_def final_dynamic_recheck_def invariant_def
      recheck_def analyzer_for_def sample_tool_def FILE_READ_def FILE_WRITE_def NETWORK_def as_denied_def
      fault_def sample_io_def final_grant_recheck_def current_policy_allows_def sample_state_def
      sample_plan_read_def sample_read_def sample_fetch_def sample_authorized_def accepts_tools_def
      sample_db_def sample_subject_def source_recheck_def run_action_def append_admission_def Let_def)

theorem plan_mode_admits_reads_witness:
  "effects (descriptor sample_plan_read) = [SafeInternal] \<or>
   effects (descriptor sample_plan_read) = [ReadResource] \<and> risk (descriptor sample_plan_read) \<noteq> High"
  by (rule plan_mode_admits_reads [OF sample_plan_admit]) (simp add: sample_state_def)

text \<open>C12. A high-risk operation is never admitted on a remembered grant or a trusted scope: it is
  internal, or the mode in force approves everything, or the user answered for this very call.\<close>

theorem high_risk_needs_consent:
  assumes "fst (authorize W R rd t frozen input ctx attempt subject ov) = Inr a"
    and "adm_outcome (admit_with W' R' io st t' a ctx' action) = Inr ()" "risk (descriptor a) = High"
  shows "effects (descriptor a) = [SafeInternal] \<or> ad_mode st = AutoApprove \<or>
    (auth_source a = UserOnce \<and> (\<exists>v. ad_answered st (interaction_id a) (auth_subject a) (descriptor a)
       (tool_use_id_or ctx' (tool_name (descriptor a))) = Inr v))"
proof -
  obtain p where "fst (authorize_prepared_with_mode (w_crates W) rd
      (bind_execution_input (fs_cwd (w_fs W)) (tf_name t)) (tf_name t) (fi_input_hash frozen) input ctx p ov) = Inr a"
    using assms(1) by (auto simp: authorize_def split: prod.splits sum.splits) (metis fst_conv)
  then have "decided a" by (rule authorize_prepared_Inr(3))
  with admitted(2) [OF assms(2)] have "justified (w_crates W') st a ctx'"
    using final_grant_recheck_justified by blast
  from high_justified [OF this assms(3)] show ?thesis .
qed

definition sample_artifact_registry :: registry where
  "sample_artifact_registry = sample_registry\<lparr>artifact_publication := Some (\<lambda>_ _. Inr
     \<lparr>ps_relative_path = u ''a'', ps_size = 1, ps_sha256 = u ''h'', ps_bucket = u ''b'', ps_public_url = u ''u'',
      ps_endpoint = u ''https://oss'', ps_facts = JObj []\<rparr>)\<rparr>"

definition sample_published :: authorized_operation where
  "sample_published = sample_authorized\<lparr>descriptor :=
     publication_descriptor sample_world (sample_tool ''PublishArtifact'') (u ''i'')
       \<lparr>ps_relative_path = u ''a'', ps_size = 1, ps_sha256 = u ''h'', ps_bucket = u ''b'', ps_public_url = u ''u'',
        ps_endpoint = u ''https://oss'', ps_facts = JObj []\<rparr>\<rparr>"

lemma sample_publish:
  "fst (authorize sample_world sample_artifact_registry sample_readings (sample_tool ''PublishArtifact'')
     sample_frozen (JObj []) sample_context (u ''e'') (Inr sample_subject) None) = Inr sample_published"
  by (simp add: authorize_def prepare_def analyze_def analyzer_for_def sample_tool_def
      invariant_def publication_snapshot_of_def sample_artifact_registry_def publication_descriptor_def
      sample_frozen_def authorize_prepared_with_mode_def sample_readings_def allow_def sample_published_def
      sample_authorized_def bind_execution_input_def kind_id_def map_ok_def canonical_strings_def dedup_def
      canonical_effects_def effect_as_str_def str_key_def unit_rank_def
      Authz_Analyses_Props.descriptor_of_simps Let_def)

lemma sample_publish_admit:
  "adm_outcome (admit_with sample_world sample_artifact_registry sample_io sample_state
     (sample_tool ''PublishArtifact'') sample_published sample_context None) = Inr ()"
proof -
  have "recheck sample_world sample_artifact_registry ArtifactKind (sample_tool ''PublishArtifact'')
      (descriptor sample_published) (JObj []) sample_context sample_subject = Inr ()"
    by (rule recheck_same [where frozen = sample_frozen])
      (simp_all add: analyze_def publication_snapshot_of_def sample_artifact_registry_def map_ok_def
        sample_published_def sample_frozen_def)
  moreover have "invariant (descriptor sample_published) = Inr ()"
    by (simp add: sample_published_def publication_descriptor_def invariant_def canonical_strings_def dedup_def)
  moreover have "final_grant_recheck (w_crates sample_world) sample_state sample_published sample_context = Inr ()"
    by (simp add: final_grant_recheck_def current_policy_allows_def sample_state_def sample_published_def
        sample_authorized_def accepts_tools_def sample_db_def sample_subject_def source_recheck_def Let_def)
  ultimately show ?thesis
    by (simp add: admit_with_def sample_context_def admit_inner_def final_dynamic_recheck_def analyzer_for_def
        sample_tool_def as_denied_def fault_def sample_io_def run_action_def append_admission_def
        sample_published_def sample_authorized_def)
qed

theorem high_risk_needs_consent_witness:
  "effects (descriptor sample_published) = [SafeInternal] \<or> ad_mode sample_state = AutoApprove \<or>
    (auth_source sample_published = UserOnce \<and>
     (\<exists>v. ad_answered sample_state (interaction_id sample_published) (auth_subject sample_published)
       (descriptor sample_published)
       (tool_use_id_or sample_context (tool_name (descriptor sample_published))) = Inr v))"
  by (rule high_risk_needs_consent [OF sample_publish sample_publish_admit])
    (simp add: sample_published_def publication_descriptor_def)

subsection \<open>Paths\<close>

text \<open>C17. A write that needs no confirmation goes to a canonical path that is no device or kernel file,
  lies in no system directory and is no sensitive system or user file. Neither the canonical path nor the
  path as it was written names a protected file, and a component that is a protected directory in any
  letter case, anywhere in a path outside the project and from the name of the project root downwards inside
  it, is the configuration directory on the way to the scratchpad: inside the project the next component
  is the scratchpad, or the path resolves into the scratchpad of the system, which lies under the resolved
  scratchpad of that directory. The directories above the project root are not looked at, by design.\<close>

theorem silent_write_is_confined:
  assumes "silent (check_authorized_write_permission F s p wd)"
  defines "r \<equiv> resolve_path_unchecked F p wd" and "root \<equiv> absolute_normalized (fs_cwd F) wd"
  shows "\<not> off_limits (path_text r) \<and> \<not> is_system_critical_path (path_text r) \<and>
    \<not> is_sensitive_system_or_user_path F r \<and>
    (\<forall>q \<in> {r, absolute_normalized_path F p wd}. (q \<noteq> [] \<longrightarrow> \<not> is_protected_file_name (last q)) \<and>
       (\<forall>pre c post. \<forall>d \<in> set SENSITIVE_WRITE_DIRECTORIES.
          q = pre @ c # post \<and> eq_ignore_ascii_case c d \<and>
          (path_starts_with q root \<longrightarrow> length root \<le> Suc (length pre)) \<longrightarrow>
          eq_ignore_ascii_case d CONFIG_DIR_NAME \<and>
          scratchpad_exception F s (path_starts_with q root) q (pre @ [c]) post))"
proof -
  have w: "silent (write_permission_resolved F s r p wd True)"
    using assms(1)
    by (auto simp: check_authorized_write_permission_def write_permission_def read_permission_def r_def
        silent_def split: if_splits)
  note parts = write_resolved_silent [OF w]
  have "is_allowed (read_permission_resolved F s r p wd True)" using parts(1) by (simp add: silent_def)
  note read = read_resolved_allowed(1) [OF this] read_resolved_silent [OF parts(1)]
  note names = protected_file_name_None [OF read(2)]
  note dirs = matching_sensitive_None [OF sensitive_directory_matching [OF parts(2)], folded root_def]
  show ?thesis
    using read(1,4) parts(3) names dirs by blast
qed

lemma sample_fs_simps:
  "fs_canonicalize sample_fs p = (if list_all entry p then Some p else None)"
  "fs_is_symlink sample_fs p = False" "fs_cwd sample_fs = [47]" "fs_home sample_fs = u ''/home/dev''"
  by (simp_all add: sample_fs_def)

lemmas sample_path_eval = resolve_path_unchecked_def absolute_normalized_path_def absolute_normalized_def
  is_absolute_def path_components_def normalize_components_def sample_fs_simps entry_def no_backslash_def
  path_text_def

lemma sample_paths:
  "absolute_normalized_path sample_fs (u ''/work/a'') (u ''/work'') = [u ''work'', u ''a'']"
  "absolute_normalized (u ''/'') (u ''/work'') = [u ''work'']"
  "absolute_normalized (u ''/'') (u ''/work/a'') = [u ''work'', u ''a'']"
  "resolve_path_unchecked sample_fs (u ''/work/a'') (u ''/work'') = [u ''work'', u ''a'']"
  "path_text [u ''work''] = u ''/work''" "path_text [u ''work'', u ''a''] = u ''/work/a''"
  by (simp_all add: sample_path_eval)

lemmas sample_read_eval = Let_def read_permission_resolved_def BLOCKED_DEVICE_PATHS_def is_process_special_def
  is_process_path_def is_kernel_path_def sample_fs_simps entry_def no_backslash_def protected_file_name_def
  protected_name_of_def file_name_def is_protected_file_name_def to_lowercase_def lower_unit_def
  DANGEROUS_FILES_def CONFIG_FILE_NAME_def LEGACY_CONFIG_FILE_NAME_def sensitive_directory_def
  path_starts_with_def matching_sensitive_directory_def root_is_sensitive_def eq_ignore_ascii_case_def
  ascii_lower_def SENSITIVE_READ_DIRECTORIES_def contains_unrelaxed_sensitive_component_def
  is_sensitive_system_or_user_path_def SENSITIVE_SYSTEM_FILES_def SENSITIVE_USER_PATHS_def
  is_sensitive_user_path_def expand_tilde_def user_home_def ends_with_def

lemmas sample_write_eval = Let_def write_permission_resolved_def sample_fs_simps sensitive_directory_def
  path_starts_with_def matching_sensitive_directory_def root_is_sensitive_def eq_ignore_ascii_case_def
  ascii_lower_def file_name_def SENSITIVE_WRITE_DIRECTORIES_def CONFIG_DIR_NAME_def
  LEGACY_CONFIG_DIR_NAME_def contains_unrelaxed_sensitive_component_def is_system_critical_path_def
  SYSTEM_CRITICAL_DIRS_def normalize_policy_path_def is_same_or_descendant_def paths_equal_def
  is_windows_drive_path_def is_ascii_alphabetic_def symlink_check_def ends_with_def to_lowercase_def
  lower_unit_def

lemma sample_read_check:
  "read_permission_resolved sample_fs sample_pads [u ''work'', u ''a''] (u ''/work/a'') (u ''/work'') True =
   path_allowed"
  by (simp add: sample_read_eval sample_paths [simplified])

lemma sample_write_check:
  "write_permission_resolved sample_fs sample_pads [u ''work'', u ''a''] (u ''/work/a'') (u ''/work'') True =
   path_allowed"
  by (simp add: sample_write_eval sample_read_check [simplified] sample_paths [simplified])

lemma sample_write:
  "silent (check_authorized_write_permission sample_fs sample_pads (u ''/work/a'') (u ''/work''))"
  by (simp add: check_authorized_write_permission_def write_permission_def is_unc_path_def
      sample_paths [simplified] sample_write_check [simplified] silent_def)

theorem silent_write_is_confined_witness:
  "\<not> off_limits (path_text (resolve_path_unchecked sample_fs (u ''/work/a'') (u ''/work'')))"
  using silent_write_is_confined [OF sample_write] by blast

text \<open>C35. The textual test for a directory and its descendants is the prefix test on path components:
  no path is taken for a descendant because its name only starts with the directory's.\<close>

theorem descendant_by_components:
  assumes "list_all entry p" "list_all entry d"
  shows "is_same_or_descendant (path_text p) (path_text d) \<longleftrightarrow> path_starts_with p d"
  using assms by (rule descendant_components)

theorem descendant_by_components_witness:
  "is_same_or_descendant (path_text [u ''etc2'']) (path_text [u ''etc'']) \<longleftrightarrow>
   path_starts_with [u ''etc2''] [u ''etc'']"
  by (rule descendant_by_components) (simp_all add: entry_def)

text \<open>C36. Unless a target inside the workspace has a backslash in its name, the path bound into the input
  of a file tool is the analysed target; and when the recheck accepts an input with that path, the path
  resolves, in the file system of the recheck, to the target itself or to a path in the workspace whose
  name below the root becomes the target's when its backslashes are read as slashes, hence to the target
  when that name has no backslash either.\<close>

theorem bound_target_is_stable:
  fixes base :: ustring
  assumes "rooted s" "list_all entry target" "keeps_name s target" "wf_fs (w_fs W)"
    and "resources d = [canonical_resource target s]"
    and "recheck_file W R t d input ctx s = Inr ()"
    and "raw_path_of W t input ctx = Some (bound_path cwd s (canonical_resource target s))"
  defines "q \<equiv> resolve_path_unchecked (w_fs W) (path_text target) base"
  shows "bound_path cwd s (canonical_resource target s) = path_text target \<and>
    (q = target \<or> aliased s q target) \<and> (keeps_name s q \<longrightarrow> q = target)"
proof -
  have b: "bound_path cwd s (canonical_resource target s) = path_text target"
    by (rule bound_path_canonical [OF assms(1-3)])
  have q: "q = target \<or> aliased s q target"
    using recheck_file_target [OF assms(6) _ assms(5,4,2)] assms(7) b unfolding q_def by simp
  moreover have "keeps_name s q \<longrightarrow> q = target"
    using q aliased_keeps [OF _ _ assms(2) _ assms(3)] resolve_path_clean [OF assms(4,2), of base, folded q_def] by blast
  ultimately show ?thesis using b by blast
qed

text \<open>The condition is needed: the target \<open>/work/a\b\<close> is bound as \<open>/work/a/b\<close>, another file.\<close>

lemma backslash_target_rebound:
  "bound_path (u ''/'') sample_subject (canonical_resource [u ''work'', [97, backslash, 98]] sample_subject) =
     u ''/work/a/b''"
  by code_simp

definition sample_input :: json where
  "sample_input = JObj [(u ''file_path'', JStr (u ''/work/a''))]"

lemma sample_rooted: "rooted sample_subject"
  by (simp add: rooted_def root_path_def sample_subject_def path_components_def path_text_def entry_def)

lemma sample_target: "list_all entry [u ''work'', u ''a'']" "keeps_name sample_subject [u ''work'', u ''a'']"
  by (simp_all add: entry_def no_backslash_def keeps_name_def below_root_def root_path_def sample_subject_def
      path_components_def)

lemma sample_wf_fs: "wf_fs sample_fs"
  by (simp add: wf_fs_def sample_fs_simps)

lemma sample_world_fs [simp]: "w_fs sample_world = sample_fs" "w_crates sample_world = sample_crates"
  by (simp_all add: sample_world_def)

lemma sample_inspect:
  "inspect sample_world sample_registry (sample_tool ''Read'') False (u ''/work/a'') sample_context sample_subject =
   Inr \<lparr>pf_resource = canonical_resource [u ''work'', u ''a''] sample_subject, pf_sensitive = False\<rparr>"
  by (simp add: Let_def inspect_def has_nul_def file_path_base_def sample_context_def sample_subject_def
      sample_fs_simps sample_paths [simplified] resolve_path_def is_unc_path_def is_absolute_def
      path_check_for_def sample_tool_def check_authorized_read_permission_def read_permission_def
      sample_registry_def sample_read_check [simplified])

lemma sample_bound:
  "bound_path (u ''/'') sample_subject (canonical_resource [u ''work'', u ''a''] sample_subject) = u ''/work/a''"
  by (rule trans [OF bound_path_canonical [OF sample_rooted sample_target] sample_paths(6)])

lemma sample_raw:
  "raw_path_of sample_world (sample_tool ''Read'') sample_input sample_context = Some (u ''/work/a'')"
  by (simp add: raw_path_of_def sample_tool_def sample_input_def first_of.simps input_has_def member_def
      json_get_def)

definition sample_file_descriptor :: operation_descriptor where
  "sample_file_descriptor = sample_read\<lparr>resources := [canonical_resource [u ''work'', u ''a''] sample_subject]\<rparr>"

lemma sample_recheck:
  "recheck_file sample_world sample_registry (sample_tool ''Read'') sample_file_descriptor sample_input
     sample_context sample_subject = Inr ()"
proof -
  have "tf_name (sample_tool ''Read'') \<notin> set FILE_WRITE" by (simp add: sample_tool_def FILE_WRITE_def)
  moreover have "rust_trim (u ''/work/a'') \<noteq> []"
    by (simp add: rust_trim_def trim_matches_def is_rust_whitespace_def)
  moreover have "\<not> outside_workspace (canonical_resource [u ''work'', u ''a''] sample_subject)"
    by (simp add: canonical_resource_def relative_resource_def Let_def sample_subject_def path_components_def
        path_starts_with_def normalize_components_def)
  ultimately show ?thesis
    by (simp del: u_simps add: recheck_file_def Let_def file_path_facts_def sample_raw sample_inspect map_ok_def
        analysed_resources_def file_resources_def sample_file_descriptor_def file_risk_def risk_increased_def
        rank_def)
qed

theorem bound_target_is_stable_witness:
  "resolve_path_unchecked (w_fs sample_world) (path_text [u ''work'', u ''a'']) (u ''/'') = [u ''work'', u ''a'']"
proof -
  let ?q = "resolve_path_unchecked (w_fs sample_world) (path_text [u ''work'', u ''a'']) (u ''/'')"
  have "?q = [u ''work'', u ''a''] \<or> aliased sample_subject ?q [u ''work'', u ''a'']"
    "keeps_name sample_subject ?q \<longrightarrow> ?q = [u ''work'', u ''a'']"
    using bound_target_is_stable [OF sample_rooted sample_target _ _ sample_recheck, of "u ''/''" "u ''/''"]
    by (simp_all del: u_simps add: sample_wf_fs sample_file_descriptor_def sample_raw sample_bound)
  moreover have "no_backslash ?q"
    by (simp add: sample_fs_simps resolve_path_unchecked_def absolute_normalized_path_text sample_target [simplified]
        no_backslash_def entry_def)
  ultimately show ?thesis by (simp add: keeps_name_def below_root_def no_backslash_def list_all_drop del: u_simps)
qed

subsection \<open>The recheck\<close>

text \<open>C37. In a world that has not changed the recheck accepts what the analysis produced, for every
  analyzer but the one of Bash.\<close>

theorem recheck_accepts_unchanged:
  assumes "analyze W R k t frozen input ctx s = Inr d" "k \<noteq> BashKind"
  shows "recheck W R k t d input ctx s = Inr ()"
  using assms by (rule recheck_same)

theorem recheck_accepts_unchanged_witness:
  "recheck sample_world sample_registry NetworkKind (sample_tool ''WebFetch'')
     (analyze_network sample_world (sample_tool ''WebFetch'') (u ''i'') (JObj [])) (JObj []) sample_context
     sample_subject = Inr ()"
  by (rule recheck_accepts_unchanged [where frozen = sample_frozen]) (simp_all add: analyze_def sample_frozen_def)

text \<open>For Bash it accepts exactly when the resources and the inherited variables already stand in
  canonical order: a command that declares two outputs out of order is analysed, may be approved, and
  is then denied in the unchanged world, because the recheck compares the declared order with the
  canonical one.\<close>

theorem bash_recheck_wants_sorted_outputs:
  assumes "bash_facts_of W R t input ctx s = Inr f" "analyze_bash W R t hash input ctx s = Inr d"
  shows "recheck_bash W R t d input ctx s = Inr () \<longleftrightarrow>
    canonical_resources (bf_resources f) = bf_resources f \<and> canonical_strings (bf_inherited f) = bf_inherited f"
  using recheck_bash_same [OF assms] by simp

lemma sample_paths_b:
  "absolute_normalized_path sample_fs (u ''/work/b'') (u ''/work'') = [u ''work'', u ''b'']"
  "absolute_normalized (u ''/'') (u ''/work/b'') = [u ''work'', u ''b'']"
  "resolve_path_unchecked sample_fs (u ''/work/b'') (u ''/work'') = [u ''work'', u ''b'']"
  "path_text [u ''work'', u ''b''] = u ''/work/b''"
  by (simp_all add: sample_path_eval)

lemma sample_check_b:
  "read_permission_resolved sample_fs sample_pads [u ''work'', u ''b''] (u ''/work/b'') (u ''/work'') True =
   path_allowed"
  "write_permission_resolved sample_fs sample_pads [u ''work'', u ''b''] (u ''/work/b'') (u ''/work'') True =
   path_allowed"
proof -
  show read: "read_permission_resolved sample_fs sample_pads [u ''work'', u ''b''] (u ''/work/b'') (u ''/work'') True =
      path_allowed"
    by (simp add: sample_read_eval sample_paths [simplified] sample_paths_b [simplified])
  show "write_permission_resolved sample_fs sample_pads [u ''work'', u ''b''] (u ''/work/b'') (u ''/work'') True =
      path_allowed"
    by (simp add: sample_write_eval read [simplified] sample_paths [simplified] sample_paths_b [simplified])
qed

lemma sample_inspect_write:
  "inspect sample_world sample_registry (sample_tool ''Bash'') True (u ''/work/b'') sample_context sample_subject =
   Inr \<lparr>pf_resource = \<lparr>res_kind = u ''path'', res_value = u ''b'', outside_workspace = False\<rparr>, pf_sensitive = False\<rparr>"
  "inspect sample_world sample_registry (sample_tool ''Bash'') True (u ''/work/a'') sample_context sample_subject =
   Inr \<lparr>pf_resource = \<lparr>res_kind = u ''path'', res_value = u ''a'', outside_workspace = False\<rparr>, pf_sensitive = False\<rparr>"
  by (simp_all add: Let_def inspect_def has_nul_def file_path_base_def sample_context_def sample_subject_def
      sample_fs_simps sample_paths [simplified] sample_paths_b [simplified] resolve_path_def is_unc_path_def
      is_absolute_def path_check_for_def check_authorized_write_permission_def write_permission_def
      sample_registry_def sample_write_check [simplified] sample_check_b [simplified] canonical_resource_def
      relative_resource_def path_components_def path_starts_with_def normalize_components_def)

text \<open>A command that declares the outputs b and a, in this order.\<close>

definition sample_output :: "string \<Rightarrow> json" where
  "sample_output p = JObj [(u ''path'', JStr (u p)), (u ''operation'', JStr (u ''created''))]"

definition sample_bash_input :: json where
  "sample_bash_input = JObj [(u ''command'', JStr (u ''make'')),
     (u ''declared_outputs'', JArr [sample_output ''/work/b'', sample_output ''/work/a''])]"

definition sample_bash_resources :: "resource_ref list" where
  "sample_bash_resources =
     [\<lparr>res_kind = u ''cwd'', res_value = u ''.'', outside_workspace = False\<rparr>,
      \<lparr>res_kind = u ''path'', res_value = u ''b'', outside_workspace = False\<rparr>,
      \<lparr>res_kind = u ''path'', res_value = u ''a'', outside_workspace = False\<rparr>]"

lemma sample_declared:
  "declared_output_facts sample_world sample_registry (sample_tool ''Bash'') sample_bash_input [u ''work'']
     sample_context sample_subject = Inr (tl sample_bash_resources, False)"
  by (simp add: declared_output_facts_def member_def sample_bash_input_def json_get_def input_bool_def
      sample_output_def declared_path_def as_str_def rust_trim_def trim_matches_def is_rust_whitespace_def
      declared_operation_def ascii_lower_def OUTPUT_OPERATIONS_def is_absolute_def path_components_def
      sample_inspect_write [simplified] sample_bash_resources_def Let_def)

lemma sample_bash_facts:
  "\<exists>f. bash_facts_of sample_world sample_registry (sample_tool ''Bash'') sample_bash_input sample_context
      sample_subject = Inr f \<and> bf_resources f = sample_bash_resources"
proof -
  have cwd: "shell_working_directory sample_world sample_registry sample_context sample_subject = Inr [u ''work'']"
    by (simp add: shell_working_directory_def sample_context_def sample_subject_def has_nul_def sample_fs_simps
        is_absolute_def sample_paths [simplified] entry_def no_backslash_def Let_def)
  have res: "cwd_resource [u ''work''] sample_subject # tl sample_bash_resources = sample_bash_resources"
    by (simp add: cwd_resource_def relative_resource_def sample_subject_def path_components_def
        normalize_components_def path_starts_with_def sample_bash_resources_def Let_def)
  have port: "bash_security sample_registry = Some \<lparr>port_parse_for_security = (\<lambda>_ _ _. ParsedOutcome),
      port_inherited_references = (\<lambda>_. [])\<rparr>" by (simp add: sample_registry_def)
  show ?thesis
    by (simp del: u_simps add: bash_facts_of_def Let_def cwd sample_declared port res)
qed

theorem bash_recheck_wants_sorted_outputs_witness:
  "\<exists>f d. bash_facts_of sample_world sample_registry (sample_tool ''Bash'') sample_bash_input sample_context
      sample_subject = Inr f \<and>
    analyze_bash sample_world sample_registry (sample_tool ''Bash'') (u ''i'') sample_bash_input sample_context
      sample_subject = Inr d \<and>
    recheck_bash sample_world sample_registry (sample_tool ''Bash'') d sample_bash_input sample_context
      sample_subject \<noteq> Inr ()"
proof -
  obtain f where f: "bash_facts_of sample_world sample_registry (sample_tool ''Bash'') sample_bash_input
      sample_context sample_subject = Inr f" "bf_resources f = sample_bash_resources"
    using sample_bash_facts by blast
  then obtain d where d: "analyze_bash sample_world sample_registry (sample_tool ''Bash'') (u ''i'')
      sample_bash_input sample_context sample_subject = Inr d"
    by (simp add: analyze_bash_def map_ok_def)
  have "canonical_resources sample_bash_resources \<noteq> sample_bash_resources"
    by (simp add: canonical_resources_def sample_bash_resources_def dedup_def str_key_def unit_rank_def)
  with bash_recheck_wants_sorted_outputs [OF f(1) d] f d show ?thesis by auto
qed

subsection \<open>Canonical JSON\<close>

text \<open>C38. The identity of an operation does not depend on the order in which the members of its facts
  were written, at any depth.\<close>

theorem operation_hash_ignores_order:
  assumes "same_json v w"
  shows "operation_hash_of cr v = operation_hash_of cr w"
  using sort_json_same [OF assms] by (simp add: operation_hash_of_def canonical_json_bytes_def)

lemma sample_same_json:
  "same_json (JObj [(u ''b'', JNum 1), (u ''a'', JNum 2)]) (JObj [(u ''a'', JNum 2), (u ''b'', JNum 1)])"
  by (rule same_json.obj [where ns = "[(u ''b'', JNum 1), (u ''a'', JNum 2)]"])
    (auto simp: same_json.leaf str_key_def unit_rank_def)

theorem operation_hash_ignores_order_witness:
  "operation_hash_of sample_crates (JObj [(u ''b'', JNum 1), (u ''a'', JNum 2)]) =
   operation_hash_of sample_crates (JObj [(u ''a'', JNum 2), (u ''b'', JNum 1)])"
  by (rule operation_hash_ignores_order [OF sample_same_json])

subsection \<open>Ancestry\<close>

text \<open>C39. The walk to the root run ends within 33 runs; it answers with the root exactly when the
  chain of parents reaches, without repeating a run and within that bound, a run without a parent
  whose session has a working directory.\<close>

theorem ancestry_is_the_chain:
  "ancestry_loop db (Suc MAX_ANCESTRY) [] run = Inr (root, session, dir) \<longleftrightarrow>
   (\<exists>k \<le> MAX_ANCESTRY. ancestor db k run = Some root \<and> is_root_run db root session dir)"
proof
  assume "ancestry_loop db (Suc MAX_ANCESTRY) [] run = Inr (root, session, dir)"
  then show "\<exists>k \<le> MAX_ANCESTRY. ancestor db k run = Some root \<and> is_root_run db root session dir"
    using ancestry_loop_sound less_Suc_eq_le by blast
next
  assume "\<exists>k \<le> MAX_ANCESTRY. ancestor db k run = Some root \<and> is_root_run db root session dir"
  then obtain k where k: "k \<le> MAX_ANCESTRY" "ancestor db k run = Some root" "is_root_run db root session dir"
    by blast
  then show "ancestry_loop db (Suc MAX_ANCESTRY) [] run = Inr (root, session, dir)"
    using ancestor_distinct [OF k(2,3)] by (intro ancestry_loop_complete [OF k(2,3)]) auto
qed

theorem ancestry_is_the_chain_witness:
  "ancestry_loop sample_db (Suc MAX_ANCESTRY) [] (u ''r2'') = Inr (u ''r1'', u ''s1'', u ''/work'') \<longleftrightarrow>
   (\<exists>k \<le> MAX_ANCESTRY. ancestor sample_db k (u ''r2'') = Some (u ''r1'') \<and>
      is_root_run sample_db (u ''r1'') (u ''s1'') (u ''/work''))"
  by (rule ancestry_is_the_chain)

end
