(* ===== verification/Bash_Ast.thy ===== *)
theory Bash_Ast
  imports Prelude
begin

section \<open>Bash tokens and syntax trees\<close>

text \<open>
  The types of \<open>crates/zk-tools/src/bash/ast.rs\<close>: tokens with their byte and unit positions, the
  syntax tree of the recursive-descent parser, and the three-way result of the security analysis.
\<close>

subsection \<open>Tokens\<close>

datatype token_type =
    Word | Number | Op | Newline | Comment | DQuote | SQuote | AnsiC
  | Dollar | DollarParen | DollarBrace | DollarDParen | Backtick | LtParen | GtParen
  | ArithmeticExpansion | ParameterExpansion
  | ProcessSubstitutionIn | ProcessSubstitutionOut | Eof

record token =
  token_type :: token_type
  tok_text :: ustring
  start_byte :: nat
  end_byte :: nat
  start_index :: nat
  end_index :: nat

definition is_op :: "token \<Rightarrow> string \<Rightarrow> bool" where
  "is_op t op = (token_type t = Op \<and> tok_text t = u op)"

definition is_word :: "token \<Rightarrow> string \<Rightarrow> bool" where
  "is_word t w = (token_type t = Word \<and> tok_text t = u w)"

definition is_eof :: "token \<Rightarrow> bool" where
  "is_eof t = (token_type t = Eof)"

subsection \<open>Syntax trees\<close>

record span =
  span_start :: nat
  span_end :: nat
  span_raw :: ustring

definition Span_new :: "nat \<Rightarrow> nat \<Rightarrow> ustring \<Rightarrow> span" where
  "Span_new s e r = \<lparr>span_start = s, span_end = e, span_raw = r\<rparr>"

record var_assignment =
  va_name :: ustring
  va_value :: ustring

record redirect_node =
  rd_operator :: ustring
  rd_target :: ustring
  rd_fd :: int

record simple_command =
  sc_argv :: "ustring list"
  sc_env_vars :: "var_assignment list"
  sc_redirects :: "redirect_node list"
  sc_span :: span

datatype program_node = ProgramNode (statements: "statement_node list") (program_span: span)
  and statement_node =
    StatementNode (stmt_body: bash_node) (is_background: bool) (stmt_span: span)
  and case_item = CaseItem (patterns: "ustring list") (item_body: program_node)
  and bash_node =
    Program program_node
  | Statement statement_node
  | Pipeline "bash_node list" bool span
  | AndOr bash_node ustring bash_node span
  | Subshell program_node span
  | BraceGroup program_node span
  | SimpleCommand simple_command
  | If program_node program_node "program_node option" span
  | For ustring "ustring list" program_node span
  | While program_node program_node bool span
  | Case ustring "case_item list" span
  | FunctionDef ustring "bash_node option" span
  | DeclarationCommand ustring "ustring list" "var_assignment list" span
  | RedirectedStatement bash_node "redirect_node list" span
  | NegatedCommand "bash_node option" span
  | TestCommand "ustring list" span
  | VariableAssignment ustring ustring bool span
  | TooComplexNode ustring span

fun node_span :: "bash_node \<Rightarrow> span" where
  "node_span (Program p) = program_span p"
| "node_span (Statement s) = stmt_span s"
| "node_span (Pipeline _ _ sp) = sp"
| "node_span (AndOr _ _ _ sp) = sp"
| "node_span (Subshell _ sp) = sp"
| "node_span (BraceGroup _ sp) = sp"
| "node_span (SimpleCommand c) = sc_span c"
| "node_span (If _ _ _ sp) = sp"
| "node_span (For _ _ _ sp) = sp"
| "node_span (While _ _ _ sp) = sp"
| "node_span (Case _ _ sp) = sp"
| "node_span (FunctionDef _ _ sp) = sp"
| "node_span (DeclarationCommand _ _ _ sp) = sp"
| "node_span (RedirectedStatement _ _ sp) = sp"
| "node_span (NegatedCommand _ sp) = sp"
| "node_span (TestCommand _ sp) = sp"
| "node_span (VariableAssignment _ _ _ sp) = sp"
| "node_span (TooComplexNode _ sp) = sp"

definition node_start_byte :: "bash_node \<Rightarrow> nat" where
  "node_start_byte n = span_start (node_span n)"

definition node_end_byte :: "bash_node \<Rightarrow> nat" where
  "node_end_byte n = span_end (node_span n)"

definition node_raw_text :: "bash_node \<Rightarrow> ustring" where
  "node_raw_text n = span_raw (node_span n)"

subsection \<open>The result of the security analysis\<close>

datatype parse_for_security_result =
    Simple "simple_command list"
  | TooComplex ustring ustring
  | ParseUnavailable

end
