(* ===== verification/Bash_Lexer.thy ===== *)
theory Bash_Lexer
  imports Bash_Ast Utf16
begin

section \<open>The Bash lexer\<close>

text \<open>
  \<open>crates/zk-tools/src/bash/lexer.rs\<close>. The lexer keeps two positions in step, the UTF-16 index
  \<open>lx_i\<close> and the UTF-8 byte offset \<open>lx_b\<close>; every scanning routine moves them by \<open>advance\<close> only.
  A routine of the source that mutates \<open>self\<close> and returns a token is a function from the lexer to
  the token and the new lexer. Scanning loops terminate because \<open>advance\<close> moves \<open>lx_i\<close> forward.
\<close>

subsection \<open>State\<close>

text \<open>
  The payload of an abort is the number its message prints. \<open>FuelExhausted\<close> is not in the source:
  it is the value of the parser model's loops and recursion when their bound runs out, and the
  parser theory shows that it is never returned.
\<close>

datatype parse_abort =
    LexerBudgetExceeded nat
  | ParserTimeout
  | ParserBudgetExceeded nat
  | FuelExhausted

record lexer =
  lx_units :: "nat list"
  lx_i :: nat
  lx_b :: nat
  lx_cmd_start :: bool
  lx_ws_before :: bool
  lx_node_count :: nat
  lx_max_nodes :: nat

abbreviation lx_len :: "lexer \<Rightarrow> nat" where
  "lx_len l \<equiv> length (lx_units l)"

abbreviation (input) NUL :: nat where "NUL \<equiv> 0"
abbreviation (input) TAB :: nat where "TAB \<equiv> 9"
abbreviation (input) NL :: nat where "NL \<equiv> 10"
abbreviation (input) CR :: nat where "CR \<equiv> 13"
abbreviation (input) SP :: nat where "SP \<equiv> 32"
abbreviation (input) DQ :: nat where "DQ \<equiv> 34"
abbreviation (input) SQ :: nat where "SQ \<equiv> 39"
abbreviation (input) BSL :: nat where "BSL \<equiv> 92"
abbreviation (input) BTK :: nat where "BTK \<equiv> 96"

definition NON_ASCII :: nat where
  "NON_ASCII = 0xFFFD"

definition SHELL_KEYWORDS :: "string list" where
  "SHELL_KEYWORDS = [''if'', ''then'', ''elif'', ''else'', ''fi'', ''while'', ''until'', ''for'',
     ''in'', ''do'', ''done'', ''case'', ''esac'', ''function'', ''select'']"

definition DECL_KEYWORDS :: "string list" where
  "DECL_KEYWORDS = [''export'', ''declare'', ''typeset'', ''readonly'', ''local'']"

definition CMD_START_KEYWORDS :: "string list" where
  "CMD_START_KEYWORDS = [''if'', ''elif'', ''then'', ''else'', ''while'', ''until'', ''do'',
     ''fi'', ''done'', ''esac'']"

definition SPECIAL_VARS :: "nat list" where
  "SPECIAL_VARS = u ''?$@*#-!_''"

definition lexer_new :: "ustring \<Rightarrow> nat \<Rightarrow> lexer" where
  "lexer_new src max_nodes =
     \<lparr>lx_units = src, lx_i = 0, lx_b = 0, lx_cmd_start = True, lx_ws_before = True,
      lx_node_count = 0, lx_max_nodes = max_nodes\<rparr>"

definition with_default_budget :: "ustring \<Rightarrow> lexer" where
  "with_default_budget src = lexer_new src 50000"

definition save_lex :: "lexer \<Rightarrow> nat \<times> nat" where
  "save_lex l = (lx_b l, lx_i l)"

definition restore_lex :: "lexer \<Rightarrow> nat \<times> nat \<Rightarrow> lexer" where
  "restore_lex l st = l\<lparr>lx_b := fst st, lx_i := snd st\<rparr>"

subsection \<open>Reading the buffer\<close>

definition char_at :: "lexer \<Rightarrow> nat \<Rightarrow> nat" where
  "char_at l idx = (let unit = lx_units l ! idx in if unit < 0x80 then unit else NON_ASCII)"

definition peek :: "lexer \<Rightarrow> nat \<Rightarrow> nat" where
  "peek l off = (let idx = lx_i l + off in if idx < lx_len l then char_at l idx else NUL)"

definition current_char :: "lexer \<Rightarrow> nat" where
  "current_char l = (if lx_i l < lx_len l then char_at l (lx_i l) else NUL)"

definition is_at_end :: "lexer \<Rightarrow> bool" where
  "is_at_end l = (lx_len l \<le> lx_i l)"

definition substring :: "lexer \<Rightarrow> nat \<Rightarrow> nat \<Rightarrow> ustring" where
  "substring l start end =
     (let s = min start (lx_len l); e = max (min end (lx_len l)) s
      in from_utf16_lossy (take (e - s) (drop s (lx_units l))))"

definition advance :: "lexer \<Rightarrow> lexer" where
  "advance l =
     (if lx_len l \<le> lx_i l then l
      else let unit = lx_units l ! lx_i l in
        if unit < 0x80 then l\<lparr>lx_b := lx_b l + 1, lx_i := lx_i l + 1\<rparr>
        else if unit < 0x800 then l\<lparr>lx_b := lx_b l + 2, lx_i := lx_i l + 1\<rparr>
        else if 0xD800 \<le> unit \<and> unit \<le> 0xDBFF then l\<lparr>lx_b := lx_b l + 4, lx_i := lx_i l + 2\<rparr>
        else l\<lparr>lx_b := lx_b l + 3, lx_i := lx_i l + 1\<rparr>)"

definition advance_n :: "nat \<Rightarrow> lexer \<Rightarrow> lexer" where
  "advance_n n l = (advance ^^ n) l"

definition make_token ::
    "lexer \<Rightarrow> token_type \<Rightarrow> ustring \<Rightarrow> nat \<Rightarrow> nat \<Rightarrow> nat \<Rightarrow> token" where
  "make_token l ty text start_i end_i start_b =
     \<lparr>token_type = ty, tok_text = text, start_byte = start_b, end_byte = lx_b l,
      start_index = start_i, end_index = end_i\<rparr>"

subsection \<open>Character classes\<close>

definition is_3_char_op :: "ustring \<Rightarrow> bool" where
  "is_3_char_op op = (op \<in> set (map u ['';;&'', ''<<-'', ''<<<'', ''>&-'', ''<&-'', ''&>>'', ''$(('']))"

definition is_2_char_op :: "ustring \<Rightarrow> bool" where
  "is_2_char_op op = (op \<in> set (map u [''&&'', ''||'', ''|&'', '';;'', '';&'', ''>>'', ''>&'', ''>|'',
     ''&>'', ''<<'', ''<&'', ''<('', ''>('', ''(('', ''))'', ''$('', ''${'', ''[['']))"

definition is_1_char_op :: "nat \<Rightarrow> bool" where
  "is_1_char_op ch = (ch \<in> set (u ''|&;><()[{}!''))"

definition is_operator_char :: "nat \<Rightarrow> bool" where
  "is_operator_char ch = (ch \<in> set (u ''|&;><()''))"

definition is_name_start :: "nat \<Rightarrow> bool" where
  "is_name_start ch = ((97 \<le> ch \<and> ch \<le> 122) \<or> (65 \<le> ch \<and> ch \<le> 90) \<or> ch = 95)"

definition is_digit :: "nat \<Rightarrow> bool" where
  "is_digit ch = (48 \<le> ch \<and> ch \<le> 57)"

definition is_name_char :: "nat \<Rightarrow> bool" where
  "is_name_char ch = (is_name_start ch \<or> is_digit ch)"

definition is_all_digits :: "ustring \<Rightarrow> bool" where
  "is_all_digits s = (s \<noteq> [] \<and> list_all is_digit s)"

subsection \<open>Moving forward\<close>

text \<open>\<open>advance\<close> moves the two positions and nothing else, and makes progress inside the buffer.\<close>

lemma advance_frame [simp]:
  "lx_units (advance l) = lx_units l"
  "lx_cmd_start (advance l) = lx_cmd_start l"
  "lx_ws_before (advance l) = lx_ws_before l"
  "lx_node_count (advance l) = lx_node_count l"
  "lx_max_nodes (advance l) = lx_max_nodes l"
  by (simp_all add: advance_def Let_def)

lemma advance_i_mono: "lx_i l \<le> lx_i (advance l)"
  by (simp add: advance_def Let_def)

lemma advance_i_less: "lx_i l < lx_len l \<Longrightarrow> lx_i l < lx_i (advance l)"
  by (simp add: advance_def Let_def)

lemma advance_b_mono: "lx_b l \<le> lx_b (advance l)"
  by (simp add: advance_def Let_def)

lemma advance_measure:
  "lx_i l < lx_len l \<Longrightarrow> lx_len l - lx_i (advance l) < lx_len l - lx_i l"
  using advance_i_less [of l] by linarith

lemma advance2_measure:
  "lx_i l < lx_len l \<Longrightarrow> lx_len l - lx_i (advance (advance l)) < lx_len l - lx_i l"
  using advance_i_less [of l] advance_i_mono [of "advance l"] by linarith

subsection \<open>Scanning loops\<close>

text \<open>The shared shape of the comment, single-quote and name loops: advance while a test holds.\<close>

function advance_while :: "(nat \<Rightarrow> bool) \<Rightarrow> lexer \<Rightarrow> lexer" where
  "advance_while p l =
     (if lx_i l < lx_len l \<and> p (char_at l (lx_i l)) then advance_while p (advance l) else l)"
  by pat_completeness auto
termination
  by (relation "measure (\<lambda>(p, l). lx_len l - lx_i l)") (auto simp: advance_measure)

function skip_blanks :: "lexer \<Rightarrow> lexer" where
  "skip_blanks l =
     (if lx_i l < lx_len l then
        (let ch = char_at l (lx_i l) in
         if ch = SP \<or> ch = TAB \<or> ch = CR then skip_blanks (advance l)
         else if ch = BSL \<and> peek l 1 = NL then skip_blanks (advance (advance l))
         else l)
      else l)"
  by pat_completeness auto
termination
  by (relation "measure (\<lambda>l. lx_len l - lx_i l)") (auto simp: advance_measure advance2_measure)

text \<open>The body of a double-quoted string; \<open>depth\<close> counts open \<open>$(\<close>.\<close>

function dquote_loop :: "nat \<Rightarrow> lexer \<Rightarrow> lexer" where
  "dquote_loop depth l =
     (if lx_i l < lx_len l then
        (let ch = char_at l (lx_i l) in
         if ch = BSL then
           (let l1 = advance l in
            dquote_loop depth (if lx_i l1 < lx_len l1 then advance l1 else l1))
         else if ch = uc CHR ''$'' \<and> peek l 1 = uc CHR ''('' then
           dquote_loop (depth + 1) (advance (advance l))
         else if ch = uc CHR '')'' \<and> depth > 0 then dquote_loop (depth - 1) (advance l)
         else if ch = DQ \<and> depth = 0 then advance l
         else dquote_loop depth (advance l))
      else l)"
  by pat_completeness auto
termination
  by (relation "measure (\<lambda>(d, l). lx_len l - lx_i l)")
    (auto simp: advance_measure advance2_measure)

function ansi_c_loop :: "lexer \<Rightarrow> lexer" where
  "ansi_c_loop l =
     (if lx_i l < lx_len l then
        (let ch = char_at l (lx_i l) in
         if ch = BSL then
           (let l1 = advance l in ansi_c_loop (if lx_i l1 < lx_len l1 then advance l1 else l1))
         else if ch = SQ then advance l
         else ansi_c_loop (advance l))
      else l)"
  by pat_completeness auto
termination
  by (relation "measure (\<lambda>l. lx_len l - lx_i l)") (auto simp: advance_measure advance2_measure)

text \<open>The body of \<open>$((\<dots>))\<close>.\<close>

function arith_loop :: "nat \<Rightarrow> lexer \<Rightarrow> lexer" where
  "arith_loop depth l =
     (if lx_i l < lx_len l \<and> depth > 0 then
        (let ch = char_at l (lx_i l) in
         if ch = uc CHR '')'' \<and> peek l 1 = uc CHR '')'' then
           (if depth - 1 = 0 then advance (advance l)
            else arith_loop (depth - 1) (advance (advance l)))
         else if ch = uc CHR ''('' \<and> peek l 1 = uc CHR ''('' then
           arith_loop (depth + 1) (advance (advance l))
         else arith_loop depth (advance l))
      else l)"
  by pat_completeness auto
termination
  by (relation "measure (\<lambda>(d, l). lx_len l - lx_i l)")
    (auto simp: advance_measure advance2_measure)

text \<open>The body of \<open>${\<dots>}\<close>.\<close>

function param_loop :: "nat \<Rightarrow> lexer \<Rightarrow> lexer" where
  "param_loop brace_depth l =
     (if lx_i l < lx_len l \<and> brace_depth > 0 then
        (let ch = char_at l (lx_i l) in
         if ch = BSL then
           (let l1 = advance l in
            param_loop brace_depth (if lx_i l1 < lx_len l1 then advance l1 else l1))
         else if ch = uc CHR ''{'' then param_loop (brace_depth + 1) (advance l)
         else if ch = uc CHR ''}'' then
           (if brace_depth - 1 = 0 then advance l else param_loop (brace_depth - 1) (advance l))
         else param_loop brace_depth (advance l))
      else l)"
  by pat_completeness auto
termination
  by (relation "measure (\<lambda>(d, l). lx_len l - lx_i l)")
    (auto simp: advance_measure advance2_measure)

text \<open>The body of a process substitution.\<close>

function proc_loop :: "nat \<Rightarrow> lexer \<Rightarrow> lexer" where
  "proc_loop paren_depth l =
     (if lx_i l < lx_len l \<and> paren_depth > 0 then
        (let ch = char_at l (lx_i l) in
         if ch = uc CHR ''('' then proc_loop (paren_depth + 1) (advance l)
         else if ch = uc CHR '')'' then
           (if paren_depth - 1 = 0 then advance l else proc_loop (paren_depth - 1) (advance l))
         else proc_loop paren_depth (advance l))
      else l)"
  by pat_completeness auto
termination
  by (relation "measure (\<lambda>(d, l). lx_len l - lx_i l)") (auto simp: advance_measure)

function word_loop :: "lexer \<Rightarrow> lexer" where
  "word_loop l =
     (if lx_i l < lx_len l then
        (let ch = char_at l (lx_i l) in
         if ch = BSL then
           (let l1 = advance l in
            word_loop
              (if lx_i l1 < lx_len l1 \<and> char_at l1 (lx_i l1) \<noteq> NL then advance l1 else l1))
         else if ch = SP \<or> ch = TAB \<or> ch = NL \<or> ch = CR then l
         else if ch = SQ \<or> ch = DQ \<or> ch = uc CHR ''$'' \<or> ch = BTK then l
         else if is_operator_char ch then l
         else word_loop (advance l))
      else l)"
  by pat_completeness auto
termination
  by (relation "measure (\<lambda>l. lx_len l - lx_i l)") (auto simp: advance_measure advance2_measure)

declare advance_while.simps [simp del] skip_blanks.simps [simp del] dquote_loop.simps [simp del]
  ansi_c_loop.simps [simp del] arith_loop.simps [simp del] param_loop.simps [simp del]
  proc_loop.simps [simp del] word_loop.simps [simp del]

subsection \<open>Token scanners\<close>

text \<open>Each scanner takes the position where the token starts and returns the token and the lexer.\<close>

definition scan_comment :: "nat \<Rightarrow> nat \<Rightarrow> lexer \<Rightarrow> token \<times> lexer" where
  "scan_comment start_i start_b l =
     (let l1 = advance_while (\<lambda>ch. ch \<noteq> NL) l;
          l2 = l1\<lparr>lx_cmd_start := True\<rparr>
      in (make_token l2 Comment (substring l2 start_i (lx_i l2)) start_i (lx_i l2) start_b, l2))"

definition scan_single_quote :: "nat \<Rightarrow> nat \<Rightarrow> lexer \<Rightarrow> token \<times> lexer" where
  "scan_single_quote start_i start_b l =
     (let l1 = advance_while (\<lambda>ch. ch \<noteq> SQ) (advance l);
          l2 = (if lx_i l1 < lx_len l1 then advance l1 else l1);
          l3 = l2\<lparr>lx_cmd_start := False\<rparr>
      in (make_token l3 SQuote (substring l3 start_i (lx_i l3)) start_i (lx_i l3) start_b, l3))"

definition scan_double_quote :: "nat \<Rightarrow> nat \<Rightarrow> lexer \<Rightarrow> token \<times> lexer" where
  "scan_double_quote start_i start_b l =
     (let l1 = dquote_loop 0 (advance l);
          l2 = l1\<lparr>lx_cmd_start := False\<rparr>
      in (make_token l2 DQuote (substring l2 start_i (lx_i l2)) start_i (lx_i l2) start_b, l2))"

definition scan_ansi_c_quote :: "nat \<Rightarrow> nat \<Rightarrow> lexer \<Rightarrow> token \<times> lexer" where
  "scan_ansi_c_quote start_i start_b l =
     (let l1 = ansi_c_loop (advance (advance l));
          l2 = l1\<lparr>lx_cmd_start := False\<rparr>
      in (make_token l2 AnsiC (substring l2 start_i (lx_i l2)) start_i (lx_i l2) start_b, l2))"

definition lex_arithmetic_expansion :: "nat \<Rightarrow> nat \<Rightarrow> lexer \<Rightarrow> token \<times> lexer" where
  "lex_arithmetic_expansion start_i start_b l =
     (let l1 = arith_loop 1 (advance (advance l));
          l2 = l1\<lparr>lx_cmd_start := False\<rparr>
      in (make_token l2 ArithmeticExpansion (substring l2 start_i (lx_i l2))
            start_i (lx_i l2) start_b, l2))"

definition lex_parameter_expansion :: "nat \<Rightarrow> nat \<Rightarrow> lexer \<Rightarrow> token \<times> lexer" where
  "lex_parameter_expansion start_i start_b l =
     (let l1 = param_loop 1 (advance l);
          l2 = l1\<lparr>lx_cmd_start := False\<rparr>
      in (make_token l2 ParameterExpansion (substring l2 start_i (lx_i l2))
            start_i (lx_i l2) start_b, l2))"

definition lex_process_substitution :: "nat \<Rightarrow> nat \<Rightarrow> lexer \<Rightarrow> token \<times> lexer" where
  "lex_process_substitution start_i start_b l =
     (let prefix = char_at l (lx_i l);
          l1 = proc_loop 1 (advance (advance l));
          text = substring l1 start_i (lx_i l1);
          ty = (if prefix = uc CHR ''<'' then ProcessSubstitutionIn else ProcessSubstitutionOut);
          l2 = l1\<lparr>lx_cmd_start := False\<rparr>
      in (make_token l2 ty text start_i (lx_i l2) start_b, l2))"

definition scan_dollar :: "nat \<Rightarrow> nat \<Rightarrow> lexer \<Rightarrow> token \<times> lexer" where
  "scan_dollar start_i start_b l0 =
     (let l = advance l0 in
      if lx_len l \<le> lx_i l then
        (let l1 = l\<lparr>lx_cmd_start := False\<rparr>
         in (make_token l1 Dollar (u ''$'') start_i (lx_i l1) start_b, l1))
      else
        let nxt = char_at l (lx_i l) in
        if nxt = uc CHR ''('' \<and> peek l 1 = uc CHR ''('' then
          lex_arithmetic_expansion start_i start_b l
        else if nxt = uc CHR ''('' then
          (let l1 = (advance l)\<lparr>lx_cmd_start := True\<rparr>
           in (make_token l1 DollarParen (u ''$('') start_i (lx_i l1) start_b, l1))
        else if nxt = uc CHR ''{'' then lex_parameter_expansion start_i start_b l
        else if nxt \<in> set SPECIAL_VARS then
          (let l1 = (advance l)\<lparr>lx_cmd_start := False\<rparr>
           in (make_token l1 Dollar (substring l1 start_i (lx_i l1)) start_i (lx_i l1) start_b, l1))
        else if is_name_start nxt then
          (let l1 = (advance_while is_name_char l)\<lparr>lx_cmd_start := False\<rparr>
           in (make_token l1 Dollar (substring l1 start_i (lx_i l1)) start_i (lx_i l1) start_b, l1))
        else
          (let l1 = l\<lparr>lx_cmd_start := False\<rparr>
           in (make_token l1 Dollar (u ''$'') start_i (lx_i l1) start_b, l1)))"

definition update_cmd_start_after_op :: "ustring \<Rightarrow> lexer \<Rightarrow> lexer" where
  "update_cmd_start_after_op op l =
     l\<lparr>lx_cmd_start := (op \<in> set (map u [''|'', ''&&'', ''||'', '';'', '';&'', '';;&'', ''|&'',
        ''('', '')'', ''))'', ''{'', ''!'', ''[['', '';;'']))\<rparr>"

text \<open>
  Operators, longest match first. \<open>[[\<close>, \<open>[\<close>, \<open>{\<close>, \<open>}\<close> and \<open>!\<close> are operators at a command start only;
  a process substitution resets the position and is scanned as a whole.
\<close>

definition try_scan_operator :: "nat \<Rightarrow> nat \<Rightarrow> lexer \<Rightarrow> (token \<times> lexer) option" where
  "try_scan_operator start_i start_b l =
     (if lx_len l \<le> lx_i l then None
      else
        let c1 = char_at l (lx_i l); c2 = peek l 1; c3 = peek l 2;
            op3 = (if c2 \<noteq> NUL \<and> c3 \<noteq> NUL then [c1, c2, c3] else []);
            op2 = (if c2 = NUL then [] else [c1, c2]) in
        if op3 \<noteq> [] \<and> is_3_char_op op3 then
          (let l1 = update_cmd_start_after_op op3 (advance_n 3 l)
           in Some (make_token l1 Op op3 start_i (lx_i l1) start_b, l1))
        else if op2 \<noteq> [] \<and> is_2_char_op op2 \<and> \<not> (op2 = u ''[['' \<and> \<not> lx_cmd_start l) then
          (let l1 = update_cmd_start_after_op op2 (advance_n 2 l) in
           if op2 = u ''<('' \<or> op2 = u ''>('' then
             Some (lex_process_substitution start_i start_b (l1\<lparr>lx_i := start_i, lx_b := start_b\<rparr>))
           else Some (make_token l1 Op op2 start_i (lx_i l1) start_b, l1))
        else if is_1_char_op c1 then
          (if c1 \<in> set (u ''[{}!'') \<and> \<not> lx_cmd_start l then None
           else
             let l1 = update_cmd_start_after_op [c1] (advance l)
             in Some (make_token l1 Op [c1] start_i (lx_i l1) start_b, l1))
        else None)"

definition scan_word :: "nat \<Rightarrow> nat \<Rightarrow> lexer \<Rightarrow> token \<times> lexer" where
  "scan_word start_i start_b l =
     (let l1 = word_loop l;
          text = substring l1 start_i (lx_i l1);
          ty = (if is_all_digits text then Number else Word);
          l2 = l1\<lparr>lx_cmd_start := (text \<in> set (map u CMD_START_KEYWORDS))\<rparr>
      in (make_token l2 ty text start_i (lx_i l2) start_b, l2))"

subsection \<open>The next token\<close>

text \<open>The dispatch on the first character, after blanks were skipped and the budget was charged.\<close>

definition scan_token :: "lexer \<Rightarrow> token \<times> lexer" where
  "scan_token l =
     (let start_i = lx_i l; start_b = lx_b l; ch = char_at l (lx_i l) in
      if ch = NL then
        (let l1 = (advance l)\<lparr>lx_cmd_start := True\<rparr>
         in (make_token l1 Newline [NL] start_i (lx_i l1) start_b, l1))
      else if ch = uc CHR ''#'' then scan_comment start_i start_b l
      else if ch = SQ then scan_single_quote start_i start_b l
      else if ch = DQ then scan_double_quote start_i start_b l
      else if ch = uc CHR ''$'' \<and> peek l 1 = SQ then scan_ansi_c_quote start_i start_b l
      else if ch = uc CHR ''$'' then scan_dollar start_i start_b l
      else if ch = BTK then
        (let l1 = (advance l)\<lparr>lx_cmd_start := False\<rparr>
         in (make_token l1 Backtick [BTK] start_i (lx_i l1) start_b, l1))
      else
        case try_scan_operator start_i start_b l of
          Some r \<Rightarrow> r
        | None \<Rightarrow> scan_word start_i start_b l)"

definition next_token :: "lexer \<Rightarrow> parse_abort + (token \<times> lexer)" where
  "next_token l =
     (let l1 = skip_blanks l;
          l2 = l1\<lparr>lx_ws_before := (lx_i l < lx_i l1)\<rparr> in
      if lx_len l2 \<le> lx_i l2 then
        Inr (make_token l2 Eof [] (lx_i l2) (lx_i l2) (lx_b l2), l2)
      else
        let l3 = l2\<lparr>lx_node_count := lx_node_count l2 + 1\<rparr> in
        if lx_max_nodes l3 < lx_node_count l3 then Inl (LexerBudgetExceeded (lx_max_nodes l3))
        else Inr (scan_token l3))"

subsection \<open>Parameter expansions\<close>

datatype parameter_expansion_type =
    PE_Simple | PE_Length | DefaultValue | AssignDefault | Alternate | PE_Error | PrefixShort
  | PrefixLong | SuffixShort | SuffixLong | ReplaceFirst | ReplaceAll | Substring

definition classify_parameter_expansion :: "ustring \<Rightarrow> parameter_expansion_type" where
  "classify_parameter_expansion content =
     (if starts_with content (u ''#'') then PE_Length
      else if contains_sub content (u '':-'') then DefaultValue
      else if contains_sub content (u '':='') then AssignDefault
      else if contains_sub content (u '':+'') then Alternate
      else if contains_sub content (u '':?'') then PE_Error
      else if contains_sub content (u ''##'') then PrefixLong
      else if contains_sub content (u ''#'') then PrefixShort
      else if contains_sub content (u ''%%'') then SuffixLong
      else if contains_sub content (u ''%'') then SuffixShort
      else if contains_sub content (u ''//'') then ReplaceAll
      else if contains_sub content (u ''/'') then ReplaceFirst
      else PE_Simple)"

end
