(* ===== verification/Parser_Monad.thy ===== *)
theory Parser_Monad
  imports Bash_Lexer
begin

section \<open>The parser state and its monad\<close>

text \<open>
  \<open>struct BashParserCore\<close> of \<open>crates/zk-tools/src/bash/parser.rs\<close> and the operations on its tokens.
  A method \<open>fn f(&mut self) -> Result<A, ParseAbort>\<close> is a function from the state to an abort or a
  value and the new state; \<open>bnd\<close> is the \<open>?\<close> operator followed by the rest of the body.

  The clock is the environment's: \<open>ps_expired k\<close> says whether the \<open>k\<close>-th budget check of the run
  finds \<open>Instant::now() > deadline\<close>, and \<open>ps_ticks\<close> counts the checks made.
\<close>

record pstate =
  ps_lexer :: lexer
  ps_expired :: "nat \<Rightarrow> bool"
  ps_ticks :: nat
  ps_max_nodes :: nat
  ps_node_count :: nat
  ps_current :: token
  ps_depth :: nat

type_synonym 'a pm = "pstate \<Rightarrow> parse_abort + ('a \<times> pstate)"

definition MAX_NODES :: nat where "MAX_NODES = 50000"
definition MAX_COMMAND_LENGTH :: nat where "MAX_COMMAND_LENGTH = 10000"
definition MAX_DEPTH :: nat where "MAX_DEPTH = 256"

definition ret :: "'a \<Rightarrow> 'a pm" where
  "ret x s = Inr (x, s)"

definition fail :: "parse_abort \<Rightarrow> 'a pm" where
  "fail e s = Inl e"

definition bnd :: "'a pm \<Rightarrow> ('a \<Rightarrow> 'b pm) \<Rightarrow> 'b pm" where
  "bnd m f s = (case m s of Inl e \<Rightarrow> Inl e | Inr r \<Rightarrow> f (fst r) (snd r))"

definition gets :: "(pstate \<Rightarrow> 'a) \<Rightarrow> 'a pm" where
  "gets f s = Inr (f s, s)"

text \<open>
  Loops. \<open>while_pm\<close> runs the body while the test holds; the body returns whether to go on (\<open>False\<close>
  is \<open>break\<close>) and the new loop variables. The bound is what remains of the input and of the node
  budget when the loop is entered: every iteration of every loop of the parser consumes a token or
  spends a node, so the bound is never reached (theory \<open>Bash_Parser_Props\<close>).
\<close>

fun while_pm :: "nat \<Rightarrow> ('a \<Rightarrow> pstate \<Rightarrow> bool) \<Rightarrow> ('a \<Rightarrow> (bool \<times> 'a) pm) \<Rightarrow> 'a \<Rightarrow> 'a pm" where
  "while_pm n c b a s =
     (if n = 0 then Inl FuelExhausted
      else if c a s then
        (case b a s of
           Inl e \<Rightarrow> Inl e
         | Inr r \<Rightarrow>
             if fst (fst r) then while_pm (n - 1) c b (snd (fst r)) (snd r)
             else Inr (snd (fst r), snd r))
      else Inr (a, s))"

declare while_pm.simps [simp del]

definition tokens_left :: "pstate \<Rightarrow> nat" where
  "tokens_left s =
     (if is_eof (ps_current s) then 0 else Suc (lx_len (ps_lexer s) - lx_i (ps_lexer s)))"

definition work_left :: "pstate \<Rightarrow> nat" where
  "work_left s = tokens_left s + (ps_max_nodes s - ps_node_count s)"

definition loop :: "('a \<Rightarrow> pstate \<Rightarrow> bool) \<Rightarrow> ('a \<Rightarrow> (bool \<times> 'a) pm) \<Rightarrow> 'a \<Rightarrow> 'a pm" where
  "loop c b a s = while_pm (Suc (work_left s)) c b a s"

subsection \<open>Construction, budget and depth\<close>

definition parser_new :: "(nat \<Rightarrow> bool) \<Rightarrow> lexer \<Rightarrow> nat \<Rightarrow> parse_abort + pstate" where
  "parser_new expired l max_nodes =
     (case next_token l of
        Inl e \<Rightarrow> Inl e
      | Inr r \<Rightarrow> Inr \<lparr>ps_lexer = snd r, ps_expired = expired, ps_ticks = 0, ps_max_nodes = max_nodes,
          ps_node_count = 0, ps_current = fst r, ps_depth = 0\<rparr>)"

definition check_budget :: "unit pm" where
  "check_budget s =
     (if ps_expired s (ps_ticks s) then Inl ParserTimeout
      else
        let s' = s\<lparr>ps_ticks := ps_ticks s + 1, ps_node_count := ps_node_count s + 1\<rparr> in
        if ps_max_nodes s' < ps_node_count s' then Inl (ParserBudgetExceeded (ps_max_nodes s'))
        else Inr ((), s'))"

definition enter :: "unit pm" where
  "enter s =
     (let s' = s\<lparr>ps_depth := ps_depth s + 1\<rparr> in
      if MAX_DEPTH < ps_depth s' then Inl (ParserBudgetExceeded MAX_DEPTH) else Inr ((), s'))"

definition leave :: "unit pm" where
  "leave s = Inr ((), s\<lparr>ps_depth := ps_depth s - 1\<rparr>)"

text \<open>\<open>self.enter()?; let result = self.inner(); self.leave(); result\<close>.\<close>

definition with_depth :: "'a pm \<Rightarrow> 'a pm" where
  "with_depth m = bnd enter (\<lambda>_. bnd m (\<lambda>r. bnd leave (\<lambda>_. ret r)))"

subsection \<open>Tokens\<close>

definition consume :: "token pm" where
  "consume s =
     (case next_token (ps_lexer s) of
        Inl e \<Rightarrow> Inl e
      | Inr r \<Rightarrow> Inr (ps_current s, s\<lparr>ps_lexer := snd r, ps_current := fst r\<rparr>))"

definition cur_op :: "string \<Rightarrow> pstate \<Rightarrow> bool" where
  "cur_op op s = is_op (ps_current s) op"

definition cur_word :: "string \<Rightarrow> pstate \<Rightarrow> bool" where
  "cur_word w s = is_word (ps_current s) w"

definition cur_eof :: "pstate \<Rightarrow> bool" where
  "cur_eof s = is_eof (ps_current s)"

definition cur_type :: "pstate \<Rightarrow> token_type" where
  "cur_type s = token_type (ps_current s)"

definition cur_text :: "pstate \<Rightarrow> ustring" where
  "cur_text s = tok_text (ps_current s)"

definition consume_op :: "string \<Rightarrow> token option pm" where
  "consume_op op =
     bnd (gets (cur_op op)) (\<lambda>b. if b then bnd consume (\<lambda>t. ret (Some t)) else ret None)"

definition consume_keyword :: "string \<Rightarrow> token option pm" where
  "consume_keyword kw =
     bnd (gets (cur_word kw)) (\<lambda>b. if b then bnd consume (\<lambda>t. ret (Some t)) else ret None)"

definition skip_newlines :: "unit pm" where
  "skip_newlines =
     loop (\<lambda>_ s. cur_type s = Newline \<or> cur_type s = Comment)
       (\<lambda>_. bnd consume (\<lambda>_. ret (True, ()))) ()"

definition is_statement_terminator :: "pstate \<Rightarrow> bool" where
  "is_statement_terminator s =
     (cur_eof s \<or> cur_op '')'' s \<or> cur_op ''}'' s \<or>
      cur_text s \<in> set (map u [''then'', ''else'', ''elif'', ''fi'', ''do'', ''done'', ''esac'',
        '';;'', '';&'', '';;&'']))"

definition is_separator :: "pstate \<Rightarrow> bool" where
  "is_separator s =
     (cur_op '';'' s \<or> cur_op ''&'' s \<or> cur_type s = Newline \<or> cur_type s = Comment)"

definition REDIRECT_OPERATORS :: "string list" where
  "REDIRECT_OPERATORS =
     [''>'', ''>>'', ''<'', ''<<'', ''<<<'', ''>&'', ''<&'', ''&>'', ''&>>'', ''>|'', ''<<-'',
      ''>&-'', ''<&-'']"

definition is_redirect_operator :: "pstate \<Rightarrow> bool" where
  "is_redirect_operator s = (cur_type s = Op \<and> cur_text s \<in> set (map u REDIRECT_OPERATORS))"

definition is_word_token :: "pstate \<Rightarrow> bool" where
  "is_word_token s =
     (cur_type s \<in> {Word, Number, SQuote, DQuote, AnsiC, Dollar, DollarParen, DollarBrace,
        Backtick, ArithmeticExpansion})"

definition is_fd_redirect_start :: "pstate \<Rightarrow> bool" where
  "is_fd_redirect_start s =
     (cur_type s = Number \<and> current_char (ps_lexer s) \<in> {uc CHR ''>'', uc CHR ''<''})"

definition is_operator_token :: "pstate \<Rightarrow> bool" where
  "is_operator_token s =
     (cur_type s = Op \<and>
      cur_text s \<in> set (map u [''|'', ''||'', ''&&'', '';'', ''&'', ''|&'', ''('', '')'', ''{'',
        ''}'', ''[['', '']]'', '';;'', '';&'', '';;&'']))"

text \<open>\<open>NAME=value\<close>: the part before the first \<open>=\<close> is a non-empty name.\<close>

definition is_var_assignment :: "pstate \<Rightarrow> bool" where
  "is_var_assignment s =
     (cur_type s = Word \<and>
      (case find_unit (uc CHR ''='') (cur_text s) of
         None \<Rightarrow> False
       | Some eq \<Rightarrow> eq \<noteq> 0 \<and> is_name_start (cur_text s ! 0) \<and>
           list_all is_name_char (drop 1 (take eq (cur_text s)))))"

subsection \<open>Source slices\<close>

definition find_char_index :: "nat \<Rightarrow> pstate \<Rightarrow> nat" where
  "find_char_index byte_offset s = min byte_offset (lx_len (ps_lexer s))"

definition cur_start_byte :: "pstate \<Rightarrow> nat" where
  "cur_start_byte s = start_byte (ps_current s)"

definition cur_start_index :: "pstate \<Rightarrow> nat" where
  "cur_start_index s = start_index (ps_current s)"

text \<open>\<open>substring(start_i, find_char_index(end_b).min(source_length))\<close>, the raw text of most nodes.\<close>

definition raw_to_byte :: "nat \<Rightarrow> nat \<Rightarrow> pstate \<Rightarrow> ustring" where
  "raw_to_byte start_i end_b s =
     substring (ps_lexer s) start_i (min (find_char_index end_b s) (lx_len (ps_lexer s)))"

text \<open>The span of a node that ends where the current token starts.\<close>

definition span_here :: "nat \<Rightarrow> nat \<Rightarrow> span pm" where
  "span_here start_b start_i =
     gets (\<lambda>s. Span_new start_b (cur_start_byte s) (raw_to_byte start_i (cur_start_byte s) s))"

subsection \<open>Words\<close>

definition consume_word :: "ustring option pm" where
  "consume_word =
     bnd (gets is_word_token) (\<lambda>w.
       if \<not> w then ret None
       else
         bnd consume (\<lambda>t.
         bnd (loop (\<lambda>_ s. is_word_token s \<and> \<not> lx_ws_before (ps_lexer s))
                (\<lambda>sb. bnd consume (\<lambda>t. ret (True, sb @ tok_text t))) (tok_text t)) (\<lambda>sb.
         ret (Some sb))))"

definition parse_var_assignment :: "var_assignment option pm" where
  "parse_var_assignment =
     bnd (gets cur_text) (\<lambda>text.
     case find_unit (uc CHR ''='') text of
       None \<Rightarrow> ret None
     | Some eq \<Rightarrow>
         bnd consume (\<lambda>_.
         bnd (gets (\<lambda>s. drop (eq + 1) text = [] \<and> is_word_token s \<and>
                cur_type s \<in> {SQuote, DQuote, Dollar})) (\<lambda>more.
         if more then
           bnd consume_word (\<lambda>w.
             ret (Some \<lparr>va_name = take eq text, va_value = (case w of None \<Rightarrow> [] | Some v \<Rightarrow> v)\<rparr>))
         else ret (Some \<lparr>va_name = take eq text, va_value = drop (eq + 1) text\<rparr>))))"

text \<open>\<open>str::parse::<i32>().unwrap_or(-1)\<close> on a text of digits.\<close>

definition digits_value :: "ustring \<Rightarrow> nat" where
  "digits_value ds = foldl (\<lambda>n d. 10 * n + (d - 48)) 0 ds"

definition parse_fd :: "ustring \<Rightarrow> int" where
  "parse_fd text =
     (if is_all_digits text \<and> digits_value text \<le> 2147483647 then int (digits_value text) else -1)"

definition parse_redirect :: "redirect_node option pm" where
  "parse_redirect =
     bnd (gets (\<lambda>s. (cur_type s = Number, cur_text s))) (\<lambda>(num, text).
     bnd (if num then bnd consume (\<lambda>_. ret (parse_fd text)) else ret (-1)) (\<lambda>fd.
     bnd (gets is_redirect_operator) (\<lambda>redir.
     if \<not> redir then ret None
     else
       bnd consume (\<lambda>operator.
       bnd (gets (\<lambda>s. \<not> cur_eof s \<and> cur_type s \<noteq> Newline)) (\<lambda>has_target.
       bnd (if has_target then consume_word else ret (Some [])) (\<lambda>target.
       ret (Some \<lparr>rd_operator = tok_text operator,
              rd_target = (case target of None \<Rightarrow> [] | Some w \<Rightarrow> w), rd_fd = fd\<rparr>)))))))"

definition parse_too_complex :: "string \<Rightarrow> nat \<Rightarrow> nat \<Rightarrow> bash_node pm" where
  "parse_too_complex reason start_b start_i =
     bnd (loop (\<lambda>_ s. \<not> cur_eof s \<and> \<not> is_statement_terminator s \<and> cur_type s \<noteq> Newline \<and>
                 \<not> cur_op '';'' s)
            (\<lambda>_. bnd consume (\<lambda>_. ret (True, ()))) ()) (\<lambda>_.
     bnd (span_here start_b start_i) (\<lambda>sp.
     ret (TooComplexNode (u reason) sp)))"

end
