(* ===== verification/Bash_Parser.thy ===== *)
theory Bash_Parser
  imports Parser_Monad
begin

section \<open>The recursive-descent parser\<close>

text \<open>
  The grammar of \<open>crates/zk-tools/src/bash/parser.rs\<close>. Every cycle of the recursion passes through
  \<open>parse_command\<close> (or the \<open>elif\<close> chain), which enters one level of depth, so the other methods take
  the parser of commands one level down as the argument \<open>pcmd\<close>; \<open>parse_command\<close> ties the knot with
  a bound of \<open>MAX_DEPTH + 1\<close> levels.
\<close>

subsection \<open>Simple commands\<close>

text \<open>Step 1 and the redirections of step 3.\<close>

definition parse_leading_assignments :: "var_assignment list pm" where
  "parse_leading_assignments =
     loop (\<lambda>_ s. is_var_assignment s)
       (\<lambda>vs. bnd parse_var_assignment (\<lambda>v.
          ret (True, vs @ (case v of None \<Rightarrow> [] | Some va \<Rightarrow> [va])))) []"

definition parse_redirects :: "(pstate \<Rightarrow> bool) \<Rightarrow> redirect_node list pm" where
  "parse_redirects c =
     loop (\<lambda>_ s. c s)
       (\<lambda>rs. bnd parse_redirect (\<lambda>r.
          ret (True, rs @ (case r of None \<Rightarrow> [] | Some rd \<Rightarrow> [rd])))) []"

text \<open>
  Step 2: the words of the command. The loop variables are the assignments, the words and, once a
  dangerous token was met, the node the method returns at once.
\<close>

definition parse_command_words ::
    "nat \<Rightarrow> nat \<Rightarrow> var_assignment list \<Rightarrow>
       (var_assignment list \<times> ustring list \<times> bash_node option) pm" where
  "parse_command_words start_b start_i env0 =
     loop (\<lambda>_ s. \<not> cur_eof s \<and> \<not> is_statement_terminator s \<and> \<not> is_operator_token s \<and>
             \<not> is_redirect_operator s)
       (\<lambda>(env, argv, early).
          bnd (gets (\<lambda>s. is_var_assignment s \<and> argv = [])) (\<lambda>assign.
          if assign then
            bnd parse_var_assignment (\<lambda>v.
              ret (True, env @ (case v of None \<Rightarrow> [] | Some va \<Rightarrow> [va]), argv, early))
          else
            bnd (gets cur_type) (\<lambda>ty.
            if ty = DollarDParen \<or> ty = ArithmeticExpansion then
              bnd (parse_too_complex ''arithmetic_expansion'' start_b start_i) (\<lambda>n.
                ret (False, env, argv, Some n))
            else if ty = LtParen \<or> ty = GtParen \<or> ty = ProcessSubstitutionIn \<or>
                ty = ProcessSubstitutionOut then
              bnd (parse_too_complex ''process_substitution'' start_b start_i) (\<lambda>n.
                ret (False, env, argv, Some n))
            else
              bnd consume_word (\<lambda>w.
              case w of
                None \<Rightarrow> ret (False, env, argv, early)
              | Some word \<Rightarrow> ret (True, env, argv @ [word], early)))))
       (env0, [], None)"

definition parse_simple_command :: "bash_node option pm" where
  "parse_simple_command =
     bnd check_budget (\<lambda>_.
     bnd (gets (\<lambda>s. (cur_start_byte s, cur_start_index s))) (\<lambda>(start_b, start_i).
     bnd parse_leading_assignments (\<lambda>env0.
     bnd (parse_command_words start_b start_i env0) (\<lambda>(env_vars, argv, early).
     case early of
       Some n \<Rightarrow> ret (Some n)
     | None \<Rightarrow>
         bnd (parse_redirects is_redirect_operator) (\<lambda>redirects.
         if argv = [] \<and> env_vars = [] then ret None
         else
           bnd (span_here start_b start_i) (\<lambda>sp.
           if argv = [] \<and> length env_vars = 1 then
             ret (Some (VariableAssignment (va_name (env_vars ! 0)) (va_value (env_vars ! 0)) False sp))
           else
             ret (Some (SimpleCommand \<lparr>sc_argv = argv, sc_env_vars = env_vars,
                    sc_redirects = redirects, sc_span = sp\<rparr>))))))))"

text \<open>
  \<open>NAME() body\<close>, or a simple command after the lookahead is undone. \<open>restore_lex\<close> puts back the two
  positions only.
\<close>

definition restore_to :: "pstate \<Rightarrow> unit pm" where
  "restore_to saved s =
     Inr ((), s\<lparr>ps_lexer := restore_lex (ps_lexer s) (save_lex (ps_lexer saved)),
            ps_current := ps_current saved, ps_node_count := ps_node_count saved\<rparr>)"

definition parse_simple_command_or_function :: "bash_node option pm \<Rightarrow> bash_node option pm" where
  "parse_simple_command_or_function pcmd =
     bnd (gets (\<lambda>s. s)) (\<lambda>saved.
     bnd (if cur_type saved = Word then
            bnd consume (\<lambda>_.
            bnd (consume_op ''('') (\<lambda>opening.
            if opening = None then ret False
            else bnd (consume_op '')'') (\<lambda>closing. ret (closing \<noteq> None))))
          else ret False) (\<lambda>is_function.
     if is_function then
       bnd pcmd (\<lambda>body.
       bnd (span_here (cur_start_byte saved) (cur_start_index saved)) (\<lambda>sp.
       ret (Some (FunctionDef (cur_text saved) body sp))))
     else
       bnd (restore_to saved) (\<lambda>_. parse_simple_command)))"

subsection \<open>Pipelines, lists and statements\<close>

definition parse_pipeline :: "bash_node option pm \<Rightarrow> bash_node option pm" where
  "parse_pipeline pcmd =
     bnd check_budget (\<lambda>_.
     bnd (gets (\<lambda>s. (cur_start_byte s, cur_start_index s))) (\<lambda>(start_b, start_i).
     bnd (consume_op ''!'') (\<lambda>bang.
     bnd pcmd (\<lambda>first.
     case first of
       None \<Rightarrow> ret None
     | Some cmd \<Rightarrow>
         bnd (gets (\<lambda>s. cur_op ''|'' s \<or> cur_op ''|&'' s)) (\<lambda>piped.
         if \<not> piped then
           (if bang \<noteq> None then
              bnd (gets (raw_to_byte start_i (node_end_byte cmd))) (\<lambda>raw.
              ret (Some (NegatedCommand (Some cmd) (Span_new start_b (node_end_byte cmd) raw))))
            else ret (Some cmd))
         else
           bnd (loop (\<lambda>_ s. cur_op ''|'' s \<or> cur_op ''|&'' s)
                  (\<lambda>cmds.
                     bnd check_budget (\<lambda>_.
                     bnd consume (\<lambda>_.
                     bnd skip_newlines (\<lambda>_.
                     bnd pcmd (\<lambda>c.
                     case c of
                       None \<Rightarrow> ret (False, cmds)
                     | Some nxt \<Rightarrow> ret (True, cmds @ [nxt])))))) [cmd]) (\<lambda>commands.
           bnd (gets (raw_to_byte start_i (node_end_byte (last commands)))) (\<lambda>raw.
           ret (Some (Pipeline commands (bang \<noteq> None)
                  (Span_new start_b (node_end_byte (last commands)) raw)))))))))) "

definition parse_and_or :: "bash_node option pm \<Rightarrow> bash_node option pm" where
  "parse_and_or pcmd =
     bnd check_budget (\<lambda>_.
     bnd (parse_pipeline pcmd) (\<lambda>first.
     case first of
       None \<Rightarrow> ret None
     | Some left0 \<Rightarrow>
         bnd (loop (\<lambda>_ s. cur_op ''&&'' s \<or> cur_op ''||'' s)
                (\<lambda>left.
                   bnd check_budget (\<lambda>_.
                   bnd consume (\<lambda>operator.
                   bnd skip_newlines (\<lambda>_.
                   bnd (parse_pipeline pcmd) (\<lambda>r.
                   case r of
                     None \<Rightarrow> ret (False, left)
                   | Some right \<Rightarrow>
                       bnd (gets (\<lambda>s. raw_to_byte (find_char_index (node_start_byte left) s)
                              (node_end_byte right) s)) (\<lambda>raw.
                       ret (True, AndOr left (tok_text operator) right
                              (Span_new (node_start_byte left) (node_end_byte right) raw))))))))
                left0) (\<lambda>node. ret (Some node))))"

definition parse_statement_inner :: "bash_node option pm \<Rightarrow> statement_node option pm" where
  "parse_statement_inner pcmd =
     bnd (gets (\<lambda>s. (cur_start_byte s, cur_start_index s))) (\<lambda>(start_b, start_i).
     bnd (parse_and_or pcmd) (\<lambda>b.
     case b of
       None \<Rightarrow> ret None
     | Some body \<Rightarrow>
         bnd (gets (\<lambda>s. cur_op ''&'' s \<and> \<not> cur_op ''&&'' s \<and> cur_text s = u ''&'')) (\<lambda>bg.
         bnd (if bg then bnd consume (\<lambda>_. ret ()) else ret ()) (\<lambda>_.
         bnd (gets (\<lambda>s. Span_new start_b (cur_start_byte s)
                (substring (ps_lexer s) start_i
                   (min (cur_start_index s) (lx_len (ps_lexer s)))))) (\<lambda>sp.
         ret (Some (StatementNode body bg sp)))))))"

definition parse_statement :: "bash_node option pm \<Rightarrow> statement_node option pm" where
  "parse_statement pcmd = bnd check_budget (\<lambda>_. with_depth (parse_statement_inner pcmd))"

definition consume_separators :: "bool pm" where
  "consume_separators =
     loop (\<lambda>_ s. is_separator s) (\<lambda>_. bnd consume (\<lambda>_. ret (True, True))) False"

text \<open>The statement loop of \<open>parse_statements\<close> and of \<open>parse_inline_program\<close>.\<close>

definition statement_loop ::
    "bash_node option pm \<Rightarrow> (pstate \<Rightarrow> bool) \<Rightarrow> statement_node list pm" where
  "statement_loop pcmd stop =
     loop (\<lambda>_ s. \<not> cur_eof s \<and> \<not> stop s)
       (\<lambda>stmts.
          bnd check_budget (\<lambda>_.
          bnd (parse_statement pcmd) (\<lambda>st.
          bnd consume_separators (\<lambda>consumed.
          bnd (gets (\<lambda>s. \<not> consumed \<and> \<not> cur_eof s \<and> \<not> stop s)) (\<lambda>brk.
          ret (\<not> brk, stmts @ (case st of None \<Rightarrow> [] | Some x \<Rightarrow> [x])))))))
       []"

definition parse_statements :: "bash_node option pm \<Rightarrow> statement_node list pm" where
  "parse_statements pcmd =
     bnd skip_newlines (\<lambda>_. statement_loop pcmd is_statement_terminator)"

definition is_terminator :: "string list \<Rightarrow> pstate \<Rightarrow> bool" where
  "is_terminator terminators s = (cur_text s \<in> set (map u terminators))"

definition parse_inline_program :: "bash_node option pm \<Rightarrow> string list \<Rightarrow> program_node pm" where
  "parse_inline_program pcmd terminators =
     bnd (gets (\<lambda>s. (cur_start_byte s, cur_start_index s))) (\<lambda>(start_b, start_i).
     bnd skip_newlines (\<lambda>_.
     bnd (statement_loop pcmd (is_terminator terminators)) (\<lambda>stmts.
     bnd (span_here start_b start_i) (\<lambda>sp.
     ret (ProgramNode stmts sp)))))"

definition wrap_single_statement :: "bash_node \<Rightarrow> program_node" where
  "wrap_single_statement node =
     ProgramNode [StatementNode node False (node_span node)] (node_span node)"

subsection \<open>Control flow\<close>

text \<open>The part of \<open>parse_if\<close> and of the \<open>elif\<close> branch after their keyword; \<open>pelif\<close> is the chain.\<close>

definition parse_if_tail ::
    "bash_node option pm \<Rightarrow> bash_node pm \<Rightarrow> nat \<Rightarrow> nat \<Rightarrow> bash_node pm" where
  "parse_if_tail pcmd pelif start_b start_i =
     bnd skip_newlines (\<lambda>_.
     bnd (parse_inline_program pcmd [''then'']) (\<lambda>condition.
     bnd (consume_keyword ''then'') (\<lambda>_.
     bnd skip_newlines (\<lambda>_.
     bnd (parse_inline_program pcmd [''elif'', ''else'', ''fi'']) (\<lambda>then_body.
     bnd (consume_keyword ''elif'') (\<lambda>elif_kw.
     bnd (if elif_kw \<noteq> None then
            bnd pelif (\<lambda>nested. ret (Some (wrap_single_statement nested)))
          else
            bnd (consume_keyword ''else'') (\<lambda>else_kw.
            if else_kw \<noteq> None then
              bnd skip_newlines (\<lambda>_.
              bnd (parse_inline_program pcmd [''fi'']) (\<lambda>p. ret (Some p)))
            else ret None)) (\<lambda>else_body.
     bnd (consume_keyword ''fi'') (\<lambda>_.
     bnd (span_here start_b start_i) (\<lambda>sp.
     ret (If condition then_body else_body sp))))))))))"

fun parse_if_elif_branch :: "nat \<Rightarrow> bash_node option pm \<Rightarrow> bash_node pm" where
  "parse_if_elif_branch n pcmd =
     (if n = 0 then fail FuelExhausted
      else
        bnd check_budget (\<lambda>_.
        with_depth (
          bnd (gets (\<lambda>s. (cur_start_byte s, cur_start_index s))) (\<lambda>(start_b, start_i).
          parse_if_tail pcmd (parse_if_elif_branch (n - 1) pcmd) start_b start_i))))"

declare parse_if_elif_branch.simps [simp del]

definition parse_if :: "bash_node option pm \<Rightarrow> bash_node pm" where
  "parse_if pcmd =
     bnd check_budget (\<lambda>_.
     bnd (gets (\<lambda>s. (cur_start_byte s, cur_start_index s))) (\<lambda>(start_b, start_i).
     bnd (consume_keyword ''if'') (\<lambda>_.
     parse_if_tail pcmd (parse_if_elif_branch (Suc MAX_DEPTH) pcmd) start_b start_i)))"

definition parse_select :: "bash_node pm" where
  "parse_select =
     bnd (gets (\<lambda>s. (cur_start_byte s, cur_start_index s))) (\<lambda>(start_b, start_i).
     parse_too_complex ''select_statement'' start_b start_i)"

definition parse_while :: "bash_node option pm \<Rightarrow> bash_node pm" where
  "parse_while pcmd =
     bnd check_budget (\<lambda>_.
     bnd (gets (\<lambda>s. (cur_start_byte s, cur_start_index s))) (\<lambda>(start_b, start_i).
     bnd consume (\<lambda>kw.
     bnd skip_newlines (\<lambda>_.
     bnd (parse_inline_program pcmd [''do'']) (\<lambda>condition.
     bnd (consume_keyword ''do'') (\<lambda>_.
     bnd skip_newlines (\<lambda>_.
     bnd (parse_inline_program pcmd [''done'']) (\<lambda>body.
     bnd (consume_keyword ''done'') (\<lambda>_.
     bnd (span_here start_b start_i) (\<lambda>sp.
     ret (While condition body (tok_text kw = u ''until'') sp)))))))))))"

text \<open>The word list after \<open>in\<close>.\<close>

definition parse_for_words :: "ustring list pm" where
  "parse_for_words =
     loop (\<lambda>_ s. \<not> cur_eof s \<and> \<not> cur_op '';'' s \<and> cur_type s \<noteq> Newline \<and> \<not> cur_word ''do'' s)
       (\<lambda>ws. bnd consume_word (\<lambda>w.
          case w of None \<Rightarrow> ret (False, ws) | Some x \<Rightarrow> ret (True, ws @ [x]))) []"

definition parse_for :: "bash_node option pm \<Rightarrow> bash_node pm" where
  "parse_for pcmd =
     bnd check_budget (\<lambda>_.
     bnd (gets (\<lambda>s. (cur_start_byte s, cur_start_index s))) (\<lambda>(start_b, start_i).
     bnd (consume_keyword ''for'') (\<lambda>_.
     bnd skip_newlines (\<lambda>_.
     bnd (gets (cur_op ''(('')) (\<lambda>c_style.
     if c_style then parse_too_complex ''c_style_for_statement'' start_b start_i
     else
       bnd consume (\<lambda>var_tok.
       bnd skip_newlines (\<lambda>_.
       bnd (consume_keyword ''in'') (\<lambda>in_kw.
       bnd (if in_kw \<noteq> None then parse_for_words else ret []) (\<lambda>words.
       bnd (consume_op '';'') (\<lambda>_.
       bnd skip_newlines (\<lambda>_.
       bnd (consume_keyword ''do'') (\<lambda>_.
       bnd skip_newlines (\<lambda>_.
       bnd (parse_inline_program pcmd [''done'']) (\<lambda>body.
       bnd (consume_keyword ''done'') (\<lambda>_.
       bnd (span_here start_b start_i) (\<lambda>sp.
       ret (For (tok_text var_tok) words body sp)))))))))))))))))"

definition parse_case_patterns :: "ustring list pm" where
  "parse_case_patterns =
     bnd consume_word (\<lambda>p.
     loop (\<lambda>_ s. cur_op ''|'' s)
       (\<lambda>ps. bnd consume (\<lambda>_. bnd consume_word (\<lambda>q.
          ret (True, ps @ (case q of None \<Rightarrow> [] | Some x \<Rightarrow> [x])))))
       (case p of None \<Rightarrow> [] | Some x \<Rightarrow> [x]))"

definition parse_case_item :: "bash_node option pm \<Rightarrow> case_item pm" where
  "parse_case_item pcmd =
     bnd check_budget (\<lambda>_.
     bnd skip_newlines (\<lambda>_.
     bnd (consume_op ''('') (\<lambda>_.
     bnd parse_case_patterns (\<lambda>pats.
     bnd (consume_op '')'') (\<lambda>_.
     bnd skip_newlines (\<lambda>_.
     bnd (parse_inline_program pcmd ['';;'', '';&'', '';;&'', ''esac'']) (\<lambda>body.
     bnd (gets (\<lambda>s. cur_op '';;'' s \<or> cur_op '';&'' s \<or> cur_op '';;&'' s)) (\<lambda>end_op.
     bnd (if end_op then bnd consume (\<lambda>_. ret ()) else ret ()) (\<lambda>_.
     ret (CaseItem pats body))))))))))"

definition parse_case :: "bash_node option pm \<Rightarrow> bash_node pm" where
  "parse_case pcmd =
     bnd check_budget (\<lambda>_.
     bnd (gets (\<lambda>s. (cur_start_byte s, cur_start_index s))) (\<lambda>(start_b, start_i).
     bnd (consume_keyword ''case'') (\<lambda>_.
     bnd consume_word (\<lambda>word.
     bnd (consume_keyword ''in'') (\<lambda>_.
     bnd skip_newlines (\<lambda>_.
     bnd (loop (\<lambda>_ s. \<not> cur_eof s \<and> \<not> cur_word ''esac'' s)
            (\<lambda>items.
               bnd check_budget (\<lambda>_.
               bnd (parse_case_item pcmd) (\<lambda>item.
               bnd skip_newlines (\<lambda>_.
               ret (True, items @ [item]))))) []) (\<lambda>items.
     bnd (consume_keyword ''esac'') (\<lambda>_.
     bnd (span_here start_b start_i) (\<lambda>sp.
     ret (Case (case word of None \<Rightarrow> [] | Some w \<Rightarrow> w) items sp))))))))))"

definition parse_function :: "bash_node option pm \<Rightarrow> bash_node pm" where
  "parse_function pcmd =
     bnd check_budget (\<lambda>_.
     bnd (gets (\<lambda>s. (cur_start_byte s, cur_start_index s))) (\<lambda>(start_b, start_i).
     bnd (consume_keyword ''function'') (\<lambda>_.
     bnd consume (\<lambda>name_tok.
     bnd (consume_op ''('') (\<lambda>opening.
     bnd (if opening \<noteq> None then bnd (consume_op '')'') (\<lambda>_. ret ()) else ret ()) (\<lambda>_.
     bnd skip_newlines (\<lambda>_.
     bnd pcmd (\<lambda>body.
     bnd (span_here start_b start_i) (\<lambda>sp.
     ret (FunctionDef (tok_text name_tok) body sp))))))))))"

definition parse_declaration :: "bash_node pm" where
  "parse_declaration =
     bnd check_budget (\<lambda>_.
     bnd (gets (\<lambda>s. (cur_start_byte s, cur_start_index s))) (\<lambda>(start_b, start_i).
     bnd consume (\<lambda>kw.
     bnd (loop (\<lambda>_ s. \<not> cur_eof s \<and> \<not> is_statement_terminator s \<and> \<not> is_operator_token s \<and>
                 \<not> is_redirect_operator s)
            (\<lambda>(argv, assignments).
               bnd (gets is_var_assignment) (\<lambda>assign.
               if assign then
                 bnd parse_var_assignment (\<lambda>v.
                   ret (True, argv, assignments @ (case v of None \<Rightarrow> [] | Some va \<Rightarrow> [va])))
               else
                 bnd consume_word (\<lambda>w.
                 case w of
                   None \<Rightarrow> ret (False, argv, assignments)
                 | Some x \<Rightarrow> ret (True, argv @ [x], assignments))))
            ([tok_text kw], [])) (\<lambda>(argv, assignments).
     bnd (span_here start_b start_i) (\<lambda>sp.
     ret (DeclarationCommand (tok_text kw) argv assignments sp))))))"

subsection \<open>Compound commands\<close>

definition parse_subshell :: "bash_node option pm \<Rightarrow> bash_node pm" where
  "parse_subshell pcmd =
     bnd check_budget (\<lambda>_.
     bnd (gets (\<lambda>s. (cur_start_byte s, cur_start_index s))) (\<lambda>(start_b, start_i).
     bnd (consume_op ''('') (\<lambda>_.
     bnd skip_newlines (\<lambda>_.
     bnd (parse_inline_program pcmd ['')'']) (\<lambda>body.
     bnd (consume_op '')'') (\<lambda>_.
     bnd (span_here start_b start_i) (\<lambda>sp.
     ret (Subshell body sp))))))))"

definition parse_brace_group :: "bash_node option pm \<Rightarrow> bash_node pm" where
  "parse_brace_group pcmd =
     bnd check_budget (\<lambda>_.
     bnd (gets (\<lambda>s. (cur_start_byte s, cur_start_index s))) (\<lambda>(start_b, start_i).
     bnd (consume_op ''{'') (\<lambda>_.
     bnd skip_newlines (\<lambda>_.
     bnd (parse_inline_program pcmd [''}'']) (\<lambda>body.
     bnd (consume_op ''}'') (\<lambda>_.
     bnd (span_here start_b start_i) (\<lambda>sp.
     ret (BraceGroup body sp))))))))"

definition parse_test_command :: "bash_node pm" where
  "parse_test_command =
     bnd check_budget (\<lambda>_.
     bnd (gets (\<lambda>s. (cur_start_byte s, cur_start_index s))) (\<lambda>(start_b, start_i).
     bnd (gets (cur_op ''[['')) (\<lambda>is_double.
     bnd consume (\<lambda>_.
     let closer = (if is_double then u '']]'' else u '']'') in
     bnd (loop (\<lambda>_ s. \<not> cur_eof s \<and> cur_text s \<noteq> closer)
            (\<lambda>argv.
               bnd consume_word (\<lambda>w.
               case w of
                 Some x \<Rightarrow> ret (True, argv @ [x])
               | None \<Rightarrow>
                   bnd (gets (\<lambda>s. cur_type s = Op)) (\<lambda>op.
                   if op then bnd consume (\<lambda>t. ret (True, argv @ [tok_text t]))
                   else ret (False, argv)))) []) (\<lambda>argv.
     bnd (gets (\<lambda>s. cur_text s = closer)) (\<lambda>closed.
     bnd (if closed then bnd consume (\<lambda>_. ret ()) else ret ()) (\<lambda>_.
     bnd (span_here start_b start_i) (\<lambda>sp.
     ret (TestCommand argv sp)))))))))"

definition parse_negated :: "bash_node option pm \<Rightarrow> bash_node pm" where
  "parse_negated pcmd =
     bnd check_budget (\<lambda>_.
     bnd (gets (\<lambda>s. (cur_start_byte s, cur_start_index s))) (\<lambda>(start_b, start_i).
     bnd (consume_op ''!'') (\<lambda>_.
     bnd pcmd (\<lambda>body.
     bnd (gets (\<lambda>s. case body of None \<Rightarrow> cur_start_byte s | Some b \<Rightarrow> node_end_byte b)) (\<lambda>end_b.
     bnd (gets (raw_to_byte start_i end_b)) (\<lambda>raw.
     ret (NegatedCommand body (Span_new start_b end_b raw))))))))"

definition wrap_with_redirects :: "bash_node \<Rightarrow> bash_node pm" where
  "wrap_with_redirects body =
     bnd (parse_redirects (\<lambda>s. is_redirect_operator s \<or> is_fd_redirect_start s)) (\<lambda>redirects.
     if redirects = [] then ret body
     else
       bnd (gets (\<lambda>s. Span_new (node_start_byte body) (cur_start_byte s)
              (raw_to_byte (find_char_index (node_start_byte body) s) (cur_start_byte s) s))) (\<lambda>sp.
       ret (RedirectedStatement body redirects sp)))"

subsection \<open>Commands\<close>

definition some_compound :: "bash_node pm \<Rightarrow> (bash_node option \<times> bool) pm" where
  "some_compound m = bnd m (\<lambda>n. ret (Some n, True))"

text \<open>The match on a keyword in word position.\<close>

definition parse_keyword_command :: "bash_node option pm \<Rightarrow> ustring \<Rightarrow> (bash_node option \<times> bool) pm" where
  "parse_keyword_command pcmd text =
     (if text = u ''if'' then some_compound (parse_if pcmd)
      else if text = u ''while'' \<or> text = u ''until'' then some_compound (parse_while pcmd)
      else if text = u ''for'' then some_compound (parse_for pcmd)
      else if text = u ''case'' then some_compound (parse_case pcmd)
      else if text = u ''select'' then some_compound parse_select
      else if text = u ''function'' then some_compound (parse_function pcmd)
      else if text \<in> set (map u DECL_KEYWORDS) then
        bnd parse_declaration (\<lambda>n. ret (Some n, False))
      else
        bnd (parse_simple_command_or_function pcmd) (\<lambda>r.
          ret (r, case r of Some (FunctionDef _ _ _) \<Rightarrow> True | _ \<Rightarrow> False)))"

text \<open>\<open>if result.is_none() && test { result = Some(m); is_compound |= flag }\<close>.\<close>

definition or_try ::
    "(pstate \<Rightarrow> bool) \<Rightarrow> bash_node pm \<Rightarrow> bool \<Rightarrow> bash_node option \<times> bool \<Rightarrow> (bash_node option \<times> bool) pm"
  where
  "or_try test m flag r =
     bnd (gets test) (\<lambda>b.
     if fst r = None \<and> b then bnd m (\<lambda>n. ret (Some n, snd r \<or> flag)) else ret r)"

definition parse_command_inner :: "bash_node option pm \<Rightarrow> bash_node option pm" where
  "parse_command_inner pcmd =
     bnd (gets (\<lambda>s. cur_eof s \<or> is_statement_terminator s)) (\<lambda>stop.
     if stop then ret None
     else
       bnd (gets (\<lambda>s. (cur_type s = Word, cur_text s))) (\<lambda>(is_w, text).
       bnd (if is_w then parse_keyword_command pcmd text else ret (None, False)) (\<lambda>r1.
       bnd (or_try (cur_op ''('') (parse_subshell pcmd) True r1) (\<lambda>r2.
       bnd (or_try (cur_op ''{'') (parse_brace_group pcmd) True r2) (\<lambda>r3.
       bnd (or_try (\<lambda>s. cur_op ''[['' s \<or> cur_op ''['' s) parse_test_command True r3) (\<lambda>r4.
       bnd (or_try (cur_op ''!'') (parse_negated pcmd) False r4) (\<lambda>r5.
       bnd (if fst r5 = None then bnd parse_simple_command (\<lambda>n. ret (n, snd r5)) else ret r5)
         (\<lambda>(result, is_compound).
       case result of
         None \<Rightarrow> ret None
       | Some node \<Rightarrow>
           bnd (gets (\<lambda>s. is_compound \<and> (is_redirect_operator s \<or> is_fd_redirect_start s))) (\<lambda>wrap.
           if wrap then bnd (wrap_with_redirects node) (\<lambda>n. ret (Some n))
           else ret (Some node))))))))))"

fun parse_command :: "nat \<Rightarrow> bash_node option pm" where
  "parse_command n =
     (if n = 0 then fail FuelExhausted
      else bnd check_budget (\<lambda>_. with_depth (parse_command_inner (parse_command (n - 1)))))"

declare parse_command.simps [simp del]

subsection \<open>Programs\<close>

definition parse_program :: "program_node pm" where
  "parse_program =
     bnd check_budget (\<lambda>_.
     bnd (gets (\<lambda>s. (cur_start_byte s, cur_start_index s))) (\<lambda>(start_b, start_i).
     bnd (parse_statements (parse_command (Suc MAX_DEPTH))) (\<lambda>stmts.
     bnd (gets (\<lambda>s. Span_new start_b (cur_start_byte s)
            (substring (ps_lexer s) start_i (cur_start_index s)))) (\<lambda>sp.
     ret (ProgramNode stmts sp)))))"

text \<open>The entry point; \<open>expired\<close> is the clock. Any abort is \<open>None\<close>.\<close>

definition run_parser :: "(nat \<Rightarrow> bool) \<Rightarrow> ustring \<Rightarrow> parse_abort + (program_node \<times> pstate)" where
  "run_parser expired source =
     (case parser_new expired (lexer_new source MAX_NODES) MAX_NODES of
        Inl e \<Rightarrow> Inl e
      | Inr s \<Rightarrow> parse_program s)"

definition parse :: "(nat \<Rightarrow> bool) \<Rightarrow> ustring \<Rightarrow> program_node option" where
  "parse expired source =
     (if source = [] then Some (ProgramNode [] (Span_new 0 0 []))
      else if MAX_COMMAND_LENGTH < length source then None
      else map_option fst (ok_part (run_parser expired source)))"

end
