(* ===== verification/Bash_Lexer_Props.thy ===== *)
theory Bash_Lexer_Props
  imports Bash_Lexer
begin

section \<open>What the lexer guarantees\<close>

text \<open>
  The scanners only move forward through \<open>advance\<close>; the relation \<open>moved\<close> records that, and the
  locale \<open>scanner_invariant\<close> turns any fact kept by \<open>advance\<close> into a fact kept by \<open>next_token\<close>.
  From it follow that the byte offset is the UTF-8 length of the text before the index, that every
  token but the last makes progress, and that a token stream tiles the source.
\<close>

subsection \<open>Evaluation\<close>

named_theorems lexer_eval \<open>equations that run the lexer on a concrete source\<close>

lemma is_3_char_op_eval [lexer_eval]:
  "is_3_char_op op = (op \<in> {[59,59,38], [60,60,45], [60,60,60], [62,38,45], [60,38,45],
     [38,62,62], [36,40,40]})"
  by (simp add: is_3_char_op_def)

lemma is_2_char_op_eval [lexer_eval]:
  "is_2_char_op op = (op \<in> {[38,38], [124,124], [124,38], [59,59], [59,38], [62,62], [62,38],
     [62,124], [38,62], [60,60], [60,38], [60,40], [62,40], [40,40], [41,41], [36,40], [36,123],
     [91,91]})"
  by (simp add: is_2_char_op_def)

lemma is_1_char_op_eval [lexer_eval]:
  "is_1_char_op ch = (ch \<in> {124,38,59,62,60,40,41,91,123,125,33})"
  by (simp add: is_1_char_op_def)

lemma is_operator_char_eval [lexer_eval]:
  "is_operator_char ch = (ch \<in> {124,38,59,62,60,40,41})"
  by (simp add: is_operator_char_def)

lemma cmd_start_keywords_eval [lexer_eval]:
  "map u CMD_START_KEYWORDS = [[105,102], [101,108,105,102], [116,104,101,110], [101,108,115,101],
     [119,104,105,108,101], [117,110,116,105,108], [100,111], [102,105], [100,111,110,101],
     [101,115,97,99]]"
  by (simp add: CMD_START_KEYWORDS_def)

lemma update_cmd_start_eval [lexer_eval]:
  "update_cmd_start_after_op op l = l\<lparr>lx_cmd_start := op \<in> {[124], [38,38], [124,124], [59],
     [59,38], [59,59,38], [124,38], [40], [41], [41,41], [123], [33], [91,91], [59,59]}\<rparr>"
  by (simp add: update_cmd_start_after_op_def)

lemmas [lexer_eval] =
  lexer_new_def next_token_def scan_token_def skip_blanks.simps advance_while.simps
  dquote_loop.simps ansi_c_loop.simps arith_loop.simps param_loop.simps proc_loop.simps
  word_loop.simps advance_def advance_n_def char_at_def peek_def current_char_def NON_ASCII_def
  make_token_def substring_def scan_comment_def scan_single_quote_def scan_double_quote_def
  scan_ansi_c_quote_def lex_arithmetic_expansion_def lex_parameter_expansion_def
  lex_process_substitution_def scan_dollar_def try_scan_operator_def scan_word_def
  is_all_digits_def is_digit_def is_high_def is_low_def SPECIAL_VARS_def is_name_start_def
  is_name_char_def Let_def

subsection \<open>Moving forward\<close>

inductive moved :: "lexer \<Rightarrow> lexer \<Rightarrow> bool" where
  moved_refl [intro]: "moved l l"
| moved_advance [intro]: "moved l l' \<Longrightarrow> moved l (advance l')"
| moved_cmd_start [intro]: "moved l l' \<Longrightarrow> moved l (l'\<lparr>lx_cmd_start := c\<rparr>)"
| moved_ws_before [intro]: "moved l l' \<Longrightarrow> moved l (l'\<lparr>lx_ws_before := w\<rparr>)"

lemma moved_trans [trans]: "moved l l' \<Longrightarrow> moved l' l'' \<Longrightarrow> moved l l''"
  by (rotate_tac, induction rule: moved.induct) auto

lemma moved_frame:
  "moved l l' \<Longrightarrow> lx_units l' = lx_units l \<and> lx_node_count l' = lx_node_count l \<and>
     lx_max_nodes l' = lx_max_nodes l \<and> lx_i l \<le> lx_i l' \<and> lx_b l \<le> lx_b l'"
  by (induction rule: moved.induct)
    (auto intro: order_trans [OF _ advance_i_mono] order_trans [OF _ advance_b_mono])

lemma moved_if: "(c \<Longrightarrow> moved l a) \<Longrightarrow> (\<not> c \<Longrightarrow> moved l b) \<Longrightarrow> moved l (if c then a else b)"
  by simp

text \<open>Two ways to chain: the loop starts from a lexer reached by one or two advances.\<close>

lemma moved_step: "moved (advance l) l' \<Longrightarrow> moved l l'"
  by (rule moved_trans [rotated]) auto

lemma moved_step2: "moved (advance (advance l)) l' \<Longrightarrow> moved l l'"
  by (rule moved_trans [rotated]) auto

lemma moved_step_opt: "moved (if c then advance (advance l) else advance l) l' \<Longrightarrow> moved l l'"
  by (cases c) (auto intro: moved_step moved_step2)

lemmas moved_steps = moved_step moved_step2 moved_step_opt

lemma moved_advance_while: "moved l (advance_while p l)"
proof (induction p l rule: advance_while.induct)
  case (1 p l)
  then show ?case
    by (subst advance_while.simps) (auto intro: moved_step)
qed

lemma moved_skip_blanks: "moved l (skip_blanks l)"
proof (induction l rule: skip_blanks.induct)
  case (1 l)
  then show ?case
    by (subst skip_blanks.simps) (auto simp: Let_def intro: moved_step moved_step2)
qed

lemma moved_dquote_loop: "moved l (dquote_loop d l)"
proof (induction d l rule: dquote_loop.induct)
  case (1 d l)
  then show ?case
    by (subst dquote_loop.simps, cases "char_at l (lx_i l) = BSL")
      (auto simp: Let_def intro: moved_step moved_step2)
qed

lemma moved_ansi_c_loop: "moved l (ansi_c_loop l)"
proof (induction l rule: ansi_c_loop.induct)
  case (1 l)
  then show ?case
    by (subst ansi_c_loop.simps, cases "char_at l (lx_i l) = BSL")
      (auto simp: Let_def intro: moved_step moved_step2)
qed

lemma moved_arith_loop: "moved l (arith_loop d l)"
proof (induction d l rule: arith_loop.induct)
  case (1 d l)
  then show ?case
    by (subst arith_loop.simps) (auto simp: Let_def intro: moved_step moved_step2)
qed

lemma moved_param_loop: "moved l (param_loop d l)"
proof (induction d l rule: param_loop.induct)
  case (1 d l)
  then show ?case
    by (subst param_loop.simps, cases "char_at l (lx_i l) = BSL")
      (auto simp: Let_def intro: moved_step moved_step2)
qed

lemma moved_proc_loop: "moved l (proc_loop d l)"
proof (induction d l rule: proc_loop.induct)
  case (1 d l)
  then show ?case
    by (subst proc_loop.simps) (auto simp: Let_def intro: moved_step moved_step2)
qed

lemma moved_word_loop: "moved l (word_loop l)"
proof (induction l rule: word_loop.induct)
  case (1 l)
  then show ?case
    by (subst word_loop.simps, cases "char_at l (lx_i l) = BSL")
      (auto simp: Let_def intro: moved_step moved_step2)
qed

lemmas moved_loops = moved_advance_while moved_skip_blanks moved_dquote_loop moved_ansi_c_loop
  moved_arith_loop moved_param_loop moved_proc_loop moved_word_loop

subsection \<open>ASCII characters\<close>

lemma char_at_ascii: "char_at l i < 0x80 \<Longrightarrow> lx_units l ! i = char_at l i"
  by (simp add: char_at_def NON_ASCII_def Let_def split: if_splits)

lemma char_at_advance [simp]: "char_at (advance l) i = char_at l i"
  by (simp add: char_at_def)

lemma advance_ascii:
  "lx_i l < lx_len l \<Longrightarrow> char_at l (lx_i l) < 0x80 \<Longrightarrow>
     lx_i (advance l) = lx_i l + 1 \<and> lx_b (advance l) = lx_b l + 1"
  using char_at_ascii [of l "lx_i l"] by (simp add: advance_def Let_def)

lemma peek_ascii:
  "peek l k = c \<Longrightarrow> c \<noteq> NUL \<Longrightarrow> lx_i l + k < lx_len l \<and> char_at l (lx_i l + k) = c"
  by (auto simp: peek_def Let_def split: if_splits)

lemma substring_ascii:
  assumes "i + n \<le> lx_len l" "\<forall>k < n. char_at l (i + k) < 0x80"
  shows "substring l i (i + n) = map (\<lambda>k. char_at l (i + k)) [0..<n]"
proof -
  have "take n (drop i (lx_units l)) = map (\<lambda>k. char_at l (i + k)) [0..<n]"
    using assms by (auto intro!: nth_equalityI simp: char_at_ascii)
  moreover from this have "\<forall>x \<in> set (take n (drop i (lx_units l))). x < 0x80"
    using assms(2) by auto
  ultimately show ?thesis
    using assms(1) by (simp add: substring_def from_utf16_lossy_ascii Let_def)
qed

lemma substring_one:
  "i < lx_len l \<Longrightarrow> char_at l i < 0x80 \<Longrightarrow> substring l i (Suc i) = [char_at l i]"
  using substring_ascii [of i 1 l] by simp

lemma substring_two:
  "i + 1 < lx_len l \<Longrightarrow> char_at l i < 0x80 \<Longrightarrow> char_at l (i + 1) < 0x80 \<Longrightarrow>
     substring l i (Suc (Suc i)) = [char_at l i, char_at l (i + 1)]"
  using substring_ascii [of i 2 l] by (simp add: upt_rec numeral_2_eq_2 less_Suc_eq)

lemma substring_three:
  "i + 2 < lx_len l \<Longrightarrow> char_at l i < 0x80 \<Longrightarrow> char_at l (i + 1) < 0x80 \<Longrightarrow>
     char_at l (i + 2) < 0x80 \<Longrightarrow>
     substring l i (Suc (Suc (Suc i))) = [char_at l i, char_at l (i + 1), char_at l (i + 2)]"
  using substring_ascii [of i 3 l]
  by (simp add: upt_rec numeral_2_eq_2 numeral_3_eq_3 less_Suc_eq)

lemma substring_cmd_start [simp]: "substring (l\<lparr>lx_cmd_start := c\<rparr>) a b = substring l a b"
  by (simp add: substring_def)

lemma substring_advance [simp]: "substring (advance l) a b = substring l a b"
  by (simp add: substring_def)

lemma substring_moved: "moved l l' \<Longrightarrow> substring l' a b = substring l a b"
  using moved_frame [of l l'] by (simp add: substring_def)

subsection \<open>Every scanner returns the text it passed over\<close>

definition scans_from :: "nat \<Rightarrow> nat \<Rightarrow> lexer \<Rightarrow> token \<times> lexer \<Rightarrow> bool" where
  "scans_from si sb l r \<longleftrightarrow>
     moved l (snd r) \<and> start_index (fst r) = si \<and> start_byte (fst r) = sb \<and>
     end_index (fst r) = lx_i (snd r) \<and> end_byte (fst r) = lx_b (snd r) \<and>
     tok_text (fst r) = substring (snd r) si (lx_i (snd r)) \<and> token_type (fst r) \<noteq> Eof"

lemma scans_from_make:
  assumes "moved l l'" "text = substring l' si (lx_i l')" "ty \<noteq> Eof"
  shows "scans_from si sb l (make_token l' ty text si (lx_i l') sb, l')"
  using assms by (simp add: scans_from_def make_token_def)

lemma scans_from_moved:
  "scans_from si sb l' r \<Longrightarrow> moved l l' \<Longrightarrow> scans_from si sb l r"
  by (auto simp: scans_from_def intro: moved_trans)

lemma scans_from_if:
  "(c \<Longrightarrow> scans_from si sb l a) \<Longrightarrow> (\<not> c \<Longrightarrow> scans_from si sb l b) \<Longrightarrow>
     scans_from si sb l (if c then a else b)"
  by simp

lemma moved_advance1: "moved l (advance l)"
  by auto

lemma scans_comment: "scans_from si sb l (scan_comment si sb l)"
  unfolding scan_comment_def Let_def
  by (rule scans_from_make) (simp_all add: moved_cmd_start moved_advance_while)

lemma scans_single_quote: "scans_from si sb l (scan_single_quote si sb l)"
proof -
  have m: "moved l (advance_while p (advance l))" for p
    by (rule moved_step [OF moved_advance_while])
  show ?thesis
    unfolding scan_single_quote_def Let_def
    by (rule scans_from_make) (simp_all add: moved_cmd_start moved_advance m)
qed

lemma scans_double_quote: "scans_from si sb l (scan_double_quote si sb l)"
  unfolding scan_double_quote_def Let_def
  by (rule scans_from_make) (simp_all add: moved_cmd_start moved_step [OF moved_dquote_loop])

lemma scans_ansi_c_quote: "scans_from si sb l (scan_ansi_c_quote si sb l)"
  unfolding scan_ansi_c_quote_def Let_def
  by (rule scans_from_make) (simp_all add: moved_cmd_start moved_step2 [OF moved_ansi_c_loop])

lemma scans_arithmetic: "scans_from si sb l (lex_arithmetic_expansion si sb l)"
  unfolding lex_arithmetic_expansion_def Let_def
  by (rule scans_from_make) (simp_all add: moved_cmd_start moved_step2 [OF moved_arith_loop])

lemma scans_parameter: "scans_from si sb l (lex_parameter_expansion si sb l)"
  unfolding lex_parameter_expansion_def Let_def
  by (rule scans_from_make) (simp_all add: moved_cmd_start moved_step [OF moved_param_loop])

lemma scans_process: "scans_from si sb l (lex_process_substitution si sb l)"
  unfolding lex_process_substitution_def Let_def
  by (rule scans_from_make) (simp_all add: moved_cmd_start moved_step2 [OF moved_proc_loop])

lemma scans_word: "scans_from si sb l (scan_word si sb l)"
  unfolding scan_word_def Let_def
  by (rule scans_from_make) (simp_all add: moved_cmd_start moved_word_loop)

text \<open>The scanner of \<open>$\<close> starts one character further.\<close>

lemma scans_dollar:
  assumes "lx_i l < lx_len l" "char_at l (lx_i l) = uc CHR ''$''"
  shows "scans_from (lx_i l) sb l (scan_dollar (lx_i l) sb l)"
proof -
  have i1: "lx_i (advance l) = Suc (lx_i l)"
    using advance_ascii [OF assms(1)] assms(2) by simp
  have dollar: "substring l (lx_i l) (Suc (lx_i l)) = [36]"
    using substring_one [OF assms(1)] assms(2) by simp
  have paren: "substring l (lx_i l) (lx_i (advance (advance l))) = [36, 40]"
    if "lx_i (advance l) < lx_len l" "char_at l (lx_i (advance l)) = 40"
    using that advance_ascii [of "advance l"] substring_two [of "lx_i l" l] assms(2) i1 by simp
  have m: "moved l (advance_while is_name_char (advance l))"
    by (rule moved_step [OF moved_advance_while])
  note scans_sub = scans_from_moved [OF _ moved_advance1]
  show ?thesis
    unfolding scan_dollar_def Let_def
    by (intro scans_from_if scans_sub [OF scans_arithmetic] scans_sub [OF scans_parameter]
        scans_from_make)
      (simp_all add: moved_cmd_start moved_advance moved_advance1 m dollar i1 paren)
qed

subsection \<open>Operators and the dispatch\<close>

lemma advance_n_ascii:
  "lx_i l + n \<le> lx_len l \<Longrightarrow> \<forall>k < n. char_at l (lx_i l + k) < 0x80 \<Longrightarrow>
     moved l (advance_n n l) \<and> lx_units (advance_n n l) = lx_units l \<and>
     lx_i (advance_n n l) = lx_i l + n \<and> lx_b (advance_n n l) = lx_b l + n"
proof (induction n)
  case 0
  then show ?case by (auto simp: advance_n_def)
next
  case (Suc n)
  then have IH: "moved l (advance_n n l)" "lx_units (advance_n n l) = lx_units l"
      "lx_i (advance_n n l) = lx_i l + n" "lx_b (advance_n n l) = lx_b l + n"
    by simp_all
  have "char_at (advance_n n l) (lx_i l + n) = char_at l (lx_i l + n)"
    using IH(2) by (simp add: char_at_def)
  then have "lx_i (advance (advance_n n l)) = lx_i l + n + 1
      \<and> lx_b (advance (advance_n n l)) = lx_b l + n + 1"
    using Suc.prems IH advance_ascii [of "advance_n n l"] by simp
  with IH show ?case by (auto simp: advance_n_def)
qed

lemma moved_update_op [intro]: "moved l l' \<Longrightarrow> moved l (update_cmd_start_after_op op l')"
  by (simp add: update_cmd_start_after_op_def moved_cmd_start)

lemma update_op_frame [simp]:
  "lx_i (update_cmd_start_after_op op l) = lx_i l"
  "lx_b (update_cmd_start_after_op op l) = lx_b l"
  "lx_units (update_cmd_start_after_op op l) = lx_units l"
  "lx_node_count (update_cmd_start_after_op op l) = lx_node_count l"
  "lx_max_nodes (update_cmd_start_after_op op l) = lx_max_nodes l"
  "substring (update_cmd_start_after_op op l) a b = substring l a b"
  by (simp_all add: update_cmd_start_after_op_def)

text \<open>An operator of \<open>n\<close> ASCII characters is the slice it was read from.\<close>

lemma scans_op:
  assumes "lx_i l + n \<le> lx_len l" "\<forall>k < n. char_at l (lx_i l + k) < 0x80"
    and "op = map (\<lambda>k. char_at l (lx_i l + k)) [0..<n]"
  shows "scans_from (lx_i l) (lx_b l) l
     (make_token (update_cmd_start_after_op op' (advance_n n l)) Op op (lx_i l)
        (lx_i (update_cmd_start_after_op op' (advance_n n l))) (lx_b l),
      update_cmd_start_after_op op' (advance_n n l))"
proof (rule scans_from_make)
  note adv = advance_n_ascii [OF assms(1,2)]
  then show "moved l (update_cmd_start_after_op op' (advance_n n l))"
    by blast
  have "substring (advance_n n l) (lx_i l) (lx_i l + n) = substring l (lx_i l) (lx_i l + n)"
    using adv by (simp add: substring_def)
  then show "op = substring (update_cmd_start_after_op op' (advance_n n l)) (lx_i l)
      (lx_i (update_cmd_start_after_op op' (advance_n n l)))"
    using adv substring_ascii [OF assms(1,2)] assms(3) by simp
qed simp

lemma is_1_char_op_ascii: "is_1_char_op c \<Longrightarrow> c < 0x80"
  by (auto simp: is_1_char_op_eval)

lemma is_2_char_op_ascii: "is_2_char_op [a, b] \<Longrightarrow> a < 0x80 \<and> b < 0x80"
  by (auto simp: is_2_char_op_eval)

lemma is_3_char_op_ascii: "is_3_char_op [a, b, c] \<Longrightarrow> a < 0x80 \<and> b < 0x80 \<and> c < 0x80"
  by (auto simp: is_3_char_op_eval)

lemma op_restart:
  "lx_units l' = lx_units l \<Longrightarrow> lx_ws_before l' = lx_ws_before l \<Longrightarrow>
   lx_node_count l' = lx_node_count l \<Longrightarrow> lx_max_nodes l' = lx_max_nodes l \<Longrightarrow>
   l'\<lparr>lx_i := lx_i l, lx_b := lx_b l\<rparr> = l\<lparr>lx_cmd_start := lx_cmd_start l'\<rparr>" for l :: lexer
  by (cases l; cases l') simp

lemma advance_n_frame [simp]:
  "lx_units (advance_n n l) = lx_units l"
  "lx_cmd_start (advance_n n l) = lx_cmd_start l"
  "lx_ws_before (advance_n n l) = lx_ws_before l"
  "lx_node_count (advance_n n l) = lx_node_count l"
  "lx_max_nodes (advance_n n l) = lx_max_nodes l"
  unfolding advance_n_def by (induction n) simp_all

lemma update_op_ws [simp]:
  "lx_ws_before (update_cmd_start_after_op op l) = lx_ws_before l"
  by (simp add: update_cmd_start_after_op_def)

lemma scans_process_restart:
  "scans_from (lx_i l) (lx_b l) l (lex_process_substitution (lx_i l) (lx_b l)
     ((update_cmd_start_after_op op (advance_n n l))\<lparr>lx_i := lx_i l, lx_b := lx_b l\<rparr>))"
proof -
  let ?l = "update_cmd_start_after_op op (advance_n n l)"
  have eq: "?l\<lparr>lx_i := lx_i l, lx_b := lx_b l\<rparr> = l\<lparr>lx_cmd_start := lx_cmd_start ?l\<rparr>"
    by (rule op_restart) simp_all
  have "scans_from (lx_i l) (lx_b l) l
      (lex_process_substitution (lx_i l) (lx_b l) (l\<lparr>lx_cmd_start := lx_cmd_start ?l\<rparr>))"
    by (rule scans_from_moved [OF scans_process]) (rule moved_cmd_start [OF moved_refl])
  then show ?thesis
    by (simp only: eq)
qed

lemma scans_op1:
  assumes "lx_i l < lx_len l" "is_1_char_op (char_at l (lx_i l))"
  shows "scans_from (lx_i l) (lx_b l) l
     (make_token (update_cmd_start_after_op op' (advance l)) Op [char_at l (lx_i l)] (lx_i l)
        (lx_i (update_cmd_start_after_op op' (advance l))) (lx_b l),
      update_cmd_start_after_op op' (advance l))"
  using scans_op [of l 1 "[char_at l (lx_i l)]" op'] is_1_char_op_ascii [OF assms(2)] assms(1)
  by (simp add: advance_n_def)

lemma scans_op2:
  assumes "lx_i l < lx_len l" "c1 = char_at l (lx_i l)" "c2 = peek l 1" "c2 \<noteq> NUL"
    and "is_2_char_op [c1, c2]"
  shows "scans_from (lx_i l) (lx_b l) l
     (make_token (update_cmd_start_after_op op' (advance_n 2 l)) Op [c1, c2] (lx_i l)
        (lx_i (update_cmd_start_after_op op' (advance_n 2 l))) (lx_b l),
      update_cmd_start_after_op op' (advance_n 2 l))"
proof -
  note a = is_2_char_op_ascii [OF assms(5)] and p = peek_ascii [OF assms(3) [symmetric] assms(4)]
  then have "\<forall>k < 2. char_at l (lx_i l + k) < 0x80"
    using assms(2) by (auto simp: numeral_2_eq_2 less_Suc_eq)
  moreover have "[c1, c2] = map (\<lambda>k. char_at l (lx_i l + k)) [0..<2]"
    using assms(2) p by (simp add: upt_rec numeral_2_eq_2)
  ultimately show ?thesis
    using scans_op [of l 2 "[c1, c2]" op'] p by simp
qed

lemma scans_op3:
  assumes "lx_i l < lx_len l" "c1 = char_at l (lx_i l)" "c2 = peek l 1" "c2 \<noteq> NUL"
    and "c3 = peek l 2" "c3 \<noteq> NUL" "is_3_char_op [c1, c2, c3]"
  shows "scans_from (lx_i l) (lx_b l) l
     (make_token (update_cmd_start_after_op op' (advance_n 3 l)) Op [c1, c2, c3] (lx_i l)
        (lx_i (update_cmd_start_after_op op' (advance_n 3 l))) (lx_b l),
      update_cmd_start_after_op op' (advance_n 3 l))"
proof -
  note a = is_3_char_op_ascii [OF assms(7)] and p = peek_ascii [OF assms(3) [symmetric] assms(4)]
    and q = peek_ascii [OF assms(5) [symmetric] assms(6)]
  have "\<forall>k < 3. char_at l (lx_i l + k) < 0x80"
    using assms(2) a p q by (auto simp: numeral_3_eq_3 numeral_2_eq_2 less_Suc_eq)
  moreover have "[c1, c2, c3] = map (\<lambda>k. char_at l (lx_i l + k)) [0..<3]"
    using assms(2) p q by (simp add: upt_rec numeral_3_eq_3 numeral_2_eq_2)
  ultimately show ?thesis
    using scans_op [of l 3 "[c1, c2, c3]" op'] q by simp
qed

definition scans_opt :: "lexer \<Rightarrow> (token \<times> lexer) option \<Rightarrow> bool" where
  "scans_opt l x = (case x of None \<Rightarrow> True | Some r \<Rightarrow> scans_from (lx_i l) (lx_b l) l r)"

lemma scans_opt_intros:
  "scans_opt l None"
  "scans_from (lx_i l) (lx_b l) l r \<Longrightarrow> scans_opt l (Some r)"
  "(c \<Longrightarrow> scans_opt l a) \<Longrightarrow> (\<not> c \<Longrightarrow> scans_opt l b) \<Longrightarrow> scans_opt l (if c then a else b)"
  by (simp_all add: scans_opt_def)

lemma scans_operator_opt: "scans_opt l (try_scan_operator (lx_i l) (lx_b l) l)"
proof -
  have e3: "(if c2 \<noteq> NUL \<and> c3 \<noteq> NUL then [c1, c2, c3] else []) \<noteq> [] \<and>
      is_3_char_op (if c2 \<noteq> NUL \<and> c3 \<noteq> NUL then [c1, c2, c3] else []) \<longleftrightarrow>
      c2 \<noteq> NUL \<and> c3 \<noteq> NUL \<and> is_3_char_op [c1, c2, c3]" for c1 c2 c3
    by simp
  have e2: "(if c2 = NUL then [] else [c1, c2]) \<noteq> [] \<and>
      is_2_char_op (if c2 = NUL then [] else [c1, c2]) \<and> x \<longleftrightarrow>
      c2 \<noteq> NUL \<and> is_2_char_op [c1, c2] \<and> x" for c1 c2 x
    by simp
  show ?thesis
    unfolding try_scan_operator_def Let_def e3 e2
    by (intro scans_opt_intros)
      (simp_all add: scans_op1 [simplified] scans_op2 [OF _ refl refl, simplified]
        scans_op3 [OF _ refl refl _ refl, simplified] scans_process_restart)
qed

lemma scans_operator:
  "try_scan_operator (lx_i l) (lx_b l) l = Some r \<Longrightarrow> scans_from (lx_i l) (lx_b l) l r"
  using scans_operator_opt [of l] by (simp add: scans_opt_def)

text \<open>The dispatch on the first character.\<close>

lemma scans_token:
  assumes "lx_i l < lx_len l"
  shows "scans_from (lx_i l) (lx_b l) l (scan_token l)"
proof -
  let ?ch = "char_at l (lx_i l)"
  have one: "substring l (lx_i l) (lx_i (advance l)) = [?ch]" if "?ch < 0x80"
    using that substring_one [OF assms] advance_ascii [OF assms] by simp
  have nl: "scans_from (lx_i l) (lx_b l) l
      (make_token ((advance l)\<lparr>lx_cmd_start := c\<rparr>) ty [?ch] (lx_i l)
         (lx_i ((advance l)\<lparr>lx_cmd_start := c\<rparr>)) (lx_b l), (advance l)\<lparr>lx_cmd_start := c\<rparr>)"
    if "?ch < 0x80" "ty \<noteq> Eof" for c ty
    using that by (intro scans_from_make) (simp_all add: one moved_cmd_start moved_advance1)
  have op: "scans_from (lx_i l) (lx_b l) l
      (case try_scan_operator (lx_i l) (lx_b l) l of Some r \<Rightarrow> r
       | None \<Rightarrow> scan_word (lx_i l) (lx_b l) l)"
    by (auto split: option.split intro: scans_word scans_operator)
  show ?thesis
    unfolding scan_token_def Let_def
    by (intro scans_from_if scans_comment scans_single_quote scans_double_quote
        scans_ansi_c_quote op)
      (use nl [of Newline True] nl [of Backtick False] scans_dollar [OF assms] in simp_all)
qed

subsection \<open>Progress\<close>

lemma less_moved: "lx_i l < lx_len l \<Longrightarrow> moved (advance l) l' \<Longrightarrow> lx_i l < lx_i l'"
  using advance_i_less [of l] moved_frame [of "advance l" l'] by linarith

definition progresses :: "lexer \<Rightarrow> token \<times> lexer \<Rightarrow> bool" where
  "progresses l r \<longleftrightarrow> lx_i l < lx_i (snd r)"

lemma progresses_if:
  "(c \<Longrightarrow> progresses l a) \<Longrightarrow> (\<not> c \<Longrightarrow> progresses l b) \<Longrightarrow> progresses l (if c then a else b)"
  by simp

lemma progresses_moved: "lx_i l < lx_len l \<Longrightarrow> moved (advance l) l' \<Longrightarrow> progresses l (t, l')"
  by (simp add: progresses_def less_moved)

lemma skip_blanks_stops:
  "lx_i (skip_blanks l) < lx_len (skip_blanks l) \<Longrightarrow>
     char_at (skip_blanks l) (lx_i (skip_blanks l)) \<notin> {SP, TAB, CR}"
proof (induction l rule: skip_blanks.induct)
  case (1 l)
  show ?case
  proof (cases "lx_i l < lx_len l \<and> char_at l (lx_i l) \<in> {SP, TAB, CR}")
    case True
    then have "skip_blanks l = skip_blanks (advance l)"
      by (subst skip_blanks.simps) auto
    with True "1" show ?thesis by auto
  next
    case False
    show ?thesis
    proof (cases "lx_i l < lx_len l \<and> char_at l (lx_i l) = BSL \<and> peek l 1 = NL")
      case True
      then have "skip_blanks l = skip_blanks (advance (advance l))"
        by (subst skip_blanks.simps) auto
      with True "1" show ?thesis by auto
    next
      case stop: False
      then have "skip_blanks l = l"
        using False by (subst skip_blanks.simps) (auto simp: Let_def)
      with False "1.prems" show ?thesis by auto
    qed
  qed
qed

lemma progresses_comment:
  assumes "lx_i l < lx_len l" "char_at l (lx_i l) \<noteq> NL"
  shows "progresses l (scan_comment si sb l)"
proof -
  have "advance_while (\<lambda>ch. ch \<noteq> NL) l = advance_while (\<lambda>ch. ch \<noteq> NL) (advance l)"
    using assms by (subst advance_while.simps) simp
  then show ?thesis
    unfolding scan_comment_def Let_def
    by (intro progresses_moved assms moved_cmd_start) (simp add: moved_advance_while)
qed

lemma progresses_quotes:
  assumes "lx_i l < lx_len l"
  shows "progresses l (scan_single_quote si sb l)" "progresses l (scan_double_quote si sb l)"
    "progresses l (scan_ansi_c_quote si sb l)" "progresses l (lex_process_substitution si sb l)"
  unfolding scan_single_quote_def scan_double_quote_def scan_ansi_c_quote_def
    lex_process_substitution_def Let_def
  by (intro progresses_moved assms moved_cmd_start;
      simp add: moved_loops moved_advance moved_step [OF moved_loops(4)]
        moved_step [OF moved_loops(7)])+

lemma progresses_dollar:
  assumes "lx_i l < lx_len l"
  shows "progresses l (scan_dollar si sb l)"
  unfolding scan_dollar_def lex_arithmetic_expansion_def lex_parameter_expansion_def Let_def
  by (intro progresses_if progresses_moved assms moved_cmd_start;
      simp add: moved_loops moved_advance moved_refl moved_step [OF moved_loops(6)]
        moved_step2 [OF moved_loops(5)])

lemma moved_advance_n_Suc: "moved (advance l) (advance_n (Suc n) l)"
  by (induction n) (auto simp: advance_n_def)

lemma progresses_op:
  "lx_i l < lx_len l \<Longrightarrow> try_scan_operator si sb l = Some r \<Longrightarrow> lx_i l = si \<Longrightarrow> progresses l r"
proof -
  assume inside: "lx_i l < lx_len l" and op: "try_scan_operator si sb l = Some r" and si: "lx_i l = si"
  have n: "moved (advance l) (advance_n 1 l)" "moved (advance l) (advance_n 2 l)"
      "moved (advance l) (advance_n 3 l)"
    using moved_advance_n_Suc [of l 0] moved_advance_n_Suc [of l 1] moved_advance_n_Suc [of l 2]
    by (simp_all add: numeral_2_eq_2 numeral_3_eq_3)
  have sub: "progresses l (lex_process_substitution si sb
      ((update_cmd_start_after_op op (advance_n n l))\<lparr>lx_i := si, lx_b := sb\<rparr>))" for op n
    using progresses_quotes(4) [of "(update_cmd_start_after_op op (advance_n n l))\<lparr>lx_i := si, lx_b := sb\<rparr>"]
      inside si by (simp add: progresses_def)
  have upd: "progresses l (t, update_cmd_start_after_op op l')" if "moved (advance l) l'" for t op l'
    using that by (intro progresses_moved inside moved_update_op)
  show ?thesis
    using op upd [OF n(2)] upd [OF n(3)] upd [OF moved_refl] sub
    by (auto simp: try_scan_operator_def Let_def split: if_splits)
qed

lemma try_scan_operator_None:
  "lx_i l < lx_len l \<Longrightarrow> try_scan_operator si sb l = None \<Longrightarrow> \<not> is_operator_char (char_at l (lx_i l))"
  by (auto simp: try_scan_operator_def Let_def is_operator_char_eval is_1_char_op_eval split: if_splits)

lemma word_loop_progress:
  assumes "lx_i l < lx_len l" "\<not> is_operator_char (char_at l (lx_i l))"
    and "char_at l (lx_i l) \<notin> {SP, TAB, NL, CR, SQ, DQ, uc CHR ''$'', BTK}"
  shows "moved (advance l) (word_loop l)"
  using assms
  by (subst word_loop.simps) (auto simp: Let_def moved_word_loop intro: moved_step [OF moved_word_loop])

lemma progresses_token:
  assumes inside: "lx_i l < lx_len l" and nb: "char_at l (lx_i l) \<notin> {SP, TAB, CR}"
  shows "progresses l (scan_token l)"
proof -
  let ?ch = "char_at l (lx_i l)"
  have "progresses l (case try_scan_operator (lx_i l) (lx_b l) l of Some r \<Rightarrow> r
       | None \<Rightarrow> scan_word (lx_i l) (lx_b l) l)"
    if "?ch \<notin> {NL, SQ, DQ, uc CHR ''$'', BTK}"
  proof (cases "try_scan_operator (lx_i l) (lx_b l) l")
    case None
    then have "moved (advance l) (word_loop l)"
      using that nb try_scan_operator_None [OF inside None] by (intro word_loop_progress inside) auto
    with None show ?thesis
      by (simp add: scan_word_def Let_def progresses_moved [OF inside] moved_cmd_start)
  next
    case (Some r)
    then show ?thesis by (simp add: progresses_op [OF inside])
  qed
  then show ?thesis
    unfolding scan_token_def Let_def
    by (intro progresses_if progresses_comment progresses_quotes progresses_dollar inside)
      (auto simp: progresses_moved [OF inside] moved_cmd_start moved_refl)
qed

subsection \<open>The next token\<close>

definition charged :: "lexer \<Rightarrow> lexer" where
  "charged l = (skip_blanks l)\<lparr>lx_ws_before := (lx_i l < lx_i (skip_blanks l)),
     lx_node_count := lx_node_count l + 1\<rparr>"

lemma skip_blanks_frame [simp]:
  "lx_units (skip_blanks l) = lx_units l"
  "lx_node_count (skip_blanks l) = lx_node_count l"
  "lx_max_nodes (skip_blanks l) = lx_max_nodes l"
  using moved_frame [OF moved_skip_blanks [of l]] by simp_all

lemma charged_frame [simp]:
  "lx_units (charged l) = lx_units l"
  "lx_node_count (charged l) = Suc (lx_node_count l)"
  "lx_max_nodes (charged l) = lx_max_nodes l"
  "lx_i (charged l) = lx_i (skip_blanks l)"
  "lx_b (charged l) = lx_b (skip_blanks l)"
  by (simp_all add: charged_def)

lemma next_token_cases:
  obtains (eof) "lx_len l \<le> lx_i (skip_blanks l)"
      "next_token l = Inr (make_token (skip_blanks l) Eof [] (lx_i (skip_blanks l))
         (lx_i (skip_blanks l)) (lx_b (skip_blanks l)),
         (skip_blanks l)\<lparr>lx_ws_before := (lx_i l < lx_i (skip_blanks l))\<rparr>)"
  | (budget) "lx_i (skip_blanks l) < lx_len l" "lx_max_nodes l \<le> lx_node_count l"
      "next_token l = Inl (LexerBudgetExceeded (lx_max_nodes l))"
  | (token) "lx_i (skip_blanks l) < lx_len l" "lx_node_count l < lx_max_nodes l"
      "next_token l = Inr (scan_token (charged l))"
proof -
  have mk: "make_token (l'\<lparr>lx_ws_before := w\<rparr>) ty tx a b c = make_token l' ty tx a b c" for l' w ty tx a b c
    by (simp add: make_token_def)
  show ?thesis
    using that
    by (cases "lx_len l \<le> lx_i (skip_blanks l)"; cases "lx_max_nodes l \<le> lx_node_count l")
      (auto simp: next_token_def charged_def Let_def mk)
qed

lemma charged_inside:
  assumes "lx_i (skip_blanks l) < lx_len l"
  shows "lx_i (charged l) < lx_len (charged l)"
    and "char_at (charged l) (lx_i (charged l)) \<notin> {SP, TAB, CR}"
  using assms skip_blanks_stops [of l] by (simp_all add: char_at_def)

lemma next_token_eof:
  "next_token l = Inr (t, l') \<Longrightarrow> is_eof t \<longleftrightarrow> lx_len l \<le> lx_i (skip_blanks l)"
  by (cases rule: next_token_cases [of l])
    (auto simp: is_eof_def make_token_def dest: scans_token [OF charged_inside(1), THEN scans_from_def [THEN iffD1]])

lemma next_token_positions:
  assumes "next_token l = Inr (t, l')"
  shows "start_index t = lx_i (skip_blanks l)" "start_byte t = lx_b (skip_blanks l)"
    "end_index t = lx_i l'" "end_byte t = lx_b l'" "lx_units l' = lx_units l"
    "lx_max_nodes l' = lx_max_nodes l" "lx_i l \<le> lx_i l'"
    "lx_node_count l' = lx_node_count l + (if is_eof t then 0 else 1)"
proof -
  have blanks: "lx_i l \<le> lx_i (skip_blanks l)"
    using moved_frame [OF moved_skip_blanks [of l]] by simp
  have "start_index t = lx_i (skip_blanks l) \<and> start_byte t = lx_b (skip_blanks l) \<and>
      end_index t = lx_i l' \<and> end_byte t = lx_b l' \<and> lx_units l' = lx_units l \<and>
      lx_max_nodes l' = lx_max_nodes l \<and> lx_i l \<le> lx_i l' \<and>
      lx_node_count l' = lx_node_count l + (if is_eof t then 0 else 1)"
  proof (cases rule: next_token_cases [of l])
    case eof
    with assms blanks show ?thesis by (auto simp: make_token_def is_eof_def)
  next
    case budget
    with assms show ?thesis by simp
  next
    case token
    with assms have "scan_token (charged l) = (t, l')" by simp
    with scans_token [OF charged_inside(1) [OF token(1)]] show ?thesis
      using blanks moved_frame [of "charged l" l'] by (auto simp: scans_from_def is_eof_def)
  qed
  then show "start_index t = lx_i (skip_blanks l)" "start_byte t = lx_b (skip_blanks l)"
    "end_index t = lx_i l'" "end_byte t = lx_b l'" "lx_units l' = lx_units l"
    "lx_max_nodes l' = lx_max_nodes l" "lx_i l \<le> lx_i l'"
    "lx_node_count l' = lx_node_count l + (if is_eof t then 0 else 1)"
    by simp_all
qed

lemma next_token_bytes:
  assumes "next_token l = Inr (t, l')"
  shows "lx_b (skip_blanks l) \<le> lx_b l'"
proof (cases rule: next_token_cases [of l])
  case token
  with scans_token [OF charged_inside(1) [OF token(1)]] assms have "moved (charged l) l'"
    by (auto simp: scans_from_def)
  then show ?thesis using moved_frame [of "charged l" l'] by simp
qed (use assms in auto)

lemma next_token_progress:
  assumes "next_token l = Inr (t, l')" "\<not> is_eof t"
  shows "start_index t < end_index t" "lx_i l < lx_i l'" "lx_i l < lx_len l"
proof -
  have blanks: "lx_i l \<le> lx_i (skip_blanks l)"
    using moved_frame [OF moved_skip_blanks [of l]] by simp
  have inside: "lx_i (skip_blanks l) < lx_len l"
    using assms next_token_eof by fastforce
  then have "scan_token (charged l) = (t, l')"
    using assms by (cases rule: next_token_cases [of l]) auto
  with progresses_token [OF charged_inside(1) [OF inside] charged_inside(2) [OF inside]]
  have "lx_i (skip_blanks l) < lx_i l'"
    by (simp add: progresses_def)
  then show "start_index t < end_index t" "lx_i l < lx_i l'" "lx_i l < lx_len l"
    using blanks inside next_token_positions [OF assms(1)] by simp_all
qed

lemma next_token_text:
  assumes "next_token l = Inr (t, l')" "\<not> is_eof t"
  shows "tok_text t = substring l (start_index t) (end_index t)"
proof -
  have inside: "lx_i (skip_blanks l) < lx_len l"
    using assms next_token_eof by fastforce
  then have "next_token l = Inr (scan_token (charged l))"
    using assms by (cases rule: next_token_cases [of l]) auto
  with scans_token [OF charged_inside(1) [OF inside]] assms(1)
  have "tok_text t = substring l' (start_index t) (end_index t)"
    by (auto simp: scans_from_def)
  with next_token_positions(5) [OF assms(1)] show ?thesis
    by (simp add: substring_def)
qed

subsection \<open>Invariants of the scanner\<close>

text \<open>
  The contract between the scanners and what is proved of positions: a property of lexers kept by
  one \<open>advance\<close> and blind to the flags and the counter is kept by \<open>next_token\<close>, and holds at both
  ends of the token it returns.
\<close>

locale scanner_invariant =
  fixes I :: "lexer \<Rightarrow> bool"
  assumes advance_keeps: "I l \<Longrightarrow> I (advance l)"
    and cmd_start_keeps: "I l \<Longrightarrow> I (l\<lparr>lx_cmd_start := c\<rparr>)"
    and ws_before_keeps: "I l \<Longrightarrow> I (l\<lparr>lx_ws_before := w\<rparr>)"
    and count_keeps: "I l \<Longrightarrow> I (l\<lparr>lx_node_count := n\<rparr>)"
begin

lemma moved_keeps: "moved l l' \<Longrightarrow> I l \<Longrightarrow> I l'"
  by (induction rule: moved.induct) (simp_all add: advance_keeps cmd_start_keeps ws_before_keeps)

lemma skip_blanks_keeps: "I l \<Longrightarrow> I (skip_blanks l)"
  by (rule moved_keeps [OF moved_skip_blanks])

lemma charged_keeps: "I l \<Longrightarrow> I (charged l)"
  unfolding charged_def by (intro count_keeps ws_before_keeps skip_blanks_keeps)

lemma next_token_keeps:
  assumes "next_token l = Inr (t, l')" "I l"
  shows "I l'"
proof (cases rule: next_token_cases [of l])
  case eof
  with assms show ?thesis by (auto intro: ws_before_keeps skip_blanks_keeps)
next
  case budget
  with assms show ?thesis by simp
next
  case token
  with scans_token [OF charged_inside(1) [OF token(1)]] assms(1) have "moved (charged l) l'"
    by (auto simp: scans_from_def)
  then show ?thesis using charged_keeps [OF assms(2)] by (rule moved_keeps)
qed

end

subsection \<open>The two positions agree\<close>

text \<open>
  For a source that is the encoding of code points \<open>cs\<close>: the lexer stands between two code points,
  its index is the number of units before it and its byte offset their UTF-8 length.
\<close>

definition synced :: "nat list \<Rightarrow> lexer \<Rightarrow> bool" where
  "synced cs l \<longleftrightarrow> list_all valid_cp cs \<and> lx_units l = encode_utf16 cs \<and>
     (\<exists>k \<le> length cs. lx_i l = length (encode_utf16 (take k cs)) \<and> lx_b l = utf8_len (take k cs))"

lemma unit_bounds:
  assumes "valid_cp c"
  shows "c < 0x80 \<Longrightarrow> encode_cp c = [c] \<and> utf8_len_cp c = 1"
    and "0x80 \<le> c \<Longrightarrow> c < 0x800 \<Longrightarrow> encode_cp c = [c] \<and> utf8_len_cp c = 2"
    and "0x800 \<le> c \<Longrightarrow> c < 0x10000 \<Longrightarrow> encode_cp c = [c] \<and> utf8_len_cp c = 3 \<and> \<not> is_high c"
  using assms by (auto simp: encode_cp_def utf8_len_cp_def valid_cp_def is_high_def)

lemma advance_cp:
  assumes "valid_cp c" "lx_units l = us @ encode_cp c @ vs" "lx_i l = length us"
  shows "lx_i (advance l) = lx_i l + length (encode_cp c) \<and> lx_b (advance l) = lx_b l + utf8_len_cp c"
proof -
  have inside: "lx_i l < lx_len l"
    using assms(2,3) encode_cp_pos [of c] by simp
  have hd: "lx_units l ! lx_i l = hd (encode_cp c)"
    using assms(2,3) encode_cp_not_Nil [of c] by (simp add: nth_append hd_conv_nth)
  show ?thesis
  proof (cases "c < 0x10000")
    case True
    then consider "c < 0x80" | "0x80 \<le> c" "c < 0x800" | "0x800 \<le> c" "c < 0x10000" by linarith
    then show ?thesis
      using unit_bounds [OF assms(1)] inside hd
      by cases (simp_all add: advance_def Let_def is_high_def)
  next
    case False
    with assms(1) obtain h w where "encode_cp c = [h, w]" "is_high h"
      by (rule encode_cp_surrogates) auto
    with False inside hd show ?thesis
      by (simp add: advance_def Let_def is_high_def utf8_len_cp_def)
  qed
qed

lemma synced_advance: "synced cs l \<Longrightarrow> synced cs (advance l)"
proof -
  assume a: "synced cs l"
  then obtain k where k: "k \<le> length cs" "lx_i l = length (encode_utf16 (take k cs))"
      "lx_b l = utf8_len (take k cs)" and us: "lx_units l = encode_utf16 cs" "list_all valid_cp cs"
    by (auto simp: synced_def)
  show ?thesis
  proof (cases "k < length cs")
    case False
    with k us have "lx_len l \<le> lx_i l" by simp
    then have "advance l = l" by (simp add: advance_def)
    with a show ?thesis by simp
  next
    case True
    then have split: "cs = take k cs @ cs ! k # drop (Suc k) cs"
      by (simp add: id_take_nth_drop)
    have next_take: "take (Suc k) cs = take k cs @ [cs ! k]"
      using True by (simp add: take_Suc_conv_app_nth)
    have "lx_units l = encode_utf16 (take k cs) @ encode_cp (cs ! k) @ encode_utf16 (drop (Suc k) cs)"
      using us(1) by (subst (asm) split) simp
    moreover have "valid_cp (cs ! k)"
      using us(2) True by (simp add: list_all_length)
    ultimately have "lx_i (advance l) = length (encode_utf16 (take (Suc k) cs)) \<and>
        lx_b (advance l) = utf8_len (take (Suc k) cs)"
      using advance_cp [of "cs ! k" l] k(2,3) next_take by simp
    then show ?thesis
      using True us unfolding synced_def by (intro conjI exI [of _ "Suc k"]) simp_all
  qed
qed

interpretation sync: scanner_invariant "synced cs" for cs
  by unfold_locales (rule synced_advance, assumption, auto simp: synced_def)

lemma synced_new: "list_all valid_cp cs \<Longrightarrow> synced cs (lexer_new (encode_utf16 cs) m)"
  by (auto simp: synced_def lexer_new_def intro: exI [of _ 0])

lemma synced_inside: "synced cs l \<Longrightarrow> lx_i l \<le> lx_len l"
proof -
  assume "synced cs l"
  then obtain k where "lx_i l = length (encode_utf16 (take k cs))" "lx_units l = encode_utf16 cs"
    by (auto simp: synced_def)
  moreover have "length (encode_utf16 cs) =
      length (encode_utf16 (take k cs)) + length (encode_utf16 (drop k cs))"
    by (metis append_take_drop_id encode_utf16_append length_append)
  ultimately show ?thesis by simp
qed

subsection \<open>Token streams\<close>

text \<open>All tokens up to the end of input; total because every token makes progress.\<close>

function tokenize :: "lexer \<Rightarrow> parse_abort + token list" where
  "tokenize l =
     (case next_token l of
        Inl e \<Rightarrow> Inl e
      | Inr (t, l') \<Rightarrow>
          if is_eof t then Inr []
          else (case tokenize l' of Inl e \<Rightarrow> Inl e | Inr ts \<Rightarrow> Inr (t # ts)))"
  by pat_completeness auto
termination
proof (relation "measure (\<lambda>l. lx_len l - lx_i l)", simp)
  fix l t l' r
  assume "next_token l = Inr r" "(t, l') = r" "\<not> is_eof t"
  then have n: "next_token l = Inr (t, l')" "\<not> is_eof t" by simp_all
  with next_token_progress [OF n] next_token_positions [OF n(1)]
  show "(l', l) \<in> measure (\<lambda>l. lx_len l - lx_i l)" by simp
qed

declare tokenize.simps [simp del]

lemma tokenize_Inr:
  assumes "tokenize l = Inr ts"
  obtains (end_of_input) t l' where "next_token l = Inr (t, l')" "is_eof t" "ts = []"
  | (more) t l' ts' where "next_token l = Inr (t, l')" "\<not> is_eof t" "tokenize l' = Inr ts'"
      "ts = t # ts'"
proof (cases "next_token l")
  case (Inl e)
  with assms show ?thesis by (simp add: tokenize.simps [of l])
next
  case (Inr r)
  obtain t l' where n: "next_token l = Inr (t, l')"
    using Inr by (cases r) simp
  show ?thesis
  proof (cases "is_eof t")
    case True
    with n assms show ?thesis
      by (intro end_of_input [OF n]) (simp_all add: tokenize.simps [of l])
  next
    case False
    with n assms obtain ts' where "tokenize l' = Inr ts'" "ts = t # ts'"
      by (auto simp: tokenize.simps [of l] split: sum.splits)
    then show ?thesis by (rule more [OF n False])
  qed
qed

text \<open>What may stand between two tokens: blanks and line continuations.\<close>

inductive blank_gap :: "nat list \<Rightarrow> nat \<Rightarrow> nat \<Rightarrow> bool" for us where
  gap_none: "blank_gap us i i"
| gap_blank: "i < length us \<Longrightarrow> us ! i \<in> {SP, TAB, CR} \<Longrightarrow> blank_gap us (Suc i) j \<Longrightarrow> blank_gap us i j"
| gap_continuation: "Suc i < length us \<Longrightarrow> us ! i = BSL \<Longrightarrow> us ! Suc i = NL \<Longrightarrow>
     blank_gap us (Suc (Suc i)) j \<Longrightarrow> blank_gap us i j"

fun tiles :: "nat list \<Rightarrow> nat \<Rightarrow> token list \<Rightarrow> bool" where
  "tiles us i [] = blank_gap us i (length us)"
| "tiles us i (t # ts) =
     (blank_gap us i (start_index t) \<and> start_index t < end_index t \<and> end_index t \<le> length us \<and>
      tok_text t = from_utf16_lossy (take (end_index t - start_index t) (drop (start_index t) us)) \<and>
      tiles us (end_index t) ts)"

lemma skip_blanks_gap: "blank_gap (lx_units l) (lx_i l) (lx_i (skip_blanks l))"
proof (induction l rule: skip_blanks.induct)
  case (1 l)
  show ?case
  proof (cases "lx_i l < lx_len l \<and> char_at l (lx_i l) \<in> {SP, TAB, CR}")
    case True
    then have e: "skip_blanks l = skip_blanks (advance l)"
      by (subst skip_blanks.simps) auto
    from True have "lx_units l ! lx_i l \<in> {SP, TAB, CR}" "lx_i (advance l) = Suc (lx_i l)"
      using char_at_ascii [of l "lx_i l"] advance_ascii [of l] by auto
    with e True "1" show ?thesis by (auto intro: gap_blank)
  next
    case False
    show ?thesis
    proof (cases "lx_i l < lx_len l \<and> char_at l (lx_i l) = BSL \<and> peek l 1 = NL")
      case True
      then have e: "skip_blanks l = skip_blanks (advance (advance l))"
        by (subst skip_blanks.simps) auto
      from True have p: "Suc (lx_i l) < lx_len l" "char_at l (Suc (lx_i l)) = NL"
        using peek_ascii [of l 1 NL] by auto
      from True have a: "lx_units l ! lx_i l = BSL" "lx_i (advance l) = Suc (lx_i l)"
        using char_at_ascii [of l "lx_i l"] advance_ascii [of l] by auto
      from p a have b: "lx_units l ! Suc (lx_i l) = NL" "lx_i (advance (advance l)) = Suc (Suc (lx_i l))"
        using char_at_ascii [of l "Suc (lx_i l)"] advance_ascii [of "advance l"] by auto
      have "blank_gap (lx_units l) (Suc (Suc (lx_i l))) (lx_i (skip_blanks l))"
        using True "1.IH"(2) e b by auto
      with p(1) a(1) b(1) show ?thesis by (auto intro: gap_continuation)
    next
      case stop: False
      then have "skip_blanks l = l"
        using False by (subst skip_blanks.simps) (auto simp: Let_def)
      then show ?thesis by (simp add: gap_none)
    qed
  qed
qed

lemma tokenize_tiles:
  "synced cs l \<Longrightarrow> tokenize l = Inr ts \<Longrightarrow> tiles (lx_units l) (lx_i l) ts"
proof (induction ts arbitrary: l)
  case Nil
  then obtain t l' where n: "next_token l = Inr (t, l')" "is_eof t"
    by (auto elim: tokenize_Inr)
  then have "lx_i (skip_blanks l) = lx_len l"
    using next_token_eof [OF n(1)] synced_inside [OF sync.skip_blanks_keeps [OF Nil.prems(1)]] by simp
  with skip_blanks_gap [of l] show ?case by simp
next
  case (Cons t ts)
  then obtain l' where n: "next_token l = Inr (t, l')" "\<not> is_eof t" "tokenize l' = Inr ts"
    by (auto elim: tokenize_Inr)
  note pos = next_token_positions [OF n(1)] and prog = next_token_progress [OF n(1,2)]
  have s': "synced cs l'" by (rule sync.next_token_keeps [OF n(1) Cons.prems(1)])
  have inside: "end_index t \<le> lx_len l"
    using synced_inside [OF s'] pos by simp
  have "tok_text t = from_utf16_lossy (take (end_index t - start_index t) (drop (start_index t) (lx_units l)))"
    using next_token_text [OF n(1,2)] inside prog(1) by (simp add: substring_def Let_def)
  with Cons.IH [OF s' n(3)] skip_blanks_gap [of l] pos prog(1) inside show ?case by simp
qed

lemma tokenize_synced:
  "synced cs l \<Longrightarrow> tokenize l = Inr ts \<Longrightarrow> t \<in> set ts \<Longrightarrow>
   \<exists>j k. j \<le> length cs \<and> k \<le> length cs \<and>
     start_index t = length (encode_utf16 (take j cs)) \<and> start_byte t = utf8_len (take j cs) \<and>
     end_index t = length (encode_utf16 (take k cs)) \<and> end_byte t = utf8_len (take k cs)"
proof (induction ts arbitrary: l)
  case Nil
  then show ?case by simp
next
  case (Cons t' ts)
  then obtain l' where n: "next_token l = Inr (t', l')" "\<not> is_eof t'" "tokenize l' = Inr ts"
    by (auto elim: tokenize_Inr)
  have s': "synced cs l'" by (rule sync.next_token_keeps [OF n(1) Cons.prems(1)])
  show ?case
  proof (cases "t = t'")
    case True
    have "synced cs (skip_blanks l)" by (rule sync.skip_blanks_keeps [OF Cons.prems(1)])
    with s' True next_token_positions [OF n(1)] show ?thesis by (auto simp: synced_def)
  next
    case False
    with Cons.prems Cons.IH [OF s' n(3)] show ?thesis by auto
  qed
qed

lemma tokenize_budget:
  "tokenize l = Inr ts \<Longrightarrow> lx_node_count l \<le> lx_max_nodes l \<Longrightarrow>
     lx_node_count l + length ts \<le> lx_max_nodes l"
proof (induction ts arbitrary: l)
  case Nil
  then show ?case by simp
next
  case (Cons t ts)
  then obtain l' where n: "next_token l = Inr (t, l')" "\<not> is_eof t" "tokenize l' = Inr ts"
    by (auto elim: tokenize_Inr)
  have "lx_node_count l < lx_max_nodes l"
    using n by (cases rule: next_token_cases [of l]) (auto simp: next_token_eof [OF n(1)])
  with Cons.IH [OF n(3)] n(2) next_token_positions [OF n(1)] show ?case by simp
qed

lemma tokenize_abort:
  "tokenize l = Inl e \<Longrightarrow> e = LexerBudgetExceeded (lx_max_nodes l)"
proof (induction l rule: tokenize.induct)
  case (1 l)
  show ?case
  proof (cases "next_token l")
    case (Inl e')
    with "1.prems" show ?thesis
      by (cases rule: next_token_cases [of l]) (auto simp: tokenize.simps [of l])
  next
    case (Inr r)
    obtain t l' where r: "r = (t, l')" by (cases r)
    have "\<not> is_eof t" "tokenize l' = Inl e"
      using "1.prems" Inr r by (auto simp: tokenize.simps [of l] split: if_splits sum.splits)
    with "1.IH" [OF Inr r [symmetric]] next_token_positions [of l t l'] Inr r show ?thesis by simp
  qed
qed

end
