(* ===== verification/Parser_Logic.thy ===== *)
theory Parser_Logic
  imports Bash_Parser Bash_Lexer_Props
begin

section \<open>A program logic for the parser\<close>

text \<open>
  \<open>okay J n P s m\<close> says that the method \<open>m\<close>, started in the state \<open>s\<close> that satisfies the parser's
  invariant and \<open>J\<close> with at least \<open>MAX_DEPTH + 1 - n\<close> levels entered, aborts, if at all, for a reason
  the source documents, and that if it returns a value \<open>r\<close> in a state \<open>s'\<close> then the invariant and \<open>J\<close> hold of
  \<open>s'\<close>, \<open>s'\<close> extends \<open>s\<close> (same source, budget and depth, no more work left, no earlier token) and
  \<open>P r s'\<close>. The rules compose these facts along \<open>bnd\<close>, \<open>if\<close>, \<open>case\<close> and \<open>loop\<close>; a loop needs an
  invariant of its variables and that an iteration that goes on has reduced the work left.
\<close>

named_theorems pm_rules \<open>rules that split a method into its parts\<close>
named_theorems pm_steps \<open>rules for a call followed by the rest of the method\<close>

abbreviation (input) cpos :: "pstate \<Rightarrow> nat" where
  "cpos s \<equiv> cur_start_byte s"

definition parser_inv :: "pstate \<Rightarrow> bool" where
  "parser_inv s \<longleftrightarrow>
     (is_eof (ps_current s) \<longrightarrow> lx_len (ps_lexer s) \<le> lx_i (ps_lexer s)) \<and>
     start_byte (ps_current s) \<le> lx_b (ps_lexer s) \<and>
     ps_node_count s \<le> ps_max_nodes s \<and> ps_depth s \<le> MAX_DEPTH"

definition ext :: "pstate \<Rightarrow> pstate \<Rightarrow> bool" where
  "ext s s' \<longleftrightarrow>
     lx_units (ps_lexer s') = lx_units (ps_lexer s) \<and> ps_max_nodes s' = ps_max_nodes s \<and>
     ps_expired s' = ps_expired s \<and> ps_depth s' = ps_depth s \<and>
     lx_max_nodes (ps_lexer s') = lx_max_nodes (ps_lexer s) \<and>
     ps_node_count s \<le> ps_node_count s' \<and> tokens_left s' \<le> tokens_left s \<and>
     cpos s \<le> cpos s'"

definition enough :: "nat \<Rightarrow> pstate \<Rightarrow> bool" where
  "enough n s \<longleftrightarrow> Suc MAX_DEPTH \<le> n + ps_depth s"

text \<open>The aborts the source documents; \<open>FuelExhausted\<close> is not one of them.\<close>

definition abort_of :: "pstate \<Rightarrow> parse_abort \<Rightarrow> bool" where
  "abort_of s e \<longleftrightarrow>
     (e = ParserTimeout \<and> (\<exists>k. ps_expired s k)) \<or> e = ParserBudgetExceeded (ps_max_nodes s) \<or>
     e = ParserBudgetExceeded MAX_DEPTH \<or> e = LexerBudgetExceeded (lx_max_nodes (ps_lexer s))"

definition okay ::
    "(pstate \<Rightarrow> bool) \<Rightarrow> nat \<Rightarrow> ('a \<Rightarrow> pstate \<Rightarrow> bool) \<Rightarrow> pstate \<Rightarrow> 'a pm \<Rightarrow> bool" where
  "okay J n P s m \<longleftrightarrow>
     (parser_inv s \<longrightarrow> J s \<longrightarrow> enough n s \<longrightarrow>
        (case m s of
           Inl e \<Rightarrow> abort_of s e
         | Inr r \<Rightarrow> parser_inv (snd r) \<and> J (snd r) \<and> ext s (snd r) \<and> P (fst r) (snd r)))"

lemma ext_refl [simp]: "ext s s"
  by (simp add: ext_def)

lemma ext_trans: "ext s s' \<Longrightarrow> ext s' s'' \<Longrightarrow> ext s s''"
  by (auto simp: ext_def)

lemma ext_enough: "ext s s' \<Longrightarrow> enough n s \<Longrightarrow> enough n s'"
  by (simp add: ext_def enough_def)

lemma ext_work: "ext s s' \<Longrightarrow> work_left s' \<le> work_left s"
  by (auto simp: ext_def work_left_def intro: add_mono diff_le_mono2)

lemma ext_pos: "ext s s' \<Longrightarrow> cpos s \<le> cpos s'"
  by (simp add: ext_def)

lemma ext_abort: "ext s s' \<Longrightarrow> abort_of s' e = abort_of s e"
  by (simp add: ext_def abort_of_def)

lemma okayI:
  assumes "\<And>e. parser_inv s \<Longrightarrow> J s \<Longrightarrow> enough n s \<Longrightarrow> m s = Inl e \<Longrightarrow> abort_of s e"
    and "\<And>r s'. parser_inv s \<Longrightarrow> J s \<Longrightarrow> enough n s \<Longrightarrow> m s = Inr (r, s') \<Longrightarrow>
      parser_inv s' \<and> J s' \<and> ext s s' \<and> P r s'"
  shows "okay J n P s m"
  using assms(1) assms(2) [of "fst (projr (m s))" "snd (projr (m s))"]
  by (cases "m s") (simp_all add: okay_def)

lemma okayD:
  assumes "okay J n P s m" "parser_inv s" "J s" "enough n s"
  shows "m s = Inl e \<Longrightarrow> abort_of s e"
    and "m s = Inr (r, s') \<Longrightarrow> parser_inv s'"
    and "m s = Inr (r, s') \<Longrightarrow> J s'"
    and "m s = Inr (r, s') \<Longrightarrow> ext s s'"
    and "m s = Inr (r, s') \<Longrightarrow> P r s'"
  using assms by (simp_all add: okay_def)

lemma okay_pre: "(parser_inv s \<Longrightarrow> J s \<Longrightarrow> enough n s \<Longrightarrow> okay J n P s m) \<Longrightarrow> okay J n P s m"
  by (auto simp: okay_def)

lemma okay_conseq:
  assumes "okay J n Q s m" "\<And>r s'. Q r s' \<Longrightarrow> J s' \<Longrightarrow> work_left s' \<le> work_left s \<Longrightarrow>
      cpos s \<le> cpos s' \<Longrightarrow> P r s'"
  shows "okay J n P s m"
  using assms ext_pos [of s] ext_work [of s] by (auto simp: okay_def split: sum.splits)

lemma okay_fewer: "okay J n P s m \<Longrightarrow> k \<le> n \<Longrightarrow> okay J k P s m"
  by (auto simp: okay_def enough_def)

lemma okay_min: "okay J (min (Suc MAX_DEPTH) n) P s m \<Longrightarrow> okay J n P s m"
  by (auto simp: okay_def enough_def)

subsection \<open>Composition\<close>

lemma okay_ret [pm_rules]: "P x s \<Longrightarrow> okay J n P s (ret x)"
  by (simp add: okay_def ret_def)

lemma okay_bnd:
  assumes m: "okay J n Q s m"
    and f: "\<And>x s'. Q x s' \<Longrightarrow> J s' \<Longrightarrow> work_left s' \<le> work_left s \<Longrightarrow> cpos s \<le> cpos s' \<Longrightarrow>
      okay J n P s' (f x)"
  shows "okay J n P s (bnd m f)"
proof (rule okay_pre)
  assume s: "parser_inv s" "J s" "enough n s"
  show "okay J n P s (bnd m f)"
  proof (cases "m s")
    case (Inl e)
    with okayD(1) [OF m s Inl] show ?thesis by (simp add: okay_def bnd_def)
  next
    case (Inr r)
    obtain x s' where r: "m s = Inr (x, s')" using Inr by (cases r) simp
    note s' = okayD(2-5) [OF m s r]
    have "okay J n P s' (f x)"
      by (rule f) (use s' ext_work ext_pos in blast)+
    then show ?thesis
      using s' s(3) r ext_trans [OF s'(3)] ext_enough [OF s'(3)] ext_abort [OF s'(3)]
      by (auto simp: okay_def bnd_def split: sum.splits)
  qed
qed

lemma bnd_assoc: "bnd (bnd m g) f = bnd m (\<lambda>x. bnd (g x) f)"
  by (simp add: fun_eq_iff bnd_def split: sum.split)

lemma bnd_ret: "bnd m ret = m"
  by (simp add: fun_eq_iff bnd_def ret_def split: sum.split)

lemma okay_bnd_gets [pm_steps]:
  "(J s \<Longrightarrow> okay J n P s (f (g s))) \<Longrightarrow> okay J n P s (bnd (gets g) f)"
  by (auto simp: okay_def bnd_def gets_def)

lemma okay_bnd_ret [pm_steps]: "okay J n P s (f x) \<Longrightarrow> okay J n P s (bnd (ret x) f)"
  by (simp add: okay_def bnd_def ret_def)

lemma okay_bnd_bnd [pm_steps]:
  "okay J n P s (bnd m (\<lambda>x. bnd (g x) f)) \<Longrightarrow> okay J n P s (bnd (bnd m g) f)"
  by (simp add: bnd_assoc)

lemma okay_if [pm_rules]:
  "(c \<Longrightarrow> okay J n P s a) \<Longrightarrow> (\<not> c \<Longrightarrow> okay J n P s b) \<Longrightarrow> okay J n P s (if c then a else b)"
  by simp

lemma okay_bnd_if [pm_steps]:
  "(c \<Longrightarrow> okay J n P s (bnd a f)) \<Longrightarrow> (\<not> c \<Longrightarrow> okay J n P s (bnd b f)) \<Longrightarrow>
   okay J n P s (bnd (if c then a else b) f)"
  by simp

lemma okay_option [pm_rules]:
  "(r = None \<Longrightarrow> okay J n P s a) \<Longrightarrow> (\<And>x. r = Some x \<Longrightarrow> okay J n P s (f x)) \<Longrightarrow>
   okay J n P s (case r of None \<Rightarrow> a | Some x \<Rightarrow> f x)"
  by (cases r) simp_all

lemma okay_prod [pm_rules]:
  "(\<And>a b. p = (a, b) \<Longrightarrow> okay J n P s (f a b)) \<Longrightarrow> okay J n P s (case p of (a, b) \<Rightarrow> f a b)"
  by (cases p) simp

lemma okay_let [pm_rules]: "(\<And>y. y = x \<Longrightarrow> okay J n P s (f y)) \<Longrightarrow> okay J n P s (let y = x in f y)"
  by simp

lemma okay_last: "okay J n P s (bnd m ret) \<Longrightarrow> okay J n P s m"
  by (simp add: bnd_ret)

text \<open>The bound of a loop is enough.\<close>

lemma okay_while:
  assumes body: "\<And>a s. I a s \<Longrightarrow> c a s \<Longrightarrow> J s \<Longrightarrow> okay J n (\<lambda>r s'. I (snd r) s' \<and>
      (fst r \<longrightarrow> work_left s' < work_left s)) s (b a)"
  shows "I a s \<Longrightarrow> work_left s < k \<Longrightarrow> okay J n I s (while_pm k c b a)"
proof (induction k arbitrary: a s)
  case 0
  then show ?case by simp
next
  case (Suc k)
  show ?case
  proof (rule okay_pre)
    assume s: "parser_inv s" "J s" "enough n s"
    show "okay J n I s (while_pm (Suc k) c b a)"
    proof (cases "c a s")
      case False
      then show ?thesis
        using s Suc.prems(1) by (simp add: okay_def while_pm.simps [of "Suc k"])
    next
      case True
      note run = while_pm.simps [of "Suc k"]
      note body' = okayD [OF body [OF Suc.prems(1) True s(2)] s]
      show ?thesis
      proof (cases "b a s")
        case (Inl e)
        then show ?thesis
          using True body'(1) [OF Inl] by (simp add: okay_def run)
      next
        case (Inr r)
        obtain go a' s' where r: "b a s = Inr ((go, a'), s')"
          using Inr by (metis prod.exhaust)
        note s' = body'(2-5) [OF r]
        show ?thesis
        proof (cases go)
          case False
          then show ?thesis using True r s' by (simp add: okay_def run)
        next
          case go: True
          have "okay J n I s' (while_pm k c b a')"
            using Suc.IH [of a' s'] s'(4) go Suc.prems(2) by simp
          then show ?thesis
            using True r go s' s(3) ext_trans [OF s'(3)] ext_enough [OF s'(3)]
              ext_abort [OF s'(3)]
            by (auto simp: okay_def run split: sum.splits)
        qed
      qed
    qed
  qed
qed

lemma okay_loop:
  assumes "I a s"
    and "\<And>a s. I a s \<Longrightarrow> c a s \<Longrightarrow> J s \<Longrightarrow> okay J n (\<lambda>r s'. I (snd r) s' \<and>
      (fst r \<longrightarrow> work_left s' < work_left s)) s (b a)"
  shows "okay J n I s (loop c b a)"
  using okay_while [where I = I and c = c and b = b, OF assms(2) assms(1), of "Suc (work_left s)"]
  by (simp add: okay_def loop_def)

end
