(* ===== verification/Bash_Tree.thy ===== *)
theory Bash_Tree
  imports Parser_Monad
begin

section \<open>Well-formed syntax trees\<close>

text \<open>
  What the parser promises of the tree it returns, for the consumers of \<open>security.rs\<close>: which
  operators, names and words its nodes hold, and that the spans of the nodes are nested and ordered
  as the nodes are, each between two offsets that satisfy \<open>B\<close> (later: the boundaries of the source's
  code points).
\<close>

definition wf_span :: "(nat \<Rightarrow> bool) \<Rightarrow> span \<Rightarrow> bool" where
  "wf_span B sp = (span_start sp \<le> span_end sp \<and> B (span_start sp) \<and> B (span_end sp))"

definition span_range :: "span \<Rightarrow> nat \<times> nat" where
  "span_range sp = (span_start sp, span_end sp)"

text \<open>Disjoint ranges, in order, between two offsets.\<close>

fun ordered :: "nat \<Rightarrow> nat \<Rightarrow> (nat \<times> nat) list \<Rightarrow> bool" where
  "ordered lo hi [] = (lo \<le> hi)"
| "ordered lo hi (r # rs) = (lo \<le> fst r \<and> fst r \<le> snd r \<and> ordered (snd r) hi rs)"

lemma ordered_snoc [simp]:
  "ordered lo hi (rs @ [r]) = (ordered lo (fst r) rs \<and> fst r \<le> snd r \<and> snd r \<le> hi)"
  by (induction rs arbitrary: lo) auto

lemma ordered_le: "ordered lo hi rs \<Longrightarrow> lo \<le> hi"
  by (induction rs arbitrary: lo) force+

lemma ordered_mono: "ordered lo hi rs \<Longrightarrow> lo' \<le> lo \<Longrightarrow> hi \<le> hi' \<Longrightarrow> ordered lo' hi' rs"
  by (induction rs arbitrary: lo lo') auto

lemma ordered_last: "ordered lo hi rs \<Longrightarrow> rs \<noteq> [] \<Longrightarrow> ordered lo (snd (last rs)) rs"
  by (induction rs arbitrary: lo) (auto split: if_splits)

definition is_name :: "ustring \<Rightarrow> bool" where
  "is_name n = (n \<noteq> [] \<and> is_name_start (n ! 0) \<and> list_all is_name_char (drop 1 n))"

definition wf_var :: "var_assignment \<Rightarrow> bool" where
  "wf_var v = is_name (va_name v)"

definition wf_redirect :: "redirect_node \<Rightarrow> bool" where
  "wf_redirect r =
     (rd_operator r \<in> set (map u REDIRECT_OPERATORS) \<and> -1 \<le> rd_fd r \<and> rd_fd r \<le> 2147483647)"

definition wf_simple :: "(nat \<Rightarrow> bool) \<Rightarrow> simple_command \<Rightarrow> bool" where
  "wf_simple B c =
     ((sc_argv c \<noteq> [] \<or> 2 \<le> length (sc_env_vars c)) \<and> list_all wf_var (sc_env_vars c) \<and>
      list_all wf_redirect (sc_redirects c) \<and> wf_span B (sc_span c))"

definition TOO_COMPLEX_REASONS :: "string list" where
  "TOO_COMPLEX_REASONS =
     [''arithmetic_expansion'', ''process_substitution'', ''select_statement'',
      ''c_style_for_statement'']"

definition inside :: "span \<Rightarrow> span list \<Rightarrow> bool" where
  "inside sp sps = ordered (span_start sp) (span_end sp) (map span_range sps)"

fun item_span :: "case_item \<Rightarrow> span" where
  "item_span (CaseItem _ p) = program_span p"

fun wf_program :: "(nat \<Rightarrow> bool) \<Rightarrow> program_node \<Rightarrow> bool"
  and wf_statement :: "(nat \<Rightarrow> bool) \<Rightarrow> statement_node \<Rightarrow> bool"
  and wf_item :: "(nat \<Rightarrow> bool) \<Rightarrow> case_item \<Rightarrow> bool"
  and wf_node :: "(nat \<Rightarrow> bool) \<Rightarrow> bash_node \<Rightarrow> bool" where
  "wf_program B (ProgramNode sts sp) =
     (list_all (wf_statement B) sts \<and> inside sp (map stmt_span sts) \<and> wf_span B sp)"
| "wf_statement B (StatementNode b bg sp) =
     (wf_node B b \<and> inside sp [node_span b] \<and> wf_span B sp)"
| "wf_item B (CaseItem pats p) = wf_program B p"
| "wf_node B (Program p) = False"
| "wf_node B (Statement s) = False"
| "wf_node B (Pipeline cs neg sp) =
     (cs \<noteq> [] \<and> list_all (wf_node B) cs \<and> inside sp (map node_span cs) \<and> wf_span B sp)"
| "wf_node B (AndOr l op r sp) =
     (wf_node B l \<and> wf_node B r \<and> op \<in> {u ''&&'', u ''||''} \<and>
      inside sp [node_span l, node_span r] \<and> wf_span B sp)"
| "wf_node B (Subshell p sp) = (wf_program B p \<and> inside sp [program_span p] \<and> wf_span B sp)"
| "wf_node B (BraceGroup p sp) = (wf_program B p \<and> inside sp [program_span p] \<and> wf_span B sp)"
| "wf_node B (SimpleCommand c) = wf_simple B c"
| "wf_node B (If c t e sp) =
     (wf_program B c \<and> wf_program B t \<and> (case e of None \<Rightarrow> True | Some p \<Rightarrow> wf_program B p) \<and>
      inside sp ([program_span c, program_span t] @ map program_span (case e of None \<Rightarrow> [] | Some p \<Rightarrow> [p])) \<and>
      wf_span B sp)"
| "wf_node B (For v ws p sp) = (wf_program B p \<and> inside sp [program_span p] \<and> wf_span B sp)"
| "wf_node B (While c p neg sp) =
     (wf_program B c \<and> wf_program B p \<and> inside sp [program_span c, program_span p] \<and> wf_span B sp)"
| "wf_node B (Case w items sp) =
     (list_all (wf_item B) items \<and> inside sp (map item_span items) \<and> wf_span B sp)"
| "wf_node B (FunctionDef name body sp) =
     ((case body of None \<Rightarrow> True | Some b \<Rightarrow> wf_node B b \<and> inside sp [node_span b]) \<and> wf_span B sp)"
| "wf_node B (DeclarationCommand kw argv vars sp) =
     (kw \<in> set (map u DECL_KEYWORDS) \<and> argv \<noteq> [] \<and> hd argv = kw \<and> list_all wf_var vars \<and>
      wf_span B sp)"
| "wf_node B (RedirectedStatement b rs sp) =
     (wf_node B b \<and> rs \<noteq> [] \<and> list_all wf_redirect rs \<and> inside sp [node_span b] \<and> wf_span B sp)"
| "wf_node B (NegatedCommand body sp) =
     ((case body of None \<Rightarrow> True | Some b \<Rightarrow> wf_node B b \<and> inside sp [node_span b]) \<and> wf_span B sp)"
| "wf_node B (TestCommand argv sp) = wf_span B sp"
| "wf_node B (VariableAssignment name value is_append sp) =
     (is_name name \<and> \<not> is_append \<and> wf_span B sp)"
| "wf_node B (TooComplexNode reason sp) = (reason \<in> set (map u TOO_COMPLEX_REASONS) \<and> wf_span B sp)"

text \<open>A part of the tree that lies between two offsets.\<close>

definition node_at :: "(nat \<Rightarrow> bool) \<Rightarrow> nat \<Rightarrow> nat \<Rightarrow> bash_node \<Rightarrow> bool" where
  "node_at B lo hi n = (wf_node B n \<and> lo \<le> node_start_byte n \<and> node_end_byte n \<le> hi)"

definition opt_at :: "(nat \<Rightarrow> bool) \<Rightarrow> nat \<Rightarrow> nat \<Rightarrow> bash_node option \<Rightarrow> bool" where
  "opt_at B lo hi r = (case r of None \<Rightarrow> True | Some n \<Rightarrow> node_at B lo hi n)"

definition program_at :: "(nat \<Rightarrow> bool) \<Rightarrow> nat \<Rightarrow> nat \<Rightarrow> program_node \<Rightarrow> bool" where
  "program_at B lo hi p =
     (wf_program B p \<and> lo \<le> span_start (program_span p) \<and> span_end (program_span p) \<le> hi)"

lemma wf_node_span: "wf_node B n \<Longrightarrow> wf_span B (node_span n)"
  by (cases n) (auto simp: wf_simple_def)

lemma wf_program_span: "wf_program B p \<Longrightarrow> wf_span B (program_span p)"
  by (cases p) simp

lemma wf_statement_span: "wf_statement B s \<Longrightarrow> wf_span B (stmt_span s)"
  by (cases s) simp

lemma node_at_mono: "node_at B lo hi n \<Longrightarrow> lo' \<le> lo \<Longrightarrow> hi \<le> hi' \<Longrightarrow> node_at B lo' hi' n"
  by (auto simp: node_at_def)

lemma opt_at_mono: "opt_at B lo hi r \<Longrightarrow> lo' \<le> lo \<Longrightarrow> hi \<le> hi' \<Longrightarrow> opt_at B lo' hi' r"
  by (auto simp: opt_at_def intro: node_at_mono split: option.splits)

lemma opt_at_simps [simp]:
  "opt_at B lo hi None" "opt_at B lo hi (Some n) = node_at B lo hi n"
  by (simp_all add: opt_at_def)

lemma node_at_iff:
  "node_at B lo hi n \<longleftrightarrow> wf_node B n \<and> lo \<le> span_start (node_span n) \<and>
     span_start (node_span n) \<le> span_end (node_span n) \<and> span_end (node_span n) \<le> hi \<and>
     B (span_start (node_span n)) \<and> B (span_end (node_span n))"
  using wf_node_span [of B n]
  by (auto simp: node_at_def node_start_byte_def node_end_byte_def wf_span_def)

text \<open>The nodes of a pipeline under construction, and the pipeline.\<close>

definition nodes_at :: "(nat \<Rightarrow> bool) \<Rightarrow> nat \<Rightarrow> nat \<Rightarrow> bash_node list \<Rightarrow> bool" where
  "nodes_at B lo hi ns = (list_all (wf_node B) ns \<and> ordered lo hi (map (span_range \<circ> node_span) ns))"

lemma nodes_at_one: "node_at B lo hi n \<Longrightarrow> lo' \<le> lo \<Longrightarrow> nodes_at B lo' hi [n]"
  by (auto simp: nodes_at_def node_at_iff span_range_def)

lemma nodes_at_snoc:
  "nodes_at B lo hi ns \<Longrightarrow> node_at B lo' hi' n \<Longrightarrow> hi \<le> lo' \<Longrightarrow> nodes_at B lo hi' (ns @ [n])"
  by (auto simp: nodes_at_def node_at_iff span_range_def intro: ordered_mono)

lemma nodes_at_mono: "nodes_at B lo hi ns \<Longrightarrow> hi \<le> hi' \<Longrightarrow> nodes_at B lo hi' ns"
  by (auto simp: nodes_at_def intro: ordered_mono)

lemma ordered_bounds:
  "ordered lo hi rs \<Longrightarrow> r \<in> set rs \<Longrightarrow> lo \<le> fst r \<and> fst r \<le> snd r \<and> snd r \<le> hi"
  by (induction rs arbitrary: lo) (force dest: ordered_le)+

lemma pipeline_at:
  assumes "nodes_at B lo hi ns" "ns \<noteq> []" "B lo"
  shows "node_at B lo hi (Pipeline ns neg (Span_new lo (node_end_byte (last ns)) raw))"
proof -
  have last: "last ns \<in> set ns" using assms(2) by simp
  have "wf_node B (last ns)" using assms(1) last by (simp add: nodes_at_def list_all_iff)
  moreover have "lo \<le> node_start_byte (last ns) \<and> node_start_byte (last ns) \<le> node_end_byte (last ns) \<and>
      node_end_byte (last ns) \<le> hi"
    using assms(1) last ordered_bounds [of lo hi "map (span_range \<circ> node_span) ns" "span_range (node_span (last ns))"]
    by (simp add: nodes_at_def span_range_def node_start_byte_def node_end_byte_def)
  moreover have "ordered lo (node_end_byte (last ns)) (map (span_range \<circ> node_span) ns)"
    using assms(1,2) ordered_last [of lo hi "map (span_range \<circ> node_span) ns"]
    by (simp add: nodes_at_def last_map span_range_def node_end_byte_def)
  ultimately show ?thesis
    using assms wf_node_span [of B "last ns"]
    by (auto simp: node_at_def nodes_at_def inside_def wf_span_def Span_new_def node_start_byte_def
        node_end_byte_def)
qed

definition statements_at :: "(nat \<Rightarrow> bool) \<Rightarrow> nat \<Rightarrow> nat \<Rightarrow> statement_node list \<Rightarrow> bool" where
  "statements_at B lo hi sts =
     (list_all (wf_statement B) sts \<and> ordered lo hi (map (span_range \<circ> stmt_span) sts))"

definition statement_at :: "(nat \<Rightarrow> bool) \<Rightarrow> nat \<Rightarrow> nat \<Rightarrow> statement_node \<Rightarrow> bool" where
  "statement_at B lo hi st =
     (wf_statement B st \<and> lo \<le> span_start (stmt_span st) \<and> span_end (stmt_span st) \<le> hi)"

lemma statements_at_snoc:
  assumes "statements_at B lo hi sts" "statement_at B lo' hi' st" "hi \<le> lo'"
  shows "statements_at B lo hi' (sts @ [st])"
  using assms wf_statement_span [of B st]
  by (auto simp: statements_at_def statement_at_def wf_span_def span_range_def intro: ordered_mono)

lemma statements_at_mono: "statements_at B lo hi sts \<Longrightarrow> hi \<le> hi' \<Longrightarrow> statements_at B lo hi' sts"
  by (auto simp: statements_at_def intro: ordered_mono)

lemma program_at_iff:
  "program_at B lo hi p \<longleftrightarrow> wf_program B p \<and> lo \<le> span_start (program_span p) \<and>
     span_start (program_span p) \<le> span_end (program_span p) \<and>
     span_end (program_span p) \<le> hi"
  using wf_program_span [of B p] by (auto simp: program_at_def wf_span_def)

end
