(* ===== verification/Bash_Parser_Props.thy ===== *)
theory Bash_Parser_Props
  imports Parser_Logic Bash_Tree
begin

section \<open>What the parser promises\<close>

text \<open>
  The methods of \<open>BashParserCore\<close> never exhaust the bounds of the model and return well-formed
  trees. The contract with the lexer is the locale \<open>token_source\<close>: an invariant \<open>I\<close> of the scanner
  that survives \<open>restore_lex\<close> and places every token at an offset that satisfies \<open>B\<close>.
\<close>

definition holds_at :: "(lexer \<Rightarrow> bool) \<Rightarrow> (nat \<Rightarrow> bool) \<Rightarrow> pstate \<Rightarrow> bool" where
  "holds_at I B s = (I (ps_lexer s) \<and> B (start_byte (ps_current s)))"

lemma not_eof_simps [simp]:
  "cur_op op s \<Longrightarrow> \<not> cur_eof s"
  "cur_word w s \<Longrightarrow> \<not> cur_eof s"
  "is_word_token s \<Longrightarrow> \<not> cur_eof s"
  "is_separator s \<Longrightarrow> \<not> cur_eof s"
  "is_redirect_operator s \<Longrightarrow> \<not> cur_eof s"
  "is_fd_redirect_start s \<Longrightarrow> \<not> cur_eof s"
  "is_var_assignment s \<Longrightarrow> \<not> cur_eof s"
  "cur_type s = Newline \<Longrightarrow> \<not> cur_eof s"
  "cur_type s = Comment \<Longrightarrow> \<not> cur_eof s"
  "cur_type s = Op \<Longrightarrow> \<not> cur_eof s"
  "cur_type s = Word \<Longrightarrow> \<not> cur_eof s"
  "cur_type s = Number \<Longrightarrow> \<not> cur_eof s"
  by (auto simp: cur_op_def cur_word_def is_word_token_def is_separator_def is_redirect_operator_def
      is_fd_redirect_start_def is_var_assignment_def cur_eof_def cur_type_def is_op_def is_word_def
      is_eof_def)

locale token_source = scanner_invariant I for I :: "lexer \<Rightarrow> bool" +
  fixes B :: "nat \<Rightarrow> bool"
  assumes offset: "I l \<Longrightarrow> B (lx_b l)"
    and restore_keeps: "I l \<Longrightarrow> I l' \<Longrightarrow> lx_units l' = lx_units l \<Longrightarrow> I (restore_lex l' (save_lex l))"
begin

lemma holds_B [simp]: "holds_at I B s \<Longrightarrow> B (cpos s)"
  by (simp add: holds_at_def cur_start_byte_def)

lemmas spans = node_at_iff inside_def span_range_def wf_span_def Span_new_def
  node_start_byte_def node_end_byte_def cur_text_def

subsection \<open>The elementary steps\<close>

lemma okay_consume:
  "okay (holds_at I B) n (\<lambda>t s'. t = ps_current s \<and> (\<not> cur_eof s \<longrightarrow> work_left s' < work_left s)) s
     consume"
proof (rule okayI)
  fix e assume "consume s = Inl e"
  then show "abort_of s e"
    by (cases rule: next_token_cases [of "ps_lexer s"])
      (auto simp: consume_def abort_of_def split: sum.splits)
next
  fix t s' assume inv: "parser_inv s" "holds_at I B s" and c: "consume s = Inr (t, s')"
  define l where "l = ps_lexer s"
  obtain t' l' where n: "next_token l = Inr (t', l')"
      and s': "s' = s\<lparr>ps_lexer := l', ps_current := t'\<rparr>" "t = ps_current s"
    using c by (auto simp: consume_def l_def split: sum.splits)
  note pos = next_token_positions [OF n]
  have b: "lx_b l \<le> lx_b (skip_blanks l)"
    using moved_frame [OF moved_skip_blanks [of l]] by simp
  have b': "lx_b (skip_blanks l) \<le> lx_b l'"
    using next_token_bytes [OF n] .
  have "I l'" using next_token_keeps [OF n] inv(2) by (simp add: holds_at_def l_def)
  moreover have "B (lx_b (skip_blanks l))"
    using offset [OF skip_blanks_keeps] inv(2) by (simp add: holds_at_def l_def)
  moreover have "is_eof t' \<Longrightarrow> lx_len l \<le> lx_i l'"
    using next_token_eof [OF n] n by (cases rule: next_token_cases [of l]) auto
  moreover have "tokens_left s' \<le> tokens_left s \<and> (\<not> cur_eof s \<longrightarrow> tokens_left s' < tokens_left s)"
  proof (cases "is_eof t'")
    case True
    then show ?thesis using s' by (simp add: tokens_left_def cur_eof_def)
  next
    case False
    then show ?thesis
      using next_token_progress [OF n] inv(1) pos(5) s'
      by (auto simp: tokens_left_def cur_eof_def parser_inv_def l_def)
  qed
  ultimately show "parser_inv s' \<and> holds_at I B s' \<and> ext s s' \<and>
      t = ps_current s \<and> (\<not> cur_eof s \<longrightarrow> work_left s' < work_left s)"
    using inv pos s' b b'
    by (auto simp: parser_inv_def holds_at_def ext_def cur_start_byte_def l_def work_left_def)
qed

lemma okay_check_budget:
  "okay (holds_at I B) n (\<lambda>_ s'. work_left s' < work_left s \<and> cpos s' = cpos s \<and>
     cur_text s' = cur_text s) s check_budget"
  by (rule okayI)
    (auto simp: check_budget_def Let_def parser_inv_def holds_at_def ext_def cur_start_byte_def cur_text_def
      tokens_left_def work_left_def abort_of_def split: if_splits)

lemma okay_with_depth:
  assumes m: "\<And>s1. ps_current s1 = ps_current s \<Longrightarrow> okay (holds_at I B) n P s1 m"
    and P: "\<And>r s' d. P r s' \<Longrightarrow> P r (s'\<lparr>ps_depth := d\<rparr>)"
  shows "okay (holds_at I B) (Suc n) P s (with_depth m)"
proof (rule okay_pre)
  assume s: "parser_inv s" "holds_at I B s" "enough (Suc n) s"
  show ?thesis
  proof (cases "MAX_DEPTH < ps_depth s + 1")
    case True
    then show ?thesis by (simp add: okay_def with_depth_def enter_def bnd_def abort_of_def)
  next
    case False
    define s1 where "s1 = s\<lparr>ps_depth := ps_depth s + 1\<rparr>"
    have s1: "parser_inv s1" "holds_at I B s1" "enough n s1" "ps_current s1 = ps_current s"
      using s False by (auto simp: s1_def parser_inv_def holds_at_def enough_def)
    have run: "with_depth m s = bnd m (\<lambda>r. bnd leave (\<lambda>_. ret r)) s1"
      using False by (simp add: with_depth_def bnd_def enter_def s1_def)
    show ?thesis
    proof (cases "m s1")
      case (Inl e)
      with run okayD(1) [OF m [OF s1(4)] s1(1-3) Inl] show ?thesis
        by (simp add: okay_def bnd_def abort_of_def s1_def)
    next
      case (Inr r)
      obtain x s2 where r: "m s1 = Inr (x, s2)" using Inr by (cases r) simp
      note s2 = okayD(2-5) [OF m [OF s1(4)] s1(1-3) r]
      have res: "with_depth m s = Inr (x, s2\<lparr>ps_depth := ps_depth s2 - 1\<rparr>)"
        using run r by (simp add: bnd_def leave_def ret_def)
      have "ps_depth s2 = ps_depth s + 1" using s2(3) by (simp add: ext_def s1_def)
      then show ?thesis
        using s2 P [OF s2(4)] res s
        by (auto simp: okay_def parser_inv_def holds_at_def ext_def s1_def tokens_left_def
            cur_start_byte_def)
    qed
  qed
qed

lemmas pm_consume [pm_steps] = okay_bnd [OF okay_consume]
lemmas pm_check_budget [pm_steps] = okay_bnd [OF okay_check_budget]

lemma okay_consume_op:
  "okay (holds_at I B) n (\<lambda>r s'. r \<noteq> None \<longrightarrow> work_left s' < work_left s) s (consume_op op)"
  unfolding consume_op_def by (intro pm_rules pm_steps) auto

lemma okay_consume_keyword:
  "okay (holds_at I B) n (\<lambda>r s'. r \<noteq> None \<longrightarrow> work_left s' < work_left s) s (consume_keyword op)"
  unfolding consume_keyword_def by (intro pm_rules pm_steps) auto

lemma okay_skip_newlines: "okay (holds_at I B) n (\<lambda>_ _. True) s skip_newlines"
  unfolding skip_newlines_def by (intro okay_loop pm_rules pm_steps) auto

lemma okay_span_here:
  "start_b \<le> cpos s \<Longrightarrow> B start_b \<Longrightarrow>
   okay (holds_at I B) n (\<lambda>sp s'. wf_span B sp \<and> span_start sp = start_b \<and> span_end sp = cpos s') s
     (span_here start_b start_i)"
  by (rule okayI) (auto simp: span_here_def gets_def wf_span_def Span_new_def)

lemmas pm_tokens [pm_steps] =
  okay_bnd [OF okay_consume_op] okay_bnd [OF okay_consume_keyword] okay_bnd [OF okay_skip_newlines]
  okay_bnd [OF okay_span_here]

subsection \<open>Words, assignments and redirections\<close>

lemma okay_consume_word:
  "okay (holds_at I B) n (\<lambda>r s'. r \<noteq> None \<longrightarrow> work_left s' < work_left s) s consume_word"
  unfolding consume_word_def
  by (intro pm_rules pm_steps okay_bnd [OF okay_loop [where I = "\<lambda>_ _. True"]]) auto

lemma okay_parse_var_assignment:
  assumes "is_var_assignment s"
  shows "okay (holds_at I B) n (\<lambda>r s'. work_left s' < work_left s \<and> (\<exists>v. r = Some v \<and> wf_var v)) s
    parse_var_assignment"
proof -
  have eof: "\<not> cur_eof s" using assms by simp
  obtain eq where eq: "find_unit (uc CHR ''='') (cur_text s) = Some eq" "eq \<noteq> 0"
      "is_name_start (cur_text s ! 0)" "list_all is_name_char (drop 1 (take eq (cur_text s)))"
    using assms by (auto simp: is_var_assignment_def split: option.splits)
  then have "is_name (take eq (cur_text s))"
    using find_unit_Some [OF eq(1)] by (auto simp: is_name_def)
  then show ?thesis
    unfolding parse_var_assignment_def
    by (intro pm_rules pm_steps okay_bnd [OF okay_consume_word])
      (auto simp: eq(1) [simplified] eof wf_var_def)
qed

lemma okay_parse_redirect:
  "okay (holds_at I B) n (\<lambda>r s'. (\<forall>v. r = Some v \<longrightarrow> wf_redirect v) \<and>
     (is_redirect_operator s \<or> is_fd_redirect_start s \<longrightarrow> work_left s' < work_left s)) s parse_redirect"
  unfolding parse_redirect_def
  by (intro pm_rules pm_steps okay_bnd [OF okay_consume_word])
    (auto simp: wf_redirect_def parse_fd_def is_redirect_operator_def is_fd_redirect_start_def cur_text_def)

lemma okay_parse_too_complex:
  assumes "start_b \<le> cpos s" "B start_b" "reason \<in> set TOO_COMPLEX_REASONS"
  shows "okay (holds_at I B) n (\<lambda>r s'. node_at B start_b (cpos s') r) s
    (parse_too_complex reason start_b start_i)"
  unfolding parse_too_complex_def
  using assms
  by (intro pm_rules pm_steps okay_bnd [OF okay_loop [where I = "\<lambda>_ _. True"]])
    (auto simp: node_at_def node_start_byte_def node_end_byte_def)

lemmas pm_words [pm_steps] =
  okay_bnd [OF okay_consume_word] okay_bnd [OF okay_parse_var_assignment]
  okay_bnd [OF okay_parse_redirect] okay_bnd [OF okay_parse_too_complex]

subsection \<open>Simple commands\<close>

lemma okay_parse_leading_assignments:
  "okay (holds_at I B) n (\<lambda>vs _. list_all wf_var vs) s parse_leading_assignments"
  unfolding parse_leading_assignments_def
  by (intro okay_loop pm_rules pm_steps) auto

lemma okay_parse_redirects:
  assumes "\<And>s. c s \<Longrightarrow> is_redirect_operator s \<or> is_fd_redirect_start s"
  shows "okay (holds_at I B) n (\<lambda>rs _. list_all wf_redirect rs) s (parse_redirects c)"
  unfolding parse_redirects_def
  by (intro okay_loop pm_rules pm_steps) (use assms in \<open>auto split: option.splits\<close>)

lemma okay_parse_command_words:
  assumes "start_b \<le> cpos s" "B start_b" "list_all wf_var env0"
  shows "okay (holds_at I B) n
    (\<lambda>r s'. list_all wf_var (fst r) \<and>
       (\<forall>e. snd (snd r) = Some e \<longrightarrow> node_at B start_b (cpos s') e)) s
    (parse_command_words start_b start_i env0)"
proof -
  let ?I = "\<lambda>r s'. start_b \<le> cpos s' \<and> list_all wf_var (fst r) \<and>
       (\<forall>e. snd (snd r) = Some e \<longrightarrow> node_at B start_b (cpos s') e)"
  have "okay (holds_at I B) n ?I s (parse_command_words start_b start_i env0)"
    unfolding parse_command_words_def
    by (intro okay_loop pm_rules pm_steps)
      (use assms in \<open>auto simp: TOO_COMPLEX_REASONS_def intro: node_at_mono\<close>)
  then show ?thesis by (rule okay_conseq) auto
qed

lemmas pm_simple [pm_steps] =
  okay_bnd [OF okay_parse_leading_assignments] okay_bnd [OF okay_parse_redirects]
  okay_bnd [OF okay_parse_command_words]

lemma okay_parse_simple_command:
  "okay (holds_at I B) n (\<lambda>r s'. opt_at B (cpos s) (cpos s') r) s parse_simple_command"
  unfolding parse_simple_command_def
  by (intro pm_rules pm_steps)
    (auto simp: node_at_def node_start_byte_def node_end_byte_def wf_simple_def wf_var_def
       length_Suc_conv Suc_le_eq numeral_2_eq_2 neq_Nil_conv)

text \<open>A lookahead that is undone when it fails.\<close>

lemma okay_lookahead:
  assumes look: "okay (holds_at I B) n (\<lambda>_ _. True) s look"
    and yes: "\<And>s'. holds_at I B s' \<Longrightarrow> cpos s \<le> cpos s' \<Longrightarrow> okay (holds_at I B) n P s' a"
    and no: "\<And>s'. ps_current s' = ps_current s \<Longrightarrow> okay (holds_at I B) n P s' b"
  shows "okay (holds_at I B) n P s (bnd look (\<lambda>c. if c then a else bnd (restore_to s) (\<lambda>_. b)))"
    (is "okay _ _ _ _ ?m")
proof (rule okay_pre)
  assume s: "parser_inv s" "holds_at I B s" "enough n s"
  note L = okayD [OF look s]
  show ?thesis
  proof (cases "look s")
    case (Inl e)
    with L(1) show ?thesis by (simp add: okay_def bnd_def)
  next
    case (Inr r)
    obtain c s1 where r: "look s = Inr (c, s1)" using Inr by (cases r) simp
    note s1 = L(2-4) [OF r]
    define s2 where "s2 = (if c then s1 else
      s1\<lparr>ps_lexer := restore_lex (ps_lexer s1) (save_lex (ps_lexer s)),
         ps_current := ps_current s, ps_node_count := ps_node_count s\<rparr>)"
    have s2: "parser_inv s2" "holds_at I B s2" "ext s s2"
      using s s1 restore_keeps [of "ps_lexer s" "ps_lexer s1"]
      by (auto simp: s2_def parser_inv_def holds_at_def ext_def restore_lex_def save_lex_def
          tokens_left_def cur_start_byte_def)
    have "okay (holds_at I B) n P s2 (if c then a else b)"
      using yes [of s2] no [of s2] s2(2) ext_pos [OF s2(3)] by (cases c) (simp_all add: s2_def)
    moreover have "?m s = (if c then a else b) s2"
      using r by (simp add: bnd_def restore_to_def s2_def)
    ultimately show ?thesis
      using s2 ext_trans [OF s2(3)] ext_enough [OF s2(3) s(3)] ext_abort [OF s2(3)]
      by (auto simp: okay_def split: sum.splits)
  qed
qed

lemma okay_parse_simple_command_or_function:
  assumes H: "\<And>s. okay (holds_at I B) n (\<lambda>r s'. opt_at B (cpos s) (cpos s') r) s pcmd"
  shows "okay (holds_at I B) n (\<lambda>r s'. opt_at B (cpos s) (cpos s') r) s
    (parse_simple_command_or_function pcmd)"
  unfolding parse_simple_command_or_function_def
proof (rule okay_bnd_gets, rule okay_lookahead, goal_cases)
  case 1
  show ?case by (intro pm_rules pm_steps) simp_all
next
  case (2 s')
  then show ?case
    by (intro pm_rules pm_steps okay_bnd [OF H])
      (auto simp: opt_at_def spans split: option.splits)
next
  case (3 s')
  then show ?case
    by (intro okay_conseq [OF okay_parse_simple_command]) (simp add: cur_start_byte_def)
qed

subsection \<open>Pipelines, lists and statements\<close>

lemma okay_parse_pipeline:
  assumes H: "\<And>s. okay (holds_at I B) n (\<lambda>r s'. opt_at B (cpos s) (cpos s') r) s pcmd"
  shows "okay (holds_at I B) n (\<lambda>r s'. opt_at B (cpos s) (cpos s') r) s (parse_pipeline pcmd)"
proof -
  let ?I = "\<lambda>cmds s'. cmds \<noteq> [] \<and> nodes_at B (cpos s) (cpos s') cmds"
  show ?thesis
    unfolding parse_pipeline_def
    apply (intro pm_rules pm_steps okay_bnd [OF H] okay_bnd [OF okay_loop [where I = ?I]])
    apply (simp_all add: opt_at_def)
    subgoal by (auto simp: spans)
    subgoal by (erule node_at_mono) simp_all
    subgoal by (erule nodes_at_one) simp
    subgoal by (elim conjE, erule nodes_at_mono) simp
    subgoal by (elim conjE, erule (1) nodes_at_snoc) simp
    subgoal by (elim conjE, erule pipeline_at) simp_all
    done
qed

lemma okay_parse_and_or:
  assumes H: "\<And>s. okay (holds_at I B) n (\<lambda>r s'. opt_at B (cpos s) (cpos s') r) s pcmd"
  shows "okay (holds_at I B) n (\<lambda>r s'. opt_at B (cpos s) (cpos s') r) s (parse_and_or pcmd)"
proof -
  let ?I = "\<lambda>left s'. node_at B (cpos s) (cpos s') left"
  note pipe = okay_bnd [OF okay_parse_pipeline [OF H]]
  show ?thesis
    unfolding parse_and_or_def
    apply (intro pm_rules pm_steps pipe okay_bnd [OF okay_loop [where I = ?I]])
    apply (simp_all add: opt_at_def)
    subgoal by (erule node_at_mono) simp_all
    subgoal by (auto simp: spans cur_op_def is_op_def)
    done
qed

lemma okay_parse_statement:
  assumes H: "\<And>s. okay (holds_at I B) n (\<lambda>r s'. opt_at B (cpos s) (cpos s') r) s pcmd"
  shows "okay (holds_at I B) n
    (\<lambda>r s'. work_left s' < work_left s \<and> (\<forall>st. r = Some st \<longrightarrow> statement_at B (cpos s) (cpos s') st)) s
    (parse_statement pcmd)"
proof -
  have inner: "okay (holds_at I B) n
      (\<lambda>r s'. \<forall>st. r = Some st \<longrightarrow> statement_at B (cpos s) (cpos s') st) s
      (parse_statement_inner pcmd)" for s
    unfolding parse_statement_inner_def
    by (intro pm_rules pm_steps okay_bnd [OF okay_parse_and_or [OF H]])
      (auto simp: statement_at_def spans opt_at_def)
  have deep: "okay (holds_at I B) (Suc n)
      (\<lambda>r s'. \<forall>st. r = Some st \<longrightarrow> statement_at B (cpos s) (cpos s') st) s
      (with_depth (parse_statement_inner pcmd))" for s
    by (rule okay_with_depth, rule okay_conseq [OF inner])
      (auto simp: cur_start_byte_def)
  show ?thesis
    unfolding parse_statement_def
    by (intro okay_bnd [OF okay_check_budget] okay_conseq [OF okay_fewer [OF deep]])
      auto
qed

lemma okay_statement_loop:
  assumes H: "\<And>s. okay (holds_at I B) n (\<lambda>r s'. opt_at B (cpos s) (cpos s') r) s pcmd"
  shows "okay (holds_at I B) n (\<lambda>r s'. statements_at B (cpos s) (cpos s') r) s
    (statement_loop pcmd stop)"
proof -
  let ?I = "\<lambda>sts s'. statements_at B (cpos s) (cpos s') sts"
  note st = okay_bnd [OF okay_parse_statement [OF H]]
  note sep = okay_bnd [OF okay_loop [where I = "\<lambda>_ _. True"]]
  show ?thesis
    unfolding statement_loop_def consume_separators_def
    apply (intro okay_loop pm_rules pm_steps st sep)
    apply simp_all
    subgoal by (simp add: statements_at_def)
    subgoal
      by (auto split: option.split intro: statements_at_mono
          elim: statements_at_mono [OF statements_at_snoc])
    done
qed

lemma okay_parse_statements:
  assumes H: "\<And>s. okay (holds_at I B) n (\<lambda>r s'. opt_at B (cpos s) (cpos s') r) s pcmd"
  shows "okay (holds_at I B) n (\<lambda>r s'. statements_at B (cpos s) (cpos s') r) s
    (parse_statements pcmd)"
  unfolding parse_statements_def
  by (intro pm_steps okay_conseq [OF okay_statement_loop [OF H]])
    (auto simp: statements_at_def intro: ordered_mono)

lemma okay_parse_inline_program:
  assumes H: "\<And>s. okay (holds_at I B) n (\<lambda>r s'. opt_at B (cpos s) (cpos s') r) s pcmd"
  shows "okay (holds_at I B) n (\<lambda>r s'. program_at B (cpos s) (cpos s') r) s
    (parse_inline_program pcmd terminators)"
  unfolding parse_inline_program_def
  by (intro pm_rules pm_steps okay_bnd [OF okay_statement_loop [OF H]])
    (auto simp: program_at_def statements_at_def inside_def wf_span_def intro: ordered_mono)

subsection \<open>Control flow\<close>

lemma okay_parse_if_tail:
  assumes H: "\<And>s. okay (holds_at I B) n (\<lambda>r s'. opt_at B (cpos s) (cpos s') r) s pcmd"
    and E: "\<And>s. okay (holds_at I B) n (\<lambda>r s'. node_at B (cpos s) (cpos s') r) s pelif"
    and "start_b \<le> cpos s" "B start_b"
  shows "okay (holds_at I B) n (\<lambda>r s'. node_at B start_b (cpos s') r) s
    (parse_if_tail pcmd pelif start_b start_i)"
  unfolding parse_if_tail_def
  by (intro pm_rules pm_steps okay_bnd [OF okay_parse_inline_program [OF H]] okay_bnd [OF E])
    (use assms(3,4) in \<open>auto simp: spans program_at_iff wrap_single_statement_def\<close>)

lemma okay_parse_if_elif_branch:
  assumes H: "\<And>s. okay (holds_at I B) n (\<lambda>r s'. opt_at B (cpos s) (cpos s') r) s pcmd"
  shows "okay (holds_at I B) (min k n) (\<lambda>r s'. node_at B (cpos s) (cpos s') r) s
    (parse_if_elif_branch k pcmd)"
proof (induction k arbitrary: s)
  case 0
  show ?case by (simp add: okay_def enough_def parser_inv_def)
next
  case (Suc k)
  have tail: "okay (holds_at I B) (min k n) (\<lambda>r s'. node_at B (cpos s) (cpos s') r) s
      (bnd (gets (\<lambda>s. (cpos s, cur_start_index s))) (\<lambda>(start_b, start_i).
        parse_if_tail pcmd (parse_if_elif_branch k pcmd) start_b start_i))" for s
    by (intro pm_rules pm_steps okay_conseq [OF okay_parse_if_tail [OF okay_fewer [OF H] Suc.IH]])
      auto
  have deep: "okay (holds_at I B) (Suc (min k n)) (\<lambda>r s'. node_at B (cpos s) (cpos s') r) s
      (with_depth (bnd (gets (\<lambda>s. (cpos s, cur_start_index s))) (\<lambda>(start_b, start_i).
        parse_if_tail pcmd (parse_if_elif_branch k pcmd) start_b start_i)))" for s
    by (rule okay_with_depth, rule okay_conseq [OF tail]) (auto simp: cur_start_byte_def)
  show ?case
    unfolding parse_if_elif_branch.simps [of "Suc k"]
    by (simp del: bnd_assoc, intro okay_bnd [OF okay_check_budget] okay_conseq [OF okay_fewer [OF deep]])
      auto
qed

lemma okay_parse_if:
  assumes H: "\<And>s. okay (holds_at I B) n (\<lambda>r s'. opt_at B (cpos s) (cpos s') r) s pcmd"
  shows "okay (holds_at I B) n (\<lambda>r s'. node_at B (cpos s) (cpos s') r) s (parse_if pcmd)"
  unfolding parse_if_def
  by (intro pm_rules pm_steps okay_conseq [OF okay_parse_if_tail [OF H okay_min
        [OF okay_parse_if_elif_branch [OF H]]]])
    auto

lemma okay_parse_select:
  "okay (holds_at I B) n (\<lambda>r s'. node_at B (cpos s) (cpos s') r) s parse_select"
  unfolding parse_select_def
  by (intro pm_rules pm_steps okay_conseq [OF okay_parse_too_complex])
    (auto simp: TOO_COMPLEX_REASONS_def)

lemma okay_parse_while:
  assumes H: "\<And>s. okay (holds_at I B) n (\<lambda>r s'. opt_at B (cpos s) (cpos s') r) s pcmd"
  shows "okay (holds_at I B) n (\<lambda>r s'. node_at B (cpos s) (cpos s') r) s (parse_while pcmd)"
  unfolding parse_while_def
  by (intro pm_rules pm_steps okay_bnd [OF okay_parse_inline_program [OF H]])
    (auto simp: spans program_at_iff)

lemma okay_parse_for_words: "okay (holds_at I B) n (\<lambda>_ _. True) s parse_for_words"
  unfolding parse_for_words_def by (intro okay_loop pm_rules pm_steps) auto

lemma okay_parse_for:
  assumes H: "\<And>s. okay (holds_at I B) n (\<lambda>r s'. opt_at B (cpos s) (cpos s') r) s pcmd"
  shows "okay (holds_at I B) n (\<lambda>r s'. node_at B (cpos s) (cpos s') r) s (parse_for pcmd)"
  unfolding parse_for_def
  by (intro pm_rules pm_steps okay_bnd [OF okay_parse_inline_program [OF H]]
      okay_bnd [OF okay_parse_for_words] okay_conseq [OF okay_parse_too_complex])
    (auto simp: spans program_at_iff TOO_COMPLEX_REASONS_def)

lemma okay_parse_case_patterns: "okay (holds_at I B) n (\<lambda>_ _. True) s parse_case_patterns"
  unfolding parse_case_patterns_def
  by (intro okay_loop [where I = "\<lambda>_ _. True"] pm_rules pm_steps) auto

lemma okay_parse_case_item:
  assumes H: "\<And>s. okay (holds_at I B) n (\<lambda>r s'. opt_at B (cpos s) (cpos s') r) s pcmd"
  shows "okay (holds_at I B) n (\<lambda>r s'. wf_item B r \<and> cpos s \<le> span_start (item_span r) \<and>
      span_start (item_span r) \<le> span_end (item_span r) \<and> span_end (item_span r) \<le> cpos s') s
    (parse_case_item pcmd)"
  unfolding parse_case_item_def
  by (intro pm_rules pm_steps okay_bnd [OF okay_parse_inline_program [OF H]]
      okay_bnd [OF okay_parse_case_patterns])
    (auto simp: program_at_iff)

lemma okay_parse_case:
  assumes H: "\<And>s. okay (holds_at I B) n (\<lambda>r s'. opt_at B (cpos s) (cpos s') r) s pcmd"
  shows "okay (holds_at I B) n (\<lambda>r s'. node_at B (cpos s) (cpos s') r) s (parse_case pcmd)"
proof -
  let ?I = "\<lambda>items s'. list_all (wf_item B) items \<and>
      ordered (cpos s) (cpos s') (map (span_range \<circ> item_span) items)"
  show ?thesis
    unfolding parse_case_def
    by (intro pm_rules pm_steps okay_bnd [OF okay_parse_case_item [OF H]]
        okay_bnd [OF okay_loop [where I = ?I]])
      (auto simp: spans intro: ordered_mono)
qed

lemma okay_parse_function:
  assumes H: "\<And>s. okay (holds_at I B) n (\<lambda>r s'. opt_at B (cpos s) (cpos s') r) s pcmd"
  shows "okay (holds_at I B) n (\<lambda>r s'. node_at B (cpos s) (cpos s') r) s (parse_function pcmd)"
  unfolding parse_function_def
  by (intro pm_rules pm_steps okay_bnd [OF H]) (auto simp: spans opt_at_def split: option.split)

lemma okay_parse_declaration:
  assumes "cur_text s \<in> set (map u DECL_KEYWORDS)"
  shows "okay (holds_at I B) n (\<lambda>r s'. node_at B (cpos s) (cpos s') r) s parse_declaration"
proof -
  let ?I = "\<lambda>r s'. fst r \<noteq> [] \<and> hd (fst r) = cur_text s \<and> list_all wf_var (snd r)"
  show ?thesis
    unfolding parse_declaration_def
    by (intro pm_rules pm_steps okay_bnd [OF okay_loop [where I = ?I]])
      (use assms in \<open>auto simp: spans\<close>)
qed

subsection \<open>Compound commands\<close>

lemma okay_parse_subshell:
  assumes H: "\<And>s. okay (holds_at I B) n (\<lambda>r s'. opt_at B (cpos s) (cpos s') r) s pcmd"
  shows "okay (holds_at I B) n (\<lambda>r s'. node_at B (cpos s) (cpos s') r) s (parse_subshell pcmd)"
  unfolding parse_subshell_def
  by (intro pm_rules pm_steps okay_bnd [OF okay_parse_inline_program [OF H]])
    (auto simp: spans program_at_iff)

lemma okay_parse_brace_group:
  assumes H: "\<And>s. okay (holds_at I B) n (\<lambda>r s'. opt_at B (cpos s) (cpos s') r) s pcmd"
  shows "okay (holds_at I B) n (\<lambda>r s'. node_at B (cpos s) (cpos s') r) s (parse_brace_group pcmd)"
  unfolding parse_brace_group_def
  by (intro pm_rules pm_steps okay_bnd [OF okay_parse_inline_program [OF H]])
    (auto simp: spans program_at_iff)

lemma okay_parse_test_command:
  "okay (holds_at I B) n (\<lambda>r s'. node_at B (cpos s) (cpos s') r) s parse_test_command"
  unfolding parse_test_command_def
  by (intro pm_rules pm_steps okay_bnd [OF okay_loop [where I = "\<lambda>_ _. True"]])
    (auto simp: spans)

lemma okay_parse_negated:
  assumes H: "\<And>s. okay (holds_at I B) n (\<lambda>r s'. opt_at B (cpos s) (cpos s') r) s pcmd"
  shows "okay (holds_at I B) n (\<lambda>r s'. node_at B (cpos s) (cpos s') r) s (parse_negated pcmd)"
  unfolding parse_negated_def
  by (intro pm_rules pm_steps okay_bnd [OF H]) (auto simp: spans opt_at_def split: option.split)

lemma okay_wrap_with_redirects:
  assumes "node_at B lo (cpos s) body"
  shows "okay (holds_at I B) n (\<lambda>r s'. node_at B lo (cpos s') r) s (wrap_with_redirects body)"
  unfolding wrap_with_redirects_def
  by (intro pm_rules pm_steps) (use assms in \<open>auto simp: spans\<close>)

subsection \<open>Commands\<close>

lemma okay_parse_keyword_command:
  assumes H: "\<And>s. okay (holds_at I B) n (\<lambda>r s'. opt_at B (cpos s) (cpos s') r) s pcmd"
    and "text = cur_text s"
  shows "okay (holds_at I B) n (\<lambda>r s'. opt_at B (cpos s) (cpos s') (fst r)) s
    (parse_keyword_command pcmd text)"
  unfolding parse_keyword_command_def some_compound_def
  by (intro pm_rules okay_bnd [OF okay_parse_if [OF H]] okay_bnd [OF okay_parse_while [OF H]]
      okay_bnd [OF okay_parse_for [OF H]] okay_bnd [OF okay_parse_case [OF H]]
      okay_bnd [OF okay_parse_select] okay_bnd [OF okay_parse_function [OF H]]
      okay_bnd [OF okay_parse_declaration]
      okay_bnd [OF okay_parse_simple_command_or_function [OF H]])
    (simp_all add: assms(2))

lemma okay_or_try:
  assumes "\<And>s. okay (holds_at I B) n (\<lambda>r s'. node_at B (cpos s) (cpos s') r) s m"
    and "opt_at B lo (cpos s) (fst r)" "lo \<le> cpos s"
  shows "okay (holds_at I B) n (\<lambda>r s'. opt_at B lo (cpos s') (fst r)) s (or_try test m flag r)"
  unfolding or_try_def
  by (intro pm_rules pm_steps okay_bnd [OF assms(1)])
    (use assms(2,3) in \<open>auto intro: node_at_mono\<close>)

lemma okay_parse_command_inner:
  assumes H: "\<And>s. okay (holds_at I B) n (\<lambda>r s'. opt_at B (cpos s) (cpos s') r) s pcmd"
  shows "okay (holds_at I B) n (\<lambda>r s'. opt_at B (cpos s) (cpos s') r) s (parse_command_inner pcmd)"
  unfolding parse_command_inner_def
  apply (intro pm_rules pm_steps okay_bnd [OF okay_parse_keyword_command [OF H]]
      okay_bnd [OF okay_or_try [OF okay_parse_subshell [OF H]]]
      okay_bnd [OF okay_or_try [OF okay_parse_brace_group [OF H]]]
      okay_bnd [OF okay_or_try [OF okay_parse_test_command]]
      okay_bnd [OF okay_or_try [OF okay_parse_negated [OF H]]]
      okay_bnd [OF okay_parse_simple_command]
      okay_bnd [OF okay_wrap_with_redirects])
  apply simp_all
  apply (erule node_at_mono; simp)+
  done

text \<open>The depth bound is enough: \<open>enter\<close> fails before the bound of the model is reached.\<close>

lemma okay_parse_command:
  "okay (holds_at I B) n (\<lambda>r s'. opt_at B (cpos s) (cpos s') r) s (parse_command n)"
proof (induction n arbitrary: s)
  case 0
  show ?case by (simp add: okay_def enough_def parser_inv_def)
next
  case (Suc n)
  have deep: "okay (holds_at I B) (Suc n) (\<lambda>r s'. opt_at B (cpos s) (cpos s') r) s
      (with_depth (parse_command_inner (parse_command n)))" for s
    by (rule okay_with_depth, rule okay_conseq [OF okay_parse_command_inner [OF Suc.IH]])
      (auto simp: cur_start_byte_def)
  show ?case
    unfolding parse_command.simps [of "Suc n"]
    by (simp, intro okay_bnd [OF okay_check_budget] okay_conseq [OF deep]) auto
qed

lemma okay_parse_program:
  "okay (holds_at I B) (Suc MAX_DEPTH) (\<lambda>r s'. program_at B (cpos s) (cpos s') r) s parse_program"
  unfolding parse_program_def
  by (intro pm_rules pm_steps okay_bnd [OF okay_parse_statements [OF okay_parse_command]])
    (auto simp: program_at_def statements_at_def inside_def spans intro: ordered_mono)

lemma run_parser_ok:
  assumes "I (lexer_new source MAX_NODES)"
  shows "run_parser expired source = Inl e \<Longrightarrow>
      e = ParserTimeout \<and> (\<exists>k. expired k) \<or> e = ParserBudgetExceeded MAX_NODES \<or>
      e = ParserBudgetExceeded MAX_DEPTH \<or> e = LexerBudgetExceeded MAX_NODES"
    and "run_parser expired source = Inr (p, s) \<Longrightarrow>
      wf_program B p \<and> I (ps_lexer s) \<and> ps_depth s = 0 \<and> ps_node_count s \<le> MAX_NODES \<and>
      lx_units (ps_lexer s) = source"
proof -
  define l where "l = lexer_new source MAX_NODES"
  have "(\<forall>e. run_parser expired source = Inl e \<longrightarrow>
      e = ParserTimeout \<and> (\<exists>k. expired k) \<or> e = ParserBudgetExceeded MAX_NODES \<or>
      e = ParserBudgetExceeded MAX_DEPTH \<or> e = LexerBudgetExceeded MAX_NODES) \<and>
    (\<forall>p s. run_parser expired source = Inr (p, s) \<longrightarrow>
      wf_program B p \<and> I (ps_lexer s) \<and> ps_depth s = 0 \<and> ps_node_count s \<le> MAX_NODES \<and>
      lx_units (ps_lexer s) = source)"
  proof (cases "next_token l")
    case (Inl e)
    then show ?thesis
      by (cases rule: next_token_cases [of l])
        (auto simp: run_parser_def parser_new_def l_def lexer_new_def)
  next
    case (Inr r)
    obtain t l' where n: "next_token l = Inr (t, l')" using Inr by (cases r) simp
    define s0 where "s0 = \<lparr>ps_lexer = l', ps_expired = expired, ps_ticks = 0,
      ps_max_nodes = MAX_NODES, ps_node_count = 0, ps_current = t, ps_depth = 0\<rparr>"
    note pos = next_token_positions [OF n]
    have "is_eof t \<Longrightarrow> lx_len l \<le> lx_i l'"
      using next_token_eof [OF n] n by (cases rule: next_token_cases [of l]) auto
    then have inv: "parser_inv s0"
      using pos next_token_bytes [OF n] by (simp add: s0_def parser_inv_def)
    have hold: "holds_at I B s0"
      using next_token_keeps [OF n] offset [OF skip_blanks_keeps] assms pos
      by (simp add: s0_def holds_at_def l_def)
    have enough: "enough (Suc MAX_DEPTH) s0"
      by (simp add: s0_def enough_def)
    have l': "lx_units l' = source" "lx_max_nodes l' = MAX_NODES"
      using pos by (simp_all add: l_def lexer_new_def)
    have run: "run_parser expired source = parse_program s0"
      using n by (simp add: run_parser_def parser_new_def l_def s0_def)
    show ?thesis
      using okayD [OF okay_parse_program inv hold enough] run l'
      by (auto simp: program_at_def ext_def s0_def parser_inv_def holds_at_def abort_of_def)
  qed
  then show "run_parser expired source = Inl e \<Longrightarrow>
      e = ParserTimeout \<and> (\<exists>k. expired k) \<or> e = ParserBudgetExceeded MAX_NODES \<or>
      e = ParserBudgetExceeded MAX_DEPTH \<or> e = LexerBudgetExceeded MAX_NODES"
    and "run_parser expired source = Inr (p, s) \<Longrightarrow>
      wf_program B p \<and> I (ps_lexer s) \<and> ps_depth s = 0 \<and> ps_node_count s \<le> MAX_NODES \<and>
      lx_units (ps_lexer s) = source"
    by blast+
qed

end

subsection \<open>The two sources\<close>

text \<open>Any sequence of units, and the encoding of a sequence of code points.\<close>

definition cp_boundary :: "nat list \<Rightarrow> nat \<Rightarrow> bool" where
  "cp_boundary cs b = (\<exists>k \<le> length cs. b = utf8_len (take k cs))"

interpretation units: token_source "\<lambda>_. True" "\<lambda>_. True"
  by unfold_locales simp_all

interpretation src: token_source "synced cs" "cp_boundary cs" for cs
  by unfold_locales (auto simp: synced_def cp_boundary_def restore_lex_def save_lex_def)

end
