(* ===== verification/Bash_Collect.thy ===== *)
theory Bash_Collect
  imports Bash_Ast Java_Str
begin

section \<open>Collecting the simple commands of a tree\<close>

text \<open>
  \<open>collect_commands\<close> of \<open>crates/zk-tools/src/bash/security.rs\<close>: the walk that turns a tree into the
  list of commands the semantic checks look at. The two mutable arguments, the list and the scope of
  variables, are threaded through the walk; a branch that works on a copy of the scope gives the
  list back and keeps its own scope.
\<close>

record too_complex_signal =
  reason :: ustring
  node_type :: ustring

type_synonym scope = "ustring \<rightharpoonup> ustring"
type_synonym collect_state = "simple_command list \<times> scope"
type_synonym collected = "too_complex_signal + collect_state"

definition VAR_PLACEHOLDER :: ustring where "VAR_PLACEHOLDER = u ''__VAR_PLACEHOLDER__''"
definition CMDSUB_PLACEHOLDER :: ustring where "CMDSUB_PLACEHOLDER = u ''__CMDSUB_OUTPUT__''"

definition on_copy :: "(collect_state \<Rightarrow> collected) \<Rightarrow> collect_state \<Rightarrow> collected" where
  "on_copy f s = map_ok (\<lambda>r. (fst r, snd s)) (f s)"

lemma on_copy_cong [fundef_cong]: "s = s' \<Longrightarrow> f s' = g s' \<Longrightarrow> on_copy f s = on_copy g s'"
  by (simp add: on_copy_def)

definition push_command :: "simple_command \<Rightarrow> collect_state \<Rightarrow> collected" where
  "push_command c s = Inr (fst s @ [c], snd s)"

definition test_argv0 :: "span \<Rightarrow> ustring" where
  "test_argv0 sp = (if starts_with (span_raw sp) (u ''[['') then u ''[['' else u ''['')"

fun collect_program :: "program_node \<Rightarrow> collect_state \<Rightarrow> collected"
  and collect_statement :: "statement_node \<Rightarrow> collect_state \<Rightarrow> collected"
  and collect_item :: "case_item \<Rightarrow> collect_state \<Rightarrow> collected"
  and collect_commands :: "bash_node \<Rightarrow> collect_state \<Rightarrow> collected" where
  "collect_program (ProgramNode sts _) s = thread collect_statement sts s"
| "collect_statement (StatementNode body _ _) s = collect_commands body s"
| "collect_item (CaseItem _ body) s = collect_program body s"
| "collect_commands (Program p) s = collect_program p s"
| "collect_commands (Statement st) s = collect_statement st s"
| "collect_commands (SimpleCommand c) s = push_command c s"
| "collect_commands (Pipeline ns _ _) s = thread (\<lambda>n. on_copy (collect_commands n)) ns s"
| "collect_commands (AndOr l op r _) s =
     and_then (collect_commands l s) (\<lambda>s1.
       if op = u ''&&'' then collect_commands r s1 else on_copy (collect_commands r) s1)"
| "collect_commands (RedirectedStatement body _ _) s = collect_commands body s"
| "collect_commands (Subshell body _) s = on_copy (collect_program body) s"
| "collect_commands (BraceGroup body _) s = collect_program body s"
| "collect_commands (If condition then_body else_body _) s =
     and_then (collect_program condition s) (\<lambda>s1.
     and_then (on_copy (collect_program then_body) s1) (\<lambda>s2.
     case else_body of None \<Rightarrow> Inr s2 | Some e \<Rightarrow> on_copy (collect_program e) s2))"
| "collect_commands (For var _ body _) s =
     map_ok (\<lambda>r. (fst r, snd s)) (collect_program body (fst s, (snd s)(var \<mapsto> VAR_PLACEHOLDER)))"
| "collect_commands (While condition body _ _) s =
     and_then (collect_program condition s) (\<lambda>s1. on_copy (collect_program body) s1)"
| "collect_commands (Case _ items _) s = thread (\<lambda>i. on_copy (collect_item i)) items s"
| "collect_commands (FunctionDef _ body _) s =
     (case body of None \<Rightarrow> Inr s | Some b \<Rightarrow> collect_commands b s)"
| "collect_commands (NegatedCommand body _) s =
     (case body of None \<Rightarrow> Inr s | Some b \<Rightarrow> collect_commands b s)"
| "collect_commands (DeclarationCommand _ argv assignments sp) s =
     push_command \<lparr>sc_argv = argv, sc_env_vars = assignments, sc_redirects = [], sc_span = sp\<rparr> s"
| "collect_commands (TestCommand argv sp) s =
     push_command \<lparr>sc_argv = test_argv0 sp # argv, sc_env_vars = [], sc_redirects = [],
       sc_span = sp\<rparr> s"
| "collect_commands (VariableAssignment name value _ _) s =
     (if name = u ''PS4'' \<or> name = u ''IFS'' then
        Inl \<lparr>reason = u ''Dangerous variable assignment: '' @ name, node_type = u ''variable_assignment''\<rparr>
      else Inr (fst s, (snd s)(name \<mapsto> value)))"
| "collect_commands (TooComplexNode why _) s =
     Inl \<lparr>reason = why, node_type = u ''too-complex''\<rparr>"

subsection \<open>Specification: the leaves of the tree\<close>

text \<open>
  What the walk is for, without its state: the leaves of a tree from left to right, and the first
  node it refuses.
\<close>

fun leaves_program :: "program_node \<Rightarrow> simple_command list"
  and leaves_statement :: "statement_node \<Rightarrow> simple_command list"
  and leaves_item :: "case_item \<Rightarrow> simple_command list"
  and leaves :: "bash_node \<Rightarrow> simple_command list" where
  "leaves_program (ProgramNode sts _) = concat (map leaves_statement sts)"
| "leaves_statement (StatementNode body _ _) = leaves body"
| "leaves_item (CaseItem _ body) = leaves_program body"
| "leaves (Program p) = leaves_program p"
| "leaves (Statement st) = leaves_statement st"
| "leaves (SimpleCommand c) = [c]"
| "leaves (Pipeline ns _ _) = concat (map leaves ns)"
| "leaves (AndOr l _ r _) = leaves l @ leaves r"
| "leaves (RedirectedStatement body _ _) = leaves body"
| "leaves (Subshell body _) = leaves_program body"
| "leaves (BraceGroup body _) = leaves_program body"
| "leaves (If c t e _) =
     leaves_program c @ leaves_program t @ (case e of None \<Rightarrow> [] | Some p \<Rightarrow> leaves_program p)"
| "leaves (For _ _ body _) = leaves_program body"
| "leaves (While c body _ _) = leaves_program c @ leaves_program body"
| "leaves (Case _ items _) = concat (map leaves_item items)"
| "leaves (FunctionDef _ body _) = (case body of None \<Rightarrow> [] | Some b \<Rightarrow> leaves b)"
| "leaves (NegatedCommand body _) = (case body of None \<Rightarrow> [] | Some b \<Rightarrow> leaves b)"
| "leaves (DeclarationCommand _ argv vars sp) =
     [\<lparr>sc_argv = argv, sc_env_vars = vars, sc_redirects = [], sc_span = sp\<rparr>]"
| "leaves (TestCommand argv sp) =
     [\<lparr>sc_argv = test_argv0 sp # argv, sc_env_vars = [], sc_redirects = [], sc_span = sp\<rparr>]"
| "leaves (VariableAssignment _ _ _ _) = []"
| "leaves (TooComplexNode _ _) = []"

definition or_else :: "'a option \<Rightarrow> 'a option \<Rightarrow> 'a option" where
  "or_else a b = (case a of None \<Rightarrow> b | Some x \<Rightarrow> Some x)"

lemma or_else_simps [simp]:
  "or_else None b = b" "or_else (Some x) b = Some x"
  by (simp_all add: or_else_def)

lemma or_else_None [simp]: "or_else a b = None \<longleftrightarrow> a = None \<and> b = None"
  by (cases a) simp_all

fun refused_program :: "program_node \<Rightarrow> too_complex_signal option"
  and refused_statement :: "statement_node \<Rightarrow> too_complex_signal option"
  and refused_item :: "case_item \<Rightarrow> too_complex_signal option"
  and refused :: "bash_node \<Rightarrow> too_complex_signal option" where
  "refused_program (ProgramNode sts _) = first_some refused_statement sts"
| "refused_statement (StatementNode body _ _) = refused body"
| "refused_item (CaseItem _ body) = refused_program body"
| "refused (Program p) = refused_program p"
| "refused (Statement st) = refused_statement st"
| "refused (SimpleCommand c) = None"
| "refused (Pipeline ns _ _) = first_some refused ns"
| "refused (AndOr l _ r _) = or_else (refused l) (refused r)"
| "refused (RedirectedStatement body _ _) = refused body"
| "refused (Subshell body _) = refused_program body"
| "refused (BraceGroup body _) = refused_program body"
| "refused (If c t e _) =
     or_else (refused_program c) (or_else (refused_program t)
       (case e of None \<Rightarrow> None | Some p \<Rightarrow> refused_program p))"
| "refused (For _ _ body _) = refused_program body"
| "refused (While c body _ _) = or_else (refused_program c) (refused_program body)"
| "refused (Case _ items _) = first_some refused_item items"
| "refused (FunctionDef _ body _) = (case body of None \<Rightarrow> None | Some b \<Rightarrow> refused b)"
| "refused (NegatedCommand body _) = (case body of None \<Rightarrow> None | Some b \<Rightarrow> refused b)"
| "refused (DeclarationCommand _ _ _ _) = None"
| "refused (TestCommand _ _) = None"
| "refused (VariableAssignment name _ _ _) =
     (if name \<in> {u ''PS4'', u ''IFS''} then
        Some \<lparr>reason = u ''Dangerous variable assignment: '' @ name, node_type = u ''variable_assignment''\<rparr>
      else None)"
| "refused (TooComplexNode why _) = Some \<lparr>reason = why, node_type = u ''too-complex''\<rparr>"

lemma on_copy_fst: "map_ok fst (on_copy f s) = map_ok fst (f s)"
  by (cases "f s") (simp_all add: on_copy_def)

lemma map_ok_fst_map: "map_ok fst (map_ok (\<lambda>r. (fst r, x)) r) = map_ok fst r"
  by (cases r) simp_all

text \<open>A first part, then a rest that appends.\<close>

lemma and_then_appends:
  assumes "map_ok fst a = (case bad of Some e \<Rightarrow> Inl e | None \<Rightarrow> Inr (xs @ out))"
    and "\<And>s. a = Inr s \<Longrightarrow> map_ok fst (f s) = (case bad' of Some e \<Rightarrow> Inl e | None \<Rightarrow> Inr (fst s @ out'))"
  shows "map_ok fst (and_then a f) =
    (case or_else bad bad' of Some e \<Rightarrow> Inl e | None \<Rightarrow> Inr (xs @ out @ out'))"
proof (cases a)
  case (Inl e)
  with assms(1) show ?thesis by (auto split: option.splits)
next
  case (Inr s)
  with assms(1) have "bad = None" "fst s = xs @ out" by (auto split: option.splits)
  with Inr assms(2) [of s] show ?thesis by (simp split: option.splits)
qed

lemma collect_leaves:
  "map_ok fst (collect_program p s) =
     (case refused_program p of Some e \<Rightarrow> Inl e | None \<Rightarrow> Inr (fst s @ leaves_program p))"
  "map_ok fst (collect_statement st s) =
     (case refused_statement st of Some e \<Rightarrow> Inl e | None \<Rightarrow> Inr (fst s @ leaves_statement st))"
  "map_ok fst (collect_item i s) =
     (case refused_item i of Some e \<Rightarrow> Inl e | None \<Rightarrow> Inr (fst s @ leaves_item i))"
  "map_ok fst (collect_commands n s) =
     (case refused n of Some e \<Rightarrow> Inl e | None \<Rightarrow> Inr (fst s @ leaves n))"
proof (induction p s and st s and i s and n s
    rule: collect_program_collect_statement_collect_item_collect_commands.induct)
  case (1 sts sp s)
  then show ?case by (simp add: thread_appends split: option.split)
next
  case (7 ns neg sp s)
  then show ?case by (simp add: thread_appends on_copy_fst split: option.split)
next
  case (8 l op r sp s)
  have "map_ok fst (collect_commands (AndOr l op r sp) s) =
      (case or_else (refused l) (refused r) of Some e \<Rightarrow> Inl e | None \<Rightarrow> Inr (fst s @ leaves l @ leaves r))"
    unfolding collect_commands.simps
    by (rule and_then_appends [OF 8(1)]) (use 8(2,3) in \<open>simp add: on_copy_fst\<close>)
  then show ?case by (simp split: option.splits)
next
  case (12 c t e sp s)
  let ?bad = "case e of None \<Rightarrow> None | Some p \<Rightarrow> refused_program p"
  let ?out = "case e of None \<Rightarrow> [] | Some p \<Rightarrow> leaves_program p"
  have else_part: "map_ok fst (case e of None \<Rightarrow> Inr s2 | Some p \<Rightarrow> on_copy (collect_program p) s2) =
      (case ?bad of Some x \<Rightarrow> Inl x | None \<Rightarrow> Inr (fst s2 @ ?out))"
    if "collect_program c s = Inr s1" "on_copy (collect_program t) s1 = Inr s2" for s1 s2
    using 12(3) [OF that] by (simp add: on_copy_fst split: option.split)
  have then_part: "map_ok fst (and_then (on_copy (collect_program t) s1)
        (\<lambda>s2. case e of None \<Rightarrow> Inr s2 | Some p \<Rightarrow> on_copy (collect_program p) s2)) =
      (case or_else (refused_program t) ?bad of
         Some x \<Rightarrow> Inl x | None \<Rightarrow> Inr (fst s1 @ leaves_program t @ ?out))"
    if "collect_program c s = Inr s1" for s1
    by (rule and_then_appends [OF _ else_part [OF that]])
      (use 12(2) [OF that] in \<open>simp_all add: on_copy_fst\<close>)
  show ?case
    unfolding collect_commands.simps
    by (subst and_then_appends [OF 12(1) then_part]) (simp_all split: option.splits)
next
  case (14 c b neg sp s)
  have "map_ok fst (collect_commands (While c b neg sp) s) =
      (case or_else (refused_program c) (refused_program b) of
         Some e \<Rightarrow> Inl e | None \<Rightarrow> Inr (fst s @ leaves_program c @ leaves_program b))"
    unfolding collect_commands.simps
    by (rule and_then_appends [OF 14(1)]) (use 14(2) in \<open>simp_all add: on_copy_fst\<close>)
  then show ?case by (simp split: option.splits)
qed (simp_all add: push_command_def on_copy_fst map_ok_fst_map thread_appends split: option.splits)

end
