(* ===== verification/Bash_Semantics.thy ===== *)
theory Bash_Semantics
  imports Bash_Lexer Bash_Collect
begin

section \<open>The semantic checks of a command\<close>

text \<open>
  \<open>check_semantics\<close>, \<open>strip_wrappers\<close>, the subscript checks and \<open>check_arg_level_security\<close> of
  \<open>crates/zk-tools/src/bash/security.rs\<close>. A reason of refusal is a \<open>Some\<close>.
\<close>

definition is_in :: "ustring \<Rightarrow> string list \<Rightarrow> bool" where
  "is_in w ws = (w \<in> set (map u ws))"

definition EVAL_LIKE_BUILTINS :: "string list" where
  "EVAL_LIKE_BUILTINS =
     [''eval'', ''source'', ''.'', ''exec'', ''fc'', ''coproc'', ''noglob'', ''nocorrect'',
      ''trap'', ''enable'', ''hash'', ''mapfile'', ''readarray'', ''bind'', ''complete'',
      ''compgen'', ''alias'', ''let'']"

definition ZSH_DANGEROUS_BUILTINS :: "string list" where
  "ZSH_DANGEROUS_BUILTINS =
     [''zmodload'', ''autoload'', ''functions'', ''zle'', ''zstyle'', ''zformat'', ''zparseopts'',
      ''sched'', ''ztcp'', ''zsocket'']"

definition WRAPPER_COMMANDS :: "string list" where
  "WRAPPER_COMMANDS =
     [''command'', ''builtin'', ''sudo'', ''nohup'', ''nice'', ''env'', ''stdbuf'', ''timeout'',
      ''xargs'']"

definition ARITHMETIC_COMPARE_OPS :: "string list" where
  "ARITHMETIC_COMPARE_OPS = [''-eq'', ''-ne'', ''-lt'', ''-gt'', ''-le'', ''-ge'']"

definition SUBSCRIPT_BRACKET_RE :: ustring where
  "SUBSCRIPT_BRACKET_RE = raw ''%[''"

definition NEWLINE_HASH_RE :: ustring where
  "NEWLINE_HASH_RE = raw ''%n#''"

subsection \<open>Wrapper commands\<close>

text \<open>The loop that skips the flags and assignments of a wrapper; \<open>found\<close> is \<open>found_cmd\<close>.\<close>

fun strip_loop :: "ustring \<Rightarrow> bool \<Rightarrow> ustring list \<Rightarrow> ustring list \<Rightarrow> ustring list" where
  "strip_loop cmd found remaining [] = remaining"
| "strip_loop cmd found remaining (arg # rest) =
     (if \<not> found \<and> starts_with arg (u ''-'') then
        (if cmd = u ''nice'' \<and> arg = u ''-n'' \<and> rest \<noteq> [] then
           strip_loop cmd found remaining (tl rest)
         else strip_loop cmd found remaining rest)
      else if \<not> found \<and> contains_sub arg (u ''='') then strip_loop cmd found remaining rest
      else if \<not> found \<and> cmd = u ''timeout'' then rest
      else strip_loop cmd True (remaining @ [arg]) rest)"

text \<open>The wrappers that are left in place.\<close>

definition keep_wrapper :: "ustring \<Rightarrow> ustring list \<Rightarrow> bool" where
  "keep_wrapper cmd args =
     ((cmd = u ''command'' \<and> args \<noteq> [] \<and> (args ! 0 = u ''-v'' \<or> args ! 0 = u ''-V'')) \<or>
      (cmd = u ''builtin'' \<and> args \<noteq> [] \<and> args ! 0 = u ''-p'') \<or>
      \<not> is_in cmd WRAPPER_COMMANDS \<or>
      (cmd = u ''env'' \<and> list_ex (\<lambda>a. a = u ''-S'' \<or> a = u ''-C'' \<or> a = u ''-P'') args) \<or>
      (cmd = u ''timeout'' \<and>
       list_ex (\<lambda>a. \<not> starts_with a (u ''-'') \<and> (contains_sub a (u ''$('') \<or> contains_sub a (u ''`'')))
         args))"

text \<open>The loop returns the end of the argument list from some position on.\<close>

lemma strip_loop_found: "strip_loop cmd True remaining args = remaining @ args"
  by (induction args arbitrary: remaining) simp_all

lemma strip_loop_suffix: "\<exists>k. strip_loop cmd False [] args = drop k args"
proof (induction args rule: length_induct)
  case (1 args)
  show ?case
  proof (cases args)
    case Nil
    then show ?thesis by simp
  next
    case (Cons arg rest)
    have rest: "\<exists>k. strip_loop cmd False [] rest = drop k args"
      using 1 Cons by (metis drop_Suc_Cons length_Cons lessI)
    have tail: "\<exists>k. strip_loop cmd False [] (tl rest) = drop k args"
    proof -
      have "length (tl rest) < length args" using Cons by simp
      then obtain k where "strip_loop cmd False [] (tl rest) = drop k (tl rest)" using 1 by blast
      also have "\<dots> = drop (Suc (Suc k)) args" using Cons by (cases rest) simp_all
      finally show ?thesis by blast
    qed
    have here: "\<exists>k. arg # rest = drop k args" "\<exists>k. rest = drop k args"
      using Cons by (metis drop0, metis drop0 drop_Suc_Cons)
    show ?thesis
      using rest tail here Cons by (auto simp: strip_loop_found)
  qed
qed

lemma strip_loop_length: "length (strip_loop cmd False [] args) \<le> length args"
  using strip_loop_suffix [of cmd args] by auto

function strip_wrappers :: "ustring list \<Rightarrow> ustring list" where
  "strip_wrappers argv =
     (case argv of
        [] \<Rightarrow> argv
      | cmd # args \<Rightarrow>
          if keep_wrapper cmd args then argv
          else
            (let remaining = strip_loop cmd False [] args in
             if remaining = [] then argv else strip_wrappers remaining))"
  by pat_completeness auto
termination
  by (relation "measure length")
    (auto simp: less_Suc_eq_le strip_loop_length)

declare strip_wrappers.simps [simp del]

lemmas strip_wrappers_run = strip_wrappers.simps [of "[]"] strip_wrappers.simps [of "cmd # args" for cmd args]

subsection \<open>Array subscripts\<close>

text \<open>The argument after each occurrence of a flag, from the second word of the command on.\<close>

fun after_flag :: "ustring \<Rightarrow> ustring list \<Rightarrow> ustring list" where
  "after_flag flag (a # b # rest) =
     (if a = flag then b # after_flag flag (b # rest) else after_flag flag (b # rest))"
| "after_flag flag _ = []"

definition subscripted ::
    "regex_engine \<Rightarrow> string \<Rightarrow> ustring list \<Rightarrow> ustring option" where
  "subscripted rx why names =
     first_some (\<lambda>name. if rx SUBSCRIPT_BRACKET_RE name then Some (u why @ name) else None) names"

definition check_subscript_eval :: "regex_engine \<Rightarrow> ustring list \<Rightarrow> ustring option" where
  "check_subscript_eval rx argv =
     (case argv of
        [] \<Rightarrow> None
      | cmd # args \<Rightarrow>
          or_else (if cmd = u ''printf'' then
                     subscripted rx ''printf -v with array subscript: '' (after_flag (u ''-v'') args)
                   else None)
         (or_else (if cmd = u ''read'' then
                     subscripted rx ''read -a with array subscript: '' (after_flag (u ''-a'') args)
                   else None)
         (or_else (if cmd = u ''declare'' \<or> cmd = u ''typeset'' then
                     subscripted rx ''declare -n with array subscript: '' (after_flag (u ''-n'') args)
                   else None)
                  (if cmd = u ''unset'' \<or> cmd = u ''read'' then
                     first_some (\<lambda>arg.
                       if \<not> starts_with arg (u ''-'') \<and> rx SUBSCRIPT_BRACKET_RE arg
                       then Some (cmd @ u '' with array subscript: '' @ arg) else None) args
                   else None))))"

definition check_arithmetic_compare :: "regex_engine \<Rightarrow> ustring list \<Rightarrow> ustring option" where
  "check_arithmetic_compare rx argv =
     first_some (\<lambda>i.
       if is_in (argv ! i) ARITHMETIC_COMPARE_OPS then
         (if 0 < i \<and> rx SUBSCRIPT_BRACKET_RE (argv ! (i - 1)) then
            Some (u ''Arithmetic comparison with array subscript on left: '' @ argv ! (i - 1))
          else if i + 1 < length argv \<and> rx SUBSCRIPT_BRACKET_RE (argv ! (i + 1)) then
            Some (u ''Arithmetic comparison with array subscript on right: '' @ argv ! (i + 1))
          else None)
       else None) [0..<length argv]"

subsection \<open>The chain of checks\<close>

definition any_arg :: "(ustring \<Rightarrow> bool) \<Rightarrow> string \<Rightarrow> ustring list \<Rightarrow> ustring option" where
  "any_arg p why argv = (if list_ex p argv then Some (u why) else None)"

definition check_name :: "ustring \<Rightarrow> ustring option" where
  "check_name argv0 =
     (if argv0 = [] then Some (u ''Empty command name'')
      else if contains_sub argv0 VAR_PLACEHOLDER \<or> contains_sub argv0 CMDSUB_PLACEHOLDER then
        Some (u ''Command name contains placeholder'')
      else if starts_with argv0 (u ''-'') \<or> starts_with argv0 (u ''|'') \<or> starts_with argv0 (u ''&'') then
        Some (u ''Command name starts with operator character: '' @ argv0)
      else if is_in argv0 SHELL_KEYWORDS then Some (u ''Shell keyword as command name: '' @ argv0)
      else if is_in argv0 EVAL_LIKE_BUILTINS then Some (u ''eval-like builtin: '' @ argv0)
      else if is_in argv0 ZSH_DANGEROUS_BUILTINS then Some (u ''zsh dangerous builtin: '' @ argv0)
      else None)"

definition check_jq :: "ustring list \<Rightarrow> ustring option" where
  "check_jq argv =
     (if argv ! 0 = u ''jq'' then
        or_else (any_arg (\<lambda>a. contains_sub a (u ''system('') \<or> contains_sub a (u ''system (''))
                   ''jq system() call detected'' argv)
          (first_some (\<lambda>a. if is_in a [''-f'', ''-L'', ''--from-file'']
                          then Some (u ''jq '' @ a @ u '' detected'') else None) argv)
      else None)"

definition check_semantics :: "regex_engine \<Rightarrow> simple_command \<Rightarrow> ustring option" where
  "check_semantics rx cmd =
     (if sc_argv cmd = [] then None
      else
        let argv = strip_wrappers (sc_argv cmd) in
        if argv = [] then None
        else
          or_else (check_name (argv ! 0))
         (or_else (check_subscript_eval rx argv)
         (or_else (check_arithmetic_compare rx argv)
         (or_else (any_arg (\<lambda>a. contains_sub a (u ''/proc/'') \<and> contains_sub a (u ''/environ''))
                     ''/proc/*/environ access detected'' argv)
         (or_else (check_jq argv)
         (or_else (any_arg (rx NEWLINE_HASH_RE) ''Hidden argument after newline-hash pattern'' argv)
         (or_else (any_arg (\<lambda>a. starts_with a (u ''$'' @ [34]) \<or> contains_sub a (u ''$'' @ [34]))
                     ''translated_string detected in argument'' argv)
                  (any_arg (\<lambda>a. starts_with a (u ''{'') \<and> ends_with a (u ''}'') \<and>
                       contains_sub a (u '',''))
                     ''brace_expression detected in argument'' argv))))))))"

subsection \<open>Argument-level checks\<close>

datatype security_level = Safe | Ask | Deny

definition DANGEROUS_SUBCOMMANDS :: "(string \<times> string list) list" where
  "DANGEROUS_SUBCOMMANDS =
     [(''git'', [''push --force'', ''push -f'', ''reset --hard'', ''clean -fd'', ''clean -fdx'']),
      (''docker'', [''rm'', ''rmi'', ''system prune'', ''exec'', ''run'']),
      (''npm'', [''publish'', ''unpublish'']),
      (''kubectl'', [''delete'', ''apply'', ''exec'', ''edit''])]"

text \<open>
  \<open>command.get(start..).unwrap_or("")\<close> for a byte offset: the rest of the string from the offset, or
  nothing when it lies beyond the end or inside a character.
\<close>

fun get_from_byte :: "nat \<Rightarrow> ustring \<Rightarrow> ustring" where
  "get_from_byte n [] = []"
| "get_from_byte n (c # cs) =
     (if n = 0 then c # cs
      else
        let bytes = (if c < 0x80 then 1 else if c < 0x800 then 2 else if is_high c then 4 else 3);
            units = (if is_high c then tl cs else cs)
        in if n < bytes then [] else get_from_byte (n - bytes) units)"

definition subcommand_text :: "ustring \<Rightarrow> ustring \<Rightarrow> ustring" where
  "subcommand_text command cmd =
     java_trim
       (case find_sub command cmd of
          Some pos \<Rightarrow> drop (pos + length cmd) command
        | None \<Rightarrow> get_from_byte (length cmd - 1) command)"

definition check_arg_level_security :: "ustring \<Rightarrow> ustring list \<Rightarrow> security_level" where
  "check_arg_level_security command args =
     (if args = [] then Safe
      else
        let cmd = args ! 0 in
        if cmd = u ''rm'' \<and>
           (list_ex (\<lambda>a. contains_sub a (u ''f'')) args \<or>
            list_ex (\<lambda>a. contains_sub a (u ''r'') \<or> contains_sub a (u ''R'')) args) \<and>
           list_ex (\<lambda>a. a = u ''/'' \<or> a = u ''~'' \<or> starts_with a (u ''$HOME'')) args then Deny
        else if cmd = u ''chmod'' \<and> list_ex (\<lambda>a. a = u ''777'') args \<and>
           list_ex (\<lambda>a. a = u ''-R'') args \<and> list_ex (\<lambda>a. a = u ''/'') args then Deny
        else if list_ex (\<lambda>kv. cmd = u (fst kv) \<and>
             list_ex (\<lambda>d. starts_with (subcommand_text command cmd) (u d)) (snd kv))
             DANGEROUS_SUBCOMMANDS then Ask
        else Safe)"

subsection \<open>The walk of a program\<close>

definition walk_program :: "regex_engine \<Rightarrow> program_node \<Rightarrow> parse_for_security_result" where
  "walk_program rx root =
     (case collect_program root ([], Map.empty) of
        Inl signal \<Rightarrow> TooComplex (reason signal) (node_type signal)
      | Inr (commands, _) \<Rightarrow>
          (case first_some (check_semantics rx) commands of
             Some why \<Rightarrow> TooComplex why (u ''semantic-check'')
           | None \<Rightarrow> Simple commands))"

end
