(* ===== verification/Bash_Environment.thy ===== *)
theory Bash_Environment
  imports Bash_Parser Bash_Semantics
begin

section \<open>References to inherited environment variables\<close>

text \<open>
  \<open>analyze_environment_references\<close> of \<open>crates/zk-tools/src/bash/security.rs\<close>. The scope of local
  variables and the accumulator are threaded through the walk, the \<open>BTreeSet\<close>s are sets. Besides the
  matcher \<open>rx\<close>, the parameter \<open>caps\<close> is the \<open>regex\<close> crate's \<open>captures_iter\<close>, giving the texts of
  the first group of the matches of a pattern in order.
\<close>

type_synonym regex_captures = "ustring \<Rightarrow> ustring \<Rightarrow> ustring list"

datatype env_status = Success | TooComplexEnv | Unavailable

record env_acc =
  local_definitions :: "ustring set"
  inherited_references :: "ustring set"
  sensitive_references :: "ustring set"

record env_analysis =
  ea_acc :: env_acc
  ea_status :: env_status
  ea_reason :: "ustring option"

type_synonym env_state = "ustring set \<times> env_acc"

definition SPECIAL_VAR_NAMES :: "string list" where
  "SPECIAL_VAR_NAMES = [''?'', ''$'', ''!'', ''#'', ''0'', ''-'']"

definition SAFE_ENV_VARS :: "string list" where
  "SAFE_ENV_VARS =
     [''HOME'', ''PWD'', ''OLDPWD'', ''TMPDIR'', ''PATH'', ''USER'', ''LOGNAME'', ''UID'',
      ''EUID'', ''HOSTNAME'', ''SHELL'', ''BASH_VERSION'', ''BASHPID'', ''SHLVL'', ''HISTFILE'',
      ''IFS'', ''PPID'', ''RANDOM'', ''SECONDS'', ''LINENO'']"

definition SHELL_VARIABLE_REFERENCE :: ustring where
  "SHELL_VARIABLE_REFERENCE = raw ''%$%{?([A-Za-z_][A-Za-z0-9_]*|[0-9]+|[?$!#@*_-])%}?''"

definition J_DOT :: ustring where
  "J_DOT = raw ''[^%n%r%x{85}%x{2028}%x{2029}]''"

definition SENSITIVE_ENV_NAME :: ustring where
  "SENSITIVE_ENV_NAME =
     u ''(?i)^'' @ J_DOT @
     u ''*(TOKEN|API_KEY|SECRET|PASSWORD|PASSWD|PRIVATE_KEY|CREDENTIAL)'' @ J_DOT @ u ''*$''"

definition PLAIN_VAR_NAME :: ustring where
  "PLAIN_VAR_NAME = u ''^[A-Za-z_][A-Za-z0-9_]*$''"

subsection \<open>Words\<close>

definition merge_status :: "env_status \<Rightarrow> env_status \<Rightarrow> env_status" where
  "merge_status l r =
     (if l = Unavailable \<or> r = Unavailable then Unavailable
      else if l = TooComplexEnv \<or> r = TooComplexEnv then TooComplexEnv
      else Success)"

definition define_local :: "ustring \<Rightarrow> env_state \<Rightarrow> env_state" where
  "define_local v s =
     (if java_is_blank v then s
      else (insert v (fst s), (snd s)\<lparr>local_definitions := insert v (local_definitions (snd s))\<rparr>))"

text \<open>The loop carries the previous character (none at the start) and whether a quote is open.\<close>

fun unquoted_loop :: "nat option \<Rightarrow> bool \<Rightarrow> ustring \<Rightarrow> ustring" where
  "unquoted_loop prev quoted [] = []"
| "unquoted_loop prev quoted (c # cs) =
     (if c = SQ \<and> prev \<noteq> Some BSL then unquoted_loop (Some c) (\<not> quoted) cs
      else if quoted then unquoted_loop (Some c) quoted cs
      else c # unquoted_loop (Some c) quoted cs)"

definition remove_single_quoted_segments :: "ustring \<Rightarrow> ustring" where
  "remove_single_quoted_segments value = unquoted_loop None False value"

definition strip_shell_quotes :: "ustring \<Rightarrow> ustring" where
  "strip_shell_quotes value = filter (\<lambda>c. c \<noteq> DQ \<and> c \<noteq> SQ) value"

definition is_skipped_var :: "ustring \<Rightarrow> bool" where
  "is_skipped_var v = ((v \<noteq> [] \<and> list_all is_digit v) \<or> is_in v SPECIAL_VAR_NAMES)"

definition reference_var :: "regex_engine \<Rightarrow> ustring set \<Rightarrow> ustring \<Rightarrow> env_acc \<Rightarrow> env_acc" where
  "reference_var rx scope v acc =
     (if is_skipped_var v \<or> v \<in> scope then acc
      else
        let acc' = acc\<lparr>inherited_references := insert v (inherited_references acc)\<rparr> in
        if rx SENSITIVE_ENV_NAME v
        then acc'\<lparr>sensitive_references := insert v (sensitive_references acc')\<rparr> else acc')"

definition is_dynamic :: "ustring \<Rightarrow> bool" where
  "is_dynamic w = (contains_sub w (u ''${!'') \<or> contains_sub w (u ''$('') \<or> contains_sub w (u ''`''))"

definition scan_word_env ::
    "regex_engine \<Rightarrow> regex_captures \<Rightarrow> ustring set \<Rightarrow> ustring \<Rightarrow> env_acc \<Rightarrow> env_status \<times> env_acc" where
  "scan_word_env rx caps scope w acc =
     (if w = [] then (Success, acc)
      else if is_dynamic w then (TooComplexEnv, acc)
      else (Success, fold (reference_var rx scope)
              (caps SHELL_VARIABLE_REFERENCE (remove_single_quoted_segments w)) acc))"

subsection \<open>Loops of the walk\<close>

text \<open>A loop that threads the state and merges the statuses.\<close>

fun env_loop ::
    "('a \<Rightarrow> 's \<Rightarrow> env_status \<times> 's) \<Rightarrow> 'a list \<Rightarrow> env_status \<Rightarrow> 's \<Rightarrow> env_status \<times> 's" where
  "env_loop f [] st s = (st, s)"
| "env_loop f (x # xs) st s = env_loop f xs (merge_status st (fst (f x s))) (snd (f x s))"

lemma env_loop_cong [fundef_cong]:
  "xs = ys \<Longrightarrow> st = st' \<Longrightarrow> s = s' \<Longrightarrow> (\<And>x s. x \<in> set ys \<Longrightarrow> f x s = g x s) \<Longrightarrow>
   env_loop f xs st s = env_loop g ys st' s'"
  by (induction xs arbitrary: ys st st' s s') auto

text \<open>Two parts in sequence, and a part on a copy of the scope.\<close>

definition env_seq ::
    "env_status \<times> 's \<Rightarrow> ('s \<Rightarrow> env_status \<times> 's) \<Rightarrow> env_status \<times> 's" where
  "env_seq r f = (merge_status (fst r) (fst (f (snd r))), snd (f (snd r)))"

lemma env_seq_cong [fundef_cong]: "r = r' \<Longrightarrow> (\<And>s. f s = g s) \<Longrightarrow> env_seq r f = env_seq r' g"
  by (simp add: env_seq_def)

definition env_copy :: "(env_state \<Rightarrow> env_status \<times> env_state) \<Rightarrow> env_state \<Rightarrow> env_status \<times> env_state" where
  "env_copy f s = (fst (f s), (fst s, snd (snd (f s))))"

lemma env_copy_cong [fundef_cong]: "s = s' \<Longrightarrow> (\<And>x. f x = g x) \<Longrightarrow> env_copy f s = env_copy g s'"
  by (simp add: env_copy_def)

definition scan_in :: "regex_engine \<Rightarrow> regex_captures \<Rightarrow> ustring \<Rightarrow> env_state \<Rightarrow> env_status \<times> env_state" where
  "scan_in rx caps w s =
     (fst (scan_word_env rx caps (fst s) w (snd s)), (fst s, snd (scan_word_env rx caps (fst s) w (snd s))))"

definition scan_words_env ::
    "regex_engine \<Rightarrow> regex_captures \<Rightarrow> ustring list \<Rightarrow> env_state \<Rightarrow> env_status \<times> env_state" where
  "scan_words_env rx caps ws s = env_loop (scan_in rx caps) ws Success s"

subsection \<open>Commands\<close>

text \<open>
  The assignments before a command: their values are read in the outer scope, their names are
  defined in the scope of the command, and in the outer scope when there is no command. The state of
  the loop is the scope of the command with the state of the walk.
\<close>

definition scan_env_var ::
    "regex_engine \<Rightarrow> regex_captures \<Rightarrow> bool \<Rightarrow> var_assignment \<Rightarrow> ustring set \<times> env_state \<Rightarrow>
       env_status \<times> ustring set \<times> env_state" where
  "scan_env_var rx caps alone v s =
     (let r = scan_in rx caps (va_value v) (snd s);
          c = define_local (va_name v) (fst s, snd (snd r));
          outer = (if alone then define_local (va_name v) (fst (snd r), snd c) else (fst (snd r), snd c))
      in (fst r, (fst c, outer)))"

definition analyse_simple ::
    "regex_engine \<Rightarrow> regex_captures \<Rightarrow> simple_command \<Rightarrow> env_state \<Rightarrow> env_status \<times> env_state" where
  "analyse_simple rx caps c s =
     (let r1 = env_loop (scan_env_var rx caps (sc_argv c = [])) (sc_env_vars c) Success (fst s, s);
          command_scope = fst (snd r1);
          scope = fst (snd (snd r1));
          r2 = env_seq (fst r1, (command_scope, snd (snd (snd r1)))) (scan_words_env rx caps (sc_argv c));
          r3 = env_loop (\<lambda>rd. scan_in rx caps (rd_target rd)) (sc_redirects c) (fst r2) (snd r2);
          acc = snd (snd r3)
      in if sc_argv c = [] then (fst r3, (scope, acc))
         else
           let executable = strip_shell_quotes (sc_argv c ! 0) in
           if is_in executable EVAL_LIKE_BUILTINS then (TooComplexEnv, (scope, acc))
           else if executable = u ''read'' then
             (fst r3, fold (\<lambda>a st. if rx PLAIN_VAR_NAME (strip_shell_quotes a)
                then define_local (strip_shell_quotes a) st else st) (tl (sc_argv c)) (scope, acc))
           else (fst r3, (scope, acc)))"

definition scan_assignment ::
    "regex_engine \<Rightarrow> regex_captures \<Rightarrow> var_assignment \<Rightarrow> env_state \<Rightarrow> env_status \<times> env_state" where
  "scan_assignment rx caps v s =
     (let r = scan_in rx caps (va_value v) s in (fst r, define_local (va_name v) (snd r)))"

subsection \<open>The walk\<close>

fun analyse_program ::
      "regex_engine \<Rightarrow> regex_captures \<Rightarrow> program_node \<Rightarrow> env_state \<Rightarrow> env_status \<times> env_state"
  and analyse_statement ::
      "regex_engine \<Rightarrow> regex_captures \<Rightarrow> statement_node \<Rightarrow> env_state \<Rightarrow> env_status \<times> env_state"
  and analyse_item ::
      "regex_engine \<Rightarrow> regex_captures \<Rightarrow> case_item \<Rightarrow> env_state \<Rightarrow> env_status \<times> env_state"
  and analyse_node ::
      "regex_engine \<Rightarrow> regex_captures \<Rightarrow> bash_node \<Rightarrow> env_state \<Rightarrow> env_status \<times> env_state" where
  "analyse_program rx caps (ProgramNode sts _) s = env_loop (analyse_statement rx caps) sts Success s"
| "analyse_statement rx caps (StatementNode body _ _) s = analyse_node rx caps body s"
| "analyse_item rx caps (CaseItem _ body) s = analyse_program rx caps body s"
| "analyse_node rx caps (Program p) s = analyse_program rx caps p s"
| "analyse_node rx caps (Statement st) s = analyse_statement rx caps st s"
| "analyse_node rx caps (Pipeline ns _ _) s =
     env_loop (\<lambda>n. env_copy (analyse_node rx caps n)) ns Success s"
| "analyse_node rx caps (AndOr l _ r _) s =
     env_seq (analyse_node rx caps l s) (env_copy (analyse_node rx caps r))"
| "analyse_node rx caps (RedirectedStatement body redirects _) s =
     env_seq (analyse_node rx caps body s)
       (env_loop (\<lambda>rd. scan_in rx caps (rd_target rd)) redirects Success)"
| "analyse_node rx caps (Subshell body _) s = env_copy (analyse_program rx caps body) s"
| "analyse_node rx caps (BraceGroup body _) s = analyse_program rx caps body s"
| "analyse_node rx caps (If c t e _) s =
     env_seq (env_seq (analyse_program rx caps c s) (env_copy (analyse_program rx caps t)))
       (\<lambda>s2. case e of None \<Rightarrow> (Success, s2) | Some p \<Rightarrow> env_copy (analyse_program rx caps p) s2)"
| "analyse_node rx caps (For var ws body _) s =
     env_seq (scan_words_env rx caps ws s)
       (\<lambda>s1. env_copy (\<lambda>s2. analyse_program rx caps body (define_local var s2)) s1)"
| "analyse_node rx caps (While c body _ _) s =
     env_seq (analyse_program rx caps c s) (env_copy (analyse_program rx caps body))"
| "analyse_node rx caps (Case w items _) s =
     env_seq (scan_in rx caps w s) (env_loop (\<lambda>i. env_copy (analyse_item rx caps i)) items Success)"
| "analyse_node rx caps (FunctionDef _ body _) s =
     (case body of None \<Rightarrow> (Success, s) | Some b \<Rightarrow> env_copy (analyse_node rx caps b) s)"
| "analyse_node rx caps (NegatedCommand body _) s =
     (case body of None \<Rightarrow> (Success, s) | Some b \<Rightarrow> analyse_node rx caps b s)"
| "analyse_node rx caps (DeclarationCommand _ argv assignments _) s =
     env_seq (env_loop (scan_assignment rx caps) assignments Success s) (scan_words_env rx caps argv)"
| "analyse_node rx caps (SimpleCommand c) s = analyse_simple rx caps c s"
| "analyse_node rx caps (TestCommand argv _) s = scan_words_env rx caps argv s"
| "analyse_node rx caps (VariableAssignment name value _ _) s =
     (let r = scan_in rx caps value s in (fst r, define_local name (snd r)))"
| "analyse_node rx caps (TooComplexNode _ _) s = (TooComplexEnv, s)"

definition empty_acc :: env_acc where
  "empty_acc = \<lparr>local_definitions = {}, inherited_references = {}, sensitive_references = {}\<rparr>"

definition analyze_environment_references ::
    "regex_engine \<Rightarrow> regex_captures \<Rightarrow> (nat \<Rightarrow> bool) \<Rightarrow> ustring option \<Rightarrow> env_analysis" where
  "analyze_environment_references rx caps expired command =
     (case command of
        None \<Rightarrow> \<lparr>ea_acc = empty_acc, ea_status = Success, ea_reason = None\<rparr>
      | Some c \<Rightarrow>
          if java_is_blank c then \<lparr>ea_acc = empty_acc, ea_status = Success, ea_reason = None\<rparr>
          else if MAX_COMMAND_LENGTH < length c then
            \<lparr>ea_acc = empty_acc, ea_status = Unavailable,
             ea_reason = Some (u ''command exceeds parser limit'')\<rparr>
          else
            (case parse expired c of
               None \<Rightarrow> \<lparr>ea_acc = empty_acc, ea_status = Unavailable,
                 ea_reason = Some (u ''Bash parser unavailable'')\<rparr>
             | Some root \<Rightarrow>
                 let r = analyse_program rx caps root ({}, empty_acc) in
                 \<lparr>ea_acc = snd (snd r), ea_status = fst r,
                  ea_reason = (if fst r = Success then None
                    else Some (u ''dynamic or unsupported shell environment semantics''))\<rparr>))"

definition requires_conservative_ask :: "env_analysis \<Rightarrow> bool" where
  "requires_conservative_ask a = (ea_status a \<noteq> Success)"

definition is_allowed_inherited_reference :: "ustring option \<Rightarrow> bool" where
  "is_allowed_inherited_reference v = (case v of None \<Rightarrow> False | Some x \<Rightarrow> is_in x SAFE_ENV_VARS)"

end
