(* ===== verification/Bash_Environment_Props.thy ===== *)
theory Bash_Environment_Props
  imports Bash_Environment "HOL-Library.Multiset"
begin

section \<open>The analysis of environment references misses no reference\<close>

text \<open>
  The words a tree expands, and what the analysis promises when it succeeds: no scanned word runs a
  command or an indirection, and every variable a scanned word refers to is recorded as a local
  definition or as an inherited reference. All words are scanned but the patterns of \<open>case\<close>.
\<close>

fun words_program :: "program_node \<Rightarrow> ustring list"
  and words_statement :: "statement_node \<Rightarrow> ustring list"
  and words_item :: "case_item \<Rightarrow> ustring list"
  and words :: "bash_node \<Rightarrow> ustring list" where
  "words_program (ProgramNode sts _) = concat (map words_statement sts)"
| "words_statement (StatementNode body _ _) = words body"
| "words_item (CaseItem ps body) = ps @ words_program body"
| "words (Program p) = words_program p"
| "words (Statement st) = words_statement st"
| "words (SimpleCommand c) =
     map va_value (sc_env_vars c) @ sc_argv c @ map rd_target (sc_redirects c)"
| "words (Pipeline ns _ _) = concat (map words ns)"
| "words (AndOr l _ r _) = words l @ words r"
| "words (RedirectedStatement body redirects _) = words body @ map rd_target redirects"
| "words (Subshell body _) = words_program body"
| "words (BraceGroup body _) = words_program body"
| "words (If c t e _) =
     words_program c @ words_program t @ (case e of None \<Rightarrow> [] | Some p \<Rightarrow> words_program p)"
| "words (For _ ws body _) = ws @ words_program body"
| "words (While c body _ _) = words_program c @ words_program body"
| "words (Case w items _) = w # concat (map words_item items)"
| "words (FunctionDef _ body _) = (case body of None \<Rightarrow> [] | Some b \<Rightarrow> words b)"
| "words (NegatedCommand body _) = (case body of None \<Rightarrow> [] | Some b \<Rightarrow> words b)"
| "words (DeclarationCommand _ argv vars _) = map va_value vars @ argv"
| "words (TestCommand argv _) = argv"
| "words (VariableAssignment _ value _ _) = [value]"
| "words (TooComplexNode _ _) = []"

text \<open>The patterns of the \<open>case\<close> statements of a tree.\<close>

fun patterns_program :: "program_node \<Rightarrow> ustring list"
  and patterns_statement :: "statement_node \<Rightarrow> ustring list"
  and patterns_item :: "case_item \<Rightarrow> ustring list"
  and patterns_node :: "bash_node \<Rightarrow> ustring list" where
  "patterns_program (ProgramNode sts _) = concat (map patterns_statement sts)"
| "patterns_statement (StatementNode body _ _) = patterns_node body"
| "patterns_item (CaseItem ps body) = ps @ patterns_program body"
| "patterns_node (Program p) = patterns_program p"
| "patterns_node (Statement st) = patterns_statement st"
| "patterns_node (Pipeline ns _ _) = concat (map patterns_node ns)"
| "patterns_node (AndOr l _ r _) = patterns_node l @ patterns_node r"
| "patterns_node (RedirectedStatement body _ _) = patterns_node body"
| "patterns_node (Subshell body _) = patterns_program body"
| "patterns_node (BraceGroup body _) = patterns_program body"
| "patterns_node (If c t e _) =
     patterns_program c @ patterns_program t @ (case e of None \<Rightarrow> [] | Some p \<Rightarrow> patterns_program p)"
| "patterns_node (For _ _ body _) = patterns_program body"
| "patterns_node (While c body _ _) = patterns_program c @ patterns_program body"
| "patterns_node (Case _ items _) = concat (map patterns_item items)"
| "patterns_node (FunctionDef _ body _) = (case body of None \<Rightarrow> [] | Some b \<Rightarrow> patterns_node b)"
| "patterns_node (NegatedCommand body _) = (case body of None \<Rightarrow> [] | Some b \<Rightarrow> patterns_node b)"
| "patterns_node _ = []"

text \<open>The words the analysis looks at.\<close>

fun scanned_program :: "program_node \<Rightarrow> ustring list"
  and scanned_statement :: "statement_node \<Rightarrow> ustring list"
  and scanned_item :: "case_item \<Rightarrow> ustring list"
  and scanned :: "bash_node \<Rightarrow> ustring list" where
  "scanned_program (ProgramNode sts _) = concat (map scanned_statement sts)"
| "scanned_statement (StatementNode body _ _) = scanned body"
| "scanned_item (CaseItem _ body) = scanned_program body"
| "scanned (Program p) = scanned_program p"
| "scanned (Statement st) = scanned_statement st"
| "scanned (SimpleCommand c) =
     map va_value (sc_env_vars c) @ sc_argv c @ map rd_target (sc_redirects c)"
| "scanned (Pipeline ns _ _) = concat (map scanned ns)"
| "scanned (AndOr l _ r _) = scanned l @ scanned r"
| "scanned (RedirectedStatement body redirects _) = scanned body @ map rd_target redirects"
| "scanned (Subshell body _) = scanned_program body"
| "scanned (BraceGroup body _) = scanned_program body"
| "scanned (If c t e _) =
     (scanned_program c @ scanned_program t) @ (case e of None \<Rightarrow> [] | Some p \<Rightarrow> scanned_program p)"
| "scanned (For _ ws body _) = ws @ scanned_program body"
| "scanned (While c body _ _) = scanned_program c @ scanned_program body"
| "scanned (Case w items _) = w # concat (map scanned_item items)"
| "scanned (FunctionDef _ body _) = (case body of None \<Rightarrow> [] | Some b \<Rightarrow> scanned b)"
| "scanned (NegatedCommand body _) = (case body of None \<Rightarrow> [] | Some b \<Rightarrow> scanned b)"
| "scanned (DeclarationCommand _ argv vars _) = map va_value vars @ argv"
| "scanned (TestCommand argv _) = argv"
| "scanned (VariableAssignment _ value _ _) = [value]"
| "scanned (TooComplexNode _ _) = []"

text \<open>The words are the scanned words and the patterns.\<close>

lemma mset_concat_add:
  "(\<And>x. x \<in> set xs \<Longrightarrow> mset (f x) = mset (g x) + mset (h x)) \<Longrightarrow>
   mset (concat (map f xs)) = mset (concat (map g xs)) + mset (concat (map h xs))"
  by (induction xs) (simp_all add: ac_simps)

lemma words_scanned:
  "mset (words_program p) = mset (scanned_program p) + mset (patterns_program p)"
  "mset (words_statement st) = mset (scanned_statement st) + mset (patterns_statement st)"
  "mset (words_item i) = mset (scanned_item i) + mset (patterns_item i)"
  "mset (words n) = mset (scanned n) + mset (patterns_node n)"
proof (induction p and st and i and n
    rule: words_program_words_statement_words_item_words.induct)
qed (auto simp: ac_simps simp del: mset_concat intro!: mset_concat_add split: option.split)

text \<open>
  The variables a word refers to: what the pattern of a reference finds in it. Of a word with a single
  quote the code drops the quoted parts first.
\<close>

definition references :: "regex_captures \<Rightarrow> ustring \<Rightarrow> ustring set" where
  "references caps w =
     {v \<in> set (caps SHELL_VARIABLE_REFERENCE (if SQ \<in> set w then remove_single_quoted_segments w else w)).
       \<not> is_skipped_var v}"

lemma unquoted_plain: "SQ \<notin> set w \<Longrightarrow> unquoted_loop prev False w = w"
  by (induction w arbitrary: prev) auto

lemma references_code:
  "references caps w =
     {v \<in> set (caps SHELL_VARIABLE_REFERENCE (remove_single_quoted_segments w)). \<not> is_skipped_var v}"
  by (simp add: references_def remove_single_quoted_segments_def unquoted_plain)

definition covered :: "regex_captures \<Rightarrow> env_acc \<Rightarrow> ustring \<Rightarrow> bool" where
  "covered caps acc w \<longleftrightarrow>
     w = [] \<or> (\<not> is_dynamic w \<and> references caps w \<subseteq> local_definitions acc \<union> inherited_references acc)"

definition acc_le :: "env_acc \<Rightarrow> env_acc \<Rightarrow> bool" where
  "acc_le a b \<longleftrightarrow>
     local_definitions a \<subseteq> local_definitions b \<and> inherited_references a \<subseteq> inherited_references b"

definition env_inv :: "regex_engine \<Rightarrow> env_state \<Rightarrow> bool" where
  "env_inv rx s \<longleftrightarrow>
     fst s \<subseteq> local_definitions (snd s) \<and>
     sensitive_references (snd s) = {v \<in> inherited_references (snd s). rx SENSITIVE_ENV_NAME v}"

definition env_step :: "regex_engine \<Rightarrow> regex_captures \<Rightarrow> env_state \<Rightarrow> ustring list \<Rightarrow> env_status \<times> env_state \<Rightarrow> bool" where
  "env_step rx caps s ws r \<longleftrightarrow>
     env_inv rx (snd r) \<and> fst s \<subseteq> fst (snd r) \<and> acc_le (snd s) (snd (snd r)) \<and>
     (fst r = Success \<longrightarrow> (\<forall>w \<in> set ws. covered caps (snd (snd r)) w))"

definition env_sound ::
    "regex_engine \<Rightarrow> regex_captures \<Rightarrow> ustring list \<Rightarrow> (env_state \<Rightarrow> env_status \<times> env_state) \<Rightarrow> bool" where
  "env_sound rx caps ws f \<longleftrightarrow> (\<forall>s. env_inv rx s \<longrightarrow> env_step rx caps s ws (f s))"

lemma env_soundD: "env_sound rx caps ws f \<Longrightarrow> env_inv rx s \<Longrightarrow> env_step rx caps s ws (f s)"
  unfolding env_sound_def by blast

lemma env_stepD:
  assumes "env_step rx caps s ws r"
  shows "env_inv rx (snd r)" "fst s \<subseteq> fst (snd r)" "acc_le (snd s) (snd (snd r))"
    "fst r = Success \<Longrightarrow> w \<in> set ws \<Longrightarrow> covered caps (snd (snd r)) w"
  using assms by (simp_all add: env_step_def)

lemma merge_status_Success [simp]:
  "merge_status a b = Success \<longleftrightarrow> a = Success \<and> b = Success"
  by (cases a; cases b) (simp_all add: merge_status_def)

lemma acc_le_refl [simp]: "acc_le a a"
  by (simp add: acc_le_def)

lemma acc_le_trans: "acc_le a b \<Longrightarrow> acc_le b c \<Longrightarrow> acc_le a c"
  by (auto simp: acc_le_def)

lemma covered_mono: "covered caps a w \<Longrightarrow> acc_le a b \<Longrightarrow> covered caps b w"
  by (auto simp: covered_def acc_le_def)

lemma env_step_refl: "env_inv rx s \<Longrightarrow> env_step rx caps s [] (st, s)"
  by (simp add: env_step_def)

lemma env_step_seq:
  assumes "env_step rx caps s ws r" "env_step rx caps (snd r) ws' r'"
    and "fst r'' = Success \<Longrightarrow> fst r = Success \<and> fst r' = Success" "snd r'' = snd r'"
  shows "env_step rx caps s (ws @ ws') r''"
  using assms by (auto simp: env_step_def intro: acc_le_trans covered_mono)

subsection \<open>The loops\<close>

lemma env_sound_seq:
  assumes "env_step rx caps s ws r" "env_sound rx caps ws' f"
  shows "env_step rx caps s (ws @ ws') (env_seq r f)"
  by (rule env_step_seq [OF assms(1) env_soundD [OF assms(2) env_stepD(1) [OF assms(1)]]])
    (simp_all add: env_seq_def)

lemma env_sound_copy:
  assumes "env_sound rx caps ws f"
  shows "env_sound rx caps ws (env_copy f)"
  unfolding env_sound_def
proof (intro allI impI)
  fix s assume s: "env_inv rx s"
  note f = env_stepD [OF env_soundD [OF assms s]]
  have "fst s \<subseteq> local_definitions (snd (snd (f s)))"
    using f(1,2) by (auto simp: env_inv_def)
  with f show "env_step rx caps s ws (env_copy f s)"
    by (simp add: env_step_def env_copy_def env_inv_def)
qed

lemma env_sound_loop:
  assumes "\<And>x. x \<in> set xs \<Longrightarrow> env_sound rx caps (ws x) (f x)" "env_inv rx s"
  shows "env_step rx caps s (concat (map ws xs)) (env_loop f xs st s) \<and>
    (fst (env_loop f xs st s) = Success \<longrightarrow> st = Success)"
  using assms
proof (induction xs arbitrary: st s)
  case Nil
  then show ?case by (simp add: env_step_refl)
next
  case (Cons x xs)
  have x: "env_step rx caps s (ws x) (f x s)"
    using Cons.prems by (auto intro: env_soundD)
  then have "env_inv rx (snd (f x s))" by (simp add: env_step_def)
  note IH = Cons.IH [OF Cons.prems(1) this, of "merge_status st (fst (f x s))"]
  have "env_step rx caps s (ws x @ concat (map ws xs)) (env_loop f (x # xs) st s)"
    by (rule env_step_seq [OF x IH [THEN conjunct1]]) (use IH in auto)
  then show ?case using IH by auto
qed

subsection \<open>Words and definitions\<close>

lemma fold_reference:
  "local_definitions (fold (reference_var rx scope) vs acc) = local_definitions acc \<and>
   inherited_references (fold (reference_var rx scope) vs acc) =
     inherited_references acc \<union> {v \<in> set vs. \<not> is_skipped_var v \<and> v \<notin> scope} \<and>
   sensitive_references (fold (reference_var rx scope) vs acc) =
     sensitive_references acc \<union> {v \<in> set vs. \<not> is_skipped_var v \<and> v \<notin> scope \<and> rx SENSITIVE_ENV_NAME v}"
proof (induction vs arbitrary: acc)
  case (Cons v vs)
  show ?case
    using Cons.IH [of "reference_var rx scope v acc"]
    by (auto simp: reference_var_def Let_def)
qed simp

lemma env_sound_scan: "env_sound rx caps [w] (scan_in rx caps w)"
  unfolding env_sound_def
proof (intro allI impI)
  fix s assume s: "env_inv rx s"
  note fold = fold_reference [of rx "fst s"
      "caps SHELL_VARIABLE_REFERENCE (remove_single_quoted_segments w)" "snd s"]
  show "env_step rx caps s [w] (scan_in rx caps w s)"
  proof (cases "w = [] \<or> is_dynamic w")
    case True
    with s show ?thesis
      by (auto simp: env_step_def scan_in_def scan_word_env_def env_inv_def covered_def)
  next
    case False
    with s fold show ?thesis
      by (auto simp: env_step_def scan_in_def scan_word_env_def env_inv_def covered_def acc_le_def
          references_code)
  qed
qed

lemma env_sound_words: "env_sound rx caps ws (scan_words_env rx caps ws)"
proof -
  have "env_step rx caps s (concat (map (\<lambda>w. [w]) ws)) (scan_words_env rx caps ws s)"
    if "env_inv rx s" for s
    unfolding scan_words_env_def
    by (rule env_sound_loop [OF env_sound_scan that, THEN conjunct1])
  then show ?thesis by (simp add: env_sound_def)
qed

lemma define_local_props:
  "env_inv rx s \<Longrightarrow> env_inv rx (define_local v s) \<and> fst s \<subseteq> fst (define_local v s) \<and>
   acc_le (snd s) (snd (define_local v s))"
  by (auto simp: define_local_def env_inv_def acc_le_def)

lemma env_step_define:
  assumes "env_step rx caps s ws r"
  shows "env_step rx caps s ws (fst r, define_local v (snd r))"
  using assms define_local_props [OF env_stepD(1) [OF assms], of v]
  by (auto simp: env_step_def intro: acc_le_trans covered_mono)

lemma env_sound_define:
  assumes "env_sound rx caps ws f"
  shows "env_sound rx caps ws (\<lambda>s. f (define_local v s))"
  unfolding env_sound_def
proof (intro allI impI)
  fix s assume s: "env_inv rx s"
  note d = define_local_props [OF s, of v]
  from env_soundD [OF assms d [THEN conjunct1]] d
  show "env_step rx caps s ws (f (define_local v s))"
    by (auto simp: env_step_def intro: acc_le_trans)
qed

lemma env_sound_redirects:
  "env_inv rx s \<Longrightarrow>
   env_step rx caps s (map rd_target rs) (env_loop (\<lambda>rd. scan_in rx caps (rd_target rd)) rs st s) \<and>
   (fst (env_loop (\<lambda>rd. scan_in rx caps (rd_target rd)) rs st s) = Success \<longrightarrow> st = Success)"
  using env_sound_loop [of rs rx caps "\<lambda>rd. [rd_target rd]" "\<lambda>rd. scan_in rx caps (rd_target rd)" s st]
  by (simp add: env_sound_scan)

lemma env_sound_assignments:
  "env_sound rx caps (map va_value vs) (env_loop (scan_assignment rx caps) vs Success)"
proof -
  have "env_sound rx caps [va_value v] (scan_assignment rx caps v)" for v
    unfolding env_sound_def scan_assignment_def Let_def
    by (blast intro: env_step_define env_soundD [OF env_sound_scan])
  then have "env_step rx caps s (concat (map (\<lambda>v. [va_value v]) vs))
      (env_loop (scan_assignment rx caps) vs Success s)" if "env_inv rx s" for s
    by (intro env_sound_loop [THEN conjunct1] that)
  then show ?thesis by (simp add: env_sound_def)
qed

subsection \<open>Commands\<close>

definition two_scopes :: "regex_engine \<Rightarrow> ustring set \<times> env_state \<Rightarrow> bool" where
  "two_scopes rx t \<longleftrightarrow> env_inv rx (snd t) \<and> env_inv rx (fst t, snd (snd t))"

lemma scan_env_var_step:
  assumes "two_scopes rx t"
  shows "two_scopes rx (snd (scan_env_var rx caps alone v t)) \<and>
    env_step rx caps (snd t) [va_value v]
      (fst (scan_env_var rx caps alone v t), snd (snd (scan_env_var rx caps alone v t)))"
proof -
  define r where "r = scan_in rx caps (va_value v) (snd t)"
  have r: "env_step rx caps (snd t) [va_value v] r"
    using env_soundD [OF env_sound_scan] assms by (simp add: r_def two_scopes_def)
  note r' = env_stepD [OF r]
  define c where "c = define_local (va_name v) (fst t, snd (snd r))"
  have t: "env_inv rx (fst t, snd (snd r))"
    using assms r' by (auto simp: two_scopes_def env_inv_def acc_le_def)
  have c: "env_inv rx c" "acc_le (snd (snd r)) (snd c)"
    using define_local_props [OF t] by (simp_all add: c_def)
  have outer: "env_inv rx (fst (snd r), snd c)"
    using r'(1) c by (auto simp: env_inv_def acc_le_def)
  define d where "d = (if alone then define_local (va_name v) (fst (snd r), snd c) else (fst (snd r), snd c))"
  have d: "env_inv rx d" "fst (snd r) \<subseteq> fst d" "acc_le (snd c) (snd d)"
    using define_local_props [OF outer] outer by (simp_all add: d_def)
  have both: "env_inv rx (fst c, snd d)"
    using c(1) d(1,3) by (auto simp: env_inv_def acc_le_def)
  have res: "scan_env_var rx caps alone v t = (fst r, (fst c, d))"
    by (simp add: scan_env_var_def Let_def r_def c_def d_def)
  have "env_step rx caps (snd t) [va_value v] (fst r, d)"
    using r d c(2) by (auto simp: env_step_def intro: acc_le_trans covered_mono)
  with res d both show ?thesis by (simp add: two_scopes_def)
qed

lemma scan_env_vars_step:
  assumes "two_scopes rx t"
  shows "two_scopes rx (snd (env_loop (scan_env_var rx caps alone) vs st t)) \<and>
    env_step rx caps (snd t) (map va_value vs)
      (fst (env_loop (scan_env_var rx caps alone) vs st t),
       snd (snd (env_loop (scan_env_var rx caps alone) vs st t))) \<and>
    (fst (env_loop (scan_env_var rx caps alone) vs st t) = Success \<longrightarrow> st = Success)"
  using assms
proof (induction vs arbitrary: st t)
  case Nil
  then show ?case by (simp add: env_step_refl two_scopes_def)
next
  case (Cons v vs)
  define r where "r = scan_env_var rx caps alone v t"
  note v = scan_env_var_step [OF Cons.prems, of caps alone v, folded r_def]
  note IH = Cons.IH [OF v [THEN conjunct1], of "merge_status st (fst r)"]
  have "env_step rx caps (snd t) ([va_value v] @ map va_value vs)
      (fst (env_loop (scan_env_var rx caps alone) (v # vs) st t),
       snd (snd (env_loop (scan_env_var rx caps alone) (v # vs) st t)))"
    by (rule env_step_seq [OF v [THEN conjunct2]])
      (use IH in \<open>auto simp: r_def\<close>)
  then show ?case using IH by (simp add: r_def)
qed

lemma env_step_define_pair:
  "env_step rx caps s ws (st, t) \<Longrightarrow> env_step rx caps s ws (st, define_local v t)"
  by (drule env_step_define) simp

lemma read_names_step:
  "env_step rx caps s ws (st, t) \<Longrightarrow>
   env_step rx caps s ws (st, fold (\<lambda>a x. if p a then define_local (g a) x else x) as t)"
  by (induction as arbitrary: t) (simp_all add: env_step_define_pair)

lemma env_sound_simple:
  "env_sound rx caps (scanned (SimpleCommand c)) (analyse_simple rx caps c)"
  unfolding env_sound_def
proof (intro allI impI)
  fix s assume s: "env_inv rx s"
  define r1 where "r1 = env_loop (scan_env_var rx caps (sc_argv c = [])) (sc_env_vars c) Success (fst s, s)"
  have "two_scopes rx (fst s, s)" using s by (simp add: two_scopes_def)
  note vars = scan_env_vars_step [OF this, of caps "sc_argv c = []" "sc_env_vars c" Success, folded r1_def]
  define s1 where "s1 = (fst (snd r1), snd (snd (snd r1)))"
  have s1: "env_inv rx s1" using vars by (simp add: two_scopes_def s1_def)
  define r2 where "r2 = env_seq (fst r1, s1) (scan_words_env rx caps (sc_argv c))"
  have r2: "env_step rx caps s1 ([] @ sc_argv c) r2"
    unfolding r2_def by (rule env_sound_seq [OF env_step_refl [OF s1] env_sound_words])
  define r3 where "r3 = env_loop (\<lambda>rd. scan_in rx caps (rd_target rd)) (sc_redirects c) (fst r2) (snd r2)"
  note r3 = env_sound_redirects [OF env_stepD(1) [OF r2], of caps "sc_redirects c" "fst r2", folded r3_def]
  have r2_ok: "fst r2 = Success \<Longrightarrow> fst r1 = Success"
    by (simp add: r2_def env_seq_def)
  define acc where "acc = snd (snd r3)"
  define out where "out = (fst (snd (snd r1)), acc)"
  note e1 = env_stepD [OF vars [THEN conjunct2, THEN conjunct1]]
  note e2 = env_stepD [OF r2]
  note e3 = env_stepD [OF r3 [THEN conjunct1]]
  have le: "acc_le (snd (snd (snd r1))) acc"
    using e2(3) e3(3) by (auto simp: acc_def s1_def intro: acc_le_trans)
  have inv: "env_inv rx out"
    using e1(1) e3(1) le by (auto simp: out_def acc_def env_inv_def acc_le_def)
  have all: "env_step rx caps s (scanned (SimpleCommand c)) (fst r3, out)"
    unfolding env_step_def
  proof (intro conjI impI ballI)
    show "env_inv rx (snd (fst r3, out))" using inv by simp
    show "fst s \<subseteq> fst (snd (fst r3, out))" using e1(2) by (simp add: out_def)
    show "acc_le (snd s) (snd (snd (fst r3, out)))"
      using e1(3) le by (auto simp: out_def intro: acc_le_trans)
    fix w assume ok: "fst (fst r3, out) = Success" and w: "w \<in> set (scanned (SimpleCommand c))"
    from ok r3 r2_ok have st: "fst r3 = Success" "fst r2 = Success" "fst r1 = Success" by auto
    from w consider "w \<in> set (map va_value (sc_env_vars c))" | "w \<in> set (sc_argv c)"
      | "w \<in> set (map rd_target (sc_redirects c))" by auto
    then show "covered caps (snd (snd (fst r3, out))) w"
    proof cases
      case 1
      with e1(4) st have "covered caps (snd (snd (snd r1))) w" by simp
      with le show ?thesis by (auto simp: out_def intro: covered_mono)
    next
      case 2
      with e2(4) st have "covered caps (snd (snd r2)) w" by simp
      with e3(3) show ?thesis by (auto simp: out_def acc_def intro: covered_mono)
    next
      case 3
      with e3(4) st show ?thesis by (simp add: out_def acc_def)
    qed
  qed
  have complex: "env_step rx caps s (scanned (SimpleCommand c)) (TooComplexEnv, out)"
    using all by (simp add: env_step_def)
  have "analyse_simple rx caps c s =
      (if sc_argv c = [] then (fst r3, out)
       else if is_in (strip_shell_quotes (sc_argv c ! 0)) EVAL_LIKE_BUILTINS then (TooComplexEnv, out)
       else if strip_shell_quotes (sc_argv c ! 0) = u ''read'' then
         (fst r3, fold (\<lambda>a st. if rx PLAIN_VAR_NAME (strip_shell_quotes a)
            then define_local (strip_shell_quotes a) st else st) (tl (sc_argv c)) out)
       else (fst r3, out))"
    by (simp only: analyse_simple_def Let_def r1_def r2_def r3_def s1_def out_def acc_def)
  then show "env_step rx caps s (scanned (SimpleCommand c)) (analyse_simple rx caps c s)"
    using all complex
      read_names_step [OF all, of "\<lambda>a. rx PLAIN_VAR_NAME (strip_shell_quotes a)" strip_shell_quotes]
    by (simp only: split: if_split) blast
qed

subsection \<open>Trees\<close>

lemma env_sound_then:
  "env_sound rx caps ws f \<Longrightarrow> env_sound rx caps ws' g \<Longrightarrow>
   env_sound rx caps (ws @ ws') (\<lambda>s. env_seq (f s) g)"
  unfolding env_sound_def [of _ _ "ws @ ws'"] by (blast intro: env_sound_seq env_soundD)

lemma env_sound_each:
  "(\<And>x. x \<in> set xs \<Longrightarrow> env_sound rx caps (ws x) (f x)) \<Longrightarrow>
   env_sound rx caps (concat (map ws xs)) (env_loop f xs Success)"
  by (simp add: env_sound_def [of _ _ "concat _"] env_sound_loop)

lemma env_sound_redirs:
  "env_sound rx caps (map rd_target rs) (env_loop (\<lambda>rd. scan_in rx caps (rd_target rd)) rs Success)"
  unfolding env_sound_def by (blast dest: env_sound_redirects)

lemma env_sound_skip: "env_sound rx caps [] (Pair st)"
  by (auto simp: env_sound_def env_step_refl)

lemma env_sound_stop: "env_sound rx caps ws (Pair TooComplexEnv)"
  by (auto simp: env_sound_def env_step_def)

lemmas env_sound_rules =
  env_sound_then env_sound_each env_sound_copy env_sound_redirs env_sound_skip env_sound_stop
  env_sound_words env_sound_scan env_sound_assignments env_sound_simple

lemma env_sound_cong: "(\<And>s. f s = g s) \<Longrightarrow> env_sound rx caps ws g \<Longrightarrow> env_sound rx caps ws f"
  by (simp add: env_sound_def)

lemma env_sound_tree:
  "env_sound rx caps (scanned_program p) (analyse_program rx caps p)"
  "env_sound rx caps (scanned_statement st) (analyse_statement rx caps st)"
  "env_sound rx caps (scanned_item i) (analyse_item rx caps i)"
  "env_sound rx caps (scanned n) (analyse_node rx caps n)"
proof (induction p and st and i and n
    rule: words_program_words_statement_words_item_words.induct)
  case (1 sts sp)
  show ?case
    by (simp only: scanned_program.simps, rule env_sound_cong, rule analyse_program.simps)
      (intro env_sound_rules 1)
next
  case (7 ns neg sp)
  show ?case
    by (simp only: scanned.simps, rule env_sound_cong, rule analyse_node.simps)
      (intro env_sound_rules 7)
next
  case (8 l op r sp)
  show ?case
    by (simp only: scanned.simps, rule env_sound_cong, rule analyse_node.simps)
      (intro env_sound_rules 8)
next
  case (9 body rs sp)
  show ?case
    by (simp only: scanned.simps, rule env_sound_cong, rule analyse_node.simps)
      (intro env_sound_rules 9)
next
  case (10 body sp)
  show ?case
    by (simp only: scanned.simps, rule env_sound_cong, rule analyse_node.simps)
      (intro env_sound_rules 10)
next
  case (12 c t e sp)
  have "env_sound rx caps (case e of None \<Rightarrow> [] | Some p \<Rightarrow> scanned_program p)
      (\<lambda>s. case e of None \<Rightarrow> (Success, s) | Some p \<Rightarrow> env_copy (analyse_program rx caps p) s)"
    using 12(3) by (cases e) (simp_all add: env_sound_skip env_sound_copy)
  with 12(1,2) show ?case
    by (simp only: scanned.simps, intro env_sound_cong [OF analyse_node.simps(8)] env_sound_rules)
next
  case (13 var ws body sp)
  show ?case
    by (simp only: scanned.simps, rule env_sound_cong, rule analyse_node.simps)
      (intro env_sound_rules env_sound_define 13)
next
  case (14 c body neg sp)
  show ?case
    by (simp only: scanned.simps, rule env_sound_cong, rule analyse_node.simps)
      (intro env_sound_rules 14)
next
  case (15 w items sp)
  have "env_sound rx caps ([w] @ concat (map scanned_item items)) (analyse_node rx caps (Case w items sp))"
    by (rule env_sound_cong, rule analyse_node.simps) (intro env_sound_rules 15)
  then show ?case by (simp del: analyse_node.simps)
next
  case (16 name body sp)
  then show ?case
    by (cases body) (auto intro: env_sound_cong env_sound_skip env_sound_copy)
next
  case (17 body sp)
  then show ?case
    by (cases body) (auto intro: env_sound_cong env_sound_skip)
next
  case (20 name v e sp)
  have "env_sound rx caps [v] (\<lambda>s. (fst (scan_in rx caps v s), define_local name (snd (scan_in rx caps v s))))"
    unfolding env_sound_def by (blast intro: env_step_define env_soundD [OF env_sound_scan])
  then show ?case by (simp add: Let_def)
qed (auto intro: env_sound_cong env_sound_rules env_sound_simple [simplified])

end
