(* ===== verification/Bash_Blacklist.thy ===== *)
theory Bash_Blacklist
  imports Java_Str
begin

section \<open>The command blacklist\<close>

text \<open>
  \<open>crates/zk-tools/src/bash/blacklist.rs\<close>: the three levels of interception, the built-in rules, the
  custom rules and \<open>check_command\<close>. \<open>Regex::is_match\<close> is the parameter \<open>rx\<close>; the audit events are
  not modelled.
\<close>

datatype block_level = AbsoluteDeny | HighRiskAsk | AuditLog | Allowed

record block_result =
  br_level :: block_level
  br_rule :: "ustring option"
  br_reason :: "ustring option"

definition allowed :: block_result where
  "allowed = \<lparr>br_level = Allowed, br_rule = None, br_reason = None\<rparr>"

definition blocked :: "block_level \<Rightarrow> ustring \<Rightarrow> ustring \<Rightarrow> block_result" where
  "blocked l rule why = \<lparr>br_level = l, br_rule = Some rule, br_reason = Some why\<rparr>"

record rule_entry =
  re_pattern :: ustring
  re_description :: ustring

definition rule :: "string \<Rightarrow> string \<Rightarrow> rule_entry" where
  "rule p d = \<lparr>re_pattern = raw p, re_description = u d\<rparr>"

subsection \<open>The built-in rules\<close>

definition BUILTIN_ABSOLUTE_DENY :: "rule_entry list" where
  \<open>BUILTIN_ABSOLUTE_DENY =
     [rule ''rm%s+(?:-[rRf]+%s+){0,5}(/|/%*|~|%$HOME)(?:%s|$)''
        ''Recursive deletion of system/home directory'',
      rule ''%bmkfs%.'' ''Disk formatting'',
      rule ''%bdd%s+[^%n]{0,200}of=/dev/'' ''Block device direct write'',
      rule ''>%s*/dev/sd[a-z]'' ''Block device redirection'',
      rule '':%(%)%{%s*:%|:&%s*%};:'' ''Fork bomb'',
      rule ''curl%s+[^|]*%|%s*(ba)?sh'' ''Remote code execution via curl pipe'',
      rule ''wget%s+[^|]*%|%s*(ba)?sh'' ''Remote code execution via wget pipe'',
      rule ''bash%s+-c%s+["']?%$%(curl'' ''Remote code execution via bash -c curl'',
      rule ''chmod%s+(?:-R%s+)?777%s+/(?:%s|$)'' ''Global permission destruction'',
      rule ''chown%s+-R%s+.*%s+/%s*$'' ''Root directory ownership change'',
      rule ''^%s*(reboot|shutdown|halt|poweroff|init%s+[06])%b'' ''System shutdown/reboot'',
      rule ''%b(shred|wipefs)%s+'' ''Irreversible data erasure'']\<close>

definition BUILTIN_HIGH_RISK_ASK :: "rule_entry list" where
  \<open>BUILTIN_HIGH_RISK_ASK =
     [rule ''rm%s+(?:-[rRf]+%s+){1,5}'' ''Recursive/forced deletion'',
      rule ''chmod%s+(?:-R%s+)?777%b'' ''Dangerous permission change'',
      rule ''%bgit%s+push%s+.*--force'' ''Git force push'',
      rule ''%bgit%s+(reset|clean)%s+--hard'' ''Git hard reset/clean'',
      rule ''(?i)DROP%s+(TABLE|DATABASE)'' ''SQL DROP operation'',
      rule ''(?i)TRUNCATE%s+TABLE'' ''SQL TRUNCATE operation'',
      rule ''%bkill%s+-9%s+'' ''Force kill process'',
      rule ''%bkillall%s+'' ''Batch kill processes'',
      rule ''%bnc%s+-[lp]'' ''Network listening'',
      rule ''%bdocker%s+(rm|rmi|system%s+prune)'' ''Docker destructive operation'',
      rule ''%bnpm%s+(publish|unpublish)'' ''NPM publish/unpublish'',
      rule ''%b(sudo|su|doas)%s+'' ''Privilege escalation command'',
      rule ''chmod%s+(?:[^%s]*%+[su]|[^%s]*[ug]%+s)'' ''setuid/setgid permission modification'']\<close>

definition BUILTIN_AUDIT_LOG :: "rule_entry list" where
  \<open>BUILTIN_AUDIT_LOG =
     [rule ''^%s*(env|printenv|set)%s*$'' ''Environment variable disclosure'',
      rule ''%b(curl|wget)%s+'' ''Network request'',
      rule ''%bssh%s+'' ''SSH connection'',
      rule ''%b(npm|pip|brew|apt|apt-get)%s+install%b'' ''Package installation'',
      rule ''%bgit%s+(push|commit|merge)%b'' ''Git write operation'']\<close>

subsection \<open>The service\<close>

record blacklist =
  custom_deny :: "rule_entry list"
  custom_ask :: "rule_entry list"
  audit_log_enabled :: bool

definition blacklist_new :: blacklist where
  "blacklist_new = \<lparr>custom_deny = [], custom_ask = [], audit_log_enabled = True\<rparr>"

text \<open>\<open>compiles\<close> says whether \<open>Regex::new\<close> accepts a pattern.\<close>

definition add_custom_deny :: "(ustring \<Rightarrow> bool) \<Rightarrow> ustring \<Rightarrow> ustring \<Rightarrow> blacklist \<Rightarrow> blacklist" where
  "add_custom_deny compiles p d b =
     (if compiles p then b\<lparr>custom_deny := custom_deny b @ [\<lparr>re_pattern = p, re_description = d\<rparr>]\<rparr>
      else b)"

definition add_custom_ask :: "(ustring \<Rightarrow> bool) \<Rightarrow> ustring \<Rightarrow> ustring \<Rightarrow> blacklist \<Rightarrow> blacklist" where
  "add_custom_ask compiles p d b =
     (if compiles p then b\<lparr>custom_ask := custom_ask b @ [\<lparr>re_pattern = p, re_description = d\<rparr>]\<rparr>
      else b)"

definition set_audit_log_enabled :: "bool \<Rightarrow> blacklist \<Rightarrow> blacklist" where
  "set_audit_log_enabled e b = b\<lparr>audit_log_enabled := e\<rparr>"

text \<open>
  \<open>load_patterns\<close> on the decoded array: the \<open>pattern\<close> and \<open>description\<close> of each entry, where they are
  strings; \<open>None\<close> stands for a missing field or one that is not an array.
\<close>

fun load_patterns ::
    "(ustring \<Rightarrow> bool) \<Rightarrow> (ustring option \<times> ustring option) list option \<Rightarrow> rule_entry list" where
  "load_patterns compiles None = []"
| "load_patterns compiles (Some entries) =
     concat (map (\<lambda>(p, d). case p of
         None \<Rightarrow> []
       | Some pat \<Rightarrow>
           if \<not> java_is_blank pat \<and> compiles pat
           then [\<lparr>re_pattern = pat,
                  re_description = (case d of None \<Rightarrow> u ''Custom rule'' | Some x \<Rightarrow> x)\<rparr>]
           else []) entries)"

text \<open>\<open>load_custom_rules\<close>: \<open>None\<close> is a document that does not parse.\<close>

definition load_custom_rules ::
    "(ustring \<Rightarrow> bool) \<Rightarrow>
     ((ustring option \<times> ustring option) list option \<times> (ustring option \<times> ustring option) list option) option \<Rightarrow>
     blacklist \<Rightarrow> blacklist" where
  "load_custom_rules compiles doc b =
     (case doc of
        None \<Rightarrow> b
      | Some (deny, ask) \<Rightarrow>
          b\<lparr>custom_deny := custom_deny b @ load_patterns compiles deny,
            custom_ask := custom_ask b @ load_patterns compiles ask\<rparr>)"

subsection \<open>The check\<close>

definition after_last :: "nat \<Rightarrow> ustring \<Rightarrow> ustring" where
  "after_last c s = rev (takeWhile (\<lambda>x. x \<noteq> c) (rev s))"

definition strip_path :: "ustring \<Rightarrow> ustring" where
  "strip_path s =
     (if starts_with s (u ''/'') then
        (case find_unit 32 s of
           None \<Rightarrow> after_last 47 s
         | Some i \<Rightarrow> after_last 47 (take i s) @ drop i s)
      else s)"

definition strip_command_prefix :: "ustring \<Rightarrow> ustring" where
  "strip_command_prefix command =
     (let s = strip_path command in
      if starts_with s (u ''command '') \<or> starts_with s (u ''builtin '') then
        (case find_unit 32 s of None \<Rightarrow> s | Some i \<Rightarrow> rust_trim (drop (i + 1) s))
      else s)"

definition first_match :: "regex_engine \<Rightarrow> block_level \<Rightarrow> ustring \<Rightarrow> rule_entry list \<Rightarrow> block_result option" where
  "first_match rx l s rules =
     first_some (\<lambda>r. if rx (re_pattern r) s then Some (blocked l (re_pattern r) (re_description r))
                     else None) rules"

definition or_block :: "block_result option \<Rightarrow> block_result \<Rightarrow> block_result" where
  "or_block r other = (case r of Some x \<Rightarrow> x | None \<Rightarrow> other)"

definition check_command :: "regex_engine \<Rightarrow> blacklist \<Rightarrow> ustring \<Rightarrow> block_result" where
  "check_command rx b raw_command =
     (if rust_trim raw_command = [] then allowed
      else
        let s = strip_command_prefix (rust_trim raw_command) in
        or_block (first_match rx AbsoluteDeny s BUILTIN_ABSOLUTE_DENY)
       (or_block (first_match rx AbsoluteDeny s (custom_deny b))
       (or_block (first_match rx HighRiskAsk s BUILTIN_HIGH_RISK_ASK)
       (or_block (first_match rx HighRiskAsk s (custom_ask b))
       (or_block (first_match rx AuditLog s BUILTIN_AUDIT_LOG) allowed)))))"

fun join_sp :: "ustring list \<Rightarrow> ustring" where
  "join_sp [] = []"
| "join_sp [x] = x"
| "join_sp (x # y # xs) = x @ 32 # join_sp (y # xs)"

definition check_argv :: "regex_engine \<Rightarrow> blacklist \<Rightarrow> ustring list \<Rightarrow> block_result" where
  "check_argv rx b argv = (if argv = [] then allowed else check_command rx b (join_sp argv))"

definition require_not_absolutely_denied ::
    "regex_engine \<Rightarrow> blacklist \<Rightarrow> ustring \<Rightarrow> (ustring \<times> ustring option) + unit" where
  "require_not_absolutely_denied rx b command =
     (let r = check_command rx b command in
      if br_level r = AbsoluteDeny then Inl (u ''COMMAND_ABSOLUTELY_DENIED'', br_reason r) else Inr ())"

subsection \<open>Specification of the verdict\<close>

text \<open>The level is decided by the strictest list that has a rule matching the stripped command.\<close>

definition hits :: "regex_engine \<Rightarrow> ustring \<Rightarrow> rule_entry list \<Rightarrow> bool" where
  "hits rx s rules \<longleftrightarrow> (\<exists>r \<in> set rules. rx (re_pattern r) s)"

lemma first_match_level:
  "first_match rx l s rules = Some r \<Longrightarrow> br_level r = l"
  by (induction rules) (auto simp: first_match_def blocked_def split: if_splits)

lemma first_match_None: "first_match rx l s rules = None \<longleftrightarrow> \<not> hits rx s rules"
  by (auto simp: first_match_def first_some_None hits_def)

definition verdict :: "regex_engine \<Rightarrow> blacklist \<Rightarrow> ustring \<Rightarrow> block_level" where
  "verdict rx b s =
     (if hits rx s (BUILTIN_ABSOLUTE_DENY @ custom_deny b) then AbsoluteDeny
      else if hits rx s (BUILTIN_HIGH_RISK_ASK @ custom_ask b) then HighRiskAsk
      else if hits rx s BUILTIN_AUDIT_LOG then AuditLog else Allowed)"

lemma hits_append: "hits rx s (a @ b) \<longleftrightarrow> hits rx s a \<or> hits rx s b"
  by (auto simp: hits_def)

lemma or_block_level:
  "br_level (or_block (first_match rx l s rules) other) = (if hits rx s rules then l else br_level other)"
proof (cases "first_match rx l s rules")
  case None
  with first_match_None [THEN iffD1, OF None] show ?thesis by (simp add: or_block_def)
next
  case (Some r)
  then have "hits rx s rules" using first_match_None [of rx l s rules] by auto
  then show ?thesis using first_match_level [OF Some] Some by (simp add: or_block_def)
qed

lemma check_command_verdict:
  "br_level (check_command rx b c) =
     (if rust_trim c = [] then Allowed else verdict rx b (strip_command_prefix (rust_trim c)))"
  by (simp add: check_command_def Let_def or_block_level verdict_def hits_append allowed_def)

definition severity :: "block_level \<Rightarrow> nat" where
  "severity l = (case l of AbsoluteDeny \<Rightarrow> 3 | HighRiskAsk \<Rightarrow> 2 | AuditLog \<Rightarrow> 1 | Allowed \<Rightarrow> 0)"

lemma verdict_mono:
  assumes "set (custom_deny b) \<subseteq> set (custom_deny b')" "set (custom_ask b) \<subseteq> set (custom_ask b')"
  shows "severity (verdict rx b s) \<le> severity (verdict rx b' s)"
proof -
  have "hits rx s (custom_deny b) \<Longrightarrow> hits rx s (custom_deny b')"
    "hits rx s (custom_ask b) \<Longrightarrow> hits rx s (custom_ask b')"
    using assms by (auto simp: hits_def)
  then show ?thesis by (auto simp: verdict_def hits_append severity_def)
qed

end
