(* ===== verification/Bash_Heredoc.thy ===== *)
theory Bash_Heredoc
  imports Java_Str
begin

section \<open>Here-documents\<close>

text \<open>
  \<open>crates/zk-tools/src/bash/heredoc.rs\<close>. The code works on the characters of the command; the model
  works on the units of its UTF-16 encoding, which differ only at characters the code never looks
  for (it tests ASCII characters only).
\<close>

record heredoc_info =
  hd_delimiter :: ustring
  hd_content :: ustring
  hd_is_dash :: bool
  hd_is_quoted_or_escaped :: bool

record extraction =
  processed_command :: ustring
  heredocs :: "(ustring \<times> heredoc_info) list"

record heredoc_match =
  hm_start :: nat
  hm_end :: nat
  hm_is_dash :: bool
  hm_quoted :: bool
  hm_delimiter :: ustring
  hm_has_backslash :: bool

definition is_word_char :: "nat \<Rightarrow> bool" where
  "is_word_char c = ((48 \<le> c \<and> c \<le> 57) \<or> (65 \<le> c \<and> c \<le> 90) \<or> (97 \<le> c \<and> c \<le> 122) \<or> c = 95)"

text \<open>\<open>while i < n && p(units[i]) { i += 1 }\<close> and the slice \<open>units[i..j]\<close>.\<close>

definition skip_while :: "(nat \<Rightarrow> bool) \<Rightarrow> ustring \<Rightarrow> nat \<Rightarrow> nat" where
  "skip_while p us i = i + length (takeWhile p (drop i us))"

definition slice :: "ustring \<Rightarrow> nat \<Rightarrow> nat \<Rightarrow> ustring" where
  "slice us i j = take (j - i) (drop i us)"

definition unit_at :: "ustring \<Rightarrow> nat \<Rightarrow> nat \<Rightarrow> bool" where
  "unit_at us i c = (i < length us \<and> us ! i = c)"

text \<open>The two branches of the pattern: a quoted word, and a bare word after an optional backslash.\<close>

definition quoted_match :: "ustring \<Rightarrow> nat \<Rightarrow> bool \<Rightarrow> nat \<Rightarrow> heredoc_match option" where
  "quoted_match us p is_dash i =
     (let j = skip_while is_word_char us (i + 1) in
      if i + 1 < j \<and> unit_at us j (us ! i) then
        Some \<lparr>hm_start = p, hm_end = j + 1, hm_is_dash = is_dash, hm_quoted = True,
          hm_delimiter = slice us (i + 1) j, hm_has_backslash = (92 \<in> set (slice us p (j + 1)))\<rparr>
      else None)"

definition bare_match :: "ustring \<Rightarrow> nat \<Rightarrow> bool \<Rightarrow> nat \<Rightarrow> heredoc_match option" where
  "bare_match us p is_dash i =
     (let word_start = (if unit_at us i 92 then i + 1 else i);
          j = skip_while is_word_char us word_start
      in if j = word_start then None
         else Some \<lparr>hm_start = p, hm_end = j, hm_is_dash = is_dash, hm_quoted = False,
           hm_delimiter = slice us word_start j, hm_has_backslash = (92 \<in> set (slice us p j))\<rparr>)"

definition try_match_at :: "ustring \<Rightarrow> nat \<Rightarrow> heredoc_match option" where
  "try_match_at us p =
     (let is_dash = unit_at us (p + 2) 45;
          i = skip_while (\<lambda>c. c = 32 \<or> c = 9) us (if is_dash then p + 3 else p + 2)
      in if unit_at us i 39 \<or> unit_at us i 34 then quoted_match us p is_dash i
         else bare_match us p is_dash i)"

definition heredoc_at :: "ustring \<Rightarrow> nat \<Rightarrow> heredoc_match option" where
  "heredoc_at us p =
     (if us ! p = 60 \<and> unit_at us (p + 1) 60 \<and> (p = 0 \<or> us ! (p - 1) \<noteq> 60) \<and> \<not> unit_at us (p + 2) 60
      then try_match_at us p else None)"

function find_heredoc_start :: "ustring \<Rightarrow> nat \<Rightarrow> heredoc_match option" where
  "find_heredoc_start us p =
     (if p < length us then
        (case heredoc_at us p of Some m \<Rightarrow> Some m | None \<Rightarrow> find_heredoc_start us (p + 1))
      else None)"
  by pat_completeness auto
termination by (relation "measure (\<lambda>(us, p). length us - p)") auto

declare find_heredoc_start.simps [simp del]

subsection \<open>The quote and comment scanner\<close>

record scanner =
  in_single_q :: bool
  in_double_q :: bool
  in_comment :: bool
  dq_escape_next :: bool
  pending_backslashes :: nat

definition scanner_start :: scanner where
  "scanner_start = \<lparr>in_single_q = False, in_double_q = False, in_comment = False,
     dq_escape_next = False, pending_backslashes = 0\<rparr>"

definition scan_step :: "nat \<Rightarrow> scanner \<Rightarrow> scanner" where
  "scan_step ch s0 =
     (let s = (if ch = 10 then s0\<lparr>in_comment := False\<rparr> else s0) in
      if in_single_q s then (if ch = 39 then s\<lparr>in_single_q := False\<rparr> else s)
      else if in_double_q s then
        (if dq_escape_next s then s\<lparr>dq_escape_next := False\<rparr>
         else if ch = 92 then s\<lparr>dq_escape_next := True\<rparr>
         else if ch = 34 then s\<lparr>in_double_q := False\<rparr> else s)
      else if ch = 92 then s\<lparr>pending_backslashes := pending_backslashes s + 1\<rparr>
      else
        let escaped = (pending_backslashes s mod 2 = 1); s1 = s\<lparr>pending_backslashes := 0\<rparr> in
        if escaped then s1
        else if ch = 39 then s1\<lparr>in_single_q := True\<rparr>
        else if ch = 34 then s1\<lparr>in_double_q := True\<rparr>
        else if \<not> in_comment s1 \<and> ch = 35 then s1\<lparr>in_comment := True\<rparr>
        else s1)"

subsection \<open>Lines\<close>

text \<open>The offset of the first newline outside quotes, relative to the start of the list.\<close>

fun newline_loop :: "bool \<Rightarrow> bool \<Rightarrow> nat \<Rightarrow> ustring \<Rightarrow> nat option" where
  "newline_loop sq dq k [] = None"
| "newline_loop sq dq k (ch # cs) =
     (if sq then newline_loop (ch \<noteq> 39) dq (k + 1) cs
      else if dq then
        (if ch = 92 then newline_loop sq dq (k + 2) (tl cs)
         else newline_loop sq (ch \<noteq> 34) (k + 1) cs)
      else if ch = 10 then Some k
      else if ch = 39 then newline_loop True dq (k + 1) cs
      else if ch = 34 then newline_loop sq True (k + 1) cs
      else newline_loop sq dq (k + 1) cs)"

definition find_unquoted_newline :: "ustring \<Rightarrow> nat \<Rightarrow> nat option" where
  "find_unquoted_newline us from = newline_loop False False 0 (drop from us)"

definition count_trailing_backslashes :: "ustring \<Rightarrow> nat" where
  "count_trailing_backslashes us = length (takeWhile (\<lambda>c. c = 92) (rev us))"

fun split_on :: "nat \<Rightarrow> ustring \<Rightarrow> ustring list" where
  "split_on sep [] = [[]]"
| "split_on sep (c # cs) =
     (if c = sep then [] # split_on sep cs
      else (case split_on sep cs of [] \<Rightarrow> [[c]] | l # ls \<Rightarrow> (c # l) # ls))"

fun join_nl :: "ustring list \<Rightarrow> ustring" where
  "join_nl [] = []"
| "join_nl [x] = x"
| "join_nl (x # y # xs) = x @ 10 # join_nl (y # xs)"

definition check_line :: "bool \<Rightarrow> ustring \<Rightarrow> ustring" where
  "check_line is_dash line = (if is_dash then dropWhile (\<lambda>c. c = 9) line else line)"

text \<open>The index of the closing line; an early close by a shell character gives up.\<close>

fun closing_line :: "bool \<Rightarrow> ustring \<Rightarrow> nat \<Rightarrow> ustring list \<Rightarrow> nat option" where
  "closing_line is_dash d i [] = None"
| "closing_line is_dash d i (line # lines) =
     (let l = check_line is_dash line in
      if l = d then Some i
      else if length d < length l \<and> starts_with l d \<and> l ! length d \<in> set (u '')}`|&;(<>'') then None
      else closing_line is_dash d (i + 1) lines)"

subsection \<open>Extraction\<close>

definition ANSI_C_QUOTING_RE :: ustring where
  \<open>ANSI_C_QUOTING_RE = raw ''^.*%$['"].*$''\<close>

text \<open>What an iteration of the main loop does with a match once the scanner has reached it.\<close>

definition heredoc_of :: "ustring \<Rightarrow> heredoc_match \<Rightarrow> scanner \<Rightarrow> heredoc_info option" where
  "heredoc_of us m s =
     (if in_single_q s \<or> in_double_q s \<or> in_comment s \<or> pending_backslashes s mod 2 = 1 then None
      else
        (case find_unquoted_newline us (hm_end m) of
           None \<Rightarrow> None
         | Some off \<Rightarrow>
             if count_trailing_backslashes (slice us (hm_end m) (hm_end m + off)) mod 2 = 1 then None
             else
               let content_start = hm_end m + off + 1 in
               if length us \<le> content_start then None
               else
                 let lines = split_on 10 (drop content_start us) in
                 (case closing_line (hm_is_dash m) (hm_delimiter m) 0 lines of
                    None \<Rightarrow> None
                  | Some k \<Rightarrow>
                      Some \<lparr>hd_delimiter = hm_delimiter m, hd_content = join_nl (take k lines),
                        hd_is_dash = hm_is_dash m,
                        hd_is_quoted_or_escaped = (hm_quoted m \<or> hm_has_backslash m)\<rparr>)))"

text \<open>A match starts at or after the position of the search, and lies inside the command.\<close>

lemma skip_while_bounds:
  "i \<le> skip_while p us i" "i \<le> length us \<Longrightarrow> skip_while p us i \<le> length us"
proof -
  show "i \<le> skip_while p us i" by (simp add: skip_while_def)
  have "length (takeWhile p (drop i us)) \<le> length us - i"
    using length_takeWhile_le [of p "drop i us"] by simp
  then show "i \<le> length us \<Longrightarrow> skip_while p us i \<le> length us" by (simp add: skip_while_def)
qed

lemma skip_while_slice: "slice us i (skip_while p us i) = takeWhile p (drop i us)"
  by (simp add: slice_def skip_while_def takeWhile_eq_take [symmetric])

definition wf_match :: "ustring \<Rightarrow> nat \<Rightarrow> heredoc_match \<Rightarrow> bool" where
  "wf_match us p m \<longleftrightarrow>
     hm_start m = p \<and> p < hm_end m \<and> hm_end m \<le> length us \<and> hm_delimiter m \<noteq> [] \<and>
     list_all is_word_char (hm_delimiter m)"

lemma word_slice: "list_all is_word_char (slice us k (skip_while is_word_char us k))"
  by (auto simp: skip_while_slice list_all_iff dest: set_takeWhileD)

lemma quoted_match_wf:
  "quoted_match us p is_dash i = Some m \<Longrightarrow> p \<le> i \<Longrightarrow> wf_match us p m"
  using word_slice [of us "i + 1"]
  by (auto simp: quoted_match_def Let_def wf_match_def unit_at_def slice_def split: if_splits)

lemma bare_match_wf:
  assumes "bare_match us p is_dash i = Some m" "p \<le> i" "i \<le> length us"
  shows "wf_match us p m"
proof -
  define ws where "ws = (if unit_at us i 92 then i + 1 else i)"
  define j where "j = skip_while is_word_char us ws"
  have ne: "j \<noteq> ws" and m: "hm_start m = p" "hm_end m = j" "hm_delimiter m = slice us ws j"
    using assms(1) by (auto simp: bare_match_def Let_def ws_def j_def split: if_splits)
  have "ws \<le> length us" using assms by (auto simp: ws_def unit_at_def)
  then have "j \<le> length us" unfolding j_def by (rule skip_while_bounds(2))
  moreover have "ws < j"
    using ne skip_while_bounds(1) [of ws is_word_char us] by (simp add: j_def)
  moreover have "i \<le> ws" by (simp add: ws_def)
  moreover have "list_all is_word_char (slice us ws j)" unfolding j_def by (rule word_slice)
  ultimately show ?thesis
    using m assms(2) by (auto simp: wf_match_def slice_def)
qed

lemma try_match_wf:
  assumes "try_match_at us p = Some m" "p + 2 \<le> length us"
  shows "wf_match us p m"
proof -
  define k where "k = (if unit_at us (p + 2) 45 then p + 3 else p + 2)"
  have "p \<le> k" "k \<le> length us" using assms(2) by (auto simp: k_def unit_at_def)
  then have "p \<le> skip_while (\<lambda>c. c = 32 \<or> c = 9) us k"
      "skip_while (\<lambda>c. c = 32 \<or> c = 9) us k \<le> length us"
    using skip_while_bounds(1) [of k "\<lambda>c. c = 32 \<or> c = 9" us] skip_while_bounds(2) by simp_all
  then show ?thesis
    using assms(1) unfolding try_match_at_def Let_def k_def [symmetric]
    by (auto split: if_splits intro: quoted_match_wf bare_match_wf)
qed

lemma find_heredoc_start_wf:
  "find_heredoc_start us p = Some m \<Longrightarrow> p \<le> hm_start m \<and> wf_match us (hm_start m) m"
proof (induction us p rule: find_heredoc_start.induct)
  case (1 us p)
  show ?case
  proof (cases "p < length us")
    case False
    with 1(2) show ?thesis by (simp add: find_heredoc_start.simps [of us p])
  next
    case True
    show ?thesis
    proof (cases "heredoc_at us p")
      case None
      with 1(2) True have "find_heredoc_start us (p + 1) = Some m"
        by (simp add: find_heredoc_start.simps [of us p])
      with 1(1) [OF True None] show ?thesis by simp
    next
      case (Some m')
      then have "try_match_at us p = Some m" "p + 2 \<le> length us"
        using 1(2) True
        by (auto simp: find_heredoc_start.simps [of us p] heredoc_at_def unit_at_def split: if_splits)
      then have "wf_match us p m" by (rule try_match_wf)
      then show ?thesis by (simp add: wf_match_def)
    qed
  qed
qed

text \<open>The main loop: the scanner is moved up to each match before the match is looked at.\<close>

function extract_loop ::
    "ustring \<Rightarrow> nat \<Rightarrow> nat \<Rightarrow> scanner \<Rightarrow> (ustring \<times> heredoc_info) list \<Rightarrow>
       (ustring \<times> heredoc_info) list" where
  "extract_loop us search_from scan_pos s found =
     (case find_heredoc_start us search_from of
        None \<Rightarrow> found
      | Some m \<Rightarrow>
          let s' = fold scan_step (slice us scan_pos (hm_start m)) s in
          extract_loop us (max (hm_end m) (hm_start m + 1)) (hm_start m) s'
            (case heredoc_of us m s' of
               None \<Rightarrow> found
             | Some h \<Rightarrow> found @ [(u ''heredoc_'' @ decimal (length found), h)]))"
  by pat_completeness auto
termination
  by (relation "measure (\<lambda>(us, from, rest). length us - from)")
    (auto dest!: find_heredoc_start_wf simp: wf_match_def)

declare extract_loop.simps [simp del]

definition extract_heredocs :: "regex_engine \<Rightarrow> ustring \<Rightarrow> extraction" where
  "extract_heredocs rx command =
     (if \<not> contains_sub command (u ''<<'') then \<lparr>processed_command = command, heredocs = []\<rparr>
      else if rx ANSI_C_QUOTING_RE command then \<lparr>processed_command = command, heredocs = []\<rparr>
      else
        (case find_sub command (u ''<<'') of
           Some pos \<Rightarrow>
             if 0 < pos \<and> 96 \<in> set (take pos command)
             then \<lparr>processed_command = command, heredocs = []\<rparr>
             else \<lparr>processed_command = command, heredocs = extract_loop command 0 0 scanner_start []\<rparr>
         | None \<Rightarrow>
             \<lparr>processed_command = command, heredocs = extract_loop command 0 0 scanner_start []\<rparr>))"

definition contains_heredoc :: "ustring \<Rightarrow> bool" where
  "contains_heredoc command = (find_heredoc_start command 0 \<noteq> None)"

subsection \<open>What an extracted here-document is\<close>

lemma closing_line_first:
  "closing_line is_dash d i lines = Some k \<Longrightarrow>
     i \<le> k \<and> k < i + length lines \<and> check_line is_dash (lines ! (k - i)) = d \<and>
     (\<forall>l \<in> set (take (k - i) lines). check_line is_dash l \<noteq> d)"
proof (induction lines arbitrary: i)
  case (Cons line lines)
  show ?case
  proof (cases "check_line is_dash line = d")
    case True
    with Cons.prems show ?thesis by (simp add: Let_def)
  next
    case False
    with Cons.prems have "closing_line is_dash d (i + 1) lines = Some k"
      by (auto simp: Let_def split: if_splits)
    from Cons.IH [OF this] False show ?thesis
      by (auto simp: nth_Cons' take_Cons' Suc_diff_le numeral_eq_Suc)
  qed
qed simp

lemma newline_loop_Some:
  "newline_loop sq dq k cs = Some n \<Longrightarrow> k \<le> n \<and> n - k < length cs \<and> cs ! (n - k) = 10"
proof (induction sq dq k cs rule: newline_loop.induct)
  case (2 sq dq k ch cs)
  have later: "k \<le> n \<and> n - k < length (ch # cs) \<and> (ch # cs) ! (n - k) = 10"
    if "k + 1 \<le> n \<and> n - (k + 1) < length cs \<and> cs ! (n - (k + 1)) = 10"
    using that by (auto simp: nth_Cons')
  have skip: "k \<le> n \<and> n - k < length (ch # cs) \<and> (ch # cs) ! (n - k) = 10"
    if "k + 2 \<le> n \<and> n - (k + 2) < length (tl cs) \<and> tl cs ! (n - (k + 2)) = 10"
    using that by (cases cs) (auto simp: nth_Cons')
  from 2 show ?case using later skip by (auto split: if_splits)
qed simp

lemma find_unquoted_newline_Some:
  assumes "find_unquoted_newline us from = Some off"
  shows "from + off < length us" "us ! (from + off) = 10"
  using newline_loop_Some [OF assms [unfolded find_unquoted_newline_def]] by auto

lemma split_on_ne [simp]: "split_on sep xs \<noteq> []"
  by (induction xs) (auto split: list.splits)

lemma split_on_pieces: "l \<in> set (split_on sep xs) \<Longrightarrow> sep \<notin> set l"
  by (induction xs arbitrary: l) (fastforce split: list.splits if_splits)+

text \<open>The lines before one of a text, each with its newline, that line, and what follows it.\<close>

lemma split_on_lines:
  "k < length (split_on sep xs) \<Longrightarrow>
   \<exists>rest. xs = concat (map (\<lambda>l. l @ [sep]) (take k (split_on sep xs))) @ split_on sep xs ! k @ rest \<and>
     (rest = [] \<or> hd rest = sep)"
proof (induction xs arbitrary: k)
  case (Cons c cs)
  show ?case
  proof (cases "c = sep")
    case True
    with Cons show ?thesis by (cases k) auto
  next
    case False
    obtain l ls where split: "split_on sep cs = l # ls" by (cases "split_on sep cs") auto
    with False Cons.prems Cons.IH [of k] show ?thesis by (cases k) auto
  qed
qed simp

text \<open>
  A here-document of a command: after the operator, with an optional dash, and blanks, a quote or a
  backslash, comes the delimiter, a word; the content is the lines after a later newline, up to the first
  line that is the delimiter.
\<close>

definition wf_heredoc :: "ustring \<Rightarrow> heredoc_info \<Rightarrow> bool" where
  "wf_heredoc command h \<longleftrightarrow>
     hd_delimiter h \<noteq> [] \<and> list_all is_word_char (hd_delimiter h) \<and>
     (\<exists>before lead after lines closing rest.
        command = before @ u ''<<'' @ lead @ hd_delimiter h @ after @ 10 #
          concat (map (\<lambda>l. l @ [10]) lines) @ closing @ rest \<and>
        set lead \<subseteq> {45, 32, 9, 39, 34, 92} \<and> (hd_is_dash h \<longrightarrow> lead \<noteq> [] \<and> hd lead = 45) \<and>
        list_all (\<lambda>l. 10 \<notin> set l \<and> check_line (hd_is_dash h) l \<noteq> hd_delimiter h) lines \<and>
        10 \<notin> set closing \<and> check_line (hd_is_dash h) closing = hd_delimiter h \<and>
        (rest = [] \<or> hd rest = 10) \<and> hd_content h = join_nl lines)"

text \<open>Where the delimiter stands in a match.\<close>

lemma slice_append: "i \<le> j \<Longrightarrow> j \<le> k \<Longrightarrow> slice us i k = slice us i j @ slice us j k"
proof -
  assume "i \<le> j" "j \<le> k"
  then have "k - i = (j - i) + (k - j)" "j - i + i = j" by simp_all
  then show ?thesis by (simp only: slice_def take_add drop_drop)
qed

lemma slice_one: "i < length us \<Longrightarrow> slice us i (i + 1) = [us ! i]"
  by (simp add: slice_def take_Suc_conv_app_nth)

definition opens :: "ustring \<Rightarrow> nat \<Rightarrow> heredoc_match \<Rightarrow> bool" where
  "opens us p m \<longleftrightarrow> (\<exists>lead after. take (hm_end m) us = take p us @ u ''<<'' @ lead @ hm_delimiter m @ after \<and>
     set lead \<subseteq> {45, 32, 9, 39, 34, 92} \<and> (hm_is_dash m \<longrightarrow> lead \<noteq> [] \<and> hd lead = 45))"

lemma opensI:
  assumes k: "k = (if hm_is_dash m then p + 3 else p + 2)" "hm_is_dash m \<longleftrightarrow> unit_at us (p + 2) 45"
    and start: "unit_at us p 60" "unit_at us (p + 1) 60"
    and i: "i = skip_while (\<lambda>c. c = 32 \<or> c = 9) us k"
    and ws: "i \<le> ws" "set (slice us i ws) \<subseteq> {39, 34, 92}"
    and j: "ws \<le> j" "j \<le> hm_end m" "hm_delimiter m = slice us ws j"
  shows "opens us p m"
proof -
  have le: "p + 2 \<le> k" "k \<le> i" using k(1) skip_while_bounds(1) i by auto
  have ops: "slice us p (p + 2) = u ''<<''"
    using slice_append [of p "p + 1" "p + 2" us] slice_one [of p us] slice_one [of "p + 1" us] start
    by (simp add: unit_at_def numeral_2_eq_2)
  have dash: "slice us (p + 2) k = (if hm_is_dash m then [45] else [])"
    using k slice_one [of "p + 2" us] by (auto simp: unit_at_def slice_def numeral_3_eq_3)
  have blank: "set (slice us k i) \<subseteq> {32, 9}"
    unfolding i skip_while_slice by (auto dest: set_takeWhileD)
  let ?lead = "slice us (p + 2) k @ slice us k i @ slice us i ws"
  have "take (hm_end m) us = slice us 0 (hm_end m)" by (simp add: slice_def)
  also have "\<dots> = slice us 0 p @ slice us p (p + 2) @ ?lead @ slice us ws j @ slice us j (hm_end m)"
    using slice_append [of 0 p "hm_end m" us] slice_append [of p "p + 2" "hm_end m" us]
      slice_append [of "p + 2" k "hm_end m" us] slice_append [of k i "hm_end m" us]
      slice_append [of i ws "hm_end m" us] slice_append [of ws j "hm_end m" us] le ws(1) j(1,2) by simp
  finally have "take (hm_end m) us = take p us @ u ''<<'' @ ?lead @ hm_delimiter m @ slice us j (hm_end m)"
    using ops j(3) by (simp add: slice_def)
  moreover have "set ?lead \<subseteq> {45, 32, 9, 39, 34, 92}"
    using dash blank ws(2) by auto
  moreover have "hm_is_dash m \<longrightarrow> ?lead \<noteq> [] \<and> hd ?lead = 45" using dash by simp
  ultimately show ?thesis unfolding opens_def by blast
qed

lemma heredoc_at_opens:
  assumes "heredoc_at us p = Some m" "p < length us"
  shows "opens us p m"
proof -
  define is_dash where "is_dash = unit_at us (p + 2) 45"
  define k where "k = (if is_dash then p + 3 else p + 2)"
  define i where "i = skip_while (\<lambda>c. c = 32 \<or> c = 9) us k"
  from assms have start: "unit_at us p 60" "unit_at us (p + 1) 60"
    and matched: "(if unit_at us i 39 \<or> unit_at us i 34 then quoted_match us p is_dash i
      else bare_match us p is_dash i) = Some m"
    by (auto simp: heredoc_at_def unit_at_def try_match_at_def Let_def i_def k_def is_dash_def split: if_splits)
  show ?thesis
  proof (cases "unit_at us i 39 \<or> unit_at us i 34")
    case True
    define j where "j = skip_while is_word_char us (i + 1)"
    from matched True have m: "hm_end m = j + 1" "hm_is_dash m = is_dash" "hm_delimiter m = slice us (i + 1) j"
      by (auto simp: quoted_match_def Let_def j_def split: if_splits)
    have "set (slice us i (i + 1)) \<subseteq> {39, 34, 92}"
      using True slice_one [of i us] by (auto simp: unit_at_def)
    with m start show ?thesis
      by (intro opensI [where k = k and i = i and ws = "i + 1" and j = j])
        (simp_all add: k_def is_dash_def i_def j_def skip_while_bounds(1))
  next
    case False
    define ws where "ws = (if unit_at us i 92 then i + 1 else i)"
    define j where "j = skip_while is_word_char us ws"
    from matched False have m: "hm_end m = j" "hm_is_dash m = is_dash" "hm_delimiter m = slice us ws j"
      by (auto simp: bare_match_def Let_def ws_def j_def split: if_splits)
    have "i \<le> ws" "set (slice us i ws) \<subseteq> {39, 34, 92}"
      using slice_one [of i us] by (auto simp: ws_def unit_at_def slice_def)
    with m start show ?thesis
      by (intro opensI [where k = k and i = i and ws = ws and j = j])
        (simp_all add: k_def is_dash_def i_def j_def skip_while_bounds(1))
  qed
qed

lemma find_heredoc_start_opens: "find_heredoc_start us p = Some m \<Longrightarrow> opens us (hm_start m) m"
proof (induction us p rule: find_heredoc_start.induct)
  case (1 us p)
  show ?case
  proof (cases "p < length us \<and> heredoc_at us p \<noteq> None")
    case True
    with 1(2) have "heredoc_at us p = Some m" by (auto simp: find_heredoc_start.simps [of us p])
    moreover have "hm_start m = p"
      using find_heredoc_start_wf [OF 1(2)] try_match_wf [of us p m] calculation True
      by (auto simp: heredoc_at_def unit_at_def wf_match_def split: if_splits)
    ultimately show ?thesis using heredoc_at_opens True by blast
  next
    case False
    with 1 show ?thesis by (auto simp: find_heredoc_start.simps [of us p] split: if_splits)
  qed
qed

lemma heredoc_of_wf:
  assumes "heredoc_of us m s = Some h" "wf_match us p m" "opens us p m"
  shows "wf_heredoc us h"
proof -
  from assms(1) obtain off k where off: "find_unquoted_newline us (hm_end m) = Some off"
    and k: "closing_line (hm_is_dash m) (hm_delimiter m) 0 (split_on 10 (drop (hm_end m + off + 1) us)) = Some k"
    and h: "hd_delimiter h = hm_delimiter m"
      "hd_content h = join_nl (take k (split_on 10 (drop (hm_end m + off + 1) us)))"
      "hd_is_dash h = hm_is_dash m"
    by (auto simp: heredoc_of_def Let_def split: if_splits option.splits)
  define n where "n = hm_end m + off"
  define lines where "lines = split_on 10 (drop (n + 1) us)"
  note nl = find_unquoted_newline_Some [OF off, folded n_def]
  note first = closing_line_first [OF k [folded n_def, folded lines_def]]
  from first obtain rest where body: "drop (n + 1) us = concat (map (\<lambda>l. l @ [10]) (take k lines)) @ lines ! k @ rest"
    "rest = [] \<or> hd rest = 10"
    using split_on_lines [of k 10 "drop (n + 1) us"] unfolding lines_def by auto
  from assms(3) obtain lead after where o: "take (hm_end m) us = take p us @ u ''<<'' @ lead @ hm_delimiter m @ after"
    "set lead \<subseteq> {45, 32, 9, 39, 34, 92}" "hm_is_dash m \<longrightarrow> lead \<noteq> [] \<and> hd lead = 45"
    unfolding opens_def by blast
  have "us = take n us @ us ! n # drop (n + 1) us" using nl(1) by (simp add: id_take_nth_drop)
  also have "take n us = take (hm_end m) us @ slice us (hm_end m) n"
    by (simp add: n_def slice_def take_add)
  finally have split: "us = take p us @ u ''<<'' @ lead @ hm_delimiter m @ (after @ slice us (hm_end m) n) @ 10 #
      concat (map (\<lambda>l. l @ [10]) (take k lines)) @ lines ! k @ rest"
    using o(1) body(1) nl(2) by simp
  have plain: "10 \<notin> set l" if "l \<in> set lines" for l
    using that unfolding lines_def by (rule split_on_pieces)
  have "list_all (\<lambda>l. 10 \<notin> set l \<and> check_line (hm_is_dash m) l \<noteq> hm_delimiter m) (take k lines)"
    using first plain by (auto simp: list_all_iff dest: in_set_takeD)
  moreover have "10 \<notin> set (lines ! k)" "check_line (hm_is_dash m) (lines ! k) = hm_delimiter m"
    using first plain by auto
  moreover have "hm_delimiter m \<noteq> []" "list_all is_word_char (hm_delimiter m)"
    using assms(2) by (simp_all add: wf_match_def)
  ultimately show ?thesis
    unfolding wf_heredoc_def h n_def [symmetric] lines_def [symmetric] using split o(2,3) body(2) by blast
qed

lemma extract_loop_wf:
  "(\<forall>e \<in> set found. wf_heredoc us (snd e)) \<Longrightarrow>
   \<forall>e \<in> set (extract_loop us from pos s found). wf_heredoc us (snd e)"
proof (induction us "from" pos s found rule: extract_loop.induct)
  case (1 us "from" pos s found)
  show ?case
  proof (cases "find_heredoc_start us from")
    case None
    with 1(2) show ?thesis by (simp add: extract_loop.simps [of us "from"])
  next
    case (Some m)
    note wf = find_heredoc_start_wf [OF Some, THEN conjunct2] find_heredoc_start_opens [OF Some]
    define s' where "s' = fold scan_step (slice us pos (hm_start m)) s"
    define found' where "found' = (case heredoc_of us m s' of None \<Rightarrow> found
      | Some h \<Rightarrow> found @ [(u ''heredoc_'' @ decimal (length found), h)])"
    have found': "\<forall>e \<in> set found'. wf_heredoc us (snd e)"
      using 1(2) heredoc_of_wf [OF _ wf, of s'] by (auto simp: found'_def split: option.splits)
    have run: "extract_loop us from pos s found =
        extract_loop us (max (hm_end m) (hm_start m + 1)) (hm_start m) s' found'"
      by (subst extract_loop.simps) (simp add: Some s'_def found'_def Let_def)
    show ?thesis
      unfolding run
      by (rule 1(1) [OF Some refl, folded s'_def, folded found'_def, OF found'])
  qed
qed

lemma extract_heredocs_wf:
  "e \<in> set (heredocs (extract_heredocs rx command)) \<Longrightarrow> wf_heredoc command (snd e)"
  using extract_loop_wf [of "[]" command 0 0 scanner_start]
  by (auto simp: extract_heredocs_def split: if_splits option.splits)

end
