(* ===== verification/Bash_Security.thy ===== *)
theory Bash_Security
  imports Bash_Parser_Props Bash_Semantics Bash_Environment_Props Bash_Blacklist Bash_Heredoc
begin

section \<open>The security analysis of a command\<close>

text \<open>
  \<open>run_pre_checks\<close> and \<open>parse_for_security\<close> of \<open>crates/zk-tools/src/bash/security.rs\<close>, and what the
  answer \<open>Simple\<close> guarantees of the commands it returns.
\<close>

definition CONTROL_CHAR_RE :: ustring where
  "CONTROL_CHAR_RE = raw ''[%x00-%x08%x0B%x0C%x0E-%x1F%x7F]''"

definition UNICODE_WHITESPACE_RE :: ustring where
  "UNICODE_WHITESPACE_RE =
     raw ''[%x{A0}%x{1680}%x{2000}-%x{200A}%x{2028}%x{2029}%x{202F}%x{205F}%x{3000}%x{FEFF}]''"

definition ZSH_TILDE_BRACKET_RE :: ustring where
  "ZSH_TILDE_BRACKET_RE = raw ''~%[''"

definition ZSH_EQUALS_EXPANSION_RE :: ustring where
  "ZSH_EQUALS_EXPANSION_RE = raw ''(?:^|[ %t%n%x0B%x0C%r;&|])=[a-zA-Z]''"

definition BRACE_WITH_QUOTE_RE :: ustring where
  \<open>BRACE_WITH_QUOTE_RE = raw ''%{[^}]*,[^}]*['"]%}''\<close>

definition run_pre_checks :: "regex_engine \<Rightarrow> ustring \<Rightarrow> ustring option" where
  "run_pre_checks rx cmd =
     (if rx CONTROL_CHAR_RE cmd then Some (u ''Command contains control characters'')
      else if rx UNICODE_WHITESPACE_RE cmd then Some (u ''Command contains Unicode whitespace'')
      else if rx ZSH_TILDE_BRACKET_RE cmd then Some (u ''Command contains zsh ~[...] dynamic directory'')
      else if rx ZSH_EQUALS_EXPANSION_RE cmd then Some (u ''Command contains zsh =cmd expansion'')
      else if rx BRACE_WITH_QUOTE_RE cmd then Some (u ''Command contains brace-quote confusion'')
      else None)"

text \<open>The first word before the first \<open><<\<close>.\<close>

definition command_before_heredoc :: "ustring \<Rightarrow> ustring" where
  "command_before_heredoc cmd =
     (case find_sub cmd (u ''<<'') of
        Some pos \<Rightarrow>
          if 0 < pos then
            (case java_split_ws (java_trim (take pos cmd)) of [] \<Rightarrow> [] | w # _ \<Rightarrow> w)
          else []
      | None \<Rightarrow> [])"

definition heredoc_verdict :: "regex_engine \<Rightarrow> ustring \<Rightarrow> parse_for_security_result option" where
  "heredoc_verdict rx cmd =
     (if contains_heredoc cmd then
        first_some (\<lambda>_.
          if is_in (command_before_heredoc cmd) [''cat'', ''echo'', ''printf''] then None
          else Some (TooComplex
                 (u ''Heredoc with '' @ command_before_heredoc cmd @ u '' requires permission'')
                 (u ''heredoc-security'')))
          (heredocs (extract_heredocs rx cmd))
      else None)"

definition parse_for_security ::
    "regex_engine \<Rightarrow> blacklist \<Rightarrow> (nat \<Rightarrow> bool) \<Rightarrow> ustring option \<Rightarrow> parse_for_security_result" where
  "parse_for_security rx b expired cmd =
     (case cmd of
        None \<Rightarrow> Simple []
      | Some c \<Rightarrow>
          if java_is_blank c then Simple []
          else if MAX_COMMAND_LENGTH < length c then ParseUnavailable
          else
            let block = check_command rx b c in
            if br_level block = AbsoluteDeny then
              TooComplex (case br_reason block of None \<Rightarrow> [] | Some why \<Rightarrow> why) (u ''command-blacklist-deny'')
            else
              (case run_pre_checks rx c of
                 Some why \<Rightarrow> TooComplex why (u ''pre-check'')
               | None \<Rightarrow>
                   (case parse expired c of
                      None \<Rightarrow> ParseUnavailable
                    | Some root \<Rightarrow>
                        (case heredoc_verdict rx c of
                           Some r \<Rightarrow> r
                         | None \<Rightarrow> walk_program rx root))))"

subsection \<open>What \<open>Simple\<close> means\<close>

lemma walk_program_Simple:
  "walk_program rx root = Simple cs \<longleftrightarrow>
     refused_program root = None \<and> cs = leaves_program root \<and>
     (\<forall>c \<in> set cs. check_semantics rx c = None)"
proof -
  let ?r = "collect_program root ([], Map.empty)"
  have c: "map_ok fst ?r =
      (case refused_program root of Some e \<Rightarrow> Inl e | None \<Rightarrow> Inr (leaves_program root))"
    using collect_leaves(1) [of root "([], Map.empty)"] by (simp split: option.splits)
  show ?thesis
  proof (cases ?r)
    case (Inl e)
    with c show ?thesis by (auto simp: walk_program_def split: option.splits)
  next
    case (Inr s)
    with c have "refused_program root = None" "fst s = leaves_program root"
      by (auto split: option.splits)
    with Inr show ?thesis
      by (cases s)
        (auto simp: walk_program_def first_some_None split: option.splits
          dest!: first_some_Some)
  qed
qed

lemma heredoc_verdict_not_Simple: "heredoc_verdict rx c = Some r \<Longrightarrow> r \<noteq> Simple cs"
  by (auto simp: heredoc_verdict_def dest!: first_some_Some split: if_splits)

lemma parse_for_security_Simple:
  assumes "parse_for_security rx b expired (Some c) = Simple cs" "\<not> java_is_blank c"
  obtains root where "parse expired c = Some root" "walk_program rx root = Simple cs"
    "br_level (check_command rx b c) \<noteq> AbsoluteDeny" "run_pre_checks rx c = None"
    "heredoc_verdict rx c = None" "length c \<le> MAX_COMMAND_LENGTH"
  using assms
  by (auto simp: parse_for_security_def Let_def dest: heredoc_verdict_not_Simple
      split: if_splits option.splits)

lemma check_semantics_stripped:
  assumes "check_semantics rx c = None" "sc_argv c \<noteq> []" "strip_wrappers (sc_argv c) \<noteq> []"
  shows "check_name (strip_wrappers (sc_argv c) ! 0) = None"
    and "check_subscript_eval rx (strip_wrappers (sc_argv c)) = None"
    and "check_arithmetic_compare rx (strip_wrappers (sc_argv c)) = None"
  using assms by (simp_all add: check_semantics_def Let_def)

subsection \<open>Wrappers\<close>

text \<open>What is left of a command is the end of its argument list, never empty and never a wrapper that could be stripped.\<close>

lemma strip_wrappers_suffix: "\<exists>k. strip_wrappers argv = drop k argv"
proof (induction argv rule: strip_wrappers.induct)
  case (1 argv)
  show ?case
  proof (cases argv)
    case Nil
    then show ?thesis by (simp add: strip_wrappers.simps)
  next
    case (Cons cmd args)
    obtain j where j: "strip_loop cmd False [] args = drop j args"
      using strip_loop_suffix by blast
    show ?thesis
    proof (cases "keep_wrapper cmd args \<or> drop j args = []")
      case True
      then have "strip_wrappers argv = argv"
        using Cons j by (auto simp: strip_wrappers.simps [of "cmd # args"] Let_def)
      then show ?thesis by (metis drop0)
    next
      case False
      then have s: "strip_wrappers argv = strip_wrappers (drop j args)"
        using Cons j by (simp add: strip_wrappers.simps [of "cmd # args"] Let_def)
      obtain k where "strip_wrappers (drop j args) = drop k (drop j args)"
        using 1 [OF Cons, of "drop j args"] False j by auto
      then have "strip_wrappers argv = drop (Suc (k + j)) argv"
        using s Cons by simp
      then show ?thesis by blast
    qed
  qed
qed

lemma strip_wrappers_ne: "argv \<noteq> [] \<Longrightarrow> strip_wrappers argv \<noteq> []"
proof (induction argv rule: strip_wrappers.induct)
  case (1 argv)
  then show ?case
    by (cases argv; subst strip_wrappers.simps) (auto simp: Let_def)
qed

text \<open>No further layer can be taken off the result.\<close>

definition bare :: "ustring list \<Rightarrow> bool" where
  "bare argv \<longleftrightarrow>
     (case argv of [] \<Rightarrow> True | cmd # args \<Rightarrow> keep_wrapper cmd args \<or> strip_loop cmd False [] args = [])"

lemma strip_wrappers_bare: "bare (strip_wrappers argv)"
proof (induction argv rule: strip_wrappers.induct)
  case (1 argv)
  then show ?case
    by (cases argv; subst strip_wrappers.simps) (auto simp: Let_def bare_def)
qed

lemma bare_strip: "bare argv \<Longrightarrow> strip_wrappers argv = argv"
  by (cases argv; subst strip_wrappers.simps) (auto simp: bare_def Let_def)

end
