(* ===== verification/Bash_Parser_Eval.thy ===== *)
theory Bash_Parser_Eval
  imports Bash_Parser Bash_Lexer_Props
begin

section \<open>Running the parser on a concrete source\<close>

text \<open>
  \<open>parser_eval\<close> unfolds the methods where they are applied to a state, and \<open>parser_congs\<close> keeps the
  simplifier out of the parts of a method that have not been reached yet. A source is evaluated by
  \<open>simp add: parser_eval lexer_eval cong: parser_congs\<close>.
\<close>

named_theorems parser_eval \<open>equations that run the parser on a concrete source\<close>
named_theorems parser_congs \<open>congruences that evaluate a method from left to right\<close>

lemma bnd_weak [parser_congs]: "s = s' \<Longrightarrow> bnd m f s = bnd m f s'" by simp

lemma loop_weak [parser_congs]: "a = a' \<Longrightarrow> s = s' \<Longrightarrow> loop c b a s = loop c b a' s'" by simp

lemma while_weak [parser_congs]:
  "n = n' \<Longrightarrow> a = a' \<Longrightarrow> s = s' \<Longrightarrow> while_pm n c b a s = while_pm n' c b a' s'" by simp

lemma with_depth_weak [parser_congs]: "s = s' \<Longrightarrow> with_depth m s = with_depth m s'" by simp

lemma gets_weak [parser_congs]: "s = s' \<Longrightarrow> gets m s = gets m s'" by simp

lemma or_try_weak [parser_congs]:
  "r = r' \<Longrightarrow> s = s' \<Longrightarrow> or_try t m f r s = or_try t m f r' s'" by simp

lemmas [parser_congs] = let_weak_cong

lemma or_try_run [parser_eval]:
  "or_try test m flag r s =
     (if fst r = None \<and> test s then bnd m (\<lambda>n. ret (Some n, snd r \<or> flag)) s else ret r s)"
  by (simp add: or_try_def gets_def bnd_def)

lemma parse_command_run [parser_eval]:
  "parse_command n s =
     (if n = 0 then fail FuelExhausted s
      else bnd check_budget (\<lambda>_. with_depth (parse_command_inner (parse_command (n - 1)))) s)"
  by (subst parse_command.simps) simp

lemmas [parser_eval] =
  ret_def fail_def bnd_def gets_def while_pm.simps tokens_left_def work_left_def loop_def
  parser_new_def check_budget_def enter_def leave_def with_depth_def [THEN fun_cong] consume_def
  cur_op_def cur_word_def cur_eof_def cur_type_def cur_text_def consume_op_def [THEN fun_cong]
  consume_keyword_def [THEN fun_cong] skip_newlines_def [THEN fun_cong]
  is_statement_terminator_def is_separator_def is_redirect_operator_def REDIRECT_OPERATORS_def
  is_word_token_def is_fd_redirect_start_def is_operator_token_def is_var_assignment_def
  find_char_index_def cur_start_byte_def cur_start_index_def raw_to_byte_def
  span_here_def [THEN fun_cong] consume_word_def [THEN fun_cong]
  parse_var_assignment_def [THEN fun_cong] digits_value_def parse_fd_def
  parse_redirect_def [THEN fun_cong] parse_too_complex_def [THEN fun_cong]

lemmas [parser_eval] =
  parse_leading_assignments_def [THEN fun_cong] parse_redirects_def [THEN fun_cong]
  parse_command_words_def [THEN fun_cong] parse_simple_command_def [THEN fun_cong] restore_to_def
  parse_simple_command_or_function_def [THEN fun_cong] parse_pipeline_def [THEN fun_cong]
  parse_and_or_def [THEN fun_cong] parse_statement_inner_def [THEN fun_cong]
  parse_statement_def [THEN fun_cong] consume_separators_def [THEN fun_cong]
  statement_loop_def [THEN fun_cong] parse_statements_def [THEN fun_cong] is_terminator_def
  parse_inline_program_def [THEN fun_cong] wrap_single_statement_def
  parse_if_tail_def [THEN fun_cong] parse_if_def [THEN fun_cong] parse_select_def [THEN fun_cong]
  parse_while_def [THEN fun_cong] parse_for_words_def [THEN fun_cong] parse_for_def [THEN fun_cong]
  parse_case_patterns_def [THEN fun_cong] parse_case_item_def [THEN fun_cong]
  parse_case_def [THEN fun_cong] parse_function_def [THEN fun_cong]
  parse_declaration_def [THEN fun_cong] parse_subshell_def [THEN fun_cong]
  parse_brace_group_def [THEN fun_cong] parse_test_command_def [THEN fun_cong]
  parse_negated_def [THEN fun_cong] wrap_with_redirects_def [THEN fun_cong]
  some_compound_def [THEN fun_cong] parse_keyword_command_def
  parse_command_inner_def [THEN fun_cong] parse_program_def [THEN fun_cong] run_parser_def
  parse_def MAX_NODES_def MAX_DEPTH_def MAX_COMMAND_LENGTH_def is_op_def is_word_def is_eof_def
  Span_new_def node_end_byte_def node_start_byte_def restore_lex_def save_lex_def DECL_KEYWORDS_def

end
