(* ===== verification/Bash_Security_Eval.thy ===== *)
theory Bash_Security_Eval
  imports Bash_Security Bash_Parser_Eval
begin

section \<open>Running the security analysis on a concrete command\<close>

text \<open>
  \<open>security_eval\<close> evaluates \<open>parse_for_security\<close> on a command when no regular expression matches it;
  \<open>argvs\<close> projects the answer to the argument lists of its commands.
\<close>

named_theorems security_eval \<open>equations that run the security analysis on a concrete command\<close>

definition argvs :: "parse_for_security_result \<Rightarrow> ustring list list option" where
  "argvs r = (case r of Simple cs \<Rightarrow> Some (map sc_argv cs) | _ \<Rightarrow> None)"

lemma first_match_nothing [security_eval]: "first_match (\<lambda>_ _. False) l s rs = None"
  by (simp add: first_match_None hits_def)

lemma check_command_nothing [security_eval]: "br_level (check_command (\<lambda>_ _. False) b c) = Allowed"
  by (simp add: check_command_def Let_def or_block_def allowed_def first_match_nothing)

lemmas [security_eval] =
  argvs_def parse_for_security_def Let_def java_is_blank_def is_java_whitespace_def
  run_pre_checks_def heredoc_verdict_def contains_heredoc_def find_heredoc_start.simps
  heredoc_at_def unit_at_def walk_program_def check_semantics_def strip_wrappers_run
  keep_wrapper_def check_name_def check_subscript_eval_def check_arithmetic_compare_def
  any_arg_def check_jq_def push_command_def is_in_def WRAPPER_COMMANDS_def EVAL_LIKE_BUILTINS_def
  ZSH_DANGEROUS_BUILTINS_def SHELL_KEYWORDS_def VAR_PLACEHOLDER_def CMDSUB_PLACEHOLDER_def
  contains_sub_def subscripted_def ARITHMETIC_COMPARE_OPS_def ends_with_def

text \<open>The same for the analysis of environment references.\<close>

lemmas environment_eval =
  java_is_blank_def is_java_whitespace_def Let_def MAX_COMMAND_LENGTH_def analyse_simple_def
  scan_words_env_def scan_in_def scan_word_env_def env_seq_def is_dynamic_def contains_sub_def
  merge_status_def strip_shell_quotes_def is_in_def EVAL_LIKE_BUILTINS_def empty_acc_def

end
