(* ===== verification/Task_Model.thy ===== *)
theory Task_Model
  imports Db_Base Iso_Time Java_Str
begin

section \<open>Tasks, runs and their tables\<close>

text \<open>
  The types of \<open>crates/zk-db/src/generated/task_runtime_v4.rs\<close>, \<open>task_runtime.rs\<close>, \<open>task_budget.rs\<close> and
  \<open>runtime_ledger.rs\<close>, and the tables of \<open>migrations/V2__init_session_message.sql\<close> they write.

  A table is the list of its rows; a column no modelled operation reads (creation and update times,
  labels, the floating-point projections of a cost) is left out. A status column is the enumeration
  its check admits. An \<open>INSERT\<close> or \<open>UPDATE\<close> fails with the message of the trigger, check or index it
  violates. Integers are those of the program (\<open>i64\<close>), with its saturating arithmetic; the sums
  inside SQL statements are exact, which they are in SQLite below 64 bits.
\<close>

subsection \<open>Saturating arithmetic\<close>

definition I64_MAX :: int where "I64_MAX = 2 ^ 63 - 1"
definition I64_MIN :: int where "I64_MIN = - (2 ^ 63)"

definition saturate :: "int \<Rightarrow> int" where
  "saturate x = max I64_MIN (min I64_MAX x)"

definition sat_add :: "int \<Rightarrow> int \<Rightarrow> int" where
  "sat_add a b = saturate (a + b)"

definition sat_sub :: "int \<Rightarrow> int \<Rightarrow> int" where
  "sat_sub a b = saturate (a - b)"

subsection \<open>Enumerations\<close>

datatype task_status =
    TaskQueued | TaskRunning | TaskWaitingDependencies | TaskWaitingInteraction | TaskCancelling
  | TaskNeedsAttention | TaskSucceeded | TaskPartial | TaskFailed | TaskCancelled

definition task_is_terminal :: "task_status \<Rightarrow> bool" where
  "task_is_terminal s = (s \<in> {TaskSucceeded, TaskPartial, TaskFailed, TaskCancelled})"

datatype run_status =
    RunQueued | RunRunning | RunWaitingDependencies | RunWaitingInteraction | RunCancelling
  | RunCompleted | RunFailed | RunCancelled | RunInterrupted

definition run_is_terminal :: "run_status \<Rightarrow> bool" where
  "run_is_terminal s = (s \<in> {RunCompleted, RunFailed, RunCancelled, RunInterrupted})"

datatype result_status = CompleteResult | PartialResult | ErrorResult | CancelledResult

definition result_as_db :: "result_status \<Rightarrow> ustring" where
  "result_as_db s = (case s of
     CompleteResult \<Rightarrow> u ''complete'' | PartialResult \<Rightarrow> u ''partial''
   | ErrorResult \<Rightarrow> u ''error'' | CancelledResult \<Rightarrow> u ''cancelled'')"

datatype cleanup_status = CleanupNotRequired | CleanupPending | CleanupConfirmed | CleanupUnconfirmed

datatype verification_status =
  NotRequested | VerificationPending | Passed | VerificationFailed | Stale | Blocked

datatype exit_reason =
    ModelFinished | Timeout | MaxTurns | BudgetExhausted | ProviderError | ToolError | UserCancelled
  | ParentCancelled | ServiceRestart | InternalError

definition exit_as_db :: "exit_reason \<Rightarrow> ustring" where
  "exit_as_db r = (case r of
     ModelFinished \<Rightarrow> u ''modelFinished'' | Timeout \<Rightarrow> u ''timeout'' | MaxTurns \<Rightarrow> u ''maxTurns''
   | BudgetExhausted \<Rightarrow> u ''budgetExhausted'' | ProviderError \<Rightarrow> u ''providerError''
   | ToolError \<Rightarrow> u ''toolError'' | UserCancelled \<Rightarrow> u ''userCancelled''
   | ParentCancelled \<Rightarrow> u ''parentCancelled'' | ServiceRestart \<Rightarrow> u ''serviceRestart''
   | InternalError \<Rightarrow> u ''internalError'')"

definition EXIT_REASONS :: "exit_reason list" where
  "EXIT_REASONS = [ModelFinished, Timeout, MaxTurns, BudgetExhausted, ProviderError, ToolError, UserCancelled,
     ParentCancelled, ServiceRestart, InternalError]"

datatype cas_outcome = Applied | VersionConflict | InvalidTransition | NotFound

datatype reservation_status = ReservationActive | ReservationSettled | ReservationIncomplete

datatype call_status = CallStarted | CallCompleted | CallFailed | CallCancelled

datatype invocation_status =
    InvPreparing | InvQueued | InvRunning | InvSucceeded | InvFailed | InvCancelled | InvInterrupted

definition invocation_is_terminal :: "invocation_status \<Rightarrow> bool" where
  "invocation_is_terminal s = (s \<in> {InvSucceeded, InvFailed, InvCancelled, InvInterrupted})"

datatype resource_status = ResourceAllocated | ResourceStopping | ResourceReleased | ResourceUnconfirmed

datatype inbox_status = InboxQueued | InboxDelivered | InboxConsumed | InboxRejected

datatype content_retention = Persistent | Ephemeral

definition retention_as_str :: "content_retention \<Rightarrow> ustring" where
  "retention_as_str r = (case r of Persistent \<Rightarrow> u ''persistent'' | Ephemeral \<Rightarrow> u ''ephemeral'')"

subsection \<open>Rows\<close>

record task_row =
  tk_id :: ustring
  tk_session :: ustring
  tk_parent :: "ustring option"
  tk_root :: ustring
  tk_current_run :: "ustring option"
  tk_creator_run :: "ustring option"
  tk_tool_use :: "ustring option"
  tk_ordinal :: int
  tk_description :: ustring
  tk_prompt :: "ustring option"
  tk_type :: ustring
  tk_status :: task_status
  tk_reason :: "ustring option"
  tk_plan :: "ustring option"
  tk_display :: "ustring option"
  tk_config :: ustring
  tk_lifecycle :: ustring
  tk_cleanup :: cleanup_status
  tk_verification :: verification_status
  tk_token_limit :: "int option"
  tk_cost_limit :: "int option"
  tk_deadline :: "int option"
  tk_reserved_tokens :: int
  tk_reserved_cost :: int
  tk_consumed_tokens :: int
  tk_consumed_cost :: int
  tk_budget_version :: int
  tk_usage_complete :: bool
  tk_version :: int
  tk_terminal_at :: "ustring option"

record envelope_row =
  rn_id :: ustring
  rn_session :: ustring
  rn_task :: ustring
  rn_attempt :: int
  rn_epoch :: int
  rn_parent :: "ustring option"
  rn_status :: run_status
  rn_version :: int
  rn_agent_type :: ustring
  rn_model :: ustring
  rn_input :: int
  rn_output :: int
  rn_cache_read :: int
  rn_cache_create :: int
  rn_cost :: int
  rn_total :: int
  rn_usage_complete :: bool
  rn_exit :: "exit_reason option"
  rn_requested :: "exit_reason option"
  rn_waiting :: "ustring option"
  rn_abort :: "exit_reason option"
  rn_error :: "ustring option"
  rn_cleanup :: cleanup_status
  rn_verification :: verification_status
  rn_terminal_at :: "ustring option"

record call_row =
  lc_id :: ustring
  lc_task :: ustring
  lc_run :: ustring
  lc_provider :: ustring
  lc_model :: ustring
  lc_route :: "ustring option"
  lc_request_id :: "ustring option"
  lc_status :: call_status
  lc_reserved_input :: int
  lc_reserved_output :: int
  lc_reserved_cost :: int
  lc_input :: "int option"
  lc_output :: "int option"
  lc_cache_read :: "int option"
  lc_cache_create :: "int option"
  lc_cost :: "int option"
  lc_usage_complete :: bool
  lc_error :: "ustring option"
  lc_finished_at :: "ustring option"

record reservation_row =
  rv_child :: ustring
  rv_root :: ustring
  rv_tokens :: "int option"
  rv_cost :: "int option"
  rv_used_tokens :: "int option"
  rv_used_cost :: "int option"
  rv_usage_complete :: bool
  rv_status :: reservation_status
  rv_version :: int
  rv_settled_at :: "ustring option"

record result_row =
  rs_id :: ustring
  rs_task :: ustring
  rs_run :: ustring
  rs_version :: int
  rs_status :: result_status
  rs_inline :: "ustring option"
  rs_blob :: "ustring option"
  rs_byte_len :: int
  rs_sha :: "ustring option"
  rs_media :: ustring
  rs_error :: "ustring option"
  rs_message :: "ustring option"
  rs_created_at :: ustring
  rs_ref :: "ustring option"

record conversation_row =
  se_id :: ustring
  se_kind :: ustring
  se_parent_session :: "ustring option"
  se_parent_task :: "ustring option"
  se_model :: ustring
  se_working_dir :: ustring
  se_retention :: ustring
  se_input :: int
  se_output :: int
  se_cache_read :: int
  se_cache_create :: int

record message_row =
  ms_id :: ustring
  ms_session :: ustring
  ms_task :: "ustring option"
  ms_run :: "ustring option"
  ms_role :: ustring
  ms_seq :: int
  ms_content :: ustring
  ms_origin :: ustring
  ms_source :: "ustring option"

record event_row =
  ev_run :: ustring
  ev_seq :: int
  ev_type :: ustring
  ev_data :: ustring

record inbox_row =
  ib_id :: ustring
  ib_task :: ustring
  ib_target_run :: "ustring option"
  ib_sender :: "ustring option"
  ib_content :: ustring
  ib_status :: inbox_status
  ib_reason :: "ustring option"
  ib_generation :: int
  ib_created :: ustring
  ib_delivered :: "ustring option"
  ib_consumed :: "ustring option"

record dependency_row =
  dp_parent :: ustring
  dp_child :: ustring
  dp_lifecycle :: ustring
  dp_required :: bool
  dp_consumed :: "int option"

record receipt_row =
  rc_id :: ustring
  rc_consumer :: ustring
  rc_producer :: ustring
  rc_version :: int
  rc_message :: ustring
  rc_sha :: "ustring option"
  rc_created :: ustring

record invocation_row =
  iv_id :: ustring
  iv_kind :: ustring
  iv_task :: ustring
  iv_run :: ustring
  iv_use :: ustring
  iv_name :: ustring
  iv_status :: invocation_status
  iv_input :: "ustring option"
  iv_output :: "ustring option"
  iv_error :: "ustring option"
  iv_class :: ustring
  iv_cleanup :: cleanup_status
  iv_directory :: "int option"
  iv_connection :: "int option"
  iv_version :: int
  iv_started :: "ustring option"
  iv_terminal :: "ustring option"

record postprocessing_row =
  pp_invocation :: ustring
  pp_task :: ustring
  pp_run :: ustring
  pp_message :: ustring
  pp_payload :: ustring
  pp_pending :: bool
  pp_version :: int

record resource_row =
  re_id :: ustring
  re_task :: ustring
  re_run :: ustring
  re_invocation :: "ustring option"
  re_kind :: ustring
  re_external :: "ustring option"
  re_status :: resource_status
  re_metadata :: ustring
  re_version :: int
  re_released :: "ustring option"

text \<open>\<open>db_blobs\<close> holds the content-addressed bodies of large results.\<close>

record task_db =
  db_tasks :: "task_row list"
  db_runs :: "envelope_row list"
  db_calls :: "call_row list"
  db_reservations :: "reservation_row list"
  db_results :: "result_row list"
  db_blobs :: "(ustring \<times> ustring) list"
  db_sessions :: "conversation_row list"
  db_messages :: "message_row list"
  db_events :: "event_row list"
  db_inbox :: "inbox_row list"
  db_dependencies :: "dependency_row list"
  db_merge_locks :: "ustring list"
  db_receipts :: "receipt_row list"
  db_invocations :: "invocation_row list"
  db_postprocessing :: "postprocessing_row list"
  db_resources :: "resource_row list"

end
