(* ===== verification/Task_Store.thy ===== *)
theory Task_Store
  imports Task_Model
begin

section \<open>Reading and writing the tables\<close>

text \<open>
  Statements on the tables of \<open>Task_Model\<close> with the checks, unique indexes and triggers of
  \<open>migrations/V2__init_session_message.sql\<close>; the content codecs of \<open>content.rs\<close>; and the event log of
  \<open>run.rs\<close>. A write returns the changed tables or the error of the statement; a transaction returns
  them only when every statement succeeds.
\<close>

subsection \<open>Rows by key\<close>

definition task_of :: "task_db \<Rightarrow> ustring \<Rightarrow> task_row option" where
  "task_of db i = find (\<lambda>t. tk_id t = i) (db_tasks db)"

definition run_of :: "task_db \<Rightarrow> ustring \<Rightarrow> envelope_row option" where
  "run_of db i = find (\<lambda>r. rn_id r = i) (db_runs db)"

definition session_of :: "task_db \<Rightarrow> ustring \<Rightarrow> conversation_row option" where
  "session_of db i = find (\<lambda>s. se_id s = i) (db_sessions db)"

text \<open>\<open>query_row\<close> without \<open>optional\<close>.\<close>

definition one_row :: "'a option \<Rightarrow> db_error + 'a" where
  "one_row r = (case r of None \<Rightarrow> Inl (Sqlite (u ''Query returned no rows'')) | Some x \<Rightarrow> Inr x)"

text \<open>\<open>if c { return Err(e) }\<close>.\<close>

definition reject :: "bool \<Rightarrow> 'e \<Rightarrow> 'e + unit" where
  "reject c e = (if c then Inl e else Inr ())"

lemma reject_simps [simp]: "reject True e = Inl e" "reject False e = Inr ()"
  by (simp_all add: reject_def)

lemma reject_Inr: "reject c e = Inr x \<longleftrightarrow> \<not> c"
  by (simp add: reject_def)

text \<open>\<open>Option::is_some_and\<close>; \<open>is_none_or\<close> is \<open>pred_option\<close>.\<close>

definition some_and :: "('a \<Rightarrow> bool) \<Rightarrow> 'a option \<Rightarrow> bool" where
  "some_and p v = (case v of None \<Rightarrow> False | Some x \<Rightarrow> p x)"

lemma some_and_simps [simp]: "\<not> some_and p None" "some_and p (Some x) = p x"
  by (simp_all add: some_and_def)

lemma not_some_and: "\<not> some_and p v \<longleftrightarrow> pred_option (\<lambda>x. \<not> p x) v"
  by (cases v) auto

lemma pred_option_code [code]: "pred_option p v = (case v of None \<Rightarrow> True | Some x \<Rightarrow> p x)"
  by (cases v) auto

definition nth_opt :: "'a list \<Rightarrow> nat \<Rightarrow> 'a option" where
  "nth_opt xs i = (if i < length xs then Some (xs ! i) else None)"

definition update_where :: "('a \<Rightarrow> bool) \<Rightarrow> ('a \<Rightarrow> 'a) \<Rightarrow> 'a list \<Rightarrow> 'a list" where
  "update_where p f rows = map (\<lambda>r. if p r then f r else r) rows"

definition matching :: "('a \<Rightarrow> bool) \<Rightarrow> 'a list \<Rightarrow> nat" where
  "matching p rows = length (filter p rows)"

subsection \<open>Checks and triggers\<close>

definition task_checks :: "task_row \<Rightarrow> bool" where
  "task_checks t =
     (0 \<le> tk_ordinal t \<and>
      tk_type t \<in> {u ''agent'', u ''shell'', u ''team'', u ''swarm'', u ''cron'', u ''mcp'', u ''repl''} \<and>
      tk_lifecycle t \<in> {u ''attached'', u ''detached''} \<and>
      pred_option ((<) 0) (tk_token_limit t) \<and> pred_option ((<) 0) (tk_cost_limit t) \<and>
      pred_option ((<) 0) (tk_deadline t) \<and>
      0 \<le> tk_reserved_tokens t \<and> 0 \<le> tk_reserved_cost t \<and>
      0 \<le> tk_consumed_tokens t \<and> 0 \<le> tk_consumed_cost t \<and>
      0 \<le> tk_budget_version t \<and> 0 \<le> tk_version t \<and>
      pred_option ((\<le>) (tk_reserved_tokens t + tk_consumed_tokens t)) (tk_token_limit t) \<and>
      pred_option ((\<le>) (tk_reserved_cost t + tk_consumed_cost t)) (tk_cost_limit t) \<and>
      (task_is_terminal (tk_status t) \<longleftrightarrow> tk_terminal_at t \<noteq> None) \<and>
      (tk_parent t = None \<longrightarrow> tk_root t = tk_id t))"

definition run_checks :: "envelope_row \<Rightarrow> bool" where
  "run_checks r =
     (1 \<le> rn_attempt r \<and> 0 \<le> rn_epoch r \<and> 0 \<le> rn_version r \<and>
      0 \<le> rn_input r \<and> 0 \<le> rn_output r \<and> 0 \<le> rn_cache_read r \<and> 0 \<le> rn_cache_create r \<and> 0 \<le> rn_cost r \<and>
      (run_is_terminal (rn_status r) \<longleftrightarrow> rn_terminal_at r \<noteq> None))"

definition call_checks :: "call_row \<Rightarrow> bool" where
  "call_checks c =
     (pred_option ((\<le>) 0) (lc_input c) \<and> pred_option ((\<le>) 0) (lc_output c) \<and>
      pred_option ((\<le>) 0) (lc_cache_read c) \<and> pred_option ((\<le>) 0) (lc_cache_create c) \<and>
      pred_option ((\<le>) 0) (lc_cost c) \<and>
      0 \<le> lc_reserved_input c \<and> 0 \<le> lc_reserved_output c \<and> 0 \<le> lc_reserved_cost c \<and>
      (lc_status c = CallStarted \<longleftrightarrow> lc_finished_at c = None) \<and>
      (lc_usage_complete c \<longrightarrow> lc_input c \<noteq> None \<and> lc_output c \<noteq> None \<and>
         lc_cache_read c \<noteq> None \<and> lc_cache_create c \<noteq> None))"

definition reservation_checks :: "reservation_row \<Rightarrow> bool" where
  "reservation_checks v =
     (pred_option ((\<le>) 0) (rv_tokens v) \<and> pred_option ((\<le>) 0) (rv_cost v) \<and>
      pred_option ((\<le>) 0) (rv_used_tokens v) \<and> pred_option ((\<le>) 0) (rv_used_cost v) \<and>
      0 \<le> rv_version v \<and> rv_child v \<noteq> rv_root v \<and>
      (rv_status v = ReservationActive \<longleftrightarrow> rv_settled_at v = None) \<and>
      (rv_status v = ReservationSettled \<longrightarrow>
         rv_usage_complete v \<and> rv_used_tokens v \<noteq> None \<and> rv_used_cost v \<noteq> None))"

text \<open>\<open>trg_task_terminal_requires_current_run_result\<close>.\<close>

definition terminal_pair :: "task_status \<Rightarrow> run_status \<Rightarrow> result_status \<Rightarrow> bool" where
  "terminal_pair t r s =
     ((t, r, s) \<in> {(TaskSucceeded, RunCompleted, CompleteResult), (TaskPartial, RunCompleted, PartialResult),
        (TaskFailed, RunFailed, ErrorResult), (TaskCancelled, RunCancelled, CancelledResult)})"

definition has_result :: "task_db \<Rightarrow> task_row \<Rightarrow> bool" where
  "has_result db t =
     list_ex (\<lambda>r. tk_current_run t = Some (rn_id r) \<and> rn_task r = tk_id t \<and>
       list_ex (\<lambda>s. rs_task s = tk_id t \<and> rs_run s = rn_id r \<and>
         terminal_pair (tk_status t) (rn_status r) (rs_status s)) (db_results db)) (db_runs db)"

definition task_update_ok :: "task_db \<Rightarrow> task_row \<Rightarrow> task_row \<Rightarrow> bool" where
  "task_update_ok db old new =
     (task_checks new \<and>
      (task_is_terminal (tk_status old) \<longrightarrow> tk_status new = tk_status old) \<and>
      (\<not> task_is_terminal (tk_status old) \<and> task_is_terminal (tk_status new) \<longrightarrow> has_result db new))"

definition run_update_ok :: "envelope_row \<Rightarrow> envelope_row \<Rightarrow> bool" where
  "run_update_ok old new =
     (run_checks new \<and> (run_is_terminal (rn_status old) \<longrightarrow> rn_status new = rn_status old))"

subsection \<open>Statements\<close>

definition constraint_failed :: db_error where
  "constraint_failed = Sqlite (u ''constraint failed'')"

text \<open>The partial index \<open>uq_session_repl_service\<close>: a session has one service that is not closed.\<close>

definition service_open :: "task_row \<Rightarrow> bool" where
  "service_open t =
     (tk_type t = u ''repl'' \<and>
      (\<not> task_is_terminal (tk_status t) \<or> tk_cleanup t \<notin> {CleanupNotRequired, CleanupConfirmed}))"

definition one_service :: "task_row list \<Rightarrow> bool" where
  "one_service ts = distinct (map tk_session (filter service_open ts))"

definition update_tasks ::
  "(task_row \<Rightarrow> bool) \<Rightarrow> (task_row \<Rightarrow> task_row) \<Rightarrow> task_db \<Rightarrow> db_error + (nat \<times> task_db)" where
  "update_tasks p f db =
     (if list_all (\<lambda>t. p t \<longrightarrow> task_update_ok db t (f t)) (db_tasks db) \<and>
         one_service (update_where p f (db_tasks db))
      then Inr (matching p (db_tasks db), db\<lparr>db_tasks := update_where p f (db_tasks db)\<rparr>)
      else Inl constraint_failed)"

definition update_runs ::
  "(envelope_row \<Rightarrow> bool) \<Rightarrow> (envelope_row \<Rightarrow> envelope_row) \<Rightarrow> task_db \<Rightarrow> db_error + (nat \<times> task_db)" where
  "update_runs p f db =
     (if list_all (\<lambda>r. p r \<longrightarrow> run_update_ok r (f r)) (db_runs db)
      then Inr (matching p (db_runs db), db\<lparr>db_runs := update_where p f (db_runs db)\<rparr>)
      else Inl constraint_failed)"

definition update_calls ::
  "(call_row \<Rightarrow> bool) \<Rightarrow> (call_row \<Rightarrow> call_row) \<Rightarrow> task_db \<Rightarrow> db_error + (nat \<times> task_db)" where
  "update_calls p f db =
     (if list_all (\<lambda>c. p c \<longrightarrow> call_checks (f c)) (db_calls db)
      then Inr (matching p (db_calls db), db\<lparr>db_calls := update_where p f (db_calls db)\<rparr>)
      else Inl constraint_failed)"

definition update_reservations ::
  "(reservation_row \<Rightarrow> bool) \<Rightarrow> (reservation_row \<Rightarrow> reservation_row) \<Rightarrow> task_db \<Rightarrow>
   db_error + (nat \<times> task_db)" where
  "update_reservations p f db =
     (if list_all (\<lambda>v. p v \<longrightarrow> reservation_checks (f v)) (db_reservations db)
      then Inr (matching p (db_reservations db),
        db\<lparr>db_reservations := update_where p f (db_reservations db)\<rparr>)
      else Inl constraint_failed)"

text \<open>The triggers before the insertion of a task, its checks, then its unique indexes.\<close>

definition parent_tree_ok :: "task_db \<Rightarrow> task_row \<Rightarrow> bool" where
  "parent_tree_ok db t =
     (case tk_parent t of
        None \<Rightarrow> True
      | Some p \<Rightarrow> list_ex (\<lambda>q. tk_id q = p \<and> tk_session q = tk_session t \<and> tk_root q = tk_root t) (db_tasks db))"

definition task_conflict :: "task_row \<Rightarrow> task_row \<Rightarrow> bool" where
  "task_conflict t q =
     (tk_id q = tk_id t \<or>
      (service_open q \<and> service_open t \<and> tk_session q = tk_session t) \<or>
      (tk_creator_run q \<noteq> None \<and> tk_tool_use q \<noteq> None \<and>
       tk_creator_run q = tk_creator_run t \<and> tk_tool_use q = tk_tool_use t \<and> tk_ordinal q = tk_ordinal t))"

datatype insert_error = UniqueViolation | OtherViolation ustring

definition insert_task :: "task_row \<Rightarrow> task_db \<Rightarrow> insert_error + task_db" where
  "insert_task t db =
     (if tk_session t \<in> set (db_merge_locks db) then Inl (OtherViolation (u ''SESSION_MERGE_LOCKED''))
      else if task_is_terminal (tk_status t) then Inl (OtherViolation (u ''TASK_TERMINAL_INSERT_FORBIDDEN''))
      else if \<not> parent_tree_ok db t then Inl (OtherViolation (u ''TASK_PARENT_TREE_MISMATCH''))
      else if \<not> task_checks t then Inl (OtherViolation (u ''CHECK constraint failed''))
      else if list_ex (task_conflict t) (db_tasks db) then Inl UniqueViolation
      else Inr (db\<lparr>db_tasks := db_tasks db @ [t]\<rparr>))"

definition insert_session :: "conversation_row \<Rightarrow> task_db \<Rightarrow> db_error + task_db" where
  "insert_session s db =
     (if se_kind s = u ''internal'' \<and>
         \<not> list_ex (\<lambda>t. se_parent_task s = Some (tk_id t) \<and> se_parent_session s = Some (tk_session t)) (db_tasks db)
      then Inl (Sqlite (u ''INTERNAL_SESSION_OWNER_MISMATCH''))
      else if session_of db (se_id s) \<noteq> None then Inl (Sqlite (u ''UNIQUE constraint failed''))
      else Inr (db\<lparr>db_sessions := db_sessions db @ [s]\<rparr>))"

definition run_session_ok :: "task_db \<Rightarrow> envelope_row \<Rightarrow> bool" where
  "run_session_ok db r =
     list_ex (\<lambda>t. tk_id t = rn_task r \<and>
       list_ex (\<lambda>s. se_id s = rn_session r \<and>
         (se_kind s = u ''root'' \<and> se_id s = tk_session t \<or>
          se_kind s = u ''merge_billing'' \<and> se_id s = tk_session t \<and> tk_parent t = None \<and> tk_root t = tk_id t \<or>
          se_kind s = u ''internal'' \<and> se_parent_session s = Some (tk_session t) \<and>
            se_parent_task s = Some (tk_id t))) (db_sessions db)) (db_tasks db)"

definition insert_run :: "envelope_row \<Rightarrow> task_db \<Rightarrow> db_error + task_db" where
  "insert_run r db =
     (if \<not> run_session_ok db r then Inl (Sqlite (u ''RUN_TASK_SESSION_MISMATCH''))
      else if \<not> run_checks r then Inl (Sqlite (u ''CHECK constraint failed''))
      else if list_ex (\<lambda>q. rn_id q = rn_id r \<or> rn_task q = rn_task r \<and> rn_attempt q = rn_attempt r \<or>
           rn_task q = rn_task r \<and> \<not> run_is_terminal (rn_status q) \<and> \<not> run_is_terminal (rn_status r))
         (db_runs db) then Inl (Sqlite (u ''UNIQUE constraint failed''))
      else Inr (db\<lparr>db_runs := db_runs db @ [r]\<rparr>))"

definition insert_call :: "call_row \<Rightarrow> task_db \<Rightarrow> db_error + task_db" where
  "insert_call c db =
     (if \<not> list_ex (\<lambda>r. rn_id r = lc_run c \<and> rn_task r = lc_task c) (db_runs db)
      then Inl (Sqlite (u ''LLM_CALL_RUN_MISMATCH''))
      else if \<not> call_checks c then Inl (Sqlite (u ''CHECK constraint failed''))
      else if list_ex (\<lambda>q. lc_id q = lc_id c \<or>
           lc_request_id q \<noteq> None \<and> lc_provider q = lc_provider c \<and> lc_request_id q = lc_request_id c)
         (db_calls db) then Inl (Sqlite (u ''UNIQUE constraint failed''))
      else Inr (db\<lparr>db_calls := db_calls db @ [c]\<rparr>))"

definition insert_reservation :: "reservation_row \<Rightarrow> task_db \<Rightarrow> db_error + task_db" where
  "insert_reservation v db =
     (if \<not> list_ex (\<lambda>c. tk_id c = rv_child v \<and> tk_parent c \<noteq> None \<and> tk_root c = rv_root v) (db_tasks db) \<or>
         \<not> list_ex (\<lambda>r. tk_id r = rv_root v \<and> tk_parent r = None \<and> tk_root r = tk_id r) (db_tasks db)
      then Inl (Sqlite (u ''TASK_BUDGET_RESERVATION_IDENTITY_MISMATCH''))
      else if \<not> reservation_checks v then Inl (Sqlite (u ''CHECK constraint failed''))
      else if list_ex (\<lambda>q. rv_child q = rv_child v) (db_reservations db)
      then Inl (Sqlite (u ''UNIQUE constraint failed''))
      else Inr (db\<lparr>db_reservations := db_reservations db @ [v]\<rparr>))"

definition insert_dependency :: "dependency_row \<Rightarrow> task_db \<Rightarrow> db_error + task_db" where
  "insert_dependency d db =
     (if \<not> list_ex (\<lambda>c. tk_id c = dp_child d \<and> tk_parent c = Some (dp_parent d)) (db_tasks db)
      then Inl (Sqlite (u ''TASK_DEPENDENCY_IDENTITY_MISMATCH''))
      else if dp_parent d = dp_child d then Inl (Sqlite (u ''CHECK constraint failed''))
      else if list_ex (\<lambda>q. dp_child q = dp_child d) (db_dependencies db)
      then Inl (Sqlite (u ''UNIQUE constraint failed''))
      else Inr (db\<lparr>db_dependencies := db_dependencies db @ [d]\<rparr>))"

definition result_checks :: "result_row \<Rightarrow> bool" where
  "result_checks s =
     (1 \<le> rs_version s \<and> 0 \<le> rs_byte_len s \<and> rs_byte_len s \<le> 16777216 \<and>
      (rs_ref s = None \<and> rs_sha s \<noteq> None \<and>
         (rs_inline s \<noteq> None \<and> rs_blob s = None \<and> int (byte_length (the (rs_inline s))) = rs_byte_len s \<or>
          rs_inline s = None \<and> rs_blob s \<noteq> None) \<or>
       rs_ref s \<noteq> None \<and> rs_sha s = None \<and> rs_inline s = None \<and> rs_blob s = None) \<and>
      (rs_status s = CompleteResult \<longrightarrow> rs_message s \<noteq> None))"

definition insert_result :: "result_row \<Rightarrow> task_db \<Rightarrow> db_error + task_db" where
  "insert_result s db =
     (if list_ex (\<lambda>r. rn_id r = rs_run s \<and> rn_task r = rs_task s \<and> rn_requested r = Some ServiceRestart) (db_runs db)
      then Inl (Sqlite (u ''SERVICE_RESTART_REQUIRES_RECONCILIATION''))
      else if \<not> list_ex (\<lambda>r. rn_id r = rs_run s \<and> rn_task r = rs_task s) (db_runs db)
      then Inl (Sqlite (u ''TASK_RESULT_RUN_MISMATCH''))
      else if rs_message s \<noteq> None \<and>
        \<not> list_ex (\<lambda>m. rs_message s = Some (ms_id m) \<and> ms_role m = u ''assistant'' \<and>
            ms_task m = Some (rs_task s) \<and> ms_run m = Some (rs_run s)) (db_messages db)
      then Inl (Sqlite (u ''TASK_RESULT_FINAL_MESSAGE_MISMATCH''))
      else if \<not> result_checks s then Inl (Sqlite (u ''CHECK constraint failed''))
      else if list_ex (\<lambda>q. rs_id q = rs_id s \<or> rs_task q = rs_task s \<and> rs_version q = rs_version s) (db_results db)
      then Inl (Sqlite (u ''UNIQUE constraint failed''))
      else Inr (db\<lparr>db_results := db_results db @ [s]\<rparr>))"

subsection \<open>Content\<close>

text \<open>
  What the store of temporary bodies (\<open>content/memory.rs\<close>) answers during a write: the reference it
  hands out for a text, the text of a reference, and whether a session may be attached. A persistent
  session keeps the text itself.
\<close>

record content_port =
  cp_put :: "ustring \<Rightarrow> ustring \<Rightarrow> db_error + ustring"
  cp_get :: "ustring \<Rightarrow> ustring \<Rightarrow> db_error + ustring"
  cp_attach :: "ustring \<Rightarrow> ustring \<Rightarrow> db_error + unit"

definition UNAVAILABLE_DIAGNOSTIC :: ustring where
  "UNAVAILABLE_DIAGNOSTIC = u ''{\"$zkEphemeralUnavailable\":true}''"

definition retention_of :: "task_db \<Rightarrow> ustring \<Rightarrow> db_error + content_retention" where
  "retention_of db s =
     (case session_of db s of
        None \<Rightarrow> Inl (SessionNotFound s)
      | Some row \<Rightarrow>
          if se_retention row = u ''persistent'' then Inr Persistent
          else if se_retention row = u ''ephemeral'' then Inr Ephemeral
          else Inl (Invalid (u ''CONTENT_RETENTION_INVALID'')))"

definition store_text :: "content_port \<Rightarrow> task_db \<Rightarrow> ustring \<Rightarrow> ustring \<Rightarrow> db_error + ustring" where
  "store_text K db s v =
     and_then (retention_of db s) (\<lambda>r. case r of Persistent \<Rightarrow> Inr v | Ephemeral \<Rightarrow> cp_put K s v)"

definition load_text :: "content_port \<Rightarrow> task_db \<Rightarrow> ustring \<Rightarrow> ustring \<Rightarrow> db_error + ustring" where
  "load_text K db s v =
     and_then (retention_of db s) (\<lambda>r. case r of Persistent \<Rightarrow> Inr v | Ephemeral \<Rightarrow> cp_get K s v)"

definition optionally :: "('a \<Rightarrow> 'e + 'b) \<Rightarrow> 'a option \<Rightarrow> 'e + 'b option" where
  "optionally f v = (case v of None \<Rightarrow> Inr None | Some x \<Rightarrow> map_ok Some (f x))"

lemma optionally_simps [simp]:
  "optionally f None = Inr None" "optionally f (Some x) = map_ok Some (f x)"
  by (simp_all add: optionally_def)

text \<open>An error that crosses SQLite keeps its text. The position a JSON error reports is left out.\<close>

definition db_display :: "db_error \<Rightarrow> ustring" where
  "db_display e = (case e of
     Conflict m \<Rightarrow> u ''concurrent modification: '' @ m
   | Validation m \<Rightarrow> u ''invalid input: '' @ m
   | Sqlite m \<Rightarrow> u ''sqlite failure: '' @ m
   | JsonError \<Rightarrow> u ''json codec failure''
   | SessionNotFound s \<Rightarrow> u ''session not found: '' @ s
   | Invalid m \<Rightarrow> u ''invalid state: '' @ m)"

definition codec_error :: "db_error \<Rightarrow> db_error" where
  "codec_error e = Sqlite (db_display e)"

definition codec :: "db_error + 'a \<Rightarrow> db_error + 'a" where
  "codec r = (case r of Inl e \<Rightarrow> Inl (codec_error e) | Inr x \<Rightarrow> Inr x)"

definition load_row_text :: "content_port \<Rightarrow> task_db \<Rightarrow> ustring \<Rightarrow> ustring \<Rightarrow> db_error + ustring" where
  "load_row_text K db s v =
     and_then (codec (retention_of db s)) (\<lambda>r. case r of Persistent \<Rightarrow> Inr v | Ephemeral \<Rightarrow> cp_get K s v)"

definition store_optional ::
  "content_port \<Rightarrow> task_db \<Rightarrow> ustring \<Rightarrow> ustring option \<Rightarrow> db_error + ustring option" where
  "store_optional K db s v = optionally (store_text K db s) v"

definition load_optional ::
  "content_port \<Rightarrow> task_db \<Rightarrow> ustring \<Rightarrow> ustring option \<Rightarrow> db_error + ustring option" where
  "load_optional K db s v = optionally (load_row_text K db s) v"

definition lifetime_unavailable :: "db_error \<Rightarrow> bool" where
  "lifetime_unavailable e = (case e of
     Invalid c \<Rightarrow> c \<in> {u ''EPHEMERAL_CONTENT_EXPIRED'', u ''EPHEMERAL_CONTENT_CAPACITY''}
   | Validation c \<Rightarrow> c \<in> {u ''EPHEMERAL_CONTENT_EXPIRED'', u ''EPHEMERAL_CONTENT_CAPACITY''}
   | Sqlite m \<Rightarrow> m \<in> {u ''invalid state: EPHEMERAL_CONTENT_EXPIRED'',
       u ''invalid input: EPHEMERAL_CONTENT_CAPACITY''}
   | _ \<Rightarrow> False)"

definition store_diagnostic_text :: "content_port \<Rightarrow> task_db \<Rightarrow> ustring \<Rightarrow> ustring \<Rightarrow> db_error + ustring" where
  "store_diagnostic_text K db s v =
     (case store_text K db s v of
        Inr t \<Rightarrow> Inr t
      | Inl e \<Rightarrow> if lifetime_unavailable e then Inr UNAVAILABLE_DIAGNOSTIC else Inl e)"

definition store_diagnostic ::
  "content_port \<Rightarrow> task_db \<Rightarrow> ustring \<Rightarrow> ustring option \<Rightarrow> db_error + ustring option" where
  "store_diagnostic K db s v = optionally (store_diagnostic_text K db s) v"

definition load_diagnostic ::
  "content_port \<Rightarrow> task_db \<Rightarrow> ustring \<Rightarrow> ustring option \<Rightarrow> db_error + ustring option" where
  "load_diagnostic K db s v =
     optionally (\<lambda>v. and_then (codec (retention_of db s)) (\<lambda>r.
       if r = Ephemeral \<and> v = UNAVAILABLE_DIAGNOSTIC then Inr (u ''EPHEMERAL_CONTENT_UNAVAILABLE'')
       else (case load_text K db s v of
         Inr t \<Rightarrow> Inr t
       | Inl e \<Rightarrow>
           if lifetime_unavailable e then Inr (u ''EPHEMERAL_CONTENT_UNAVAILABLE'')
           else Inl (codec_error e)))) v"

definition is_lifecycle_reason :: "ustring \<Rightarrow> bool" where
  "is_lifecycle_reason v =
     (v \<in> set (map exit_as_db EXIT_REASONS) \<or>
      v \<in> {u ''attachedChildrenPending'', u ''attachedChildrenResolved''})"

definition load_reason ::
  "content_port \<Rightarrow> task_db \<Rightarrow> ustring \<Rightarrow> ustring option \<Rightarrow> db_error + ustring option" where
  "load_reason K db s v = (if some_and is_lifecycle_reason v then Inr v else load_diagnostic K db s v)"

definition run_session :: "task_db \<Rightarrow> ustring \<Rightarrow> db_error + ustring" where
  "run_session db run = map_ok rn_session (one_row (run_of db run))"

definition task_session :: "task_db \<Rightarrow> ustring \<Rightarrow> db_error + ustring" where
  "task_session db t = map_ok tk_session (one_row (task_of db t))"

definition store_run_text :: "content_port \<Rightarrow> task_db \<Rightarrow> ustring \<Rightarrow> ustring \<Rightarrow> db_error + ustring" where
  "store_run_text K db run v = and_then (run_session db run) (\<lambda>s. store_text K db s v)"

definition load_run_text :: "content_port \<Rightarrow> task_db \<Rightarrow> ustring \<Rightarrow> ustring \<Rightarrow> db_error + ustring" where
  "load_run_text K db run v =
     and_then (run_session db run) (\<lambda>s.
     and_then (if v = UNAVAILABLE_DIAGNOSTIC then map_ok (\<lambda>r. r = Ephemeral) (codec (retention_of db s)) else Inr False)
       (\<lambda>unavailable.
     if unavailable then Inl (codec_error (Invalid (u ''EPHEMERAL_CONTENT_UNAVAILABLE'')))
     else load_row_text K db s v))"

definition attach_session :: "content_port \<Rightarrow> task_db \<Rightarrow> ustring \<Rightarrow> ustring \<Rightarrow> db_error + content_retention" where
  "attach_session K db parent s =
     and_then (retention_of db parent) (\<lambda>r. case r of
       Persistent \<Rightarrow> Inr r
     | Ephemeral \<Rightarrow> map_ok (\<lambda>_. r) (cp_attach K parent s))"

subsection \<open>Events\<close>

definition MAX_EVENT_BYTES :: nat where "MAX_EVENT_BYTES = 10 * 1024"

text \<open>The longest prefix of whole characters within a number of bytes.\<close>

fun take_bytes :: "nat \<Rightarrow> ustring list \<Rightarrow> ustring" where
  "take_bytes n [] = []"
| "take_bytes n (c # cs) =
     (if byte_length c \<le> n then c @ take_bytes (n - byte_length c) cs else [])"

definition serialize_event :: "crates \<Rightarrow> ustring \<Rightarrow> ustring option \<Rightarrow> json \<Rightarrow> ustring" where
  "serialize_event cr run tool data =
     (let head = [(u ''schemaVersion'', JNum 2), (u ''entityId'', JStr run)] @
            (case tool of None \<Rightarrow> [] | Some t \<Rightarrow> [(u ''toolUseId'', JStr t)]);
          json_text = to_text cr (json_obj (head @ [(u ''data'', data)]))
      in if byte_length json_text \<le> MAX_EVENT_BYTES then json_text
         else to_text cr (json_obj (head @ [(u ''data'', json_obj
           [(u ''truncated'', JBool True), (u ''originalBytes'', JNum (int (byte_length json_text))),
            (u ''payloadSha256'', JStr (sha256_hex cr json_text)),
            (u ''payloadPreview'', JStr (take_bytes 2048 (chars json_text)))])])))"

definition DIAGNOSTIC_EVENTS :: "ustring list" where
  "DIAGNOSTIC_EVENTS =
     [u ''run_status_changed'', u ''task_needs_attention'', u ''task_cancelling'', u ''run_cleanup_unconfirmed'',
      u ''verification_stale'', u ''interaction_terminal'', u ''task_inbox_closed'', u ''run_cleanup_confirmed'']"

definition last_seq :: "int \<Rightarrow> task_db \<Rightarrow> ustring \<Rightarrow> int" where
  "last_seq none db run =
     (case map ev_seq (filter (\<lambda>e. ev_run e = run) (db_events db)) of [] \<Rightarrow> none | x # xs \<Rightarrow> fold max xs x)"

definition insert_event :: "ustring \<Rightarrow> int \<Rightarrow> ustring \<Rightarrow> ustring \<Rightarrow> task_db \<Rightarrow> db_error + task_db" where
  "insert_event run seq ty data db =
     (if list_ex (\<lambda>e. ev_run e = run \<and> ev_seq e = seq) (db_events db)
      then Inl (Sqlite (u ''UNIQUE constraint failed''))
      else Inr (db\<lparr>db_events := db_events db @
        [\<lparr>ev_run = run, ev_seq = seq, ev_type = ty, ev_data = data\<rparr>]\<rparr>))"

text \<open>The types of event the modelled operations append do not touch the count of tool calls.\<close>

definition append_event ::
  "crates \<Rightarrow> content_port \<Rightarrow> ustring \<Rightarrow> ustring \<Rightarrow> ustring option \<Rightarrow> json \<Rightarrow> task_db \<Rightarrow> db_error + task_db" where
  "append_event cr K run ty tool data db =
     (let t = serialize_event cr run tool data;
          seq = last_seq 0 db run + 1 in
      and_then
        (if ty \<in> set DIAGNOSTIC_EVENTS
         then and_then (run_session db run) (\<lambda>s. store_diagnostic_text K db s t)
         else store_run_text K db run t)
        (\<lambda>stored. insert_event run seq ty stored db))"

end
