(* ===== verification/Task_Ceiling.thy ===== *)
theory Task_Ceiling
  imports Task_Store
begin

section \<open>Tool ceilings\<close>

text \<open>
  \<open>crates/zk-db/src/tool_ceiling.rs\<close>: the set of tools a task may use, kept in its configuration and
  inherited by intersection. A \<open>BTreeSet\<close> is the sorted list of its distinct elements.
\<close>

record tool_ceiling =
  allowed_tools :: "ustring list option"
  denied_tools :: "ustring list"

definition btree :: "ustring list \<Rightarrow> ustring list" where
  "btree xs = sort_key str_key (remdups xs)"

definition ceiling_default :: tool_ceiling where
  "ceiling_default = \<lparr>allowed_tools = None, denied_tools = []\<rparr>"

definition allows :: "tool_ceiling \<Rightarrow> ustring \<Rightarrow> bool" where
  "allows c name =
     ((case allowed_tools c of None \<Rightarrow> True | Some names \<Rightarrow> name \<in> set names) \<and>
      name \<notin> set (denied_tools c))"

definition unrestricted :: "tool_ceiling \<Rightarrow> bool" where
  "unrestricted c = (allowed_tools c = None \<and> denied_tools c = [])"

definition intersect :: "tool_ceiling \<Rightarrow> tool_ceiling \<Rightarrow> tool_ceiling" where
  "intersect a b =
     \<lparr>allowed_tools = (case (allowed_tools a, allowed_tools b) of
        (Some x, Some y) \<Rightarrow> Some (filter (\<lambda>n. n \<in> set y) x)
      | (Some x, None) \<Rightarrow> Some x
      | (None, Some y) \<Rightarrow> Some y
      | (None, None) \<Rightarrow> None),
      denied_tools = btree (denied_tools a @ denied_tools b)\<rparr>"

definition ceiling_invalid :: db_error where
  "ceiling_invalid = Invalid (u ''TOOL_CEILING_INVALID'')"

text \<open>The conversions of \<open>serde\<close>: an array of strings, and the structure from an object without
  unknown members or from the array of its fields.\<close>

definition json_string :: "json \<Rightarrow> ustring option" where
  "json_string v = (case v of JStr s \<Rightarrow> Some s | _ \<Rightarrow> None)"

fun all_some :: "'a option list \<Rightarrow> 'a list option" where
  "all_some [] = Some []"
| "all_some (None # xs) = None"
| "all_some (Some x # xs) = map_option ((#) x) (all_some xs)"

definition set_of_json :: "json \<Rightarrow> ustring list option" where
  "set_of_json v = (case v of JArr xs \<Rightarrow> map_option btree (all_some (map json_string xs)) | _ \<Rightarrow> None)"

definition optional_set_of_json :: "json \<Rightarrow> ustring list option option" where
  "optional_set_of_json v = (if v = JNull then Some None else map_option Some (set_of_json v))"

definition ceiling_of_json :: "json \<Rightarrow> tool_ceiling option" where
  "ceiling_of_json v = (case v of
     JObj m \<Rightarrow>
       if \<not> list_all (\<lambda>k. k \<in> {u ''allowed'', u ''denied''}) (map fst m) then None
       else (case (case json_get m (u ''allowed'') of None \<Rightarrow> Some None | Some a \<Rightarrow> optional_set_of_json a,
                   case json_get m (u ''denied'') of None \<Rightarrow> Some [] | Some d \<Rightarrow> set_of_json d) of
         (Some a, Some d) \<Rightarrow> Some \<lparr>allowed_tools = a, denied_tools = d\<rparr>
       | _ \<Rightarrow> None)
   | JArr [a] \<Rightarrow> map_option (\<lambda>a. \<lparr>allowed_tools = a, denied_tools = []\<rparr>) (optional_set_of_json a)
   | JArr [a, d] \<Rightarrow>
       (case (optional_set_of_json a, set_of_json d) of
          (Some a, Some d) \<Rightarrow> Some \<lparr>allowed_tools = a, denied_tools = d\<rparr>
        | _ \<Rightarrow> None)
   | _ \<Rightarrow> None)"

definition ceiling_json :: "tool_ceiling \<Rightarrow> json" where
  "ceiling_json c = JObj
     [(u ''allowed'', case allowed_tools c of None \<Rightarrow> JNull | Some names \<Rightarrow> JArr (map JStr names)),
      (u ''denied'', JArr (map JStr (denied_tools c)))]"

definition bad_name :: "ustring \<Rightarrow> bool" where
  "bad_name n = (n = [] \<or> 256 < byte_length n)"

definition names :: "json option \<Rightarrow> db_error + ustring list option" where
  "names v = (case v of
     None \<Rightarrow> Inr None
   | Some JNull \<Rightarrow> Inr None
   | Some (JArr xs) \<Rightarrow>
       (case all_some (map json_string xs) of
          None \<Rightarrow> Inl ceiling_invalid
        | Some ns \<Rightarrow> if list_ex bad_name ns then Inl ceiling_invalid else Inr (Some (btree ns)))
   | Some _ \<Rightarrow> Inl ceiling_invalid)"

definition declared_ceiling :: "json_object \<Rightarrow> db_error + tool_ceiling" where
  "declared_ceiling m =
     (case json_get m (u ''toolCeiling'') of
        None \<Rightarrow> Inr ceiling_default
      | Some v \<Rightarrow> (case ceiling_of_json v of None \<Rightarrow> Inl ceiling_invalid | Some c \<Rightarrow> Inr c))"

definition from_config :: "json \<Rightarrow> db_error + tool_ceiling" where
  "from_config config = (case config of
     JObj m \<Rightarrow>
       and_then (declared_ceiling m) (\<lambda>c.
       if list_ex bad_name ((case allowed_tools c of None \<Rightarrow> [] | Some ns \<Rightarrow> ns) @ denied_tools c)
       then Inl ceiling_invalid
       else and_then (names (json_get m (u ''allowedTools''))) (\<lambda>a.
         and_then (names (json_get m (u ''disallowedTools''))) (\<lambda>d.
         Inr (intersect c \<lparr>allowed_tools = a, denied_tools = (case d of None \<Rightarrow> [] | Some ns \<Rightarrow> ns)\<rparr>))))
   | _ \<Rightarrow> Inl ceiling_invalid)"

definition parse_json :: "crates \<Rightarrow> ustring \<Rightarrow> db_error + json" where
  "parse_json cr text = (case from_text cr text of None \<Rightarrow> Inl JsonError | Some v \<Rightarrow> Inr v)"

definition run_ceiling :: "crates \<Rightarrow> content_port \<Rightarrow> task_db \<Rightarrow> ustring \<Rightarrow> db_error + tool_ceiling" where
  "run_ceiling cr K db run =
     and_then (one_row (Option.bind (run_of db run) (\<lambda>r. task_of db (rn_task r)))) (\<lambda>t.
     and_then (load_text K db (tk_session t) (tk_config t)) (\<lambda>cfg.
     and_then (parse_json cr cfg) from_config))"

definition inherited :: "crates \<Rightarrow> content_port \<Rightarrow> task_db \<Rightarrow> ustring option \<Rightarrow> tool_ceiling \<Rightarrow> db_error + tool_ceiling" where
  "inherited cr K db parent c =
     (case parent of None \<Rightarrow> Inr c | Some run \<Rightarrow> map_ok (intersect c) (run_ceiling cr K db run))"

definition inherit :: "crates \<Rightarrow> content_port \<Rightarrow> task_db \<Rightarrow> ustring option \<Rightarrow> ustring \<Rightarrow> db_error + ustring" where
  "inherit cr K db parent cfg =
     and_then (parse_json cr cfg) (\<lambda>config.
     and_then (from_config config) (\<lambda>own.
     and_then (inherited cr K db parent own) (\<lambda>c.
       case config of
         JObj m \<Rightarrow>
           if \<not> unrestricted c \<or> json_get m (u ''toolCeiling'') \<noteq> None
           then Inr (to_text cr (JObj (json_set m (u ''toolCeiling'') (ceiling_json c))))
           else Inr cfg
       | _ \<Rightarrow> Inl ceiling_invalid)))"

text \<open>The update of a running task: only the row of the task whose current run it is.\<close>

definition narrow_run_tool_ceiling ::
  "crates \<Rightarrow> content_port \<Rightarrow> ustring \<Rightarrow> tool_ceiling \<Rightarrow> task_db \<Rightarrow> db_error + (tool_ceiling \<times> task_db)" where
  "narrow_run_tool_ceiling cr K run proposed db =
     and_then (one_row (find (\<lambda>t. tk_current_run t = Some run \<and>
         list_ex (\<lambda>r. rn_id r = run \<and> rn_status r \<in> {RunRunning, RunWaitingDependencies, RunWaitingInteraction} \<and>
           rn_requested r = None) (db_runs db)) (db_tasks db))) (\<lambda>t.
     and_then (load_text K db (tk_session t) (tk_config t)) (\<lambda>cfg.
     and_then (parse_json cr cfg) (\<lambda>config.
     and_then (from_config config) (\<lambda>own.
       case config of
         JObj m \<Rightarrow>
           (let c = intersect own proposed in
            and_then (store_text K db (tk_session t) (to_text cr (JObj (json_set m (u ''toolCeiling'') (ceiling_json c)))))
              (\<lambda>encoded.
            and_then (update_tasks (\<lambda>q. tk_id q = tk_id t) (tk_config_update (\<lambda>_. encoded)) db) (\<lambda>(_, db').
            Inr (c, db'))))
       | _ \<Rightarrow> Inl ceiling_invalid))))"

subsection \<open>Inheritance only narrows\<close>

lemma set_btree [simp]: "set (btree xs) = set xs"
  by (simp add: btree_def)

lemma btree_Nil [simp]: "btree [] = []"
  by (simp add: btree_def)

lemma allows_intersect [simp]: "allows (intersect a b) n \<longleftrightarrow> allows a n \<and> allows b n"
  by (auto simp: allows_def intersect_def split: option.splits)

lemma btree_canonical:
  assumes "sorted (map str_key xs)" "distinct xs"
  shows "btree xs = xs"
  using assms by (simp add: btree_def distinct_remdups_id sorted_sort_id [of "map str_key xs"] sort_key_id_if_sorted)

definition canonical_ceiling :: "tool_ceiling \<Rightarrow> bool" where
  "canonical_ceiling c =
     ((\<forall>ns \<in> set_option (allowed_tools c). btree ns = ns) \<and> btree (denied_tools c) = denied_tools c)"

lemma btree_idem [simp]: "btree (btree xs) = btree xs"
  by (simp add: btree_def distinct_remdups_id sort_key_id_if_sorted)

lemma btree_filter: "btree xs = xs \<Longrightarrow> btree (filter P xs) = filter P xs"
proof -
  assume "btree xs = xs"
  then have "sorted (map str_key xs)" "distinct xs"
    by (metis btree_def sorted_sort_key, metis btree_def distinct_remdups distinct_sort)
  then show ?thesis
    by (intro btree_canonical) (auto intro: sorted_filter)
qed

lemma canonical_intersect:
  "canonical_ceiling a \<Longrightarrow> canonical_ceiling b \<Longrightarrow> canonical_ceiling (intersect a b)"
  by (auto simp: canonical_ceiling_def intersect_def btree_filter split: option.splits)

lemma all_some_map [simp]: "all_some (map Some xs) = Some xs"
  by (induction xs) auto

lemma set_of_json_JStr: "set_of_json (JArr (map JStr xs)) = Some (btree xs)"
  by (simp add: set_of_json_def json_string_def comp_def)

lemma ceiling_roundtrip:
  "canonical_ceiling c \<Longrightarrow> ceiling_of_json (ceiling_json c) = Some c"
  by (auto simp: canonical_ceiling_def ceiling_of_json_def ceiling_json_def json_get_def set_of_json_JStr
      optional_set_of_json_def split: option.splits)

lemma all_some_Some: "all_some xs = Some ys \<Longrightarrow> xs = map Some ys"
  by (induction xs arbitrary: ys rule: all_some.induct) auto

lemma set_of_json_canonical: "set_of_json v = Some xs \<Longrightarrow> btree xs = xs"
  by (auto simp: set_of_json_def split: json.splits)

lemma ceiling_of_json_canonical: "ceiling_of_json v = Some c \<Longrightarrow> canonical_ceiling c"
  by (auto simp: ceiling_of_json_def canonical_ceiling_def optional_set_of_json_def
      dest: set_of_json_canonical split: json.splits option.splits if_splits list.splits)

lemma names_canonical: "names v = Inr (Some xs) \<Longrightarrow> btree xs = xs"
  by (auto simp: names_def split: option.splits json.splits if_splits)

lemma declared_canonical: "declared_ceiling m = Inr c \<Longrightarrow> canonical_ceiling c"
  by (auto simp: declared_ceiling_def ceiling_default_def canonical_ceiling_def [of "\<lparr>allowed_tools = None, denied_tools = []\<rparr>"]
      dest: ceiling_of_json_canonical split: option.splits)

lemma named_canonical:
  assumes "names a = Inr x" "names b = Inr y"
  shows "canonical_ceiling \<lparr>allowed_tools = x, denied_tools = (case y of None \<Rightarrow> [] | Some ns \<Rightarrow> ns)\<rparr>"
  using assms by (auto simp: canonical_ceiling_def names_canonical split: option.splits)

lemma from_config_canonical: "from_config v = Inr c \<Longrightarrow> canonical_ceiling c"
  by (auto simp: from_config_def and_then_Inr intro: canonical_intersect declared_canonical named_canonical
      split: json.splits if_splits)

end
