(* ===== verification/Task_Budget.thy ===== *)
theory Task_Budget
  imports Task_Ceiling "HOL-Library.Signed_Division"
begin

section \<open>Task budgets\<close>

text \<open>
  \<open>crates/zk-db/src/task_budget.rs\<close> and the reading of usage integrity of \<open>runtime_ledger.rs\<close>. The row
  of a root task is an account: its limits, what its children hold reserved and what was consumed.
  A child is granted an allocation out of it, and the settlement of a finished task moves its usage
  into the account.
\<close>

subsection \<open>Usage integrity\<close>

record usage_integrity =
  run_usage_complete :: bool
  task_usage_complete :: bool
  root_task_usage_complete :: bool

definition integrity_is_complete :: "usage_integrity \<Rightarrow> bool" where
  "integrity_is_complete i =
     (run_usage_complete i \<and> task_usage_complete i \<and> root_task_usage_complete i)"

definition LEDGER_CODES :: "ustring list" where
  "LEDGER_CODES = [u ''STREAM_DROPPED'', u ''SERVICE_RESTART'']"

definition store_ledger_diagnostic ::
  "content_port \<Rightarrow> task_db \<Rightarrow> ustring \<Rightarrow> ustring option \<Rightarrow> db_error + ustring option" where
  "store_ledger_diagnostic K db s v =
     (if v \<in> Some ` set LEDGER_CODES then Inr v else store_diagnostic K db s v)"

definition load_ledger_diagnostic ::
  "content_port \<Rightarrow> task_db \<Rightarrow> ustring \<Rightarrow> ustring option \<Rightarrow> db_error + ustring option" where
  "load_ledger_diagnostic K db s v =
     (if v \<in> Some ` set LEDGER_CODES then Inr v else load_diagnostic K db s v)"

text \<open>A row of the joined query: whether its metadata admit the exception, the session of the run,
  the error of the call and the error of the result.\<close>

type_synonym exception_row = "bool \<times> ustring \<times> ustring option \<times> ustring option"

definition left_join :: "'a list \<Rightarrow> 'a option list" where
  "left_join xs = (if xs = [] then [None] else map Some xs)"

definition timeout_metadata ::
  "envelope_row \<Rightarrow> task_row \<Rightarrow> task_row \<Rightarrow> task_row \<Rightarrow> call_row \<Rightarrow> envelope_row \<Rightarrow> result_row option \<Rightarrow> bool" where
  "timeout_metadata current owner root t c r result =
     (rn_usage_complete current \<and> tk_token_limit root = None \<and> tk_cost_limit root = None \<and>
      tk_id t \<noteq> tk_id owner \<and> tk_parent t \<noteq> None \<and> tk_status t \<in> {TaskPartial, TaskFailed} \<and>
      tk_reason t = Some (exit_as_db Timeout) \<and> tk_cleanup t = CleanupConfirmed \<and>
      rn_requested r = Some Timeout \<and> lc_status c = CallCancelled \<and> result \<noteq> None)"

definition exception_rows :: "task_db \<Rightarrow> ustring \<Rightarrow> exception_row list" where
  "exception_rows db run =
     [(timeout_metadata current owner root t c r result, rn_session r, lc_error c,
       Option.bind result rs_error).
      current \<leftarrow> db_runs db, rn_id current = run,
      owner \<leftarrow> db_tasks db, tk_id owner = rn_task current \<and> tk_current_run owner = Some (rn_id current),
      root \<leftarrow> db_tasks db, tk_id root = tk_root owner,
      t \<leftarrow> db_tasks db, tk_root t = tk_id root,
      c \<leftarrow> db_calls db, lc_task c = tk_id t \<and> \<not> lc_usage_complete c,
      r \<leftarrow> db_runs db, rn_id r = lc_run c,
      result \<leftarrow> left_join (filter (\<lambda>s. rs_task s = tk_id t \<and> rs_run s = rn_id r) (db_results db))]"

fun exception_holds :: "content_port \<Rightarrow> task_db \<Rightarrow> bool \<Rightarrow> exception_row list \<Rightarrow> db_error + bool" where
  "exception_holds K db found [] = Inr found"
| "exception_holds K db found ((admitted, session, call_error, result_error) # rows) =
     (if \<not> admitted then Inr False
      else and_then (load_ledger_diagnostic K db session call_error) (\<lambda>ce.
        and_then (load_diagnostic K db session result_error) (\<lambda>re.
        if ce \<notin> {Some (u ''STREAM_DROPPED''), Some (u ''PROVIDER_CANCELLED'')} \<or>
           re \<noteq> Some (u ''SUBAGENT_DEADLINE_EXCEEDED'')
        then Inr False
        else exception_holds K db True rows)))"

definition timeout_usage_exception :: "content_port \<Rightarrow> task_db \<Rightarrow> ustring \<Rightarrow> db_error + bool" where
  "timeout_usage_exception K db run = exception_holds K db False (exception_rows db run)"

text \<open>\<open>!complete && !timeout_usage_exception(..)?\<close>: the exception is read only when needed.\<close>

definition usage_admissible :: "content_port \<Rightarrow> task_db \<Rightarrow> ustring \<Rightarrow> bool \<Rightarrow> db_error + bool" where
  "usage_admissible K db run complete =
     (if complete then Inr True else timeout_usage_exception K db run)"

subsection \<open>Limits\<close>

definition DIRECT_CHILD_BUDGET_PERCENT :: int where "DIRECT_CHILD_BUDGET_PERCENT = 20"
definition ROOT_BUDGET_RESERVE_PERCENT :: int where "ROOT_BUDGET_RESERVE_PERCENT = 20"

record budget_limits =
  token_limit :: "int option"
  cost_limit :: "int option"
  deadline_at :: "int option"

definition no_limits :: budget_limits where
  "no_limits = \<lparr>token_limit = None, cost_limit = None, deadline_at = None\<rparr>"

definition validate_limits :: "budget_limits \<Rightarrow> db_error + unit" where
  "validate_limits l =
     (if some_and (\<lambda>v. v \<le> 0) (token_limit l) then Inl (Invalid (u ''TOKEN_BUDGET_INVALID''))
      else if some_and (\<lambda>v. v \<le> 0) (cost_limit l) then Inl (Invalid (u ''COST_BUDGET_INVALID''))
      else if some_and (\<lambda>v. v \<le> 0) (deadline_at l) then Inl (Invalid (u ''TASK_DEADLINE_INVALID''))
      else Inr ())"

text \<open>The conversion of \<open>serde\<close> of the envelope and of the limits: an object, whose unknown members are
  ignored and whose missing members are the default, or the array of the fields.\<close>

definition optional_i64 :: "json option \<Rightarrow> int option option" where
  "optional_i64 v = (case v of
     None \<Rightarrow> Some None
   | Some JNull \<Rightarrow> Some None
   | Some (JNum n) \<Rightarrow> if I64_MIN \<le> n \<and> n \<le> I64_MAX then Some (Some n) else None
   | Some _ \<Rightarrow> None)"

definition limits_of ::
  "json option \<Rightarrow> json option \<Rightarrow> json option \<Rightarrow> budget_limits option" where
  "limits_of t c d =
     (case (optional_i64 t, optional_i64 c, optional_i64 d) of
        (Some t, Some c, Some d) \<Rightarrow> Some \<lparr>token_limit = t, cost_limit = c, deadline_at = d\<rparr>
      | _ \<Rightarrow> None)"

definition limits_of_json :: "json \<Rightarrow> budget_limits option" where
  "limits_of_json v = (case v of
     JObj m \<Rightarrow> limits_of (json_get m (u ''tokenLimit'')) (json_get m (u ''costLimitNanosUsd''))
       (json_get m (u ''deadlineAtMs''))
   | JArr xs \<Rightarrow>
       if 3 < length xs then None
       else limits_of (nth_opt xs 0) (nth_opt xs 1) (nth_opt xs 2)
   | _ \<Rightarrow> None)"

definition parse_execution_budget :: "crates \<Rightarrow> ustring \<Rightarrow> db_error + budget_limits" where
  "parse_execution_budget cr text =
     and_then (parse_json cr text) (\<lambda>v.
     and_then (case v of
         JObj m \<Rightarrow>
           (case json_get m (u ''budget'') of
              None \<Rightarrow> Inr no_limits
            | Some JNull \<Rightarrow> Inr no_limits
            | Some b \<Rightarrow> (case limits_of_json b of None \<Rightarrow> Inl JsonError | Some l \<Rightarrow> Inr l))
       | JArr [] \<Rightarrow> Inr no_limits
       | JArr [JNull] \<Rightarrow> Inr no_limits
       | JArr [b] \<Rightarrow> (case limits_of_json b of None \<Rightarrow> Inl JsonError | Some l \<Rightarrow> Inr l)
       | _ \<Rightarrow> Inl JsonError) (\<lambda>l.
     and_then (validate_limits l) (\<lambda>_. Inr l)))"

subsection \<open>The grant of one dimension\<close>

definition ceil_percent :: "int \<Rightarrow> int \<Rightarrow> int" where
  "ceil_percent v percent =
     (v sdiv 100) * percent + ((v smod 100) * percent + 99) sdiv 100"

definition floor_percent :: "int \<Rightarrow> int \<Rightarrow> int" where
  "floor_percent v percent = (v sdiv 100) * percent + ((v smod 100) * percent) sdiv 100"

definition grant_dimension ::
  "ustring \<Rightarrow> int option \<Rightarrow> int \<Rightarrow> int \<Rightarrow> int option \<Rightarrow> db_error + int option" where
  "grant_dimension name root_limit consumed already_reserved requested =
     (case root_limit of
        None \<Rightarrow> Inr requested
      | Some root_limit \<Rightarrow>
          (let per_child_cap = floor_percent root_limit DIRECT_CHILD_BUDGET_PERCENT;
               parent_reserve = ceil_percent root_limit ROOT_BUDGET_RESERVE_PERCENT;
               child_pool_cap = sat_sub root_limit parent_reserve;
               spend_available = sat_sub (sat_sub root_limit consumed) already_reserved;
               pool_available = sat_sub child_pool_cap already_reserved;
               available = max (min spend_available pool_available) 0;
               desired = (case requested of Some r \<Rightarrow> r | None \<Rightarrow> min per_child_cap available)
           in if desired \<le> 0 then Inl (Invalid (name @ u ''_BUDGET_UNAVAILABLE''))
              else if per_child_cap < desired then Inl (Invalid (name @ u ''_CHILD_BUDGET_EXCEEDS_20_PERCENT''))
              else if available < desired then Inl (Invalid (name @ u ''_BUDGET_UNAVAILABLE''))
              else Inr (Some desired)))"

subsection \<open>The account of a root task\<close>

definition root_account :: "task_db \<Rightarrow> ustring \<Rightarrow> task_row option" where
  "root_account db root =
     find (\<lambda>t. tk_id t = root \<and> tk_parent t = None \<and> tk_root t = tk_id t) (db_tasks db)"

text \<open>The usage of the current run of a task and what its calls in flight hold reserved.\<close>

definition current_run :: "task_db \<Rightarrow> task_row \<Rightarrow> envelope_row option" where
  "current_run db t = Option.bind (tk_current_run t) (run_of db)"

definition run_tokens :: "task_db \<Rightarrow> task_row \<Rightarrow> int" where
  "run_tokens db t = (case current_run db t of None \<Rightarrow> 0 | Some r \<Rightarrow> rn_total r)"

definition run_cost :: "task_db \<Rightarrow> task_row \<Rightarrow> int" where
  "run_cost db t = (case current_run db t of None \<Rightarrow> 0 | Some r \<Rightarrow> rn_cost r)"

definition active_calls :: "task_db \<Rightarrow> ustring option \<Rightarrow> call_row list" where
  "active_calls db run = filter (\<lambda>c. run = Some (lc_run c) \<and> lc_status c = CallStarted) (db_calls db)"

definition active_tokens :: "task_db \<Rightarrow> ustring option \<Rightarrow> int" where
  "active_tokens db run =
     sum_list (map (\<lambda>c. lc_reserved_input c + lc_reserved_output c) (active_calls db run))"

definition active_cost :: "task_db \<Rightarrow> ustring option \<Rightarrow> int" where
  "active_cost db run = sum_list (map lc_reserved_cost (active_calls db run))"

definition run_integrity :: "task_db \<Rightarrow> task_row \<Rightarrow> bool" where
  "run_integrity db t =
     (case current_run db t of None \<Rightarrow> False | Some r \<Rightarrow> rn_task r = tk_id t \<and> rn_usage_complete r)"

text \<open>The guard of the update that charges the account.\<close>

definition charge_fits :: "task_db \<Rightarrow> task_row \<Rightarrow> int \<Rightarrow> int \<Rightarrow> bool" where
  "charge_fits db t tokens cost =
     (pred_option (\<lambda>limit. tk_consumed_tokens t + tk_reserved_tokens t + tokens + run_tokens db t
         + active_tokens db (tk_current_run t) \<le> limit) (tk_token_limit t) \<and>
      pred_option (\<lambda>limit. tk_consumed_cost t + tk_reserved_cost t + cost + run_cost db t
         + active_cost db (tk_current_run t) \<le> limit) (tk_cost_limit t))"

definition charge_root ::
  "ustring \<Rightarrow> int \<Rightarrow> int \<Rightarrow> int \<Rightarrow> task_db \<Rightarrow> db_error + (nat \<times> task_db)" where
  "charge_root root version tokens cost db =
     update_tasks (\<lambda>t. tk_id t = root \<and> tk_budget_version t = version \<and> charge_fits db t tokens cost)
       (\<lambda>t. t\<lparr>tk_reserved_tokens := tk_reserved_tokens t + tokens,
              tk_reserved_cost := tk_reserved_cost t + cost,
              tk_budget_version := tk_budget_version t + 1\<rparr>) db"

definition grant_to_child ::
  "ustring \<Rightarrow> int option \<Rightarrow> int option \<Rightarrow> int option \<Rightarrow> task_db \<Rightarrow> db_error + (nat \<times> task_db)" where
  "grant_to_child child tokens cost deadline db =
     update_tasks (\<lambda>t. tk_id t = child \<and> tk_parent t \<noteq> None)
       (\<lambda>t. t\<lparr>tk_token_limit := tokens, tk_cost_limit := cost, tk_deadline := deadline\<rparr>) db"

definition new_reservation :: "ustring \<Rightarrow> ustring \<Rightarrow> int option \<Rightarrow> int option \<Rightarrow> reservation_row" where
  "new_reservation child root tokens cost =
     \<lparr>rv_child = child, rv_root = root, rv_tokens = tokens, rv_cost = cost, rv_used_tokens = None,
      rv_used_cost = None, rv_usage_complete = False, rv_status = ReservationActive, rv_version = 0,
      rv_settled_at = None\<rparr>"

definition child_deadline :: "int option \<Rightarrow> int option \<Rightarrow> int option" where
  "child_deadline requested root = (case (requested, root) of
     (Some r, Some d) \<Rightarrow> Some (min r d)
   | (Some r, None) \<Rightarrow> Some r
   | (None, d) \<Rightarrow> d)"

text \<open>The checks before anything is written.\<close>

definition deadline_checks :: "int \<Rightarrow> task_row \<Rightarrow> budget_limits \<Rightarrow> db_error + unit" where
  "deadline_checks now_ms t requested =
     and_then (reject (tk_deadline t = None) (Invalid (u ''ROOT_BUDGET_NOT_CONFIGURED''))) (\<lambda>_.
     and_then (reject (some_and (\<lambda>d. d \<le> now_ms) (tk_deadline t)) (Invalid (u ''TASK_DEADLINE_EXCEEDED''))) (\<lambda>_.
     and_then (reject (some_and (\<lambda>r. some_and (\<lambda>d. d < r) (tk_deadline t)) (deadline_at requested))
       (Invalid (u ''CHILD_DEADLINE_EXCEEDS_ROOT_DEADLINE''))) (\<lambda>_.
     reject (some_and (\<lambda>d. d \<le> now_ms) (deadline_at requested)) (Invalid (u ''TASK_DEADLINE_EXCEEDED'')))))"

definition charge_failed :: "task_db \<Rightarrow> ustring \<Rightarrow> db_error" where
  "charge_failed db root =
     (if some_and (\<lambda>t. \<not> tk_usage_complete t \<or> \<not> run_integrity db t) (root_account db root)
      then Invalid (u ''BUDGET_USAGE_INCOMPLETE'') else Invalid (u ''BUDGET_VERSION_CONFLICT''))"

definition reserve_child_budget ::
  "content_port \<Rightarrow> int \<Rightarrow> ustring \<Rightarrow> ustring \<Rightarrow> budget_limits \<Rightarrow> task_db \<Rightarrow> db_error + task_db" where
  "reserve_child_budget K now_ms root child requested db =
     (case root_account db root of
        None \<Rightarrow> Inl (Invalid (u ''ROOT_BUDGET_ACCOUNT_NOT_FOUND''))
      | Some t \<Rightarrow>
          and_then (one_row (tk_current_run t)) (\<lambda>run.
          and_then (usage_admissible K db run (tk_usage_complete t \<and> run_integrity db t)) (\<lambda>ok.
          and_then (reject (\<not> ok) (Invalid (u ''BUDGET_USAGE_INCOMPLETE''))) (\<lambda>_.
          and_then (deadline_checks now_ms t requested) (\<lambda>_.
          and_then (grant_dimension (u ''TOKEN'') (tk_token_limit t)
              (sat_add (sat_add (tk_consumed_tokens t) (run_tokens db t)) (active_tokens db (tk_current_run t)))
              (tk_reserved_tokens t) (token_limit requested)) (\<lambda>tokens.
          and_then (grant_dimension (u ''COST'') (tk_cost_limit t)
              (sat_add (sat_add (tk_consumed_cost t) (run_cost db t)) (active_cost db (tk_current_run t)))
              (tk_reserved_cost t) (cost_limit requested)) (\<lambda>cost.
          and_then (charge_root root (tk_budget_version t)
              (case tokens of None \<Rightarrow> 0 | Some n \<Rightarrow> n) (case cost of None \<Rightarrow> 0 | Some n \<Rightarrow> n) db) (\<lambda>(changed, db1).
          if changed \<noteq> 1 then Inl (charge_failed db root)
          else
            and_then (grant_to_child child tokens cost (child_deadline (deadline_at requested) (tk_deadline t)) db1)
              (\<lambda>(_, db2).
            insert_reservation (new_reservation child root tokens cost) db2)))))))))"

subsection \<open>Settlement\<close>

text \<open>A root task: its usage moves into the account, unless it does not fit or is unknown.\<close>

definition settle_root ::
  "ustring \<Rightarrow> int \<Rightarrow> int \<Rightarrow> bool \<Rightarrow> task_db \<Rightarrow> db_error + task_db" where
  "settle_root task used_tokens used_cost complete db =
     (if complete then
        and_then (update_tasks (\<lambda>t. tk_id t = task \<and>
            pred_option (\<lambda>limit. tk_consumed_tokens t + tk_reserved_tokens t + used_tokens \<le> limit) (tk_token_limit t) \<and>
            pred_option (\<lambda>limit. tk_consumed_cost t + tk_reserved_cost t + used_cost \<le> limit) (tk_cost_limit t))
          (\<lambda>t. t\<lparr>tk_consumed_tokens := tk_consumed_tokens t + used_tokens,
                 tk_consumed_cost := tk_consumed_cost t + used_cost,
                 tk_budget_version := tk_budget_version t + 1\<rparr>) db) (\<lambda>(changed, db').
        if changed \<noteq> 1 then Inl (Invalid (u ''ROOT_BUDGET_EXHAUSTED'')) else Inr db')
      else map_ok snd (update_tasks (\<lambda>t. tk_id t = task)
        (\<lambda>t. t\<lparr>tk_usage_complete := False, tk_budget_version := tk_budget_version t + 1\<rparr>) db))"

definition close_reservation ::
  "ustring \<Rightarrow> int \<Rightarrow> int option \<Rightarrow> int option \<Rightarrow> reservation_status \<Rightarrow> bool \<Rightarrow> ustring \<Rightarrow> task_db \<Rightarrow>
   db_error + task_db" where
  "close_reservation child version tokens cost status complete now db =
     and_then (update_reservations (\<lambda>v. rv_child v = child \<and> rv_status v = ReservationActive \<and> rv_version v = version)
       (\<lambda>v. v\<lparr>rv_used_tokens := tokens, rv_used_cost := cost, rv_status := status,
              rv_usage_complete := complete, rv_settled_at := Some now, rv_version := rv_version v + 1\<rparr>) db)
     (\<lambda>(changed, db'). if changed \<noteq> 1 then Inl (Invalid (u ''BUDGET_VERSION_CONFLICT'')) else Inr db')"

text \<open>Missing usage: the reservation stays charged and both rows lose their integrity.\<close>

definition settle_unknown :: "task_row \<Rightarrow> reservation_row \<Rightarrow> ustring \<Rightarrow> task_db \<Rightarrow> db_error + task_db" where
  "settle_unknown t v now db =
     and_then (close_reservation (tk_id t) (rv_version v) None None ReservationIncomplete False now db) (\<lambda>db1.
     map_ok snd (update_tasks (\<lambda>q. tk_id q \<in> {tk_id t, tk_root t})
       (\<lambda>q. q\<lparr>tk_usage_complete := False, tk_budget_version := tk_budget_version q + 1\<rparr>) db1))"

text \<open>An overrun: the grant stays reserved and the excess that still fits is charged to the account.\<close>

definition chargeable :: "int option \<Rightarrow> int \<Rightarrow> int \<Rightarrow> int \<Rightarrow> int \<Rightarrow> int \<Rightarrow> int" where
  "chargeable limit reserved consumed run active excess =
     (case limit of
        None \<Rightarrow> excess
      | Some l \<Rightarrow> min (max (sat_sub (sat_sub (sat_sub (sat_sub l reserved) consumed) run) active) 0) excess)"

definition owned_run :: "task_db \<Rightarrow> task_row \<Rightarrow> envelope_row option" where
  "owned_run db t = (case current_run db t of
     Some r \<Rightarrow> if rn_task r = tk_id t then Some r else None | None \<Rightarrow> None)"

definition charge_excess ::
  "ustring \<Rightarrow> int \<Rightarrow> int \<Rightarrow> task_db \<Rightarrow> db_error + task_db" where
  "charge_excess root tokens cost db =
     and_then (update_tasks (\<lambda>t. tk_id t = root \<and> tk_parent t = None \<and> tk_root t = tk_id t)
       (\<lambda>t. t\<lparr>tk_consumed_tokens := tk_consumed_tokens t + tokens,
              tk_consumed_cost := tk_consumed_cost t + cost,
              tk_budget_version := tk_budget_version t + 1\<rparr>) db) (\<lambda>(changed, db').
     if changed \<noteq> 1 then Inl (Invalid (u ''ROOT_BUDGET_ACCOUNT_NOT_FOUND'')) else Inr db')"

definition bump_budget :: "ustring \<Rightarrow> task_db \<Rightarrow> db_error + task_db" where
  "bump_budget task db =
     map_ok snd (update_tasks (\<lambda>t. tk_id t = task) (\<lambda>t. t\<lparr>tk_budget_version := tk_budget_version t + 1\<rparr>) db)"

definition settle_overrun ::
  "task_row \<Rightarrow> reservation_row \<Rightarrow> int \<Rightarrow> int \<Rightarrow> ustring \<Rightarrow> task_db \<Rightarrow> db_error + task_db" where
  "settle_overrun t v total_tokens total_cost now db =
     and_then (close_reservation (tk_id t) (rv_version v) (Some total_tokens) (Some total_cost)
       ReservationIncomplete True now db) (\<lambda>db1.
     and_then (one_row (root_account db1 (tk_root t))) (\<lambda>root.
       let token_excess = max (sat_sub total_tokens (case rv_tokens v of None \<Rightarrow> 0 | Some n \<Rightarrow> n)) 0;
           cost_excess = max (sat_sub total_cost (case rv_cost v of None \<Rightarrow> 0 | Some n \<Rightarrow> n)) 0;
           tokens = chargeable (tk_token_limit root) (tk_reserved_tokens root) (tk_consumed_tokens root)
             (case owned_run db1 root of None \<Rightarrow> 0 | Some r \<Rightarrow> rn_total r)
             (active_tokens db1 (tk_current_run root)) token_excess;
           cost = chargeable (tk_cost_limit root) (tk_reserved_cost root) (tk_consumed_cost root)
             (case owned_run db1 root of None \<Rightarrow> 0 | Some r \<Rightarrow> rn_cost r)
             (active_cost db1 (tk_current_run root)) cost_excess
       in and_then (charge_excess (tk_root t) tokens cost db1) (\<lambda>db2. bump_budget (tk_id t) db2)))"

text \<open>The regular case: the grant is released and the usage consumed.\<close>

definition release_grant ::
  "ustring \<Rightarrow> int \<Rightarrow> int \<Rightarrow> int \<Rightarrow> int \<Rightarrow> task_db \<Rightarrow> db_error + task_db" where
  "release_grant root reserved_tokens reserved_cost tokens cost db =
     and_then (update_tasks (\<lambda>t. tk_id t = root \<and> reserved_tokens \<le> tk_reserved_tokens t \<and>
         reserved_cost \<le> tk_reserved_cost t)
       (\<lambda>t. t\<lparr>tk_reserved_tokens := tk_reserved_tokens t - reserved_tokens,
              tk_reserved_cost := tk_reserved_cost t - reserved_cost,
              tk_consumed_tokens := tk_consumed_tokens t + tokens,
              tk_consumed_cost := tk_consumed_cost t + cost,
              tk_budget_version := tk_budget_version t + 1\<rparr>) db) (\<lambda>(changed, db').
     if changed \<noteq> 1 then Inl (Invalid (u ''ROOT_BUDGET_ACCOUNT_CORRUPT'')) else Inr db')"

definition settle_complete ::
  "task_row \<Rightarrow> reservation_row \<Rightarrow> int \<Rightarrow> int \<Rightarrow> ustring \<Rightarrow> task_db \<Rightarrow> db_error + task_db" where
  "settle_complete t v total_tokens total_cost now db =
     and_then (release_grant (tk_root t) (case rv_tokens v of None \<Rightarrow> 0 | Some n \<Rightarrow> n)
       (case rv_cost v of None \<Rightarrow> 0 | Some n \<Rightarrow> n) total_tokens total_cost db) (\<lambda>db1.
     and_then (close_reservation (tk_id t) (rv_version v) (Some total_tokens) (Some total_cost)
       ReservationSettled True now db1) (\<lambda>db2.
     map_ok snd (update_tasks (\<lambda>q. tk_id q = tk_id t)
       (\<lambda>q. q\<lparr>tk_consumed_tokens := total_tokens, tk_consumed_cost := total_cost,
              tk_budget_version := tk_budget_version q + 1\<rparr>) db2)))"

definition settle_child ::
  "task_row \<Rightarrow> int \<Rightarrow> int \<Rightarrow> bool \<Rightarrow> ustring \<Rightarrow> task_db \<Rightarrow> db_error + task_db" where
  "settle_child t used_tokens used_cost complete now db =
     (case find (\<lambda>v. rv_child v = tk_id t \<and> rv_root v = tk_root t) (db_reservations db) of
        None \<Rightarrow> Inl (Invalid (u ''CHILD_BUDGET_RESERVATION_NOT_FOUND''))
      | Some v \<Rightarrow>
          if rv_status v \<noteq> ReservationActive
          then Inl (Invalid (u ''CHILD_BUDGET_RESERVATION_ALREADY_TERMINAL''))
          else let total_tokens = sat_add (tk_consumed_tokens t) used_tokens;
                   total_cost = sat_add (tk_consumed_cost t) used_cost
               in if \<not> complete then settle_unknown t v now db
                  else if some_and (\<lambda>l. l < total_tokens) (rv_tokens v) \<or> some_and (\<lambda>l. l < total_cost) (rv_cost v)
                  then settle_overrun t v total_tokens total_cost now db
                  else settle_complete t v total_tokens total_cost now db)"

definition settle_task_budget :: "ustring \<Rightarrow> ustring \<Rightarrow> ustring \<Rightarrow> task_db \<Rightarrow> db_error + task_db" where
  "settle_task_budget task run now db =
     and_then (one_row (task_of db task)) (\<lambda>t.
     and_then (one_row (find (\<lambda>r. rn_id r = run \<and> rn_task r = task) (db_runs db))) (\<lambda>r.
       if tk_parent t = None then settle_root task (rn_total r) (rn_cost r) (rn_usage_complete r) db
       else settle_child t (rn_total r) (rn_cost r) (rn_usage_complete r) now db))"

subsection \<open>Configuration and reading\<close>

definition reserve_violated :: "int option \<Rightarrow> int \<Rightarrow> bool" where
  "reserve_violated limit reserved =
     some_and (\<lambda>l. sat_sub l (ceil_percent l ROOT_BUDGET_RESERVE_PERCENT) < reserved) limit"

definition configure_root_task_budget_cas ::
  "ustring \<Rightarrow> int \<Rightarrow> budget_limits \<Rightarrow> task_db \<Rightarrow> db_error + (cas_outcome \<times> task_db)" where
  "configure_root_task_budget_cas root expected limits db =
     and_then (validate_limits limits) (\<lambda>_.
       case root_account db root of
         None \<Rightarrow> Inr (NotFound, db)
       | Some t \<Rightarrow>
           if task_is_terminal (tk_status t) then Inr (InvalidTransition, db)
           else if tk_budget_version t \<noteq> expected then Inr (VersionConflict, db)
           else if reserve_violated (token_limit limits) (tk_reserved_tokens t) \<or>
                   reserve_violated (cost_limit limits) (tk_reserved_cost t)
           then Inl (Invalid (u ''ROOT_PARENT_RESERVE_VIOLATION''))
           else and_then (update_tasks (\<lambda>q. tk_id q = root \<and> tk_budget_version q = expected \<and>
                 pred_option (\<lambda>l. tk_consumed_tokens q + tk_reserved_tokens q \<le> l) (token_limit limits) \<and>
                 pred_option (\<lambda>l. tk_consumed_cost q + tk_reserved_cost q \<le> l) (cost_limit limits))
               (\<lambda>q. q\<lparr>tk_token_limit := token_limit limits, tk_cost_limit := cost_limit limits,
                      tk_deadline := deadline_at limits, tk_budget_version := tk_budget_version q + 1\<rparr>) db)
             (\<lambda>(changed, db'). Inr (if changed = 1 then Applied else InvalidTransition, db')))"

record budget_snapshot =
  bs_root :: ustring
  bs_limits :: budget_limits
  bs_reserved_tokens :: int
  bs_reserved_cost :: int
  bs_consumed_tokens :: int
  bs_consumed_cost :: int
  bs_available_tokens :: "int option"
  bs_available_cost :: "int option"
  bs_usage_complete :: bool
  bs_budget_version :: int
  bs_reservation :: "reservation_row option"

definition read_task_budget :: "ustring \<Rightarrow> task_db \<Rightarrow> budget_snapshot option" where
  "read_task_budget task db =
     (case Option.bind (task_of db task) (\<lambda>t. task_of db (tk_root t)) of
        None \<Rightarrow> None
      | Some r \<Rightarrow> Some
          \<lparr>bs_root = tk_id r,
           bs_limits = \<lparr>token_limit = tk_token_limit r, cost_limit = tk_cost_limit r, deadline_at = tk_deadline r\<rparr>,
           bs_reserved_tokens = tk_reserved_tokens r, bs_reserved_cost = tk_reserved_cost r,
           bs_consumed_tokens = tk_consumed_tokens r, bs_consumed_cost = tk_consumed_cost r,
           bs_available_tokens = map_option (\<lambda>l. sat_sub (sat_sub l (tk_reserved_tokens r)) (tk_consumed_tokens r))
             (tk_token_limit r),
           bs_available_cost = map_option (\<lambda>l. sat_sub (sat_sub l (tk_reserved_cost r)) (tk_consumed_cost r))
             (tk_cost_limit r),
           bs_usage_complete = tk_usage_complete r, bs_budget_version = tk_budget_version r,
           bs_reservation = find (\<lambda>v. rv_child v = task) (db_reservations db)\<rparr>)"

end
