(* ===== verification/Task_Calls.thy ===== *)
theory Task_Calls
  imports Task_Budget
begin

section \<open>The ledger of model calls\<close>

text \<open>
  The calls of \<open>crates/zk-db/src/runtime_ledger.rs\<close>: a physical request to a model provider reserves its
  worst case before it starts and reports its usage when it ends.
\<close>

record new_call =
  nc_id :: ustring
  nc_task :: ustring
  nc_run :: ustring
  nc_provider :: ustring
  nc_model :: ustring
  nc_route :: "ustring option"
  nc_request_id :: "ustring option"

record call_reservation =
  cr_input :: int
  cr_output :: int
  cr_cost :: int

definition no_reservation :: call_reservation where
  "no_reservation = \<lparr>cr_input = 0, cr_output = 0, cr_cost = 0\<rparr>"

record usage_completion =
  uc_input :: "int option"
  uc_output :: "int option"
  uc_cache_read :: "int option"
  uc_cache_create :: "int option"
  uc_cost :: "int option"
  uc_complete :: bool
  uc_error :: "ustring option"

text \<open>The rows a call is admitted against: the run, its task, whose current run it is, and the root.\<close>

record call_owner =
  co_run :: envelope_row
  co_task :: task_row
  co_root :: task_row

definition owner_of :: "task_db \<Rightarrow> ustring \<Rightarrow> ustring \<Rightarrow> call_owner option" where
  "owner_of db task run =
     Option.bind (find (\<lambda>r. rn_id r = run \<and> rn_task r = task) (db_runs db)) (\<lambda>r.
     Option.bind (find (\<lambda>t. tk_id t = task \<and> tk_current_run t = Some run) (db_tasks db)) (\<lambda>t.
     map_option (\<lambda>root. \<lparr>co_run = r, co_task = t, co_root = root\<rparr>) (task_of db (tk_root t))))"

definition owner_integrity :: "call_owner \<Rightarrow> usage_integrity" where
  "owner_integrity o' =
     \<lparr>run_usage_complete = rn_usage_complete (co_run o'), task_usage_complete = tk_usage_complete (co_task o'),
      root_task_usage_complete = tk_usage_complete (co_root o')\<rparr>"

definition read_llm_usage_integrity :: "task_db \<Rightarrow> ustring \<Rightarrow> ustring \<Rightarrow> usage_integrity option" where
  "read_llm_usage_integrity db task run = map_option owner_integrity (owner_of db task run)"

definition assert_llm_usage_complete :: "content_port \<Rightarrow> task_db \<Rightarrow> ustring \<Rightarrow> ustring \<Rightarrow> db_error + unit" where
  "assert_llm_usage_complete K db task run =
     (case read_llm_usage_integrity db task run of
        None \<Rightarrow> Inl (Invalid (u ''LLM_RUN_NOT_OWNED''))
      | Some i \<Rightarrow> and_then (usage_admissible K db run (integrity_is_complete i)) (\<lambda>ok.
          reject (\<not> ok) (Invalid (u ''BUDGET_USAGE_INCOMPLETE''))))"

text \<open>What is charged before the run: the whole account of a root, the consumption of a child.\<close>

definition prior_tokens :: "call_owner \<Rightarrow> int" where
  "prior_tokens o' =
     (if tk_parent (co_task o') = None
      then sat_add (tk_reserved_tokens (co_root o')) (tk_consumed_tokens (co_root o'))
      else tk_consumed_tokens (co_task o'))"

definition prior_cost :: "call_owner \<Rightarrow> int" where
  "prior_cost o' =
     (if tk_parent (co_task o') = None
      then sat_add (tk_reserved_cost (co_root o')) (tk_consumed_cost (co_root o'))
      else tk_consumed_cost (co_task o'))"

definition assert_task_run_budget_within_limits ::
  "content_port \<Rightarrow> int \<Rightarrow> task_db \<Rightarrow> ustring \<Rightarrow> ustring \<Rightarrow> db_error + unit" where
  "assert_task_run_budget_within_limits K now_ms db task run =
     (case owner_of db task run of
        None \<Rightarrow> Inl (Invalid (u ''LLM_RUN_NOT_OWNED''))
      | Some o' \<Rightarrow>
          and_then (usage_admissible K db run (integrity_is_complete (owner_integrity o'))) (\<lambda>ok.
          and_then (reject (\<not> ok) (Invalid (u ''BUDGET_USAGE_INCOMPLETE''))) (\<lambda>_.
          and_then (reject (some_and (\<lambda>d. d \<le> now_ms) (tk_deadline (co_task o')))
            (Invalid (u ''TASK_DEADLINE_EXCEEDED''))) (\<lambda>_.
          and_then (reject (some_and (\<lambda>l. l < sat_add (rn_total (co_run o')) (prior_tokens o'))
            (tk_token_limit (co_task o'))) (Invalid (u ''TOKEN_BUDGET_EXHAUSTED''))) (\<lambda>_.
          reject (some_and (\<lambda>l. l < sat_add (rn_cost (co_run o')) (prior_cost o'))
            (tk_cost_limit (co_task o'))) (Invalid (u ''COST_BUDGET_EXHAUSTED'')))))))"

subsection \<open>Starting a call\<close>

definition call_deadline ::
  "int \<Rightarrow> task_row \<Rightarrow> call_reservation option \<Rightarrow> db_error + unit" where
  "call_deadline now_ms t reservation =
     (case reservation of
        Some _ \<Rightarrow>
          and_then (reject (tk_deadline t = None) (Invalid (u ''LLM_BUDGET_NOT_CONFIGURED''))) (\<lambda>_.
          reject (some_and (\<lambda>d. d \<le> now_ms) (tk_deadline t)) (Invalid (u ''TASK_DEADLINE_EXCEEDED'')))
      | None \<Rightarrow>
          reject (tk_token_limit t \<noteq> None \<or> tk_cost_limit t \<noteq> None \<or> tk_deadline t \<noteq> None)
            (Invalid (u ''LLM_BUDGET_RESERVATION_REQUIRED'')))"

definition tokens_exhausted :: "task_db \<Rightarrow> call_owner \<Rightarrow> call_reservation \<Rightarrow> bool" where
  "tokens_exhausted db o' v =
     some_and (\<lambda>limit. limit <
         sat_add (sat_add (sat_add (rn_total (co_run o')) (prior_tokens o'))
           (active_tokens db (Some (rn_id (co_run o'))))) (sat_add (cr_input v) (cr_output v)))
       (tk_token_limit (co_task o'))"

definition cost_exhausted :: "task_db \<Rightarrow> call_owner \<Rightarrow> call_reservation \<Rightarrow> bool" where
  "cost_exhausted db o' v =
     (let charged = sat_add (sat_add (rn_cost (co_run o')) (prior_cost o'))
            (active_cost db (Some (rn_id (co_run o'))))
      in some_and (\<lambda>limit. limit \<le> charged \<or> limit < sat_add charged (cr_cost v)) (tk_cost_limit (co_task o')))"

definition started_call ::
  "new_call \<Rightarrow> call_reservation \<Rightarrow> ustring option \<Rightarrow> ustring option \<Rightarrow> call_row" where
  "started_call c v route request =
     \<lparr>lc_id = nc_id c, lc_task = nc_task c, lc_run = nc_run c, lc_provider = nc_provider c, lc_model = nc_model c,
      lc_route = route, lc_request_id = request, lc_status = CallStarted, lc_reserved_input = cr_input v,
      lc_reserved_output = cr_output v, lc_reserved_cost = cr_cost v, lc_input = None, lc_output = None,
      lc_cache_read = None, lc_cache_create = None, lc_cost = None, lc_usage_complete = False, lc_error = None,
      lc_finished_at = None\<rparr>"

text \<open>The insertion is conditional on the ownership, which the same transaction has just read, and on
  the admissible usage, which a reservation has required before.\<close>

definition start_llm_call_inner ::
  "content_port \<Rightarrow> int \<Rightarrow> new_call \<Rightarrow> call_reservation option \<Rightarrow> task_db \<Rightarrow> db_error + task_db" where
  "start_llm_call_inner K now_ms c reservation db =
     (case owner_of db (nc_task c) (nc_run c) of
        None \<Rightarrow> Inl (Invalid (u ''LLM_RUN_NOT_OWNED''))
      | Some o' \<Rightarrow>
          and_then (usage_admissible K db (nc_run c) (integrity_is_complete (owner_integrity o'))) (\<lambda>ok.
          and_then (reject (reservation \<noteq> None \<and> \<not> ok) (Invalid (u ''BUDGET_USAGE_INCOMPLETE''))) (\<lambda>_.
          and_then (reject (tk_status (co_task o') \<notin> {TaskRunning, TaskWaitingDependencies} \<or>
              rn_status (co_run o') \<notin> {RunRunning, RunWaitingDependencies})
            (Invalid (u ''LLM_RUN_NOT_ACTIVE''))) (\<lambda>_.
          and_then (call_deadline now_ms (co_task o') reservation) (\<lambda>_.
          let v = (case reservation of None \<Rightarrow> no_reservation | Some v \<Rightarrow> v) in
          and_then (reject (tokens_exhausted db o' v) (Invalid (u ''TOKEN_BUDGET_EXHAUSTED''))) (\<lambda>_.
          and_then (reject (cost_exhausted db o' v) (Invalid (u ''COST_BUDGET_EXHAUSTED''))) (\<lambda>_.
          and_then (run_session db (nc_run c)) (\<lambda>session.
          and_then (store_diagnostic K db session (nc_route c)) (\<lambda>route.
          and_then (store_diagnostic K db session (nc_request_id c)) (\<lambda>request.
          insert_call (started_call c v route request) db))))))))))"

definition start_llm_call :: "content_port \<Rightarrow> int \<Rightarrow> new_call \<Rightarrow> task_db \<Rightarrow> db_error + task_db" where
  "start_llm_call K now_ms c db = start_llm_call_inner K now_ms c None db"

definition start_llm_call_with_budget ::
  "content_port \<Rightarrow> int \<Rightarrow> new_call \<Rightarrow> call_reservation \<Rightarrow> task_db \<Rightarrow> db_error + task_db" where
  "start_llm_call_with_budget K now_ms c v db =
     (if cr_input v < 0 \<or> cr_output v \<le> 0 \<or> cr_cost v < 0
      then Inl (Invalid (u ''LLM_BUDGET_RESERVATION_INVALID''))
      else start_llm_call_inner K now_ms c (Some v) db)"

subsection \<open>Finishing a call\<close>

definition amount :: "int option \<Rightarrow> int" where
  "amount v = (case v of None \<Rightarrow> 0 | Some n \<Rightarrow> n)"

definition finish_row :: "call_status \<Rightarrow> usage_completion \<Rightarrow> ustring option \<Rightarrow> ustring \<Rightarrow> call_row \<Rightarrow> call_row" where
  "finish_row status us error now c =
     c\<lparr>lc_status := status, lc_input := uc_input us, lc_output := uc_output us,
       lc_cache_read := uc_cache_read us, lc_cache_create := uc_cache_create us, lc_cost := uc_cost us,
       lc_usage_complete := uc_complete us, lc_error := error, lc_finished_at := Some now\<rparr>"

definition add_usage :: "usage_completion \<Rightarrow> envelope_row \<Rightarrow> envelope_row" where
  "add_usage us r =
     r\<lparr>rn_input := rn_input r + amount (uc_input us), rn_output := rn_output r + amount (uc_output us),
       rn_cache_read := rn_cache_read r + amount (uc_cache_read us),
       rn_cache_create := rn_cache_create r + amount (uc_cache_create us),
       rn_cost := rn_cost r + amount (uc_cost us),
       rn_total := rn_total r + amount (uc_input us) + amount (uc_output us),
       rn_usage_complete := (if uc_complete us then rn_usage_complete r else False)\<rparr>"

text \<open>The tasks whose usage a run counts for: its own and their root.\<close>

definition usage_owner :: "task_db \<Rightarrow> ustring \<Rightarrow> task_row \<Rightarrow> bool" where
  "usage_owner db run t =
     list_ex (\<lambda>r. rn_id r = run \<and>
       list_ex (\<lambda>owner. tk_id owner = rn_task r \<and> tk_id t \<in> {tk_id owner, tk_root owner}) (db_tasks db)) (db_runs db)"

definition finish_llm_call ::
  "content_port \<Rightarrow> ustring \<Rightarrow> ustring \<Rightarrow> call_status \<Rightarrow> usage_completion \<Rightarrow> task_db \<Rightarrow>
   db_error + (cas_outcome \<times> task_db)" where
  "finish_llm_call K now call status us db =
     (if status = CallStarted then Inl (Invalid (u ''LLM_CALL_STATUS_INVALID''))
      else if uc_complete us \<and> (uc_input us = None \<or> uc_output us = None \<or>
          uc_cache_read us = None \<or> uc_cache_create us = None)
      then Inl (Invalid (u ''LLM_USAGE_INCOMPLETE''))
      else (case find (\<lambda>c. lc_id c = call \<and> lc_status c = CallStarted) (db_calls db) of
        None \<Rightarrow> Inr (if list_ex (\<lambda>c. lc_id c = call) (db_calls db) then InvalidTransition else NotFound, db)
      | Some c \<Rightarrow>
          and_then (run_session db (lc_run c)) (\<lambda>session.
          and_then (store_ledger_diagnostic K db session (uc_error us)) (\<lambda>error.
          and_then (update_calls (\<lambda>q. lc_id q = call \<and> lc_status q = CallStarted)
            (finish_row status us error now) db) (\<lambda>(_, db1).
          and_then (update_runs (\<lambda>r. rn_id r = lc_run c) (add_usage us) db1) (\<lambda>(_, db2).
          if uc_complete us then Inr (Applied, db2)
          else map_ok (\<lambda>(_, db3). (Applied, db3))
            (update_tasks (usage_owner db2 (lc_run c)) (\<lambda>t. t\<lparr>tk_usage_complete := False\<rparr>) db2)))))))"

end
