(* ===== verification/Task_Runtime.thy ===== *)
theory Task_Runtime
  imports Task_Calls
begin

section \<open>The task runtime\<close>

text \<open>
  \<open>crates/zk-db/src/task_runtime.rs\<close>: the submission of a task with its first run, the claim of a
  queued run, the other transitions of a task, and the quarantine of a task whose durability is in
  doubt. An operation whose transaction is not committed returns the tables it was given.
\<close>

subsection \<open>Identifiers\<close>

text \<open>A canonical version 4 identifier: lower-case hexadecimal digits in groups of 8, 4, 4, 4 and 12,
  the version digit at index 14. A string that the \<open>uuid\<close> crate parses and prints back unchanged.\<close>

definition is_hex :: "nat \<Rightarrow> bool" where
  "is_hex c = (48 \<le> c \<and> c \<le> 57 \<or> 97 \<le> c \<and> c \<le> 102)"

definition is_uuid_v4 :: "ustring \<Rightarrow> bool" where
  "is_uuid_v4 s =
     (length s = 36 \<and>
      list_all (\<lambda>i. if i \<in> {8, 13, 18, 23} then s ! i = 45 else is_hex (s ! i)) [0..<36] \<and> s ! 14 = 52)"

definition require_uuid_v4 :: "ustring \<Rightarrow> ustring \<Rightarrow> db_error + unit" where
  "require_uuid_v4 i field = reject (\<not> is_uuid_v4 i) (Invalid (field @ u ''_MUST_BE_UUID_V4''))"

subsection \<open>Compare and set\<close>

definition task_with :: "ustring \<Rightarrow> int \<Rightarrow> task_status \<Rightarrow> task_row \<Rightarrow> bool" where
  "task_with i version status t = (tk_id t = i \<and> tk_version t = version \<and> tk_status t = status)"

definition transition_task_cas ::
  "content_port \<Rightarrow> ustring \<Rightarrow> int \<Rightarrow> task_status list \<Rightarrow> task_status \<Rightarrow> ustring option \<Rightarrow> cleanup_status \<Rightarrow>
   verification_status \<Rightarrow> task_db \<Rightarrow> db_error + (cas_outcome \<times> task_db)" where
  "transition_task_cas K task version expected target reason cleanup verification db =
     (if task_is_terminal target then Inr (InvalidTransition, db)
      else (case task_of db task of
        None \<Rightarrow> Inr (NotFound, db)
      | Some t \<Rightarrow>
          if task_is_terminal (tk_status t) then Inr (InvalidTransition, db)
          else if tk_version t \<noteq> version then Inr (VersionConflict, db)
          else if tk_status t \<notin> set expected then Inr (InvalidTransition, db)
          else
            and_then (store_diagnostic K db (tk_session t) reason) (\<lambda>stored.
            and_then (update_tasks (task_with task version (tk_status t))
              (\<lambda>q. q\<lparr>tk_status := target, tk_reason := stored, tk_cleanup := cleanup,
                     tk_verification := verification, tk_terminal_at := None, tk_version := tk_version q + 1\<rparr>) db)
            (\<lambda>(changed, db'). Inr (if changed = 1 then Applied else VersionConflict, db')))))"

definition claim_missed :: "task_db \<Rightarrow> ustring \<Rightarrow> int \<Rightarrow> cas_outcome" where
  "claim_missed db task version =
     (case task_of db task of
        None \<Rightarrow> NotFound
      | Some t \<Rightarrow> if tk_version t \<noteq> version then VersionConflict else InvalidTransition)"

definition claim_task_run_cas ::
  "crates \<Rightarrow> content_port \<Rightarrow> ustring \<Rightarrow> ustring \<Rightarrow> int \<Rightarrow> task_db \<Rightarrow> db_error + (cas_outcome \<times> task_db)" where
  "claim_task_run_cas cr K task run version db =
     and_then (update_tasks (\<lambda>t. task_with task version TaskQueued t \<and> tk_current_run t = Some run)
       (\<lambda>t. t\<lparr>tk_status := TaskRunning, tk_reason := None, tk_version := tk_version t + 1\<rparr>) db) (\<lambda>(changed, db1).
     if changed \<noteq> 1 then Inr (claim_missed db task version, db)
     else
       and_then (update_runs (\<lambda>r. rn_id r = run \<and> rn_task r = task \<and> rn_status r = RunQueued)
         (\<lambda>r. r\<lparr>rn_status := RunRunning, rn_version := rn_version r + 1\<rparr>) db1) (\<lambda>(run_changed, db2).
       if run_changed \<noteq> 1 then Inr (InvalidTransition, db)
       else
         and_then (append_event cr K run (u ''task_claimed'') None
           (json_obj [(u ''taskId'', JStr task), (u ''status'', JStr (u ''running''))]) db2) (\<lambda>db3.
         Inr (Applied, db3))))"

subsection \<open>The inbox of a closed run\<close>

definition pending_for :: "ustring \<Rightarrow> inbox_row \<Rightarrow> bool" where
  "pending_for run i =
     (ib_target_run i = Some run \<and> ib_status i \<in> {InboxQueued, InboxDelivered})"

definition reject_pending_for_run :: "crates \<Rightarrow> content_port \<Rightarrow> ustring \<Rightarrow> task_db \<Rightarrow> db_error + task_db" where
  "reject_pending_for_run cr K run db =
     and_then (one_row (Option.bind (run_of db run) (\<lambda>r. task_of db (rn_task r)))) (\<lambda>owner.
     let pending = matching (pending_for run) (db_inbox db) in
     if pending = 0 then Inr db
     else
       and_then (store_diagnostic K db (tk_session owner) (Some (u ''INBOX_TARGET_RUN_CLOSED''))) (\<lambda>reason.
       append_event cr K run (u ''task_inbox_closed'') None (json_obj [(u ''rejectedCount'', JNum (int pending))])
         (db\<lparr>db_inbox := update_where (pending_for run)
           (\<lambda>i. i\<lparr>ib_status := InboxRejected, ib_reason := reason, ib_generation := ib_generation i + 1\<rparr>)
           (db_inbox db)\<rparr>)))"

subsection \<open>Quarantine\<close>

datatype attention_outcome =
  Marked | AlreadyMarked | AttentionVersionConflict | AttentionInvalidRun | AttentionAlreadyTerminal | AttentionNotFound

definition ACTIVE_TASK :: "task_status list" where
  "ACTIVE_TASK = [TaskQueued, TaskRunning, TaskWaitingDependencies, TaskWaitingInteraction, TaskCancelling]"

definition ACTIVE_RUN :: "run_status list" where
  "ACTIVE_RUN = [RunQueued, RunRunning, RunWaitingDependencies, RunWaitingInteraction, RunCancelling]"

definition quarantine ::
  "crates \<Rightarrow> content_port \<Rightarrow> ustring \<Rightarrow> task_row \<Rightarrow> ustring \<Rightarrow> ustring \<Rightarrow> cleanup_status \<Rightarrow> task_db \<Rightarrow>
   db_error + (attention_outcome \<times> task_db)" where
  "quarantine cr K now t run reason cleanup db =
     and_then (store_diagnostic K db (tk_session t) (Some reason)) (\<lambda>stored.
     and_then (update_tasks (\<lambda>q. tk_id q = tk_id t \<and> tk_version q = tk_version t \<and> tk_current_run q = Some run \<and>
         tk_status q \<in> set ACTIVE_TASK)
       (\<lambda>q. q\<lparr>tk_status := TaskNeedsAttention, tk_reason := stored, tk_cleanup := cleanup,
              tk_verification := Blocked, tk_version := tk_version q + 1\<rparr>) db) (\<lambda>(changed, db1).
     if changed \<noteq> 1 then Inr (AttentionVersionConflict, db)
     else
       and_then (update_runs (\<lambda>r. rn_id r = run \<and> rn_task r = tk_id t \<and> rn_status r \<in> set ACTIVE_RUN)
         (\<lambda>r. r\<lparr>rn_status := RunInterrupted, rn_exit := Some InternalError, rn_error := stored,
                rn_cleanup := cleanup, rn_verification := Blocked, rn_terminal_at := Some now,
                rn_version := rn_version r + 1\<rparr>) db1) (\<lambda>(run_changed, db2).
       if run_changed \<noteq> 1 then Inl (Invalid (u ''TASK_RUN_NEEDS_ATTENTION_MISMATCH''))
       else
         and_then (reject_pending_for_run cr K run db2) (\<lambda>db3.
         and_then (append_event cr K run (u ''task_needs_attention'') None
           (json_obj [(u ''protocolVersion'', JNum 4), (u ''taskId'', JStr (tk_id t)), (u ''runId'', JStr run),
                  (u ''reason'', JStr reason)]) db3) (\<lambda>db4.
         Inr (Marked, db4))))))"

definition mark_task_run_needs_attention ::
  "crates \<Rightarrow> content_port \<Rightarrow> ustring \<Rightarrow> ustring \<Rightarrow> ustring \<Rightarrow> int \<Rightarrow> ustring \<Rightarrow> cleanup_status \<Rightarrow> task_db \<Rightarrow>
   db_error + (attention_outcome \<times> task_db)" where
  "mark_task_run_needs_attention cr K now task run version reason cleanup db =
     (if rust_trim reason = [] then Inl (Invalid (u ''TASK_NEEDS_ATTENTION_REASON_REQUIRED''))
      else (case task_of db task of
        None \<Rightarrow> Inr (AttentionNotFound, db)
      | Some t \<Rightarrow>
          if tk_status t = TaskNeedsAttention then Inr (AlreadyMarked, db)
          else if task_is_terminal (tk_status t) then Inr (AttentionAlreadyTerminal, db)
          else if tk_version t \<noteq> version then Inr (AttentionVersionConflict, db)
          else if tk_current_run t \<noteq> Some run then Inr (AttentionInvalidRun, db)
          else (case find (\<lambda>r. rn_id r = run \<and> rn_task r = task) (db_runs db) of
            None \<Rightarrow> Inr (AttentionInvalidRun, db)
          | Some r \<Rightarrow>
              if run_is_terminal (rn_status r) then Inr (AttentionInvalidRun, db)
              else quarantine cr K now t run (concat (take 2048 (chars reason))) cleanup db)))"

end
