(* ===== verification/Task_Submit.thy ===== *)
theory Task_Submit
  imports Task_Runtime
begin

section \<open>The submission of a task\<close>

text \<open>
  \<open>Db::create_task_with_run\<close> of \<open>crates/zk-db/src/task_runtime.rs\<close>: one transaction that creates the
  logical task, its first queued run, the internal session of a child, the reservation of its budget,
  the edge to its parent, which then waits, and the first event; or replays an equal submission. The
  clock is read twice: for the deadline of a root and for the reservation of a child.
\<close>

subsection \<open>Request and outcome\<close>

record create_request =
  cq_task :: ustring
  cq_run :: ustring
  cq_root_session :: ustring
  cq_transcript :: ustring
  cq_parent_task :: "ustring option"
  cq_parent_run :: "ustring option"
  cq_tool_use :: "ustring option"
  cq_ordinal :: int
  cq_description :: ustring
  cq_prompt :: "ustring option"
  cq_type :: ustring
  cq_model :: ustring
  cq_dir :: ustring
  cq_config :: ustring
  cq_epoch :: int

record create_outcome =
  ou_task :: task_row
  ou_run :: ustring
  ou_transcript :: ustring
  ou_created :: bool

text \<open>\<open>map_runtime_task\<close>: the row with its texts materialised.\<close>

definition load_task :: "content_port \<Rightarrow> task_db \<Rightarrow> task_row \<Rightarrow> db_error + task_row" where
  "load_task K db t =
     and_then (load_row_text K db (tk_session t) (tk_description t)) (\<lambda>description.
     and_then (load_optional K db (tk_session t) (tk_prompt t)) (\<lambda>prompt.
     and_then (load_reason K db (tk_session t) (tk_reason t)) (\<lambda>reason.
     and_then (load_optional K db (tk_session t) (tk_plan t)) (\<lambda>plan.
     and_then (load_row_text K db (tk_session t) (tk_config t)) (\<lambda>config.
     and_then (load_optional K db (tk_session t) (tk_display t)) (\<lambda>display.
     Inr (t\<lparr>tk_description := description, tk_prompt := prompt, tk_reason := reason, tk_plan := plan,
       tk_config := config, tk_display := display\<rparr>)))))))"

definition find_runtime_task_by_id ::
  "content_port \<Rightarrow> task_db \<Rightarrow> ustring \<Rightarrow> db_error + task_row option" where
  "find_runtime_task_by_id K db i = optionally (load_task K db) (task_of db i)"

subsection \<open>Validation\<close>

definition json_member :: "json \<Rightarrow> ustring \<Rightarrow> json option" where
  "json_member v k = (case v of JObj m \<Rightarrow> json_get m k | _ \<Rightarrow> None)"

definition lifecycle_of :: "json \<Rightarrow> ustring" where
  "lifecycle_of config =
     (case Option.bind (json_member config (u ''lifecycle'')) json_string of
        None \<Rightarrow> u ''attached'' | Some l \<Rightarrow> l)"

definition lifecycle_invalid :: "create_request \<Rightarrow> json \<Rightarrow> bool" where
  "lifecycle_invalid q config =
     (some_and (\<lambda>v. json_string v = None) (json_member config (u ''lifecycle'')) \<or>
      lifecycle_of config \<notin> {u ''attached'', u ''detached''} \<or>
      lifecycle_of config = u ''detached'' \<and> cq_parent_task q = None)"

definition has_parent :: "create_request \<Rightarrow> bool" where
  "has_parent q = (cq_parent_task q \<noteq> None \<or> cq_parent_run q \<noteq> None)"

definition validate_submission :: "crates \<Rightarrow> create_request \<Rightarrow> db_error + (ustring \<times> budget_limits)" where
  "validate_submission cr q =
     and_then (require_uuid_v4 (cq_task q) (u ''TASK_ID'')) (\<lambda>_.
     and_then (require_uuid_v4 (cq_run q) (u ''RUN_ID'')) (\<lambda>_.
     and_then (if cq_transcript q = cq_root_session q then Inr ()
               else require_uuid_v4 (cq_transcript q) (u ''TRANSCRIPT_SESSION_ID'')) (\<lambda>_.
     and_then (reject (cq_ordinal q < 0 \<or> cq_epoch q < 0)
       (Invalid (u ''TASK_SUBMISSION_NEGATIVE_COUNTER''))) (\<lambda>_.
     and_then (reject (cq_type q \<notin> {u ''agent'', u ''cron'', u ''shell'', u ''mcp'', u ''repl''})
       (Invalid (u ''UNSUPPORTED_CAPABILITY''))) (\<lambda>_.
     and_then (reject (cq_type q = u ''mcp'' \<and> has_parent q) (Invalid (u ''MCP_ROOT_TASK_REQUIRED''))) (\<lambda>_.
     and_then (reject (cq_type q = u ''repl'' \<and> (has_parent q \<or> cq_transcript q = cq_root_session q))
       (Invalid (u ''REPL_SERVICE_INTERNAL_TRANSCRIPT_REQUIRED''))) (\<lambda>_.
     and_then (parse_json cr (cq_config q)) (\<lambda>config.
     and_then (reject (lifecycle_invalid q config) (Invalid (u ''TASK_LIFECYCLE_INVALID''))) (\<lambda>_.
     and_then (parse_execution_budget cr (cq_config q)) (\<lambda>limits.
     Inr (lifecycle_of config, limits)))))))))))"

subsection \<open>Replay\<close>

definition joined_run :: "task_db \<Rightarrow> task_row \<Rightarrow> (envelope_row \<times> conversation_row) option" where
  "joined_run db t =
     Option.bind (current_run db t) (\<lambda>r. map_option (Pair r) (session_of db (rn_session r)))"

definition existing_submission ::
  "task_db \<Rightarrow> create_request \<Rightarrow> (task_row \<times> envelope_row \<times> conversation_row) option" where
  "existing_submission db q =
     (case (cq_parent_run q, cq_tool_use q) of
        (Some run, Some tool) \<Rightarrow>
          Option.bind (find (\<lambda>t. tk_creator_run t = Some run \<and> tk_tool_use t = Some tool \<and>
              tk_ordinal t = cq_ordinal q \<and> joined_run db t \<noteq> None) (db_tasks db))
            (\<lambda>t. map_option (Pair t) (joined_run db t))
      | _ \<Rightarrow> None)"

definition same_submission ::
  "create_request \<Rightarrow> task_row \<Rightarrow> envelope_row \<Rightarrow> conversation_row \<Rightarrow> ustring \<Rightarrow> ustring option \<Rightarrow> ustring \<Rightarrow> bool" where
  "same_submission q t r s description prompt config =
     (tk_session t = cq_root_session q \<and> tk_parent t = cq_parent_task q \<and> rn_parent r = cq_parent_run q \<and>
      tk_tool_use t = cq_tool_use q \<and> tk_ordinal t = cq_ordinal q \<and> description = cq_description q \<and>
      prompt = cq_prompt q \<and> tk_type t = cq_type q \<and> config = cq_config q \<and> rn_epoch r = cq_epoch q \<and>
      rn_model r = cq_model q \<and> se_working_dir s = cq_dir q)"

definition replay ::
  "content_port \<Rightarrow> task_db \<Rightarrow> create_request \<Rightarrow> task_row \<Rightarrow> envelope_row \<Rightarrow> conversation_row \<Rightarrow>
   db_error + create_outcome" where
  "replay K db q t r s =
     and_then (load_text K db (tk_session t) (tk_description t)) (\<lambda>description.
     and_then (load_optional K db (tk_session t) (tk_prompt t)) (\<lambda>prompt.
     and_then (load_text K db (tk_session t) (tk_config t)) (\<lambda>config.
     and_then (reject (\<not> same_submission q t r s description prompt config)
       (Invalid (u ''TASK_IDEMPOTENCY_MISMATCH''))) (\<lambda>_.
     and_then (one_row (task_of db (tk_id t))) (\<lambda>row.
     and_then (load_task K db row) (\<lambda>task.
     Inr \<lparr>ou_task = task, ou_run = rn_id r, ou_transcript = rn_session r, ou_created = False\<rparr>))))))"

subsection \<open>Admission\<close>

definition require_conversation :: "task_db \<Rightarrow> ustring \<Rightarrow> db_error + unit" where
  "require_conversation db s =
     reject (list_ex (\<lambda>t. tk_session t = s \<and> tk_type t = u ''mcp'' \<and> tk_parent t = None) (db_tasks db))
       (Validation (u ''MCP_SESSION_DEDICATED''))"

definition require_service :: "task_db \<Rightarrow> ustring \<Rightarrow> db_error + unit" where
  "require_service db s =
     reject (list_ex (\<lambda>t. tk_session t = s \<and> tk_parent t = None \<and> tk_type t \<noteq> u ''mcp'') (db_tasks db) \<or>
         (list_ex (\<lambda>m. ms_session m = s) (db_messages db) \<and>
          \<not> list_ex (\<lambda>t. tk_session t = s \<and> tk_type t = u ''mcp'') (db_tasks db)))
       (Validation (u ''MCP_SESSION_NOT_EMPTY''))"

text \<open>The three statuses of a parent that may delegate; its run has the same status.\<close>

definition runnable_pair :: "task_status \<Rightarrow> run_status \<Rightarrow> bool" where
  "runnable_pair t r =
     ((t, r) \<in> {(TaskQueued, RunQueued), (TaskRunning, RunRunning), (TaskWaitingDependencies, RunWaitingDependencies)})"

definition parent_state :: "task_db \<Rightarrow> create_request \<Rightarrow> ustring \<Rightarrow> ustring \<Rightarrow> db_error + (task_row \<times> envelope_row)" where
  "parent_state db q parent run =
     (case (find (\<lambda>t. tk_id t = parent \<and> tk_session t = cq_root_session q) (db_tasks db), run_of db run) of
        (Some t, Some r) \<Rightarrow>
          and_then (reject (rn_task r \<noteq> parent \<or> tk_parent t \<noteq> None)
            (Invalid (u ''RECURSIVE_DELEGATION_DISABLED''))) (\<lambda>_.
          and_then (reject (tk_current_run t \<noteq> Some run) (Invalid (u ''PARENT_RUN_STALE''))) (\<lambda>_.
          and_then (reject (\<not> runnable_pair (tk_status t) (rn_status r)) (Invalid (u ''PARENT_NOT_RUNNABLE''))) (\<lambda>_.
          Inr (t, r))))
      | _ \<Rightarrow> Inl (Invalid (u ''TASK_PARENT_NOT_FOUND'')))"

text \<open>The root of the new task and, for a child, its parent and the run of the parent.\<close>

definition resolve_parent ::
  "task_db \<Rightarrow> create_request \<Rightarrow> db_error + (ustring \<times> (task_row \<times> envelope_row) option)" where
  "resolve_parent db q =
     and_then (reject (matching (\<lambda>s. se_id s = cq_root_session q \<and> se_kind s = u ''root'') (db_sessions db) \<noteq> 1)
       (Invalid (u ''ROOT_SESSION_NOT_FOUND''))) (\<lambda>_.
     and_then (reject (has_parent q \<noteq> (cq_parent_task q \<noteq> None \<and> cq_parent_run q \<noteq> None))
       (Invalid (u ''TASK_PARENT_IDENTITY_INCOMPLETE''))) (\<lambda>_.
     and_then (reject (has_parent q \<and> cq_type q = u ''cron'') (Invalid (u ''CRON_ROOT_TASK_REQUIRED''))) (\<lambda>_.
     case (cq_parent_task q, cq_parent_run q) of
       (Some parent, Some run) \<Rightarrow> map_ok (\<lambda>(t, r). (tk_root t, Some (t, r))) (parent_state db q parent run)
     | _ \<Rightarrow>
         and_then (reject (cq_transcript q \<noteq> cq_root_session q \<and> cq_type q \<noteq> u ''repl'')
           (Invalid (u ''ROOT_TASK_TRANSCRIPT_MISMATCH''))) (\<lambda>_. Inr (cq_task q, None)))))"

definition admit_session :: "task_db \<Rightarrow> create_request \<Rightarrow> db_error + unit" where
  "admit_session db q =
     (if has_parent q then Inr ()
      else if cq_type q = u ''mcp'' then require_service db (cq_root_session q)
      else require_conversation db (cq_root_session q))"

definition ephemeral_unsupported :: "content_retention \<Rightarrow> ustring \<Rightarrow> create_request \<Rightarrow> bool" where
  "ephemeral_unsupported retention lifecycle q =
     (retention = Ephemeral \<and> (lifecycle \<noteq> u ''attached'' \<or> cq_type q \<notin> {u ''agent'', u ''shell''}))"

subsection \<open>The rows\<close>

definition new_task ::
  "create_request \<Rightarrow> ustring \<Rightarrow> ustring \<Rightarrow> ustring option \<Rightarrow> ustring \<Rightarrow> ustring \<Rightarrow> budget_limits \<Rightarrow> task_row" where
  "new_task q root description prompt config lifecycle limits =
     (let l = (if has_parent q then no_limits else limits) in
     \<lparr>tk_id = cq_task q, tk_session = cq_root_session q, tk_parent = cq_parent_task q, tk_root = root,
      tk_current_run = None, tk_creator_run = cq_parent_run q, tk_tool_use = cq_tool_use q,
      tk_ordinal = cq_ordinal q, tk_description = description, tk_prompt = prompt, tk_type = cq_type q,
      tk_status = TaskQueued, tk_reason = None, tk_plan = None, tk_display = None, tk_config = config,
      tk_lifecycle = lifecycle, tk_cleanup = CleanupNotRequired, tk_verification = NotRequested,
      tk_token_limit = token_limit l, tk_cost_limit = cost_limit l, tk_deadline = deadline_at l,
      tk_reserved_tokens = 0, tk_reserved_cost = 0, tk_consumed_tokens = 0, tk_consumed_cost = 0,
      tk_budget_version = 0, tk_usage_complete = True, tk_version = 0, tk_terminal_at = None\<rparr>)"

definition agent_type :: "create_request \<Rightarrow> ustring" where
  "agent_type q =
     (if has_parent q then u ''subagent''
      else if cq_type q \<in> {u ''cron'', u ''mcp'', u ''repl''} then cq_type q else u ''query'')"

definition new_run :: "create_request \<Rightarrow> envelope_row" where
  "new_run q =
     \<lparr>rn_id = cq_run q, rn_session = cq_transcript q, rn_task = cq_task q, rn_attempt = 1, rn_epoch = cq_epoch q,
      rn_parent = cq_parent_run q, rn_status = RunQueued, rn_version = 0, rn_agent_type = agent_type q,
      rn_model = cq_model q, rn_input = 0, rn_output = 0, rn_cache_read = 0, rn_cache_create = 0, rn_cost = 0,
      rn_total = 0, rn_usage_complete = True, rn_exit = None, rn_requested = None, rn_waiting = None,
      rn_abort = None, rn_error = None, rn_cleanup = CleanupNotRequired, rn_verification = NotRequested,
      rn_terminal_at = None\<rparr>"

definition internal_session :: "create_request \<Rightarrow> content_retention \<Rightarrow> conversation_row" where
  "internal_session q retention =
     \<lparr>se_id = cq_transcript q, se_kind = u ''internal'', se_parent_session = Some (cq_root_session q),
      se_parent_task = Some (cq_task q), se_model = cq_model q, se_working_dir = cq_dir q,
      se_retention = retention_as_str retention, se_input = 0, se_output = 0, se_cache_read = 0,
      se_cache_create = 0\<rparr>"

definition submission_conflict :: "task_db \<Rightarrow> create_request \<Rightarrow> insert_error \<Rightarrow> db_error" where
  "submission_conflict db q e = (case e of
     UniqueViolation \<Rightarrow>
       if task_of db (cq_task q) \<noteq> None then Invalid (u ''TASK_IDEMPOTENCY_CONFLICT'')
       else Sqlite (u ''UNIQUE constraint failed'')
   | OtherViolation m \<Rightarrow> Sqlite m)"

definition create_session ::
  "content_port \<Rightarrow> create_request \<Rightarrow> content_retention \<Rightarrow> task_db \<Rightarrow> db_error + task_db" where
  "create_session K q retention db =
     (if has_parent q \<or> cq_type q = u ''repl'' then
        and_then (reject (cq_transcript q = cq_root_session q) (Invalid (u ''CHILD_TRANSCRIPT_MUST_BE_INTERNAL''))) (\<lambda>_.
        and_then (attach_session K db (cq_root_session q) (cq_transcript q)) (\<lambda>_.
        insert_session (internal_session q retention) db))
      else Inr db)"

text \<open>An attached child makes its parent and the run of the parent wait.\<close>

definition wait_for_child ::
  "crates \<Rightarrow> content_port \<Rightarrow> create_request \<Rightarrow> task_row \<Rightarrow> envelope_row \<Rightarrow> task_db \<Rightarrow> db_error + task_db" where
  "wait_for_child cr K q t r db =
     and_then (update_tasks (\<lambda>k. tk_id k = tk_id t \<and> tk_current_run k = Some (rn_id r) \<and> tk_status k = tk_status t)
       (\<lambda>k. k\<lparr>tk_status := TaskWaitingDependencies, tk_reason := Some (u ''attachedChildrenPending''),
              tk_version := tk_version k + 1\<rparr>) db) (\<lambda>(n, db1).
     and_then (update_runs (\<lambda>k. rn_id k = rn_id r \<and> rn_task k = tk_id t \<and> rn_status k = rn_status r)
       (\<lambda>k. k\<lparr>rn_status := RunWaitingDependencies, rn_waiting := Some (u ''attachedChildrenPending''),
              rn_version := rn_version k + 1\<rparr>) db1) (\<lambda>(m, db2).
     if n \<noteq> 1 \<or> m \<noteq> 1 then Inl (Invalid (u ''PARENT_WAITING_DEPENDENCIES_MISMATCH''))
     else append_event cr K (rn_id r) (u ''task_waiting_dependencies'') None
       (json_obj [(u ''taskId'', JStr (tk_id t)), (u ''childTaskId'', JStr (cq_task q)),
              (u ''reason'', JStr (u ''attachedChildrenPending''))]) db2))"

definition link_parent ::
  "crates \<Rightarrow> content_port \<Rightarrow> create_request \<Rightarrow> ustring \<Rightarrow> (task_row \<times> envelope_row) option \<Rightarrow> task_db \<Rightarrow>
   db_error + task_db" where
  "link_parent cr K q lifecycle parent db =
     (case parent of
        None \<Rightarrow> Inr db
      | Some (t, r) \<Rightarrow>
          and_then (insert_dependency \<lparr>dp_parent = tk_id t, dp_child = cq_task q, dp_lifecycle = lifecycle,
            dp_required = (lifecycle = u ''attached''), dp_consumed = None\<rparr> db) (\<lambda>db1.
          if lifecycle = u ''attached'' \<and> tk_status t \<noteq> TaskWaitingDependencies
          then wait_for_child cr K q t r db1 else Inr db1))"

definition created_event :: "create_request \<Rightarrow> json" where
  "created_event q =
     json_obj [(u ''protocolVersion'', JNum 4), (u ''taskId'', JStr (cq_task q)), (u ''runId'', JStr (cq_run q)),
           (u ''parentTaskId'', case cq_parent_task q of None \<Rightarrow> JNull | Some p \<Rightarrow> JStr p)]"

subsection \<open>The transaction\<close>

text \<open>From the admitted request to the last row.\<close>

definition write_submission ::
  "crates \<Rightarrow> content_port \<Rightarrow> int \<Rightarrow> create_request \<Rightarrow> ustring \<Rightarrow> budget_limits \<Rightarrow> content_retention \<Rightarrow> ustring \<Rightarrow>
   (task_row \<times> envelope_row) option \<Rightarrow> task_db \<Rightarrow> db_error + (create_outcome \<times> task_db)" where
  "write_submission cr K later_ms q lifecycle limits retention root parent db =
     and_then (store_text K db (cq_root_session q) (cq_description q)) (\<lambda>description.
     and_then (store_optional K db (cq_root_session q) (cq_prompt q)) (\<lambda>prompt.
     and_then (store_text K db (cq_root_session q) (cq_config q)) (\<lambda>config.
     and_then (case insert_task (new_task q root description prompt config lifecycle limits) db of
         Inl e \<Rightarrow> Inl (submission_conflict db q e) | Inr db' \<Rightarrow> Inr db') (\<lambda>db1.
     and_then (if has_parent q then reserve_child_budget K later_ms root (cq_task q) limits db1 else Inr db1) (\<lambda>db2.
     and_then (create_session K q retention db2) (\<lambda>db3.
     and_then (insert_run (new_run q) db3) (\<lambda>db4.
     and_then (update_tasks (\<lambda>t. tk_id t = cq_task q) (tk_current_run_update (\<lambda>_. Some (cq_run q))) db4) (\<lambda>(_, db5).
     and_then (link_parent cr K q lifecycle parent db5) (\<lambda>db6.
     and_then (store_run_text K db6 (cq_run q) (to_text cr (created_event q))) (\<lambda>event.
     and_then (insert_event (cq_run q) 0 (u ''task_created'') event db6) (\<lambda>db7.
     and_then (one_row (task_of db7 (cq_task q))) (\<lambda>row.
     and_then (load_task K db7 row) (\<lambda>task.
     Inr (\<lparr>ou_task = task, ou_run = cq_run q, ou_transcript = cq_transcript q, ou_created = True\<rparr>, db7))))))))))))))"

definition admit_submission ::
  "crates \<Rightarrow> content_port \<Rightarrow> int \<Rightarrow> int \<Rightarrow> create_request \<Rightarrow> ustring \<Rightarrow> budget_limits \<Rightarrow> task_db \<Rightarrow>
   db_error + (create_outcome \<times> task_db)" where
  "admit_submission cr K now_ms later_ms q lifecycle limits db =
     and_then (resolve_parent db q) (\<lambda>(root, parent).
     and_then (admit_session db q) (\<lambda>_.
     and_then (reject (\<not> has_parent q \<and> some_and (\<lambda>d. d \<le> now_ms) (deadline_at limits))
       (Invalid (u ''TASK_DEADLINE_EXCEEDED''))) (\<lambda>_.
     and_then (retention_of db (cq_root_session q)) (\<lambda>retention.
     and_then (reject (ephemeral_unsupported retention lifecycle q)
       (Validation (u ''EPHEMERAL_OPERATION_UNSUPPORTED''))) (\<lambda>_.
     write_submission cr K later_ms q lifecycle limits retention root parent db)))))"

definition create_task_with_run ::
  "crates \<Rightarrow> content_port \<Rightarrow> int \<Rightarrow> int \<Rightarrow> create_request \<Rightarrow> task_db \<Rightarrow> db_error + (create_outcome \<times> task_db)" where
  "create_task_with_run cr K now_ms later_ms request db =
     and_then (validate_submission cr request) (\<lambda>(lifecycle, limits).
     and_then (inherit cr K db (cq_parent_run request) (cq_config request)) (\<lambda>config.
     let q = request\<lparr>cq_config := config\<rparr> in
     case existing_submission db q of
       Some (t, r, s) \<Rightarrow> map_ok (\<lambda>o'. (o', db)) (replay K db q t r s)
     | None \<Rightarrow> admit_submission cr K now_ms later_ms q lifecycle limits db))"

end
