(* ===== verification/Task_Result.thy ===== *)
theory Task_Result
  imports Task_Submit
begin

section \<open>Results of tasks\<close>

text \<open>
  \<open>Db::commit_task_result\<close> and \<open>Db::read_task_result\<close> of \<open>crates/zk-db/src/task_runtime.rs\<close>: the only
  way a task becomes terminal, with its immutable result, the totals of its session and the settlement
  of its budget in one transaction; and the reading of a result page by page.
\<close>

subsection \<open>Requests and records\<close>

definition INLINE_RESULT_LIMIT :: nat where "INLINE_RESULT_LIMIT = 64 * 1024"
definition RESULT_HARD_LIMIT :: nat where "RESULT_HARD_LIMIT = 16 * 1024 * 1024"

record commit_request =
  rq_task :: ustring
  rq_run :: ustring
  rq_version :: int
  rq_status :: result_status
  rq_content :: ustring
  rq_media :: ustring
  rq_error :: "ustring option"
  rq_cleanup :: cleanup_status
  rq_verification :: verification_status

record usage_fallback =
  uf_input :: int
  uf_output :: int
  uf_cache_read :: int
  uf_cache_create :: int
  uf_cost :: int
  uf_complete :: bool

definition validate_fallback :: "usage_fallback \<Rightarrow> db_error + unit" where
  "validate_fallback f =
     reject (uf_input f < 0 \<or> uf_output f < 0 \<or> uf_cache_read f < 0 \<or> uf_cache_create f < 0 \<or> uf_cost f < 0)
       (Invalid (u ''RUN_USAGE_NEGATIVE''))"

record result_record =
  rr_id :: ustring
  rr_task :: ustring
  rr_run :: ustring
  rr_version :: int
  rr_status :: result_status
  rr_byte_len :: int
  rr_sha :: ustring
  rr_media :: ustring
  rr_error :: "ustring option"
  rr_message :: "ustring option"
  rr_created :: ustring

datatype commit_outcome =
    Committed result_record bool
  | CommitVersionConflict
  | CommitInvalidRun
  | CommitAlreadyTerminal
  | CommitNotFound

definition truncate_utf8_at_limit :: "ustring \<Rightarrow> nat \<Rightarrow> ustring" where
  "truncate_utf8_at_limit s limit = (if byte_length s \<le> limit then s else take_bytes limit (chars s))"

definition result_exit_reason :: "result_status \<Rightarrow> ustring option \<Rightarrow> exit_reason" where
  "result_exit_reason status error =
     (if error \<in> {Some (u ''TIMEOUT''), Some (u ''SUBAGENT_DEADLINE_EXCEEDED'')} then Timeout
      else if error = Some (u ''MAX_TURNS'') then MaxTurns
      else if error \<in> {Some (u ''BUDGET_EXHAUSTED''), Some (u ''TOKEN_BUDGET_EXHAUSTED''),
          Some (u ''COST_BUDGET_EXHAUSTED'')} then BudgetExhausted
      else if error = Some (u ''PROVIDER_ERROR'') then ProviderError
      else if error \<in> {Some (u ''TOOL_ERROR''), Some (u ''TOOL_RETURNED_ERROR'')} then ToolError
      else if error = Some (u ''USER_CANCELLED'') then UserCancelled
      else if error = Some (u ''PARENT_CANCELLED'') then ParentCancelled
      else if error = Some (u ''SERVICE_RESTART'') then ServiceRestart
      else (case status of
          CompleteResult \<Rightarrow> ModelFinished | PartialResult \<Rightarrow> ModelFinished
        | CancelledResult \<Rightarrow> UserCancelled | ErrorResult \<Rightarrow> InternalError))"

subsection \<open>The final message\<close>

text \<open>
  The texts \<open>parse_blocks\<close> (\<open>model.rs\<close>) finds in a stored message: the text itself when it is not a JSON
  array, otherwise the text of each block tagged \<open>text\<close>. \<open>serde\<close> reads an internally tagged block from
  an object or from the array of its tag and fields.
\<close>

definition block_text :: "json \<Rightarrow> ustring option" where
  "block_text v = (case v of
     JObj m \<Rightarrow>
       if json_get m (u ''type'') = Some (JStr (u ''text'')) then Option.bind (json_get m (u ''text'')) json_string
       else None
   | JArr [JStr tag, JStr t] \<Rightarrow> if tag = u ''text'' then Some t else None
   | _ \<Rightarrow> None)"

definition text_blocks :: "crates \<Rightarrow> ustring \<Rightarrow> ustring list" where
  "text_blocks cr content =
     (if take 1 (rust_trim content) \<noteq> [91] then [content]
      else (case from_text cr content of
          Some (JArr nodes) \<Rightarrow> List.map_filter block_text nodes
        | _ \<Rightarrow> [content]))"

fun join_lines :: "ustring list \<Rightarrow> ustring" where
  "join_lines [] = []"
| "join_lines [l] = l"
| "join_lines (l # ls) = l @ [10] @ join_lines ls"

text \<open>\<open>ORDER BY seq_num DESC LIMIT 1\<close>.\<close>

fun latest_message :: "message_row list \<Rightarrow> message_row option" where
  "latest_message [] = None"
| "latest_message (m # ms) =
     (case latest_message ms of
        None \<Rightarrow> Some m
      | Some n \<Rightarrow> if ms_seq m < ms_seq n then Some n else Some m)"

definition final_message :: "task_db \<Rightarrow> ustring \<Rightarrow> ustring \<Rightarrow> message_row option" where
  "final_message db task run =
     latest_message (filter (\<lambda>m. ms_task m = Some task \<and> ms_run m = Some run \<and> ms_role m = u ''assistant'')
       (db_messages db))"

definition assistant_text :: "crates \<Rightarrow> content_port \<Rightarrow> task_db \<Rightarrow> ustring \<Rightarrow> message_row \<Rightarrow> db_error + ustring" where
  "assistant_text cr K db session m =
     map_ok (\<lambda>content. join_lines (text_blocks cr content)) (load_text K db session (ms_content m))"

subsection \<open>Guards\<close>

text \<open>The early returns: an outcome that commits nothing, or none.\<close>

definition commit_refusal :: "task_db \<Rightarrow> commit_request \<Rightarrow> db_error + commit_outcome option" where
  "commit_refusal db q =
     (case task_of db (rq_task q) of
        None \<Rightarrow> Inr (Some CommitNotFound)
      | Some t \<Rightarrow>
          if task_is_terminal (tk_status t) then Inr (Some CommitAlreadyTerminal)
          else if tk_version t \<noteq> rq_version q then Inr (Some CommitVersionConflict)
          else if tk_current_run t \<noteq> Some (rq_run q) then Inr (Some CommitInvalidRun)
          else (case find (\<lambda>r. rn_id r = rq_run q \<and> rn_task r = rq_task q) (db_runs db) of
            None \<Rightarrow> Inr (Some CommitInvalidRun)
          | Some r \<Rightarrow>
              if rn_requested r = Some ServiceRestart
              then Inl (Invalid (u ''SERVICE_RESTART_REQUIRES_RECONCILIATION''))
              else if run_is_terminal (rn_status r) then Inr (Some CommitAlreadyTerminal)
              else if list_ex (\<lambda>p. pp_run p = rq_run q \<and> pp_pending p) (db_postprocessing db)
              then Inl (Invalid (u ''TASK_TERMINAL_HAS_PENDING_TOOL_POSTPROCESSING''))
              else Inr None))"

text \<open>A fallback counts only when no physical call was registered.\<close>

definition apply_fallback :: "commit_request \<Rightarrow> usage_fallback option \<Rightarrow> task_db \<Rightarrow> db_error + task_db" where
  "apply_fallback q fallback db =
     (case fallback of
        None \<Rightarrow> Inr db
      | Some f \<Rightarrow>
          if list_ex (\<lambda>c. lc_run c = rq_run q) (db_calls db) then Inr db
          else map_ok snd (update_runs (\<lambda>r. rn_id r = rq_run q \<and> rn_task r = rq_task q)
            (\<lambda>r. r\<lparr>rn_input := uf_input f, rn_output := uf_output f, rn_cache_read := uf_cache_read f,
                   rn_cache_create := uf_cache_create f, rn_cost := uf_cost f,
                   rn_total := uf_input f + uf_output f, rn_usage_complete := uf_complete f,
                   rn_version := rn_version r + 1\<rparr>) db))"

definition started_calls :: "task_db \<Rightarrow> commit_request \<Rightarrow> bool" where
  "started_calls db q =
     list_ex (\<lambda>c. lc_run c = rq_run q \<and> lc_task c = rq_task q \<and> lc_status c = CallStarted) (db_calls db)"

text \<open>Success needs complete usage; \<open>False\<close> is the run that is not the current one.\<close>

definition usage_gate :: "content_port \<Rightarrow> task_db \<Rightarrow> commit_request \<Rightarrow> bool \<Rightarrow> db_error + bool" where
  "usage_gate K db q started =
     (case read_llm_usage_integrity db (rq_task q) (rq_run q) of
        None \<Rightarrow> Inr False
      | Some i \<Rightarrow>
          if started \<or> \<not> run_usage_complete i then Inl (Invalid (u ''BUDGET_USAGE_INCOMPLETE''))
          else and_then (usage_admissible K db (rq_run q) (task_usage_complete i \<and> root_task_usage_complete i)) (\<lambda>ok.
            if ok then Inr True else Inl (Invalid (u ''BUDGET_USAGE_INCOMPLETE''))))"

text \<open>Success needs a final message of the assistant with the content of the result.\<close>

definition message_gate ::
  "crates \<Rightarrow> content_port \<Rightarrow> task_db \<Rightarrow> ustring \<Rightarrow> ustring \<Rightarrow> message_row option \<Rightarrow> db_error + unit" where
  "message_gate cr K db session content message =
     (case message of
        None \<Rightarrow> Inl (Invalid (u ''TASK_SUCCESS_REQUIRES_FINAL_ASSISTANT''))
      | Some m \<Rightarrow> and_then (assistant_text cr K db session m) (\<lambda>t.
          reject (t \<noteq> content) (Invalid (u ''TASK_RESULT_FINAL_MESSAGE_CONTENT_MISMATCH''))))"

subsection \<open>The writes\<close>

definition next_result_version :: "task_db \<Rightarrow> ustring \<Rightarrow> int" where
  "next_result_version db task =
     (case map rs_version (filter (\<lambda>s. rs_task s = task) (db_results db)) of
        [] \<Rightarrow> 1 | v # vs \<Rightarrow> fold max vs v + 1)"

definition insert_blob :: "ustring \<Rightarrow> ustring \<Rightarrow> task_db \<Rightarrow> task_db" where
  "insert_blob digest body db =
     (if list_ex (\<lambda>(d, _). d = digest) (db_blobs db) then db
      else db\<lparr>db_blobs := db_blobs db @ [(digest, body)]\<rparr>)"

text \<open>The row of the result: a reference in an ephemeral session, the text itself when it is small, or
  the digest of a blob.\<close>

definition insert_result_row ::
  "crates \<Rightarrow> content_port \<Rightarrow> ustring \<Rightarrow> ustring \<Rightarrow> commit_request \<Rightarrow> ustring \<Rightarrow> result_status \<Rightarrow> ustring option \<Rightarrow>
   ustring \<Rightarrow> ustring option \<Rightarrow> task_db \<Rightarrow> db_error + (int \<times> task_db)" where
  "insert_result_row cr K result_id now q session status error content message db =
     (let version = next_result_version db (rq_task q); digest = sha256_hex cr content;
          inline = byte_length content \<le> INLINE_RESULT_LIMIT in
      and_then (retention_of db session) (\<lambda>retention.
      and_then (if retention = Ephemeral then map_ok Some (store_text K db session content) else Inr None) (\<lambda>reference.
      let persistent = retention \<noteq> Ephemeral;
          db1 = (if persistent \<and> \<not> inline then insert_blob digest content db else db) in
      and_then (store_diagnostic K db1 session error) (\<lambda>stored_error.
      map_ok (Pair version) (insert_result
        \<lparr>rs_id = result_id, rs_task = rq_task q, rs_run = rq_run q, rs_version = version, rs_status = status,
         rs_inline = (if persistent \<and> inline then Some content else None),
         rs_blob = (if persistent \<and> \<not> inline then Some digest else None),
         rs_byte_len = int (byte_length content), rs_sha = (if persistent then Some digest else None),
         rs_media = rq_media q, rs_error = stored_error, rs_message = message, rs_created_at = now,
         rs_ref = reference\<rparr> db1)))))"

definition run_target :: "result_status \<Rightarrow> run_status" where
  "run_target s = (case s of
     CompleteResult \<Rightarrow> RunCompleted | PartialResult \<Rightarrow> RunCompleted | ErrorResult \<Rightarrow> RunFailed
   | CancelledResult \<Rightarrow> RunCancelled)"

definition task_target :: "result_status \<Rightarrow> task_status" where
  "task_target s = (case s of
     CompleteResult \<Rightarrow> TaskSucceeded | PartialResult \<Rightarrow> TaskPartial | ErrorResult \<Rightarrow> TaskFailed
   | CancelledResult \<Rightarrow> TaskCancelled)"

definition commit_exit_reason :: "envelope_row \<Rightarrow> result_status \<Rightarrow> ustring option \<Rightarrow> exit_reason" where
  "commit_exit_reason r status error =
     (if status = CancelledResult \<or> status = PartialResult \<and> error = Some (u ''CLEANUP_UNCONFIRMED'')
      then (case rn_requested r of Some requested \<Rightarrow> requested | None \<Rightarrow> result_exit_reason status error)
      else result_exit_reason status error)"

text \<open>The usage of the run enters the totals of its session; the cost there is a floating-point number.\<close>

definition add_session_usage :: "commit_request \<Rightarrow> ustring \<Rightarrow> task_db \<Rightarrow> db_error + task_db" where
  "add_session_usage q session db =
     and_then (one_row (find (\<lambda>r. rn_id r = rq_run q \<and> rn_task r = rq_task q) (db_runs db))) (\<lambda>r.
     if matching (\<lambda>s. se_id s = session) (db_sessions db) \<noteq> 1 then Inl (Invalid (u ''RUN_SESSION_NOT_FOUND''))
     else Inr (db\<lparr>db_sessions := update_where (\<lambda>s. se_id s = session)
       (\<lambda>s. s\<lparr>se_input := se_input s + rn_input r, se_output := se_output s + rn_output r,
              se_cache_read := se_cache_read s + rn_cache_read r,
              se_cache_create := se_cache_create s + rn_cache_create r\<rparr>) (db_sessions db)\<rparr>))"

definition or_some :: "'a option \<Rightarrow> 'a option \<Rightarrow> 'a option" where
  "or_some a b = (case a of None \<Rightarrow> b | Some x \<Rightarrow> Some x)"

definition terminate_run_row ::
  "ustring \<Rightarrow> commit_request \<Rightarrow> result_status \<Rightarrow> exit_reason \<Rightarrow> ustring option \<Rightarrow> verification_status \<Rightarrow>
   envelope_row \<Rightarrow> envelope_row" where
  "terminate_run_row now q status exit error verification r =
     (let cancellation = (if exit \<in> {UserCancelled, ParentCancelled} then Some exit else None) in
      r\<lparr>rn_status := run_target status, rn_terminal_at := Some now, rn_exit := Some exit,
        rn_requested := or_some (rn_requested r) cancellation, rn_abort := or_some (rn_abort r) cancellation,
        rn_error := error, rn_cleanup := rq_cleanup q, rn_verification := verification,
        rn_version := rn_version r + 1\<rparr>)"

definition terminate_task_row ::
  "ustring \<Rightarrow> commit_request \<Rightarrow> result_status \<Rightarrow> exit_reason \<Rightarrow> verification_status \<Rightarrow> task_row \<Rightarrow> task_row" where
  "terminate_task_row now q status exit verification t =
     t\<lparr>tk_status := task_target status, tk_reason := Some (exit_as_db exit), tk_cleanup := rq_cleanup q,
       tk_verification := verification, tk_terminal_at := Some now, tk_version := tk_version t + 1,
       tk_display := None\<rparr>"

definition result_event :: "commit_request \<Rightarrow> int \<Rightarrow> result_status \<Rightarrow> ustring \<Rightarrow> json" where
  "result_event q version status digest =
     json_obj [(u ''protocolVersion'', JNum 4), (u ''taskId'', JStr (rq_task q)), (u ''runId'', JStr (rq_run q)),
           (u ''resultVersion'', JNum version), (u ''resultStatus'', JStr (result_as_db status)),
           (u ''contentSha256'', JStr digest), (u ''partial'', JBool (status = PartialResult))]"

text \<open>From the row of the result to the event; \<open>None\<close> when the task was changed meanwhile.\<close>

definition terminate ::
  "crates \<Rightarrow> content_port \<Rightarrow> ustring \<Rightarrow> commit_request \<Rightarrow> task_row \<Rightarrow> envelope_row \<Rightarrow> result_status \<Rightarrow> ustring option \<Rightarrow>
   ustring \<Rightarrow> verification_status \<Rightarrow> int \<Rightarrow> task_db \<Rightarrow> db_error + task_db option" where
  "terminate cr K now q t r status error content verification version db =
     (let exit = commit_exit_reason r status error in
      and_then (store_diagnostic K db (rn_session r) (if status = ErrorResult then Some content else None)) (\<lambda>summary.
      and_then (add_session_usage q (rn_session r) db) (\<lambda>db1.
      and_then (settle_task_budget (rq_task q) (rq_run q) now db1) (\<lambda>db2.
      and_then (update_runs (\<lambda>k. rn_id k = rq_run q \<and> rn_task k = rq_task q \<and> rn_status k \<in> set ACTIVE_RUN)
        (terminate_run_row now q status exit summary verification) db2) (\<lambda>(_, db3).
      and_then (update_tasks (task_with (rq_task q) (rq_version q) (tk_status t))
        (terminate_task_row now q status exit verification) db3) (\<lambda>(changed, db4).
      if changed \<noteq> 1 then Inr None
      else
        and_then (reject_pending_for_run cr K (rq_run q) db4) (\<lambda>db5.
        and_then (store_run_text K db5 (rq_run q)
          (to_text cr (result_event q version status (sha256_hex cr content)))) (\<lambda>event.
        map_ok Some (insert_event (rq_run q) (last_seq (- 1) db5 (rq_run q) + 1)
          (u ''task_result_available'') event db5)))))))))"

subsection \<open>The transaction\<close>

definition commit_result ::
  "crates \<Rightarrow> content_port \<Rightarrow> ustring \<Rightarrow> ustring \<Rightarrow> commit_request \<Rightarrow> task_row \<Rightarrow> envelope_row \<Rightarrow> usage_fallback option \<Rightarrow>
   task_db \<Rightarrow> db_error + (commit_outcome \<times> task_db)" where
  "commit_result cr K result_id now q t r fallback db =
     (let verification = (if rq_verification q = NotRequested then tk_verification t else rq_verification q);
          exceeded = RESULT_HARD_LIMIT < byte_length (rq_content q);
          content = truncate_utf8_at_limit (rq_content q) RESULT_HARD_LIMIT;
          status = (if exceeded then PartialResult else rq_status q);
          error = (if exceeded then Some (u ''RESULT_LIMIT_EXCEEDED'') else rq_error q);
          started = started_calls db q
      in
      and_then (apply_fallback q fallback db) (\<lambda>db1.
      and_then (if status = CompleteResult then usage_gate K db1 q started else Inr True) (\<lambda>current.
      if \<not> current then Inr (CommitInvalidRun, db)
      else
        let message = final_message db1 (rq_task q) (rq_run q) in
        and_then (if status = CompleteResult then message_gate cr K db1 (rn_session r) content message else Inr ()) (\<lambda>_.
        and_then (if started then update_runs (\<lambda>k. rn_id k = rq_run q \<and> rn_task k = rq_task q)
            (rn_usage_complete_update (\<lambda>_. False)) db1 else Inr (1, db1)) (\<lambda>(n, db2).
        if n \<noteq> 1 then Inr (CommitInvalidRun, db)
        else
          and_then (insert_result_row cr K result_id now q (rn_session r) status error content
            (map_option ms_id message) db2) (\<lambda>(version, db3).
          and_then (terminate cr K now q t r status error content verification version db3) (\<lambda>done.
          case done of
            None \<Rightarrow> Inr (CommitVersionConflict, db)
          | Some db4 \<Rightarrow> Inr (Committed
              \<lparr>rr_id = result_id, rr_task = rq_task q, rr_run = rq_run q, rr_version = version, rr_status = status,
               rr_byte_len = int (byte_length content), rr_sha = sha256_hex cr content, rr_media = rq_media q,
               rr_error = error, rr_message = map_option ms_id message, rr_created = now\<rparr> exceeded, db4))))))))"

definition commit_task_result_inner ::
  "crates \<Rightarrow> content_port \<Rightarrow> ustring \<Rightarrow> ustring \<Rightarrow> commit_request \<Rightarrow> usage_fallback option \<Rightarrow> task_db \<Rightarrow>
   db_error + (commit_outcome \<times> task_db)" where
  "commit_task_result_inner cr K result_id now q fallback db =
     and_then (commit_refusal db q) (\<lambda>refusal.
     case refusal of
       Some outcome \<Rightarrow> Inr (outcome, db)
     | None \<Rightarrow>
         and_then (one_row (task_of db (rq_task q))) (\<lambda>t.
         and_then (one_row (find (\<lambda>r. rn_id r = rq_run q \<and> rn_task r = rq_task q) (db_runs db))) (\<lambda>r.
         commit_result cr K result_id now q t r fallback db)))"

definition commit_task_result ::
  "crates \<Rightarrow> content_port \<Rightarrow> ustring \<Rightarrow> ustring \<Rightarrow> commit_request \<Rightarrow> task_db \<Rightarrow> db_error + (commit_outcome \<times> task_db)" where
  "commit_task_result cr K result_id now q db = commit_task_result_inner cr K result_id now q None db"

definition commit_task_result_with_run_usage_fallback ::
  "crates \<Rightarrow> content_port \<Rightarrow> ustring \<Rightarrow> ustring \<Rightarrow> commit_request \<Rightarrow> usage_fallback \<Rightarrow> task_db \<Rightarrow>
   db_error + (commit_outcome \<times> task_db)" where
  "commit_task_result_with_run_usage_fallback cr K result_id now q f db =
     and_then (validate_fallback f) (\<lambda>_. commit_task_result_inner cr K result_id now q (Some f) db)"

subsection \<open>Reading\<close>

record result_chunk =
  ck_result :: result_record
  ck_content :: ustring
  ck_cursor :: nat
  ck_next :: "nat option"
  ck_partial :: bool

text \<open>\<open>is_char_boundary\<close>: the offset is the end of some prefix of whole characters.\<close>

definition boundary :: "ustring \<Rightarrow> nat \<Rightarrow> bool" where
  "boundary s n = (n \<in> (\<lambda>i. byte_length (concat (take i (chars s)))) ` {0..length (chars s)})"

text \<open>The characters from a boundary on, and the longest boundary that is not beyond an offset.\<close>

fun drop_bytes :: "nat \<Rightarrow> ustring list \<Rightarrow> ustring list" where
  "drop_bytes n [] = []"
| "drop_bytes n (c # cs) = (if n = 0 then c # cs else drop_bytes (n - byte_length c) cs)"

definition result_page :: "ustring \<Rightarrow> nat \<Rightarrow> nat \<Rightarrow> db_error + (ustring \<times> nat option)" where
  "result_page content cursor max_bytes =
     (if byte_length content < cursor \<or> \<not> boundary content cursor
      then Inl (Invalid (u ''RESULT_CURSOR_INVALID''))
      else
        let rest = drop_bytes cursor (chars content);
            fitting = take_bytes max_bytes rest;
            page = (if fitting = [] then concat (take 1 rest) else fitting);
            stop = cursor + byte_length page
        in Inr (page, if stop < byte_length content then Some stop else None))"

fun latest_result :: "result_row list \<Rightarrow> result_row option" where
  "latest_result [] = None"
| "latest_result (s # ss) =
     (case latest_result ss of
        None \<Rightarrow> Some s
      | Some n \<Rightarrow> if rs_version s < rs_version n then Some n else Some s)"

definition select_result :: "task_db \<Rightarrow> ustring \<Rightarrow> int option \<Rightarrow> result_row option" where
  "select_result db task version =
     (case version of
        None \<Rightarrow> latest_result (filter (\<lambda>s. rs_task s = task) (db_results db))
      | Some v \<Rightarrow> find (\<lambda>s. rs_task s = task \<and> rs_version s = v) (db_results db))"

definition null_column :: db_error where
  "null_column = Sqlite (u ''Invalid column type Null'')"

text \<open>\<open>COALESCE(inline_text, payload)\<close> with its digest, or the text of the reference with a fresh digest.\<close>

definition result_content :: "crates \<Rightarrow> content_port \<Rightarrow> task_db \<Rightarrow> result_row \<Rightarrow> db_error + (ustring \<times> ustring)" where
  "result_content cr K db s =
     (case rs_ref s of
        Some reference \<Rightarrow> map_ok (\<lambda>c. (c, sha256_hex cr c)) (load_run_text K db (rs_run s) reference)
      | None \<Rightarrow>
          (case (or_some (rs_inline s) (Option.bind (rs_blob s) (map_of (db_blobs db))), rs_sha s) of
             (Some c, Some d) \<Rightarrow> Inr (c, d)
           | _ \<Rightarrow> Inl null_column))"

definition load_result :: "crates \<Rightarrow> content_port \<Rightarrow> task_db \<Rightarrow> result_row \<Rightarrow> db_error + (result_record \<times> ustring)" where
  "load_result cr K db s =
     and_then (result_content cr K db s) (\<lambda>(content, digest).
     and_then (run_session db (rs_run s)) (\<lambda>session.
     and_then (load_diagnostic K db session (rs_error s)) (\<lambda>error.
     Inr (\<lparr>rr_id = rs_id s, rr_task = rs_task s, rr_run = rs_run s, rr_version = rs_version s,
       rr_status = rs_status s, rr_byte_len = rs_byte_len s, rr_sha = digest, rr_media = rs_media s,
       rr_error = error, rr_message = rs_message s, rr_created = rs_created_at s\<rparr>, content))))"

definition read_task_result ::
  "crates \<Rightarrow> content_port \<Rightarrow> task_db \<Rightarrow> ustring \<Rightarrow> int option \<Rightarrow> nat \<Rightarrow> nat \<Rightarrow> db_error + result_chunk option" where
  "read_task_result cr K db task version cursor max_bytes =
     (if max_bytes = 0 \<or> INLINE_RESULT_LIMIT < max_bytes then Inl (Invalid (u ''RESULT_PAGE_SIZE_INVALID''))
      else (case select_result db task version of
        None \<Rightarrow> Inr None
      | Some s \<Rightarrow>
          and_then (load_result cr K db s) (\<lambda>(result, content).
          and_then (result_page content cursor max_bytes) (\<lambda>(page, next').
          Inr (Some \<lparr>ck_result = result, ck_content = page, ck_cursor = cursor, ck_next = next',
            ck_partial = (rr_status result = PartialResult)\<rparr>)))))"

end
