(* ===== verification/Task_Inbox.thy ===== *)
theory Task_Inbox
  imports Task_Result
begin

section \<open>Messages between tasks and receipts of results\<close>

text \<open>
  The rest of the parent-child traffic of \<open>crates/zk-db/src/task_runtime.rs\<close>: the durable inbox of a
  task, and the safe boundary at which a waiting parent takes in the result of a child: one message,
  one receipt, and the wake-up once no attached child is left.
\<close>

subsection \<open>The inbox\<close>

definition inbox_checks :: "inbox_row \<Rightarrow> bool" where
  "inbox_checks i =
     (ib_content i \<noteq> [] \<and> 0 \<le> ib_generation i \<and>
      (case ib_status i of
         InboxQueued \<Rightarrow> ib_delivered i = None \<and> ib_consumed i = None
       | InboxDelivered \<Rightarrow> ib_delivered i \<noteq> None \<and> ib_consumed i = None
       | InboxConsumed \<Rightarrow> ib_delivered i \<noteq> None \<and> ib_consumed i \<noteq> None
       | InboxRejected \<Rightarrow> ib_reason i \<noteq> None))"

definition update_inbox ::
  "(inbox_row \<Rightarrow> bool) \<Rightarrow> (inbox_row \<Rightarrow> inbox_row) \<Rightarrow> task_db \<Rightarrow> db_error + (nat \<times> task_db)" where
  "update_inbox p f db =
     (if list_all (\<lambda>i. p i \<longrightarrow> inbox_checks (f i)) (db_inbox db)
      then Inr (matching p (db_inbox db), db\<lparr>db_inbox := update_where p f (db_inbox db)\<rparr>)
      else Inl constraint_failed)"

definition inbox_of :: "task_db \<Rightarrow> ustring \<Rightarrow> inbox_row option" where
  "inbox_of db i = find (\<lambda>m. ib_id m = i) (db_inbox db)"

definition load_inbox_row :: "content_port \<Rightarrow> task_db \<Rightarrow> inbox_row \<Rightarrow> db_error + inbox_row" where
  "load_inbox_row K db i =
     and_then (task_session db (ib_task i)) (\<lambda>session.
     and_then (load_row_text K db session (ib_content i)) (\<lambda>content.
     and_then (load_diagnostic K db session (ib_reason i)) (\<lambda>reason.
     Inr (i\<lparr>ib_content := content, ib_reason := reason\<rparr>))))"

definition OPEN_TASK :: "task_status list" where
  "OPEN_TASK = [TaskQueued, TaskRunning, TaskWaitingDependencies, TaskWaitingInteraction]"

definition OPEN_RUN :: "run_status list" where
  "OPEN_RUN = [RunQueued, RunRunning, RunWaitingDependencies, RunWaitingInteraction]"

definition task_as_db :: "task_status \<Rightarrow> ustring" where
  "task_as_db s = (case s of
     TaskQueued \<Rightarrow> u ''queued'' | TaskRunning \<Rightarrow> u ''running''
   | TaskWaitingDependencies \<Rightarrow> u ''waitingDependencies'' | TaskWaitingInteraction \<Rightarrow> u ''waitingInteraction''
   | TaskCancelling \<Rightarrow> u ''cancelling'' | TaskNeedsAttention \<Rightarrow> u ''needsAttention''
   | TaskSucceeded \<Rightarrow> u ''succeeded'' | TaskPartial \<Rightarrow> u ''partial'' | TaskFailed \<Rightarrow> u ''failed''
   | TaskCancelled \<Rightarrow> u ''cancelled'')"

definition accepts_messages :: "task_db \<Rightarrow> task_row \<Rightarrow> bool" where
  "accepts_messages db t =
     (list_ex (\<lambda>r. tk_current_run t = Some (rn_id r) \<and> rn_task r = tk_id t \<and> rn_status r \<in> set OPEN_RUN \<and>
        rn_requested r = None) (db_runs db) \<and>
      tk_status t \<in> set OPEN_TASK)"

definition enqueue_task_message ::
  "content_port \<Rightarrow> ustring \<Rightarrow> ustring \<Rightarrow> ustring \<Rightarrow> ustring \<Rightarrow> ustring option \<Rightarrow> ustring \<Rightarrow> task_db \<Rightarrow>
   db_error + (inbox_row \<times> task_db)" where
  "enqueue_task_message K message_id now root_session target sender content db =
     (if rust_trim content = [] then Inl (Invalid (u ''TASK_MESSAGE_EMPTY''))
      else (case find (\<lambda>t. tk_id t = target \<and> tk_session t = root_session) (db_tasks db) of
        None \<Rightarrow> Inl (Invalid (u ''TASK_NOT_FOUND_OR_NOT_OWNED''))
      | Some t \<Rightarrow>
          and_then (reject (task_is_terminal (tk_status t))
            (Invalid (u ''TASK_TERMINAL:'' @ task_as_db (tk_status t)))) (\<lambda>_.
          and_then (reject (\<not> accepts_messages db t) (Conflict (u ''INBOX_TARGET_RUN_CLOSED''))) (\<lambda>_.
          and_then (reject (some_and (\<lambda>i. matching (\<lambda>s. tk_id s = i \<and> tk_session s = root_session) (db_tasks db) \<noteq> 1)
            sender) (Invalid (u ''SENDER_TASK_NOT_OWNED''))) (\<lambda>_.
          and_then (store_text K db root_session content) (\<lambda>stored.
          let row = \<lparr>ib_id = message_id, ib_task = target, ib_target_run = tk_current_run t, ib_sender = sender,
              ib_content = stored, ib_status = InboxQueued, ib_reason = None, ib_generation = 0,
              ib_created = now, ib_delivered = None, ib_consumed = None\<rparr> in
          and_then (reject (inbox_of db message_id \<noteq> None) (Sqlite (u ''UNIQUE constraint failed''))) (\<lambda>_.
          and_then (reject (\<not> inbox_checks row) constraint_failed) (\<lambda>_.
          let db' = db\<lparr>db_inbox := db_inbox db @ [row]\<rparr> in
          map_ok (\<lambda>m. (m, db')) (load_inbox_row K db' row)))))))))"

text \<open>\<open>ORDER BY created_at,message_id LIMIT n\<close>. SQLite compares texts by their bytes.\<close>

definition inbox_key :: "inbox_row \<Rightarrow> nat list \<times> nat list" where
  "inbox_key i = (str_key (ib_created i), str_key (ib_id i))"

definition before :: "nat list \<times> nat list \<Rightarrow> nat list \<times> nat list \<Rightarrow> bool" where
  "before a b = (fst a < fst b \<or> fst a = fst b \<and> snd a \<le> snd b)"

fun insert_ordered :: "inbox_row \<Rightarrow> inbox_row list \<Rightarrow> inbox_row list" where
  "insert_ordered i [] = [i]"
| "insert_ordered i (m # ms) = (if before (inbox_key i) (inbox_key m) then i # m # ms else m # insert_ordered i ms)"

definition by_age :: "inbox_row list \<Rightarrow> inbox_row list" where
  "by_age ms = foldr insert_ordered ms []"

fun each_ok :: "('a \<Rightarrow> 'e + 'b) \<Rightarrow> 'a list \<Rightarrow> 'e + 'b list" where
  "each_ok f [] = Inr []"
| "each_ok f (x # xs) = and_then (f x) (\<lambda>y. map_ok ((#) y) (each_ok f xs))"

definition read_task_inbox ::
  "content_port \<Rightarrow> ustring \<Rightarrow> inbox_status list \<Rightarrow> nat \<Rightarrow> task_db \<Rightarrow> db_error + inbox_row list" where
  "read_task_inbox K task statuses limit db =
     (if limit = 0 \<or> 1000 < limit then Inl (Invalid (u ''INBOX_LIMIT_INVALID''))
      else each_ok (load_inbox_row K db) (take limit (by_age
        (filter (\<lambda>i. ib_task i = task \<and> (statuses = [] \<or> ib_status i \<in> set statuses)) (db_inbox db)))))"

definition inbox_step :: "inbox_status \<Rightarrow> inbox_status \<Rightarrow> bool" where
  "inbox_step expected target =
     ((expected, target) \<in> {(InboxQueued, InboxDelivered), (InboxQueued, InboxRejected),
        (InboxDelivered, InboxConsumed), (InboxDelivered, InboxRejected)})"

definition mark_row :: "ustring \<Rightarrow> inbox_status \<Rightarrow> ustring option \<Rightarrow> inbox_row \<Rightarrow> inbox_row" where
  "mark_row now target reason i =
     i\<lparr>ib_status := target,
       ib_delivered := (if target = InboxDelivered then Some now else ib_delivered i),
       ib_consumed := (if target = InboxConsumed then Some now else ib_consumed i),
       ib_reason := reason,
       ib_generation := ib_generation i + (if target = InboxDelivered then 1 else 0)\<rparr>"

definition mark_task_inbox_message_scoped ::
  "content_port \<Rightarrow> ustring \<Rightarrow> ustring option \<Rightarrow> ustring \<Rightarrow> inbox_status \<Rightarrow> inbox_status \<Rightarrow> ustring option \<Rightarrow>
   task_db \<Rightarrow> db_error + (cas_outcome \<times> task_db)" where
  "mark_task_inbox_message_scoped K now task message expected target reason db =
     (if \<not> inbox_step expected target \<or> (target = InboxRejected) \<noteq> (reason \<noteq> None)
      then Inl (Invalid (u ''INBOX_TRANSITION_INVALID''))
      else
        let owned = (\<lambda>i. ib_id i = message \<and> pred_option ((=) (ib_task i)) task) in
        (case find owned (db_inbox db) of
           None \<Rightarrow> Inr (NotFound, db)
         | Some i \<Rightarrow>
             if ib_status i \<noteq> expected then Inr (VersionConflict, db)
             else
               and_then (task_session db (ib_task i)) (\<lambda>session.
               and_then (store_diagnostic K db session reason) (\<lambda>stored.
               and_then (update_inbox (\<lambda>k. owned k \<and> ib_status k = expected) (mark_row now target stored) db)
                 (\<lambda>(changed, db'). Inr (if changed = 1 then Applied else VersionConflict, db'))))))"

subsection \<open>Messages of a session\<close>

definition next_message_seq :: "task_db \<Rightarrow> ustring \<Rightarrow> int" where
  "next_message_seq db session =
     (case map ms_seq (filter (\<lambda>m. ms_session m = session) (db_messages db)) of
        [] \<Rightarrow> 1 | s # ss \<Rightarrow> fold max ss s + 1)"

definition insert_message :: "message_row \<Rightarrow> task_db \<Rightarrow> db_error + task_db" where
  "insert_message m db =
     (if list_ex (\<lambda>k. ms_id k = ms_id m \<or> ms_session k = ms_session m \<and> ms_seq k = ms_seq m) (db_messages db)
      then Inl (Sqlite (u ''UNIQUE constraint failed''))
      else Inr (db\<lparr>db_messages := db_messages db @ [m]\<rparr>))"

definition text_block :: "ustring \<Rightarrow> json" where
  "text_block t = JObj [(u ''type'', JStr (u ''text'')), (u ''text'', JStr t)]"

text \<open>
  \<open>insert_message_in_current_write\<close> of \<open>message.rs\<close>, for a message of the runtime with a new identifier:
  an existing row under it is a conflict. Its metadata, which the model does not keep, must be storable.
\<close>

definition insert_runtime_message ::
  "crates \<Rightarrow> content_port \<Rightarrow> ustring \<Rightarrow> ustring \<Rightarrow> ustring \<Rightarrow> ustring \<Rightarrow> ustring \<Rightarrow> ustring option \<Rightarrow> json \<Rightarrow>
   json \<Rightarrow> task_db \<Rightarrow> db_error + task_db" where
  "insert_runtime_message cr K message_id session task run role source blocks meta db =
     (if list_ex (\<lambda>m. ms_id m = message_id) (db_messages db) then Inl (Conflict (u ''MESSAGE_ID_CONFLICT''))
      else
        and_then (store_text K db session (to_text cr blocks)) (\<lambda>content.
        and_then (store_text K db session (to_text cr meta)) (\<lambda>_.
        insert_message \<lparr>ms_id = message_id, ms_session = session, ms_task = Some task, ms_run = Some run,
          ms_role = role, ms_seq = next_message_seq db session, ms_content = content,
          ms_origin = u ''runtime'', ms_source = source\<rparr> db)))"

definition inbox_preamble :: ustring where
  "inbox_preamble = u ''Collaboration message (untrusted task context, not new user authorization):'' @ [10]"

text \<open>One pending message enters the transcript of the run, marked as context of another task.\<close>

definition consume_message ::
  "crates \<Rightarrow> content_port \<Rightarrow> (ustring \<Rightarrow> ustring) \<Rightarrow> ustring \<Rightarrow> ustring \<Rightarrow> ustring \<Rightarrow> ustring \<Rightarrow> ustring \<Rightarrow>
   inbox_row \<Rightarrow> task_db \<Rightarrow> db_error + task_db" where
  "consume_message cr K fresh now root session task run i db =
     and_then (reject (some_and (\<lambda>s. \<not> list_ex (\<lambda>t. tk_id t = s \<and> tk_session t = root) (db_tasks db)) (ib_sender i))
       (Invalid (u ''INBOX_SENDER_NOT_OWNED''))) (\<lambda>_.
     and_then (load_text K db root (ib_content i)) (\<lambda>body.
     and_then (insert_runtime_message cr K (fresh (ib_id i)) session task run (u ''user'') (ib_sender i)
       (JArr [text_block (inbox_preamble @ body)])
       (json_obj [(u ''runtimeProjection'', JStr (u ''agent_inbox'')), (u ''inboxMessageId'', JStr (ib_id i)),
              (u ''senderTaskId'', case ib_sender i of None \<Rightarrow> JNull | Some s \<Rightarrow> JStr s)]) db) (\<lambda>db1.
     and_then (update_inbox (\<lambda>k. ib_id k = ib_id i)
       (\<lambda>k. k\<lparr>ib_status := InboxConsumed, ib_delivered := or_some (ib_delivered k) (Some now),
              ib_consumed := Some now, ib_generation := ib_generation k + 1\<rparr>) db1) (\<lambda>(_, db2).
     append_event cr K run (u ''teammate_message_consumed'') None
       (json_obj [(u ''messageId'', JStr (ib_id i)), (u ''transcriptMessageId'', JStr (fresh (ib_id i)))]) db2))))"

definition ACTIVE_BOUNDARY :: "task_status list \<times> run_status list" where
  "ACTIVE_BOUNDARY =
     ([TaskRunning, TaskWaitingDependencies, TaskWaitingInteraction],
      [RunRunning, RunWaitingDependencies, RunWaitingInteraction])"

definition consume_task_inbox_at_boundary ::
  "crates \<Rightarrow> content_port \<Rightarrow> (ustring \<Rightarrow> ustring) \<Rightarrow> ustring \<Rightarrow> ustring \<Rightarrow> ustring \<Rightarrow> task_db \<Rightarrow>
   db_error + (ustring list \<times> task_db)" where
  "consume_task_inbox_at_boundary cr K fresh now task run db =
     (case (task_of db task, run_of db run) of
        (Some t, Some r) \<Rightarrow>
          if tk_current_run t = Some run \<and> rn_task r = task \<and> tk_status t \<in> set (fst ACTIVE_BOUNDARY) \<and>
             rn_status r \<in> set (snd ACTIVE_BOUNDARY) \<and> rn_requested r = None
          then
            let pending = take 100 (by_age (filter (\<lambda>i. ib_task i = task \<and> pending_for run i) (db_inbox db))) in
            map_ok (Pair (map (fresh \<circ> ib_id) pending))
              (thread (consume_message cr K fresh now (tk_session t) (rn_session r) task run) pending db)
          else Inl (Conflict (u ''INBOX_TARGET_RUN_NOT_ACTIVE''))
      | _ \<Rightarrow> Inl (Conflict (u ''INBOX_TARGET_RUN_NOT_ACTIVE'')))"

subsection \<open>The receipt of a result\<close>

fun escape :: "ustring \<Rightarrow> ustring" where
  "escape [] = []"
| "escape (c # cs) =
     (if c = 38 then u ''&amp;'' else if c = 60 then u ''&lt;'' else if c = 62 then u ''&gt;''
      else if c = 34 then u ''&quot;'' else if c = 39 then u ''&apos;'' else [c]) @ escape cs"

text \<open>A signed number as \<open>format!\<close> prints it.\<close>

definition signed :: "int \<Rightarrow> ustring" where
  "signed i = (if i < 0 then 45 # decimal (nat (- i)) else decimal (nat i))"

definition receipt_opening :: "ustring \<Rightarrow> int \<Rightarrow> ustring \<Rightarrow> ustring \<Rightarrow> ustring" where
  "receipt_opening task version status sha =
     u ''<task-result taskId='' @ [34] @ escape task @ [34] @ u '' resultVersion='' @ [34] @ signed version @ [34] @
     u '' status='' @ [34] @ escape status @ [34] @ u '' sha256='' @ [34] @ escape sha @ [34] @ u ''>'' @ [10]"

definition receipt_closing :: ustring where
  "receipt_closing = [10] @ u ''</task-result>''"

definition render_task_result_receipt :: "ustring \<Rightarrow> int \<Rightarrow> ustring \<Rightarrow> ustring \<Rightarrow> ustring \<Rightarrow> ustring" where
  "render_task_result_receipt task version status sha summary =
     receipt_opening task version status sha @ escape summary @ receipt_closing"

record receipt_record =
  rd_id :: ustring
  rd_consumer :: ustring
  rd_producer :: ustring
  rd_version :: int
  rd_message :: ustring
  rd_sha :: ustring
  rd_created_at :: ustring
  rd_created :: bool

definition result_digest :: "crates \<Rightarrow> content_port \<Rightarrow> task_db \<Rightarrow> ustring \<Rightarrow> int \<Rightarrow> db_error + ustring" where
  "result_digest cr K db task version =
     and_then (one_row (find (\<lambda>s. rs_task s = task \<and> rs_version s = version) (db_results db))) (\<lambda>s.
     case rs_sha s of
       Some d \<Rightarrow> Inr d
     | None \<Rightarrow>
         (case rs_ref s of
            None \<Rightarrow> Inl (codec_error (Invalid (u ''TASK_RESULT_BODY_MISSING'')))
          | Some reference \<Rightarrow> map_ok (sha256_hex cr) (load_run_text K db (rs_run s) reference)))"

subsection \<open>The safe boundary\<close>

text \<open>
  The blocks of a message. A content that is not an array has none: SQLite reports a malformed one,
  which no writer of the table stores, as an error of the statement.
\<close>

definition message_blocks :: "crates \<Rightarrow> content_port \<Rightarrow> task_db \<Rightarrow> message_row \<Rightarrow> json list" where
  "message_blocks cr K db m =
     (case load_row_text K db (ms_session m) (ms_content m) of
        Inl _ \<Rightarrow> []
      | Inr t \<Rightarrow> (case from_text cr t of Some (JArr nodes) \<Rightarrow> nodes | _ \<Rightarrow> []))"

definition block_is :: "ustring \<Rightarrow> ustring \<Rightarrow> ustring \<Rightarrow> json \<Rightarrow> bool" where
  "block_is kind key value' b =
     (json_member b (u ''type'') = Some (JStr kind) \<and> json_member b key = Some (JStr value'))"

definition last_use :: "crates \<Rightarrow> content_port \<Rightarrow> task_db \<Rightarrow> ustring \<Rightarrow> ustring \<Rightarrow> int option" where
  "last_use cr K db session use =
     (case map ms_seq (filter (\<lambda>m. ms_session m = session \<and> ms_role m = u ''assistant'' \<and>
          list_ex (block_is (u ''tool_use'') (u ''id'') use) (message_blocks cr K db m)) (db_messages db)) of
        [] \<Rightarrow> None | s # ss \<Rightarrow> Some (fold max ss s))"

text \<open>A tool call has its result in the session after its last use; without a use there is none.\<close>

definition paired :: "crates \<Rightarrow> content_port \<Rightarrow> task_db \<Rightarrow> ustring \<Rightarrow> ustring \<Rightarrow> bool" where
  "paired cr K db session use =
     list_ex (\<lambda>m. ms_session m = session \<and> ms_role m = u ''user'' \<and>
       list_ex (block_is (u ''tool_result'') (u ''tool_use_id'') use) (message_blocks cr K db m) \<and>
       some_and (\<lambda>s. s < ms_seq m) (last_use cr K db session use)) (db_messages db)"

definition at_boundary :: "crates \<Rightarrow> content_port \<Rightarrow> task_db \<Rightarrow> ustring \<Rightarrow> ustring \<Rightarrow> bool" where
  "at_boundary cr K db session run =
     (list_all (\<lambda>v. iv_run v = run \<and> iv_kind v = u ''tool'' \<longrightarrow>
        iv_status v \<notin> {InvPreparing, InvQueued, InvRunning} \<and> paired cr K db session (iv_use v)) (db_invocations db) \<and>
      list_all (\<lambda>p. \<not> (pp_run p = run \<and> pp_pending p)) (db_postprocessing db))"

definition receipt_of :: "task_db \<Rightarrow> ustring \<Rightarrow> ustring \<Rightarrow> int \<Rightarrow> receipt_row option" where
  "receipt_of db consumer producer version =
     find (\<lambda>r. rc_consumer r = consumer \<and> rc_producer r = producer \<and> rc_version r = version) (db_receipts db)"

definition insert_receipt :: "receipt_row \<Rightarrow> task_db \<Rightarrow> db_error + task_db" where
  "insert_receipt r db =
     (if rc_consumer r = rc_producer r \<or> rc_version r < 1 then Inl (Sqlite (u ''CHECK constraint failed''))
      else if list_ex (\<lambda>q. rc_id q = rc_id r \<or> rc_consumer q = rc_consumer r \<and> rc_producer q = rc_producer r \<and>
          rc_version q = rc_version r) (db_receipts db)
      then Inl (Sqlite (u ''UNIQUE constraint failed''))
      else Inr (db\<lparr>db_receipts := db_receipts db @ [r]\<rparr>))"

text \<open>The result a parent may take in: of an attached child that has ended.\<close>

definition producer_result ::
  "crates \<Rightarrow> content_port \<Rightarrow> task_db \<Rightarrow> ustring \<Rightarrow> ustring \<Rightarrow> int \<Rightarrow> db_error + (result_status \<times> ustring)" where
  "producer_result cr K db consumer producer version =
     and_then (reject (matching (\<lambda>d. dp_parent d = consumer \<and> dp_child d = producer \<and>
         dp_lifecycle d = u ''attached'') (db_dependencies db) \<noteq> 1) (Invalid (u ''TASK_RESULT_NOT_OWNED''))) (\<lambda>_.
     case find (\<lambda>s. rs_task s = producer \<and> rs_version s = version) (db_results db) of
       None \<Rightarrow> Inl (Invalid (u ''TASK_RESULT_NOT_FOUND''))
     | Some s \<Rightarrow>
         and_then (result_digest cr K db producer version) (\<lambda>digest.
         and_then (reject (matching (\<lambda>t. tk_id t = producer \<and> task_is_terminal (tk_status t)) (db_tasks db) \<noteq> 1)
           (Invalid (u ''TASK_RESULT_PRODUCER_NOT_TERMINAL''))) (\<lambda>_.
         Inr (rs_status s, digest))))"

definition unresolved :: "task_db \<Rightarrow> ustring \<Rightarrow> dependency_row \<Rightarrow> bool" where
  "unresolved db parent d =
     (dp_parent d = parent \<and> dp_lifecycle d = u ''attached'' \<and>
      list_ex (\<lambda>t. tk_id t = dp_child d \<and> (\<not> task_is_terminal (tk_status t) \<or> dp_consumed d = None)) (db_tasks db))"

definition wake_parent ::
  "crates \<Rightarrow> content_port \<Rightarrow> task_row \<Rightarrow> ustring \<Rightarrow> ustring \<Rightarrow> int \<Rightarrow> task_db \<Rightarrow> db_error + task_db" where
  "wake_parent cr K t run producer version db =
     and_then (update_tasks (task_with (tk_id t) (tk_version t) TaskWaitingDependencies)
       (\<lambda>k. k\<lparr>tk_status := TaskRunning, tk_reason := Some (u ''attachedChildrenResolved''),
              tk_version := tk_version k + 1\<rparr>) db) (\<lambda>(n, db1).
     and_then (reject (n \<noteq> 1) (Invalid (u ''PARENT_TASK_WAKE_CONFLICT''))) (\<lambda>_.
     and_then (update_runs (\<lambda>r. rn_id r = run \<and> rn_task r = tk_id t \<and> rn_status r = RunWaitingDependencies)
       (\<lambda>r. r\<lparr>rn_status := RunRunning, rn_waiting := None, rn_version := rn_version r + 1\<rparr>) db1) (\<lambda>(m, db2).
     and_then (reject (m \<noteq> 1) (Invalid (u ''PARENT_TASK_RUN_WAKE_MISMATCH''))) (\<lambda>_.
     append_event cr K run (u ''task_dependencies_resolved'') None
       (json_obj [(u ''taskId'', JStr (tk_id t)), (u ''sourceTaskId'', JStr producer),
              (u ''resultVersion'', JNum version)]) db2))))"

text \<open>The message, its receipt, the consumed version, and the wake-up.\<close>

definition consume_result ::
  "crates \<Rightarrow> content_port \<Rightarrow> ustring \<Rightarrow> ustring \<Rightarrow> ustring \<Rightarrow> task_row \<Rightarrow> ustring \<Rightarrow> ustring \<Rightarrow> int \<Rightarrow> ustring \<Rightarrow>
   result_status \<Rightarrow> ustring \<Rightarrow> task_db \<Rightarrow> db_error + (receipt_record \<times> task_db)" where
  "consume_result cr K message_id receipt_id now t run producer version summary status digest db =
     (let body = to_text cr (JArr [text_block
        (render_task_result_receipt producer version (result_as_db status) digest summary)]) in
      and_then (store_text K db (tk_session t) body) (\<lambda>content.
      and_then (retention_of db (tk_session t)) (\<lambda>retention.
      and_then (insert_message
        \<lparr>ms_id = message_id, ms_session = tk_session t, ms_task = Some (tk_id t), ms_run = Some run,
         ms_role = u ''user'', ms_seq = next_message_seq db (tk_session t), ms_content = content,
         ms_origin = u ''task_result'', ms_source = Some producer\<rparr> db) (\<lambda>db1.
      and_then (insert_receipt
        \<lparr>rc_id = receipt_id, rc_consumer = tk_id t, rc_producer = producer, rc_version = version,
         rc_message = message_id, rc_sha = (if retention = Persistent then Some digest else None),
         rc_created = now\<rparr> db1) (\<lambda>db2.
      let db3 = db2\<lparr>db_dependencies := update_where (\<lambda>d. dp_parent d = tk_id t \<and> dp_child d = producer)
            (dp_consumed_update (\<lambda>_. Some version)) (db_dependencies db2)\<rparr> in
      and_then (if list_ex (unresolved db3 (tk_id t)) (db_dependencies db3) then Inr db3
                else wake_parent cr K t run producer version db3) (\<lambda>db4.
      Inr (\<lparr>rd_id = receipt_id, rd_consumer = tk_id t, rd_producer = producer, rd_version = version,
        rd_message = message_id, rd_sha = digest, rd_created_at = now, rd_created = True\<rparr>, db4)))))))"

text \<open>\<open>None\<close>: the parent is not waiting or not at a boundary, nothing was written.\<close>

definition ingest_task_result_at_safe_boundary ::
  "crates \<Rightarrow> content_port \<Rightarrow> ustring \<Rightarrow> ustring \<Rightarrow> ustring \<Rightarrow> ustring \<Rightarrow> ustring \<Rightarrow> int \<Rightarrow> ustring \<Rightarrow> task_db \<Rightarrow>
   db_error + (receipt_record option \<times> task_db)" where
  "ingest_task_result_at_safe_boundary cr K message_id receipt_id now consumer producer version summary db =
     (case receipt_of db consumer producer version of
        Some r \<Rightarrow> map_ok (\<lambda>digest. (Some
          \<lparr>rd_id = rc_id r, rd_consumer = consumer, rd_producer = producer, rd_version = version,
           rd_message = rc_message r, rd_sha = digest, rd_created_at = rc_created r, rd_created = False\<rparr>, db))
          (result_digest cr K db producer version)
      | None \<Rightarrow>
          (case task_of db consumer of
             None \<Rightarrow> Inl (Invalid (u ''PARENT_TASK_NOT_FOUND''))
           | Some t \<Rightarrow>
               if tk_status t \<noteq> TaskWaitingDependencies then Inr (None, db)
               else (case tk_current_run t of
                 None \<Rightarrow> Inl (Invalid (u ''PARENT_RUN_NOT_FOUND''))
               | Some run \<Rightarrow>
                   if \<not> at_boundary cr K db (tk_session t) run then Inr (None, db)
                   else
                     and_then (producer_result cr K db consumer producer version) (\<lambda>(status, digest).
                     map_ok (map_prod Some id)
                       (consume_result cr K message_id receipt_id now t run producer version summary status digest db)))))"

end
