(* ===== verification/Task_Tools.thy ===== *)
theory Task_Tools
  imports Task_Inbox
begin

section \<open>The ledger of tool calls and their resources\<close>

text \<open>
  The tool part of \<open>crates/zk-db/src/runtime_ledger.rs\<close>: the physical calls of tools, their result
  committed with the message that carries it, the durable work a result still owes, and the operating
  system resources a call holds, whose release decides the cleanup status of the run.
\<close>

subsection \<open>Invocations\<close>

record new_invocation =
  ni_id :: ustring
  ni_task :: ustring
  ni_run :: ustring
  ni_use :: ustring
  ni_name :: ustring
  ni_input :: "ustring option"
  ni_class :: ustring
  ni_directory :: "int option"
  ni_connection :: "int option"

definition SIDE_EFFECTS :: "ustring list" where
  "SIDE_EFFECTS = [u ''none'', u ''read'', u ''write'', u ''unknown'']"

definition invocation_checks :: "invocation_row \<Rightarrow> bool" where
  "invocation_checks v =
     (iv_kind v \<in> {u ''tool'', u ''runtimeScope''} \<and> iv_class v \<in> set SIDE_EFFECTS \<and>
      pred_option ((\<le>) 0) (iv_directory v) \<and> pred_option ((\<le>) 0) (iv_connection v) \<and> 0 \<le> iv_version v \<and>
      (iv_status v \<in> {InvQueued, InvRunning, InvSucceeded} \<longrightarrow> iv_input v \<noteq> None) \<and>
      (invocation_is_terminal (iv_status v) \<longleftrightarrow> iv_terminal v \<noteq> None))"

definition invocation_of :: "task_db \<Rightarrow> ustring \<Rightarrow> invocation_row option" where
  "invocation_of db i = find (\<lambda>v. iv_id v = i) (db_invocations db)"

definition insert_invocation :: "invocation_row \<Rightarrow> task_db \<Rightarrow> db_error + task_db" where
  "insert_invocation v db =
     (if \<not> list_ex (\<lambda>r. rn_id r = iv_run v \<and> rn_task r = iv_task v) (db_runs db)
      then Inl (Sqlite (u ''TOOL_INVOCATION_RUN_MISMATCH''))
      else if \<not> invocation_checks v then Inl (Sqlite (u ''CHECK constraint failed''))
      else if list_ex (\<lambda>w. iv_id w = iv_id v \<or> iv_run w = iv_run v \<and> iv_use w = iv_use v) (db_invocations db)
      then Inl (Sqlite (u ''UNIQUE constraint failed''))
      else Inr (db\<lparr>db_invocations := db_invocations db @ [v]\<rparr>))"

definition update_invocations ::
  "(invocation_row \<Rightarrow> bool) \<Rightarrow> (invocation_row \<Rightarrow> invocation_row) \<Rightarrow> task_db \<Rightarrow> db_error + (nat \<times> task_db)" where
  "update_invocations p f db =
     (if list_all (\<lambda>v. p v \<longrightarrow> invocation_checks (f v)) (db_invocations db)
      then Inr (matching p (db_invocations db), db\<lparr>db_invocations := update_where p f (db_invocations db)\<rparr>)
      else Inl constraint_failed)"

definition load_invocation :: "content_port \<Rightarrow> task_db \<Rightarrow> invocation_row \<Rightarrow> db_error + invocation_row" where
  "load_invocation K db v =
     and_then (run_session db (iv_run v)) (\<lambda>session.
     and_then (load_optional K db session (iv_input v)) (\<lambda>input.
     and_then (load_optional K db session (iv_output v)) (\<lambda>output.
     and_then (load_ledger_diagnostic K db session (iv_error v)) (\<lambda>error.
     Inr (v\<lparr>iv_input := input, iv_output := output, iv_error := error\<rparr>)))))"

text \<open>\<open>serde_json::from_str::<Value>(input)?\<close> of an optional text.\<close>

definition valid_json :: "crates \<Rightarrow> ustring option \<Rightarrow> db_error + unit" where
  "valid_json cr v = map_ok (\<lambda>_. ()) (optionally (parse_json cr) v)"

definition create_invocation ::
  "crates \<Rightarrow> content_port \<Rightarrow> ustring \<Rightarrow> new_invocation \<Rightarrow> task_db \<Rightarrow> db_error + (invocation_row \<times> task_db)" where
  "create_invocation cr K kind n db =
     and_then (reject (ni_class n \<notin> set SIDE_EFFECTS) (Invalid (u ''TOOL_SIDE_EFFECT_CLASS_INVALID''))) (\<lambda>_.
     and_then (valid_json cr (ni_input n)) (\<lambda>_.
     and_then (reject (matching (\<lambda>r. rn_id r = ni_run n \<and> rn_task r = ni_task n) (db_runs db) \<noteq> 1)
       (Invalid (u ''TOOL_RUN_NOT_OWNED''))) (\<lambda>_.
     and_then (run_session db (ni_run n)) (\<lambda>session.
     and_then (store_optional K db session (ni_input n)) (\<lambda>input.
     and_then (insert_invocation
       \<lparr>iv_id = ni_id n, iv_kind = kind, iv_task = ni_task n, iv_run = ni_run n, iv_use = ni_use n,
        iv_name = ni_name n, iv_status = InvPreparing, iv_input = input, iv_output = None, iv_error = None,
        iv_class = ni_class n, iv_cleanup = CleanupNotRequired, iv_directory = ni_directory n,
        iv_connection = ni_connection n, iv_version = 0, iv_started = None, iv_terminal = None\<rparr> db) (\<lambda>db'.
     and_then (one_row (invocation_of db' (ni_id n))) (\<lambda>row.
     map_ok (\<lambda>v. (v, db')) (load_invocation K db' row))))))))"

definition create_tool_invocation ::
  "crates \<Rightarrow> content_port \<Rightarrow> new_invocation \<Rightarrow> task_db \<Rightarrow> db_error + (invocation_row \<times> task_db)" where
  "create_tool_invocation cr K n db = create_invocation cr K (u ''tool'') n db"

definition create_run_scope_invocation ::
  "crates \<Rightarrow> content_port \<Rightarrow> new_invocation \<Rightarrow> task_db \<Rightarrow> db_error + (invocation_row \<times> task_db)" where
  "create_run_scope_invocation cr K n db =
     (if ni_name n \<noteq> u ''RunToolScope'' \<or> ni_directory n \<noteq> None \<or> ni_connection n \<noteq> None \<or> ni_class n \<noteq> u ''write''
      then Inl (Invalid (u ''RUN_SCOPE_INVOCATION_INVALID''))
      else create_invocation cr K (u ''runtimeScope'') n db)"

definition finish_run_scope_invocation ::
  "content_port \<Rightarrow> ustring \<Rightarrow> ustring \<Rightarrow> int \<Rightarrow> invocation_status \<Rightarrow> ustring option \<Rightarrow> cleanup_status \<Rightarrow> task_db \<Rightarrow>
   db_error + (cas_outcome \<times> task_db)" where
  "finish_run_scope_invocation K now i version target error cleanup db =
     (if \<not> invocation_is_terminal target then Inl (Invalid (u ''RUN_SCOPE_TERMINAL_REQUIRED''))
      else (case find (\<lambda>v. iv_id v = i \<and> iv_kind v = u ''runtimeScope'') (db_invocations db) of
        None \<Rightarrow> Inr (NotFound, db)
      | Some v \<Rightarrow>
          if invocation_is_terminal (iv_status v) then Inr (InvalidTransition, db)
          else if iv_version v \<noteq> version then Inr (VersionConflict, db)
          else
            and_then (reject (cleanup = CleanupConfirmed \<and>
                list_ex (\<lambda>e. re_invocation e = Some i \<and> re_status e \<noteq> ResourceReleased) (db_resources db))
              (Invalid (u ''RUN_SCOPE_CLEANUP_UNCONFIRMED''))) (\<lambda>_.
            and_then (run_session db (iv_run v)) (\<lambda>session.
            and_then (store_ledger_diagnostic K db session error) (\<lambda>stored.
            and_then (update_invocations (\<lambda>w. iv_id w = i \<and> iv_version w = version \<and> iv_kind w = u ''runtimeScope'')
              (\<lambda>w. w\<lparr>iv_status := target, iv_error := stored, iv_cleanup := cleanup, iv_terminal := Some now,
                     iv_version := iv_version w + 1\<rparr>) db) (\<lambda>(changed, db').
            Inr (if changed = 1 then Applied else VersionConflict, db')))))))"

text \<open>The general transition keeps the first start and forgets the output and the error.\<close>

definition transition_row ::
  "ustring \<Rightarrow> invocation_status \<Rightarrow> ustring option \<Rightarrow> ustring option \<Rightarrow> ustring option \<Rightarrow> cleanup_status \<Rightarrow>
   ustring option \<Rightarrow> invocation_row \<Rightarrow> invocation_row" where
  "transition_row now target input output error cleanup started v =
     v\<lparr>iv_status := target, iv_input := or_some input (iv_input v), iv_output := output, iv_error := error,
       iv_cleanup := cleanup, iv_started := or_some (iv_started v) started,
       iv_terminal := (if invocation_is_terminal target then Some now else None),
       iv_version := iv_version v + 1\<rparr>"

definition transition_tool_invocation_cas ::
  "crates \<Rightarrow> content_port \<Rightarrow> ustring \<Rightarrow> ustring \<Rightarrow> int \<Rightarrow> invocation_status \<Rightarrow> ustring option \<Rightarrow> ustring option \<Rightarrow>
   ustring option \<Rightarrow> cleanup_status \<Rightarrow> task_db \<Rightarrow> db_error + (cas_outcome \<times> task_db)" where
  "transition_tool_invocation_cas cr K now i version target input output error cleanup db =
     (if target \<in> {InvQueued, InvRunning, InvSucceeded} \<and> input = None then Inl (Invalid (u ''TOOL_INPUT_REQUIRED''))
      else
        and_then (valid_json cr input) (\<lambda>_.
        case invocation_of db i of
          None \<Rightarrow> Inr (NotFound, db)
        | Some v \<Rightarrow>
            if invocation_is_terminal (iv_status v) then Inr (InvalidTransition, db)
            else if iv_version v \<noteq> version then Inr (VersionConflict, db)
            else
              and_then (run_session db (iv_run v)) (\<lambda>session.
              and_then (store_optional K db session input) (\<lambda>input'.
              and_then (store_optional K db session output) (\<lambda>output'.
              and_then (store_ledger_diagnostic K db session error) (\<lambda>error'.
              and_then (update_invocations (\<lambda>w. iv_id w = i \<and> iv_version w = version)
                (transition_row now target input' output' error' cleanup
                  (if target \<in> {InvRunning, InvSucceeded} then Some now else None)) db) (\<lambda>(changed, db').
              Inr (if changed = 1 then Applied else VersionConflict, db'))))))))"

subsection \<open>The result of a call\<close>

record invocation_result =
  ir_id :: ustring
  ir_version :: int
  ir_session :: ustring
  ir_target :: invocation_status
  ir_input :: "ustring option"
  ir_content :: ustring
  ir_is_error :: bool
  ir_metadata :: "json option"
  ir_sha :: "ustring option"
  ir_error :: "ustring option"
  ir_cleanup :: cleanup_status
  ir_postprocessing :: "json option"

datatype invocation_commit =
    InvocationCommitted invocation_row ustring
  | InvocationVersionConflict
  | InvocationInvalid
  | InvocationNotFound

definition MAX_TOOL_POSTPROCESSING_BYTES :: nat where "MAX_TOOL_POSTPROCESSING_BYTES = 256 * 1024"

definition validate_result :: "crates \<Rightarrow> invocation_result \<Rightarrow> db_error + unit" where
  "validate_result cr q =
     and_then (reject (\<not> invocation_is_terminal (ir_target q))
       (Invalid (u ''TOOL_RESULT_TARGET_MUST_BE_TERMINAL''))) (\<lambda>_.
     and_then (reject (ir_version q < 0) (Invalid (u ''TOOL_INVOCATION_VERSION_INVALID''))) (\<lambda>_.
     and_then (valid_json cr (ir_input q)) (\<lambda>_.
     and_then (reject (some_and (\<lambda>h. byte_length h \<noteq> 64 \<or> \<not> list_all is_hex h) (ir_sha q))
       (Invalid (u ''TOOL_RESULT_SHA256_INVALID''))) (\<lambda>_.
     reject (some_and (\<lambda>p. MAX_TOOL_POSTPROCESSING_BYTES < byte_length (to_text cr p)) (ir_postprocessing q))
       (Invalid (u ''TOOL_POSTPROCESSING_PAYLOAD_TOO_LARGE''))))))"

definition result_block :: "ustring \<Rightarrow> invocation_result \<Rightarrow> json" where
  "result_block use q =
     JObj ([(u ''type'', JStr (u ''tool_result'')), (u ''tool_use_id'', JStr use), (u ''content'', JStr (ir_content q))] @
       (if ir_is_error q then [(u ''is_error'', JBool True)] else []) @
       (case ir_metadata q of None \<Rightarrow> [] | Some m \<Rightarrow> [(u ''metadata'', m)]))"

definition output_reference :: "ustring \<Rightarrow> ustring option \<Rightarrow> ustring" where
  "output_reference message sha =
     u ''message:'' @ message @ (case sha of None \<Rightarrow> [] | Some h \<Rightarrow> u ''#sha256:'' @ h)"

definition insert_result_message ::
  "crates \<Rightarrow> content_port \<Rightarrow> ustring \<Rightarrow> invocation_row \<Rightarrow> invocation_result \<Rightarrow> task_db \<Rightarrow> db_error + task_db" where
  "insert_result_message cr K message_id v q db =
     (if list_ex (\<lambda>m. ms_id m = message_id) (db_messages db) then Inl (Conflict (u ''MESSAGE_ID_CONFLICT''))
      else
        and_then (store_text K db (ir_session q) (to_text cr (JArr [result_block (iv_use v) q]))) (\<lambda>content.
        insert_message \<lparr>ms_id = message_id, ms_session = ir_session q, ms_task = Some (iv_task v),
          ms_run = Some (iv_run v), ms_role = u ''user'', ms_seq = next_message_seq db (ir_session q),
          ms_content = content, ms_origin = u ''tool_result'', ms_source = None\<rparr> db))"

definition insert_postprocessing ::
  "crates \<Rightarrow> content_port \<Rightarrow> ustring \<Rightarrow> invocation_row \<Rightarrow> invocation_result \<Rightarrow> task_db \<Rightarrow> db_error + task_db" where
  "insert_postprocessing cr K message_id v q db =
     (case ir_postprocessing q of
        None \<Rightarrow> Inr db
      | Some p \<Rightarrow>
          and_then (store_text K db (ir_session q) (to_text cr p)) (\<lambda>payload.
          if list_ex (\<lambda>k. pp_invocation k = iv_id v \<or> pp_message k = message_id) (db_postprocessing db)
          then Inl (Sqlite (u ''UNIQUE constraint failed''))
          else Inr (db\<lparr>db_postprocessing := db_postprocessing db @
            [\<lparr>pp_invocation = iv_id v, pp_task = iv_task v, pp_run = iv_run v, pp_message = message_id,
              pp_payload = payload, pp_pending = True, pp_version = 0\<rparr>]\<rparr>)))"

text \<open>A successful \<open>TodoWrite\<close> also appends the boundaries of its todos, which are not modelled.\<close>

definition write_invocation_result ::
  "crates \<Rightarrow> content_port \<Rightarrow> ustring \<Rightarrow> ustring \<Rightarrow> invocation_row \<Rightarrow> invocation_result \<Rightarrow> task_db \<Rightarrow>
   db_error + (invocation_commit \<times> task_db)" where
  "write_invocation_result cr K message_id now v q db =
     and_then (insert_result_message cr K message_id v q db) (\<lambda>db1.
     and_then (store_text K db1 (ir_session q) (output_reference message_id (ir_sha q))) (\<lambda>output.
     and_then (store_optional K db1 (ir_session q) (ir_input q)) (\<lambda>input.
     and_then (store_ledger_diagnostic K db1 (ir_session q) (ir_error q)) (\<lambda>error.
     and_then (update_invocations (\<lambda>w. iv_id w = iv_id v \<and> iv_version w = ir_version q \<and>
         \<not> invocation_is_terminal (iv_status w))
       (transition_row now (ir_target q) input (Some output) error (ir_cleanup q)
         (if ir_target q = InvSucceeded then Some now else None)) db1) (\<lambda>(changed, db2).
     if changed \<noteq> 1 then Inr (InvocationVersionConflict, db)
     else
       and_then (insert_postprocessing cr K message_id v q db2) (\<lambda>db3.
       and_then (one_row (invocation_of db3 (iv_id v))) (\<lambda>row.
       map_ok (\<lambda>w. (InvocationCommitted w message_id, db3)) (load_invocation K db3 row))))))))"

definition commit_tool_invocation_result ::
  "crates \<Rightarrow> content_port \<Rightarrow> ustring \<Rightarrow> ustring \<Rightarrow> invocation_result \<Rightarrow> task_db \<Rightarrow>
   db_error + (invocation_commit \<times> task_db)" where
  "commit_tool_invocation_result cr K message_id now q db =
     and_then (validate_result cr q) (\<lambda>_.
     case find (\<lambda>v. iv_id v = ir_id q \<and> list_ex (\<lambda>r. rn_id r = iv_run v \<and> rn_task r = iv_task v) (db_runs db))
         (db_invocations db) of
       None \<Rightarrow> Inr (InvocationNotFound, db)
     | Some v \<Rightarrow>
         if invocation_is_terminal (iv_status v) then Inr (InvocationInvalid, db)
         else if iv_version v \<noteq> ir_version q then Inr (InvocationVersionConflict, db)
         else
           and_then (run_session db (iv_run v)) (\<lambda>session.
           and_then (reject (session \<noteq> ir_session q) (Invalid (u ''TOOL_RESULT_SESSION_NOT_OWNED''))) (\<lambda>_.
           and_then (reject (ir_target q = InvSucceeded \<and> ir_input q = None \<and> iv_input v = None)
             (Invalid (u ''TOOL_INPUT_REQUIRED''))) (\<lambda>_.
           write_invocation_result cr K message_id now v q db))))"

definition complete_tool_result_postprocessing_cas ::
  "ustring \<Rightarrow> int \<Rightarrow> task_db \<Rightarrow> db_error + (cas_outcome \<times> task_db)" where
  "complete_tool_result_postprocessing_cas i version db =
     (if version < 0 then Inl (Invalid (u ''TOOL_POSTPROCESSING_VERSION_INVALID''))
      else (case find (\<lambda>p. pp_invocation p = i) (db_postprocessing db) of
        None \<Rightarrow> Inr (NotFound, db)
      | Some p \<Rightarrow>
          if \<not> pp_pending p then Inr (InvalidTransition, db)
          else if pp_version p \<noteq> version then Inr (VersionConflict, db)
          else
            let mine = (\<lambda>k. pp_invocation k = i \<and> pp_pending k \<and> pp_version k = version) in
            Inr (if matching mine (db_postprocessing db) = 1 then Applied else VersionConflict,
              db\<lparr>db_postprocessing := update_where mine (\<lambda>k. k\<lparr>pp_pending := False, pp_version := pp_version k + 1\<rparr>)
                (db_postprocessing db)\<rparr>)))"

subsection \<open>The start of a call\<close>

record invocation_owner =
  io_row :: invocation_row
  io_active :: bool
  io_usage :: usage_integrity

definition executable :: "task_row \<Rightarrow> envelope_row \<Rightarrow> bool" where
  "executable t r =
     (tk_current_run t = Some (rn_id r) \<and> tk_status t \<in> {TaskRunning, TaskWaitingDependencies} \<and>
      rn_status r \<in> {RunRunning, RunWaitingDependencies})"

definition owner_of_invocation :: "task_db \<Rightarrow> ustring \<Rightarrow> invocation_owner option" where
  "owner_of_invocation db i =
     Option.bind (invocation_of db i) (\<lambda>v.
     Option.bind (task_of db (iv_task v)) (\<lambda>t.
     Option.bind (find (\<lambda>r. rn_id r = iv_run v \<and> rn_task r = tk_id t) (db_runs db)) (\<lambda>r.
     map_option (\<lambda>root. \<lparr>io_row = v, io_active = executable t r,
         io_usage = \<lparr>run_usage_complete = rn_usage_complete r, task_usage_complete = tk_usage_complete t,
           root_task_usage_complete = tk_usage_complete root\<rparr>\<rparr>) (task_of db (tk_root t)))))"

definition start_row :: "ustring \<Rightarrow> ustring \<Rightarrow> ustring \<Rightarrow> invocation_row \<Rightarrow> invocation_row" where
  "start_row now input class' v =
     v\<lparr>iv_status := InvRunning, iv_input := Some input, iv_class := class', iv_output := None, iv_error := None,
       iv_cleanup := CleanupPending, iv_started := or_some (iv_started v) (Some now), iv_terminal := None,
       iv_version := iv_version v + 1\<rparr>"

text \<open>The guard of the statement repeats what the same transaction has just read.\<close>

definition start_tool_invocation_for_active_run_cas ::
  "crates \<Rightarrow> content_port \<Rightarrow> ustring \<Rightarrow> ustring \<Rightarrow> int \<Rightarrow> ustring \<Rightarrow> ustring \<Rightarrow> task_db \<Rightarrow>
   db_error + (cas_outcome \<times> task_db)" where
  "start_tool_invocation_for_active_run_cas cr K now i version input class' db =
     and_then (parse_json cr input) (\<lambda>_.
     and_then (reject (class' \<notin> set SIDE_EFFECTS) (Invalid (u ''TOOL_SIDE_EFFECT_CLASS_INVALID''))) (\<lambda>_.
     case owner_of_invocation db i of
       None \<Rightarrow> Inr (NotFound, db)
     | Some o' \<Rightarrow>
         and_then (usage_admissible K db (iv_run (io_row o')) (integrity_is_complete (io_usage o'))) (\<lambda>ok.
         and_then (reject (\<not> ok) (Invalid (u ''BUDGET_USAGE_INCOMPLETE''))) (\<lambda>_.
         if iv_status (io_row o') \<noteq> InvPreparing \<or> \<not> io_active o' then Inr (InvalidTransition, db)
         else if iv_version (io_row o') \<noteq> version then Inr (VersionConflict, db)
         else
           and_then (run_session db (iv_run (io_row o'))) (\<lambda>session.
           and_then (store_text K db session input) (\<lambda>stored.
           map_ok (\<lambda>(_, db'). (Applied, db'))
             (update_invocations (\<lambda>v. iv_id v = i \<and> iv_version v = version \<and> iv_status v = InvPreparing)
               (start_row now stored class') db)))))))"

subsection \<open>Resources\<close>

record new_resource =
  nr_id :: ustring
  nr_task :: ustring
  nr_run :: ustring
  nr_invocation :: "ustring option"
  nr_kind :: ustring
  nr_external :: "ustring option"
  nr_metadata :: ustring

definition resource_checks :: "resource_row \<Rightarrow> bool" where
  "resource_checks e =
     (re_kind e \<in> {u ''process'', u ''processGroup'', u ''worktree'', u ''workspaceLease'', u ''stream''} \<and>
      0 \<le> re_version e \<and> (re_status e = ResourceReleased \<longleftrightarrow> re_released e \<noteq> None))"

definition resource_of :: "task_db \<Rightarrow> ustring \<Rightarrow> resource_row option" where
  "resource_of db i = find (\<lambda>e. re_id e = i) (db_resources db)"

definition insert_resource :: "resource_row \<Rightarrow> task_db \<Rightarrow> db_error + task_db" where
  "insert_resource e db =
     (if \<not> list_ex (\<lambda>r. rn_id r = re_run e \<and> rn_task r = re_task e) (db_runs db)
      then Inl (Sqlite (u ''EXECUTION_RESOURCE_RUN_MISMATCH''))
      else if \<not> resource_checks e then Inl (Sqlite (u ''CHECK constraint failed''))
      else if resource_of db (re_id e) \<noteq> None then Inl (Sqlite (u ''UNIQUE constraint failed''))
      else Inr (db\<lparr>db_resources := db_resources db @ [e]\<rparr>))"

definition update_resources ::
  "(resource_row \<Rightarrow> bool) \<Rightarrow> (resource_row \<Rightarrow> resource_row) \<Rightarrow> task_db \<Rightarrow> db_error + (nat \<times> task_db)" where
  "update_resources p f db =
     (if list_all (\<lambda>e. p e \<longrightarrow> resource_checks (f e)) (db_resources db)
      then Inr (matching p (db_resources db), db\<lparr>db_resources := update_where p f (db_resources db)\<rparr>)
      else Inl constraint_failed)"

definition register_execution_resource :: "crates \<Rightarrow> new_resource \<Rightarrow> task_db \<Rightarrow> db_error + task_db" where
  "register_execution_resource cr n db =
     and_then (parse_json cr (nr_metadata n)) (\<lambda>_.
     and_then (reject (matching (\<lambda>r. rn_id r = nr_run n \<and> rn_task r = nr_task n) (db_runs db) \<noteq> 1)
       (Invalid (u ''RESOURCE_RUN_NOT_OWNED''))) (\<lambda>_.
     and_then (reject (some_and (\<lambda>i. matching (\<lambda>v. iv_id v = i \<and> iv_run v = nr_run n \<and> iv_task v = nr_task n)
         (db_invocations db) \<noteq> 1) (nr_invocation n)) (Invalid (u ''RESOURCE_INVOCATION_NOT_OWNED''))) (\<lambda>_.
     insert_resource \<lparr>re_id = nr_id n, re_task = nr_task n, re_run = nr_run n, re_invocation = nr_invocation n,
       re_kind = nr_kind n, re_external = nr_external n, re_status = ResourceAllocated,
       re_metadata = nr_metadata n, re_version = 0, re_released = None\<rparr> db)))"

definition bind_execution_resource_external ::
  "ustring \<Rightarrow> ustring \<Rightarrow> task_db \<Rightarrow> db_error + (cas_outcome \<times> task_db)" where
  "bind_execution_resource_external i external db =
     (if rust_trim external = [] then Inl (Invalid (u ''EXECUTION_RESOURCE_EXTERNAL_ID_REQUIRED''))
      else (case resource_of db i of
        None \<Rightarrow> Inr (NotFound, db)
      | Some e \<Rightarrow>
          if re_external e = Some external then Inr (Applied, db)
          else if re_external e \<noteq> None \<or> re_status e \<noteq> ResourceAllocated then Inr (InvalidTransition, db)
          else map_ok (\<lambda>(n, db'). (if n = 1 then Applied else VersionConflict, db'))
            (update_resources (\<lambda>k. re_id k = i \<and> re_status k = ResourceAllocated \<and> re_external k = None)
              (\<lambda>k. k\<lparr>re_external := Some external, re_version := re_version k + 1\<rparr>) db)))"

definition resource_to :: "ustring \<Rightarrow> resource_status \<Rightarrow> resource_row \<Rightarrow> resource_row" where
  "resource_to now target e =
     e\<lparr>re_status := target, re_released := (if target = ResourceReleased then Some now else None),
       re_version := re_version e + 1\<rparr>"

definition resource_is_terminal :: "resource_status \<Rightarrow> bool" where
  "resource_is_terminal s = (s \<in> {ResourceReleased, ResourceUnconfirmed})"

definition transition_execution_resource_cas ::
  "ustring \<Rightarrow> ustring \<Rightarrow> int \<Rightarrow> resource_status \<Rightarrow> task_db \<Rightarrow> db_error + (cas_outcome \<times> task_db)" where
  "transition_execution_resource_cas now i version target db =
     and_then (update_resources (\<lambda>e. re_id e = i \<and> re_version e = version \<and> \<not> resource_is_terminal (re_status e))
       (resource_to now target) db) (\<lambda>(changed, db').
     Inr (if changed = 1 then (Applied, db')
          else (case resource_of db' i of
            None \<Rightarrow> (NotFound, db')
          | Some e \<Rightarrow> (if re_version e \<noteq> version then VersionConflict else InvalidTransition, db'))))"

text \<open>The worst state of the resources of an invocation; without resources it keeps its own.\<close>

definition project_cleanup :: "task_db \<Rightarrow> ustring \<Rightarrow> cleanup_status \<Rightarrow> cleanup_status" where
  "project_cleanup db i own =
     (let states = map re_status (filter (\<lambda>e. re_invocation e = Some i) (db_resources db)) in
      if ResourceUnconfirmed \<in> set states then CleanupUnconfirmed
      else if ResourceAllocated \<in> set states \<or> ResourceStopping \<in> set states then CleanupPending
      else if states \<noteq> [] then CleanupConfirmed else own)"

definition finalize_execution_resource ::
  "ustring \<Rightarrow> ustring \<Rightarrow> resource_status \<Rightarrow> task_db \<Rightarrow> db_error + (cas_outcome \<times> task_db)" where
  "finalize_execution_resource now i target db =
     (if \<not> resource_is_terminal target then Inl (Invalid (u ''EXECUTION_RESOURCE_TERMINAL_REQUIRED''))
      else (case resource_of db i of
        None \<Rightarrow> Inr (NotFound, db)
      | Some e \<Rightarrow>
          if resource_is_terminal (re_status e) \<and> re_status e \<noteq> target then Inr (InvalidTransition, db)
          else
            and_then (if re_status e = target then Inr db
                      else map_ok snd (update_resources (\<lambda>k. re_id k = i) (resource_to now target) db)) (\<lambda>db1.
            and_then (case re_invocation e of
                None \<Rightarrow> Inr db1
              | Some v \<Rightarrow> map_ok snd (update_invocations (\<lambda>w. iv_id w = v)
                  (\<lambda>w. w\<lparr>iv_cleanup := project_cleanup db1 v (iv_cleanup w)\<rparr>) db1)) (\<lambda>db2.
            Inr (Applied, db2)))))"

definition run_cleanup_status :: "task_db \<Rightarrow> ustring \<Rightarrow> cleanup_status" where
  "run_cleanup_status db run =
     (let calls = filter (\<lambda>v. iv_run v = run) (db_invocations db);
          states = map re_status (filter (\<lambda>e. re_run e = run) (db_resources db)) in
      if list_ex (\<lambda>v. iv_cleanup v = CleanupUnconfirmed) calls \<or> ResourceUnconfirmed \<in> set states
      then CleanupUnconfirmed
      else if list_ex (\<lambda>v. iv_status v \<in> {InvPreparing, InvQueued, InvRunning} \<or> iv_cleanup v = CleanupPending) calls \<or>
        ResourceAllocated \<in> set states \<or> ResourceStopping \<in> set states then CleanupPending
      else if list_ex (\<lambda>v. iv_cleanup v = CleanupConfirmed) calls \<or> ResourceReleased \<in> set states
      then CleanupConfirmed
      else CleanupNotRequired)"

end
