(* ===== verification/Task_Wp.thy ===== *)
theory Task_Wp
  imports Task_Tools
begin

section \<open>Postconditions of transactions\<close>

text \<open>
  \<open>yields Q r\<close>: if the computation \<open>r\<close> succeeds, its value satisfies \<open>Q\<close>. The rules of the collection
  \<open>wp\<close> follow the structure of a definition; \<open>store_invariant\<close> collects what a property of the tables
  needs of the single statements to survive every operation of the runtime.
\<close>

definition yields :: "('a \<Rightarrow> bool) \<Rightarrow> 'e + 'a \<Rightarrow> bool" where
  "yields Q r = (case r of Inl _ \<Rightarrow> True | Inr x \<Rightarrow> Q x)"

named_theorems wp

lemma yieldsD: "yields Q r \<Longrightarrow> r = Inr x \<Longrightarrow> Q x"
  by (simp add: yields_def)

lemma yields_any: "(\<And>x. r = Inr x \<Longrightarrow> Q x) \<Longrightarrow> yields Q r"
  by (simp add: yields_def split: sum.split)

lemma yields_mono: "yields P r \<Longrightarrow> (\<And>x. P x \<Longrightarrow> Q x) \<Longrightarrow> yields Q r"
  by (auto simp: yields_def split: sum.splits)

lemma yields_Inl [wp]: "yields Q (Inl e)"
  by (simp add: yields_def)

lemma yields_Inr [wp]: "Q x \<Longrightarrow> yields Q (Inr x)"
  by (simp add: yields_def)

lemma yields_and_then [wp]: "yields (\<lambda>x. yields Q (f x)) r \<Longrightarrow> yields Q (and_then r f)"
  by (auto simp: yields_def split: sum.splits)

lemma yields_map_ok [wp]: "yields (\<lambda>x. Q (f x)) r \<Longrightarrow> yields Q (map_ok f r)"
  by (auto simp: yields_def map_ok_def split: sum.splits)

lemma yields_reject [wp]: "(\<not> c \<Longrightarrow> Q ()) \<Longrightarrow> yields Q (reject c e)"
  by (auto simp: yields_def reject_def)

lemma yields_if [wp]: "(c \<Longrightarrow> yields Q a) \<Longrightarrow> (\<not> c \<Longrightarrow> yields Q b) \<Longrightarrow> yields Q (if c then a else b)"
  by simp

lemma yields_option [wp]:
  "(v = None \<Longrightarrow> yields Q a) \<Longrightarrow> (\<And>x. v = Some x \<Longrightarrow> yields Q (f x)) \<Longrightarrow>
   yields Q (case v of None \<Rightarrow> a | Some x \<Rightarrow> f x)"
  by (cases v) auto

lemma yields_prod [wp]: "(\<And>x y. p = (x, y) \<Longrightarrow> yields Q (f x y)) \<Longrightarrow> yields Q (case p of (x, y) \<Rightarrow> f x y)"
  by (cases p) auto

lemma yields_sum [wp]:
  "(\<And>x. v = Inl x \<Longrightarrow> yields Q (f x)) \<Longrightarrow> (\<And>x. v = Inr x \<Longrightarrow> yields Q (g x)) \<Longrightarrow>
   yields Q (case v of Inl x \<Rightarrow> f x | Inr x \<Rightarrow> g x)"
  by (cases v) auto

lemma yields_object [wp]:
  "(\<And>m. v = JObj m \<Longrightarrow> yields Q (f m)) \<Longrightarrow> yields Q e \<Longrightarrow> yields Q (case v of JObj m \<Rightarrow> f m | _ \<Rightarrow> e)"
  by (cases v) auto

lemma yields_let [wp]: "(\<And>x. x = v \<Longrightarrow> yields Q (f x)) \<Longrightarrow> yields Q (let x = v in f x)"
  by simp

lemma yields_pair [wp]: "yields Q (f x y) \<Longrightarrow> yields Q (case (x, y) of (a, b) \<Rightarrow> f a b)"
  by simp

lemma yields_thread:
  "I s \<Longrightarrow> (\<And>x s. x \<in> set xs \<Longrightarrow> I s \<Longrightarrow> yields I (f x s)) \<Longrightarrow> yields I (thread f xs s)"
proof (induction xs arbitrary: s)
  case (Cons x xs)
  have "yields I (f x s)" using Cons.prems by simp
  then show ?case using Cons by (cases "f x s") (auto simp: yields_def)
qed (simp add: yields_def)

lemma one_row_Inr: "one_row v = Inr x \<longleftrightarrow> v = Some x"
  by (cases v) (auto simp: one_row_def)

lemma map_ok_snd: "map_ok snd r = Inr y \<longleftrightarrow> (\<exists>n. r = Inr (n, y))"
  by (auto simp: map_ok_Inr)

subsection \<open>Single statements\<close>

text \<open>The tables an invariant may speak about, and updates that leave the account and the identity of a
  task, or the identity of a run, as they are.\<close>

definition core :: "task_db \<Rightarrow> task_row list \<times> envelope_row list \<times> reservation_row list \<times> result_row list" where
  "core db = (db_tasks db, db_runs db, db_reservations db, db_results db)"

definition plain_task :: "(task_row \<Rightarrow> task_row) \<Rightarrow> bool" where
  "plain_task f =
     (\<forall>t. tk_id (f t) = tk_id t \<and> tk_session (f t) = tk_session t \<and> tk_parent (f t) = tk_parent t \<and>
       tk_root (f t) = tk_root t \<and> tk_current_run (f t) = tk_current_run t \<and>
       tk_token_limit (f t) = tk_token_limit t \<and> tk_cost_limit (f t) = tk_cost_limit t \<and>
       tk_reserved_tokens (f t) = tk_reserved_tokens t \<and> tk_reserved_cost (f t) = tk_reserved_cost t)"

definition plain_run :: "(envelope_row \<Rightarrow> envelope_row) \<Rightarrow> bool" where
  "plain_run f =
     (\<forall>r. rn_id (f r) = rn_id r \<and> rn_task (f r) = rn_task r \<and> rn_session (f r) = rn_session r \<and>
       rn_attempt (f r) = rn_attempt r \<and> rn_parent (f r) = rn_parent r)"

lemma core_simps [simp]:
  "core (db_calls_update a db) = core db" "core (db_blobs_update b db) = core db"
  "core (db_sessions_update c db) = core db" "core (db_messages_update d db) = core db"
  "core (db_events_update e db) = core db" "core (db_inbox_update f db) = core db"
  "core (db_dependencies_update g db) = core db" "core (db_receipts_update h db) = core db"
  "core (db_invocations_update i db) = core db" "core (db_postprocessing_update j db) = core db"
  "core (db_resources_update k db) = core db"
  by (simp_all add: core_def)

text \<open>The statements that touch none of these tables.\<close>

lemma core_statements:
  "insert_event run seq ty data db = Inr db' \<Longrightarrow> core db' = core db"
  "insert_session s db = Inr db' \<Longrightarrow> core db' = core db"
  "insert_call c db = Inr db' \<Longrightarrow> core db' = core db"
  "insert_dependency d db = Inr db' \<Longrightarrow> core db' = core db"
  "insert_message m db = Inr db' \<Longrightarrow> core db' = core db"
  "insert_receipt r db = Inr db' \<Longrightarrow> core db' = core db"
  "insert_invocation v db = Inr db' \<Longrightarrow> core db' = core db"
  "insert_resource e db = Inr db' \<Longrightarrow> core db' = core db"
  "update_calls pc fc db = Inr (n, db') \<Longrightarrow> core db' = core db"
  "update_inbox pi fi db = Inr (n, db') \<Longrightarrow> core db' = core db"
  "update_invocations pv fv db = Inr (n, db') \<Longrightarrow> core db' = core db"
  "update_resources pe fe db = Inr (n, db') \<Longrightarrow> core db' = core db"
  "add_session_usage q session db = Inr db' \<Longrightarrow> core db' = core db"
  by (auto simp: insert_event_def insert_session_def insert_call_def insert_dependency_def insert_message_def
      insert_receipt_def insert_invocation_def insert_resource_def update_calls_def update_inbox_def
      update_invocations_def update_resources_def add_session_usage_def and_then_Inr split: if_splits)

lemma core_insert_blob [simp]: "core (insert_blob d b db) = core db"
  by (simp add: insert_blob_def)

lemma append_event_core:
  assumes "append_event cr K run ty tool data db = Inr db'"
  shows "core db' = core db"
proof -
  from assms obtain stored where "insert_event run (last_seq 0 db run + 1) ty stored db = Inr db'"
    unfolding append_event_def Let_def and_then_Inr by blast
  then show ?thesis by (rule core_statements)
qed

text \<open>Tables whose core is the same, with calls that still satisfy their checks.\<close>

definition calls_ok :: "task_db \<Rightarrow> bool" where
  "calls_ok db = list_all call_checks (db_calls db)"

definition same_core :: "task_db \<Rightarrow> task_db \<Rightarrow> bool" where
  "same_core db db' = (core db' = core db \<and> (calls_ok db \<longrightarrow> calls_ok db'))"

lemma same_core_simps [simp]:
  "same_core db (db_inbox_update f db)" "same_core db (db_dependencies_update g db)"
  "same_core db (db_postprocessing_update j db)" "same_core db (insert_blob d b db)"
  by (simp_all add: same_core_def calls_ok_def insert_blob_def)

lemma calls_statements:
  "insert_event run seq ty data db = Inr db' \<Longrightarrow> calls_ok db \<Longrightarrow> calls_ok db'"
  "insert_session s db = Inr db' \<Longrightarrow> calls_ok db \<Longrightarrow> calls_ok db'"
  "insert_call c db = Inr db' \<Longrightarrow> calls_ok db \<Longrightarrow> calls_ok db'"
  "insert_dependency d db = Inr db' \<Longrightarrow> calls_ok db \<Longrightarrow> calls_ok db'"
  "insert_message m db = Inr db' \<Longrightarrow> calls_ok db \<Longrightarrow> calls_ok db'"
  "insert_receipt r db = Inr db' \<Longrightarrow> calls_ok db \<Longrightarrow> calls_ok db'"
  "insert_invocation v db = Inr db' \<Longrightarrow> calls_ok db \<Longrightarrow> calls_ok db'"
  "insert_resource e db = Inr db' \<Longrightarrow> calls_ok db \<Longrightarrow> calls_ok db'"
  "update_calls pc fc db = Inr (n, db') \<Longrightarrow> calls_ok db \<Longrightarrow> calls_ok db'"
  "update_inbox pi fi db = Inr (n, db') \<Longrightarrow> calls_ok db \<Longrightarrow> calls_ok db'"
  "update_invocations pv fv db = Inr (n, db') \<Longrightarrow> calls_ok db \<Longrightarrow> calls_ok db'"
  "update_resources pe fe db = Inr (n, db') \<Longrightarrow> calls_ok db \<Longrightarrow> calls_ok db'"
  "add_session_usage q session db = Inr db' \<Longrightarrow> calls_ok db \<Longrightarrow> calls_ok db'"
  by (auto simp: insert_event_def insert_session_def insert_call_def insert_dependency_def insert_message_def
      insert_receipt_def insert_invocation_def insert_resource_def update_calls_def update_inbox_def
      update_invocations_def update_resources_def add_session_usage_def and_then_Inr calls_ok_def list_all_iff
      update_where_def split: if_splits)

lemma same_core_statements:
  "insert_event run seq ty data db = Inr db' \<Longrightarrow> same_core db db'"
  "insert_session s db = Inr db' \<Longrightarrow> same_core db db'"
  "insert_call c db = Inr db' \<Longrightarrow> same_core db db'"
  "insert_dependency d db = Inr db' \<Longrightarrow> same_core db db'"
  "insert_message m db = Inr db' \<Longrightarrow> same_core db db'"
  "insert_receipt r db = Inr db' \<Longrightarrow> same_core db db'"
  "insert_invocation v db = Inr db' \<Longrightarrow> same_core db db'"
  "insert_resource e db = Inr db' \<Longrightarrow> same_core db db'"
  "update_calls pc fc db = Inr (n, db') \<Longrightarrow> same_core db db'"
  "update_inbox pi fi db = Inr (n, db') \<Longrightarrow> same_core db db'"
  "update_invocations pv fv db = Inr (n, db') \<Longrightarrow> same_core db db'"
  "update_resources pe fe db = Inr (n, db') \<Longrightarrow> same_core db db'"
  "add_session_usage q session db = Inr db' \<Longrightarrow> same_core db db'"
  unfolding same_core_def by (blast dest: core_statements intro: calls_statements)+

lemma append_event_same_core:
  assumes "append_event cr K run ty tool data db = Inr db'"
  shows "same_core db db'"
proof -
  from assms obtain stored where "insert_event run (last_seq 0 db run + 1) ty stored db = Inr db'"
    unfolding append_event_def Let_def and_then_Inr by blast
  then show ?thesis unfolding same_core_def using core_statements(1) calls_statements(1) by blast
qed

lemma update_tasks_Inr:
  "update_tasks p f db = Inr (n, db') \<longleftrightarrow>
   (\<forall>t \<in> set (db_tasks db). p t \<longrightarrow> task_update_ok db t (f t)) \<and>
   one_service (update_where p f (db_tasks db)) \<and> n = matching p (db_tasks db) \<and>
   db' = db\<lparr>db_tasks := update_where p f (db_tasks db)\<rparr>"
  by (auto simp: update_tasks_def list_all_iff)

lemma update_runs_Inr:
  "update_runs p f db = Inr (n, db') \<longleftrightarrow>
   (\<forall>r \<in> set (db_runs db). p r \<longrightarrow> run_update_ok r (f r)) \<and> n = matching p (db_runs db) \<and>
   db' = db\<lparr>db_runs := update_where p f (db_runs db)\<rparr>"
  by (auto simp: update_runs_def list_all_iff)

lemma update_reservations_Inr:
  "update_reservations p f db = Inr (n, db') \<longleftrightarrow>
   (\<forall>v \<in> set (db_reservations db). p v \<longrightarrow> reservation_checks (f v)) \<and> n = matching p (db_reservations db) \<and>
   db' = db\<lparr>db_reservations := update_where p f (db_reservations db)\<rparr>"
  by (auto simp: update_reservations_def list_all_iff)

lemma insert_task_Inr:
  "insert_task t db = Inr db' \<longleftrightarrow>
   tk_session t \<notin> set (db_merge_locks db) \<and> \<not> task_is_terminal (tk_status t) \<and> parent_tree_ok db t \<and>
   task_checks t \<and> \<not> list_ex (task_conflict t) (db_tasks db) \<and> db' = db\<lparr>db_tasks := db_tasks db @ [t]\<rparr>"
  by (auto simp: insert_task_def)

lemma update_where_set: "set (update_where p f xs) = (\<lambda>x. if p x then f x else x) ` set xs"
  by (auto simp: update_where_def)

lemma update_where_map:
  "(\<And>x. x \<in> set xs \<Longrightarrow> p x \<Longrightarrow> g (f x) = g x) \<Longrightarrow> map g (update_where p f xs) = map g xs"
  by (auto simp: update_where_def)

lemma map_eq_member: "map f xs = map f ys \<Longrightarrow> x \<in> set xs \<Longrightarrow> \<exists>y \<in> set ys. f y = f x"
proof -
  assume eq: "map f xs = map f ys" and x: "x \<in> set xs"
  from x have "f x \<in> set (map f xs)" by simp
  then show ?thesis unfolding eq by auto
qed

lemma find_update_where:
  "(\<And>x. x \<in> set xs \<Longrightarrow> q (f x) = q x) \<Longrightarrow>
   find q (update_where p f xs) = map_option (\<lambda>x. if p x then f x else x) (find q xs)"
  by (induction xs) (auto simp: update_where_def)

lemma find_append: "find p (xs @ ys) = (case find p xs of None \<Rightarrow> find p ys | Some x \<Rightarrow> Some x)"
  by (induction xs) auto

end
