(* ===== verification/Task_Steps.thy ===== *)
theory Task_Steps
  imports Task_Wp
begin

section \<open>The runtime as a transition system\<close>

text \<open>
  Every modelled operation as a step on the tables, from the empty tables on. The content store may
  answer differently at each step. \<open>step_invariant\<close> reduces an invariant of the steps to the
  statements: tables outside the core do not matter, updates that leave accounts and identities keep
  it, and the submission, the settlement and the configuration of a budget keep it as a whole.
\<close>

subsection \<open>Steps\<close>

definition empty_db :: task_db where
  "empty_db = \<lparr>db_tasks = [], db_runs = [], db_calls = [], db_reservations = [], db_results = [], db_blobs = [],
     db_sessions = [], db_messages = [], db_events = [], db_inbox = [], db_dependencies = [], db_merge_locks = [],
     db_receipts = [], db_invocations = [], db_postprocessing = [], db_resources = []\<rparr>"

inductive task_step :: "crates \<Rightarrow> task_db \<Rightarrow> task_db \<Rightarrow> bool" for cr :: crates where
  session: "insert_session s db = Inr db' \<Longrightarrow> task_step cr db db'"
| message: "insert_message m db = Inr db' \<Longrightarrow> task_step cr db db'"
| submit: "create_task_with_run cr K now_ms later_ms q db = Inr (o', db') \<Longrightarrow> task_step cr db db'"
| commit: "commit_task_result_inner cr K result_id now r fallback db = Inr (c, db') \<Longrightarrow> task_step cr db db'"
| transition: "transition_task_cas K i v expected target reason cleanup verification db = Inr (c', db') \<Longrightarrow>
    task_step cr db db'"
| claim: "claim_task_run_cas cr K task run v db = Inr (c', db') \<Longrightarrow> task_step cr db db'"
| attention: "mark_task_run_needs_attention cr K now task run v why cleanup db = Inr (a, db') \<Longrightarrow> task_step cr db db'"
| configure: "configure_root_task_budget_cas root v limits db = Inr (c', db') \<Longrightarrow> task_step cr db db'"
| narrow: "narrow_run_tool_ceiling cr K run ceiling db = Inr (t, db') \<Longrightarrow> task_step cr db db'"
| start_call: "start_llm_call_inner K now_ms call reservation db = Inr db' \<Longrightarrow> task_step cr db db'"
| finish_call: "finish_llm_call K now i status usage db = Inr (c', db') \<Longrightarrow> task_step cr db db'"
| enqueue: "enqueue_task_message K i now root target sender content db = Inr (m', db') \<Longrightarrow> task_step cr db db'"
| mark: "mark_task_inbox_message_scoped K now owner i expected' target' why db = Inr (c', db') \<Longrightarrow> task_step cr db db'"
| consume: "consume_task_inbox_at_boundary cr K fresh now task run db = Inr (ids, db') \<Longrightarrow> task_step cr db db'"
| ingest: "ingest_task_result_at_safe_boundary cr K i receipt now consumer producer v summary db = Inr (d, db') \<Longrightarrow>
    task_step cr db db'"
| invoke: "create_invocation cr K kind n db = Inr (row, db') \<Longrightarrow> task_step cr db db'"
| finish_scope: "finish_run_scope_invocation K now i v s' why cleanup db = Inr (c', db') \<Longrightarrow> task_step cr db db'"
| move_invocation: "transition_tool_invocation_cas cr K now i v s' input output why cleanup db = Inr (c', db') \<Longrightarrow>
    task_step cr db db'"
| commit_invocation: "commit_tool_invocation_result cr K i now r' db = Inr (c'', db') \<Longrightarrow> task_step cr db db'"
| postprocessed: "complete_tool_result_postprocessing_cas i v db = Inr (c', db') \<Longrightarrow> task_step cr db db'"
| start_invocation: "start_tool_invocation_for_active_run_cas cr K now i v input' side db = Inr (c', db') \<Longrightarrow>
    task_step cr db db'"
| register: "register_execution_resource cr n' db = Inr db' \<Longrightarrow> task_step cr db db'"
| bind: "bind_execution_resource_external i external db = Inr (c', db') \<Longrightarrow> task_step cr db db'"
| move_resource: "transition_execution_resource_cas now i v target'' db = Inr (c', db') \<Longrightarrow> task_step cr db db'"
| finalize: "finalize_execution_resource now i target'' db = Inr (c', db') \<Longrightarrow> task_step cr db db'"

inductive task_reachable :: "crates \<Rightarrow> task_db \<Rightarrow> bool" for cr :: crates where
  empty: "task_reachable cr empty_db"
| step: "task_reachable cr db \<Longrightarrow> task_step cr db db' \<Longrightarrow> task_reachable cr db'"

subsection \<open>From statements to operations\<close>

locale table_invariant =
  fixes I :: "task_db \<Rightarrow> bool"
  assumes core_only: "I db \<Longrightarrow> same_core db db' \<Longrightarrow> I db'"
    and tasks_kept: "I db \<Longrightarrow> plain_task f \<Longrightarrow> update_tasks p f db = Inr (n, db') \<Longrightarrow> I db'"
    and runs_kept: "I db \<Longrightarrow> plain_run g \<Longrightarrow> update_runs q g db = Inr (n, db') \<Longrightarrow> I db'"
    and result_kept: "I db \<Longrightarrow> insert_result s db = Inr db' \<Longrightarrow> I db'"
begin

lemma wp_core:
  "I db \<Longrightarrow> (\<And>db'. I db' \<Longrightarrow> Q db') \<Longrightarrow> yields Q (insert_event run seq ty data db)"
  "I db \<Longrightarrow> (\<And>db'. I db' \<Longrightarrow> Q db') \<Longrightarrow> yields Q (append_event cr K run ty tool data' db)"
  "I db \<Longrightarrow> (\<And>db'. I db' \<Longrightarrow> Q db') \<Longrightarrow> yields Q (insert_session s db)"
  "I db \<Longrightarrow> (\<And>db'. I db' \<Longrightarrow> Q db') \<Longrightarrow> yields Q (insert_call c db)"
  "I db \<Longrightarrow> (\<And>db'. I db' \<Longrightarrow> Q db') \<Longrightarrow> yields Q (insert_message m db)"
  "I db \<Longrightarrow> (\<And>db'. I db' \<Longrightarrow> Q db') \<Longrightarrow> yields Q (insert_receipt r db)"
  "I db \<Longrightarrow> (\<And>db'. I db' \<Longrightarrow> Q db') \<Longrightarrow> yields Q (insert_invocation v db)"
  "I db \<Longrightarrow> (\<And>db'. I db' \<Longrightarrow> Q db') \<Longrightarrow> yields Q (insert_resource e db)"
  "I db \<Longrightarrow> (\<And>db'. I db' \<Longrightarrow> Q db') \<Longrightarrow> yields Q (add_session_usage x session db)"
  by (rule yields_any, blast intro: core_only same_core_statements append_event_same_core)+

lemma wp_core_updates:
  "I db \<Longrightarrow> (\<And>n db'. I db' \<Longrightarrow> Q' (n, db')) \<Longrightarrow> yields Q' (update_calls pc fc db)"
  "I db \<Longrightarrow> (\<And>n db'. I db' \<Longrightarrow> Q' (n, db')) \<Longrightarrow> yields Q' (update_inbox pi fi db)"
  "I db \<Longrightarrow> (\<And>n db'. I db' \<Longrightarrow> Q' (n, db')) \<Longrightarrow> yields Q' (update_invocations pv fv db)"
  "I db \<Longrightarrow> (\<And>n db'. I db' \<Longrightarrow> Q' (n, db')) \<Longrightarrow> yields Q' (update_resources pe fe db)"
  by (rule yields_any, clarsimp, blast intro: core_only same_core_statements)+

lemma wp_main:
  "I db \<Longrightarrow> plain_task f \<Longrightarrow> (\<And>n db'. I db' \<Longrightarrow> Q' (n, db')) \<Longrightarrow> yields Q' (update_tasks p f db)"
  "I db \<Longrightarrow> plain_run g \<Longrightarrow> (\<And>n db'. I db' \<Longrightarrow> Q' (n, db')) \<Longrightarrow> yields Q' (update_runs q g db)"
  "I db \<Longrightarrow> (\<And>db'. I db' \<Longrightarrow> Q db') \<Longrightarrow> yields Q (insert_result s db)"
  by (rule yields_any, (clarsimp)?, blast intro: tasks_kept runs_kept result_kept)+

lemmas steps = wp_core wp_core_updates wp_main wp yields_any

lemma core_kept: "I db \<Longrightarrow> I (db_inbox_update a db)" "I db \<Longrightarrow> I (db_dependencies_update b db)"
  "I db \<Longrightarrow> I (db_postprocessing_update c db)" "I db \<Longrightarrow> I (insert_blob d e db)"
  by (erule core_only, simp)+

lemmas keeps = core_kept plain_task_def plain_run_def

lemma reject_pending_kept:
  "I db \<Longrightarrow> (\<And>db'. I db' \<Longrightarrow> Q db') \<Longrightarrow> yields Q (reject_pending_for_run cr K run db)"
  unfolding reject_pending_for_run_def by (rule steps | simp add: keeps)+

lemma transition_kept:
  "I db \<Longrightarrow> yields (I \<circ> snd) (transition_task_cas K i v expected target reason cleanup verification db)"
  unfolding transition_task_cas_def by (rule steps | simp add: keeps)+

lemma claim_kept: "I db \<Longrightarrow> yields (I \<circ> snd) (claim_task_run_cas cr K task run v db)"
  unfolding claim_task_run_cas_def by (rule steps | simp add: keeps)+

lemma attention_kept:
  "I db \<Longrightarrow> yields (I \<circ> snd) (mark_task_run_needs_attention cr K now task run v why cleanup db)"
  unfolding mark_task_run_needs_attention_def quarantine_def
  by (rule reject_pending_kept steps | simp add: keeps)+

lemma narrow_kept: "I db \<Longrightarrow> yields (I \<circ> snd) (narrow_run_tool_ceiling cr K run ceiling db)"
  unfolding narrow_run_tool_ceiling_def
  by (rule steps | simp add: keeps)+

lemma start_call_kept: "I db \<Longrightarrow> yields I (start_llm_call_inner K now_ms call reservation db)"
  unfolding start_llm_call_inner_def by (rule steps | simp add: keeps)+

lemma finish_call_kept: "I db \<Longrightarrow> yields (I \<circ> snd) (finish_llm_call K now i status usage db)"
  unfolding finish_llm_call_def by (rule steps | simp add: keeps finish_row_def add_usage_def)+

lemma enqueue_kept: "I db \<Longrightarrow> yields (I \<circ> snd) (enqueue_task_message K i now root target sender content db)"
  unfolding enqueue_task_message_def by (rule steps | simp add: keeps)+

lemma mark_kept:
  "I db \<Longrightarrow> yields (I \<circ> snd) (mark_task_inbox_message_scoped K now owner i expected target why db)"
  unfolding mark_task_inbox_message_scoped_def by (rule steps | simp add: keeps)+

lemma consume_message_kept:
  "I db \<Longrightarrow> yields I (consume_message cr K fresh now root session task run i db)"
  unfolding consume_message_def insert_runtime_message_def by (rule steps | simp add: keeps)+

lemma consume_kept: "I db \<Longrightarrow> yields (I \<circ> snd) (consume_task_inbox_at_boundary cr K fresh now task run db)"
  unfolding consume_task_inbox_at_boundary_def
  by (rule yields_thread wp_core consume_message_kept wp | simp add: keeps)+

lemma ingest_kept:
  "I db \<Longrightarrow> yields (I \<circ> snd)
     (ingest_task_result_at_safe_boundary cr K i receipt now consumer producer v summary db)"
  unfolding ingest_task_result_at_safe_boundary_def consume_result_def wake_parent_def
  by (rule steps | simp add: keeps)+

lemma invoke_kept: "I db \<Longrightarrow> yields (I \<circ> snd) (create_invocation cr K kind n db)"
  unfolding create_invocation_def by (rule steps | simp add: keeps)+

lemma finish_scope_kept:
  "I db \<Longrightarrow> yields (I \<circ> snd) (finish_run_scope_invocation K now i v s' why cleanup db)"
  unfolding finish_run_scope_invocation_def by (rule steps | simp add: keeps)+

lemma move_invocation_kept:
  "I db \<Longrightarrow> yields (I \<circ> snd) (transition_tool_invocation_cas cr K now i v s' input output why cleanup db)"
  unfolding transition_tool_invocation_cas_def by (rule steps | simp add: keeps)+

lemma commit_invocation_kept:
  "I db \<Longrightarrow> yields (I \<circ> snd) (commit_tool_invocation_result cr K i now r db)"
  unfolding commit_tool_invocation_result_def write_invocation_result_def insert_result_message_def
    insert_postprocessing_def
  by (rule steps | simp add: keeps)+

lemma postprocessed_kept: "I db \<Longrightarrow> yields (I \<circ> snd) (complete_tool_result_postprocessing_cas i v db)"
  unfolding complete_tool_result_postprocessing_cas_def by (rule steps | simp add: keeps)+

lemma start_invocation_kept:
  "I db \<Longrightarrow> yields (I \<circ> snd) (start_tool_invocation_for_active_run_cas cr K now i v input side db)"
  unfolding start_tool_invocation_for_active_run_cas_def by (rule steps | simp add: keeps)+

lemma register_kept: "I db \<Longrightarrow> yields I (register_execution_resource cr n db)"
  unfolding register_execution_resource_def by (rule steps | simp add: keeps)+

lemma bind_kept: "I db \<Longrightarrow> yields (I \<circ> snd) (bind_execution_resource_external i external db)"
  unfolding bind_execution_resource_external_def by (rule steps | simp add: keeps)+

lemma move_resource_kept: "I db \<Longrightarrow> yields (I \<circ> snd) (transition_execution_resource_cas now i v target db)"
  unfolding transition_execution_resource_cas_def by (rule steps | simp add: keeps split: option.split)+

lemma finalize_kept: "I db \<Longrightarrow> yields (I \<circ> snd) (finalize_execution_resource now i target db)"
  unfolding finalize_execution_resource_def by (rule steps | simp add: keeps)+

lemma insert_result_row_kept:
  "I db \<Longrightarrow> (\<And>n db'. I db' \<Longrightarrow> Q (n, db')) \<Longrightarrow>
   yields Q (insert_result_row cr K i now q session status error content message db)"
  unfolding insert_result_row_def by (rule steps | simp add: keeps)+

lemma apply_fallback_kept:
  "I db \<Longrightarrow> (\<And>db'. I db' \<Longrightarrow> Q db') \<Longrightarrow> yields Q (apply_fallback q fallback db)"
  unfolding apply_fallback_def by (rule steps | simp add: keeps)+

lemma insert_dependency_kept: "I db \<Longrightarrow> (\<And>db'. I db' \<Longrightarrow> Q db') \<Longrightarrow> yields Q (insert_dependency d db)"
  by (rule yields_any, blast intro: core_only same_core_statements)

lemma create_session_kept: "I db \<Longrightarrow> (\<And>db'. I db' \<Longrightarrow> Q db') \<Longrightarrow> yields Q (create_session K q retention db)"
  unfolding create_session_def by (rule steps | simp add: keeps)+

lemma link_parent_kept:
  "I db \<Longrightarrow> (\<And>db'. I db' \<Longrightarrow> Q db') \<Longrightarrow> yields Q (link_parent cr K q lifecycle parent db)"
  unfolding link_parent_def wait_for_child_def by (rule insert_dependency_kept steps | simp add: keeps)+

end

text \<open>The three operations that move accounts or identities.\<close>

locale step_invariant = table_invariant +
  assumes submitted: "I db \<Longrightarrow> resolve_parent db w = Inr (root, parent) \<Longrightarrow>
      write_submission cr K ms w lifecycle limits retention root parent db = Inr (o', db') \<Longrightarrow> I db'"
    and settled: "I db \<Longrightarrow> settle_task_budget task run now db = Inr db' \<Longrightarrow> I db'"
    and configured: "I db \<Longrightarrow> configure_root_task_budget_cas root' v limits' db = Inr (c, db') \<Longrightarrow> I db'"
begin

lemma settle_kept: "I db \<Longrightarrow> (\<And>db'. I db' \<Longrightarrow> Q db') \<Longrightarrow> yields Q (settle_task_budget task run now db)"
  by (rule yields_any) (blast intro: settled)

lemma terminate_kept:
  "I db \<Longrightarrow> (\<And>db'. I db' \<Longrightarrow> Q (Some db')) \<Longrightarrow> Q None \<Longrightarrow>
   yields Q (terminate cr K now q t r status error content verification version db)"
  unfolding terminate_def
  by (rule reject_pending_kept settle_kept steps | simp add: keeps terminate_run_row_def terminate_task_row_def Let_def)+

lemma commit_kept: "I db \<Longrightarrow> yields (I \<circ> snd) (commit_task_result_inner cr K i now q fallback db)"
  unfolding commit_task_result_inner_def commit_result_def
  by (rule apply_fallback_kept insert_result_row_kept terminate_kept steps | simp add: keeps)+

lemma submit_kept: "I db \<Longrightarrow> yields (I \<circ> snd) (create_task_with_run cr K now_ms later_ms q db)"
  unfolding create_task_with_run_def admit_submission_def
  by (rule wp | rule yields_any; auto intro: submitted | rule yields_any | simp)+

text \<open>Every step keeps the invariant.\<close>

lemmas operations = submit_kept commit_kept transition_kept claim_kept attention_kept narrow_kept start_call_kept
  finish_call_kept enqueue_kept mark_kept consume_kept ingest_kept invoke_kept finish_scope_kept
  move_invocation_kept commit_invocation_kept postprocessed_kept start_invocation_kept register_kept bind_kept
  move_resource_kept finalize_kept

lemma after: "yields (I \<circ> snd) r \<Longrightarrow> r = Inr (x, db') \<Longrightarrow> I db'"
  by (auto dest: yieldsD)

theorem step_kept: "task_step cr db db' \<Longrightarrow> I db \<Longrightarrow> I db'"
proof (induction rule: task_step.induct)
  case (session s db db')
  then show ?case by (blast intro: core_only same_core_statements)
next
  case (message m db db')
  then show ?case by (blast intro: core_only same_core_statements)
next
  case configure
  then show ?case by (blast intro: configured)
qed (blast intro: after operations yieldsD [OF start_call_kept] yieldsD [OF register_kept])+

theorem steps_kept: "(task_step cr)\<^sup>*\<^sup>* db db' \<Longrightarrow> I db \<Longrightarrow> I db'"
  by (induction rule: rtranclp_induct) (auto intro: step_kept)

end

locale store_invariant = step_invariant +
  assumes start: "I empty_db"
begin

theorem reachable_holds: "task_reachable cr db \<Longrightarrow> I db"
  by (induction rule: task_reachable.induct) (auto intro: start step_kept)

end

end
