(* ===== verification/Task_Sample.thy ===== *)
theory Task_Sample
  imports Task_Steps "HOL-Library.Code_Target_Nat"
begin

section \<open>A run of the runtime\<close>

text \<open>
  A session, a root task with a budget of 1000 tokens, its claim, an attached child that is granted 200 of
  them, the claim of the child, its failure, and the delivery of its result to the parent: a concrete
  input for the properties of the task tables, evaluated step by step.
\<close>

definition task_crates :: crates where
  "task_crates =
     \<lparr>to_text = (\<lambda>_. u ''{}''),
      from_text = (\<lambda>s. if s = u ''b''
        then Some (JObj [(u ''budget'', JObj [(u ''tokenLimit'', JNum 1000), (u ''deadlineAtMs'', JNum 99)])])
        else Some (JObj [])),
      sha256_hex = (\<lambda>_. u ''d'')\<rparr>"

definition task_port :: content_port where
  "task_port = \<lparr>cp_put = (\<lambda>_ v. Inr v), cp_get = (\<lambda>_ v. Inr v), cp_attach = (\<lambda>_ _. Inr ())\<rparr>"

definition sample_id :: "nat \<Rightarrow> ustring" where
  "sample_id n = u ''0000000'' @ [48 + n] @ u ''-0000-4000-8000-000000000000''"

definition root_session :: conversation_row where
  "root_session =
     \<lparr>se_id = u ''s'', se_kind = u ''root'', se_parent_session = None, se_parent_task = None, se_model = u ''m'',
      se_working_dir = u ''/'', se_retention = u ''persistent'', se_input = 0, se_output = 0, se_cache_read = 0,
      se_cache_create = 0\<rparr>"

definition root_request :: create_request where
  "root_request =
     \<lparr>cq_task = sample_id 1, cq_run = sample_id 2, cq_root_session = u ''s'', cq_transcript = u ''s'',
      cq_parent_task = None, cq_parent_run = None, cq_tool_use = None, cq_ordinal = 0, cq_description = u ''d'',
      cq_prompt = None, cq_type = u ''agent'', cq_model = u ''m'', cq_dir = u ''/'', cq_config = u ''b'', cq_epoch = 0\<rparr>"

definition child_request :: create_request where
  "child_request = root_request\<lparr>cq_task := sample_id 3, cq_run := sample_id 4, cq_transcript := sample_id 5,
     cq_parent_task := Some (sample_id 1), cq_parent_run := Some (sample_id 2), cq_tool_use := Some (u ''u''),
     cq_config := u ''c''\<rparr>"

definition child_result :: commit_request where
  "child_result =
     \<lparr>rq_task = sample_id 3, rq_run = sample_id 4, rq_version = 1, rq_status = ErrorResult, rq_content = u ''x'',
      rq_media = u ''text/plain'', rq_error = Some (u ''E''), rq_cleanup = CleanupNotRequired,
      rq_verification = NotRequested\<rparr>"

subsection \<open>The tables\<close>

definition root_task :: task_row where
  "root_task =
     \<lparr>tk_id = sample_id 1, tk_session = u ''s'', tk_parent = None, tk_root = sample_id 1,
      tk_current_run = Some (sample_id 2), tk_creator_run = None, tk_tool_use = None, tk_ordinal = 0,
      tk_description = u ''d'', tk_prompt = None, tk_type = u ''agent'', tk_status = TaskQueued, tk_reason = None,
      tk_plan = None, tk_display = None, tk_config = u ''b'', tk_lifecycle = u ''attached'',
      tk_cleanup = CleanupNotRequired, tk_verification = NotRequested, tk_token_limit = Some 1000,
      tk_cost_limit = None, tk_deadline = Some 99, tk_reserved_tokens = 0, tk_reserved_cost = 0,
      tk_consumed_tokens = 0, tk_consumed_cost = 0, tk_budget_version = 0, tk_usage_complete = True,
      tk_version = 0, tk_terminal_at = None\<rparr>"

definition child_task :: task_row where
  "child_task = root_task\<lparr>tk_id := sample_id 3, tk_parent := Some (sample_id 1), tk_current_run := Some (sample_id 4),
     tk_creator_run := Some (sample_id 2), tk_tool_use := Some (u ''u''), tk_config := u ''c'',
     tk_token_limit := Some 200\<rparr>"

definition root_run :: envelope_row where
  "root_run =
     \<lparr>rn_id = sample_id 2, rn_session = u ''s'', rn_task = sample_id 1, rn_attempt = 1, rn_epoch = 0, rn_parent = None,
      rn_status = RunQueued, rn_version = 0, rn_agent_type = u ''query'', rn_model = u ''m'', rn_input = 0,
      rn_output = 0, rn_cache_read = 0, rn_cache_create = 0, rn_cost = 0, rn_total = 0, rn_usage_complete = True,
      rn_exit = None, rn_requested = None, rn_waiting = None, rn_abort = None, rn_error = None,
      rn_cleanup = CleanupNotRequired, rn_verification = NotRequested, rn_terminal_at = None\<rparr>"

definition child_run :: envelope_row where
  "child_run = root_run\<lparr>rn_id := sample_id 4, rn_session := sample_id 5, rn_task := sample_id 3,
     rn_parent := Some (sample_id 2), rn_agent_type := u ''subagent''\<rparr>"

definition child_session :: conversation_row where
  "child_session = root_session\<lparr>se_id := sample_id 5, se_kind := u ''internal'', se_parent_session := Some (u ''s''),
     se_parent_task := Some (sample_id 3)\<rparr>"

definition child_grant :: reservation_row where
  "child_grant =
     \<lparr>rv_child = sample_id 3, rv_root = sample_id 1, rv_tokens = Some 200, rv_cost = None, rv_used_tokens = None,
      rv_used_cost = None, rv_usage_complete = False, rv_status = ReservationActive, rv_version = 0,
      rv_settled_at = None\<rparr>"

definition sample_event :: "nat \<Rightarrow> int \<Rightarrow> ustring \<Rightarrow> event_row" where
  "sample_event run seq ty = \<lparr>ev_run = sample_id run, ev_seq = seq, ev_type = ty, ev_data = u ''{}''\<rparr>"

definition db_opened :: task_db where
  "db_opened = empty_db\<lparr>db_sessions := [root_session]\<rparr>"

definition db_submitted :: task_db where
  "db_submitted = db_opened\<lparr>db_tasks := [root_task], db_runs := [root_run],
     db_events := [sample_event 2 0 (u ''task_created'')]\<rparr>"

definition db_claimed :: task_db where
  "db_claimed = db_opened\<lparr>db_tasks := [root_task\<lparr>tk_status := TaskRunning, tk_version := 1\<rparr>],
     db_runs := [root_run\<lparr>rn_status := RunRunning, rn_version := 1\<rparr>],
     db_events := [sample_event 2 0 (u ''task_created''), sample_event 2 1 (u ''task_claimed'')]\<rparr>"

text \<open>The parent waits for its child, whose grant is reserved.\<close>

definition waiting_task :: task_row where
  "waiting_task = root_task\<lparr>tk_status := TaskWaitingDependencies, tk_reason := Some (u ''attachedChildrenPending''),
     tk_reserved_tokens := 200, tk_budget_version := 1, tk_version := 2\<rparr>"

definition waiting_run :: envelope_row where
  "waiting_run = root_run\<lparr>rn_status := RunWaitingDependencies, rn_version := 2,
     rn_waiting := Some (u ''attachedChildrenPending'')\<rparr>"

definition child_dependency :: dependency_row where
  "child_dependency = \<lparr>dp_parent = sample_id 1, dp_child = sample_id 3, dp_lifecycle = u ''attached'',
     dp_required = True, dp_consumed = None\<rparr>"

definition events_delegated :: "event_row list" where
  "events_delegated = [sample_event 2 0 (u ''task_created''), sample_event 2 1 (u ''task_claimed''),
     sample_event 2 2 (u ''task_waiting_dependencies''), sample_event 4 0 (u ''task_created'')]"

definition db_delegated :: task_db where
  "db_delegated = empty_db\<lparr>db_sessions := [root_session, child_session], db_tasks := [waiting_task, child_task],
     db_runs := [waiting_run, child_run], db_reservations := [child_grant],
     db_dependencies := [child_dependency], db_events := events_delegated\<rparr>"

definition db_child :: task_db where
  "db_child = db_delegated\<lparr>db_tasks := [waiting_task, child_task\<lparr>tk_status := TaskRunning, tk_version := 1\<rparr>],
     db_runs := [waiting_run, child_run\<lparr>rn_status := RunRunning, rn_version := 1\<rparr>],
     db_events := events_delegated @ [sample_event 4 1 (u ''task_claimed'')]\<rparr>"

definition sample_row :: result_row where
  "sample_row =
     \<lparr>rs_id = u ''r'', rs_task = sample_id 3, rs_run = sample_id 4, rs_version = 1, rs_status = ErrorResult,
      rs_inline = Some (u ''x''), rs_blob = None, rs_byte_len = 1, rs_sha = Some (u ''d''), rs_media = u ''text/plain'',
      rs_error = Some (u ''E''), rs_message = None, rs_created_at = u ''n'', rs_ref = None\<rparr>"

definition ended_task :: task_row where
  "ended_task = child_task\<lparr>tk_status := TaskFailed, tk_reason := Some (u ''internalError''), tk_budget_version := 1,
     tk_version := 2, tk_terminal_at := Some (u ''n'')\<rparr>"

definition ended_run :: envelope_row where
  "ended_run = child_run\<lparr>rn_status := RunFailed, rn_version := 2, rn_exit := Some InternalError,
     rn_error := Some (u ''x''), rn_terminal_at := Some (u ''n'')\<rparr>"

definition events_ended :: "event_row list" where
  "events_ended = events_delegated @
     [sample_event 4 1 (u ''task_claimed''), sample_event 4 2 (u ''task_result_available'')]"

text \<open>The child has failed, its grant is back in the account.\<close>

definition db_ended :: task_db where
  "db_ended = db_delegated\<lparr>
     db_tasks := [waiting_task\<lparr>tk_reserved_tokens := 0, tk_budget_version := 2\<rparr>, ended_task],
     db_runs := [waiting_run, ended_run], db_results := [sample_row],
     db_reservations := [child_grant\<lparr>rv_used_tokens := Some 0, rv_used_cost := Some 0, rv_usage_complete := True,
       rv_status := ReservationSettled, rv_version := 1, rv_settled_at := Some (u ''n'')\<rparr>],
     db_events := events_ended\<rparr>"

text \<open>The parent has taken in the result of its child and runs again.\<close>

definition sample_receipt :: receipt_row where
  "sample_receipt =
     \<lparr>rc_id = u ''k'', rc_consumer = sample_id 1, rc_producer = sample_id 3, rc_version = 1, rc_message = u ''m'',
      rc_sha = Some (u ''d''), rc_created = u ''n''\<rparr>"

definition sample_message :: message_row where
  "sample_message =
     \<lparr>ms_id = u ''m'', ms_session = u ''s'', ms_task = Some (sample_id 1), ms_run = Some (sample_id 2),
      ms_role = u ''user'', ms_seq = 1, ms_content = u ''{}'', ms_origin = u ''task_result'',
      ms_source = Some (sample_id 3)\<rparr>"

definition db_ingested :: task_db where
  "db_ingested = db_ended\<lparr>
     db_tasks := [root_task\<lparr>tk_status := TaskRunning, tk_reason := Some (u ''attachedChildrenResolved''),
       tk_budget_version := 2, tk_version := 3\<rparr>, ended_task],
     db_runs := [root_run\<lparr>rn_status := RunRunning, rn_version := 3\<rparr>, ended_run],
     db_messages := [sample_message], db_receipts := [sample_receipt],
     db_dependencies := [child_dependency\<lparr>dp_consumed := Some 1\<rparr>],
     db_events := events_ended @ [sample_event 2 3 (u ''task_dependencies_resolved'')]\<rparr>"

subsection \<open>The steps\<close>

lemma opened: "insert_session root_session empty_db = Inr db_opened"
  by code_simp

lemma submitted:
  "map_ok snd (create_task_with_run task_crates task_port 5 5 root_request db_opened) = Inr db_submitted"
  by code_simp

lemma claimed:
  "claim_task_run_cas task_crates task_port (sample_id 1) (sample_id 2) 0 db_submitted = Inr (Applied, db_claimed)"
  by code_simp

lemma delegated:
  "map_ok snd (create_task_with_run task_crates task_port 5 5 child_request db_claimed) = Inr db_delegated"
  by code_simp

lemma child_claimed:
  "claim_task_run_cas task_crates task_port (sample_id 3) (sample_id 4) 0 db_delegated = Inr (Applied, db_child)"
  by code_simp

text \<open>The limits of a result as binary numbers.\<close>

lemma limits_code:
  "byte_length s \<le> INLINE_RESULT_LIMIT \<longleftrightarrow> int (byte_length s) \<le> 65536"
  "RESULT_HARD_LIMIT < byte_length s \<longleftrightarrow> 16777216 < int (byte_length s)"
  "truncate_utf8_at_limit s RESULT_HARD_LIMIT =
     (if int (byte_length s) \<le> 16777216 then s else take_bytes RESULT_HARD_LIMIT (chars s))"
  unfolding INLINE_RESULT_LIMIT_def RESULT_HARD_LIMIT_def truncate_utf8_at_limit_def by auto

lemmas commit_code [code] =
  insert_result_row_def [unfolded limits_code] commit_result_def [unfolded limits_code]

lemma child_ended:
  "map_ok snd (commit_task_result_inner task_crates task_port (u ''r'') (u ''n'') child_result None db_child) =
   Inr db_ended"
  by code_simp

definition sample_ingestion :: "task_db \<Rightarrow> db_error + (receipt_record option \<times> task_db)" where
  "sample_ingestion = ingest_task_result_at_safe_boundary task_crates task_port (u ''m'') (u ''k'') (u ''n'')
     (sample_id 1) (sample_id 3) 1 (u ''done'')"

definition sample_record :: "bool \<Rightarrow> receipt_record" where
  "sample_record new = \<lparr>rd_id = u ''k'', rd_consumer = sample_id 1, rd_producer = sample_id 3, rd_version = 1,
     rd_message = u ''m'', rd_sha = u ''d'', rd_created_at = u ''n'', rd_created = new\<rparr>"

lemma ingested: "sample_ingestion db_ended = Inr (Some (sample_record True), db_ingested)"
  by code_simp

lemma sample_steps:
  "task_step task_crates empty_db db_opened" "task_step task_crates db_opened db_submitted"
  "task_step task_crates db_submitted db_claimed" "task_step task_crates db_claimed db_delegated"
  "task_step task_crates db_delegated db_child" "task_step task_crates db_child db_ended"
  "task_step task_crates db_ended db_ingested"
  using task_step.session [OF opened] submitted task_step.claim [OF claimed] delegated task_step.claim [OF child_claimed]
    child_ended task_step.ingest [OF ingested [unfolded sample_ingestion_def]]
  by (auto simp: map_ok_Inr intro: task_step.submit task_step.commit)

lemma sample_reachable:
  "task_reachable task_crates db_delegated" "task_reachable task_crates db_ended"
proof -
  show 1: "task_reachable task_crates db_delegated"
    using task_reachable.empty [of task_crates] by (meson sample_steps(1-4) task_reachable.step)
  show "task_reachable task_crates db_ended"
    by (rule task_reachable.step [OF task_reachable.step [OF 1 sample_steps(5)] sample_steps(6)])
qed

end
