(* ===== verification/Task_Ledger.thy ===== *)
theory Task_Ledger
  imports Task_Steps
begin

section \<open>The budget ledger\<close>

text \<open>
  What a root task holds reserved is, in every reachable state, the sum of the grants of its children
  that are not settled, and it leaves the reserve of the parent untouched. The grant of a child moves
  an amount in two statements; \<open>balanced\<close> allows for the difference between them.
\<close>

subsection \<open>Balance and pool\<close>

definition open_grant :: "(reservation_row \<Rightarrow> int option) \<Rightarrow> ustring \<Rightarrow> reservation_row \<Rightarrow> int" where
  "open_grant part i v =
     (if rv_root v = i \<and> rv_status v \<noteq> ReservationSettled then amount (part v) else 0)"

definition granted :: "(reservation_row \<Rightarrow> int option) \<Rightarrow> task_db \<Rightarrow> ustring \<Rightarrow> int" where
  "granted part db i = sum_list (map (open_grant part i) (db_reservations db))"

definition within_pool :: "int option \<Rightarrow> int \<Rightarrow> bool" where
  "within_pool limit reserved =
     pred_option (\<lambda>l. reserved \<le> sat_sub l (ceil_percent l ROOT_BUDGET_RESERVE_PERCENT)) limit"

definition balanced :: "(ustring \<Rightarrow> int) \<Rightarrow> (ustring \<Rightarrow> int) \<Rightarrow> task_db \<Rightarrow> bool" where
  "balanced dt dc db =
     (distinct (map tk_id (db_tasks db)) \<and> distinct (map rv_child (db_reservations db)) \<and>
      (\<forall>v \<in> set (db_reservations db). rv_root v \<in> tk_id ` set (db_tasks db) \<and>
         0 \<le> amount (rv_tokens v) \<and> 0 \<le> amount (rv_cost v)) \<and>
      (\<forall>t \<in> set (db_tasks db).
         tk_reserved_tokens t = granted rv_tokens db (tk_id t) + dt (tk_id t) \<and>
         tk_reserved_cost t = granted rv_cost db (tk_id t) + dc (tk_id t)))"

definition pooled :: "task_db \<Rightarrow> bool" where
  "pooled db =
     (\<forall>t \<in> set (db_tasks db). within_pool (tk_token_limit t) (tk_reserved_tokens t) \<and>
        within_pool (tk_cost_limit t) (tk_reserved_cost t))"

definition ledger_ok :: "task_db \<Rightarrow> bool" where
  "ledger_ok db = (balanced (\<lambda>_. 0) (\<lambda>_. 0) db \<and> pooled db)"

lemma amount_nonneg: "pred_option ((\<le>) 0) v \<Longrightarrow> 0 \<le> amount v"
  by (cases v) (auto simp: amount_def)

subsection \<open>Lists with keys\<close>

lemma matching_one:
  assumes "distinct (map k xs)" "\<And>x. x \<in> set xs \<Longrightarrow> p x \<Longrightarrow> k x = i" "matching p xs = 1"
  shows "\<forall>x \<in> set xs. p x \<longleftrightarrow> k x = i"
proof -
  from assms(3) obtain y where y: "y \<in> set xs" "p y"
    by (metis One_nat_def filter_False length_0_conv matching_def nat.simps(3))
  have "p x" if "x \<in> set xs" "k x = i" for x
  proof -
    from assms(1) that y assms(2) [OF y] have "x = y"
      by (metis distinct_map inj_onD)
    with y show ?thesis by simp
  qed
  with assms(2) show ?thesis by blast
qed

lemma sum_update_unique:
  fixes g :: "'a \<Rightarrow> int"
  assumes "distinct xs" "v \<in> set xs" "\<And>x. x \<in> set xs \<Longrightarrow> p x \<longleftrightarrow> x = v"
  shows "sum_list (map g (update_where p f xs)) = sum_list (map g xs) - g v + g (f v)"
  using assms
proof (induction xs)
  case (Cons x xs)
  show ?case
  proof (cases "x = v")
    case True
    with Cons.prems have "\<And>y. y \<in> set xs \<Longrightarrow> \<not> p y" by auto
    then have "update_where p f xs = xs" by (induction xs) (auto simp: update_where_def)
    with True Cons.prems(3) [of x] show ?thesis by (simp add: update_where_def)
  next
    case False
    with Cons.prems have "v \<in> set xs" "\<not> p x" by auto
    with Cons show ?thesis by (simp add: update_where_def)
  qed
qed simp

subsection \<open>Updates of tasks\<close>

text \<open>Every row with identifier \<open>i\<close> gains an amount, the others keep theirs.\<close>

lemma balanced_update:
  assumes "balanced dt dc db"
    and "update_tasks p f db = Inr (n, db')"
    and "\<And>t. t \<in> set (db_tasks db) \<Longrightarrow> p t \<Longrightarrow> tk_id (f t) = tk_id t \<and>
      tk_reserved_tokens (f t) = tk_reserved_tokens t + at \<and> tk_reserved_cost (f t) = tk_reserved_cost t + ac"
    and "\<And>t. t \<in> set (db_tasks db) \<Longrightarrow> p t \<longleftrightarrow> tk_id t = i"
  shows "balanced (\<lambda>j. dt j + (if j = i then at else 0)) (\<lambda>j. dc j + (if j = i then ac else 0)) db'"
proof -
  from assms(2) have db': "db' = db\<lparr>db_tasks := update_where p f (db_tasks db)\<rparr>"
    by (simp add: update_tasks_Inr)
  have ids: "map tk_id (db_tasks db') = map tk_id (db_tasks db)"
    unfolding db' using assms(3) by (simp add: update_where_map)
  then have "tk_id ` set (db_tasks db') = tk_id ` set (db_tasks db)"
    by (metis list.set_map)
  with assms(1) ids assms(3,4) show ?thesis
    by (auto simp: balanced_def db' update_where_set granted_def)
qed

lemma balanced_kept:
  assumes "balanced dt dc db"
    and "update_tasks p f db = Inr (n, db')"
    and "\<And>t. t \<in> set (db_tasks db) \<Longrightarrow> p t \<Longrightarrow> tk_id (f t) = tk_id t \<and>
      tk_reserved_tokens (f t) = tk_reserved_tokens t \<and> tk_reserved_cost (f t) = tk_reserved_cost t"
  shows "balanced dt dc db'"
proof -
  from assms(2) have db': "db' = db\<lparr>db_tasks := update_where p f (db_tasks db)\<rparr>"
    by (simp add: update_tasks_Inr)
  have ids: "map tk_id (db_tasks db') = map tk_id (db_tasks db)"
    unfolding db' using assms(3) by (simp add: update_where_map)
  then have "tk_id ` set (db_tasks db') = tk_id ` set (db_tasks db)"
    by (metis list.set_map)
  with assms(1) ids assms(3) show ?thesis
    by (auto simp: balanced_def db' update_where_set granted_def)
qed

lemma pooled_update:
  assumes "pooled db" "update_tasks p f db = Inr (n, db')"
    and "\<And>t. t \<in> set (db_tasks db) \<Longrightarrow> p t \<Longrightarrow>
      within_pool (tk_token_limit (f t)) (tk_reserved_tokens (f t)) \<and>
      within_pool (tk_cost_limit (f t)) (tk_reserved_cost (f t))"
  shows "pooled db'"
  using assms by (auto simp: pooled_def update_tasks_Inr update_where_set)

text \<open>An update that leaves identifiers, reservations and limits as they are.\<close>

definition same_account :: "(task_row \<Rightarrow> task_row) \<Rightarrow> bool" where
  "same_account f =
     (\<forall>t. tk_id (f t) = tk_id t \<and> tk_token_limit (f t) = tk_token_limit t \<and> tk_cost_limit (f t) = tk_cost_limit t \<and>
       tk_reserved_tokens (f t) = tk_reserved_tokens t \<and> tk_reserved_cost (f t) = tk_reserved_cost t)"

lemma plain_same_account: "plain_task f \<Longrightarrow> same_account f"
  by (simp add: plain_task_def same_account_def)

lemma ledger_same_account:
  assumes "ledger_ok db" "same_account f" "update_tasks p f db = Inr (n, db')"
  shows "ledger_ok db'"
proof -
  have "balanced (\<lambda>_. 0) (\<lambda>_. 0) db'"
    using assms by (intro balanced_kept [OF _ assms(3)]) (auto simp: ledger_ok_def same_account_def)
  moreover have "pooled db'"
    using assms by (intro pooled_update [OF _ assms(3)]) (auto simp: ledger_ok_def same_account_def pooled_def)
  ultimately show ?thesis by (simp add: ledger_ok_def)
qed

lemma ledger_cong:
  assumes "ledger_ok db" "db_tasks db' = db_tasks db" "db_reservations db' = db_reservations db"
  shows "ledger_ok db'"
  using assms(1) unfolding ledger_ok_def balanced_def granted_def pooled_def assms(2,3) .

interpretation ledger_tables: table_invariant ledger_ok
proof
  show "ledger_ok db'" if "ledger_ok db" "same_core db db'" for db db'
    using that by (intro ledger_cong [OF that(1)]) (auto simp: same_core_def core_def)
  show "ledger_ok db'" if "ledger_ok db" "plain_task f" "update_tasks p f db = Inr (n, db')" for db db' f p n
    using that by (blast intro: ledger_same_account plain_same_account)
  show "ledger_ok db'" if "ledger_ok db" "plain_run g" "update_runs q g db = Inr (n, db')" for db db' g q n
    using that(3) by (intro ledger_cong [OF that(1)]) (auto simp: update_runs_Inr)
  show "ledger_ok db'" if "ledger_ok db" "insert_result s db = Inr db'" for db db' s
    using that(2) by (intro ledger_cong [OF that(1)]) (auto simp: insert_result_def split: if_splits)
qed

subsection \<open>The grant of a child\<close>

lemma sat_sub_le: "0 < d \<Longrightarrow> d \<le> sat_sub a b \<Longrightarrow> d \<le> a - b"
  by (simp add: sat_sub_def saturate_def I64_MIN_def)

lemma ceil_percent_bounds:
  assumes "0 < l"
  shows "0 \<le> ceil_percent l 20 \<and> ceil_percent l 20 \<le> l"
proof -
  let ?q = "l div 100" and ?r = "l mod 100"
  let ?x = "(?r * 20 + 99) div 100"
  have r: "0 \<le> ?r" and q: "0 \<le> ?q" and l: "l = 100 * ?q + ?r"
    using assms by (simp_all add: pos_imp_zdiv_nonneg_iff)
  from assms r have "l sdiv 100 = ?q" "l smod 100 = ?r" "(?r * 20 + 99) sdiv 100 = ?x"
    by (simp_all add: signed_divide_int_def signed_modulo_int_def sgn_if)
  then have p: "ceil_percent l 20 = ?q * 20 + ?x" by (simp add: ceil_percent_def)
  have "?r * 20 + 99 = 100 * ?x + (?r * 20 + 99) mod 100" "0 \<le> (?r * 20 + 99) mod 100"
    by simp_all
  then have "100 * ?x \<le> ?r * 20 + 99" by linarith
  moreover have "0 \<le> ?x" using r by (simp add: pos_imp_zdiv_nonneg_iff)
  ultimately show ?thesis using p q r l by linarith
qed

lemma within_pool_none [simp]: "within_pool None r"
  by (simp add: within_pool_def)

lemma within_pool_zero: "pred_option ((<) 0) limit \<Longrightarrow> within_pool limit 0"
  using ceil_percent_bounds
  by (cases limit) (auto simp: within_pool_def ROOT_BUDGET_RESERVE_PERCENT_def sat_sub_def saturate_def
      I64_MIN_def I64_MAX_def le_max_iff_disj)

lemma grant_dimension_pool:
  assumes "grant_dimension name limit consumed reserved requested = Inr g"
  shows "within_pool limit (reserved + amount g)"
proof (cases limit)
  case (Some l)
  let ?pool = "sat_sub (sat_sub l (ceil_percent l ROOT_BUDGET_RESERVE_PERCENT)) reserved"
  from assms Some have d: "\<exists>d. g = Some d \<and> 0 < d \<and> d \<le> max (min (sat_sub (sat_sub l consumed) reserved) ?pool) 0"
    unfolding grant_dimension_def Let_def option.case
    by (cases "case requested of
        None \<Rightarrow> min (floor_percent l DIRECT_CHILD_BUDGET_PERCENT) (max (min (sat_sub (sat_sub l consumed) reserved) ?pool) 0)
      | Some r \<Rightarrow> r") (auto split: if_splits)
  then obtain d where d: "g = Some d" "0 < d" "d \<le> max (min (sat_sub (sat_sub l consumed) reserved) ?pool) 0"
    by blast
  then have "d \<le> ?pool" by auto
  from sat_sub_le [OF d(2) this] d(1) Some show ?thesis by (simp add: within_pool_def amount_def)
qed simp

lemma root_accountD:
  "root_account db root = Some t \<Longrightarrow> t \<in> set (db_tasks db) \<and> tk_id t = root \<and> tk_parent t = None"
  by (auto simp: root_account_def find_Some_iff in_set_conv_nth)

lemma same_id: "distinct (map tk_id ts) \<Longrightarrow> t \<in> set ts \<Longrightarrow> q \<in> set ts \<Longrightarrow> tk_id t = tk_id q \<Longrightarrow> t = q"
  by (auto simp: distinct_map dest: inj_onD)

text \<open>The statements of a grant: the charge of the root, the limits of the child, the reservation.\<close>

lemma charge_balanced:
  assumes ok: "ledger_ok db" and t: "root_account db root = Some t"
    and pool: "within_pool (tk_token_limit t) (tk_reserved_tokens t + tokens)"
      "within_pool (tk_cost_limit t) (tk_reserved_cost t + cost)"
    and charge: "charge_root root v tokens cost db = Inr (1, db')"
  shows "balanced (\<lambda>j. if j = root then tokens else 0) (\<lambda>j. if j = root then cost else 0) db' \<and> pooled db'"
proof -
  from ok have ids: "distinct (map tk_id (db_tasks db))" by (simp add: ledger_ok_def balanced_def)
  note u = charge [unfolded charge_root_def]
  have m: "\<forall>q \<in> set (db_tasks db). (tk_id q = root \<and> tk_budget_version q = v \<and> charge_fits db q tokens cost) \<longleftrightarrow> tk_id q = root"
    by (rule matching_one [OF ids]) (use u in \<open>auto simp: update_tasks_Inr\<close>)
  have "balanced (\<lambda>j. 0 + (if j = root then tokens else 0)) (\<lambda>j. 0 + (if j = root then cost else 0)) db'"
    by (rule balanced_update [OF _ u]) (use ok m in \<open>auto simp: ledger_ok_def\<close>)
  moreover have "q = t" if "q \<in> set (db_tasks db)" "tk_id q = root" for q
    using same_id [OF ids, of q t] that root_accountD [OF t] by simp
  then have "pooled db'"
    by (intro pooled_update [OF _ u]) (use ok pool in \<open>auto simp: ledger_ok_def\<close>)
  ultimately show ?thesis by simp
qed

lemma insert_reservation_balanced:
  assumes "balanced (\<lambda>j. if j = root then amount tokens else 0) (\<lambda>j. if j = root then amount cost else 0) db"
    and "insert_reservation (new_reservation child root tokens cost) db = Inr db'"
  shows "balanced (\<lambda>_. 0) (\<lambda>_. 0) db'"
proof -
  let ?v = "new_reservation child root tokens cost"
  from assms(2) have "list_ex (\<lambda>r. tk_id r = rv_root ?v \<and> tk_parent r = None \<and> tk_root r = tk_id r) (db_tasks db)"
    "\<not> list_ex (\<lambda>q. rv_child q = rv_child ?v) (db_reservations db)"
    and db': "db' = db\<lparr>db_reservations := db_reservations db @ [?v]\<rparr>"
    by (auto simp: insert_reservation_def split: if_splits)
  then have v: "rv_child ?v \<notin> rv_child ` set (db_reservations db)" "rv_root ?v \<in> tk_id ` set (db_tasks db)"
    unfolding list_ex_iff by force+
  from assms(2) have "0 \<le> amount (rv_tokens ?v)" "0 \<le> amount (rv_cost ?v)"
    by (auto simp: insert_reservation_def reservation_checks_def amount_nonneg split: if_splits)
  note v = v this
  have "granted rv_tokens db' j = granted rv_tokens db j + (if j = root then amount tokens else 0)"
    "granted rv_cost db' j = granted rv_cost db j + (if j = root then amount cost else 0)" for j
    by (simp_all add: granted_def db' open_grant_def new_reservation_def)
  with assms(1) v show ?thesis by (auto simp: balanced_def db')
qed

lemma reserve_child_ledger:
  assumes ok: "ledger_ok db"
    and child: "\<And>t. t \<in> set (db_tasks db) \<Longrightarrow> tk_id t = child \<Longrightarrow> tk_parent t \<noteq> None \<Longrightarrow>
      tk_reserved_tokens t = 0 \<and> tk_reserved_cost t = 0"
    and r: "reserve_child_budget K now_ms root child requested db = Inr db'"
  shows "ledger_ok db'"
proof -
  from ok have ids: "distinct (map tk_id (db_tasks db))" by (simp add: ledger_ok_def balanced_def)
  obtain t where t: "root_account db root = Some t"
    using r by (cases "root_account db root") (auto simp: reserve_child_budget_def)
  from r t obtain tokens cost db1 n db2 where
    grants: "grant_dimension (u ''TOKEN'') (tk_token_limit t)
        (sat_add (sat_add (tk_consumed_tokens t) (run_tokens db t)) (active_tokens db (tk_current_run t)))
        (tk_reserved_tokens t) (token_limit requested) = Inr tokens"
      "grant_dimension (u ''COST'') (tk_cost_limit t)
        (sat_add (sat_add (tk_consumed_cost t) (run_cost db t)) (active_cost db (tk_current_run t)))
        (tk_reserved_cost t) (cost_limit requested) = Inr cost"
    and db1: "charge_root root (tk_budget_version t) (amount tokens) (amount cost) db = Inr (1, db1)"
    and db2: "grant_to_child child tokens cost (child_deadline (deadline_at requested) (tk_deadline t)) db1 = Inr (n, db2)"
    and db': "insert_reservation (new_reservation child root tokens cost) db2 = Inr db'"
    unfolding reserve_child_budget_def amount_def [symmetric]
    by (auto simp: and_then_Inr split: if_splits)
  let ?d = "\<lambda>g j. if j = root then amount g else 0"
  have 1: "balanced (?d tokens) (?d cost) db1" "pooled db1"
    using charge_balanced [OF ok t _ _ db1] grants [THEN grant_dimension_pool] by auto
  note u = db2 [unfolded grant_to_child_def]
  have zero: "tk_reserved_tokens q = 0 \<and> tk_reserved_cost q = 0"
    if "q \<in> set (db_tasks db1)" "tk_id q = child" "tk_parent q \<noteq> None" for q
  proof -
    from db1 that(1) obtain q0 where q0: "q0 \<in> set (db_tasks db)" "tk_id q0 = tk_id q" "tk_parent q0 = tk_parent q"
      "tk_id q0 \<noteq> root \<Longrightarrow> q = q0"
      by (auto simp: charge_root_def update_tasks_Inr update_where_set split: if_splits)
    have "tk_id q0 \<noteq> root"
      using same_id [OF ids q0(1), of t] root_accountD [OF t] q0 that by auto
    with q0 child [OF q0(1)] that show ?thesis by auto
  qed
  have 2: "balanced (?d tokens) (?d cost) db2"
    by (rule balanced_kept [OF 1(1) u]) simp
  have "pooled db2"
  proof (rule pooled_update [OF 1(2) u])
    fix q assume q: "q \<in> set (db_tasks db1)" "tk_id q = child \<and> tk_parent q \<noteq> None"
    let ?q = "q\<lparr>tk_token_limit := tokens, tk_cost_limit := cost,
      tk_deadline := child_deadline (deadline_at requested) (tk_deadline t)\<rparr>"
    from u q have "task_checks ?q" by (auto simp: update_tasks_Inr task_update_ok_def)
    with zero [OF q(1)] q(2) show "within_pool (tk_token_limit ?q) (tk_reserved_tokens ?q) \<and>
        within_pool (tk_cost_limit ?q) (tk_reserved_cost ?q)"
      by (auto simp: task_checks_def intro: within_pool_zero)
  qed
  moreover have "db_tasks db' = db_tasks db2"
    using db' by (auto simp: insert_reservation_def split: if_splits)
  ultimately show ?thesis
    using insert_reservation_balanced [OF 2 db'] by (simp add: ledger_ok_def pooled_def)
qed

subsection \<open>Settlement\<close>

text \<open>Closing a reservation without settling it leaves its grant open.\<close>

lemma close_open:
  assumes "ledger_ok db" "status \<noteq> ReservationSettled"
    and "close_reservation child v tokens cost status complete now db = Inr db'"
  shows "ledger_ok db'"
proof -
  from assms(3) have db': "db_tasks db' = db_tasks db"
    "\<exists>p f. db_reservations db' = update_where p f (db_reservations db) \<and> (\<forall>v. rv_child (f v) = rv_child v) \<and>
      (\<forall>v. rv_root (f v) = rv_root v \<and> rv_tokens (f v) = rv_tokens v \<and> rv_cost (f v) = rv_cost v) \<and>
      (\<forall>v. p v \<longrightarrow> rv_status v = ReservationActive \<and> rv_status (f v) = status)"
    by (auto simp: close_reservation_def and_then_Inr update_reservations_Inr split: if_splits
        intro!: exI [of _ "\<lambda>v'. rv_child v' = child \<and> rv_status v' = ReservationActive \<and> rv_version v' = v"]
          exI [of _ "\<lambda>v. v\<lparr>rv_used_tokens := tokens, rv_used_cost := cost, rv_status := status,
            rv_usage_complete := complete, rv_settled_at := Some now, rv_version := rv_version v + 1\<rparr>"])
  then obtain p f where u: "db_reservations db' = update_where p f (db_reservations db)"
    and f: "\<And>v. rv_child (f v) = rv_child v" "\<And>v. rv_root (f v) = rv_root v"
      "\<And>v. rv_tokens (f v) = rv_tokens v" "\<And>v. rv_cost (f v) = rv_cost v"
    and s: "\<And>v. p v \<Longrightarrow> rv_status v = ReservationActive \<and> rv_status (f v) = status"
    by blast
  have "open_grant part i (if p v then f v else v) = open_grant part i v"
    if "\<And>v. part (f v) = part v" for part i v
    using f(2) s [of v] assms(2) that by (cases "p v") (auto simp: open_grant_def)
  then have "granted rv_tokens db' = granted rv_tokens db" "granted rv_cost db' = granted rv_cost db"
    using f(3,4) by (simp_all add: granted_def u update_where_def comp_def fun_eq_iff)
  moreover have "map rv_child (db_reservations db') = map rv_child (db_reservations db)"
    "\<forall>v \<in> set (db_reservations db'). \<exists>w \<in> set (db_reservations db). rv_root v = rv_root w \<and>
      rv_tokens v = rv_tokens w \<and> rv_cost v = rv_cost w"
    using f by (auto simp: u update_where_map update_where_set)
  ultimately show ?thesis
    using assms(1) db'(1) unfolding ledger_ok_def balanced_def pooled_def by (metis (no_types, lifting))
qed

text \<open>Settling one removes its grant.\<close>

lemma close_settled:
  assumes ok: "balanced dt dc db" and v: "v \<in> set (db_reservations db)" "rv_status v = ReservationActive"
    and c: "close_reservation (rv_child v) (rv_version v) tokens cost ReservationSettled complete now db = Inr db'"
  shows "balanced (\<lambda>j. dt j + (if j = rv_root v then amount (rv_tokens v) else 0))
    (\<lambda>j. dc j + (if j = rv_root v then amount (rv_cost v) else 0)) db'"
proof -
  let ?p = "\<lambda>w. rv_child w = rv_child v \<and> rv_status w = ReservationActive \<and> rv_version w = rv_version v"
  let ?f = "\<lambda>w. w\<lparr>rv_used_tokens := tokens, rv_used_cost := cost, rv_status := ReservationSettled,
    rv_usage_complete := complete, rv_settled_at := Some now, rv_version := rv_version w + 1\<rparr>"
  from c have db': "db' = db\<lparr>db_reservations := update_where ?p ?f (db_reservations db)\<rparr>"
    by (auto simp: close_reservation_def and_then_Inr update_reservations_Inr split: if_splits)
  from ok have d: "distinct (map rv_child (db_reservations db))" by (simp add: balanced_def)
  then have "?p w \<longleftrightarrow> w = v" if "w \<in> set (db_reservations db)" for w
    using that v by (auto simp: distinct_map dest: inj_onD)
  from sum_update_unique [OF conjunct1 [OF d [unfolded distinct_map]] v(1) this]
  have g: "granted part db' j = granted part db j - open_grant part j v + open_grant part j (?f v)" for part j
    by (simp add: granted_def db')
  have "granted rv_tokens db' j = granted rv_tokens db j - (if j = rv_root v then amount (rv_tokens v) else 0)"
    "granted rv_cost db' j = granted rv_cost db j - (if j = rv_root v then amount (rv_cost v) else 0)" for j
    using v(2) unfolding g by (auto simp: open_grant_def)
  moreover have "map rv_child (db_reservations db') = map rv_child (db_reservations db)"
    by (simp add: db' update_where_map)
  ultimately show ?thesis
    using ok by (auto simp: balanced_def db' update_where_set)
qed

lemma within_pool_less: "within_pool limit r \<Longrightarrow> r' \<le> r \<Longrightarrow> within_pool limit r'"
  by (cases limit) (auto simp: within_pool_def)

lemma settle_complete_ledger:
  assumes ok: "ledger_ok db" and v: "v \<in> set (db_reservations db)" "rv_status v = ReservationActive"
    and t: "rv_child v = tk_id t" "rv_root v = tk_root t"
    and s: "settle_complete t v total_tokens total_cost now db = Inr db'"
  shows "ledger_ok db'"
proof -
  let ?tokens = "amount (rv_tokens v)" and ?cost = "amount (rv_cost v)" and ?root = "tk_root t"
  from s obtain db1 db2 where
    db1: "release_grant ?root ?tokens ?cost total_tokens total_cost db = Inr db1"
    and db2: "close_reservation (tk_id t) (rv_version v) (Some total_tokens) (Some total_cost) ReservationSettled True
      now db1 = Inr db2"
    and db': "\<exists>n. update_tasks (\<lambda>q. tk_id q = tk_id t) (\<lambda>q. q\<lparr>tk_consumed_tokens := total_tokens,
      tk_consumed_cost := total_cost, tk_budget_version := tk_budget_version q + 1\<rparr>) db2 = Inr (n, db')"
    unfolding settle_complete_def amount_def [symmetric]
    by (auto simp: and_then_Inr map_ok_snd)
  let ?p = "\<lambda>q. tk_id q = ?root \<and> ?tokens \<le> tk_reserved_tokens q \<and> ?cost \<le> tk_reserved_cost q"
  let ?f = "\<lambda>q. q\<lparr>tk_reserved_tokens := tk_reserved_tokens q - ?tokens,
    tk_reserved_cost := tk_reserved_cost q - ?cost, tk_consumed_tokens := tk_consumed_tokens q + total_tokens,
    tk_consumed_cost := tk_consumed_cost q + total_cost, tk_budget_version := tk_budget_version q + 1\<rparr>"
  from db1 have u: "update_tasks ?p ?f db = Inr (1, db1)"
    by (auto simp: release_grant_def and_then_Inr split: if_splits)
  from ok have ids: "distinct (map tk_id (db_tasks db))" by (simp add: ledger_ok_def balanced_def)
  have m: "\<forall>q \<in> set (db_tasks db). ?p q \<longleftrightarrow> tk_id q = ?root"
    by (rule matching_one [OF ids]) (use u in \<open>auto simp: update_tasks_Inr\<close>)
  have 1: "balanced (\<lambda>j. 0 + (if j = ?root then - ?tokens else 0)) (\<lambda>j. 0 + (if j = ?root then - ?cost else 0)) db1"
    by (rule balanced_update [OF _ u]) (use ok m in \<open>auto simp: ledger_ok_def\<close>)
  have pool: "pooled db1"
    by (rule pooled_update [OF _ u])
      (use ok v in \<open>auto simp: ledger_ok_def pooled_def balanced_def intro: within_pool_less\<close>)
  from u have res: "db_reservations db1 = db_reservations db" by (auto simp: update_tasks_Inr)
  have "balanced (\<lambda>j. (0 + (if j = ?root then - ?tokens else 0)) + (if j = rv_root v then ?tokens else 0))
      (\<lambda>j. (0 + (if j = ?root then - ?cost else 0)) + (if j = rv_root v then ?cost else 0)) db2"
    by (rule close_settled [OF 1 _ v(2)]) (use v res db2 t in auto)
  moreover have "(\<lambda>j. (0 + (if j = ?root then - a else 0)) + (if j = ?root then a else (0::int))) = (\<lambda>_. 0)" for a
    by auto
  ultimately have "balanced (\<lambda>_. 0) (\<lambda>_. 0) db2" by (simp only: t(2))
  moreover have "db_tasks db2 = db_tasks db1"
    using db2 by (auto simp: close_reservation_def and_then_Inr update_reservations_Inr split: if_splits)
  ultimately have ok2: "ledger_ok db2" using pool by (simp add: ledger_ok_def pooled_def)
  from db' obtain n where last: "update_tasks (\<lambda>q. tk_id q = tk_id t) (\<lambda>q. q\<lparr>tk_consumed_tokens := total_tokens,
      tk_consumed_cost := total_cost, tk_budget_version := tk_budget_version q + 1\<rparr>) db2 = Inr (n, db')" ..
  show ?thesis by (rule ledger_same_account [OF ok2 _ last]) (simp add: same_account_def)
qed

lemma settle_root_ledger: "ledger_ok db \<Longrightarrow> settle_root task a b c db = Inr db' \<Longrightarrow> ledger_ok db'"
  by (auto simp: settle_root_def and_then_Inr map_ok_snd same_account_def split: if_splits
      elim!: ledger_same_account [rotated 2])

lemma settle_unknown_ledger: "ledger_ok db \<Longrightarrow> settle_unknown t v now db = Inr db' \<Longrightarrow> ledger_ok db'"
  by (auto simp: settle_unknown_def and_then_Inr map_ok_snd same_account_def dest!: close_open [rotated 2]
      elim!: ledger_same_account [rotated 2])

lemma settle_overrun_ledger: "ledger_ok db \<Longrightarrow> settle_overrun t v a b now db = Inr db' \<Longrightarrow> ledger_ok db'"
  by (auto simp: settle_overrun_def charge_excess_def bump_budget_def and_then_Inr map_ok_snd same_account_def Let_def
      split: if_splits dest!: close_open [rotated 2] elim!: ledger_same_account [rotated 2])

lemma settle_ledger:
  assumes ok: "ledger_ok db" and s: "settle_task_budget task run now db = Inr db'"
  shows "ledger_ok db'"
proof -
  from s obtain t and r :: envelope_row where t: "task_of db task = Some t"
    and cases: "(if tk_parent t = None then settle_root task (rn_total r) (rn_cost r) (rn_usage_complete r) db
      else settle_child t (rn_total r) (rn_cost r) (rn_usage_complete r) now db) = Inr db'"
    unfolding settle_task_budget_def and_then_Inr one_row_Inr by blast
  show ?thesis
  proof (cases "tk_parent t")
    case None
    with cases ok show ?thesis by (simp add: settle_root_ledger)
  next
    case (Some p)
    with cases obtain v where v: "find (\<lambda>v. rv_child v = tk_id t \<and> rv_root v = tk_root t) (db_reservations db) = Some v"
      and a: "rv_status v = ReservationActive"
      and rest: "settle_unknown t v now db = Inr db' \<or> (\<exists>x y. settle_overrun t v x y now db = Inr db') \<or>
        (\<exists>x y. settle_complete t v x y now db = Inr db')"
      by (auto simp: settle_child_def Let_def split: option.splits if_splits)
    from v have "v \<in> set (db_reservations db)" "rv_child v = tk_id t" "rv_root v = tk_root t"
      by (auto simp: find_Some_iff)
    with rest ok a show ?thesis
      by (blast intro: settle_unknown_ledger settle_overrun_ledger settle_complete_ledger)
  qed
qed

subsection \<open>Configuration\<close>

lemma configure_ledger:
  assumes ok: "ledger_ok db" and c: "configure_root_task_budget_cas root v limits db = Inr (o', db')"
  shows "ledger_ok db'"
proof (cases "db' = db")
  case False
  let ?f = "\<lambda>q. q\<lparr>tk_token_limit := token_limit limits, tk_cost_limit := cost_limit limits,
    tk_deadline := deadline_at limits, tk_budget_version := tk_budget_version q + 1\<rparr>"
  let ?p = "\<lambda>q. tk_id q = root \<and> tk_budget_version q = v \<and>
    pred_option (\<lambda>l. tk_consumed_tokens q + tk_reserved_tokens q \<le> l) (token_limit limits) \<and>
    pred_option (\<lambda>l. tk_consumed_cost q + tk_reserved_cost q \<le> l) (cost_limit limits)"
  from c False obtain t n where t: "root_account db root = Some t"
    and pool: "\<not> reserve_violated (token_limit limits) (tk_reserved_tokens t)"
      "\<not> reserve_violated (cost_limit limits) (tk_reserved_cost t)"
    and u: "update_tasks ?p ?f db = Inr (n, db')"
    by (auto simp: configure_root_task_budget_cas_def and_then_Inr split: option.splits if_splits)
  from ok have ids: "distinct (map tk_id (db_tasks db))" by (simp add: ledger_ok_def balanced_def)
  have "q = t" if "q \<in> set (db_tasks db)" "tk_id q = root" for q
    using same_id [OF ids, of q t] that root_accountD [OF t] by simp
  then have "pooled db'"
    by (intro pooled_update [OF _ u])
      (use ok pool in \<open>auto simp: ledger_ok_def within_pool_def reserve_violated_def not_some_and not_less\<close>)
  moreover have "balanced (\<lambda>_. 0) (\<lambda>_. 0) db'"
    by (rule balanced_kept [OF _ u]) (use ok in \<open>auto simp: ledger_ok_def\<close>)
  ultimately show ?thesis by (simp add: ledger_ok_def)
qed (simp add: ok)

subsection \<open>Submission\<close>

lemma insert_task_ledger:
  assumes ok: "ledger_ok db" and i: "insert_task t db = Inr db'"
    and zero: "tk_reserved_tokens t = 0" "tk_reserved_cost t = 0"
  shows "ledger_ok db'"
proof -
  from i have db': "db' = db\<lparr>db_tasks := db_tasks db @ [t]\<rparr>" and checks: "task_checks t"
    and fresh: "tk_id t \<notin> tk_id ` set (db_tasks db)"
    by (auto simp: insert_task_Inr list_ex_iff task_conflict_def)
  from ok fresh have roots: "\<forall>v \<in> set (db_reservations db). rv_root v \<noteq> tk_id t"
    unfolding ledger_ok_def balanced_def by metis
  then have "map (open_grant part (tk_id t)) (db_reservations db) = map (\<lambda>_. 0) (db_reservations db)" for part
    by (simp add: open_grant_def)
  then have "sum_list (map (open_grant part (tk_id t)) (db_reservations db)) = 0" for part
    by (simp only: sum_list_0)
  then have "granted part db (tk_id t) = 0" for part by (simp add: granted_def)
  moreover have "granted part db' = granted part db" for part by (simp add: granted_def db' fun_eq_iff)
  ultimately have "balanced (\<lambda>_. 0) (\<lambda>_. 0) db'"
    using ok fresh zero by (auto simp: ledger_ok_def balanced_def db')
  moreover have "pooled db'"
    using ok checks zero by (auto simp: ledger_ok_def pooled_def db' task_checks_def within_pool_zero)
  ultimately show ?thesis by (simp add: ledger_ok_def)
qed

lemma insert_run_tasks: "insert_run r db = Inr db' \<Longrightarrow> db_tasks db' = db_tasks db \<and> db_reservations db' = db_reservations db"
  by (auto simp: insert_run_def split: if_splits)

lemma write_submission_ledger:
  assumes ok: "ledger_ok db"
  shows "yields (ledger_ok \<circ> snd) (write_submission cr K ms q lifecycle limits retention root parent db)"
proof -
  have insert: "yields (\<lambda>db1. ledger_ok db1 \<and> (\<forall>t \<in> set (db_tasks db1). tk_id t = cq_task q \<longrightarrow>
      tk_reserved_tokens t = 0 \<and> tk_reserved_cost t = 0))
    (case insert_task (new_task q root description prompt config lifecycle limits) db of
       Inl e \<Rightarrow> Inl (submission_conflict db q e) | Inr db' \<Rightarrow> Inr db')" for description prompt config
  proof (rule yields_sum; rule yields_Inl yields_Inr)
    fix db1 assume i: "insert_task (new_task q root description prompt config lifecycle limits) db = Inr db1"
    have "ledger_ok db1" by (rule insert_task_ledger [OF ok i]) (simp_all add: new_task_def Let_def)
    with i show "ledger_ok db1 \<and> (\<forall>t \<in> set (db_tasks db1). tk_id t = cq_task q \<longrightarrow>
        tk_reserved_tokens t = 0 \<and> tk_reserved_cost t = 0)"
      by (auto simp: insert_task_Inr list_ex_iff task_conflict_def new_task_def Let_def)
  qed
  have run: "ledger_ok d \<Longrightarrow> (\<And>d'. ledger_ok d' \<Longrightarrow> Q d') \<Longrightarrow> yields Q (insert_run r d)" for d r Q
    by (rule yields_any) (blast dest: insert_run_tasks intro: ledger_cong)
  have current: "ledger_ok d \<Longrightarrow> (\<And>n d'. ledger_ok d' \<Longrightarrow> Q (n, d')) \<Longrightarrow>
      yields Q (update_tasks p (tk_current_run_update g) d)" for d p g Q
    by (rule yields_any, clarify) (erule meta_allE, erule meta_allE, erule meta_mp, erule ledger_same_account [rotated 2],
      auto simp: same_account_def)
  have reserve: "ledger_ok d \<and> (\<forall>t \<in> set (db_tasks d). tk_id t = cq_task q \<longrightarrow>
      tk_reserved_tokens t = 0 \<and> tk_reserved_cost t = 0) \<Longrightarrow> (\<And>d'. ledger_ok d' \<Longrightarrow> Q d') \<Longrightarrow>
      yields Q (reserve_child_budget K ms root (cq_task q) limits d)" for d Q
    by (rule yields_any) (blast intro: reserve_child_ledger)
  show ?thesis
    unfolding write_submission_def
    by (rule insert [THEN yields_mono] reserve run current ledger_tables.create_session_kept
        ledger_tables.link_parent_kept ledger_tables.wp_core wp yields_any | simp)+
qed

interpretation ledger: store_invariant ledger_ok
proof
  show "ledger_ok empty_db" by (simp add: ledger_ok_def balanced_def pooled_def empty_db_def)
  show "ledger_ok db'" if "ledger_ok db" "write_submission cr K ms w lifecycle limits retention root parent db = Inr (o', db')"
    for db db' cr K ms w lifecycle limits retention root parent o'
    using yieldsD [OF write_submission_ledger [OF that(1)] that(2)] by simp
qed (blast intro: settle_ledger configure_ledger)+

end
