(* ===== verification/Task_Terminal.thy ===== *)
theory Task_Terminal
  imports Task_Steps
begin

section \<open>Terminal tasks\<close>

text \<open>
  A task is terminal only with an immutable result of its current run, it stays terminal with the same
  status and the same run, and no result is ever changed or removed.
\<close>

subsection \<open>Operations on money\<close>

text \<open>What reservations, settlements and configurations leave alone.\<close>

definition identity_of ::
  "task_row \<Rightarrow> ustring \<times> ustring \<times> ustring option \<times> ustring \<times> task_status \<times> ustring option" where
  "identity_of t = (tk_id t, tk_session t, tk_parent t, tk_root t, tk_status t, tk_current_run t)"

definition money_only :: "task_db \<Rightarrow> task_db \<Rightarrow> bool" where
  "money_only db db' =
     (map identity_of (db_tasks db') = map identity_of (db_tasks db) \<and> db_runs db' = db_runs db \<and>
      db_results db' = db_results db)"

lemma money_only_refl [simp]: "money_only db db"
  by (simp add: money_only_def)

lemma money_only_update:
  "money_only db0 db \<Longrightarrow> (\<And>t. identity_of (f t) = identity_of t) \<Longrightarrow> (\<And>n db'. money_only db0 db' \<Longrightarrow> Q (n, db')) \<Longrightarrow>
   yields Q (update_tasks p f db)"
  by (rule yields_any) (auto simp: update_tasks_Inr money_only_def update_where_map)

lemma money_only_reservations:
  "money_only db0 db \<Longrightarrow> (\<And>n db'. money_only db0 db' \<Longrightarrow> Q (n, db')) \<Longrightarrow> yields Q (update_reservations p g db)"
  by (rule yields_any) (auto simp: update_reservations_Inr money_only_def)

lemma money_only_insert:
  "money_only db0 db \<Longrightarrow> (\<And>db'. money_only db0 db' \<Longrightarrow> Q db') \<Longrightarrow> yields Q (insert_reservation v db)"
  by (rule yields_any) (auto simp: insert_reservation_def money_only_def split: if_splits)

lemmas money_rules = money_only_update money_only_reservations money_only_insert wp yields_any

lemma reserve_money:
  "money_only db0 db \<Longrightarrow> yields (money_only db0) (reserve_child_budget K now_ms root child requested db)"
  unfolding reserve_child_budget_def charge_root_def grant_to_child_def
  by (assumption | rule money_rules | simp add: identity_of_def)+

lemma close_money:
  "money_only db0 db \<Longrightarrow> (\<And>db'. money_only db0 db' \<Longrightarrow> Q db') \<Longrightarrow>
   yields Q (close_reservation child v tokens cost status complete now db)"
  unfolding close_reservation_def by (rule money_rules | simp add: identity_of_def)+

text \<open>The statements of a settlement, each started from tables that already differ in money only.\<close>

lemma settle_statements:
  "money_only db0 db \<Longrightarrow> yields (money_only db0) (settle_root task x y complete db)"
  "money_only db0 db \<Longrightarrow> (\<And>db'. money_only db0 db' \<Longrightarrow> Q db') \<Longrightarrow> yields Q (charge_excess root x y db)"
  "money_only db0 db \<Longrightarrow> yields (money_only db0) (bump_budget task db)"
  "money_only db0 db \<Longrightarrow> (\<And>db'. money_only db0 db' \<Longrightarrow> Q db') \<Longrightarrow> yields Q (release_grant root a b x y db)"
  unfolding settle_root_def charge_excess_def bump_budget_def release_grant_def
  by (rule money_rules | simp add: identity_of_def)+

lemma settle_cases:
  "money_only db0 db \<Longrightarrow> yields (money_only db0) (settle_unknown t v now db)"
  "money_only db0 db \<Longrightarrow> yields (money_only db0) (settle_overrun t v x y now db)"
  "money_only db0 db \<Longrightarrow> yields (money_only db0) (settle_complete t v x y now db)"
  unfolding settle_unknown_def settle_overrun_def settle_complete_def
  by (rule settle_statements close_money money_rules | simp add: identity_of_def)+

lemma settle_money: "yields (money_only db) (settle_task_budget task run now db)"
  unfolding settle_task_budget_def settle_child_def
  by (rule settle_cases settle_statements(1) money_only_refl wp yields_any)+

lemma configure_money:
  "money_only db0 db \<Longrightarrow> yields (money_only db0 \<circ> snd) (configure_root_task_budget_cas root v limits db)"
  unfolding configure_root_task_budget_cas_def by (assumption | rule money_rules | simp add: identity_of_def)+

subsection \<open>A terminal task has a result\<close>

definition results_ok :: "task_db \<Rightarrow> bool" where
  "results_ok db = (\<forall>t \<in> set (db_tasks db). task_is_terminal (tk_status t) \<longrightarrow> has_result db t)"

lemma has_result_iff:
  "has_result db t \<longleftrightarrow>
   (\<exists>r \<in> set (db_runs db). tk_current_run t = Some (rn_id r) \<and> rn_task r = tk_id t \<and>
      (\<exists>s \<in> set (db_results db). rs_task s = tk_id t \<and> rs_run s = rn_id r \<and>
         terminal_pair (tk_status t) (rn_status r) (rs_status s)))"
  by (auto simp: has_result_def list_ex_iff)

lemma has_result_mono:
  assumes "has_result db t"
    and "\<And>r. r \<in> set (db_runs db) \<Longrightarrow> run_is_terminal (rn_status r) \<Longrightarrow>
      \<exists>r' \<in> set (db_runs db'). rn_id r' = rn_id r \<and> rn_task r' = rn_task r \<and> rn_status r' = rn_status r"
    and "set (db_results db) \<subseteq> set (db_results db')"
    and "tk_id t' = tk_id t" "tk_current_run t' = tk_current_run t" "tk_status t' = tk_status t"
  shows "has_result db' t'"
proof -
  from assms(1) obtain r s where *: "r \<in> set (db_runs db)" "tk_current_run t = Some (rn_id r)" "rn_task r = tk_id t"
    "s \<in> set (db_results db)" "rs_task s = tk_id t" "rs_run s = rn_id r"
    "terminal_pair (tk_status t) (rn_status r) (rs_status s)"
    by (auto simp: has_result_iff)
  then have "run_is_terminal (rn_status r)" by (auto simp: terminal_pair_def run_is_terminal_def)
  from assms(2) [OF *(1) this] obtain r' where "r' \<in> set (db_runs db')" "rn_id r' = rn_id r"
    "rn_task r' = rn_task r" "rn_status r' = rn_status r" by blast
  with * assms(3-6) show ?thesis unfolding has_result_iff by (metis subsetD)
qed

lemma has_result_cong:
  "db_runs db' = db_runs db \<Longrightarrow> db_results db' = db_results db \<Longrightarrow> has_result db' t = has_result db t"
  by (simp add: has_result_def)

text \<open>Statements on tasks that keep the identity and the run of a terminal row.\<close>

lemma results_update_tasks:
  assumes ok: "results_ok db" and u: "update_tasks p f db = Inr (n, db')"
    and f: "\<And>t. t \<in> set (db_tasks db) \<Longrightarrow> p t \<Longrightarrow> task_is_terminal (tk_status t) \<Longrightarrow>
      tk_id (f t) = tk_id t \<and> tk_current_run (f t) = tk_current_run t"
  shows "results_ok db'"
  unfolding results_ok_def
proof (intro ballI impI)
  fix t' assume t': "t' \<in> set (db_tasks db')" "task_is_terminal (tk_status t')"
  from u have db': "db' = db\<lparr>db_tasks := update_where p f (db_tasks db)\<rparr>"
    and checks: "\<And>t. t \<in> set (db_tasks db) \<Longrightarrow> p t \<Longrightarrow> task_update_ok db t (f t)"
    by (auto simp: update_tasks_Inr)
  have same: "has_result db' q = has_result db q" for q by (rule has_result_cong) (simp_all add: db')
  from t'(1) obtain t where t: "t \<in> set (db_tasks db)" "t' = (if p t then f t else t)"
    by (auto simp: db' update_where_set)
  show "has_result db' t'"
  proof (cases "p t \<and> \<not> task_is_terminal (tk_status t)")
    case True
    with checks [OF t(1)] t t' show ?thesis by (simp add: same task_update_ok_def)
  next
    case False
    show ?thesis unfolding same
    proof (rule has_result_mono)
      show "has_result db t" using False ok t t' checks [OF t(1)]
        by (cases "p t") (auto simp: results_ok_def)
    qed (use False t f [OF t(1)] checks [OF t(1)] in \<open>auto simp: task_update_ok_def\<close>)
  qed
qed

lemma results_update_runs:
  assumes ok: "results_ok db" and u: "update_runs q g db = Inr (n, db')" and g: "plain_run g"
  shows "results_ok db'"
  unfolding results_ok_def
proof (intro ballI impI)
  fix t assume t: "t \<in> set (db_tasks db')" "task_is_terminal (tk_status t)"
  from u have db': "db' = db\<lparr>db_runs := update_where q g (db_runs db)\<rparr>"
    and checks: "\<And>r. r \<in> set (db_runs db) \<Longrightarrow> q r \<Longrightarrow> run_update_ok r (g r)"
    by (auto simp: update_runs_Inr)
  from ok t have "has_result db t" by (simp add: results_ok_def db')
  then show "has_result db' t"
  proof (rule has_result_mono)
    fix r assume r: "r \<in> set (db_runs db)" "run_is_terminal (rn_status r)"
    with checks [OF r(1)] g have "rn_status (if q r then g r else r) = rn_status r"
      by (auto simp: run_update_ok_def)
    moreover have "(if q r then g r else r) \<in> set (db_runs db')" using r(1) by (auto simp: db' update_where_set)
    ultimately show "\<exists>r' \<in> set (db_runs db'). rn_id r' = rn_id r \<and> rn_task r' = rn_task r \<and> rn_status r' = rn_status r"
      using g by (intro bexI [of _ "if q r then g r else r"]) (auto simp: plain_run_def)
  qed (simp_all add: db')
qed

text \<open>Statements that add rows, or leave the core alone.\<close>

lemma results_more:
  assumes "results_ok db" "set (db_runs db) \<subseteq> set (db_runs db')" "set (db_results db) \<subseteq> set (db_results db')"
    and "\<And>t. t \<in> set (db_tasks db') \<Longrightarrow> task_is_terminal (tk_status t) \<Longrightarrow>
      \<exists>q \<in> set (db_tasks db). identity_of q = identity_of t"
  shows "results_ok db'"
  unfolding results_ok_def
proof (intro ballI impI)
  fix t assume t: "t \<in> set (db_tasks db')" "task_is_terminal (tk_status t)"
  from assms(4) [OF t] obtain q where q: "q \<in> set (db_tasks db)" "identity_of q = identity_of t" by blast
  with assms(1) t have "has_result db q" by (auto simp: results_ok_def identity_of_def)
  then show "has_result db' t"
    by (rule has_result_mono) (use assms(2,3) q in \<open>auto simp: identity_of_def\<close>)
qed

lemma results_money: "results_ok db \<Longrightarrow> money_only db db' \<Longrightarrow> results_ok db'"
  by (erule results_more) (auto simp: money_only_def dest: map_eq_member)

interpretation results_tables: table_invariant results_ok
proof
  show "results_ok db'" if "results_ok db" "same_core db db'" for db db'
    using that by (intro results_more [OF that(1)]) (auto simp: same_core_def core_def)
  show "results_ok db'" if "results_ok db" "plain_task f" "update_tasks p f db = Inr (n, db')" for db db' f p n
    using that by (intro results_update_tasks [OF that(1,3)]) (simp add: plain_task_def)
  show "results_ok db'" if "results_ok db" "plain_run g" "update_runs q g db = Inr (n, db')" for db db' g q n
    using that by (blast intro: results_update_runs)
  show "results_ok db'" if "results_ok db" "insert_result s db = Inr db'" for db db' s
    using that(2) by (intro results_more [OF that(1)]) (auto simp: insert_result_def split: if_splits)
qed

subsection \<open>Submission\<close>

text \<open>Until it has its run, the new task is not terminal.\<close>

definition fresh_task :: "ustring \<Rightarrow> task_db \<Rightarrow> bool" where
  "fresh_task i db =
     (results_ok db \<and> (\<forall>t \<in> set (db_tasks db). tk_id t = i \<longrightarrow> \<not> task_is_terminal (tk_status t)))"

lemma fresh_insert:
  "results_ok db \<Longrightarrow> tk_id t = i \<Longrightarrow> (\<And>db'. fresh_task i db' \<Longrightarrow> Q db') \<Longrightarrow>
   yields Q (case insert_task t db of Inl e \<Rightarrow> Inl (g e) | Inr db' \<Rightarrow> Inr db')"
proof (rule yields_sum; rule yields_Inl yields_Inr)
  fix db'
  assume ok: "results_ok db" and i: "tk_id t = i" and Q: "\<And>db'. fresh_task i db' \<Longrightarrow> Q db'"
    and t: "insert_task t db = Inr db'"
  have "results_ok db'"
    by (rule results_more [OF ok]) (use t in \<open>auto simp: insert_task_Inr\<close>)
  with t i show "Q db'"
    by (intro Q) (auto simp: fresh_task_def insert_task_Inr list_ex_iff task_conflict_def)
qed

lemma fresh_more:
  assumes "fresh_task i db" "map identity_of (db_tasks db') = map identity_of (db_tasks db)"
    "set (db_runs db) \<subseteq> set (db_runs db')" "db_results db' = db_results db"
  shows "fresh_task i db'"
proof -
  have old: "\<exists>q \<in> set (db_tasks db). identity_of q = identity_of t" if "t \<in> set (db_tasks db')" for t
    using map_eq_member [OF assms(2) that] .
  have "results_ok db'"
  proof (rule results_more)
    show "results_ok db" using assms(1) by (simp add: fresh_task_def)
  qed (use old assms(3,4) in simp_all)
  moreover have "\<not> task_is_terminal (tk_status t)" if t: "t \<in> set (db_tasks db')" "tk_id t = i" for t
    using old [OF t(1)] assms(1) t(2) by (auto simp: fresh_task_def identity_of_def)
  ultimately show ?thesis by (simp add: fresh_task_def)
qed

lemma fresh_reserve:
  "fresh_task i db \<Longrightarrow> (\<And>db'. fresh_task i db' \<Longrightarrow> Q db') \<Longrightarrow> yields Q (reserve_child_budget K ms root child l db)"
  by (rule yields_mono [OF reserve_money [OF money_only_refl]]) (simp add: money_only_def fresh_more)

lemma create_session_tasks:
  "create_session K q retention db = Inr db' \<Longrightarrow> core db' = core db"
  by (auto simp: create_session_def and_then_Inr dest: core_statements split: if_splits)

lemma fresh_session:
  "fresh_task i db \<Longrightarrow> (\<And>db'. fresh_task i db' \<Longrightarrow> Q db') \<Longrightarrow> yields Q (create_session K q retention db)"
  by (rule yields_any) (drule create_session_tasks, simp add: core_def fresh_more)

lemma fresh_run: "fresh_task i db \<Longrightarrow> (\<And>db'. fresh_task i db' \<Longrightarrow> Q db') \<Longrightarrow> yields Q (insert_run r db)"
  by (rule yields_any, erule meta_allE, erule meta_mp, erule fresh_more) (auto simp: insert_run_def split: if_splits)

lemma fresh_current:
  assumes "fresh_task i db" "\<And>n db'. results_ok db' \<Longrightarrow> Q (n, db')"
  shows "yields Q (update_tasks (\<lambda>t. tk_id t = i) (tk_current_run_update g) db)"
proof (rule yields_any, clarify)
  fix n db' assume u: "update_tasks (\<lambda>t. tk_id t = i) (tk_current_run_update g) db = Inr (n, db')"
  have "results_ok db'"
    by (rule results_update_tasks [OF _ u]) (use assms(1) in \<open>auto simp: fresh_task_def\<close>)
  then show "Q (n, db')" by (rule assms(2))
qed

lemma write_submission_results:
  "results_ok db \<Longrightarrow> yields (results_ok \<circ> snd) (write_submission cr K ms q lifecycle limits retention root parent db)"
  unfolding write_submission_def
  by (rule fresh_insert [where i = "cq_task q"] fresh_reserve fresh_session fresh_run fresh_current
      results_tables.link_parent_kept results_tables.wp_core wp yields_any | simp add: new_task_def Let_def)+

interpretation results: store_invariant results_ok
proof
  show "results_ok empty_db" by (simp add: results_ok_def empty_db_def)
  show "results_ok db'" if "results_ok db" "write_submission cr K ms w lifecycle limits retention root parent db = Inr (o', db')"
    for db db' cr K ms w lifecycle limits retention root parent o'
    using yieldsD [OF write_submission_results [OF that(1)] that(2)] by simp
  show "results_ok db'" if "results_ok db" "settle_task_budget task run now db = Inr db'" for db db' task run now
    using results_money [OF that(1) yieldsD [OF settle_money that(2)]] .
  show "results_ok db'" if "results_ok db" "configure_root_task_budget_cas root v limits db = Inr (c, db')"
    for db db' root v limits c
    using results_money [OF that(1)] yieldsD [OF configure_money [OF money_only_refl] that(2)] by simp
qed

end
