(* ===== verification/Task_History.thy ===== *)
theory Task_History
  imports Task_Terminal "HOL-Library.Sublist"
begin

section \<open>What later tables keep\<close>

text \<open>
  From any tables on, every step keeps each task and each run under its identity, keeps the status of
  those that are terminal, keeps the run of a terminal task, and only appends results.
\<close>

definition keeps_task :: "task_row \<Rightarrow> task_row \<Rightarrow> bool" where
  "keeps_task t t' =
     (tk_id t' = tk_id t \<and> tk_session t' = tk_session t \<and> tk_parent t' = tk_parent t \<and> tk_root t' = tk_root t \<and>
      (task_is_terminal (tk_status t) \<longrightarrow> tk_status t' = tk_status t \<and> tk_current_run t' = tk_current_run t))"

definition keeps_run :: "envelope_row \<Rightarrow> envelope_row \<Rightarrow> bool" where
  "keeps_run r r' =
     (rn_id r' = rn_id r \<and> rn_task r' = rn_task r \<and> rn_session r' = rn_session r \<and> rn_attempt r' = rn_attempt r \<and>
      (run_is_terminal (rn_status r) \<longrightarrow> rn_status r' = rn_status r))"

definition later :: "task_db \<Rightarrow> task_db \<Rightarrow> bool" where
  "later db0 db =
     ((\<forall>t \<in> set (db_tasks db0). \<exists>t' \<in> set (db_tasks db). keeps_task t t') \<and>
      (\<forall>r \<in> set (db_runs db0). \<exists>r' \<in> set (db_runs db). keeps_run r r') \<and>
      prefix (db_results db0) (db_results db))"

lemma keeps_task_refl [simp]: "keeps_task t t"
  by (simp add: keeps_task_def)

lemma keeps_run_refl [simp]: "keeps_run r r"
  by (simp add: keeps_run_def)

lemma keeps_task_trans: "keeps_task s t \<Longrightarrow> keeps_task t v \<Longrightarrow> keeps_task s v"
  by (simp add: keeps_task_def)

lemma keeps_run_trans: "keeps_run s t \<Longrightarrow> keeps_run t v \<Longrightarrow> keeps_run s v"
  by (simp add: keeps_run_def)

lemma later_refl [simp]: "later db db"
  by (auto simp: later_def intro: keeps_task_refl keeps_run_refl)

text \<open>One more change that keeps the rows it finds.\<close>

lemma later_extend:
  assumes "later db0 db"
    and "\<And>t t0. t \<in> set (db_tasks db) \<Longrightarrow> t0 \<in> set (db_tasks db0) \<Longrightarrow> keeps_task t0 t \<Longrightarrow>
      \<exists>t' \<in> set (db_tasks db'). keeps_task t t'"
    and "\<And>r. r \<in> set (db_runs db) \<Longrightarrow> \<exists>r' \<in> set (db_runs db'). keeps_run r r'"
    and "prefix (db_results db) (db_results db')"
  shows "later db0 db'"
proof -
  have "\<exists>t' \<in> set (db_tasks db'). keeps_task t t'" if t: "t \<in> set (db_tasks db0)" for t
  proof -
    from assms(1) t obtain q where q: "q \<in> set (db_tasks db)" "keeps_task t q" by (auto simp: later_def)
    from assms(2) [OF q(1) t q(2)] q(2) show ?thesis by (blast intro: keeps_task_trans)
  qed
  moreover have "\<exists>r' \<in> set (db_runs db'). keeps_run r r'" if r: "r \<in> set (db_runs db0)" for r
  proof -
    from assms(1) r obtain q where q: "q \<in> set (db_runs db)" "keeps_run r q" by (auto simp: later_def)
    from assms(3) [OF q(1)] q(2) show ?thesis by (blast intro: keeps_run_trans)
  qed
  moreover have "prefix (db_results db0) (db_results db')"
    using assms(1,4) by (auto simp: later_def intro: prefix_order.trans)
  ultimately show ?thesis by (simp add: later_def)
qed

lemma later_more:
  assumes "later db0 db" "map identity_of (db_tasks db') = map identity_of (db_tasks db)"
    "set (db_runs db) \<subseteq> set (db_runs db')" "prefix (db_results db) (db_results db')"
  shows "later db0 db'"
  using assms(1)
proof (rule later_extend)
  show "\<exists>t' \<in> set (db_tasks db'). keeps_task t t'" if "t \<in> set (db_tasks db)" for t
    using map_eq_member [OF assms(2) [symmetric] that] by (auto simp: keeps_task_def identity_of_def)
qed (use assms(3,4) in \<open>auto intro: keeps_run_refl\<close>)

lemma later_update_tasks:
  assumes ok: "later db0 db" and u: "update_tasks p f db = Inr (n, db')"
    and f: "\<And>t. p t \<Longrightarrow> tk_id t \<in> tk_id ` set (db_tasks db0) \<Longrightarrow> tk_id (f t) = tk_id t \<and>
      tk_session (f t) = tk_session t \<and> tk_parent (f t) = tk_parent t \<and> tk_root (f t) = tk_root t \<and>
      tk_current_run (f t) = tk_current_run t"
  shows "later db0 db'"
  using ok
proof (rule later_extend)
  from u have db': "db' = db\<lparr>db_tasks := update_where p f (db_tasks db)\<rparr>"
    and checks: "\<And>t. t \<in> set (db_tasks db) \<Longrightarrow> p t \<Longrightarrow> task_update_ok db t (f t)"
    by (auto simp: update_tasks_Inr)
  show "\<exists>t' \<in> set (db_tasks db'). keeps_task t t'"
    if "t \<in> set (db_tasks db)" "t0 \<in> set (db_tasks db0)" "keeps_task t0 t" for t t0
  proof
    show "(if p t then f t else t) \<in> set (db_tasks db')" using that(1) by (auto simp: db' update_where_set)
    have "tk_id t \<in> tk_id ` set (db_tasks db0)" using that(2,3) by (force simp: keeps_task_def)
    then show "keeps_task t (if p t then f t else t)"
      using f [of t] checks [OF that(1)] by (auto simp: keeps_task_def task_update_ok_def)
  qed
  show "\<exists>r' \<in> set (db_runs db'). keeps_run r r'" if "r \<in> set (db_runs db)" for r
    using that by (auto simp: db' intro: keeps_run_refl)
  show "prefix (db_results db) (db_results db')" by (simp add: db')
qed

lemma later_update_runs:
  assumes ok: "later db0 db" and u: "update_runs q g db = Inr (n, db')" and g: "plain_run g"
  shows "later db0 db'"
  using ok
proof (rule later_extend)
  from u have db': "db' = db\<lparr>db_runs := update_where q g (db_runs db)\<rparr>"
    and checks: "\<And>r. r \<in> set (db_runs db) \<Longrightarrow> q r \<Longrightarrow> run_update_ok r (g r)"
    by (auto simp: update_runs_Inr)
  show "\<exists>r' \<in> set (db_runs db'). keeps_run r r'" if "r \<in> set (db_runs db)" for r
  proof
    show "(if q r then g r else r) \<in> set (db_runs db')" using that by (auto simp: db' update_where_set)
    show "keeps_run r (if q r then g r else r)"
      using g checks [OF that] by (auto simp: keeps_run_def plain_run_def run_update_ok_def)
  qed
  show "\<exists>t' \<in> set (db_tasks db'). keeps_task t t'" if "t \<in> set (db_tasks db)" for t
    using that by (auto simp: db' intro: keeps_task_refl)
  show "prefix (db_results db) (db_results db')" by (simp add: db')
qed

interpretation later_tables: table_invariant "later db0" for db0
proof
  show "later db0 db'" if "later db0 db" "same_core db db'" for db db'
    using that by (intro later_more [OF that(1)]) (auto simp: same_core_def core_def)
  show "later db0 db'" if "later db0 db" "plain_task f" "update_tasks p f db = Inr (n, db')" for db db' f p n
    using that by (intro later_update_tasks [OF that(1,3)]) (simp add: plain_task_def)
  show "later db0 db'" if "later db0 db" "plain_run g" "update_runs q g db = Inr (n, db')" for db db' g q n
    using that by (blast intro: later_update_runs)
  show "later db0 db'" if "later db0 db" "insert_result s db = Inr db'" for db db' s
    using that(2) by (intro later_more [OF that(1)]) (auto simp: insert_result_def split: if_splits)
qed

subsection \<open>Submission\<close>

text \<open>The row whose run is set is new.\<close>

definition later_without :: "task_db \<Rightarrow> ustring \<Rightarrow> task_db \<Rightarrow> bool" where
  "later_without db0 i db = (later db0 db \<and> i \<notin> tk_id ` set (db_tasks db0))"

lemma later_insert:
  "later db0 db \<Longrightarrow> tk_id t = i \<Longrightarrow> (\<And>db'. later_without db0 i db' \<Longrightarrow> Q db') \<Longrightarrow>
   yields Q (case insert_task t db of Inl e \<Rightarrow> Inl (g e) | Inr db' \<Rightarrow> Inr db')"
proof (rule yields_sum; rule yields_Inl yields_Inr)
  fix db'
  assume ok: "later db0 db" and i: "tk_id t = i" and Q: "\<And>db'. later_without db0 i db' \<Longrightarrow> Q db'"
    and t: "insert_task t db = Inr db'"
  have "later db0 db'"
    by (rule later_extend [OF ok]) (use t in \<open>auto simp: insert_task_Inr intro: keeps_run_refl keeps_task_refl\<close>)
  moreover have "i \<notin> tk_id ` set (db_tasks db0)"
  proof
    assume "i \<in> tk_id ` set (db_tasks db0)"
    with ok obtain q where "q \<in> set (db_tasks db)" "tk_id q = i" by (auto simp: later_def keeps_task_def)
    with t i show False by (auto simp: insert_task_Inr list_ex_iff task_conflict_def)
  qed
  ultimately show "Q db'" by (intro Q) (simp add: later_without_def)
qed

lemma without_more:
  assumes "later_without db0 i db" "map identity_of (db_tasks db') = map identity_of (db_tasks db)"
    "set (db_runs db) \<subseteq> set (db_runs db')" "db_results db' = db_results db"
  shows "later_without db0 i db'"
  unfolding later_without_def
proof
  show "later db0 db'"
    by (rule later_more [OF _ assms(2,3)]) (use assms(1,4) in \<open>simp_all add: later_without_def\<close>)
qed (use assms(1) in \<open>simp add: later_without_def\<close>)

lemma without_reserve:
  "later_without db0 i db \<Longrightarrow> (\<And>db'. later_without db0 i db' \<Longrightarrow> Q db') \<Longrightarrow>
   yields Q (reserve_child_budget K ms root child l db)"
  by (rule yields_mono [OF reserve_money [OF money_only_refl]]) (simp add: money_only_def without_more)

lemma without_session:
  "later_without db0 i db \<Longrightarrow> (\<And>db'. later_without db0 i db' \<Longrightarrow> Q db') \<Longrightarrow> yields Q (create_session K q retention db)"
  by (rule yields_any) (drule create_session_tasks, simp add: core_def without_more)

lemma without_run:
  "later_without db0 i db \<Longrightarrow> (\<And>db'. later_without db0 i db' \<Longrightarrow> Q db') \<Longrightarrow> yields Q (insert_run r db)"
  by (rule yields_any, erule meta_allE, erule meta_mp, erule without_more) (auto simp: insert_run_def split: if_splits)

lemma without_current:
  assumes "later_without db0 i db" "\<And>n db'. later db0 db' \<Longrightarrow> Q (n, db')"
  shows "yields Q (update_tasks (\<lambda>t. tk_id t = i) (tk_current_run_update g) db)"
proof (rule yields_any, clarify)
  fix n db' assume u: "update_tasks (\<lambda>t. tk_id t = i) (tk_current_run_update g) db = Inr (n, db')"
  have "later db0 db'"
    by (rule later_update_tasks [OF _ u]) (use assms(1) in \<open>auto simp: later_without_def\<close>)
  then show "Q (n, db')" by (rule assms(2))
qed

lemma write_submission_later:
  "later db0 db \<Longrightarrow> yields (later db0 \<circ> snd) (write_submission cr K ms q lifecycle limits retention root parent db)"
  unfolding write_submission_def
  by (rule later_insert [where i = "cq_task q"] without_reserve without_session without_run without_current
      later_tables.link_parent_kept later_tables.wp_core wp yields_any | simp add: new_task_def Let_def)+

lemma later_money: "later db0 db \<Longrightarrow> money_only db db' \<Longrightarrow> later db0 db'"
  by (erule later_more) (auto simp: money_only_def)

interpretation history: step_invariant "later db0" for db0
proof
  show "later db0 db'" if "later db0 db" "write_submission cr K ms w lifecycle limits retention root parent db = Inr (o', db')"
    for db db' cr K ms w lifecycle limits retention root parent o'
    using yieldsD [OF write_submission_later [OF that(1)] that(2)] by simp
  show "later db0 db'" if "later db0 db" "settle_task_budget task run now db = Inr db'" for db db' task run now
    using later_money [OF that(1) yieldsD [OF settle_money that(2)]] .
  show "later db0 db'" if "later db0 db" "configure_root_task_budget_cas root v limits db = Inr (c, db')"
    for db db' root v limits c
    using later_money [OF that(1)] yieldsD [OF configure_money [OF money_only_refl] that(2)] by simp
qed

lemma steps_later: "(task_step cr)\<^sup>*\<^sup>* db0 db \<Longrightarrow> later db0 db"
  by (erule history.steps_kept) simp

end
