(* ===== verification/Task_Shape.thy ===== *)
theory Task_Shape
  imports Task_Steps
begin

section \<open>The shape of the tables\<close>

text \<open>
  Every row satisfies the checks of its table, keys are unique, no task has two runs that are not
  terminal, every result belongs to a run of its task, and the tasks form trees: the parent of a task
  stands before it, in its session and under its root.
\<close>

type_synonym task_place = "ustring \<times> ustring \<times> ustring option \<times> ustring"

definition place :: "task_row \<Rightarrow> task_place" where
  "place t = (tk_id t, tk_session t, tk_parent t, tk_root t)"

definition founded :: "task_place set \<Rightarrow> task_place \<Rightarrow> bool" where
  "founded known x =
     (case x of (k, session, parent, root) \<Rightarrow>
        (case parent of None \<Rightarrow> root = k | Some p \<Rightarrow> \<exists>above. (p, session, above, root) \<in> known))"

fun parents_before :: "task_place set \<Rightarrow> task_place list \<Rightarrow> bool" where
  "parents_before known [] = True"
| "parents_before known (x # xs) = (founded known x \<and> parents_before (insert x known) xs)"

definition parents_first :: "task_place list \<Rightarrow> bool" where
  "parents_first xs = parents_before {} xs"

definition rows_checked :: "task_db \<Rightarrow> bool" where
  "rows_checked db =
     ((\<forall>t \<in> set (db_tasks db). task_checks t) \<and> (\<forall>r \<in> set (db_runs db). run_checks r) \<and>
      (\<forall>v \<in> set (db_reservations db). reservation_checks v) \<and> (\<forall>s \<in> set (db_results db). result_checks s))"

definition live_tasks :: "task_db \<Rightarrow> ustring list" where
  "live_tasks db = map rn_task (filter (\<lambda>r. \<not> run_is_terminal (rn_status r)) (db_runs db))"

definition keys_unique :: "task_db \<Rightarrow> bool" where
  "keys_unique db =
     (distinct (map tk_id (db_tasks db)) \<and> distinct (map rn_id (db_runs db)) \<and>
      distinct (map (\<lambda>r. (rn_task r, rn_attempt r)) (db_runs db)) \<and> distinct (live_tasks db) \<and>
      distinct (map rs_id (db_results db)) \<and> distinct (map (\<lambda>s. (rs_task s, rs_version s)) (db_results db)))"

definition results_owned :: "task_db \<Rightarrow> bool" where
  "results_owned db =
     (\<forall>s \<in> set (db_results db). (rs_run s, rs_task s) \<in> (\<lambda>r. (rn_id r, rn_task r)) ` set (db_runs db))"

definition shape_ok :: "task_db \<Rightarrow> bool" where
  "shape_ok db = (rows_checked db \<and> keys_unique db \<and> results_owned db \<and> parents_first (map place (db_tasks db)))"

subsection \<open>Lists\<close>

lemma parents_before_snoc: "parents_before known (xs @ [x]) \<longleftrightarrow> parents_before known xs \<and> founded (known \<union> set xs) x"
  by (induction xs arbitrary: known) auto

lemma parents_first_snoc: "parents_first (xs @ [x]) \<longleftrightarrow> parents_first xs \<and> founded (set xs) x"
  by (simp add: parents_first_def parents_before_snoc)

lemma distinct_filter_update:
  "distinct (map k (filter P xs)) \<Longrightarrow> (\<And>x. x \<in> set xs \<Longrightarrow> p x \<Longrightarrow> k (f x) = k x \<and> (P (f x) \<longrightarrow> P x)) \<Longrightarrow>
   distinct (map k (filter P (update_where p f xs)))"
proof (induction xs)
  case (Cons x xs)
  let ?y = "if p x then f x else x" and ?ys = "update_where p f xs"
  have ys: "set (map k (filter P ?ys)) \<subseteq> set (map k (filter P xs))"
    using Cons.prems(2) by (fastforce simp: update_where_def)
  have rest: "distinct (map k (filter P ?ys))"
    by (rule Cons.IH) (use Cons.prems in \<open>auto split: if_splits\<close>)
  have "k ?y = k x" "P ?y \<Longrightarrow> P x" using Cons.prems(2) [of x] by (auto split: if_splits)
  then have "P ?y \<Longrightarrow> k ?y \<notin> set (map k (filter P ?ys))" using ys Cons.prems(1) by auto
  with rest have "distinct (map k (filter P (?y # ?ys)))" by auto
  then show ?case by (simp add: update_where_def)
qed (simp add: update_where_def)

subsection \<open>Statements\<close>

lemma shape_cong: "shape_ok db \<Longrightarrow> same_core db db' \<Longrightarrow> shape_ok db'"
  by (simp add: same_core_def shape_ok_def rows_checked_def keys_unique_def results_owned_def live_tasks_def core_def)

lemma shape_tasks:
  assumes ok: "shape_ok db" and u: "update_tasks p f db = Inr (n, db')" and f: "\<And>t. place (f t) = place t"
  shows "shape_ok db'"
proof -
  from u have db': "db' = db\<lparr>db_tasks := update_where p f (db_tasks db)\<rparr>"
    and checks: "\<And>t. t \<in> set (db_tasks db) \<Longrightarrow> p t \<Longrightarrow> task_checks (f t)"
    by (auto simp: update_tasks_Inr task_update_ok_def)
  have places: "map place (db_tasks db') = map place (db_tasks db)"
    unfolding db' using f by (simp add: update_where_map)
  have "map fst (map place (db_tasks db')) = map fst (map place (db_tasks db))" by (simp only: places)
  then have "map tk_id (db_tasks db') = map tk_id (db_tasks db)" by (simp add: place_def comp_def)
  with ok checks places show ?thesis
    by (auto simp: shape_ok_def rows_checked_def keys_unique_def results_owned_def live_tasks_def db' update_where_set)
qed

lemma shape_runs:
  assumes ok: "shape_ok db" and u: "update_runs q g db = Inr (n, db')" and g: "plain_run g"
  shows "shape_ok db'"
proof -
  from u have db': "db' = db\<lparr>db_runs := update_where q g (db_runs db)\<rparr>"
    and checks: "\<And>r. r \<in> set (db_runs db) \<Longrightarrow> q r \<Longrightarrow> run_update_ok r (g r)"
    by (auto simp: update_runs_Inr)
  have same: "map (\<lambda>r. (rn_id r, rn_task r, rn_attempt r)) (db_runs db') =
      map (\<lambda>r. (rn_id r, rn_task r, rn_attempt r)) (db_runs db)"
    unfolding db' using g by (simp add: update_where_map plain_run_def)
  then have keys: "map (h \<circ> (\<lambda>r. (rn_id r, rn_task r, rn_attempt r))) (db_runs db') =
      map (h \<circ> (\<lambda>r. (rn_id r, rn_task r, rn_attempt r))) (db_runs db)" for h
    by (simp only: map_map [symmetric])
  from keys [of fst] keys [of snd] keys [of "\<lambda>(i, t, a). (i, t)"]
  have ids: "map rn_id (db_runs db') = map rn_id (db_runs db)"
    and attempts: "map (\<lambda>r. (rn_task r, rn_attempt r)) (db_runs db') = map (\<lambda>r. (rn_task r, rn_attempt r)) (db_runs db)"
    and owners: "set (map (\<lambda>r. (rn_id r, rn_task r)) (db_runs db')) = set (map (\<lambda>r. (rn_id r, rn_task r)) (db_runs db))"
    by (simp_all add: comp_def)
  have "distinct (live_tasks db')"
    unfolding live_tasks_def db' using ok g checks
    by (auto simp: shape_ok_def keys_unique_def live_tasks_def plain_run_def run_update_ok_def
        intro!: distinct_filter_update)
  moreover have "rows_checked db'"
    using ok checks by (auto simp: shape_ok_def rows_checked_def db' update_where_set run_update_ok_def)
  moreover have "results_owned db'"
    using ok owners by (simp add: shape_ok_def results_owned_def db')
  moreover have "db_tasks db' = db_tasks db" "db_results db' = db_results db" by (simp_all add: db')
  ultimately show ?thesis using ok ids attempts by (simp add: shape_ok_def keys_unique_def)
qed

lemma shape_insert_task:
  assumes ok: "shape_ok db" and t: "insert_task t db = Inr db'"
  shows "shape_ok db'"
proof -
  have "founded (place ` set (db_tasks db)) (place t)"
  proof (cases "tk_parent t")
    case None
    with t show ?thesis by (simp add: founded_def place_def insert_task_Inr task_checks_def)
  next
    case (Some p)
    with t obtain q where q: "q \<in> set (db_tasks db)" "tk_id q = p" "tk_session q = tk_session t" "tk_root q = tk_root t"
      by (auto simp: insert_task_Inr parent_tree_ok_def list_ex_iff)
    then have "(p, tk_session t, tk_parent q, tk_root t) \<in> place ` set (db_tasks db)"
      by (auto simp: place_def intro!: rev_image_eqI [OF q(1)])
    with Some show ?thesis by (auto simp: founded_def place_def)
  qed
  then have "parents_first (map place (db_tasks db) @ [place t])"
    using ok by (simp add: parents_first_snoc shape_ok_def)
  with ok t show ?thesis
    by (auto simp: shape_ok_def rows_checked_def keys_unique_def results_owned_def live_tasks_def insert_task_Inr
        list_ex_iff task_conflict_def)
qed

lemma shape_insert_run:
  assumes ok: "shape_ok db" and r: "insert_run r db = Inr db'"
  shows "shape_ok db'"
proof -
  from r have db': "db' = db\<lparr>db_runs := db_runs db @ [r]\<rparr>" and c: "run_checks r"
    and new: "\<And>q. q \<in> set (db_runs db) \<Longrightarrow> rn_id q \<noteq> rn_id r \<and>
      \<not> (rn_task q = rn_task r \<and> rn_attempt q = rn_attempt r) \<and>
      \<not> (rn_task q = rn_task r \<and> \<not> run_is_terminal (rn_status q) \<and> \<not> run_is_terminal (rn_status r))"
    by (auto simp: insert_run_def list_ex_iff split: if_splits)
  from new have "rn_id r \<notin> rn_id ` set (db_runs db)"
    "(rn_task r, rn_attempt r) \<notin> (\<lambda>r. (rn_task r, rn_attempt r)) ` set (db_runs db)"
    "\<not> run_is_terminal (rn_status r) \<Longrightarrow> rn_task r \<notin> set (live_tasks db)"
    by (force simp: live_tasks_def)+
  with ok have "keys_unique db'" by (auto simp: shape_ok_def keys_unique_def live_tasks_def db')
  with ok c show ?thesis by (auto simp: shape_ok_def rows_checked_def results_owned_def db')
qed

lemma shape_insert_result:
  assumes ok: "shape_ok db" and s: "insert_result s db = Inr db'"
  shows "shape_ok db'"
proof -
  from s have db': "db' = db\<lparr>db_results := db_results db @ [s]\<rparr>" and c: "result_checks s"
    and run: "\<exists>r \<in> set (db_runs db). rn_id r = rs_run s \<and> rn_task r = rs_task s"
    and new: "\<forall>q \<in> set (db_results db). rs_id q \<noteq> rs_id s \<and> \<not> (rs_task q = rs_task s \<and> rs_version q = rs_version s)"
    by (auto simp: insert_result_def list_ex_iff split: if_splits)
  from run have "(rs_run s, rs_task s) \<in> (\<lambda>r. (rn_id r, rn_task r)) ` set (db_runs db)" by force
  with ok have "results_owned db'" by (simp add: shape_ok_def results_owned_def db')
  moreover have "keys_unique db'"
    using ok new by (auto simp: shape_ok_def keys_unique_def live_tasks_def db')
  ultimately show ?thesis using ok c by (simp add: shape_ok_def rows_checked_def db')
qed

lemma shape_reservations: "shape_ok db \<Longrightarrow> update_reservations p g db = Inr (n, db') \<Longrightarrow> shape_ok db'"
  by (auto simp: update_reservations_Inr shape_ok_def rows_checked_def keys_unique_def results_owned_def
      live_tasks_def update_where_set)

lemma shape_insert_reservation: "shape_ok db \<Longrightarrow> insert_reservation v db = Inr db' \<Longrightarrow> shape_ok db'"
  by (auto simp: insert_reservation_def shape_ok_def rows_checked_def keys_unique_def results_owned_def
      live_tasks_def split: if_splits)

subsection \<open>Operations\<close>

interpretation shape_tables: table_invariant shape_ok
proof
  show "shape_ok db'" if "shape_ok db" "plain_task f" "update_tasks p f db = Inr (n, db')" for db db' f p n
    using that(2) by (intro shape_tasks [OF that(1,3)]) (simp add: plain_task_def place_def)
qed (blast intro: shape_cong shape_runs shape_insert_result)+

lemma shape_wp:
  "shape_ok db \<Longrightarrow> (\<And>t. place (f t) = place t) \<Longrightarrow> (\<And>n db'. shape_ok db' \<Longrightarrow> Q' (n, db')) \<Longrightarrow>
   yields Q' (update_tasks p f db)"
  "shape_ok db \<Longrightarrow> (\<And>n db'. shape_ok db' \<Longrightarrow> Q' (n, db')) \<Longrightarrow> yields Q' (update_reservations p' g db)"
  "shape_ok db \<Longrightarrow> (\<And>db'. shape_ok db' \<Longrightarrow> Q db') \<Longrightarrow> yields Q (insert_reservation v db)"
  "shape_ok db \<Longrightarrow> (\<And>db'. shape_ok db' \<Longrightarrow> Q db') \<Longrightarrow> yields Q (insert_run r db)"
  by (rule yields_any, (clarify)?, blast intro: shape_tasks shape_reservations shape_insert_reservation shape_insert_run)+

lemma shape_new_task:
  "shape_ok db \<Longrightarrow> (\<And>db'. shape_ok db' \<Longrightarrow> Q db') \<Longrightarrow>
   yields Q (case insert_task t db of Inl e \<Rightarrow> Inl (h e) | Inr db' \<Rightarrow> Inr db')"
  by (rule yields_sum; rule yields_Inl yields_Inr) (blast intro: shape_insert_task)

lemmas shape_rules = shape_new_task shape_wp shape_tables.create_session_kept shape_tables.link_parent_kept
  shape_tables.wp_core wp yields_any

lemma shape_reserve:
  "shape_ok db \<Longrightarrow> (\<And>db'. shape_ok db' \<Longrightarrow> Q db') \<Longrightarrow> yields Q (reserve_child_budget K ms root child l db)"
  unfolding reserve_child_budget_def charge_root_def grant_to_child_def
  by (assumption | rule shape_rules | simp add: place_def)+

lemma shape_settle: "shape_ok db \<Longrightarrow> yields shape_ok (settle_task_budget task run now db)"
  unfolding settle_task_budget_def settle_child_def settle_root_def settle_unknown_def settle_overrun_def
    settle_complete_def charge_excess_def bump_budget_def release_grant_def close_reservation_def
  by (assumption | rule shape_rules | simp add: place_def)+

lemma shape_configure: "shape_ok db \<Longrightarrow> yields (shape_ok \<circ> snd) (configure_root_task_budget_cas root v limits db)"
  unfolding configure_root_task_budget_cas_def by (assumption | rule shape_rules | simp add: place_def)+

lemma shape_submission:
  "shape_ok db \<Longrightarrow> yields (shape_ok \<circ> snd) (write_submission cr K ms q lifecycle limits retention root parent db)"
  unfolding write_submission_def by (assumption | rule shape_reserve shape_rules | simp add: place_def)+

interpretation shape: store_invariant shape_ok
proof
  show "shape_ok empty_db"
    by (simp add: shape_ok_def rows_checked_def keys_unique_def results_owned_def live_tasks_def parents_first_def empty_db_def)
  show "shape_ok db'" if "shape_ok db" "write_submission cr K ms w lifecycle limits retention root parent db = Inr (o', db')"
    for db db' cr K ms w lifecycle limits retention root parent o'
    using yieldsD [OF shape_submission [OF that(1)] that(2)] by simp
  show "shape_ok db'" if "shape_ok db" "configure_root_task_budget_cas root v limits db = Inr (c, db')"
    for db db' root v limits c
    using yieldsD [OF shape_configure [OF that(1)] that(2)] by simp
qed (blast dest: yieldsD [OF shape_settle])

end
