(* ===== verification/Task_Pages.thy ===== *)
theory Task_Pages
  imports Task_Result
begin

section \<open>Reading a result page by page\<close>

text \<open>
  A page of a result starts and ends between two characters, holds at least one, and no more bytes than
  asked for unless it is a single character. A reader that follows the cursors reads the whole result.
\<close>

lemma chars_pos: "c \<in> set (chars s) \<Longrightarrow> 0 < byte_length c"
  by (rule byte_length_pos) (rule chars_nonempty)

definition bytes_upto :: "ustring list \<Rightarrow> nat \<Rightarrow> nat" where
  "bytes_upto cs i = byte_length (concat (take i cs))"

lemma bytes_upto_add: "bytes_upto cs (i + k) = bytes_upto cs i + byte_length (concat (take k (drop i cs)))"
  by (simp add: bytes_upto_def take_add)

lemma bytes_upto_all: "length cs \<le> i \<Longrightarrow> bytes_upto cs i = byte_length (concat cs)"
  by (simp add: bytes_upto_def)

lemma drop_bytes_upto:
  "(\<And>c. c \<in> set cs \<Longrightarrow> 0 < byte_length c) \<Longrightarrow> drop_bytes (bytes_upto cs i) cs = drop i cs"
proof (induction cs arbitrary: i)
  case (Cons c cs)
  show ?case
  proof (cases i)
    case (Suc j)
    have "0 < byte_length c" using Cons.prems by simp
    moreover have "drop_bytes (bytes_upto cs j) cs = drop j cs" using Cons.prems by (intro Cons.IH) simp
    ultimately show ?thesis using Suc by (simp add: bytes_upto_def)
  qed (simp add: bytes_upto_def)
qed (simp add: bytes_upto_def)

lemma bytes_upto_less:
  assumes "\<And>c. c \<in> set cs \<Longrightarrow> 0 < byte_length c" "i < length cs"
  shows "bytes_upto cs i < byte_length (concat cs)"
proof -
  have "drop i cs = cs ! i # drop (Suc i) cs" using assms(2) by (simp add: Cons_nth_drop_Suc)
  moreover have "byte_length (concat cs) = bytes_upto cs i + byte_length (concat (drop i cs))"
    unfolding bytes_upto_def by (metis append_take_drop_id byte_length_simps(3) concat_append)
  moreover have "0 < byte_length (cs ! i)" using assms by simp
  ultimately show ?thesis by simp
qed

lemma take_bytes_chars: "\<exists>k \<le> length cs. take_bytes n cs = concat (take k cs) \<and> byte_length (take_bytes n cs) \<le> n"
proof (induction cs arbitrary: n)
  case (Cons c cs)
  show ?case
  proof (cases "byte_length c \<le> n")
    case True
    from Cons.IH [of "n - byte_length c"] obtain k where "k \<le> length cs"
      "take_bytes (n - byte_length c) cs = concat (take k cs)"
      "byte_length (take_bytes (n - byte_length c) cs) \<le> n - byte_length c" by blast
    with True show ?thesis by (intro exI [of _ "Suc k"]) auto
  next
    case False
    then show ?thesis by (intro exI [of _ 0]) auto
  qed
qed simp

text \<open>The page at a boundary: at least one character, and no more bytes than asked for unless it is a single one.\<close>

lemma result_page_at:
  assumes "i \<le> length (chars s)"
  obtains k page where "result_page s (bytes_upto (chars s) i) n = Inr (page, if i + k < length (chars s)
      then Some (bytes_upto (chars s) (i + k)) else None)"
    "page = concat (take k (drop i (chars s)))" "i + k \<le> length (chars s)" "i < length (chars s) \<Longrightarrow> 0 < k"
    "byte_length page \<le> n \<or> k = 1"
proof -
  let ?cs = "chars s" and ?c = "bytes_upto (chars s) i"
  let ?rest = "drop i ?cs"
  have pos: "\<And>c. c \<in> set ?cs \<Longrightarrow> 0 < byte_length c" by (rule chars_pos)
  have all: "concat ?cs = s" by simp
  obtain k0 where k0: "k0 \<le> length ?rest" "take_bytes n ?rest = concat (take k0 ?rest)"
    "byte_length (take_bytes n ?rest) \<le> n" using take_bytes_chars by blast
  define k where "k = (if take_bytes n ?rest = [] then min 1 (length ?rest) else k0)"
  define page where "page = (if take_bytes n ?rest = [] then concat (take 1 ?rest) else take_bytes n ?rest)"
  have page: "page = concat (take k ?rest)"
    using k0(2) by (auto simp: page_def k_def min_def)
  have k: "i + k \<le> length ?cs" using assms k0(1) by (auto simp: k_def)
  have kpos: "0 < k" if "i < length ?cs"
    using that k0(2) by (auto simp: k_def intro: Nat.gr0I)
  have size: "byte_length page \<le> n \<or> k = 1" using k0(3) by (auto simp: page_def k_def min_def)
  have stop: "?c + byte_length page = bytes_upto ?cs (i + k)" by (simp add: bytes_upto_add page)
  have less: "bytes_upto ?cs (i + k) < byte_length s \<longleftrightarrow> i + k < length ?cs"
    using bytes_upto_less [of ?cs "i + k"] pos bytes_upto_all [where i = "i + k" and cs = ?cs] all by (cases "i + k < length ?cs") auto
  have rest: "drop_bytes ?c ?cs = ?rest" by (rule drop_bytes_upto) (rule pos)
  have "?c \<le> byte_length s"
    using bytes_upto_less [of ?cs i] pos bytes_upto_all [where i = i and cs = ?cs] all by (cases "i < length ?cs") auto
  moreover have "boundary s ?c" using assms by (auto simp: boundary_def bytes_upto_def)
  ultimately have "result_page s ?c n = Inr (page, if i + k < length ?cs then Some (bytes_upto ?cs (i + k)) else None)"
    unfolding result_page_def Let_def rest page_def [symmetric] stop less by simp
  with page k kpos size show thesis by (intro that)
qed

text \<open>A reader that follows the cursors.\<close>

fun read_pages ::
  "nat \<Rightarrow> crates \<Rightarrow> content_port \<Rightarrow> task_db \<Rightarrow> ustring \<Rightarrow> int option \<Rightarrow> nat \<Rightarrow> nat \<Rightarrow> ustring list option" where
  "read_pages 0 cr K db task version cursor n = None"
| "read_pages (Suc fuel) cr K db task version cursor n =
     (case read_task_result cr K db task version cursor n of
        Inr (Some c) \<Rightarrow>
          (case ck_next c of
             None \<Rightarrow> Some [ck_content c]
           | Some next' \<Rightarrow> map_option (Cons (ck_content c)) (read_pages fuel cr K db task version next' n))
      | _ \<Rightarrow> None)"

lemma read_pages_from:
  assumes sel: "select_result db task version = Some r" "load_result cr K db r = Inr (result, s)"
    and n: "0 < n" "n \<le> INLINE_RESULT_LIMIT"
  shows "i \<le> length (chars s) \<Longrightarrow> length (chars s) - i < fuel \<Longrightarrow>
    \<exists>ps. read_pages fuel cr K db task version (bytes_upto (chars s) i) n = Some ps \<and>
      concat ps = concat (drop i (chars s)) \<and> (\<forall>p \<in> set ps. byte_length p \<le> n \<or> p \<in> set (chars s))"
proof (induction fuel arbitrary: i)
  case (Suc fuel)
  let ?cs = "chars s"
  obtain k page where p: "result_page s (bytes_upto ?cs i) n = Inr (page, if i + k < length ?cs
      then Some (bytes_upto ?cs (i + k)) else None)"
    "page = concat (take k (drop i ?cs))" "i + k \<le> length ?cs" "i < length ?cs \<Longrightarrow> 0 < k"
    "byte_length page \<le> n \<or> k = 1" using result_page_at [OF Suc.prems(1)] by blast
  have fits: "byte_length page \<le> n \<or> page \<in> set ?cs"
  proof (cases "k = 1")
    case True
    show ?thesis
    proof (cases "i < length ?cs")
      case True
      then have "take 1 (drop i ?cs) = [?cs ! i]" by (simp add: take_Suc hd_drop_conv_nth)
      with \<open>k = 1\<close> p(2) True show ?thesis by simp
    next
      case False
      with p(2) show ?thesis by simp
    qed
  qed (use p(5) in blast)
  have read: "read_task_result cr K db task version (bytes_upto ?cs i) n = Inr (Some \<lparr>ck_result = result,
      ck_content = page, ck_cursor = bytes_upto ?cs i,
      ck_next = (if i + k < length ?cs then Some (bytes_upto ?cs (i + k)) else None),
      ck_partial = (rr_status result = PartialResult)\<rparr>)"
    using sel n p(1) by (simp add: read_task_result_def)
  show ?case
  proof (cases "i + k < length ?cs")
    case True
    with p(4) have "0 < k" by simp
    with Suc.prems True have "length ?cs - (i + k) < fuel" by simp
    with Suc.IH [of "i + k"] p(3) obtain ps where
      ps: "read_pages fuel cr K db task version (bytes_upto ?cs (i + k)) n = Some ps"
      "concat ps = concat (drop (i + k) ?cs)" "\<forall>q \<in> set ps. byte_length q \<le> n \<or> q \<in> set ?cs"
      by blast
    have "page @ concat ps = concat (drop i ?cs)"
      unfolding p(2) ps(2) by (metis append_take_drop_id concat_append drop_drop add.commute)
    with True ps read fits show ?thesis by simp
  next
    case False
    then have "page = concat (drop i ?cs)" using p(2,3) by simp
    with False read fits show ?thesis by simp
  qed
qed simp

lemma read_pages_all:
  assumes "select_result db task version = Some r" "load_result cr K db r = Inr (result, s)"
    "0 < n" "n \<le> INLINE_RESULT_LIMIT"
  shows "\<exists>ps. read_pages (Suc (length s)) cr K db task version 0 n = Some ps \<and> concat ps = s \<and>
    (\<forall>p \<in> set ps. byte_length p \<le> n \<or> p \<in> set (chars s))"
proof -
  have "length (chars s) \<le> length s" by (induction s rule: chars.induct) auto
  with read_pages_from [OF assms, of 0 "Suc (length s)"] show ?thesis by (simp add: bytes_upto_def)
qed

end
