(* ===== verification/Task_Receipts.thy ===== *)
theory Task_Receipts
  imports Task_Inbox
begin

section \<open>The text of a receipt\<close>

text \<open>
  The result of a child enters the conversation of its parent as text between two tags. Escaping keeps
  markup out of it, and no two receipts with different contents have the same text.
\<close>

subsection \<open>Escaping\<close>

lemma escape_no_markup: "set (escape s) \<inter> {34, 39, 60, 62} = {}"
  by (induction s) auto

lemma escape_no_quote: "34 \<notin> set (escape s)"
  using escape_no_markup [of s] by blast

definition escape_unit :: "nat \<Rightarrow> ustring" where
  "escape_unit c =
     (if c = 38 then u ''&amp;'' else if c = 60 then u ''&lt;'' else if c = 62 then u ''&gt;''
      else if c = 34 then u ''&quot;'' else if c = 39 then u ''&apos;'' else [c])"

lemma escape_Cons: "escape (c # cs) = escape_unit c @ escape cs"
  by (simp add: escape_unit_def)

lemma escape_unit_prefix: "escape_unit c @ xs = escape_unit d @ ys \<Longrightarrow> c = d \<and> xs = ys"
  by (auto simp: escape_unit_def split: if_splits)

lemma escape_unit_neq_Nil: "escape_unit c \<noteq> []"
  by (simp add: escape_unit_def)

lemma escape_inj: "escape s = escape t \<Longrightarrow> s = t"
proof (induction s arbitrary: t)
  case Nil
  then show ?case by (cases t) (auto simp: escape_Cons escape_unit_neq_Nil simp del: escape.simps(2))
next
  case (Cons c s)
  then obtain d t' where t: "t = d # t'"
    by (cases t) (auto simp: escape_Cons escape_unit_neq_Nil simp del: escape.simps(2))
  with Cons.prems have "escape_unit c @ escape s = escape_unit d @ escape t'" by (simp only: escape_Cons)
  from escape_unit_prefix [OF this] Cons.IH t show ?case by simp
qed

subsection \<open>Numbers\<close>

lemma decimal_digits: "c \<in> set (decimal n) \<Longrightarrow> 48 \<le> c \<and> c < 58"
proof (induction n rule: decimal.induct)
  case (1 n)
  then show ?case by (subst (asm) (2) decimal.simps) (auto split: if_splits)
qed

lemma decimal_not_Nil: "decimal n \<noteq> []"
  by (subst decimal.simps) simp

lemma decimal_inj: "decimal m = decimal n \<Longrightarrow> m = n"
proof (induction m arbitrary: n rule: decimal.induct)
  case (1 m)
  have m: "decimal m = (if m < 10 then [48 + m] else decimal (m div 10) @ [48 + m mod 10])"
    and n: "decimal n = (if n < 10 then [48 + n] else decimal (n div 10) @ [48 + n mod 10])"
    by (simp_all add: decimal.simps [symmetric])
  show ?case
  proof (cases "m < 10")
    case True
    then show ?thesis using "1.prems" m n decimal_not_Nil [of "n div 10"] by (auto split: if_splits)
  next
    case False
    then have "\<not> n < 10" using "1.prems" m n decimal_not_Nil [of "m div 10"] by (auto split: if_splits)
    with False "1.prems" m n have "decimal (m div 10) = decimal (n div 10)" "m mod 10 = n mod 10" by simp_all
    with "1.IH" [OF False] have "m div 10 = n div 10" "m mod 10 = n mod 10" by simp_all
    then show ?thesis by (metis div_mult_mod_eq)
  qed
qed

lemma signed_no_quote: "34 \<notin> set (signed i)"
  by (auto simp: signed_def dest: decimal_digits)

lemma signed_inj: "signed i = signed j \<Longrightarrow> i = j"
proof -
  assume s: "signed i = signed j"
  have "45 # decimal m \<noteq> decimal n" for m n
    using decimal_digits [of 45 n] by (metis list.set_intros(1) le_eq_less_or_eq not_less numeral_less_iff semiring_norm)
  then have minus: "45 # decimal m \<noteq> decimal n" "decimal n \<noteq> 45 # decimal m" for m n by metis+
  show ?thesis using s minus by (auto simp: signed_def dest: decimal_inj split: if_splits)
qed

subsection \<open>Receipts\<close>

text \<open>What stands before the first quotation mark is determined by the text.\<close>

lemma until_quote: "34 \<notin> set xs \<Longrightarrow> 34 \<notin> set ys \<Longrightarrow> xs @ 34 # zs = ys @ 34 # ws \<Longrightarrow> xs = ys \<and> zs = (ws :: ustring)"
proof (induction xs arbitrary: ys)
  case Nil
  then show ?case by (cases ys) auto
next
  case (Cons x xs)
  then show ?case by (cases ys) auto
qed

lemma receipt_inj:
  assumes "render_task_result_receipt t v st sha sm = render_task_result_receipt t' v' st' sha' sm'"
  shows "t = t' \<and> v = v' \<and> st = st' \<and> sha = sha' \<and> sm = sm'"
proof -
  let ?d = "\<lambda>sha sm. escape sha @ 34 # u ''>'' @ 10 # escape sm @ receipt_closing"
  let ?c = "\<lambda>st sha sm. escape st @ 34 # u '' sha256='' @ 34 # ?d sha sm"
  let ?b = "\<lambda>v st sha sm. signed v @ 34 # u '' status='' @ 34 # ?c st sha sm"
  let ?a = "\<lambda>t v st sha sm. escape t @ 34 # u '' resultVersion='' @ 34 # ?b v st sha sm"
  have opened: "render_task_result_receipt t v st sha sm = u ''<task-result taskId='' @ 34 # ?a t v st sha sm"
    for t v st sha sm by (simp add: render_task_result_receipt_def receipt_opening_def)
  have "?a t v st sha sm = ?a t' v' st' sha' sm'" using assms by (simp add: opened)
  from until_quote [OF escape_no_quote escape_no_quote this] have a: "t = t'" "?b v st sha sm = ?b v' st' sha' sm'"
    by (auto dest: escape_inj)
  from until_quote [OF signed_no_quote signed_no_quote a(2)] have b: "v = v'" "?c st sha sm = ?c st' sha' sm'"
    by (auto dest: signed_inj)
  from until_quote [OF escape_no_quote escape_no_quote b(2)] have c: "st = st'" "?d sha sm = ?d sha' sm'"
    by (auto dest: escape_inj)
  from until_quote [OF escape_no_quote escape_no_quote c(2)] have "sha = sha'" "sm = sm'"
    by (auto dest: escape_inj)
  with a b c show ?thesis by simp
qed

end
