(* ===== verification/Task_Spend.thy ===== *)
theory Task_Spend
  imports Task_Shape
begin

section \<open>The calls of a run\<close>

text \<open>
  The rows of calls pass their checks in every reachable state, so the amounts they reserve are not
  negative; what a call is admitted against is then an exact sum, although the code adds it up with
  saturation.
\<close>

interpretation call_tables: table_invariant calls_ok
  by standard (auto simp: same_core_def calls_ok_def update_tasks_Inr update_runs_Inr insert_result_def split: if_splits)

lemma calls_wp:
  "calls_ok db \<Longrightarrow> (\<And>n db'. calls_ok db' \<Longrightarrow> Q' (n, db')) \<Longrightarrow> yields Q' (update_tasks p f db)"
  "calls_ok db \<Longrightarrow> (\<And>n db'. calls_ok db' \<Longrightarrow> Q' (n, db')) \<Longrightarrow> yields Q' (update_reservations p' g db)"
  "calls_ok db \<Longrightarrow> (\<And>db'. calls_ok db' \<Longrightarrow> Q db') \<Longrightarrow> yields Q (insert_reservation v db)"
  "calls_ok db \<Longrightarrow> (\<And>db'. calls_ok db' \<Longrightarrow> Q db') \<Longrightarrow> yields Q (insert_run r db)"
  by (rule yields_any, auto simp: update_tasks_Inr update_reservations_Inr insert_reservation_def insert_run_def
      calls_ok_def split: if_splits)+

lemma calls_new_task:
  "calls_ok db \<Longrightarrow> (\<And>db'. calls_ok db' \<Longrightarrow> Q db') \<Longrightarrow>
   yields Q (case insert_task t db of Inl e \<Rightarrow> Inl (h e) | Inr db' \<Rightarrow> Inr db')"
  by (rule yields_sum; rule yields_Inl yields_Inr) (auto simp: insert_task_Inr calls_ok_def)

lemmas calls_rules = calls_new_task calls_wp call_tables.create_session_kept call_tables.link_parent_kept
  call_tables.wp_core wp yields_any

lemma calls_reserve:
  "calls_ok db \<Longrightarrow> (\<And>db'. calls_ok db' \<Longrightarrow> Q db') \<Longrightarrow> yields Q (reserve_child_budget K ms root child l db)"
  unfolding reserve_child_budget_def charge_root_def grant_to_child_def
  by (assumption | rule calls_rules | simp)+

lemma calls_settle: "calls_ok db \<Longrightarrow> yields calls_ok (settle_task_budget task run now db)"
  unfolding settle_task_budget_def settle_child_def settle_root_def settle_unknown_def settle_overrun_def
    settle_complete_def charge_excess_def bump_budget_def release_grant_def close_reservation_def
  by (assumption | rule calls_rules | simp)+

lemma calls_configure: "calls_ok db \<Longrightarrow> yields (calls_ok \<circ> snd) (configure_root_task_budget_cas root v limits db)"
  unfolding configure_root_task_budget_cas_def by (assumption | rule calls_rules | simp)+

lemma calls_submission:
  "calls_ok db \<Longrightarrow> yields (calls_ok \<circ> snd) (write_submission cr K ms q lifecycle limits retention root parent db)"
  unfolding write_submission_def by (assumption | rule calls_reserve calls_rules | simp)+

interpretation calls: store_invariant calls_ok
proof
  show "calls_ok empty_db" by (simp add: calls_ok_def empty_db_def)
  show "calls_ok db'" if "calls_ok db" "write_submission cr K ms w lifecycle limits retention root parent db = Inr (o', db')"
    for db db' cr K ms w lifecycle limits retention root parent o'
    using yieldsD [OF calls_submission [OF that(1)] that(2)] by simp
  show "calls_ok db'" if "calls_ok db" "configure_root_task_budget_cas root v limits db = Inr (c, db')"
    for db db' root v limits c
    using yieldsD [OF calls_configure [OF that(1)] that(2)] by simp
qed (blast dest: yieldsD [OF calls_settle])

subsection \<open>Saturation\<close>

lemma sat_add_exact: "sat_add a b \<le> l \<Longrightarrow> l < I64_MAX \<Longrightarrow> a + b \<le> l"
  by (auto simp: sat_add_def saturate_def I64_MAX_def I64_MIN_def max_def min_def split: if_splits)

lemma sat_add_nonneg: "0 \<le> a \<Longrightarrow> 0 \<le> b \<Longrightarrow> 0 \<le> sat_add a b"
  by (simp add: sat_add_def saturate_def I64_MAX_def I64_MIN_def)

lemma sat_add_exact_left: "sat_add (sat_add a b) c \<le> l \<Longrightarrow> l < I64_MAX \<Longrightarrow> 0 \<le> c \<Longrightarrow> a + b + c \<le> l"
  using sat_add_exact [of "sat_add a b" c l] sat_add_exact [of a b "l - c"] by simp

lemma active_nonneg: "calls_ok db \<Longrightarrow> 0 \<le> active_tokens db run" "calls_ok db \<Longrightarrow> 0 \<le> active_cost db run"
  unfolding active_tokens_def active_cost_def
  by (rule sum_list_nonneg, auto simp: active_calls_def calls_ok_def list_all_iff call_checks_def)+

subsection \<open>The start of a call\<close>

lemma insert_call_Inr:
  "insert_call c db = Inr db' \<Longrightarrow> db' = db\<lparr>db_calls := db_calls db @ [c]\<rparr>"
  by (auto simp: insert_call_def split: if_splits)

lemma start_callD:
  assumes "start_llm_call_inner K now_ms c (Some v) db = Inr db'"
  obtains o' route request where "owner_of db (nc_task c) (nc_run c) = Some o'"
    "\<not> tokens_exhausted db o' v" "\<not> cost_exhausted db o' v"
    "db' = db\<lparr>db_calls := db_calls db @ [started_call c v route request]\<rparr>"
  using assms
  by (auto simp: start_llm_call_inner_def and_then_Inr Let_def reject_def dest!: insert_call_Inr
      split: option.splits if_splits)

lemma owner_of_rows:
  "owner_of db task run = Some o' \<Longrightarrow>
   co_run o' \<in> set (db_runs db) \<and> rn_id (co_run o') = run \<and> co_task o' \<in> set (db_tasks db) \<and> co_root o' \<in> set (db_tasks db)"
  by (auto simp: owner_of_def task_of_def bind_eq_Some_conv find_Some_iff)

lemma active_after_start:
  assumes "db' = db\<lparr>db_calls := db_calls db @ [started_call c v route request]\<rparr>"
  shows "active_tokens db' (Some (nc_run c)) = active_tokens db (Some (nc_run c)) + (cr_input v + cr_output v)"
    "active_cost db' (Some (nc_run c)) = active_cost db (Some (nc_run c)) + cr_cost v"
  by (simp_all add: assms active_tokens_def active_cost_def active_calls_def started_call_def)

text \<open>The root of a task without a parent is the task, whose account its checks bound.\<close>

lemma owner_root:
  assumes "shape_ok db" "owner_of db task run = Some o'" "tk_parent (co_task o') = None"
  shows "co_root o' = co_task o'"
proof -
  from assms(2) have o: "co_task o' \<in> set (db_tasks db)" "task_of db (tk_root (co_task o')) = Some (co_root o')"
    using owner_of_rows by (auto simp: owner_of_def bind_eq_Some_conv)
  then have "task_checks (co_task o')" using assms(1) by (auto simp: shape_ok_def rows_checked_def)
  with assms(3) have "tk_root (co_task o') = tk_id (co_task o')" by (simp add: task_checks_def)
  with o have "co_root o' \<in> set (db_tasks db)" "tk_id (co_root o') = tk_id (co_task o')"
    by (auto simp: task_of_def find_Some_iff)
  moreover have "inj_on tk_id (set (db_tasks db))"
    using assms(1) by (simp add: shape_ok_def keys_unique_def distinct_map)
  ultimately show ?thesis using o(1) by (auto dest: inj_onD)
qed

definition charged_tokens :: "call_owner \<Rightarrow> int" where
  "charged_tokens o' =
     (if tk_parent (co_task o') = None then tk_reserved_tokens (co_task o') + tk_consumed_tokens (co_task o')
      else tk_consumed_tokens (co_task o'))"

definition charged_cost :: "call_owner \<Rightarrow> int" where
  "charged_cost o' =
     (if tk_parent (co_task o') = None then tk_reserved_cost (co_task o') + tk_consumed_cost (co_task o')
      else tk_consumed_cost (co_task o'))"

lemma sat_add_small: "0 \<le> a + b \<Longrightarrow> a + b \<le> I64_MAX \<Longrightarrow> sat_add a b = a + b"
  by (simp add: sat_add_def saturate_def I64_MIN_def)

lemma prior_exact:
  assumes "shape_ok db" "owner_of db task run = Some o'"
  shows "tk_token_limit (co_task o') = Some l \<Longrightarrow> l \<le> I64_MAX \<Longrightarrow> prior_tokens o' = charged_tokens o' \<and> 0 \<le> prior_tokens o'"
    "tk_cost_limit (co_task o') = Some l \<Longrightarrow> l \<le> I64_MAX \<Longrightarrow> prior_cost o' = charged_cost o' \<and> 0 \<le> prior_cost o'"
proof -
  have "task_checks (co_task o')"
    using assms(1) owner_of_rows [OF assms(2)] by (auto simp: shape_ok_def rows_checked_def)
  with owner_root [OF assms] show
    "tk_token_limit (co_task o') = Some l \<Longrightarrow> l \<le> I64_MAX \<Longrightarrow> prior_tokens o' = charged_tokens o' \<and> 0 \<le> prior_tokens o'"
    "tk_cost_limit (co_task o') = Some l \<Longrightarrow> l \<le> I64_MAX \<Longrightarrow> prior_cost o' = charged_cost o' \<and> 0 \<le> prior_cost o'"
    by (auto simp: task_checks_def prior_tokens_def charged_tokens_def prior_cost_def charged_cost_def sat_add_small)
qed

lemma sum_exact:
  assumes "sat_add (sat_add (sat_add a b) c) d \<le> l" "l < I64_MAX" "0 \<le> c" "0 \<le> d"
  shows "a + b + c + d \<le> l"
proof -
  from sat_add_exact [OF assms(1,2)] have "sat_add (sat_add a b) c \<le> l - d" by simp
  from sat_add_exact_left [OF this _ assms(3)] assms(2,4) show ?thesis by simp
qed

lemma tokens_fit:
  assumes "shape_ok db" "calls_ok db" "owner_of db task run = Some o'" "\<not> tokens_exhausted db o' v"
    "0 \<le> cr_input v" "0 \<le> cr_output v" "cr_input v + cr_output v \<le> I64_MAX"
    "tk_token_limit (co_task o') = Some l" "l < I64_MAX"
  shows "rn_total (co_run o') + charged_tokens o' + active_tokens db (Some run) + (cr_input v + cr_output v) \<le> l"
proof -
  have run: "rn_id (co_run o') = run" using owner_of_rows [OF assms(3)] by simp
  have q: "sat_add (cr_input v) (cr_output v) = cr_input v + cr_output v"
    using assms(5,6,7) by (intro sat_add_small) auto
  have p: "prior_tokens o' = charged_tokens o'" using prior_exact(1) [OF assms(1,3,8)] assms(9) by simp
  have "sat_add (sat_add (sat_add (rn_total (co_run o')) (charged_tokens o')) (active_tokens db (Some run)))
      (cr_input v + cr_output v) \<le> l"
    using assms(4,8) by (simp add: tokens_exhausted_def some_and_def not_less run q p)
  from sum_exact [OF this assms(9) active_nonneg(1) [OF assms(2)]] assms(5,6) show ?thesis by simp
qed

lemma cost_fits:
  assumes "shape_ok db" "calls_ok db" "owner_of db task run = Some o'" "\<not> cost_exhausted db o' v"
    "0 \<le> cr_cost v" "tk_cost_limit (co_task o') = Some l" "l < I64_MAX"
  shows "rn_cost (co_run o') + charged_cost o' + active_cost db (Some run) + cr_cost v \<le> l"
proof -
  have run: "rn_id (co_run o') = run" using owner_of_rows [OF assms(3)] by simp
  have p: "prior_cost o' = charged_cost o'" using prior_exact(2) [OF assms(1,3,6)] assms(7) by simp
  have "sat_add (sat_add (sat_add (rn_cost (co_run o')) (charged_cost o')) (active_cost db (Some run))) (cr_cost v) \<le> l"
    using assms(4,6) by (simp add: cost_exhausted_def Let_def some_and_def not_less run p)
  from sum_exact [OF this assms(7) active_nonneg(2) [OF assms(2)] assms(5)] show ?thesis .
qed

end
