(* ===== verification/Task_Ingest.thy ===== *)
theory Task_Ingest
  imports Task_Wp
begin

section \<open>Taking in the result of a child\<close>

text \<open>
  What the ingestion writes, and that repeating it, with whatever identifiers, finds the receipt of the
  first and writes nothing.
\<close>

subsection \<open>What the digest of a result depends on\<close>

definition same_reads :: "task_db \<Rightarrow> task_db \<Rightarrow> bool" where
  "same_reads db db' =
     (db_results db' = db_results db \<and> db_sessions db' = db_sessions db \<and>
      (\<forall>run. run_session db' run = run_session db run))"

lemma same_readsD:
  assumes "same_reads db db'"
  shows "retention_of db' s = retention_of db s" "load_row_text K db' s v = load_row_text K db s v"
    "load_run_text K db' run v = load_run_text K db run v"
proof -
  have r: "\<And>s. retention_of db' s = retention_of db s"
    using assms by (simp add: same_reads_def retention_of_def session_of_def)
  then have l: "\<And>s. load_row_text K db' s v = load_row_text K db s v"
    by (simp add: load_row_text_def)
  from r l show "retention_of db' s = retention_of db s" "load_row_text K db' s v = load_row_text K db s v" by blast+
  show "load_run_text K db' run v = load_run_text K db run v"
    using assms unfolding load_run_text_def r l by (simp add: same_reads_def)
qed

lemma result_digest_same: "same_reads db db' \<Longrightarrow> result_digest cr K db' task v = result_digest cr K db task v"
  unfolding result_digest_def by (simp add: same_readsD cong: option.case_cong) (simp add: same_reads_def)

lemma same_reads_runs:
  assumes "update_runs p f db = Inr (n, db')" "\<And>r. rn_id (f r) = rn_id r \<and> rn_session (f r) = rn_session r"
  shows "same_reads db db'"
proof -
  have "run_of db' run = map_option (\<lambda>r. if p r then f r else r) (run_of db run)" for run
    using assms by (simp add: update_runs_Inr run_of_def find_update_where)
  then show ?thesis
    using assms by (auto simp: update_runs_Inr same_reads_def run_session_def one_row_def map_ok_def split: option.split)
qed

lemma append_eventD:
  "append_event cr K run ty tool data db = Inr db' \<Longrightarrow> \<exists>e. db' = db\<lparr>db_events := db_events db @ [e]\<rparr>"
  unfolding append_event_def Let_def and_then_Inr by (fastforce simp: insert_event_def split: if_splits)

subsection \<open>The wake-up\<close>

definition woken :: "task_row \<Rightarrow> task_row" where
  "woken k = k\<lparr>tk_status := TaskRunning, tk_reason := Some (u ''attachedChildrenResolved''), tk_version := tk_version k + 1\<rparr>"

definition same_inbox :: "task_db \<Rightarrow> task_db \<Rightarrow> bool" where
  "same_inbox db db' =
     (db_messages db' = db_messages db \<and> db_receipts db' = db_receipts db \<and> db_dependencies db' = db_dependencies db)"

lemma wake_parentD:
  assumes "wake_parent cr K t run producer v db = Inr db'"
  shows "db_tasks db' = update_where (task_with (tk_id t) (tk_version t) TaskWaitingDependencies) woken (db_tasks db)"
    "same_inbox db db'" "same_reads db db'"
proof -
  from assms obtain db1 n db2 m where
    1: "update_tasks (task_with (tk_id t) (tk_version t) TaskWaitingDependencies)
       (\<lambda>k. k\<lparr>tk_status := TaskRunning, tk_reason := Some (u ''attachedChildrenResolved''),
              tk_version := tk_version k + 1\<rparr>) db = Inr (n, db1)" and
    2: "update_runs (\<lambda>r. rn_id r = run \<and> rn_task r = tk_id t \<and> rn_status r = RunWaitingDependencies)
       (\<lambda>r. r\<lparr>rn_status := RunRunning, rn_waiting := None, rn_version := rn_version r + 1\<rparr>) db1 = Inr (m, db2)"
    and "append_event cr K run (u ''task_dependencies_resolved'') None
       (json_obj [(u ''taskId'', JStr (tk_id t)), (u ''sourceTaskId'', JStr producer), (u ''resultVersion'', JNum v)]) db2 = Inr db'"
    by (simp only: wake_parent_def and_then_Inr prod.case split_paired_Ex) blast
  then obtain e where 3: "db' = db2\<lparr>db_events := db_events db2 @ [e]\<rparr>" using append_eventD by blast
  note 1 = 1 [folded woken_def [abs_def]]
  have "same_reads db1 db2" by (rule same_reads_runs [OF 2]) simp
  then show "same_reads db db'"
    using 1 by (auto simp: same_reads_def update_tasks_Inr 3 run_session_def run_of_def)
  show "db_tasks db' = update_where (task_with (tk_id t) (tk_version t) TaskWaitingDependencies) woken (db_tasks db)"
    "same_inbox db db'"
    using 1 2 by (simp_all add: 3 update_tasks_Inr update_runs_Inr same_inbox_def)
qed

text \<open>Waking a task that waits does not change which children are unresolved.\<close>

lemma list_ex_update_where:
  "(\<And>x. p x \<Longrightarrow> P (f x) = P x) \<Longrightarrow> list_ex P (update_where p f xs) = list_ex P xs"
  by (induction xs) (auto simp: update_where_def)

lemma unresolved_woken:
  assumes "db_tasks db' = update_where (task_with i v TaskWaitingDependencies) woken (db_tasks db)"
  shows "unresolved db' parent = unresolved db parent"
  unfolding unresolved_def [abs_def] assms
  by (intro ext, subst list_ex_update_where) (auto simp: task_with_def woken_def task_is_terminal_def)

subsection \<open>The ingestion\<close>

definition consumed_by :: "ustring \<Rightarrow> ustring \<Rightarrow> int \<Rightarrow> dependency_row list \<Rightarrow> dependency_row list" where
  "consumed_by consumer producer v =
     update_where (\<lambda>d. dp_parent d = consumer \<and> dp_child d = producer) (dp_consumed_update (\<lambda>_. Some v))"

text \<open>One message from the producer, one receipt for it, the version marked as consumed, and the
  parent runs again exactly when no attached child is unresolved.\<close>

definition ingested_once :: "ustring \<Rightarrow> ustring \<Rightarrow> int \<Rightarrow> receipt_record \<Rightarrow> task_db \<Rightarrow> task_db \<Rightarrow> bool" where
  "ingested_once consumer producer v d db db' =
     (\<exists>m r. db_messages db' = db_messages db @ [m] \<and> ms_id m = rd_message d \<and> ms_task m = Some consumer \<and>
        ms_source m = Some producer \<and> ms_id m \<notin> ms_id ` set (db_messages db) \<and>
        db_receipts db' = db_receipts db @ [r] \<and> rc_id r = rd_id d \<and> rc_consumer r = consumer \<and>
        rc_producer r = producer \<and> rc_version r = v \<and> rc_message r = rd_message d \<and> rc_created r = rd_created_at d \<and>
        db_dependencies db' = consumed_by consumer producer v (db_dependencies db) \<and>
        map_option tk_status (task_of db' consumer) =
          Some (if list_ex (unresolved db' consumer) (db_dependencies db') then TaskWaitingDependencies else TaskRunning))"

lemma consume_resultD:
  assumes c: "consume_result cr K message_id receipt_id now t run producer v summary status digest db = Inr (d, db')"
    and t: "task_of db consumer = Some t" "tk_status t = TaskWaitingDependencies"
  shows "ingested_once consumer producer v d db db'" "same_reads db db'"
    "d = \<lparr>rd_id = receipt_id, rd_consumer = consumer, rd_producer = producer, rd_version = v, rd_message = message_id,
      rd_sha = digest, rd_created_at = now, rd_created = True\<rparr>"
proof -
  from c obtain content retention db1 db2 where
    1: "insert_message \<lparr>ms_id = message_id, ms_session = tk_session t, ms_task = Some (tk_id t), ms_run = Some run,
         ms_role = u ''user'', ms_seq = next_message_seq db (tk_session t), ms_content = content,
         ms_origin = u ''task_result'', ms_source = Some producer\<rparr> db = Inr db1" and
    2: "insert_receipt \<lparr>rc_id = receipt_id, rc_consumer = tk_id t, rc_producer = producer, rc_version = v,
         rc_message = message_id, rc_sha = (if retention = Persistent then Some digest else None),
         rc_created = now\<rparr> db1 = Inr db2" and
    3: "(if list_ex (unresolved (db2\<lparr>db_dependencies := consumed_by (tk_id t) producer v (db_dependencies db2)\<rparr>) (tk_id t))
           (consumed_by (tk_id t) producer v (db_dependencies db2))
         then Inr (db2\<lparr>db_dependencies := consumed_by (tk_id t) producer v (db_dependencies db2)\<rparr>)
         else wake_parent cr K t run producer v
           (db2\<lparr>db_dependencies := consumed_by (tk_id t) producer v (db_dependencies db2)\<rparr>)) = Inr db'" and
    d: "d = \<lparr>rd_id = receipt_id, rd_consumer = tk_id t, rd_producer = producer, rd_version = v, rd_message = message_id,
      rd_sha = digest, rd_created_at = now, rd_created = True\<rparr>"
    unfolding consume_result_def Let_def and_then_Inr consumed_by_def by auto
  have i: "tk_id t = consumer" using t(1) by (auto simp: task_of_def find_Some_iff)
  let ?db3 = "db2\<lparr>db_dependencies := consumed_by consumer producer v (db_dependencies db2)\<rparr>"
  from 1 2 have rows: "\<exists>m. db_messages ?db3 = db_messages db @ [m] \<and> ms_id m = message_id \<and> ms_task m = Some consumer \<and>
      ms_source m = Some producer \<and> ms_id m \<notin> ms_id ` set (db_messages db)"
    "\<exists>r. db_receipts ?db3 = db_receipts db @ [r] \<and> rc_id r = receipt_id \<and> rc_consumer r = consumer \<and>
      rc_producer r = producer \<and> rc_version r = v \<and> rc_message r = message_id \<and> rc_created r = now"
    and same: "db_tasks ?db3 = db_tasks db" "same_reads db ?db3"
      "db_dependencies ?db3 = consumed_by consumer producer v (db_dependencies db)"
    by (auto simp: insert_message_def insert_receipt_def i list_ex_iff same_reads_def run_session_def run_of_def split: if_splits)
  have after: "same_inbox ?db3 db' \<and> same_reads ?db3 db' \<and> unresolved db' consumer = unresolved ?db3 consumer \<and>
      map_option tk_status (task_of db' consumer) =
        Some (if list_ex (unresolved ?db3 consumer) (db_dependencies ?db3) then TaskWaitingDependencies else TaskRunning)"
  proof (cases "list_ex (unresolved ?db3 consumer) (db_dependencies ?db3)")
    case True
    with 3 i have "db' = ?db3" by simp
    with True t same(1) show ?thesis by (simp add: same_inbox_def same_reads_def task_of_def)
  next
    case False
    with 3 i have w: "wake_parent cr K t run producer v ?db3 = Inr db'" by simp
    from find_update_where [of "db_tasks ?db3" "\<lambda>k. tk_id k = consumer" woken] t same(1) i
    have "map_option tk_status (task_of db' consumer) = Some TaskRunning"
      unfolding task_of_def wake_parentD(1) [OF w] by (simp add: woken_def task_with_def)
    with False wake_parentD(2,3) [OF w] unresolved_woken [OF wake_parentD(1) [OF w]] show ?thesis by simp
  qed
  with rows same show "ingested_once consumer producer v d db db'" "same_reads db db'"
    unfolding ingested_once_def d by (auto simp: same_inbox_def same_reads_def)
  show "d = \<lparr>rd_id = receipt_id, rd_consumer = consumer, rd_producer = producer, rd_version = v, rd_message = message_id,
      rd_sha = digest, rd_created_at = now, rd_created = True\<rparr>" using d i by simp
qed

lemma producer_result_digest:
  "producer_result cr K db consumer producer v = Inr (status, digest) \<Longrightarrow> result_digest cr K db producer v = Inr digest"
  by (auto simp: producer_result_def and_then_Inr split: option.splits)

lemma find_None_append: "find p xs = None \<Longrightarrow> p x \<Longrightarrow> find p (xs @ [x]) = Some x"
  by (simp add: find_append)

text \<open>A repetition finds the receipt, in the tables of the first ingestion.\<close>

lemma ingest_again:
  assumes "receipt_of db consumer producer v = Some r" "result_digest cr K db producer v = Inr digest"
  shows "ingest_task_result_at_safe_boundary cr K message_id receipt_id now consumer producer v summary db =
    Inr (Some \<lparr>rd_id = rc_id r, rd_consumer = consumer, rd_producer = producer, rd_version = v,
      rd_message = rc_message r, rd_sha = digest, rd_created_at = rc_created r, rd_created = False\<rparr>, db)"
  using assms by (simp add: ingest_task_result_at_safe_boundary_def)

lemma ingest_found:
  assumes "ingest_task_result_at_safe_boundary cr K message_id receipt_id now consumer producer v summary db = Inr (Some d, db')"
    "receipt_of db consumer producer v = Some r"
  shows "db' = db \<and> \<not> rd_created d \<and> d = \<lparr>rd_id = rc_id r, rd_consumer = consumer, rd_producer = producer, rd_version = v,
      rd_message = rc_message r, rd_sha = rd_sha d, rd_created_at = rc_created r, rd_created = False\<rparr> \<and>
    result_digest cr K db producer v = Inr (rd_sha d)"
  using assms by (auto simp: ingest_task_result_at_safe_boundary_def map_ok_Inr)

lemma ingest_new:
  assumes ingest: "ingest_task_result_at_safe_boundary cr K message_id receipt_id now consumer producer v summary db = Inr (Some d, db')"
    and none: "receipt_of db consumer producer v = None"
  obtains t run status digest where "task_of db consumer = Some t" "tk_status t = TaskWaitingDependencies"
    "producer_result cr K db consumer producer v = Inr (status, digest)"
    "consume_result cr K message_id receipt_id now t run producer v summary status digest db = Inr (d, db')"
  using assms
  by (auto simp: ingest_task_result_at_safe_boundary_def map_ok_Inr and_then_Inr split: option.splits if_splits)

end
