(* ===== verification/Task_Delegation.thy ===== *)
theory Task_Delegation
  imports Task_Submit
begin

section \<open>Delegation only narrows\<close>

text \<open>
  The configuration that a submission stores for a child, read back, admits exactly the tools that the
  child asked for and its parent may use.
\<close>

definition listed_names :: "tool_ceiling \<Rightarrow> ustring list" where
  "listed_names c = (case allowed_tools c of None \<Rightarrow> [] | Some ns \<Rightarrow> ns) @ denied_tools c"

lemma listed_intersect: "set (listed_names (intersect a b)) \<subseteq> set (listed_names a) \<union> set (listed_names b)"
  by (auto simp: listed_names_def intersect_def split: option.splits)

lemma btree_empty [simp]: "btree xs = [] \<longleftrightarrow> xs = []"
  by (metis set_btree set_empty btree_Nil)

lemma names_good: "names v = Inr (Some ns) \<Longrightarrow> n \<in> set ns \<Longrightarrow> \<not> bad_name n"
  by (auto simp: names_def list_ex_iff split: option.splits json.splits if_splits)

text \<open>The tools an object of configuration asks for: its ceiling and the two lists beside it.\<close>

lemma from_config_object:
  "from_config (JObj m) = Inr c \<longleftrightarrow>
   (\<exists>c0 a d. declared_ceiling m = Inr c0 \<and> \<not> list_ex bad_name (listed_names c0) \<and>
      names (json_get m (u ''allowedTools'')) = Inr a \<and> names (json_get m (u ''disallowedTools'')) = Inr d \<and>
      c = intersect c0 \<lparr>allowed_tools = a, denied_tools = (case d of None \<Rightarrow> [] | Some ns \<Rightarrow> ns)\<rparr>)"
  by (auto simp: from_config_def and_then_Inr listed_names_def)

lemma from_config_good: "from_config v = Inr c \<Longrightarrow> n \<in> set (listed_names c) \<Longrightarrow> \<not> bad_name n"
proof (cases v)
  case (JObj m)
  assume "from_config v = Inr c" and n: "n \<in> set (listed_names c)"
  then obtain c0 a d where *: "\<not> list_ex bad_name (listed_names c0)"
    "names (json_get m (u ''allowedTools'')) = Inr a" "names (json_get m (u ''disallowedTools'')) = Inr d"
    "c = intersect c0 \<lparr>allowed_tools = a, denied_tools = (case d of None \<Rightarrow> [] | Some ns \<Rightarrow> ns)\<rparr>"
    unfolding JObj from_config_object by blast
  from n listed_intersect [of c0 "\<lparr>allowed_tools = a, denied_tools = (case d of None \<Rightarrow> [] | Some ns \<Rightarrow> ns)\<rparr>"]
  consider "n \<in> set (listed_names c0)" | ns where "a = Some ns" "n \<in> set ns" | ns where "d = Some ns" "n \<in> set ns"
    unfolding *(4) by (cases a; cases d) (auto simp: listed_names_def)
  then show ?thesis
  proof cases
    case 1
    with *(1) show ?thesis by (simp add: list_ex_iff)
  next
    case (2 ns)
    with *(2) show ?thesis by (simp add: names_good)
  next
    case (3 ns)
    with *(3) show ?thesis by (simp add: names_good)
  qed
qed (simp_all add: from_config_def)

lemma ceiling_json_sorted: "json_sorted (ceiling_json c)"
  by (auto simp: ceiling_json_def str_key_def unit_rank_def split: option.splits)

text \<open>A ceiling that replaces the declared one is read back, narrowed by the lists that stay beside it.\<close>

lemma from_config_replaced:
  assumes own: "from_config (JObj m) = Inr own" and c: "canonical_ceiling c" "\<not> list_ex bad_name (listed_names c)"
  shows "\<exists>child. from_config (JObj (json_set m (u ''toolCeiling'') (ceiling_json c))) = Inr child \<and>
    (\<forall>n. allows own n \<longrightarrow> allows child n = allows c n) \<and> (\<forall>n. allows child n \<longrightarrow> allows c n)"
proof -
  from own obtain c0 a d where parts: "names (json_get m (u ''allowedTools'')) = Inr a"
    "names (json_get m (u ''disallowedTools'')) = Inr d"
    and o: "own = intersect c0 \<lparr>allowed_tools = a, denied_tools = (case d of None \<Rightarrow> [] | Some ns \<Rightarrow> ns)\<rparr>"
    unfolding from_config_object by blast
  have keys: "u ''toolCeiling'' \<noteq> u ''allowedTools''" "u ''toolCeiling'' \<noteq> u ''disallowedTools''"
    by code_simp+
  have "declared_ceiling (json_set m (u ''toolCeiling'') (ceiling_json c)) = Inr c"
    by (simp add: declared_ceiling_def ceiling_roundtrip [OF c(1)])
  with c(2) parts keys have "from_config (JObj (json_set m (u ''toolCeiling'') (ceiling_json c))) =
      Inr (intersect c \<lparr>allowed_tools = a, denied_tools = (case d of None \<Rightarrow> [] | Some ns \<Rightarrow> ns)\<rparr>)"
    by (simp add: from_config_object del: u_simps)
  with o show ?thesis by auto
qed

lemma run_ceiling_config: "run_ceiling cr K db run = Inr c \<Longrightarrow> \<exists>v. from_config v = Inr c"
  by (auto simp: run_ceiling_def and_then_Inr)

lemma inherited_ceiling:
  assumes "inherit cr K db (Some run) cfg = Inr cfg'" "\<And>v. from_text cr cfg = Some v \<Longrightarrow> json_sorted v"
    "\<And>v. json_sorted v \<Longrightarrow> to_text cr v = cfg' \<Longrightarrow> from_text cr cfg' = Some v"
  shows "\<exists>own parent child. and_then (parse_json cr cfg) from_config = Inr own \<and> run_ceiling cr K db run = Inr parent \<and>
    and_then (parse_json cr cfg') from_config = Inr child \<and>
    (\<forall>n. allows child n \<longleftrightarrow> allows own n \<and> allows parent n)"
proof -
  from assms(1) obtain config own parent where
    own: "parse_json cr cfg = Inr config" "from_config config = Inr own" and parent: "run_ceiling cr K db run = Inr parent"
    and rest: "(case config of
         JObj m \<Rightarrow>
           if \<not> unrestricted (intersect own parent) \<or> json_get m (u ''toolCeiling'') \<noteq> None
           then Inr (to_text cr (JObj (json_set m (u ''toolCeiling'') (ceiling_json (intersect own parent)))))
           else Inr cfg
       | _ \<Rightarrow> Inl ceiling_invalid) = Inr cfg'"
    by (auto simp: inherit_def inherited_def and_then_Inr map_ok_Inr simp del: u_simps)
  let ?c = "intersect own parent"
  obtain m where m: "config = JObj m" using rest by (cases config) auto
  obtain pv where pv: "from_config pv = Inr parent" using run_ceiling_config [OF parent] by blast
  show ?thesis
  proof (cases "\<not> unrestricted ?c \<or> json_get m (u ''toolCeiling'') \<noteq> None")
    case True
    with rest m have cfg': "cfg' = to_text cr (JObj (json_set m (u ''toolCeiling'') (ceiling_json ?c)))" by simp
    have "json_sorted (JObj m)"
      using own(1) m assms(2) by (auto simp: parse_json_def split: option.splits)
    then have "json_sorted (JObj (json_set m (u ''toolCeiling'') (ceiling_json ?c)))"
      by (rule json_sorted_set) (simp_all add: ceiling_json_sorted)
    from assms(3) [OF this cfg' [symmetric]]
    have read: "parse_json cr cfg' = Inr (JObj (json_set m (u ''toolCeiling'') (ceiling_json ?c)))"
      by (simp only: parse_json_def option.case)
    have "canonical_ceiling ?c"
      by (intro canonical_intersect from_config_canonical [OF own(2)] from_config_canonical [OF pv])
    moreover have "\<not> list_ex bad_name (listed_names ?c)"
      using listed_intersect [of own parent] from_config_good [OF own(2)] from_config_good [OF pv]
      by (auto simp: list_ex_iff)
    ultimately obtain child where "from_config (JObj (json_set m (u ''toolCeiling'') (ceiling_json ?c))) = Inr child"
      "\<forall>n. allows own n \<longrightarrow> allows child n = allows ?c n" "\<forall>n. allows child n \<longrightarrow> allows ?c n"
      using from_config_replaced own(2) m by blast
    with own parent read show ?thesis by auto
  next
    case False
    with rest m have "cfg' = cfg" by simp
    moreover have "allows own n" "allows parent n" for n
      using False by (auto simp: unrestricted_def intersect_def allows_def split: option.splits)
    ultimately show ?thesis using own parent by auto
  qed
qed

end
