(* ===== verification/Content_Memory.thy ===== *)
theory Content_Memory
  imports Db_Base "HOL-Library.AList" "HOL-Library.Word"
begin

section \<open>The memory store of temporary bodies\<close>

text \<open>
  \<open>crates/zk-db/src/content/memory.rs\<close>: the bodies of an ephemeral session tree live in a scope in
  memory, owned by its root session and shared with the sessions attached to it. A lease keeps the
  scope alive; dropping it expires every reference of the scope.

  A hash map is an association list with one entry for a key, a hash set a list of distinct elements.
  \<open>usize\<close> is a natural number: \<open>saturating_sub\<close> is its subtraction, and no sum that the code does not
  check exceeds the limits it has just compared with. The mutex makes every operation atomic. The
  identifiers of new references come from the \<open>uuid\<close> crate and are arguments; so is its parser.
\<close>

subsection \<open>State\<close>

definition ENTRY_OVERHEAD :: nat where "ENTRY_OVERHEAD = 128"
definition MAX_SCOPES :: nat where "MAX_SCOPES = 128"
definition MAX_ATTACHED_SESSIONS :: nat where "MAX_ATTACHED_SESSIONS = 256"
definition USIZE_MAX :: nat where "USIZE_MAX = 2 ^ 64 - 1"

datatype content_ref = ContentRef ustring

type_synonym bytes = "8 word list"

record memory_scope =
  sc_sessions :: "ustring list"
  sc_entries :: "(content_ref \<times> bytes) list"
  sc_named :: "((ustring \<times> ustring) \<times> content_ref) list"
  sc_charged :: nat

record content_state =
  cs_scopes :: "(ustring \<times> memory_scope) list"
  cs_owners :: "(ustring \<times> ustring) list"
  cs_charged :: nat

record content_limits =
  per_scope_limit :: nat
  global_limit :: nat

definition default_limits :: content_limits where
  "default_limits = \<lparr>per_scope_limit = 64 * 1024 * 1024, global_limit = 256 * 1024 * 1024\<rparr>"

definition empty_store :: content_state where
  "empty_store = \<lparr>cs_scopes = [], cs_owners = [], cs_charged = 0\<rparr>"

definition content_expired :: db_error where
  "content_expired = Invalid (u ''EPHEMERAL_CONTENT_EXPIRED'')"

definition no_capacity :: db_error where
  "no_capacity = Validation (u ''EPHEMERAL_CONTENT_CAPACITY'')"

definition or_error :: "'e \<Rightarrow> 'a option \<Rightarrow> 'e + 'a" where
  "or_error e v = (case v of None \<Rightarrow> Inl e | Some x \<Rightarrow> Inr x)"

lemma or_error_simps [simp]: "or_error e None = Inl e" "or_error e (Some x) = Inr x"
  by (simp_all add: or_error_def)

lemma or_error_Inr: "or_error e v = Inr x \<longleftrightarrow> v = Some x"
  by (cases v) auto

subsection \<open>Operations\<close>

definition begin_scope :: "(ustring \<Rightarrow> bool) \<Rightarrow> ustring \<Rightarrow> content_state \<Rightarrow> db_error + content_state" where
  "begin_scope is_uuid root s =
     (if \<not> is_uuid root then Inl (Validation (u ''EPHEMERAL_SESSION_ID_INVALID''))
      else if map_of (cs_owners s) root \<noteq> None then Inl (Conflict (u ''EPHEMERAL_SESSION_EXISTS''))
      else if MAX_SCOPES \<le> length (cs_scopes s) then Inl (Validation (u ''EPHEMERAL_SCOPE_CAPACITY''))
      else Inr (s\<lparr>cs_scopes := AList.update root
             \<lparr>sc_sessions = [root], sc_entries = [], sc_named = [], sc_charged = 0\<rparr> (cs_scopes s),
           cs_owners := AList.update root root (cs_owners s)\<rparr>))"

text \<open>The end of a lease.\<close>

definition drop_lease :: "ustring \<Rightarrow> content_state \<Rightarrow> content_state" where
  "drop_lease root s =
     (case map_of (cs_scopes s) root of
        None \<Rightarrow> s
      | Some sc \<Rightarrow> s\<lparr>cs_scopes := AList.delete root (cs_scopes s),
          cs_charged := cs_charged s - sc_charged sc,
          cs_owners := filter (\<lambda>(session, _). session \<notin> set (sc_sessions sc)) (cs_owners s)\<rparr>)"

definition attach ::
  "(ustring \<Rightarrow> bool) \<Rightarrow> ustring \<Rightarrow> ustring \<Rightarrow> content_state \<Rightarrow> db_error + content_state" where
  "attach is_uuid parent session s =
     (if \<not> is_uuid session then Inl (Validation (u ''EPHEMERAL_SESSION_ID_INVALID''))
      else and_then (or_error content_expired (map_of (cs_owners s) parent)) (\<lambda>root.
        case map_of (cs_owners s) session of
          Some existing \<Rightarrow>
            if existing = root then Inr s else Inl (Conflict (u ''EPHEMERAL_OWNER_MISMATCH''))
        | None \<Rightarrow>
            and_then (or_error content_expired (map_of (cs_scopes s) root)) (\<lambda>sc.
              if MAX_ATTACHED_SESSIONS \<le> length (sc_sessions sc)
              then Inl (Validation (u ''EPHEMERAL_ATTACHMENT_CAPACITY''))
              else Inr (s\<lparr>cs_scopes := AList.update root
                     (sc\<lparr>sc_sessions := List.insert session (sc_sessions sc)\<rparr>) (cs_scopes s),
                   cs_owners := AList.update session root (cs_owners s)\<rparr>))))"

definition checked :: "nat \<Rightarrow> db_error + nat" where
  "checked n = (if n \<le> USIZE_MAX then Inr n else Inl no_capacity)"

text \<open>A body enters its scope and both counters.\<close>

definition charged_scope :: "content_ref \<Rightarrow> bytes \<Rightarrow> nat \<Rightarrow> memory_scope \<Rightarrow> memory_scope" where
  "charged_scope reference body charge sc =
     sc\<lparr>sc_entries := AList.update reference body (sc_entries sc), sc_charged := sc_charged sc + charge\<rparr>"

definition put ::
  "content_limits \<Rightarrow> content_ref \<Rightarrow> ustring \<Rightarrow> bytes \<Rightarrow> content_state \<Rightarrow> db_error + (content_ref \<times> content_state)" where
  "put L reference session body s =
     and_then (checked (length body + ENTRY_OVERHEAD)) (\<lambda>charge.
     and_then (or_error content_expired (map_of (cs_owners s) session)) (\<lambda>root.
     if global_limit L - cs_charged s < charge then Inl no_capacity
     else and_then (or_error content_expired (map_of (cs_scopes s) root)) (\<lambda>sc.
       if per_scope_limit L - sc_charged sc < charge then Inl no_capacity
       else Inr (reference, s\<lparr>cs_scopes := AList.update root (charged_scope reference body charge sc) (cs_scopes s),
              cs_charged := cs_charged s + charge\<rparr>))))"

definition put_named_bytes ::
  "content_limits \<Rightarrow> content_ref \<Rightarrow> ustring \<Rightarrow> ustring \<Rightarrow> bytes \<Rightarrow> content_state \<Rightarrow>
   db_error + (content_ref \<times> content_state)" where
  "put_named_bytes L reference session name body s =
     (if name = [] \<or> 256 < byte_length name then Inl (Validation (u ''EPHEMERAL_CONTENT_NAME_INVALID''))
      else and_then (checked (length body + ENTRY_OVERHEAD * 2 + byte_length name + byte_length session)) (\<lambda>charge.
        and_then (or_error content_expired (map_of (cs_owners s) session)) (\<lambda>root.
        and_then (or_error content_expired (map_of (cs_scopes s) root)) (\<lambda>sc.
        case map_of (sc_named sc) (session, name) of
          Some known \<Rightarrow>
            if map_of (sc_entries sc) known = Some body then Inr (known, s)
            else Inl (Conflict (u ''EPHEMERAL_CONTENT_IMMUTABLE_MISMATCH''))
        | None \<Rightarrow>
            if global_limit L - cs_charged s < charge \<or> per_scope_limit L - sc_charged sc < charge
            then Inl no_capacity
            else Inr (reference, s\<lparr>cs_scopes := AList.update root
                   ((charged_scope reference body charge sc)\<lparr>sc_named :=
                      AList.update (session, name) reference (sc_named sc)\<rparr>) (cs_scopes s),
                 cs_charged := cs_charged s + charge\<rparr>)))))"

definition scope_of :: "content_state \<Rightarrow> ustring \<Rightarrow> memory_scope option" where
  "scope_of s session = Option.bind (map_of (cs_owners s) session) (map_of (cs_scopes s))"

definition not_owned :: db_error where
  "not_owned = Invalid (u ''EPHEMERAL_CONTENT_NOT_OWNED'')"

definition get_named_bytes :: "content_state \<Rightarrow> ustring \<Rightarrow> ustring \<Rightarrow> db_error + bytes" where
  "get_named_bytes s session name =
     and_then (or_error content_expired (scope_of s session)) (\<lambda>sc.
     or_error not_owned (Option.bind (map_of (sc_named sc) (session, name)) (map_of (sc_entries sc))))"

definition get_body :: "content_state \<Rightarrow> ustring \<Rightarrow> content_ref \<Rightarrow> db_error + bytes" where
  "get_body s session reference =
     and_then (or_error content_expired (scope_of s session)) (\<lambda>sc.
     or_error not_owned (map_of (sc_entries sc) reference))"

definition has_live_scope :: "content_state \<Rightarrow> ustring \<Rightarrow> bool" where
  "has_live_scope s session = (scope_of s session \<noteq> None)"

definition retained_bytes :: "content_state \<Rightarrow> nat" where
  "retained_bytes s = cs_charged s"

end
