(* ===== verification/Content_Memory_Props.thy ===== *)
theory Content_Memory_Props
  imports Content_Memory
begin

section \<open>The memory store: capacity, isolation and lifetime\<close>

text \<open>
  The operations as a step relation, the invariant of the reachable states by rule induction, and
  what a session can read: a sealed body stays readable with the same content until the lease of its
  scope ends, and no session of another scope can read it.
\<close>

subsection \<open>Association lists\<close>

lemma map_of_delete: "map_of (AList.delete k xs) = (map_of xs)(k := None)"
  by (simp add: delete_conv')

lemma map_of_filter_key: "map_of (filter (\<lambda>(k, _). P k) xs) k = (if P k then map_of xs k else None)"
  by (induction xs) auto

lemma sum_update_new:
  fixes f :: "'v \<Rightarrow> nat"
  shows "map_of xs k = None \<Longrightarrow>
    (\<Sum>p\<leftarrow>AList.update k v xs. f (snd p)) = (\<Sum>p\<leftarrow>xs. f (snd p)) + f v"
  by (induction xs) (auto split: if_splits)

lemma sum_update_old:
  fixes f :: "'v \<Rightarrow> nat"
  shows "map_of xs k = Some w \<Longrightarrow>
    (\<Sum>p\<leftarrow>AList.update k v xs. f (snd p)) + f w = (\<Sum>p\<leftarrow>xs. f (snd p)) + f v"
  by (induction xs) (auto split: if_splits)

lemma sum_update_le:
  fixes f :: "'v \<Rightarrow> nat"
  shows "(\<Sum>p\<leftarrow>AList.update k v xs. f (snd p)) \<le> (\<Sum>p\<leftarrow>xs. f (snd p)) + f v"
  by (induction xs) auto

lemma sum_delete:
  fixes f :: "'v \<Rightarrow> nat"
  shows "distinct (map fst xs) \<Longrightarrow> map_of xs k = Some w \<Longrightarrow>
    (\<Sum>p\<leftarrow>AList.delete k xs. f (snd p)) + f w = (\<Sum>p\<leftarrow>xs. f (snd p))"
proof (induction xs)
  case (Cons p xs)
  obtain k' w' where p [simp]: "p = (k', w')" by force
  show ?case
  proof (cases "k' = k")
    case True
    with Cons.prems have "AList.delete k xs = xs"
      by (auto simp: delete_id)
    with True Cons.prems show ?thesis by simp
  qed (use Cons in auto)
qed simp

lemma length_update_old: "map_of xs k \<noteq> None \<Longrightarrow> length (AList.update k v xs) = length xs"
  by (induction xs) auto

lemma length_update_new: "map_of xs k = None \<Longrightarrow> length (AList.update k v xs) = Suc (length xs)"
  by (induction xs) (auto split: if_splits)

lemma length_delete: "length (AList.delete k xs) \<le> length xs"
  by (induction xs) auto

lemmas alist_simps = update_conv' map_of_delete map_of_filter_key

subsection \<open>Steps\<close>

definition fresh_ref :: "content_state \<Rightarrow> content_ref \<Rightarrow> bool" where
  "fresh_ref s reference = list_all (\<lambda>(_, sc). map_of (sc_entries sc) reference = None) (cs_scopes s)"

inductive store_step :: "content_limits \<Rightarrow> (ustring \<Rightarrow> bool) \<Rightarrow> content_state \<Rightarrow> content_state \<Rightarrow> bool"
  for L :: content_limits and is_uuid :: "ustring \<Rightarrow> bool" where
  begin_scope: "begin_scope is_uuid root s = Inr s' \<Longrightarrow> store_step L is_uuid s s'"
| drop_lease: "store_step L is_uuid s (drop_lease root s)"
| attach: "attach is_uuid parent session s = Inr s' \<Longrightarrow> store_step L is_uuid s s'"
| put: "fresh_ref s reference \<Longrightarrow> put L reference session body s = Inr (r, s') \<Longrightarrow> store_step L is_uuid s s'"
| put_named: "fresh_ref s reference \<Longrightarrow> put_named_bytes L reference session name body s = Inr (r, s') \<Longrightarrow>
    store_step L is_uuid s s'"

inductive store_reachable :: "content_limits \<Rightarrow> (ustring \<Rightarrow> bool) \<Rightarrow> content_state \<Rightarrow> bool"
  for L :: content_limits and is_uuid :: "ustring \<Rightarrow> bool" where
  empty: "store_reachable L is_uuid empty_store"
| step: "store_reachable L is_uuid s \<Longrightarrow> store_step L is_uuid s s' \<Longrightarrow> store_reachable L is_uuid s'"

subsection \<open>The invariant\<close>

definition body_charge :: "bytes \<Rightarrow> nat" where
  "body_charge body = length body + ENTRY_OVERHEAD"

definition scope_ok :: "content_limits \<Rightarrow> memory_scope \<Rightarrow> bool" where
  "scope_ok L sc =
     (sc_charged sc \<le> per_scope_limit L \<and>
      (\<Sum>e\<leftarrow>sc_entries sc. body_charge (snd e)) \<le> sc_charged sc \<and>
      distinct (sc_sessions sc) \<and> length (sc_sessions sc) \<le> MAX_ATTACHED_SESSIONS)"

definition store_ok :: "content_limits \<Rightarrow> content_state \<Rightarrow> bool" where
  "store_ok L s =
     (distinct (map fst (cs_scopes s)) \<and> distinct (map fst (cs_owners s)) \<and>
      length (cs_scopes s) \<le> MAX_SCOPES \<and>
      cs_charged s = (\<Sum>p\<leftarrow>cs_scopes s. sc_charged (snd p)) \<and> cs_charged s \<le> global_limit L \<and>
      (\<forall>root sc. map_of (cs_scopes s) root = Some sc \<longrightarrow> scope_ok L sc \<and> root \<in> set (sc_sessions sc)) \<and>
      (\<forall>session root. map_of (cs_owners s) session = Some root \<longleftrightarrow>
         (\<exists>sc. map_of (cs_scopes s) root = Some sc \<and> session \<in> set (sc_sessions sc))))"

lemma store_ok_empty: "store_ok L empty_store"
  by (simp add: store_ok_def empty_store_def)

lemma store_okI:
  assumes "distinct (map fst (cs_scopes s))" "distinct (map fst (cs_owners s))"
    "length (cs_scopes s) \<le> MAX_SCOPES"
    "cs_charged s = (\<Sum>p\<leftarrow>cs_scopes s. sc_charged (snd p))" "cs_charged s \<le> global_limit L"
    "\<And>root sc. map_of (cs_scopes s) root = Some sc \<Longrightarrow> scope_ok L sc \<and> root \<in> set (sc_sessions sc)"
    "\<And>session root. map_of (cs_owners s) session = Some root \<longleftrightarrow>
       (\<exists>sc. map_of (cs_scopes s) root = Some sc \<and> session \<in> set (sc_sessions sc))"
  shows "store_ok L s"
  using assms unfolding store_ok_def by blast

lemma store_okD:
  assumes "store_ok L s"
  shows "distinct (map fst (cs_scopes s))" "distinct (map fst (cs_owners s))"
    "length (cs_scopes s) \<le> MAX_SCOPES"
    "cs_charged s = (\<Sum>p\<leftarrow>cs_scopes s. sc_charged (snd p))" "cs_charged s \<le> global_limit L"
    "map_of (cs_scopes s) root = Some sc \<Longrightarrow> scope_ok L sc"
    "map_of (cs_scopes s) root = Some sc \<Longrightarrow> root \<in> set (sc_sessions sc)"
    "map_of (cs_owners s) session = Some root \<longleftrightarrow>
       (\<exists>sc. map_of (cs_scopes s) root = Some sc \<and> session \<in> set (sc_sessions sc))"
  using assms unfolding store_ok_def by blast+

lemma unowned_root:
  "store_ok L s \<Longrightarrow> map_of (cs_owners s) root = None \<Longrightarrow> map_of (cs_scopes s) root = None"
  using store_okD(7,8) by (metis option.distinct(1) option.exhaust)

text \<open>A scope replaced by one that charges no more than both limits admit, with the same sessions.\<close>

lemma replace_scope_ok:
  assumes ok: "store_ok L s" and sc: "map_of (cs_scopes s) root = Some sc"
    and charged: "sc_charged sc' = sc_charged sc + n" "cs_charged s + n \<le> global_limit L"
    and sc': "scope_ok L sc'" "sc_sessions sc' = sc_sessions sc"
  shows "store_ok L (s\<lparr>cs_scopes := AList.update root sc' (cs_scopes s), cs_charged := cs_charged s + n\<rparr>)"
proof (rule store_okI, goal_cases)
  case 4
  then show ?case
    using sum_update_old [OF sc, of sc_charged sc'] charged store_okD(4) [OF ok] by simp
next
  case (6 r c)
  show ?case
  proof (cases "r = root")
    case True
    with 6 have "c = sc'" by (simp add: update_conv')
    with True show ?thesis using sc' store_okD(7) [OF ok sc] by simp
  next
    case False
    with 6 have "map_of (cs_scopes s) r = Some c" by (simp add: update_conv')
    with store_okD(6,7) [OF ok] show ?thesis by blast
  qed
next
  case (7 x r)
  then show ?case using sc sc' store_okD(8) [OF ok, of x r] by (auto simp: update_conv')
qed (use store_okD(1-3) [OF ok] sc charged in \<open>simp_all add: distinct_update length_update_old\<close>)

lemma begin_scope_ok:
  assumes ok: "store_ok L s" and b: "begin_scope is_uuid root s = Inr s'"
  shows "store_ok L s'"
proof -
  let ?new = "\<lparr>sc_sessions = [root], sc_entries = [], sc_named = [], sc_charged = 0\<rparr>"
  from b have root: "map_of (cs_owners s) root = None" and len: "length (cs_scopes s) < MAX_SCOPES"
    and s': "s' = s\<lparr>cs_scopes := AList.update root ?new (cs_scopes s), cs_owners := AList.update root root (cs_owners s)\<rparr>"
    by (auto simp: begin_scope_def split: if_splits)
  have none: "map_of (cs_scopes s) root = None" using unowned_root [OF ok root] .
  show ?thesis
  proof (rule store_okI, goal_cases)
    case (6 r c)
    then show ?case using store_okD(6,7) [OF ok, of r c]
      by (auto simp: s' update_conv' scope_ok_def MAX_ATTACHED_SESSIONS_def split: if_splits)
  next
    case (7 x r)
    then show ?case using store_okD(8) [OF ok, of x r] store_okD(8) [OF ok, of x root] root none
      by (auto simp: s' update_conv')
  qed (use store_okD(1-5) [OF ok] none len in
      \<open>simp_all add: s' distinct_update sum_update_new length_update_new\<close>)
qed

lemma drop_lease_ok:
  assumes ok: "store_ok L s"
  shows "store_ok L (drop_lease root s)"
proof (cases "map_of (cs_scopes s) root")
  case (Some sc)
  let ?s = "drop_lease root s"
  have s': "?s = s\<lparr>cs_scopes := AList.delete root (cs_scopes s), cs_charged := cs_charged s - sc_charged sc,
      cs_owners := filter (\<lambda>(session, _). session \<notin> set (sc_sessions sc)) (cs_owners s)\<rparr>"
    by (simp add: drop_lease_def Some)
  have total: "(\<Sum>p\<leftarrow>AList.delete root (cs_scopes s). sc_charged (snd p)) + sc_charged sc = cs_charged s"
    using sum_delete [OF store_okD(1) [OF ok] Some, of sc_charged] store_okD(4) [OF ok] by simp
  show ?thesis
  proof (rule store_okI, goal_cases)
    case (6 r c)
    then show ?case using store_okD(6,7) [OF ok, of r c] by (auto simp: s' map_of_delete split: if_splits)
  next
    case (7 x r)
    then show ?case using store_okD(8) [OF ok, of x r] store_okD(8) [OF ok, of x root] Some
      by (auto simp: s' map_of_delete map_of_filter_key)
  qed (use store_okD(1-3,5) [OF ok] total length_delete [of root "cs_scopes s"] in
      \<open>simp_all add: s' distinct_delete distinct_map_filter\<close>)
qed (simp add: drop_lease_def ok)

lemma attach_ok:
  assumes ok: "store_ok L s" and a: "attach is_uuid parent session s = Inr s'"
  shows "store_ok L s'"
proof -
  from a obtain root where root: "map_of (cs_owners s) parent = Some root"
    and a': "(case map_of (cs_owners s) session of Some existing \<Rightarrow>
          if existing = root then Inr s else Inl (Conflict (u ''EPHEMERAL_OWNER_MISMATCH''))
        | None \<Rightarrow> and_then (or_error content_expired (map_of (cs_scopes s) root)) (\<lambda>sc.
            if MAX_ATTACHED_SESSIONS \<le> length (sc_sessions sc)
            then Inl (Validation (u ''EPHEMERAL_ATTACHMENT_CAPACITY''))
            else Inr (s\<lparr>cs_scopes := AList.update root
                   (sc\<lparr>sc_sessions := List.insert session (sc_sessions sc)\<rparr>) (cs_scopes s),
                 cs_owners := AList.update session root (cs_owners s)\<rparr>))) = Inr s'"
    by (auto simp: attach_def and_then_Inr or_error_Inr split: if_splits)
  show ?thesis
  proof (cases "map_of (cs_owners s) session")
    case (Some r)
    with a' ok show ?thesis by (auto split: if_splits)
  next
    case None
    with a' obtain sc where sc: "map_of (cs_scopes s) root = Some sc"
      and len: "length (sc_sessions sc) < MAX_ATTACHED_SESSIONS"
      and s': "s' = s\<lparr>cs_scopes := AList.update root
           (sc\<lparr>sc_sessions := List.insert session (sc_sessions sc)\<rparr>) (cs_scopes s),
         cs_owners := AList.update session root (cs_owners s)\<rparr>"
      by (auto simp: and_then_Inr or_error_Inr split: if_splits)
    have new: "session \<notin> set (sc_sessions c)" if "map_of (cs_scopes s) r = Some c" for r c
      using store_okD(8) [OF ok, of session r] None that by auto
    show ?thesis
    proof (rule store_okI, goal_cases)
      case 4
      then show ?case
        using sum_update_old [OF sc, of sc_charged "sc\<lparr>sc_sessions := List.insert session (sc_sessions sc)\<rparr>"]
          store_okD(4) [OF ok] by (simp add: s')
    next
      case (6 r c)
      then show ?case using store_okD(6,7) [OF ok, of r] sc len new [OF sc]
        by (auto simp: s' update_conv' scope_ok_def split: if_splits)
    next
      case (7 x r)
      then show ?case using store_okD(8) [OF ok, of x r] sc new
        by (auto simp: s' update_conv')
    qed (use store_okD(1-3,5) [OF ok] sc in \<open>simp_all add: s' distinct_update length_update_old\<close>)
  qed
qed

text \<open>What a successful write stores: a known name, or a body that both limits admit.\<close>

lemma put_Inr:
  "put L reference session body s = Inr (r, s') \<Longrightarrow>
   \<exists>root sc. map_of (cs_owners s) session = Some root \<and> map_of (cs_scopes s) root = Some sc \<and>
     r = reference \<and> cs_charged s + body_charge body \<le> global_limit L \<and>
     sc_charged sc + body_charge body \<le> per_scope_limit L \<and>
     s' = s\<lparr>cs_scopes := AList.update root (charged_scope reference body (body_charge body) sc) (cs_scopes s),
       cs_charged := cs_charged s + body_charge body\<rparr>"
  by (auto simp: put_def checked_def body_charge_def ENTRY_OVERHEAD_def and_then_Inr or_error_Inr
      split: if_splits)

lemma put_named_Inr:
  assumes "put_named_bytes L reference session name body s = Inr (r, s')"
  shows "s' = s \<or> (\<exists>root sc n. map_of (cs_owners s) session = Some root \<and> map_of (cs_scopes s) root = Some sc \<and>
     map_of (sc_named sc) (session, name) = None \<and> r = reference \<and> body_charge body \<le> n \<and>
     cs_charged s + n \<le> global_limit L \<and> sc_charged sc + n \<le> per_scope_limit L \<and>
     s' = s\<lparr>cs_scopes := AList.update root ((charged_scope reference body n sc)\<lparr>sc_named :=
       AList.update (session, name) reference (sc_named sc)\<rparr>) (cs_scopes s), cs_charged := cs_charged s + n\<rparr>)"
proof -
  let ?n = "length body + ENTRY_OVERHEAD * 2 + byte_length name + byte_length session"
  from assms obtain root sc where *: "map_of (cs_owners s) session = Some root" "map_of (cs_scopes s) root = Some sc"
    and rest: "(case map_of (sc_named sc) (session, name) of
          Some known \<Rightarrow> if map_of (sc_entries sc) known = Some body then Inr (known, s)
            else Inl (Conflict (u ''EPHEMERAL_CONTENT_IMMUTABLE_MISMATCH''))
        | None \<Rightarrow> if global_limit L - cs_charged s < ?n \<or> per_scope_limit L - sc_charged sc < ?n then Inl no_capacity
            else Inr (reference, s\<lparr>cs_scopes := AList.update root
                   ((charged_scope reference body ?n sc)\<lparr>sc_named :=
                      AList.update (session, name) reference (sc_named sc)\<rparr>) (cs_scopes s),
                 cs_charged := cs_charged s + ?n\<rparr>)) = Inr (r, s')"
    by (auto simp: put_named_bytes_def checked_def and_then_Inr or_error_Inr split: if_splits)
  show ?thesis
  proof (cases "map_of (sc_named sc) (session, name)")
    case (Some known)
    with rest show ?thesis by (simp split: if_splits)
  next
    case None
    with rest have fits: "\<not> (global_limit L - cs_charged s < ?n \<or> per_scope_limit L - sc_charged sc < ?n)"
      by (simp split: if_splits)
    with rest None have "r = reference" "s' = s\<lparr>cs_scopes := AList.update root
         ((charged_scope reference body ?n sc)\<lparr>sc_named := AList.update (session, name) reference (sc_named sc)\<rparr>)
         (cs_scopes s), cs_charged := cs_charged s + ?n\<rparr>"
      by auto
    moreover have "body_charge body \<le> ?n" "0 < ?n" by (simp_all add: body_charge_def ENTRY_OVERHEAD_def)
    moreover from fits this(2) have "cs_charged s + ?n \<le> global_limit L" "sc_charged sc + ?n \<le> per_scope_limit L"
      by linarith+
    ultimately show ?thesis using * None by blast
  qed
qed

text \<open>Both writes replace one scope by one that holds the body as well.\<close>

definition holds_also :: "content_limits \<Rightarrow> content_state \<Rightarrow> content_ref \<Rightarrow> bytes \<Rightarrow> ustring \<Rightarrow> content_state \<Rightarrow> bool" where
  "holds_also L s reference body session s' =
     (\<exists>root sc sc' n. map_of (cs_owners s) session = Some root \<and> map_of (cs_scopes s) root = Some sc \<and>
        body_charge body \<le> n \<and> cs_charged s + n \<le> global_limit L \<and> sc_charged sc + n \<le> per_scope_limit L \<and>
        sc_sessions sc' = sc_sessions sc \<and> sc_charged sc' = sc_charged sc + n \<and>
        sc_entries sc' = AList.update reference body (sc_entries sc) \<and>
        s' = s\<lparr>cs_scopes := AList.update root sc' (cs_scopes s), cs_charged := cs_charged s + n\<rparr>)"

lemma holds_alsoI:
  assumes "map_of (cs_owners s) session = Some root" "map_of (cs_scopes s) root = Some sc"
    "body_charge body \<le> n" "cs_charged s + n \<le> global_limit L" "sc_charged sc + n \<le> per_scope_limit L"
    "sc_sessions sc' = sc_sessions sc" "sc_charged sc' = sc_charged sc + n"
    "sc_entries sc' = AList.update reference body (sc_entries sc)"
    "s' = s\<lparr>cs_scopes := AList.update root sc' (cs_scopes s), cs_charged := cs_charged s + n\<rparr>"
  shows "holds_also L s reference body session s'"
  unfolding holds_also_def using assms by blast

lemma charged_scope_simps [simp]:
  "sc_sessions (charged_scope reference body n sc) = sc_sessions sc"
  "sc_charged (charged_scope reference body n sc) = sc_charged sc + n"
  "sc_entries (charged_scope reference body n sc) = AList.update reference body (sc_entries sc)"
  by (simp_all add: charged_scope_def)

lemma put_holds:
  assumes "put L reference session body s = Inr (r, s')"
  shows "holds_also L s reference body session s'"
proof -
  from put_Inr [OF assms] obtain root sc where "map_of (cs_owners s) session = Some root"
    "map_of (cs_scopes s) root = Some sc" "cs_charged s + body_charge body \<le> global_limit L"
    "sc_charged sc + body_charge body \<le> per_scope_limit L"
    "s' = s\<lparr>cs_scopes := AList.update root (charged_scope reference body (body_charge body) sc) (cs_scopes s),
       cs_charged := cs_charged s + body_charge body\<rparr>" by blast
  then show ?thesis by (intro holds_alsoI [where n = "body_charge body"]) simp_all
qed

lemma put_named_holds:
  assumes "put_named_bytes L reference session name body s = Inr (r, s')" "s' \<noteq> s"
  shows "holds_also L s reference body session s'"
proof -
  from put_named_Inr [OF assms(1)] assms(2) obtain root sc n where "map_of (cs_owners s) session = Some root"
    "map_of (cs_scopes s) root = Some sc" "body_charge body \<le> n" "cs_charged s + n \<le> global_limit L"
    "sc_charged sc + n \<le> per_scope_limit L"
    "s' = s\<lparr>cs_scopes := AList.update root ((charged_scope reference body n sc)\<lparr>sc_named :=
       AList.update (session, name) reference (sc_named sc)\<rparr>) (cs_scopes s), cs_charged := cs_charged s + n\<rparr>"
    by blast
  then show ?thesis by (intro holds_alsoI) simp_all
qed

lemma holds_also_ok:
  assumes "holds_also L s reference body session s'" "store_ok L s"
  shows "store_ok L s'"
proof -
  from assms(1) obtain root sc sc' n where *: "map_of (cs_scopes s) root = Some sc"
    "body_charge body \<le> n" "cs_charged s + n \<le> global_limit L" "sc_charged sc + n \<le> per_scope_limit L"
    "sc_sessions sc' = sc_sessions sc" "sc_charged sc' = sc_charged sc + n"
    "sc_entries sc' = AList.update reference body (sc_entries sc)"
    "s' = s\<lparr>cs_scopes := AList.update root sc' (cs_scopes s), cs_charged := cs_charged s + n\<rparr>"
    by (auto simp: holds_also_def)
  have "scope_ok L sc'"
    using store_okD(6) [OF assms(2) *(1)] * sum_update_le [of body_charge reference body "sc_entries sc"]
    by (simp add: scope_ok_def)
  then show ?thesis unfolding *(8) by (intro replace_scope_ok [OF assms(2) *(1)]) (use * in simp_all)
qed

lemma store_step_ok:
  assumes "store_step L is_uuid s s'" "store_ok L s"
  shows "store_ok L s'"
  using assms
proof cases
  case (put_named reference session name body r)
  with assms(2) show ?thesis by (cases "s' = s") (auto intro: holds_also_ok put_named_holds)
qed (auto intro: begin_scope_ok drop_lease_ok attach_ok holds_also_ok put_holds)

lemma store_reachable_ok: "store_reachable L is_uuid s \<Longrightarrow> store_ok L s"
  by (induction rule: store_reachable.induct) (auto intro: store_ok_empty store_step_ok)

subsection \<open>What a session reads\<close>

text \<open>Freshness keeps a reference in one scope.\<close>

definition refs_apart :: "content_state \<Rightarrow> bool" where
  "refs_apart s =
     (\<forall>r r' sc sc' reference. map_of (cs_scopes s) r = Some sc \<longrightarrow> map_of (cs_scopes s) r' = Some sc' \<longrightarrow>
        map_of (sc_entries sc) reference \<noteq> None \<longrightarrow> map_of (sc_entries sc') reference \<noteq> None \<longrightarrow> r = r')"

lemma fresh_refD: "fresh_ref s reference \<Longrightarrow> map_of (cs_scopes s) r = Some sc \<Longrightarrow> map_of (sc_entries sc) reference = None"
  unfolding fresh_ref_def by (auto simp: list_all_iff dest: map_of_SomeD)

lemma holds_also_apart:
  assumes h: "holds_also L s reference body session s'" and fresh: "fresh_ref s reference" and apart: "refs_apart s"
  shows "refs_apart s'"
proof -
  from h obtain root sc sc' n where sc: "map_of (cs_scopes s) root = Some sc"
    and e: "sc_entries sc' = AList.update reference body (sc_entries sc)"
    and s': "s' = s\<lparr>cs_scopes := AList.update root sc' (cs_scopes s), cs_charged := cs_charged s + n\<rparr>"
    by (auto simp: holds_also_def)
  have old: "\<exists>c. map_of (cs_scopes s) r = Some c \<and> map_of (sc_entries c) x \<noteq> None"
    if "map_of (cs_scopes s') r = Some d" "map_of (sc_entries d) x \<noteq> None" "x \<noteq> reference" for r d x
    using that sc e by (auto simp: s' update_conv' split: if_splits)
  have new: "r = root" if "map_of (cs_scopes s') r = Some d" "map_of (sc_entries d) reference \<noteq> None" for r d
    using that fresh_refD [OF fresh, of r d] by (auto simp: s' update_conv' split: if_splits)
  show ?thesis
    unfolding refs_apart_def
  proof (intro allI impI)
    fix r r' d d' x
    assume *: "map_of (cs_scopes s') r = Some d" "map_of (cs_scopes s') r' = Some d'"
      "map_of (sc_entries d) x \<noteq> None" "map_of (sc_entries d') x \<noteq> None"
    show "r = r'"
    proof (cases "x = reference")
      case True
      with * new show ?thesis by blast
    next
      case False
      from old [OF *(1,3) False] old [OF *(2,4) False] apart show ?thesis unfolding refs_apart_def by blast
    qed
  qed
qed

text \<open>The other steps keep the entries of every scope they keep.\<close>

lemma apart_mono:
  assumes "refs_apart s"
    and "\<And>r d x. map_of (cs_scopes s') r = Some d \<Longrightarrow> map_of (sc_entries d) x \<noteq> None \<Longrightarrow>
      \<exists>c. map_of (cs_scopes s) r = Some c \<and> map_of (sc_entries c) x \<noteq> None"
  shows "refs_apart s'"
  unfolding refs_apart_def
proof (intro allI impI)
  fix r r' d d' x
  assume *: "map_of (cs_scopes s') r = Some d" "map_of (cs_scopes s') r' = Some d'"
    "map_of (sc_entries d) x \<noteq> None" "map_of (sc_entries d') x \<noteq> None"
  from assms(2) [OF *(1,3)] assms(2) [OF *(2,4)] assms(1) show "r = r'" unfolding refs_apart_def by blast
qed

lemma attach_entries:
  "attach is_uuid parent session s = Inr s' \<Longrightarrow> map_of (cs_scopes s') r = Some d \<Longrightarrow>
   \<exists>c. map_of (cs_scopes s) r = Some c \<and> sc_entries c = sc_entries d"
  by (fastforce simp: attach_def and_then_Inr or_error_Inr update_conv' split: if_splits option.splits)

lemma begin_entries:
  "begin_scope is_uuid root s = Inr s' \<Longrightarrow> map_of (cs_scopes s') r = Some d \<Longrightarrow>
   map_of (sc_entries d) x \<noteq> None \<Longrightarrow> map_of (cs_scopes s) r = Some d"
  by (auto simp: begin_scope_def update_conv' split: if_splits)

lemma drop_entries:
  "map_of (cs_scopes (drop_lease root s)) r = (if r = root then None else map_of (cs_scopes s) r)"
  by (auto simp: drop_lease_def map_of_delete split: option.split)

lemma store_step_apart: "store_step L is_uuid s s' \<Longrightarrow> refs_apart s \<Longrightarrow> refs_apart s'"
proof (induction rule: store_step.induct)
  case (begin_scope root s s')
  then show ?case by (auto intro: apart_mono dest: begin_entries)
next
  case (drop_lease s root)
  then show ?case by (rule apart_mono) (auto simp: drop_entries split: if_splits)
next
  case (attach parent session s s')
  show ?case
    by (rule apart_mono [OF attach(2)]) (metis attach_entries [OF attach(1)])
next
  case (put s reference session body r s')
  then show ?case by (blast intro: holds_also_apart put_holds)
next
  case (put_named s reference session name body r s')
  then show ?case by (cases "s' = s") (simp, blast intro: holds_also_apart put_named_holds)
qed

lemma store_reachable_apart: "store_reachable L is_uuid s \<Longrightarrow> refs_apart s"
proof (induction rule: store_reachable.induct)
  case empty
  show ?case by (simp add: refs_apart_def empty_store_def)
qed (rule store_step_apart)

lemma get_body_Inr:
  "get_body s session reference = Inr body \<longleftrightarrow>
   (\<exists>root sc. map_of (cs_owners s) session = Some root \<and> map_of (cs_scopes s) root = Some sc \<and>
      map_of (sc_entries sc) reference = Some body)"
  by (auto simp: get_body_def scope_of_def and_then_Inr or_error_Inr bind_eq_Some_conv)

lemma put_get:
  assumes "put L reference session body s = Inr (r, s')"
  shows "get_body s' session r = Inr body"
  using put_Inr [OF assms] by (auto simp: get_body_Inr update_conv')

lemma reads_one_scope:
  assumes "refs_apart s" "get_body s a reference = Inr x" "get_body s b reference = Inr y"
  shows "map_of (cs_owners s) a = map_of (cs_owners s) b \<and> x = y"
proof -
  from assms(2,3) obtain r r' sc sc' where *: "map_of (cs_owners s) a = Some r" "map_of (cs_scopes s) r = Some sc"
    "map_of (sc_entries sc) reference = Some x" "map_of (cs_owners s) b = Some r'"
    "map_of (cs_scopes s) r' = Some sc'" "map_of (sc_entries sc') reference = Some y"
    by (auto simp: get_body_Inr)
  with assms(1) have "r = r'" unfolding refs_apart_def by blast
  with * show ?thesis by simp
qed

lemma holds_also_keeps:
  assumes "holds_also L s reference body session s'" "fresh_ref s reference" "get_body s x ref' = Inr b"
  shows "get_body s' x ref' = Inr b"
proof -
  from assms(3) obtain root sc where *: "map_of (cs_owners s) x = Some root" "map_of (cs_scopes s) root = Some sc"
    "map_of (sc_entries sc) ref' = Some b" by (auto simp: get_body_Inr)
  with fresh_refD [OF assms(2)] have "ref' \<noteq> reference" by force
  with * assms(1) show ?thesis by (auto simp: holds_also_def get_body_Inr update_conv')
qed

lemma begin_keeps:
  assumes "begin_scope is_uuid root s = Inr s'" "store_ok L s" "get_body s x reference = Inr b"
  shows "get_body s' x reference = Inr b"
  using assms unowned_root [OF assms(2), of root]
  by (auto simp: begin_scope_def get_body_Inr update_conv' split: if_splits)

lemma attach_keeps:
  assumes "attach is_uuid parent session s = Inr s'" "get_body s x reference = Inr b"
  shows "get_body s' x reference = Inr b"
  using assms
  by (fastforce simp: attach_def get_body_Inr and_then_Inr or_error_Inr update_conv' split: if_splits option.splits)

lemma drop_keeps:
  assumes "store_ok L s" "get_body s x reference = Inr b"
  shows "get_body (drop_lease root s) x reference =
    (if map_of (cs_owners s) x = Some root then Inl content_expired else Inr b)"
proof -
  from assms(2) obtain r sc where *: "map_of (cs_owners s) x = Some r" "map_of (cs_scopes s) r = Some sc"
    "map_of (sc_entries sc) reference = Some b" by (auto simp: get_body_Inr)
  have mem: "x \<in> set (sc_sessions c) \<longleftrightarrow> r = root" if "map_of (cs_scopes s) root = Some c" for c
    using store_okD(8) [OF assms(1), of x root] *(1) that by auto
  show ?thesis
  proof (cases "r = root")
    case True
    with * mem show ?thesis by (simp add: drop_lease_def get_body_def scope_of_def map_of_filter_key)
  next
    case False
    with * mem show ?thesis
      by (auto simp: drop_lease_def get_body_def scope_of_def map_of_filter_key map_of_delete split: option.split)
  qed
qed

lemma store_step_keeps:
  assumes "store_step L is_uuid s s'" "store_ok L s" "get_body s x reference = Inr b"
  shows "get_body s' x reference \<in> {Inr b, Inl content_expired}"
  using assms
proof cases
  case (put_named reference' session name body r)
  with assms(3) show ?thesis by (cases "s' = s") (auto dest: holds_also_keeps put_named_holds)
next
  case (drop_lease root)
  with drop_keeps [OF assms(2,3), of root] show ?thesis by auto
next
  case (put reference' session body r)
  with assms(3) show ?thesis by (auto dest!: put_holds intro: holds_also_keeps)
qed (use assms(2,3) in \<open>auto dest: begin_keeps attach_keeps\<close>)

subsection \<open>Issued references\<close>

text \<open>
  References are random identifiers. \<open>issued\<close> is the history of those that were drawn: a write draws one
  that was never drawn before, also when the scope it is put into ends later.
\<close>

inductive ref_step :: "content_limits \<Rightarrow> (ustring \<Rightarrow> bool) \<Rightarrow> content_ref set \<times> content_state \<Rightarrow>
    content_ref set \<times> content_state \<Rightarrow> bool"
  for L :: content_limits and is_uuid :: "ustring \<Rightarrow> bool" where
  ref_begin: "begin_scope is_uuid root s = Inr s' \<Longrightarrow> ref_step L is_uuid (issued, s) (issued, s')"
| ref_drop: "ref_step L is_uuid (issued, s) (issued, drop_lease root s)"
| ref_attach: "attach is_uuid parent session s = Inr s' \<Longrightarrow> ref_step L is_uuid (issued, s) (issued, s')"
| ref_put: "reference \<notin> issued \<Longrightarrow> put L reference session body s = Inr (r, s') \<Longrightarrow>
    ref_step L is_uuid (issued, s) (insert reference issued, s')"
| ref_put_named: "reference \<notin> issued \<Longrightarrow> put_named_bytes L reference session name body s = Inr (r, s') \<Longrightarrow>
    ref_step L is_uuid (issued, s) (insert reference issued, s')"

lemma two_ref_steps: "ref_step L is_uuid a b \<Longrightarrow> ref_step L is_uuid b c \<Longrightarrow> (ref_step L is_uuid)\<^sup>*\<^sup>* a c"
  by (rule rtranclp_trans; rule r_into_rtranclp)

definition entry_of :: "content_state \<Rightarrow> ustring \<Rightarrow> content_ref \<Rightarrow> bytes option" where
  "entry_of s root r = Option.bind (map_of (cs_scopes s) root) (\<lambda>sc. map_of (sc_entries sc) r)"

lemma entry_of_Some:
  "entry_of s root r = Some x \<longleftrightarrow> (\<exists>sc. map_of (cs_scopes s) root = Some sc \<and> map_of (sc_entries sc) r = Some x)"
  by (auto simp: entry_of_def bind_eq_Some_conv)

lemma holds_also_entries:
  assumes "holds_also L s reference body session s'" "entry_of s' root r = Some x" "r \<noteq> reference"
  shows "entry_of s root r = Some x"
  using assms by (auto simp: holds_also_def entry_of_Some update_conv' split: if_splits)

text \<open>An entry after a step was there before, or its reference was drawn by the step.\<close>

lemma ref_step_entries:
  assumes "ref_step L is_uuid (issued, s) (issued', s')"
  shows "issued \<subseteq> issued'"
    and "entry_of s' root r = Some x \<Longrightarrow> entry_of s root r = Some x \<or> r \<in> issued' - issued"
proof -
  show "issued \<subseteq> issued'" using assms by cases auto
  assume e: "entry_of s' root r = Some x"
  from assms show "entry_of s root r = Some x \<or> r \<in> issued' - issued"
  proof cases
    case (ref_begin root')
    with e begin_entries [of is_uuid root' s s' root] show ?thesis by (auto simp: entry_of_Some)
  next
    case (ref_drop root')
    with e show ?thesis by (auto simp: entry_of_Some drop_entries split: if_splits)
  next
    case (ref_attach parent session)
    with e show ?thesis by (auto simp: entry_of_Some dest: attach_entries)
  next
    case (ref_put reference session body p)
    with e holds_also_entries [OF put_holds [OF ref_put(3)] e] show ?thesis by auto
  next
    case (ref_put_named reference session name body p)
    with e holds_also_entries [OF put_named_holds [OF ref_put_named(3)] e] show ?thesis by (cases "s' = s") auto
  qed
qed

definition all_issued :: "content_ref set \<Rightarrow> content_state \<Rightarrow> bool" where
  "all_issued issued s = (\<forall>root r. entry_of s root r \<noteq> None \<longrightarrow> r \<in> issued)"

lemma all_issued_fresh:
  assumes "store_ok L s" "all_issued issued s" "r \<notin> issued"
  shows "fresh_ref s r"
proof -
  have "map_of (sc_entries sc) r = None" if "(root, sc) \<in> set (cs_scopes s)" for root sc
  proof -
    have "map_of (cs_scopes s) root = Some sc" using that store_okD(1) [OF assms(1)] by simp
    then have "entry_of s root r = map_of (sc_entries sc) r" by (simp add: entry_of_def)
    with assms(2,3) show ?thesis unfolding all_issued_def by metis
  qed
  then show ?thesis by (auto simp: fresh_ref_def list_all_iff)
qed

lemma ref_step_store:
  assumes "ref_step L is_uuid (issued, s) (issued', s')" "store_ok L s" "all_issued issued s"
  shows "store_step L is_uuid s s'"
  using assms(1)
  by cases (auto intro: store_step.intros all_issued_fresh [OF assms(2,3)])

text \<open>What a run of the store has reached.\<close>

lemma ref_run_reachable:
  assumes "(ref_step L is_uuid)\<^sup>*\<^sup>* ({}, empty_store) (issued, s)"
  shows "store_reachable L is_uuid s \<and> all_issued issued s"
  using assms
proof (induction "(issued, s)" arbitrary: issued s rule: rtranclp_induct)
  case base
  have "all_issued {} empty_store" by (simp add: all_issued_def entry_of_def empty_store_def)
  with base show ?case by (auto intro: store_reachable.empty)
next
  case (step y)
  obtain issued0 s0 where y: "y = (issued0, s0)" by (cases y)
  with step have ih: "store_reachable L is_uuid s0" "all_issued issued0 s0"
    and st: "ref_step L is_uuid (issued0, s0) (issued, s)" by auto
  have "store_step L is_uuid s0 s" using ref_step_store [OF st store_reachable_ok [OF ih(1)] ih(2)] .
  with ih(1) have "store_reachable L is_uuid s" by (rule store_reachable.step)
  moreover have "all_issued issued s"
    using ih(2) ref_step_entries [OF st] by (fastforce simp: all_issued_def)
  ultimately show ?case ..
qed

text \<open>Once drawn, a reference never gets another body, in any scope.\<close>

lemma ref_run_body:
  assumes "(ref_step L is_uuid)\<^sup>*\<^sup>* (issued, s) (issued', s')" "r \<in> issued"
    and "\<And>root y. entry_of s root r = Some y \<Longrightarrow> y = x"
  shows "entry_of s' root r = Some y \<Longrightarrow> y = x"
proof -
  have "r \<in> issued' \<and> (\<forall>root y. entry_of s' root r = Some y \<longrightarrow> y = x)"
    using assms(1)
  proof (induction "(issued', s')" arbitrary: issued' s' rule: rtranclp_induct)
    case base
    then show ?case using assms(2,3) by blast
  next
    case (step z)
    obtain issued1 s1 where z: "z = (issued1, s1)" by (cases z)
    with step have "r \<in> issued1" "\<forall>root y. entry_of s1 root r = Some y \<longrightarrow> y = x"
      "ref_step L is_uuid (issued1, s1) (issued', s')" by auto
    with ref_step_entries [OF this(3)] show ?case by blast
  qed
  then show "entry_of s' root r = Some y \<Longrightarrow> y = x" by blast
qed

lemma get_body_cases:
  "(\<exists>root y. entry_of s root r = Some y \<and> get_body s a r = Inr y) \<or>
   get_body s a r = Inl content_expired \<or> get_body s a r = Inl not_owned"
  by (auto simp: get_body_def scope_of_def entry_of_Some or_error_def and_then_def bind_eq_Some_conv
      split: option.splits)

text \<open>The bodies of all scopes fit the global limit.\<close>

lemma bodies_bounded:
  assumes "store_ok L s"
  shows "(\<Sum>p\<leftarrow>cs_scopes s. \<Sum>e\<leftarrow>sc_entries (snd p). body_charge (snd e)) \<le> global_limit L"
proof -
  have "(\<Sum>p\<leftarrow>cs_scopes s. \<Sum>e\<leftarrow>sc_entries (snd p). body_charge (snd e)) \<le> (\<Sum>p\<leftarrow>cs_scopes s. sc_charged (snd p))"
  proof (rule sum_list_mono)
    fix p
    assume "p \<in> set (cs_scopes s)"
    then have "map_of (cs_scopes s) (fst p) = Some (snd p)"
      using store_okD(1) [OF assms] by simp
    from store_okD(6) [OF assms this] show "(\<Sum>e\<leftarrow>sc_entries (snd p). body_charge (snd e)) \<le> sc_charged (snd p)"
      by (simp add: scope_ok_def)
  qed
  with store_okD(4,5) [OF assms] show ?thesis by simp
qed

end
