(* ===== verification/Task_Claims.thy ===== *)
theory Task_Claims
  imports Task_Sample Task_Ledger Task_History Task_Shape Task_Pages Task_Receipts Task_Spend Task_Ingest Task_Delegation Content_Memory_Props
begin

section \<open>Properties of tasks, budgets, results and temporary bodies\<close>

text \<open>
  The properties of the runtime tables over all sequences of operations, of the readers of results, of
  the receipts that enter a conversation, and of the memory store of bodies. \<open>Task_Sample\<close> holds the
  concrete run that the witnesses apply them to.
\<close>

subsection \<open>The tables\<close>

lemma founded_known:
  "parents_before known xs \<Longrightarrow> x \<in> set xs \<Longrightarrow> founded (known \<union> set xs) x"
proof (induction xs arbitrary: known)
  case (Cons y ys)
  show ?case
  proof (cases "x = y")
    case True
    with Cons.prems show ?thesis by (fastforce simp: founded_def split: option.splits)
  next
    case False
    with Cons.prems Cons.IH [of "insert y known"] show ?thesis by (simp add: insert_commute)
  qed
qed simp

lemma parents_stored:
  assumes "parents_first (map place (db_tasks db))" "t \<in> set (db_tasks db)"
  shows "case tk_parent t of None \<Rightarrow> tk_root t = tk_id t
    | Some p \<Rightarrow> \<exists>q \<in> set (db_tasks db). tk_id q = p \<and> tk_session q = tk_session t \<and> tk_root q = tk_root t"
proof -
  have "founded (place ` set (db_tasks db)) (place t)"
    using assms founded_known [of "{}" "map place (db_tasks db)" "place t"] by (simp add: parents_first_def)
  then show ?thesis by (fastforce simp: founded_def place_def split: option.splits)
qed

text \<open>C10. Every reachable state of the tables is well-typed: each row satisfies the checks of its table,
  keys are unique, a task has at most one run that has not ended, a result belongs to a run of its task,
  and the tasks form trees inside a session: a task without a parent is its own root, the parent of any
  other stands before it, in the same session and under the same root.\<close>

theorem tables_are_well_typed:
  assumes "task_reachable cr db"
  shows "rows_checked db \<and> keys_unique db \<and> results_owned db \<and> parents_first (map place (db_tasks db)) \<and>
    (\<forall>t \<in> set (db_tasks db). case tk_parent t of None \<Rightarrow> tk_root t = tk_id t
      | Some p \<Rightarrow> \<exists>q \<in> set (db_tasks db). tk_id q = p \<and> tk_session q = tk_session t \<and> tk_root q = tk_root t)"
  using shape.reachable_holds [OF assms] parents_stored by (auto simp: shape_ok_def)

theorem tables_are_well_typed_witness:
  "parents_first (map place (db_tasks db_ended)) \<and> results_owned db_ended \<and> length (db_tasks db_ended) = 2"
  using tables_are_well_typed [OF sample_reachable(2)] by (simp add: db_ended_def)

text \<open>C2. The budget account of a root balances in every reachable state: what it holds reserved is the
  sum of the grants of its children that are not settled, in tokens and in cost, and it stays below what
  is left of the limit once the reserve of the parent is set aside.\<close>

theorem budget_ledger_balances:
  assumes "task_reachable cr db" "t \<in> set (db_tasks db)"
  shows "tk_reserved_tokens t = granted rv_tokens db (tk_id t) \<and>
    tk_reserved_cost t = granted rv_cost db (tk_id t) \<and>
    0 \<le> tk_reserved_tokens t \<and> 0 \<le> tk_reserved_cost t \<and>
    (\<forall>l. tk_token_limit t = Some l \<longrightarrow> tk_reserved_tokens t \<le> sat_sub l (ceil_percent l ROOT_BUDGET_RESERVE_PERCENT)) \<and>
    (\<forall>l. tk_cost_limit t = Some l \<longrightarrow> tk_reserved_cost t \<le> sat_sub l (ceil_percent l ROOT_BUDGET_RESERVE_PERCENT))"
proof -
  from ledger.reachable_holds [OF assms(1)] assms(2)
  have ok: "tk_reserved_tokens t = granted rv_tokens db (tk_id t)" "tk_reserved_cost t = granted rv_cost db (tk_id t)"
    "within_pool (tk_token_limit t) (tk_reserved_tokens t)" "within_pool (tk_cost_limit t) (tk_reserved_cost t)"
    and grants: "\<And>v. v \<in> set (db_reservations db) \<Longrightarrow> 0 \<le> amount (rv_tokens v) \<and> 0 \<le> amount (rv_cost v)"
    by (auto simp: ledger_ok_def balanced_def pooled_def)
  have "0 \<le> granted rv_tokens db (tk_id t)" "0 \<le> granted rv_cost db (tk_id t)"
    unfolding granted_def by (rule sum_list_nonneg, use grants in \<open>auto simp: open_grant_def\<close>)+
  with ok show ?thesis by (auto simp: within_pool_def)
qed

theorem budget_ledger_balances_witness:
  "tk_reserved_tokens waiting_task = 200 \<and> granted rv_tokens db_delegated (tk_id waiting_task) = 200"
proof -
  have "waiting_task \<in> set (db_tasks db_delegated)" by (simp add: db_delegated_def)
  from budget_ledger_balances [OF sample_reachable(1) this] show ?thesis by (simp add: waiting_task_def)
qed

text \<open>C7. A call to a model that was admitted with a reservation fits the budget of its task: what the run
  has used, what the account is charged with besides, and the reservations of all calls in flight, the
  new one included, stay together within the limit, in tokens and in cost, as exact sums.\<close>

theorem started_call_fits_budget:
  assumes "task_reachable cr db" "start_llm_call_with_budget K now_ms c v db = Inr db'"
    "cr_input v + cr_output v \<le> I64_MAX"
  shows "\<exists>o'. owner_of db (nc_task c) (nc_run c) = Some o' \<and>
    (\<forall>l. tk_token_limit (co_task o') = Some l \<and> l < I64_MAX \<longrightarrow>
      rn_total (co_run o') + charged_tokens o' + active_tokens db' (Some (nc_run c)) \<le> l) \<and>
    (\<forall>l. tk_cost_limit (co_task o') = Some l \<and> l < I64_MAX \<longrightarrow>
      rn_cost (co_run o') + charged_cost o' + active_cost db' (Some (nc_run c)) \<le> l)"
proof -
  from assms(2) have v: "0 \<le> cr_input v" "0 \<le> cr_output v" "0 \<le> cr_cost v"
    and start: "start_llm_call_inner K now_ms c (Some v) db = Inr db'"
    by (auto simp: start_llm_call_with_budget_def split: if_splits)
  note ok = shape.reachable_holds [OF assms(1)] calls.reachable_holds [OF assms(1)]
  from start obtain o' route request where o: "owner_of db (nc_task c) (nc_run c) = Some o'"
    "\<not> tokens_exhausted db o' v" "\<not> cost_exhausted db o' v"
    and db': "db' = db\<lparr>db_calls := db_calls db @ [started_call c v route request]\<rparr>"
    by (rule start_callD)
  from tokens_fit [OF ok o(1,2) v(1,2) assms(3)] cost_fits [OF ok o(1,3) v(3)] show ?thesis
    unfolding active_after_start [OF db'] by (intro exI [of _ o']) (auto simp: o(1) add.assoc)
qed

definition sample_call :: new_call where
  "sample_call = \<lparr>nc_id = u ''l'', nc_task = sample_id 1, nc_run = sample_id 2, nc_provider = u ''p'', nc_model = u ''m'',
     nc_route = None, nc_request_id = None\<rparr>"

theorem started_call_fits_budget_witness:
  "\<exists>db'. start_llm_call_with_budget task_port 5 sample_call \<lparr>cr_input = 300, cr_output = 500, cr_cost = 0\<rparr> db_delegated =
       Inr db' \<and> 200 + active_tokens db' (Some (sample_id 2)) \<le> 1000"
proof -
  let ?start = "start_llm_call_with_budget task_port 5 sample_call \<lparr>cr_input = 300, cr_output = 500, cr_cost = 0\<rparr> db_delegated"
  have "map_ok db_tasks ?start = Inr (db_tasks db_delegated)" by code_simp
  then obtain db' where start: "?start = Inr db'" by (auto simp: map_ok_Inr)
  have owner: "owner_of db_delegated (sample_id 1) (sample_id 2) =
      Some \<lparr>co_run = waiting_run, co_task = waiting_task, co_root = waiting_task\<rparr>" by code_simp
  from started_call_fits_budget [OF sample_reachable(1) start] owner start show ?thesis
    by (auto simp: I64_MAX_def sample_call_def charged_tokens_def waiting_task_def root_task_def waiting_run_def root_run_def)
qed

text \<open>The configuration of a budget looks at what is reserved and consumed, not at the usage of the current
  run, which enters the account only at the end: lowering the limit below that usage is applied, and the
  task can then not end, whatever its result, because the settlement of the root refuses.\<close>

definition spent_usage :: usage_completion where
  "spent_usage = \<lparr>uc_input = Some 200, uc_output = Some 300, uc_cache_read = Some 0, uc_cache_create = Some 0,
     uc_cost = Some 0, uc_complete = True, uc_error = None\<rparr>"

definition root_result :: commit_request where
  "root_result = child_result\<lparr>rq_task := sample_id 1, rq_run := sample_id 2\<rparr>"

lemma configured_limit_blocks_the_end:
  "and_then (start_llm_call_with_budget task_port 5 sample_call \<lparr>cr_input = 300, cr_output = 500, cr_cost = 0\<rparr> db_claimed)
     (\<lambda>db1. and_then (finish_llm_call task_port (u ''n'') (u ''l'') CallCompleted spent_usage db1) (\<lambda>(_, db2).
      map_ok (\<lambda>(outcome, db3). (outcome,
          map_ok fst (commit_task_result_inner task_crates task_port (u ''r'') (u ''n'') root_result None db3)))
        (configure_root_task_budget_cas (sample_id 1) 0 \<lparr>token_limit = Some 100, cost_limit = None, deadline_at = Some 99\<rparr> db2)))
   = Inr (Applied, Inl (Invalid (u ''ROOT_BUDGET_EXHAUSTED'')))"
  by code_simp

text \<open>C8. A task that has ended has an immutable result: in every reachable state the current run of a
  terminal task is a terminal run of that task with a stored result, and the three statuses agree.\<close>

theorem terminal_task_has_result:
  assumes "task_reachable cr db" "t \<in> set (db_tasks db)" "task_is_terminal (tk_status t)"
  shows "\<exists>r \<in> set (db_runs db). tk_current_run t = Some (rn_id r) \<and> rn_task r = tk_id t \<and>
    run_is_terminal (rn_status r) \<and>
    (\<exists>s \<in> set (db_results db). rs_task s = tk_id t \<and> rs_run s = rn_id r \<and>
       terminal_pair (tk_status t) (rn_status r) (rs_status s))"
proof -
  have "has_result db t" using results.reachable_holds [OF assms(1)] assms(2,3) by (auto simp: results_ok_def)
  moreover have "run_is_terminal s'" if "terminal_pair s s' s''" for s s' s''
    using that by (cases s; cases s'; cases s'') (auto simp: terminal_pair_def run_is_terminal_def)
  ultimately show ?thesis unfolding has_result_iff by blast
qed

theorem terminal_task_has_result_witness:
  "\<exists>s \<in> set (db_results db_ended). rs_task s = sample_id 3 \<and> rs_run s = sample_id 4"
proof -
  have t: "ended_task \<in> set (db_tasks db_ended)" "task_is_terminal (tk_status ended_task)"
    by (simp_all add: db_ended_def ended_task_def task_is_terminal_def)
  from terminal_task_has_result [OF sample_reachable(2) t] show ?thesis
    by (auto simp: ended_task_def child_task_def root_task_def)
qed

text \<open>C3. The end of a task is final: whatever operations follow, a terminal task keeps its status and
  its run, a terminal run its status, and a version of a result that was stored is read back unchanged,
  because results are only appended.\<close>

theorem terminal_task_is_final:
  assumes "(task_step cr)\<^sup>*\<^sup>* db db'"
  shows "(\<forall>t \<in> set (db_tasks db). task_is_terminal (tk_status t) \<longrightarrow>
      (\<exists>t' \<in> set (db_tasks db'). tk_id t' = tk_id t \<and> tk_status t' = tk_status t \<and> tk_current_run t' = tk_current_run t)) \<and>
    (\<forall>r \<in> set (db_runs db). run_is_terminal (rn_status r) \<longrightarrow>
      (\<exists>r' \<in> set (db_runs db'). rn_id r' = rn_id r \<and> rn_task r' = rn_task r \<and> rn_status r' = rn_status r)) \<and>
    (\<forall>task v s. select_result db task (Some v) = Some s \<longrightarrow> select_result db' task (Some v) = Some s)"
proof -
  from steps_later [OF assms] have later: "later db db'" .
  then obtain more where "db_results db' = db_results db @ more" by (auto simp: later_def prefix_def)
  moreover have "find p (xs @ ys) = Some x" if "find p xs = Some x" for p xs ys and x :: result_row
    using that by (induction xs) auto
  ultimately have "select_result db task (Some v) = Some s \<longrightarrow> select_result db' task (Some v) = Some s" for task v s
    by (simp add: select_result_def)
  with later show ?thesis by (fastforce simp: later_def keeps_task_def keeps_run_def)
qed

theorem terminal_task_is_final_witness:
  "select_result db_ingested (sample_id 3) (Some 1) = Some sample_row"
proof -
  have "select_result db_ended (sample_id 3) (Some 1) = Some sample_row"
    by (simp add: select_result_def db_ended_def sample_row_def)
  with terminal_task_is_final [OF r_into_rtranclp, OF sample_steps(7)] show ?thesis by blast
qed

subsection \<open>Delegation\<close>

text \<open>C9. A child never has a tool its parent lacks: the configuration that a submission stores for a task
  with a parent run, read back, admits exactly the tools that its own configuration asks for and that the
  ceiling of the parent admits. The parser is assumed to return objects with sorted members, and to return for the stored
  text the sorted value it was printed from.\<close>

theorem child_ceiling_within_parent:
  assumes "inherit cr K db (Some run) cfg = Inr cfg'" "\<And>v. from_text cr cfg = Some v \<Longrightarrow> json_sorted v"
    "\<And>v. json_sorted v \<Longrightarrow> to_text cr v = cfg' \<Longrightarrow> from_text cr cfg' = Some v"
  shows "\<exists>own parent child. and_then (parse_json cr cfg) from_config = Inr own \<and> run_ceiling cr K db run = Inr parent \<and>
    and_then (parse_json cr cfg') from_config = Inr child \<and>
    (\<forall>n. allows child n \<longleftrightarrow> allows own n \<and> allows parent n)"
  by (rule inherited_ceiling [OF assms])

definition delegated_config :: json where
  "delegated_config = JObj [(u ''allowedTools'', JArr [JStr (u ''x''), JStr (u ''y'')]),
     (u ''toolCeiling'', ceiling_json \<lparr>allowed_tools = Some [u ''x'', u ''y''], denied_tools = [u ''x'']\<rparr>),
     (u ''waitMode'', JStr (u ''background''))]"

definition delegation_crates :: crates where
  "delegation_crates = task_crates\<lparr>to_text := (\<lambda>v. if v = delegated_config then u ''o'' else u ''other''),
     from_text := (\<lambda>s. if s = u ''b'' then Some (JObj [(u ''disallowedTools'', JArr [JStr (u ''x'')])])
       else if s = u ''c'' then Some (JObj [(u ''allowedTools'', JArr [JStr (u ''x''), JStr (u ''y'')]),
         (u ''waitMode'', JStr (u ''background''))])
       else if s = u ''o'' then Some delegated_config else None)\<rparr>"

theorem child_ceiling_within_parent_witness:
  "\<exists>child. and_then (parse_json delegation_crates (u ''o'')) from_config = Inr child \<and>
     allows child (u ''y'') \<and> \<not> allows child (u ''x'')"
proof -
  have stored: "inherit delegation_crates task_port db_claimed (Some (sample_id 2)) (u ''c'') = Inr (u ''o'')"
    by code_simp
  have parsed: "from_text delegation_crates (u ''c'') = Some v \<Longrightarrow> json_sorted v" for v
    by (auto simp: delegation_crates_def str_key_def unit_rank_def split: if_splits)
  have printed: "to_text delegation_crates v = u ''o'' \<Longrightarrow> from_text delegation_crates (u ''o'') = Some v" for v
    by (simp add: delegation_crates_def split: if_splits)
  have own: "map_ok (\<lambda>c. (allows c (u ''x''), allows c (u ''y'')))
      (and_then (parse_json delegation_crates (u ''c'')) from_config) = Inr (True, True)"
    and parent: "map_ok (\<lambda>c. (allows c (u ''x''), allows c (u ''y'')))
      (run_ceiling delegation_crates task_port db_claimed (sample_id 2)) = Inr (False, True)"
    by code_simp+
  from child_ceiling_within_parent [OF stored parsed printed] own parent show ?thesis
    by (auto simp del: u_simps)
qed

subsection \<open>Results and receipts\<close>

text \<open>C20. A result is read back whole: a reader that follows the cursors from the start ends, and its
  pages, of at most the requested number of bytes unless a single character is longer, concatenate to
  the stored text.\<close>

theorem result_pages_roundtrip:
  assumes "select_result db task version = Some r" "load_result cr K db r = Inr (result, s)"
    "0 < n" "n \<le> INLINE_RESULT_LIMIT"
  shows "\<exists>ps. read_pages (Suc (length s)) cr K db task version 0 n = Some ps \<and> concat ps = s \<and>
    (\<forall>p \<in> set ps. byte_length p \<le> n \<or> p \<in> set (chars s))"
  by (rule read_pages_all [OF assms])

theorem result_pages_roundtrip_witness:
  "\<exists>ps. read_pages (Suc (length (u ''x''))) task_crates task_port db_ended (sample_id 3) None 0 7 = Some ps \<and>
     concat ps = u ''x''"
proof -
  have row: "select_result db_ended (sample_id 3) None = Some sample_row"
    by (simp add: select_result_def db_ended_def sample_row_def)
  have "map_ok snd (load_result task_crates task_port db_ended sample_row) = Inr (u ''x'')"
    by code_simp
  then obtain result where loaded: "load_result task_crates task_port db_ended sample_row = Inr (result, u ''x'')"
    unfolding map_ok_Inr by (metis prod.collapse)
  have "0 < (7::nat)" "7 \<le> INLINE_RESULT_LIMIT" by (simp_all add: INLINE_RESULT_LIMIT_def)
  from result_pages_roundtrip [OF row loaded this] show ?thesis by blast
qed

text \<open>C21. The receipt of a result that enters the conversation of the parent is faithful: no field can
  forge markup, since escaped text has neither quotes nor angle brackets, and two receipts are the same
  text only when task, version, status, digest and summary agree.\<close>

theorem receipt_is_faithful:
  "set (escape sm) \<inter> {34, 39, 60, 62} = {} \<and>
   (render_task_result_receipt t v st sha sm = render_task_result_receipt t' v' st' sha' sm' \<longleftrightarrow>
      t = t' \<and> v = v' \<and> st = st' \<and> sha = sha' \<and> sm = sm')"
proof (intro conjI iffI)
  show "set (escape sm) \<inter> {34, 39, 60, 62} = {}" by (rule escape_no_markup)
qed ((drule receipt_inj, elim conjE, assumption)+, elim conjE, hypsubst, rule refl)

text \<open>C5. The result of a child is taken in exactly once: the first ingestion appends one message and one
  receipt, marks the version as consumed and lets the parent run again exactly when no attached child is
  unresolved; repeating it, with whatever identifiers, succeeds with the same receipt and writes nothing.\<close>

theorem result_ingested_once:
  assumes "ingest_task_result_at_safe_boundary cr K message_id receipt_id now consumer producer v summary db = Inr (Some d, db')"
  shows "(if rd_created d then receipt_of db consumer producer v = None \<and> ingested_once consumer producer v d db db'
      else db' = db) \<and>
    ingest_task_result_at_safe_boundary cr K message_id' receipt_id' now' consumer producer v summary' db' =
      Inr (Some (d\<lparr>rd_created := False\<rparr>), db')"
proof (cases "receipt_of db consumer producer v")
  case (Some r)
  from ingest_found [OF assms Some] have d: "db' = db" "\<not> rd_created d" "result_digest cr K db producer v = Inr (rd_sha d)"
    "d = \<lparr>rd_id = rc_id r, rd_consumer = consumer, rd_producer = producer, rd_version = v, rd_message = rc_message r,
      rd_sha = rd_sha d, rd_created_at = rc_created r, rd_created = False\<rparr>" by blast+
  then have "d\<lparr>rd_created := False\<rparr> = \<lparr>rd_id = rc_id r, rd_consumer = consumer, rd_producer = producer, rd_version = v,
      rd_message = rc_message r, rd_sha = rd_sha d, rd_created_at = rc_created r, rd_created = False\<rparr>" by simp
  with ingest_again [OF Some d(3)] d(1,2) show ?thesis by simp
next
  case None
  from ingest_new [OF assms None] obtain t run status digest where
    t: "task_of db consumer = Some t" "tk_status t = TaskWaitingDependencies" and
    p: "producer_result cr K db consumer producer v = Inr (status, digest)" and
    c: "consume_result cr K message_id receipt_id now t run producer v summary status digest db = Inr (d, db')" .
  note written = consume_resultD [OF c t]
  have digest: "result_digest cr K db' producer v = Inr digest"
    using result_digest_same [OF written(2)] producer_result_digest [OF p] by simp
  from written(1) obtain r where r: "db_receipts db' = db_receipts db @ [r]" "rc_consumer r = consumer"
    "rc_producer r = producer" "rc_version r = v" "rc_id r = rd_id d" "rc_message r = rd_message d" "rc_created r = rd_created_at d"
    unfolding ingested_once_def by blast
  have "receipt_of db' consumer producer v = Some r"
    using None r(1-4) by (simp add: receipt_of_def find_None_append)
  from ingest_again [OF this digest] r None written(1,3) show ?thesis by simp
qed

theorem result_ingested_once_witness:
  "ingested_once (sample_id 1) (sample_id 3) 1 (sample_record True) db_ended db_ingested \<and>
   sample_ingestion db_ingested = Inr (Some (sample_record False), db_ingested)"
  using result_ingested_once [OF ingested [unfolded sample_ingestion_def]]
  by (simp add: sample_record_def sample_ingestion_def)

subsection \<open>The memory store\<close>

text \<open>C18. The memory store stays within its limits: after any operations each scope is charged at most
  its limit and for at least the bodies it holds, the charges add up to the total, which is at most the
  global limit, and so are the bodies of all scopes together.\<close>

theorem memory_store_bounded:
  assumes "store_reachable L is_uuid s"
  shows "(\<forall>(root, sc) \<in> set (cs_scopes s). sc_charged sc \<le> per_scope_limit L \<and>
      (\<Sum>e\<leftarrow>sc_entries sc. body_charge (snd e)) \<le> sc_charged sc \<and>
      length (sc_sessions sc) \<le> MAX_ATTACHED_SESSIONS) \<and>
    length (cs_scopes s) \<le> MAX_SCOPES \<and>
    retained_bytes s = (\<Sum>p\<leftarrow>cs_scopes s. sc_charged (snd p)) \<and> retained_bytes s \<le> global_limit L \<and>
    (\<Sum>p\<leftarrow>cs_scopes s. \<Sum>e\<leftarrow>sc_entries (snd p). body_charge (snd e)) \<le> global_limit L"
proof -
  from store_reachable_ok [OF assms] have ok: "store_ok L s" .
  have "scope_ok L sc" if "(root, sc) \<in> set (cs_scopes s)" for root sc
    using that store_okD(1,6) [OF ok] by (metis map_of_eq_Some_iff)
  with ok bodies_bounded [OF ok] show ?thesis
    by (auto simp: store_ok_def scope_ok_def retained_bytes_def)
qed

definition sample_scope :: memory_scope where
  "sample_scope = \<lparr>sc_sessions = [u ''r''], sc_entries = [(ContentRef (u ''c''), [1, 2])], sc_named = [],
     sc_charged = 130\<rparr>"

definition sample_store :: content_state where
  "sample_store = \<lparr>cs_scopes = [(u ''r'', sample_scope)], cs_owners = [(u ''r'', u ''r'')], cs_charged = 130\<rparr>"

definition begun_store :: content_state where
  "begun_store = \<lparr>cs_scopes = [(u ''r'', \<lparr>sc_sessions = [u ''r''], sc_entries = [], sc_named = [], sc_charged = 0\<rparr>)],
    cs_owners = [(u ''r'', u ''r'')], cs_charged = 0\<rparr>"

lemma sample_store_run:
  "(ref_step default_limits (\<lambda>_. True))\<^sup>*\<^sup>* ({}, empty_store) ({ContentRef (u ''c'')}, sample_store)"
proof -
  have 1: "begin_scope (\<lambda>_. True) (u ''r'') empty_store = Inr begun_store"
    by (simp add: begin_scope_def empty_store_def MAX_SCOPES_def begun_store_def)
  have 2: "put default_limits (ContentRef (u ''c'')) (u ''r'') [1, 2] begun_store =
      Inr (ContentRef (u ''c''), sample_store)"
    by (simp add: put_def checked_def charged_scope_def default_limits_def sample_store_def sample_scope_def
        ENTRY_OVERHEAD_def USIZE_MAX_def begun_store_def)
  show ?thesis
    by (rule two_ref_steps [OF ref_begin [OF 1] ref_put [OF _ 2]]) simp
qed

lemmas sample_store_reachable = ref_run_reachable [OF sample_store_run, THEN conjunct1]

theorem memory_store_bounded_witness:
  "retained_bytes sample_store \<le> global_limit default_limits \<and> retained_bytes sample_store = 130"
  using memory_store_bounded [OF sample_store_reachable] by (simp add: retained_bytes_def sample_store_def)

text \<open>C19. A reference has one body, for ever. References are drawn fresh. Whoever can read one belongs
  to the same root session and reads the same bytes; after the next operation a reader reads the same bytes
  again or learns that the scope has expired; and after any number of further operations every session
  that asks for it reads these bytes, or gets the error of an expired scope or of a reference that its scope
  does not have, as after the scope was ended and begun again.\<close>

theorem reference_has_one_body:
  assumes "(ref_step L is_uuid)\<^sup>*\<^sup>* ({}, empty_store) (issued, s)" "get_body s a reference = Inr x"
  shows "(\<forall>b y. get_body s b reference = Inr y \<longrightarrow> map_of (cs_owners s) b = map_of (cs_owners s) a \<and> y = x) \<and>
    (\<forall>issued' s'. ref_step L is_uuid (issued, s) (issued', s') \<longrightarrow>
       get_body s' a reference \<in> {Inr x, Inl content_expired}) \<and>
    (\<forall>issued' s' b. (ref_step L is_uuid)\<^sup>*\<^sup>* (issued, s) (issued', s') \<longrightarrow>
       get_body s' b reference \<in> {Inr x, Inl content_expired, Inl not_owned})"
proof -
  note reached = ref_run_reachable [OF assms(1)]
  note ok = store_reachable_ok [OF conjunct1 [OF reached]] and apart = store_reachable_apart [OF conjunct1 [OF reached]]
  from assms(2) obtain root where entry: "entry_of s root reference = Some x"
    by (auto simp: get_body_Inr entry_of_Some)
  have drawn: "reference \<in> issued" using reached entry by (auto simp: all_issued_def)
  have one: "y = x" if "entry_of s r reference = Some y" for r y
    using that entry apart by (fastforce simp: refs_apart_def entry_of_Some)
  have later: "get_body s' b reference \<in> {Inr x, Inl content_expired, Inl not_owned}"
    if "(ref_step L is_uuid)\<^sup>*\<^sup>* (issued, s) (issued', s')" for issued' s' b
    using get_body_cases [of s' reference b] ref_run_body [OF that drawn one] by auto
  have nextstep: "get_body s' a reference \<in> {Inr x, Inl content_expired}"
    if "ref_step L is_uuid (issued, s) (issued', s')" for issued' s'
    using store_step_keeps [OF ref_step_store [OF that ok conjunct2 [OF reached]] ok assms(2)] .
  from reads_one_scope [OF apart _ assms(2)] later nextstep show ?thesis by blast
qed

text \<open>The scope of the reader ends and is begun again.\<close>

theorem reference_has_one_body_witness:
  "begin_scope (\<lambda>_. True) (u ''r'') (drop_lease (u ''r'') sample_store) = Inr begun_store \<and>
   get_body begun_store (u ''r'') (ContentRef (u ''c'')) \<in> {Inr [1, 2], Inl content_expired, Inl not_owned}"
proof
  have read: "get_body sample_store (u ''r'') (ContentRef (u ''c'')) = Inr [1, 2]"
    by (simp add: get_body_def scope_of_def sample_store_def sample_scope_def)
  show again: "begin_scope (\<lambda>_. True) (u ''r'') (drop_lease (u ''r'') sample_store) = Inr begun_store"
    by (simp add: begin_scope_def drop_lease_def sample_store_def sample_scope_def begun_store_def MAX_SCOPES_def)
  have "(ref_step default_limits (\<lambda>_. True))\<^sup>*\<^sup>* ({ContentRef (u ''c'')}, sample_store)
      ({ContentRef (u ''c'')}, begun_store)"
    by (rule two_ref_steps [OF ref_drop ref_begin [OF again]])
  with reference_has_one_body [OF sample_store_run read]
  show "get_body begun_store (u ''r'') (ContentRef (u ''c'')) \<in> {Inr [1, 2], Inl content_expired, Inl not_owned}"
    by blast
qed

end
