(* ===== verification/Spec2Isabelle.thy ===== *)
theory Spec2Isabelle
  imports Authz_Claims Bash_Security_Eval Task_Claims
begin

text \<open>
  This development models, of the zkcode server (a coding agent written in Rust), the code that decides
  whether a tool call may run, and the tables in which tasks, their runs, budgets and results live.

  \<^bold>\<open>The program.\<close> A language model proposes tool calls. Before one runs, the authorization crate
  (\<open>crates/zk-authz\<close>) freezes its input, resolves the subject (the run, its root run and session, the
  workspace), analyses the call into an operation descriptor (effects, resources, risk, hashes), decides
  (internal and safe operations, the mode of the session, trusted scopes, remembered grants, a question
  to the user), and admits the operation: it analyses it again and rechecks the decision inside the
  database transaction that records the start. For a shell command the analysis asks the Bash analysis
  (\<open>crates/zk-tools/src/bash\<close>), which lexes and parses the command, walks its tree, and answers with the
  simple commands, or that the command is too complex, or that it was aborted. The work itself is a tree
  of tasks (\<open>crates/zk-db\<close>): a task is submitted with a run, claimed, calls models and tools that are
  recorded before and after, may delegate to children with a share of its budget, and ends with an
  immutable result, which its parent takes in at a safe boundary of its own conversation.

  \<^bold>\<open>The Bash analysis\<close> is modelled by these theories.
    \<^item> \<open>Prelude\<close>, \<open>Utf16\<close>: errors as sums (\<open>Inl\<close> the error), text as lists of UTF-16 units,
      counts of UTF-8 bytes.
    \<^item> \<open>Bash_Ast\<close>: \<open>ast.rs\<close>. \<open>Java_Str\<close>: \<open>javastr.rs\<close>.
    \<^item> \<open>Bash_Lexer\<close>: \<open>lexer.rs\<close>; \<open>Bash_Lexer_Props\<close>: a fact every step of the scanner keeps holds
      after every token (locale \<open>scanner_invariant\<close>); tokens tile the source.
    \<^item> \<open>Parser_Monad\<close>, \<open>Bash_Parser\<close>: \<open>parser.rs\<close> as a state and error monad; \<open>Parser_Logic\<close> has the
      triples, \<open>Bash_Parser_Props\<close> the contract with the lexer (locale \<open>token_source\<close>) and the shape of
      the tree, \<open>Bash_Parser_Eval\<close> the evaluation of runs.
    \<^item> \<open>Bash_Tree\<close>: which trees are well-formed. \<open>Bash_Collect\<close>: \<open>collect_commands\<close> against the leaves
      of the tree. \<open>Bash_Semantics\<close>: \<open>check_semantics\<close>, \<open>strip_wrappers\<close>. \<open>Bash_Environment\<close> and its
      properties: the environment references. \<open>Bash_Blacklist\<close>: \<open>blacklist.rs\<close>. \<open>Bash_Heredoc\<close>:
      \<open>heredoc.rs\<close>. \<open>Bash_Security\<close>: \<open>parse_for_security\<close> over all of them. Their properties stand
      below, in this theory.

  \<^bold>\<open>Authorization\<close> is modelled by these theories.
    \<^item> \<open>Json\<close>: values of \<open>serde_json\<close>, whose objects have their members sorted by key. \<open>Authz_Model\<close>: \<open>model.rs\<close>, \<open>canonicalizer.rs\<close>,
      \<open>diagnostic.rs\<close>, \<open>tool_facts.rs\<close>.
    \<^item> \<open>Authz_Constraint\<close>: \<open>constraint.rs\<close>. \<open>Iso_Time\<close>: the time stamps of \<open>crates/zk-db/src/time.rs\<close>,
      whose text order is the order in time.
    \<^item> \<open>Authz_Grants\<close>: \<open>grants.rs\<close> over an explicit table of rows, with the checks, unique indexes and
      triggers of the migration; \<open>Authz_Grants_Props\<close> has the table invariant, the specification of the
      lookup, and the contract the service relies on, that what was revoked is never found again whatever
      is created, revoked or changed later (locale \<open>grant_store\<close>, interpreted on the model's operations).
    \<^item> \<open>Authz_Paths\<close>, \<open>Authz_PathSecurity\<close>: \<open>path_security.rs\<close> over a file system that is a parameter.
    \<^item> \<open>Authz_Analyzer\<close>, \<open>Authz_Analyses\<close>: \<open>analyzer.rs\<close>, \<open>hashing.rs\<close>, \<open>frozen.rs\<close>.
    \<^item> \<open>Authz_Service\<close>, \<open>Authz_Gateway\<close>: \<open>service.rs\<close>, \<open>subject.rs\<close>, \<open>gateway.rs\<close>; the properties
      follow the branches by introduction rules for outcomes.
    \<^item> \<open>Authz_Claims\<close>: the properties of authorization with their sample inputs.

  \<^bold>\<open>Tasks\<close> are modelled by these theories, over \<open>crates/zk-db/src\<close>.
    \<^item> \<open>Db_Base\<close>: errors of the database, counts of bytes. \<open>Content_Memory\<close>: the store of the bodies of
      ephemeral sessions (\<open>content/memory.rs\<close>); \<open>Content_Memory_Props\<close>: its invariant over all sequences of
      operations, and what a reference keeps meaning when references are never issued twice.
    \<^item> \<open>Task_Model\<close>: rows and enumerations (\<open>generated/task_runtime_v4.rs\<close>, \<open>migrations/V2\<close>).
      \<open>Task_Store\<close>: single statements with the checks, unique indexes and triggers of the schema, the
      codecs between a session and its content store (\<open>content/mod.rs\<close>), and the events of a run.
    \<^item> \<open>Task_Budget\<close>: \<open>task_budget.rs\<close>, reservation, settlement and configuration of the account of a
      root. \<open>Task_Calls\<close>: the model calls of \<open>runtime_ledger.rs\<close>. \<open>Task_Ceiling\<close>: the tool ceilings of
      \<open>task_runtime.rs\<close>.
    \<^item> \<open>Task_Submit\<close>, \<open>Task_Runtime\<close>, \<open>Task_Result\<close>: submission, transitions and claims, the commit and
      the reading of results (\<open>task_runtime.rs\<close>). \<open>Task_Inbox\<close>: \<open>task_inbox_consumer.rs\<close>, the inbox of a
      task and the ingestion of the results of its children. \<open>Task_Tools\<close>: the tool invocations and the
      execution resources of \<open>runtime_ledger.rs\<close>.
    \<^item> \<open>Task_Wp\<close>: postconditions of transactions, with a rule per constructor of the definitions.
      \<open>Task_Steps\<close>: every operation as a step on the tables; the locales \<open>table_invariant\<close>,
      \<open>step_invariant\<close> and \<open>store_invariant\<close> reduce an invariant of the steps to the single statements.
      They are interpreted for the budget ledger (\<open>Task_Ledger\<close>), for the results of terminal tasks
      (\<open>Task_Terminal\<close>), for what later tables keep (\<open>Task_History\<close>), for the checks, keys and trees of the
      rows (\<open>Task_Shape\<close>), and for the rows of calls (\<open>Task_Spend\<close>).
    \<^item> \<open>Task_Delegation\<close>: the tools a child inherits. \<open>Task_Pages\<close>, \<open>Task_Receipts\<close>, \<open>Task_Ingest\<close>:
      readers of results, texts of receipts, the effect of an
      ingestion. \<open>Task_Sample\<close>: a concrete run, from the empty tables to a child whose result is taken in.
      \<open>Task_Claims\<close>: the properties of tasks.

  \<^bold>\<open>Correspondence.\<close> A struct is a record, an enum a datatype with the same constructors, a text the list
  of its UTF-16 units; each function keeps its name. A table is the list of its rows. A transaction is a
  function from tables to an error or a value with the new tables: an error leaves nothing behind, as the
  rollback does. In authorization, a function that reads the database while it runs takes the values it
  reads (\<open>readings\<close>, \<open>admission_state\<close>) and returns the changed tables and the events; a failure of the
  database is one of those values. A loop without a structural argument has a measure or fuel: the
  parser's depth limit bounds its recursion and the remaining tokens plus the remaining node budget each
  of its loops, and running out of that fuel is an abort of its own that \<open>parser_aborts\<close> proves impossible;
  the walk to the root run has fuel for one more than the 32 runs the code allows; a reader of pages has
  one step for each unit of the text.

  \<^bold>\<open>Parameters.\<close> Not under the repository, and arguments of the definitions: the regular expressions of
  the \<open>regex\<close> crate (\<open>regex_engine\<close>), the clock of the parser (an answer per check) and of transactions, the
  printer and parser of \<open>serde_json\<close> and the digest of \<open>sha2\<close> (\<open>crates\<close>), the file system (\<open>fs\<close>;
  \<open>wf_fs\<close> states that a canonical path has no empty name, no dots and no separator in a name), the identifiers \<open>uuid\<close> draws, the answers of the
  user, the identity of a workspace (\<open>Git\<close>), and the ports a server plugs in (\<open>registry\<close>, and
  \<open>content_port\<close>, the content store as a transaction sees it, which may answer differently at each step).

  \<^bold>\<open>Not modelled.\<close> Of the modelled files: formatting of tokens and errors, helpers without a caller in
  production (\<open>command_for_heredoc\<close>, \<open>check_dangerous_removal\<close>, \<open>check_sensitive_file_read\<close>), the checks
  for Windows, the cache of subjects; of the tables, columns no modelled operation reads (creation and
  update times, labels, floating-point projections of a cost), the listings for the user interface, the
  recovery after a restart. Of the program: the conversation engine, the model providers, the MCP client,
  the HTTP and WebSocket server, the file and search tools, and the front end and the Python service,
  which are asynchronous glue or lie outside what this development is about; they are listed part by part
  in the manifest.
\<close>

section \<open>The lexer\<close>

text \<open>C14. Lexing is lossless: the tokens of a source, in order, tile it. Between two tokens there are
  only blanks and line continuations, no token is empty, and the text of each token is the source
  between its unit positions.\<close>

theorem lexer_lossless:
  assumes "list_all valid_cp cs" "tokenize (lexer_new (encode_utf16 cs) m) = Inr ts"
  shows "tiles (encode_utf16 cs) 0 ts"
  using tokenize_tiles [OF synced_new [OF assms(1)] assms(2)] by (simp add: lexer_new_def)

lemma tokens_of_ls:
  "tokenize (lexer_new (encode_utf16 (u ''ls'')) 9) =
     Inr [\<lparr>token_type = Word, tok_text = u ''ls'', start_byte = 0, end_byte = 2, start_index = 0,
           end_index = 2\<rparr>]"
  by (simp add: lexer_eval tokenize.simps encode_utf16_def encode_cp_def is_eof_def)

lemma valid_ls: "list_all valid_cp (u ''ls'')"
  by (simp add: valid_cp_def)

theorem lexer_lossless_witness:
  "tiles (encode_utf16 (u ''ls'')) 0
     [\<lparr>token_type = Word, tok_text = u ''ls'', start_byte = 0, end_byte = 2, start_index = 0,
       end_index = 2\<rparr>]"
  by (rule lexer_lossless [OF valid_ls tokens_of_ls])

text \<open>C25. Every token starts and ends on a boundary between two code points of the source: its unit
  index is the number of UTF-16 units and its byte offset the number of UTF-8 bytes of the code
  points before it.\<close>

theorem lexer_positions:
  assumes "list_all valid_cp cs" "tokenize (lexer_new (encode_utf16 cs) m) = Inr ts" "t \<in> set ts"
  shows "\<exists>j k. j \<le> length cs \<and> k \<le> length cs \<and>
     start_index t = length (encode_utf16 (take j cs)) \<and> start_byte t = utf8_len (take j cs) \<and>
     end_index t = length (encode_utf16 (take k cs)) \<and> end_byte t = utf8_len (take k cs)"
  by (rule tokenize_synced [OF synced_new [OF assms(1)] assms(2,3)])

theorem lexer_positions_witness:
  "\<exists>j k. j \<le> length (u ''ls'') \<and> k \<le> length (u ''ls'') \<and>
     (0::nat) = length (encode_utf16 (take j (u ''ls''))) \<and> (0::nat) = utf8_len (take j (u ''ls'')) \<and>
     (2::nat) = length (encode_utf16 (take k (u ''ls''))) \<and> (2::nat) = utf8_len (take k (u ''ls''))"
  using lexer_positions [OF valid_ls tokens_of_ls, OF list.set_intros(1)]
  by (simp only: token.simps)

text \<open>The token budget holds: a successful lexing returns at most \<open>max_nodes\<close> tokens, and the only
  error is the exhaustion of that budget.\<close>

theorem lexer_budget:
  "case tokenize (lexer_new source m) of
     Inr ts \<Rightarrow> length ts \<le> m
   | Inl e \<Rightarrow> e = LexerBudgetExceeded m"
  using tokenize_budget [of "lexer_new source m"] tokenize_abort [of "lexer_new source m"]
  by (auto simp: lexer_new_def split: sum.split)

section \<open>The parser\<close>

text \<open>C15. The parser terminates on every source, within the bounds of the model, and aborts only for
  a reason its source documents: a clock that has run out, the budget of nodes, the depth limit or
  the budget of tokens.\<close>

theorem parser_aborts:
  assumes "run_parser expired source = Inl e"
  shows "e = ParserTimeout \<and> (\<exists>k. expired k) \<or> e = ParserBudgetExceeded MAX_NODES \<or>
    e = ParserBudgetExceeded MAX_DEPTH \<or> e = LexerBudgetExceeded MAX_NODES"
  using units.run_parser_ok(1) [OF TrueI assms] .

theorem parser_aborts_witness:
  "ParserTimeout = ParserTimeout \<and> (\<exists>k. (\<lambda>_::nat. True) k) \<or>
     ParserTimeout = ParserBudgetExceeded MAX_NODES \<or>
    ParserTimeout = ParserBudgetExceeded MAX_DEPTH \<or> ParserTimeout = LexerBudgetExceeded MAX_NODES"
proof (rule parser_aborts)
  show "run_parser (\<lambda>_. True) (u ''ls'') = Inl ParserTimeout"
    by (simp add: parser_eval lexer_eval cong: parser_congs)
qed

text \<open>C13. The tree of a parsed command is well-formed: the spans of its nodes are nested and ordered
  as the nodes are, start and end on code-point boundaries of the source, every list operator is
  \<open>&&\<close> or \<open>||\<close>, pipelines are not empty, a simple command has a word or at least two assignments,
  assigned names are names, redirections carry a redirection operator, declarations start with their
  keyword, and a refused construct carries one of the four reasons of the parser.\<close>

theorem parser_tree:
  assumes "list_all valid_cp cs" "parse expired (encode_utf16 cs) = Some p"
  shows "wf_program (cp_boundary cs) p"
proof (cases "encode_utf16 cs = []")
  case True
  with assms(2) have "p = ProgramNode [] (Span_new 0 0 [])" by (simp add: parse_def)
  moreover have "cp_boundary cs 0" unfolding cp_boundary_def by (intro exI [of _ 0]) simp
  ultimately show ?thesis by (simp add: inside_def wf_span_def Span_new_def)
next
  case False
  with assms(2) obtain s where "run_parser expired (encode_utf16 cs) = Inr (p, s)"
    by (auto simp: parse_def ok_part_eq_Some split: if_splits)
  then show ?thesis
    using src.run_parser_ok(2) [OF synced_new [OF assms(1)]] by blast
qed

lemma parse_ls:
  "parse (\<lambda>_. False) (encode_utf16 (u ''ls'')) =
     Some (ProgramNode [StatementNode (SimpleCommand \<lparr>sc_argv = [u ''ls''], sc_env_vars = [],
       sc_redirects = [], sc_span = Span_new 0 2 (u ''ls'')\<rparr>) False (Span_new 0 2 (u ''ls''))]
       (Span_new 0 2 (u ''ls'')))"
  by (simp add: encode_utf16_def encode_cp_def parser_eval lexer_eval cong: parser_congs)

theorem parser_tree_witness:
  "wf_program (cp_boundary (u ''ls''))
     (ProgramNode [StatementNode (SimpleCommand \<lparr>sc_argv = [u ''ls''], sc_env_vars = [],
       sc_redirects = [], sc_span = Span_new 0 2 (u ''ls'')\<rparr>) False (Span_new 0 2 (u ''ls''))]
       (Span_new 0 2 (u ''ls'')))"
  by (rule parser_tree [OF valid_ls parse_ls])

text \<open>C26. A run that returns has left every level it entered, has spent at most the budget of nodes
  and has not changed the source.\<close>

theorem parser_budget:
  assumes "run_parser expired source = Inr (p, s)"
  shows "ps_depth s = 0 \<and> ps_node_count s \<le> MAX_NODES \<and> lx_units (ps_lexer s) = source"
  using units.run_parser_ok(2) [OF TrueI assms] by simp

theorem parser_budget_witness:
  "\<exists>p s. run_parser (\<lambda>_. False) (u ''ls'') = Inr (p, s) \<and>
     ps_depth s = 0 \<and> ps_node_count s \<le> MAX_NODES \<and> lx_units (ps_lexer s) = u ''ls''"
proof -
  have "is_ok (run_parser (\<lambda>_. False) (u ''ls''))"
    by (simp add: parser_eval lexer_eval cong: parser_congs)
  then obtain p s where r: "run_parser (\<lambda>_. False) (u ''ls'') = Inr (p, s)"
    by (auto simp: is_ok_def split: sum.splits)
  with parser_budget [OF r] show ?thesis by blast
qed

text \<open>A reserved word ends the program wherever it stands: of a source that starts with
  \<open>echo done;\<close> the parser returns the command \<open>echo\<close> without arguments and drops the word and all that
  follows, whatever it is.\<close>

theorem parser_drops_suffix:
  assumes "length rest \<le> 9990"
  shows "map_option (\<lambda>p. map sc_argv (leaves_program p)) (parse (\<lambda>_. False) (u ''echo done;'' @ rest)) =
    Some [[u ''echo'']]"
  using assms by (simp add: parser_eval lexer_eval cong: parser_congs)

theorem parser_drops_suffix_witness:
  "map_option (\<lambda>p. map sc_argv (leaves_program p))
     (parse (\<lambda>_. False) (u ''echo done;'' @ u '' rm -r x'')) = Some [[u ''echo'']]"
  by (rule parser_drops_suffix) simp

text \<open>A number sign directly after a closing quote starts a comment, although it does not start a
  word: the commands after it are dropped.\<close>

theorem comment_after_quote:
  "map_option (\<lambda>p. map sc_argv (leaves_program p))
     (parse (\<lambda>_. False) (u ''echo '' @ [DQ, 97, DQ] @ u ''#; rm x'')) =
   Some [[u ''echo'', [DQ, 97, DQ]]]"
  by (simp add: parser_eval lexer_eval cong: parser_congs)

section \<open>The security analysis\<close>

text \<open>C23. The walk of the tree collects exactly the leaves of the tree, in order, whatever the scope it
  starts in, and it fails with the first node it refuses: one the parser gave up on, or an
  assignment to \<open>PS4\<close> or \<open>IFS\<close> alone.\<close>

theorem collect_is_leaves:
  "map_ok fst (collect_program p (cs, sc)) =
     (case refused_program p of Some e \<Rightarrow> Inl e | None \<Rightarrow> Inr (cs @ leaves_program p))"
  using collect_leaves(1) [of p "(cs, sc)"] by (simp split: option.split)

text \<open>The tree behind a \<open>Simple\<close> answer.\<close>

lemma simple_tree:
  assumes "parse_for_security rx b expired (Some (encode_utf16 cs)) = Simple commands"
    "\<not> java_is_blank (encode_utf16 cs)" "list_all valid_cp cs"
  obtains root where "parse expired (encode_utf16 cs) = Some root" "wf_program (cp_boundary cs) root"
    "commands = leaves_program root" "refused_program root = None"
    "list_all (\<lambda>c. check_semantics rx c = None) commands"
    "br_level (check_command rx b (encode_utf16 cs)) \<noteq> AbsoluteDeny" "run_pre_checks rx (encode_utf16 cs) = None"
proof (rule parse_for_security_Simple [OF assms(1,2)])
  fix root
  assume root: "parse expired (encode_utf16 cs) = Some root" "walk_program rx root = Simple commands"
    and rest: "br_level (check_command rx b (encode_utf16 cs)) \<noteq> AbsoluteDeny"
      "run_pre_checks rx (encode_utf16 cs) = None"
  have "wf_program (cp_boundary cs) root"
  proof (cases "encode_utf16 cs = []")
    case True
    with assms(2) show ?thesis by (simp add: java_is_blank_def)
  next
    case False
    with root(1) obtain s where "run_parser expired (encode_utf16 cs) = Inr (root, s)"
      by (auto simp: parse_def ok_part_eq_Some split: if_splits)
    then show ?thesis using src.run_parser_ok(2) [OF synced_new [OF assms(3)]] by blast
  qed
  with root rest show thesis
    by (intro that) (auto simp: walk_program_Simple list_all_iff)
qed

text \<open>A leaf of a well-formed tree has a word, or at least two assignments and no word.\<close>

definition has_words :: "simple_command \<Rightarrow> bool" where
  "has_words c = (sc_argv c \<noteq> [] \<or> 2 \<le> length (sc_env_vars c))"

lemma leaves_have_words:
  "wf_program B p \<Longrightarrow> list_all has_words (leaves_program p)"
  "wf_statement B st \<Longrightarrow> list_all has_words (leaves_statement st)"
  "wf_item B i \<Longrightarrow> list_all has_words (leaves_item i)"
  "wf_node B n \<Longrightarrow> list_all has_words (leaves n)"
proof (induction p and st and i and n
    rule: leaves_program_leaves_statement_leaves_item_leaves.induct)
qed (auto simp: list_all_iff has_words_def wf_simple_def split: option.splits)

text \<open>C4. When the analysis answers \<open>Simple\<close> for a command that is not blank, the commands it returns are the leaves of the tree of
  the command, which is well-formed, every one of them has passed the semantic checks, no node of
  the tree was refused, no rule of the blacklist denies the command and no pre-check matches.\<close>

theorem simple_is_sound:
  assumes "parse_for_security rx b expired (Some (encode_utf16 cs)) = Simple commands"
    "\<not> java_is_blank (encode_utf16 cs)" "list_all valid_cp cs"
  shows "\<exists>root. parse expired (encode_utf16 cs) = Some root \<and> wf_program (cp_boundary cs) root \<and>
    commands = leaves_program root \<and> refused_program root = None \<and>
    list_all (\<lambda>c. check_semantics rx c = None) commands \<and>
    br_level (check_command rx b (encode_utf16 cs)) \<noteq> AbsoluteDeny \<and>
    run_pre_checks rx (encode_utf16 cs) = None"
  using simple_tree [OF assms] by metis

theorem simple_is_sound_witness:
  "\<exists>commands root. commands \<noteq> [] \<and> parse (\<lambda>_. False) (encode_utf16 (u ''ls'')) = Some root \<and>
    wf_program (cp_boundary (u ''ls'')) root \<and> commands = leaves_program root \<and>
    refused_program root = None \<and> list_all (\<lambda>c. check_semantics (\<lambda>_ _. False) c = None) commands"
proof -
  obtain commands where c: "parse_for_security (\<lambda>_ _. False) blacklist_new (\<lambda>_. False)
      (Some (encode_utf16 (u ''ls''))) = Simple commands" "commands \<noteq> []"
    by (simp add: encode_utf16_def encode_cp_def security_eval parser_eval lexer_eval cong: parser_congs)
  have "\<not> java_is_blank (encode_utf16 (u ''ls''))"
    by (simp add: encode_utf16_def encode_cp_def java_is_blank_def is_java_whitespace_def)
  from simple_is_sound [OF c(1) this valid_ls] c(2) show ?thesis by blast
qed

text \<open>C24. Every command of a \<open>Simple\<close> answer that has words has, stripped of its wrappers, a first word
  that is not empty, is no flag, no reserved word, no builtin that evaluates its arguments and no dangerous
  builtin of zsh. A command without words has at least two assignments, and no check looks at it.\<close>

theorem simple_names:
  assumes "parse_for_security rx b expired (Some (encode_utf16 cs)) = Simple commands"
    "\<not> java_is_blank (encode_utf16 cs)" "list_all valid_cp cs" "c \<in> set commands"
  shows "if sc_argv c = [] then 2 \<le> length (sc_env_vars c)
    else strip_wrappers (sc_argv c) \<noteq> [] \<and>
      (let name = hd (strip_wrappers (sc_argv c)) in
         name \<noteq> [] \<and> \<not> starts_with name (u ''-'') \<and>
         \<not> is_in name (SHELL_KEYWORDS @ EVAL_LIKE_BUILTINS @ ZSH_DANGEROUS_BUILTINS))"
proof -
  obtain root where root: "wf_program (cp_boundary cs) root" "commands = leaves_program root"
    "list_all (\<lambda>c. check_semantics rx c = None) commands" by (rule simple_tree [OF assms(1-3)])
  have "has_words c"
    using leaves_have_words(1) [OF root(1)] root(2) assms(4) by (simp add: list_all_iff)
  moreover have ok: "check_semantics rx c = None" using root(3) assms(4) by (simp add: list_all_iff)
  moreover have "strip_wrappers (sc_argv c) \<noteq> [] \<and> check_name (strip_wrappers (sc_argv c) ! 0) = None"
    if "sc_argv c \<noteq> []"
    using strip_wrappers_ne [OF that] check_semantics_stripped(1) [OF ok that] by blast
  ultimately show ?thesis
    by (auto simp: has_words_def check_name_def is_in_def hd_conv_nth Let_def split: if_splits)
qed

theorem simple_names_witness:
  "\<exists>commands c. parse_for_security (\<lambda>_ _. False) blacklist_new (\<lambda>_. False) (Some (encode_utf16 (u ''sudo ls''))) =
      Simple commands \<and> c \<in> set commands \<and> sc_argv c = [u ''sudo'', u ''ls''] \<and>
    strip_wrappers (sc_argv c) \<noteq> [] \<and>
    (let name = hd (strip_wrappers (sc_argv c)) in
       name \<noteq> [] \<and> \<not> starts_with name (u ''-'') \<and>
       \<not> is_in name (SHELL_KEYWORDS @ EVAL_LIKE_BUILTINS @ ZSH_DANGEROUS_BUILTINS))"
proof -
  have e: "encode_utf16 (u ''sudo ls'') = u ''sudo ls''" by (simp add: encode_utf16_def encode_cp_def)
  have "argvs (parse_for_security (\<lambda>_ _. False) blacklist_new (\<lambda>_. False) (Some (u ''sudo ls''))) =
      Some [[u ''sudo'', u ''ls'']]"
    by (simp add: security_eval parser_eval lexer_eval cong: parser_congs)
  then obtain commands c where c: "parse_for_security (\<lambda>_ _. False) blacklist_new (\<lambda>_. False)
      (Some (encode_utf16 (u ''sudo ls''))) = Simple commands" "c \<in> set commands" "sc_argv c = [u ''sudo'', u ''ls'']"
    unfolding e by (auto simp: argvs_def split: parse_for_security_result.splits)
  have "\<not> java_is_blank (encode_utf16 (u ''sudo ls''))" "list_all valid_cp (u ''sudo ls'')"
    unfolding e by (simp_all add: java_is_blank_def is_java_whitespace_def valid_cp_def)
  from simple_names [OF c(1) this c(2)] have "strip_wrappers (sc_argv c) \<noteq> [] \<and>
    (let name = hd (strip_wrappers (sc_argv c)) in
       name \<noteq> [] \<and> \<not> starts_with name (u ''-'') \<and>
       \<not> is_in name (SHELL_KEYWORDS @ EVAL_LIKE_BUILTINS @ ZSH_DANGEROUS_BUILTINS))"
    by (simp only: c(3) list.distinct if_False simp_thms)
  with c show ?thesis by blast
qed

text \<open>C27. Stripping wrappers returns the end of the argument list, which is not empty, takes off every
  layer it can (stripping again changes nothing) and does not depend on the number of layers.\<close>

theorem strip_wrappers_spec:
  "(\<exists>k. strip_wrappers argv = drop k argv) \<and> (strip_wrappers argv = [] \<longleftrightarrow> argv = []) \<and>
   bare (strip_wrappers argv) \<and> strip_wrappers (strip_wrappers argv) = strip_wrappers argv"
proof -
  have "strip_wrappers argv = [] \<longleftrightarrow> argv = []"
    using strip_wrappers_ne [of argv] by (auto simp: strip_wrappers_run)
  then show ?thesis
    using strip_wrappers_suffix [of argv] strip_wrappers_bare [of argv]
      bare_strip [OF strip_wrappers_bare, of argv] by simp
qed

text \<open>A flag of \<open>sudo\<close> that takes an argument hides the command: after \<open>sudo -u user\<close> the name of
  the user is what the checks see, not the command that runs.\<close>

theorem sudo_user_hides_command:
  assumes "\<not> is_in user WRAPPER_COMMANDS" "\<not> starts_with user (u ''-'')" "\<not> contains_sub user (u ''='')"
    "user \<noteq> u ''command'' \<and> user \<noteq> u ''builtin'' \<and> user \<noteq> u ''env'' \<and> user \<noteq> u ''timeout''"
  shows "strip_wrappers (u ''sudo'' # u ''-u'' # user # command) = user # command"
  using assms
  by (simp add: strip_wrappers_run keep_wrapper_def is_in_def WRAPPER_COMMANDS_def Let_def
      strip_loop_found contains_sub_def)

theorem sudo_user_hides_command_witness:
  "strip_wrappers [u ''sudo'', u ''-u'', u ''root'', u ''eval'', u ''x''] = [u ''root'', u ''eval'', u ''x'']"
  using sudo_user_hides_command [of "u ''root''" "[u ''eval'', u ''x'']"]
  by (simp add: is_in_def WRAPPER_COMMANDS_def contains_sub_def)

text \<open>\<open>env -S\<close>, which splits and runs its argument, is left in place and then accepted as a
  command name, although the comment on the code announces its refusal.\<close>

theorem env_split_string_accepted:
  "strip_wrappers (u ''env'' # u ''-S'' # args) = u ''env'' # u ''-S'' # args \<and>
   check_name (u ''env'') = None"
  by (simp add: strip_wrappers_run keep_wrapper_def check_name_def is_in_def SHELL_KEYWORDS_def
      EVAL_LIKE_BUILTINS_def ZSH_DANGEROUS_BUILTINS_def VAR_PLACEHOLDER_def CMDSUB_PLACEHOLDER_def
      contains_sub_def)

text \<open>The guard on \<open>PS4\<close> and \<open>IFS\<close> sees a single assignment only: two assignments in one command
  are a simple command without words, which no check looks at.\<close>

theorem two_assignments_pass:
  "argvs (parse_for_security (\<lambda>_ _. False) blacklist_new (\<lambda>_. False) (Some (u ''PS4=x''))) = None \<and>
   argvs (parse_for_security (\<lambda>_ _. False) blacklist_new (\<lambda>_. False) (Some (u ''A=1 PS4=x''))) = Some [[]]"
  by (simp add: security_eval parser_eval lexer_eval cong: parser_congs)

text \<open>C22. When the analysis of environment references succeeds, no word of the command other than the
  patterns of its \<open>case\<close> statements runs a command or an indirection, and every variable such a word
  refers to is recorded as a local definition or as an inherited reference; patterns that refer to nothing
  are covered as well. The sensitive references are exactly the inherited references whose name matches the
  rule. A word refers to what the pattern of a reference finds in it, and in a word with a single quote to
  what it finds outside the parts the code takes for single-quoted.\<close>

theorem environment_complete:
  assumes "parse expired c = Some root"
    "ea_status (analyze_environment_references rx caps expired (Some c)) = Success"
    "\<not> java_is_blank c" "length c \<le> MAX_COMMAND_LENGTH"
  shows "let acc = ea_acc (analyze_environment_references rx caps expired (Some c)) in
    (\<forall>w \<in># mset (words_program root) - mset (patterns_program root). covered caps acc w) \<and>
    ((\<forall>w \<in> set (patterns_program root). \<not> is_dynamic w \<and> references caps w = {}) \<longrightarrow>
       list_all (covered caps acc) (words_program root)) \<and>
    sensitive_references acc = {v \<in> inherited_references acc. rx SENSITIVE_ENV_NAME v}"
proof -
  have start: "env_inv rx ({}, empty_acc)" by (simp add: env_inv_def empty_acc_def)
  note step = env_stepD [OF env_soundD [OF env_sound_tree(1) start], of caps root]
  let ?a = "analyze_environment_references rx caps expired (Some c)"
  have a: "ea_acc ?a = snd (snd (analyse_program rx caps root ({}, empty_acc)))"
      "ea_status ?a = fst (analyse_program rx caps root ({}, empty_acc))"
    using assms(1,3,4) by (simp_all add: analyze_environment_references_def Let_def)
  have scanned: "covered caps (ea_acc ?a) w" if "w \<in> set (scanned_program root)" for w
    using step(4) assms(2) a that by simp
  have "set (words_program root) = set (scanned_program root) \<union> set (patterns_program root)"
    using arg_cong [OF words_scanned(1) [of root], of set_mset] by simp
  moreover have "covered caps (ea_acc ?a) w" if "\<not> is_dynamic w \<and> references caps w = {}" for w
    using that by (simp add: covered_def)
  moreover have "sensitive_references (ea_acc ?a) =
     {v \<in> inherited_references (ea_acc ?a). rx SENSITIVE_ENV_NAME v}"
    using step(1) a by (simp add: env_inv_def)
  ultimately show ?thesis
    using scanned by (auto simp: Let_def words_scanned(1) list_all_iff)
qed

definition home_captures :: regex_captures where
  "home_captures p w = (if w = u ''$HOME'' then [u ''HOME''] else [])"

theorem environment_complete_witness:
  "covered home_captures
     (ea_acc (analyze_environment_references (\<lambda>_ _. False) home_captures (\<lambda>_. False) (Some (u ''echo $HOME''))))
     (u ''$HOME'')"
proof -
  let ?c = "u ''echo $HOME''"
  let ?a = "analyze_environment_references (\<lambda>_ _. False) home_captures (\<lambda>_. False) (Some ?c)"
  have "map_option (\<lambda>r. (words_program r, patterns_program r)) (parse (\<lambda>_. False) ?c) =
      Some ([u ''echo'', u ''$HOME''], [])"
    by (simp add: parser_eval lexer_eval cong: parser_congs)
  then obtain root where root: "parse (\<lambda>_. False) ?c = Some root"
      "words_program root = [u ''echo'', u ''$HOME'']" "patterns_program root = []" by auto
  have ok: "ea_status ?a = Success"
    apply (simp add: analyze_environment_references_def environment_eval parser_eval lexer_eval cong: parser_congs)
    done
  have "\<not> java_is_blank ?c" "length ?c \<le> MAX_COMMAND_LENGTH"
    by (simp_all add: java_is_blank_def is_java_whitespace_def MAX_COMMAND_LENGTH_def)
  from environment_complete [OF root(1) ok this] root(2,3) show ?thesis by (simp add: Let_def)
qed

definition secret_captures :: regex_captures where
  "secret_captures p w = (if contains_sub w (u ''$SECRET'') then [u ''SECRET''] else [])"

text \<open>What the property leaves out is left out by the code: the patterns of a \<open>case\<close> play no part in the
  analysis, and an apostrophe between double quotes hides a reference. The command of the second lemma is
  \<open>echo "it's $SECRET isn't"\<close>, which is analysed with success and without any reference.\<close>

lemma case_pattern_not_scanned:
  "analyse_item rx caps (CaseItem ps body) s = analyse_item rx caps (CaseItem [] body) s"
  by simp

lemma apostrophe_hides_reference:
  "analyze_environment_references (\<lambda>_ _. False) secret_captures (\<lambda>_. False)
     (Some (u ''echo '' @ [34] @ u ''it'' @ [39] @ u ''s $SECRET isn'' @ [39] @ u ''t'' @ [34])) =
   \<lparr>ea_acc = empty_acc, ea_status = Success, ea_reason = None\<rparr>"
  by (simp add: analyze_environment_references_def environment_eval secret_captures_def
      remove_single_quoted_segments_def parser_eval lexer_eval cong: parser_congs)

section \<open>The blacklist and here-documents\<close>

text \<open>C28. The level of a command is that of the strictest list with a rule that matches it once trimmed
  and stripped of a path or a \<open>command\<close> prefix: denial before confirmation before audit, built-in and
  custom rules alike.\<close>

theorem blacklist_level:
  "br_level (check_command rx b c) =
     (if rust_trim c = [] then Allowed else verdict rx b (strip_command_prefix (rust_trim c)))"
  by (rule check_command_verdict)

text \<open>C29. Custom rules only tighten: loading a document of rules never lowers the level of a command.\<close>

theorem custom_rules_tighten:
  "severity (br_level (check_command rx b c)) \<le>
     severity (br_level (check_command rx (load_custom_rules compiles doc b) c))"
proof -
  have "set (custom_deny b) \<subseteq> set (custom_deny (load_custom_rules compiles doc b))"
    "set (custom_ask b) \<subseteq> set (custom_ask (load_custom_rules compiles doc b))"
    by (auto simp: load_custom_rules_def split: option.splits prod.splits)
  from verdict_mono [OF this] show ?thesis by (simp add: check_command_verdict)
qed

text \<open>C30. An extracted here-document is one of the command: its delimiter is a word that follows the operator
  and an optional dash, blanks, quote or backslash; its content is the lines between a later newline and the
  first line that is the delimiter, each without a newline; with a dash, lines are compared without their
  leading tabs.\<close>

theorem heredocs_well_formed:
  "list_all (\<lambda>e. wf_heredoc command (snd e)) (heredocs (extract_heredocs rx command))"
  by (auto simp: list_all_iff dest: extract_heredocs_wf)

end
